(* ===== verification/Go_Prelude.thy ===== *)
theory Go_Prelude
  imports
    Main
    "HOL-Library.AList"
    "HOL-Library.Char_ord"
    "HOL-Library.List_Lexorder"
    "HOL-Library.State_Monad"
begin

text \<open>
  The shared prelude: what the executor's Go code uses of the language and of its
  standard library, and the automation the component theories share.

  \<^item> Strings are byte lists (\<^typ>\<open>string\<close>), as in Go: \<open>split_on\<close>, \<open>join_with\<close>,
    \<open>has_prefix\<close>, \<open>trim_prefix\<close>, \<open>has_suffix\<close>, \<open>contains_str\<close> follow \<^verbatim>\<open>strings\<close>.
    Case mapping and white space beyond ASCII rest on Go's Unicode tables; they are
    a parameter (\<open>unicode\<close>) that is consulted for non-ASCII strings only.
  \<^item> \<open>itoa\<close> and \<open>atoi\<close> follow \<^verbatim>\<open>strconv\<close> at the 64-bit width of \<^verbatim>\<open>int\<close>; \<open>wrap64\<close> is the
    wrap-around of 64-bit signed arithmetic.
  \<^item> Instants are integers counting nanoseconds from Go's zero \<^verbatim>\<open>time.Time\<close>, so the zero
    value is \<open>0\<close>; durations are nanoseconds, and \<open>time_sub\<close> saturates as \<^verbatim>\<open>Time.Sub\<close> does.
  \<^item> A Go map is an association list (\<open>gomap\<close>) read and written through the library's
    \<open>map_of\<close>, \<open>AList.update\<close> and \<open>AList.delete\<close>.
  \<^item> Effects are threaded with the state monad of the library; \<open>wp\<close> is its weakest
    precondition, and \<open>for_each\<close> is a Go \<^verbatim>\<open>range\<close> loop whose body never breaks.
\<close>

named_theorems wp_rules \<open>weakest preconditions of the monadic operations\<close>

section \<open>Strings\<close>

fun split_on :: "char \<Rightarrow> string \<Rightarrow> string list" where
  "split_on c [] = [[]]"
| "split_on c (x # xs) =
     (if x = c then [] # split_on c xs
      else (case split_on c xs of [] \<Rightarrow> [[x]] | p # ps \<Rightarrow> (x # p) # ps))"

fun join_with :: "string \<Rightarrow> string list \<Rightarrow> string" where
  "join_with sep [] = []"
| "join_with sep [p] = p"
| "join_with sep (p # q # ps) = p @ sep @ join_with sep (q # ps)"

definition has_prefix :: "string \<Rightarrow> string \<Rightarrow> bool" where
  "has_prefix s p \<longleftrightarrow> take (length p) s = p"

definition trim_prefix :: "string \<Rightarrow> string \<Rightarrow> string" where
  "trim_prefix s p = (if has_prefix s p then drop (length p) s else s)"

definition has_suffix :: "string \<Rightarrow> string \<Rightarrow> bool" where
  "has_suffix s p \<longleftrightarrow> has_prefix (rev s) (rev p)"

fun contains_str :: "string \<Rightarrow> string \<Rightarrow> bool" where
  "contains_str [] p = (p = [])"
| "contains_str (x # xs) p = (has_prefix (x # xs) p \<or> contains_str xs p)"

text \<open>The position of a byte, as \<^verbatim>\<open>strings.Index\<close> finds it.\<close>

fun index_of :: "char \<Rightarrow> string \<Rightarrow> nat option" where
  "index_of c [] = None"
| "index_of c (x # xs) = (if x = c then Some 0 else map_option Suc (index_of c xs))"

lemma has_prefix_simps [simp]:
  "has_prefix s []"
  "\<not> has_prefix [] (p # ps)"
  "has_prefix (x # xs) (p # ps) \<longleftrightarrow> x = p \<and> has_prefix xs ps"
  by (auto simp: has_prefix_def)

lemma has_prefix_append [simp]: "has_prefix (p @ s) p"
  by (simp add: has_prefix_def)

lemma has_prefix_iff: "has_prefix s p \<longleftrightarrow> (\<exists>t. s = p @ t)"
  unfolding has_prefix_def by (metis append_eq_conv_conj append_take_drop_id)

lemma trim_prefix_append [simp]: "trim_prefix (p @ s) p = s"
  by (simp add: trim_prefix_def)

lemma split_on_ne [simp]: "split_on c s \<noteq> []"
  by (cases s) (auto split: list.split)

lemma split_on_no_sep: "c \<notin> set s \<Longrightarrow> split_on c s = [s]"
  by (induction s) auto

lemma split_on_append:
  "c \<notin> set p \<Longrightarrow> split_on c (p @ c # s) = p # split_on c s"
  by (induction p) auto

lemma split_on_join:
  "ps \<noteq> [] \<Longrightarrow> (\<forall>p \<in> set ps. c \<notin> set p) \<Longrightarrow> split_on c (join_with [c] ps) = ps"
  by (induction "[c]" ps rule: join_with.induct) (auto simp: split_on_no_sep split_on_append)

lemma join_split_on: "join_with [c] (split_on c s) = s"
proof (induction s)
  case Nil
  then show ?case by simp
next
  case (Cons x xs)
  obtain p ps where "split_on c xs = p # ps"
    by (meson neq_Nil_conv split_on_ne)
  with Cons show ?case by (cases ps) auto
qed

lemma split_on_sep_free: "p \<in> set (split_on c s) \<Longrightarrow> c \<notin> set p"
  by (induction s arbitrary: p) (auto split: if_splits list.splits)

lemma split_on_eq_iff:
  "split_on c s = ps \<longleftrightarrow> ps \<noteq> [] \<and> (\<forall>p \<in> set ps. c \<notin> set p) \<and> s = join_with [c] ps"
  using join_split_on [of c s] split_on_join [of ps c] split_on_sep_free [of _ c s] split_on_ne [of c s]
  by auto

lemma contains_str_single: "contains_str s [c] \<longleftrightarrow> c \<in> set s"
  by (induction s) (auto simp: has_prefix_def)

section \<open>ASCII and Unicode\<close>

definition is_ascii :: "char \<Rightarrow> bool" where
  "is_ascii c \<longleftrightarrow> of_char c < (128 :: nat)"

definition lower_char :: "char \<Rightarrow> char" where
  "lower_char c =
     (if 65 \<le> (of_char c :: nat) \<and> of_char c \<le> (90 :: nat) then char_of (of_char c + 32 :: nat) else c)"

definition is_ascii_space :: "char \<Rightarrow> bool" where
  "is_ascii_space c \<longleftrightarrow> of_char c \<in> {9, 10, 11, 12, 13, 32 :: nat}"

text \<open>Go's Unicode tables: consulted only for strings with a byte beyond ASCII.\<close>

record unicode =
  u_lower :: "string \<Rightarrow> string"
  u_fold :: "string \<Rightarrow> string \<Rightarrow> bool"
  u_trim :: "string \<Rightarrow> string"

definition to_lower :: "unicode \<Rightarrow> string \<Rightarrow> string" where
  "to_lower U s = (if list_all is_ascii s then map lower_char s else u_lower U s)"

definition equal_fold :: "unicode \<Rightarrow> string \<Rightarrow> string \<Rightarrow> bool" where
  "equal_fold U s t =
     (if list_all is_ascii s \<and> list_all is_ascii t
      then map lower_char s = map lower_char t else u_fold U s t)"

definition trim_space :: "unicode \<Rightarrow> string \<Rightarrow> string" where
  "trim_space U s =
     (if list_all is_ascii s
      then rev (dropWhile is_ascii_space (rev (dropWhile is_ascii_space s)))
      else u_trim U s)"

section \<open>64-bit integers and their decimal form\<close>

definition wrap64 :: "int \<Rightarrow> int" where
  "wrap64 x = (x + 2 ^ 63) mod 2 ^ 64 - 2 ^ 63"

abbreviation max_int64 :: int where "max_int64 \<equiv> 2 ^ 63 - 1"
abbreviation min_int64 :: int where "min_int64 \<equiv> - (2 ^ 63)"

lemma wrap64_id: "min_int64 \<le> x \<Longrightarrow> x \<le> max_int64 \<Longrightarrow> wrap64 x = x"
  unfolding wrap64_def by (subst mod_pos_pos_trivial) auto

definition is_digit :: "char \<Rightarrow> bool" where
  "is_digit c \<longleftrightarrow> 48 \<le> (of_char c :: nat) \<and> of_char c \<le> (57 :: nat)"

definition digit_val :: "char \<Rightarrow> nat" where
  "digit_val c = of_char c - 48"

definition digit_char :: "nat \<Rightarrow> char" where
  "digit_char n = char_of (48 + n)"

fun show_nat :: "nat \<Rightarrow> string" where
  "show_nat n = (if n < 10 then [digit_char n] else show_nat (n div 10) @ [digit_char (n mod 10)])"

declare show_nat.simps [simp del]

definition itoa :: "int \<Rightarrow> string" where
  "itoa n = (if n < 0 then CHR ''-'' # show_nat (nat (- n)) else show_nat (nat n))"

definition read_nat :: "string \<Rightarrow> nat" where
  "read_nat s = foldl (\<lambda>acc c. 10 * acc + digit_val c) 0 s"

text \<open>An optional sign, at least one digit, and a value inside the 64-bit range.\<close>

definition atoi :: "string \<Rightarrow> int option" where
  "atoi s =
     (let (neg, ds) =
        (case s of [] \<Rightarrow> (False, [])
         | c # r \<Rightarrow> if c = CHR ''-'' then (True, r) else if c = CHR ''+'' then (False, r) else (False, s));
        v = (if neg then - int (read_nat ds) else int (read_nat ds))
      in if ds \<noteq> [] \<and> list_all is_digit ds \<and> min_int64 \<le> v \<and> v \<le> max_int64
         then Some v else None)"

lemma of_char_digit_char: "n < 10 \<Longrightarrow> of_char (digit_char n) = 48 + n"
  by (simp add: digit_char_def)

lemma digit_val_char [simp]: "n < 10 \<Longrightarrow> digit_val (digit_char n) = n"
  by (simp add: digit_val_def of_char_digit_char)

lemma is_digit_char [simp]: "n < 10 \<Longrightarrow> is_digit (digit_char n)"
  by (simp add: is_digit_def of_char_digit_char)

lemma show_nat_ne [simp]: "show_nat n \<noteq> []"
  by (subst show_nat.simps) simp

lemma show_nat_digits: "list_all is_digit (show_nat n)"
proof (induction n rule: show_nat.induct)
  case (1 n)
  then show ?case by (subst show_nat.simps) auto
qed

lemma read_show_nat [simp]: "read_nat (show_nat n) = n"
proof (induction n rule: show_nat.induct)
  case (1 n)
  show ?case
  proof (cases "n < 10")
    case True
    then show ?thesis by (subst show_nat.simps) (simp add: read_nat_def)
  next
    case False
    with 1 have "read_nat (show_nat (n div 10)) = n div 10" by simp
    with False show ?thesis by (subst show_nat.simps) (simp add: read_nat_def)
  qed
qed

lemma not_digit_sign: "\<not> is_digit (CHR ''-'')" "\<not> is_digit (CHR ''+'')" "\<not> is_digit (CHR ''/'')"
  by (simp_all add: is_digit_def)

lemma show_nat_hd: "show_nat n = c # r \<Longrightarrow> c \<noteq> CHR ''-'' \<and> c \<noteq> CHR ''+''"
  using show_nat_digits [of n] not_digit_sign by auto

lemma atoi_itoa:
  assumes "min_int64 \<le> n" "n \<le> max_int64"
  shows "atoi (itoa n) = Some n"
proof (cases "n < 0")
  case True
  with assms show ?thesis by (simp add: atoi_def itoa_def show_nat_digits)
next
  case False
  obtain c r where cr: "show_nat (nat n) = c # r"
    by (meson neq_Nil_conv show_nat_ne)
  from show_nat_hd [OF cr] False assms show ?thesis
    using show_nat_digits [of "nat n"] read_show_nat [of "nat n"]
    by (simp add: atoi_def itoa_def cr)
qed

lemma itoa_no_slash: "CHR ''/'' \<notin> set (itoa n)"
  using show_nat_digits [of "nat n"] show_nat_digits [of "nat (- n)"] not_digit_sign(3)
  by (auto simp: itoa_def list_all_iff)

lemma itoa_inj: "itoa m = itoa n \<Longrightarrow> min_int64 \<le> m \<Longrightarrow> m \<le> max_int64 \<Longrightarrow> min_int64 \<le> n \<Longrightarrow> n \<le> max_int64 \<Longrightarrow> m = n"
  by (metis atoi_itoa option.inject)

section \<open>Instants and durations\<close>

type_synonym go_time = int
type_synonym duration = int

definition second :: duration where "second = 1000000000"
definition minute :: duration where "minute = 60 * second"
definition hour :: duration where "hour = 60 * minute"

definition is_zero :: "go_time \<Rightarrow> bool" where
  "is_zero t \<longleftrightarrow> t = 0"

definition time_sub :: "go_time \<Rightarrow> go_time \<Rightarrow> duration" where
  "time_sub a b = max min_int64 (min max_int64 (a - b))"

text \<open>The offset of the Unix epoch from Go's zero instant, in seconds.\<close>

definition unix_epoch :: int where "unix_epoch = 62135596800"

text \<open>\<^verbatim>\<open>Time.Unix\<close> and \<^verbatim>\<open>time.Unix\<close>: the second count is a 64-bit integer on both sides.\<close>

definition time_unix :: "go_time \<Rightarrow> int" where
  "time_unix t = wrap64 (t div second - unix_epoch)"

definition unix_time :: "int \<Rightarrow> go_time" where
  "unix_time u = wrap64 (u + unix_epoch) * second"

lemma time_unix_unix_time:
  assumes "min_int64 \<le> u" "u \<le> max_int64"
  shows "time_unix (unix_time u) = u"
proof -
  have "(wrap64 (u + unix_epoch) - unix_epoch + 2 ^ 63) mod 2 ^ 64 = (u + 2 ^ 63) mod 2 ^ 64"
    unfolding wrap64_def by (simp add: algebra_simps mod_diff_left_eq mod_add_left_eq mod_diff_eq)
  then have "wrap64 (wrap64 (u + unix_epoch) - unix_epoch) = wrap64 u"
    by (simp add: wrap64_def)
  then show ?thesis
    using assms wrap64_id by (simp add: time_unix_def unix_time_def second_def)
qed

lemma time_sub_ge:
  "d \<le> max_int64 \<Longrightarrow> min_int64 < d \<Longrightarrow> d \<le> time_sub a b \<longleftrightarrow> d \<le> a - b"
  by (auto simp: time_sub_def)

section \<open>Maps\<close>

type_synonym ('k, 'v) gomap = "('k \<times> 'v) list"

abbreviation gomap_keys :: "('k, 'v) gomap \<Rightarrow> 'k list" where
  "gomap_keys m \<equiv> map fst m"

definition gomap_wf :: "('k, 'v) gomap \<Rightarrow> bool" where
  "gomap_wf m \<longleftrightarrow> distinct (gomap_keys m)"

lemma gomap_wf_nil [simp]: "gomap_wf []"
  by (simp add: gomap_wf_def)

lemma gomap_wf_update [simp]: "gomap_wf m \<Longrightarrow> gomap_wf (AList.update k v m)"
  by (simp add: gomap_wf_def distinct_update)

lemma gomap_wf_delete [simp]: "gomap_wf m \<Longrightarrow> gomap_wf (AList.delete k m)"
  by (simp add: gomap_wf_def AList.distinct_delete)

lemma gomap_wf_map_entry [simp]: "gomap_wf m \<Longrightarrow> gomap_wf (AList.map_entry k f m)"
  by (simp add: gomap_wf_def distinct_map_entry)

lemma map_of_entry_Some:
  "map_of (AList.map_entry k f m) j = Some v \<longleftrightarrow>
     (if j = k then \<exists>u. map_of m k = Some u \<and> v = f u else map_of m j = Some v)"
  by (auto simp: map_of_map_entry split: option.splits)

lemma map_of_entry_at: "map_of m k = Some u \<Longrightarrow> map_of (AList.map_entry k f m) k = Some (f u)"
  by (simp add: map_of_entry_Some)

lemma map_entry_cong:
  "gomap_wf m \<Longrightarrow> map_of m k = Some u \<Longrightarrow> f u = g u \<Longrightarrow> AList.map_entry k f m = AList.map_entry k g m"
  by (induction m) (auto simp: gomap_wf_def)

lemma map_entry_idle:
  "gomap_wf m \<Longrightarrow> map_of m k = Some u \<Longrightarrow> f u = u \<Longrightarrow> m = AList.map_entry k f m"
  by (induction m) (auto simp: gomap_wf_def)

lemma map_of_delete_Some: "map_of (AList.delete k m) j = Some v \<longleftrightarrow> j \<noteq> k \<and> map_of m j = Some v"
  by (simp add: AList.delete_conv)

lemma gomap_mem_iff: "gomap_wf m \<Longrightarrow> (k, v) \<in> set m \<longleftrightarrow> map_of m k = Some v"
  by (simp add: gomap_wf_def)

section \<open>The state monad\<close>

definition gets :: "('s \<Rightarrow> 'a) \<Rightarrow> ('s, 'a) state" where
  "gets f = State (\<lambda>s. (f s, s))"

definition modify :: "('s \<Rightarrow> 's) \<Rightarrow> ('s, unit) state" where
  "modify f = State (\<lambda>s. ((), f s))"

fun for_each :: "'a list \<Rightarrow> ('a \<Rightarrow> ('s, unit) state) \<Rightarrow> ('s, unit) state" where
  "for_each [] f = State_Monad.return ()"
| "for_each (x # xs) f = do { f x; for_each xs f }"

definition wp :: "('s, 'a) state \<Rightarrow> ('a \<Rightarrow> 's \<Rightarrow> bool) \<Rightarrow> 's \<Rightarrow> bool" where
  "wp m Q s = (case run_state m s of (a, s') \<Rightarrow> Q a s')"

lemma run_state_gets [simp]: "run_state (gets f) s = (f s, s)"
  by (simp add: gets_def)

lemma run_state_modify [simp]: "run_state (modify f) s = ((), f s)"
  by (simp add: modify_def)

lemma wp_return [wp_rules]: "wp (State_Monad.return a) Q s = Q a s"
  by (simp add: wp_def)

text \<open>
  Keeps the simplifier out of the continuation of a step until the step has been evaluated; for running
  the model on a concrete state.
\<close>

lemma bind_weak_cong: "m = m' \<Longrightarrow> State_Monad.bind m f = State_Monad.bind m' f"
  by simp

lemma wp_bind [wp_rules]: "wp (State_Monad.bind m f) Q s = wp m (\<lambda>a. wp (f a) Q) s"
  by (simp add: wp_def split: prod.split)

lemma wp_gets [wp_rules]: "wp (gets f) Q s = Q (f s) s"
  by (simp add: wp_def)

lemma wp_modify [wp_rules]: "wp (modify f) Q s = Q () (f s)"
  by (simp add: wp_def)

lemma wp_if [wp_rules]:
  "wp (if b then m else n) Q s = ((b \<longrightarrow> wp m Q s) \<and> (\<not> b \<longrightarrow> wp n Q s))"
  by simp

lemma wp_option [wp_rules]:
  "wp (case x of None \<Rightarrow> m | Some a \<Rightarrow> f a) Q s =
     ((x = None \<longrightarrow> wp m Q s) \<and> (\<forall>a. x = Some a \<longrightarrow> wp (f a) Q s))"
  by (cases x) auto

lemma wp_sum [wp_rules]:
  "wp (case x of Inl a \<Rightarrow> f a | Inr b \<Rightarrow> g b) Q s =
     ((\<forall>a. x = Inl a \<longrightarrow> wp (f a) Q s) \<and> (\<forall>b. x = Inr b \<longrightarrow> wp (g b) Q s))"
  by (cases x) auto

lemma wp_prod [wp_rules]:
  "wp (case x of (a, b) \<Rightarrow> f a b) Q s = (\<forall>a b. x = (a, b) \<longrightarrow> wp (f a b) Q s)"
  by (cases x) auto

lemma wp_mono: "wp m P s \<Longrightarrow> (\<And>a s'. P a s' \<Longrightarrow> Q a s') \<Longrightarrow> wp m Q s"
  by (auto simp: wp_def split: prod.splits)

lemma wp_conj: "wp m P s \<Longrightarrow> wp m Q s \<Longrightarrow> wp m (\<lambda>a s'. P a s' \<and> Q a s') s"
  by (auto simp: wp_def split: prod.splits)

lemma wpD: "wp m Q s \<Longrightarrow> run_state m s = (a, s') \<Longrightarrow> Q a s'"
  by (simp add: wp_def)

lemma wpI: "(\<And>a s'. run_state m s = (a, s') \<Longrightarrow> Q a s') \<Longrightarrow> wp m Q s"
  by (auto simp: wp_def split: prod.splits)

lemma wp_for_each_all:
  assumes "I s"
    and "\<And>x s. x \<in> set xs \<Longrightarrow> I s \<Longrightarrow> wp (f x) (\<lambda>_ s'. I s' \<and> P x s') s"
    and "\<And>x y s. x \<in> set xs \<Longrightarrow> I s \<Longrightarrow> P y s \<Longrightarrow> wp (f x) (\<lambda>_. P y) s"
  shows "wp (for_each xs f) (\<lambda>_ s'. I s' \<and> (\<forall>x \<in> set xs. P x s')) s"
proof -
  have "wp (for_each ys f) (\<lambda>_ s'. I s' \<and> (\<forall>x \<in> D \<union> set ys. P x s')) s"
    if "set ys \<subseteq> set xs" "I s" "\<forall>x \<in> D. P x s" for D ys s
    using that
  proof (induction ys arbitrary: D s)
    case Nil
    then show ?case by (simp add: wp_return)
  next
    case (Cons y ys)
    obtain a s' where run: "run_state (f y) s = (a, s')" by (rule prod.exhaust)
    have "I s' \<and> P y s'" using assms(2) [of y s] Cons.prems run by (simp add: wp_def)
    moreover have "P x s'" if "x \<in> D" for x using assms(3) [of y s x] Cons.prems run that by (simp add: wp_def)
    ultimately have "wp (for_each ys f) (\<lambda>_ s'. I s' \<and> (\<forall>x \<in> insert y D \<union> set ys. P x s')) s'"
      using Cons.prems(1) by (intro Cons.IH) auto
    then have "wp (f y) (\<lambda>_. wp (for_each ys f) (\<lambda>_ s'. I s' \<and> (\<forall>x \<in> insert y D \<union> set ys. P x s'))) s"
      unfolding wp_def [of "f y"] by (simp add: run)
    then show ?case by (simp add: wp_bind)
  qed
  from this [of xs s "{}"] assms(1) show ?thesis by simp
qed

lemma wp_for_each:
  assumes "I s" and "\<And>x s. x \<in> set xs \<Longrightarrow> I s \<Longrightarrow> wp (f x) (\<lambda>_. I) s"
  shows "wp (for_each xs f) (\<lambda>_. I) s"
  using assms
proof (induction xs arbitrary: s)
  case Nil
  then show ?case by (simp add: wp_rules)
next
  case (Cons x xs)
  from Cons.prems have "wp (f x) (\<lambda>_. I) s" by simp
  then have "wp (f x) (\<lambda>a. wp (for_each xs f) (\<lambda>_. I)) s"
    by (rule wp_mono) (use Cons in auto)
  then show ?case by (simp add: wp_rules)
qed

end
