(* ===== verification/Claim_Key.thy ===== *)
theory Claim_Key
  imports Go_Prelude
begin

text \<open>
  Claim keys (\<^verbatim>\<open>pkg/claim/key.go\<close>) and the typed claim targets of
  \<^verbatim>\<open>pkg/claim/vault_api_client.go\<close>: deriving the key a task claims, validating its
  components, and the translation between keys and targets. The lemmas show that every
  derived key is well formed, that two derivations agree only when they name the same
  task, repository or pull request, and that keys and targets convert into each other
  without loss.
\<close>

section \<open>Errors of the claim package\<close>

text \<open>
  \<open>errors.Wrapf\<close> keeps the wrapped sentinel visible to \<open>errors.Is\<close>, which is all the code
  tests, so an error is represented by the sentinel at its root.
\<close>

datatype claim_error =
    ErrLeaseConflict
  | ErrRefNotFound
  | ErrSchemeMismatch
  | ErrClaimHeld
  | ErrClaimFree
  | ErrLeaseLost
  | ErrClaimTargetInvalid
  | ErrLeaseNotExpired
  | InvalidComponent string
  | OtherError string

type_synonym 'a result = "claim_error + 'a"

section \<open>Component validation\<close>

definition isSafeClaimRune :: "char \<Rightarrow> bool" where
  "isSafeClaimRune r \<longleftrightarrow>
     (let n = of_char r :: nat in
      (65 \<le> n \<and> n \<le> 90) \<or> (97 \<le> n \<and> n \<le> 122) \<or> (48 \<le> n \<and> n \<le> 57) \<or>
      r = CHR ''.'' \<or> r = CHR ''_'' \<or> r = CHR ''-'')"

definition validateClaimComponent :: "string \<Rightarrow> string \<Rightarrow> claim_error option" where
  "validateClaimComponent name v =
     (if v = '''' then Some (InvalidComponent name)
      else if contains_str v ''/'' then Some (InvalidComponent name)
      else if contains_str v ''..'' then Some (InvalidComponent name)
      else if has_prefix v ''.'' then Some (InvalidComponent name)
      else if has_suffix v ''.lock'' then Some (InvalidComponent name)
      else if \<not> list_all isSafeClaimRune v then Some (InvalidComponent name)
      else None)"

section \<open>Claim targets\<close>

record ClaimTarget =
  TaskID :: string
  Owner :: string
  Repo :: string
  Number :: string

definition noTarget :: ClaimTarget where
  "noTarget = \<lparr>TaskID = '''', Owner = '''', Repo = '''', Number = ''''\<rparr>"

definition NewTaskClaim :: "string \<Rightarrow> ClaimTarget" where
  "NewTaskClaim taskID = noTarget\<lparr>TaskID := taskID\<rparr>"

definition NewRepoClaim :: "string \<Rightarrow> string \<Rightarrow> ClaimTarget" where
  "NewRepoClaim owner repo = noTarget\<lparr>Owner := owner, Repo := repo\<rparr>"

definition NewPRClaim :: "string \<Rightarrow> string \<Rightarrow> string \<Rightarrow> ClaimTarget" where
  "NewPRClaim owner repo number = noTarget\<lparr>Owner := owner, Repo := repo, Number := number\<rparr>"

definition isRepo :: "ClaimTarget \<Rightarrow> bool" where
  "isRepo t \<longleftrightarrow> Owner t \<noteq> '''' \<or> Repo t \<noteq> ''''"

definition isPR :: "ClaimTarget \<Rightarrow> bool" where
  "isPR t \<longleftrightarrow> Number t \<noteq> ''''"

definition isAmbiguous :: "ClaimTarget \<Rightarrow> bool" where
  "isAmbiguous t \<longleftrightarrow> TaskID t \<noteq> '''' \<and> (isRepo t \<or> isPR t)"

definition validPRNumber :: "string \<Rightarrow> bool" where
  "validPRNumber number \<longleftrightarrow> number \<noteq> '''' \<and> list_all is_digit number"

section \<open>Deriving keys\<close>

definition repoKeyedTaskTypes :: "string list" where
  "repoKeyedTaskTypes = [''update-go'', ''release'', ''build-fix'']"

definition DeriveClaimKey ::
  "unicode \<Rightarrow> string \<Rightarrow> string \<Rightarrow> string \<Rightarrow> string \<Rightarrow> string result" where
  "DeriveClaimKey U taskType taskID owner repo =
     (if taskType \<in> set repoKeyedTaskTypes then
        (let owner = to_lower U owner; repo = to_lower U repo in
         case validateClaimComponent ''owner'' owner of Some e \<Rightarrow> Inl e | None \<Rightarrow>
         (case validateClaimComponent ''repo'' repo of Some e \<Rightarrow> Inl e | None \<Rightarrow>
          Inr (''claims/repo/'' @ owner @ ''/'' @ repo)))
      else
        (case validateClaimComponent ''task id'' taskID of Some e \<Rightarrow> Inl e | None \<Rightarrow>
         Inr (''claims/task/'' @ taskID)))"

definition pullRequestNumberFromLine :: "unicode \<Rightarrow> string \<Rightarrow> string \<Rightarrow> string \<Rightarrow> string option" where
  "pullRequestNumberFromLine U owner repo line =
     (if \<not> has_prefix line ''https://github.com/'' then None
      else (case split_on (CHR ''/'') (trim_prefix line ''https://github.com/'') of
          [o', r', p', raw] \<Rightarrow>
            (if p' \<noteq> ''pull'' then None
             else if \<not> equal_fold U o' owner \<or> \<not> equal_fold U r' repo then None
             else if length raw < 1 \<or> length raw > 10 then None
             else if \<not> list_all is_digit raw then None
             else (case atoi raw of
                 None \<Rightarrow> None
               | Some v \<Rightarrow> if v < 1 then None else Some (itoa v)))
        | _ \<Rightarrow> None))"

fun firstPullRequestNumber :: "unicode \<Rightarrow> string \<Rightarrow> string \<Rightarrow> string list \<Rightarrow> string option" where
  "firstPullRequestNumber U owner repo [] = None"
| "firstPullRequestNumber U owner repo (line # ls) =
     (case pullRequestNumberFromLine U owner repo (trim_space U line) of
        Some n \<Rightarrow> Some n
      | None \<Rightarrow> firstPullRequestNumber U owner repo ls)"

definition pullRequestNumberFromBody :: "unicode \<Rightarrow> string \<Rightarrow> string \<Rightarrow> string \<Rightarrow> string option" where
  "pullRequestNumberFromBody U owner repo body =
     (if owner = '''' \<or> repo = '''' then None
      else firstPullRequestNumber U owner repo (split_on (CHR 0x0A) body))"

text \<open>
  The result is the primary key, the secondary key (always empty) and whether a
  pull-request review fell back to its task id. The Go function returns the pair
  \<open>primary, err\<close> of the inner derivation unchanged, so a failure has no key.
\<close>

definition DeriveClaimKeysWithBody ::
  "unicode \<Rightarrow> string \<Rightarrow> string \<Rightarrow> string \<Rightarrow> string \<Rightarrow> string \<Rightarrow> (string \<times> string \<times> bool) result" where
  "DeriveClaimKeysWithBody U taskType taskID owner repo body =
     (if taskType \<noteq> ''pr-review'' then
        (case DeriveClaimKey U taskType taskID owner repo of
           Inl e \<Rightarrow> Inl e | Inr primary \<Rightarrow> Inr (primary, '''', False))
      else
        (let owner = to_lower U owner; repo = to_lower U repo in
         case pullRequestNumberFromBody U owner repo body of
           Some number \<Rightarrow>
             (case validateClaimComponent ''owner'' owner of Some e \<Rightarrow> Inl e | None \<Rightarrow>
             (case validateClaimComponent ''repo'' repo of Some e \<Rightarrow> Inl e | None \<Rightarrow>
             (case validateClaimComponent ''pull request number'' number of Some e \<Rightarrow> Inl e | None \<Rightarrow>
              Inr (''claims/pr/'' @ owner @ ''/'' @ repo @ ''/'' @ number, '''', False))))
         | None \<Rightarrow>
             (case DeriveClaimKey U taskType taskID owner repo of
                Inl e \<Rightarrow> Inl e | Inr primary \<Rightarrow> Inr (primary, '''', True))))"

section \<open>Keys and targets\<close>

definition TargetFromKey :: "string \<Rightarrow> ClaimTarget option" where
  "TargetFromKey key =
     (if has_prefix key ''claims/task/'' then
        (let id = trim_prefix key ''claims/task/'' in
         if id = '''' then None else Some (NewTaskClaim id))
      else if has_prefix key ''claims/repo/'' then
        (case split_on (CHR ''/'') (trim_prefix key ''claims/repo/'') of
           [o', r'] \<Rightarrow> if o' = '''' \<or> r' = '''' then None else Some (NewRepoClaim o' r')
         | _ \<Rightarrow> None)
      else if has_prefix key ''claims/pr/'' then
        (case split_on (CHR ''/'') (trim_prefix key ''claims/pr/'') of
           [o', r', n'] \<Rightarrow>
             if o' = '''' \<or> r' = '''' \<or> n' = '''' then None else Some (NewPRClaim o' r' n')
         | _ \<Rightarrow> None)
      else None)"

definition KeyFor :: "ClaimTarget \<Rightarrow> string option" where
  "KeyFor target =
     (if isAmbiguous target then None
      else if TaskID target \<noteq> '''' then Some (''claims/task/'' @ TaskID target)
      else if isPR target \<and>
        (Owner target = '''' \<or> Repo target = '''' \<or> \<not> validPRNumber (Number target)) then None
      else if Owner target \<noteq> '''' \<and> Repo target \<noteq> '''' then
        (if isPR target
         then Some (''claims/pr/'' @ Owner target @ ''/'' @ Repo target @ ''/'' @ Number target)
         else Some (''claims/repo/'' @ Owner target @ ''/'' @ Repo target))
      else None)"

section \<open>Facts about components\<close>

text \<open>The characters a validated component may hold never include the separator.\<close>

definition valid_component :: "string \<Rightarrow> bool" where
  "valid_component v \<longleftrightarrow> validateClaimComponent '''' v = None"

lemma validate_iff: "validateClaimComponent name v = None \<longleftrightarrow> valid_component v"
  by (simp add: valid_component_def validateClaimComponent_def)

lemma validate_Some_iff: "validateClaimComponent name v = Some e \<longleftrightarrow> \<not> valid_component v \<and> e = InvalidComponent name"
  by (auto simp: valid_component_def validateClaimComponent_def)

lemma valid_component_no_slash: "valid_component v \<Longrightarrow> CHR ''/'' \<notin> set v"
  by (auto simp: valid_component_def validateClaimComponent_def contains_str_single split: if_splits)

lemma valid_component_ne: "valid_component v \<Longrightarrow> v \<noteq> ''''"
  by (auto simp: valid_component_def validateClaimComponent_def)

lemma digits_safe: "is_digit c \<Longrightarrow> isSafeClaimRune c"
  by (simp add: is_digit_def isSafeClaimRune_def Let_def)

section \<open>What a key addresses\<close>

text \<open>
  The abstract counterpart of a key: the object a claim is taken on. \<open>subject_of\<close> says
  which object a task claims, without the encoding of keys, and \<open>render\<close> is the encoding.
\<close>

datatype subject = TaskSubject string | RepoSubject string string | PRSubject string string string

fun render :: "subject \<Rightarrow> string" where
  "render (TaskSubject i) = ''claims/task/'' @ i"
| "render (RepoSubject ow re) = ''claims/repo/'' @ ow @ ''/'' @ re"
| "render (PRSubject ow re n) = ''claims/pr/'' @ ow @ ''/'' @ re @ ''/'' @ n"

fun valid_subject :: "subject \<Rightarrow> bool" where
  "valid_subject (TaskSubject i) = valid_component i"
| "valid_subject (RepoSubject ow re) = (valid_component ow \<and> valid_component re)"
| "valid_subject (PRSubject ow re n) = (valid_component ow \<and> valid_component re \<and> validPRNumber n)"

fun target_of :: "subject \<Rightarrow> ClaimTarget" where
  "target_of (TaskSubject i) = NewTaskClaim i"
| "target_of (RepoSubject ow re) = NewRepoClaim ow re"
| "target_of (PRSubject ow re n) = NewPRClaim ow re n"

text \<open>
  The first line of the body that is a pull-request URL of the repository decides the number. The
  shape of such a line is stated here without the parser of the code: host, owner, repository, the
  word \<open>pull\<close> and one to ten digits of a positive number, and nothing else.
\<close>

definition is_pr_url :: "unicode \<Rightarrow> string \<Rightarrow> string \<Rightarrow> string \<Rightarrow> bool" where
  "is_pr_url U ow re l \<longleftrightarrow> ow \<noteq> '''' \<and> re \<noteq> '''' \<and>
     (\<exists>o' r' ds. l = ''https://github.com/'' @ o' @ ''/'' @ r' @ ''/pull/'' @ ds \<and>
        CHR ''/'' \<notin> set o' \<and> CHR ''/'' \<notin> set r' \<and> equal_fold U o' ow \<and> equal_fold U r' re \<and>
        ds \<noteq> '''' \<and> length ds \<le> 10 \<and> (\<forall>d \<in> set ds. is_digit d) \<and> 0 < read_nat ds)"

definition url_number :: "string \<Rightarrow> nat" where
  "url_number l = read_nat (rev (takeWhile (\<lambda>c. c \<noteq> CHR ''/'') (rev l)))"

definition subject_of :: "unicode \<Rightarrow> string \<Rightarrow> string \<Rightarrow> string \<Rightarrow> string \<Rightarrow> string \<Rightarrow> subject" where
  "subject_of U taskType taskID owner repo body =
     (let ow = to_lower U owner; re = to_lower U repo in
      if taskType \<in> {''update-go'', ''release'', ''build-fix''} then RepoSubject ow re
      else if taskType = ''pr-review'' then
        (case filter (is_pr_url U ow re) (map (trim_space U) (split_on (CHR 0x0A) body)) of
           [] \<Rightarrow> TaskSubject taskID
         | l # _ \<Rightarrow> PRSubject ow re (show_nat (url_number l)))
      else TaskSubject taskID)"

lemmas target_defs = noTarget_def NewTaskClaim_def NewRepoClaim_def NewPRClaim_def

lemma validPRNumber_no_slash: "validPRNumber n \<Longrightarrow> CHR ''/'' \<notin> set n"
  using not_digit_sign(3) by (auto simp: validPRNumber_def list_all_iff)

lemma split_two:
  "CHR ''/'' \<notin> set a \<Longrightarrow> CHR ''/'' \<notin> set b \<Longrightarrow> split_on (CHR ''/'') (a @ CHR ''/'' # b) = [a, b]"
  by (simp add: split_on_append split_on_no_sep)

lemma split_three:
  "CHR ''/'' \<notin> set a \<Longrightarrow> CHR ''/'' \<notin> set b \<Longrightarrow> CHR ''/'' \<notin> set c \<Longrightarrow>
   split_on (CHR ''/'') (a @ CHR ''/'' # b @ CHR ''/'' # c) = [a, b, c]"
  by (simp add: split_on_append split_on_no_sep)

lemma TargetFromKey_render:
  assumes "valid_subject s"
  shows "TargetFromKey (render s) = Some (target_of s)"
proof (cases s)
  case (TaskSubject i)
  with assms show ?thesis
    by (auto simp: TargetFromKey_def has_prefix_def trim_prefix_def dest: valid_component_ne)
next
  case (RepoSubject ow re)
  with assms have "CHR ''/'' \<notin> set ow" "CHR ''/'' \<notin> set re" "ow \<noteq> []" "re \<noteq> []"
    by (auto dest: valid_component_no_slash valid_component_ne)
  with RepoSubject show ?thesis
    by (simp add: TargetFromKey_def has_prefix_def trim_prefix_def split_two)
next
  case (PRSubject ow re n)
  with assms have v: "valid_component ow" "valid_component re" "validPRNumber n" by auto
  then have "n \<noteq> []" by (simp add: validPRNumber_def)
  moreover have "CHR ''/'' \<notin> set ow" "CHR ''/'' \<notin> set re" "CHR ''/'' \<notin> set n" "ow \<noteq> []" "re \<noteq> []"
    using v by (auto dest: valid_component_no_slash valid_component_ne validPRNumber_no_slash)
  ultimately show ?thesis using PRSubject
    by (simp add: TargetFromKey_def has_prefix_def trim_prefix_def split_three)
qed

lemma KeyFor_target_of: "valid_subject s \<Longrightarrow> KeyFor (target_of s) = Some (render s)"
  by (cases s)
    (auto simp: KeyFor_def target_defs isAmbiguous_def isRepo_def isPR_def validPRNumber_def
      dest: valid_component_ne)

lemma target_of_inj: "valid_subject s \<Longrightarrow> valid_subject t \<Longrightarrow> target_of s = target_of t \<Longrightarrow> s = t"
  by (cases s; cases t) (auto simp: target_defs validPRNumber_def dest: valid_component_ne)

lemma render_inj:
  assumes "valid_subject s" "valid_subject t" "render s = render t"
  shows "s = t"
  using assms TargetFromKey_render [of s] TargetFromKey_render [of t] target_of_inj [of s t] by simp

text \<open>Parsing a key loses nothing: the key is determined by the target it parses to.\<close>

definition rawKey :: "ClaimTarget \<Rightarrow> string" where
  "rawKey t =
     (if TaskID t \<noteq> '''' then ''claims/task/'' @ TaskID t
      else if Number t \<noteq> '''' then ''claims/pr/'' @ Owner t @ ''/'' @ Repo t @ ''/'' @ Number t
      else ''claims/repo/'' @ Owner t @ ''/'' @ Repo t)"

lemma TargetFromKey_rawKey:
  assumes "TargetFromKey k = Some t"
  shows "k = rawKey t \<and> t \<noteq> noTarget"
proof -
  consider (task) id where "k = ''claims/task/'' @ id" "id \<noteq> ''''" "t = NewTaskClaim id"
    | (repo) r o' r' where "k = ''claims/repo/'' @ r" "split_on (CHR ''/'') r = [o', r']" "o' \<noteq> ''''" "r' \<noteq> ''''"
        "t = NewRepoClaim o' r'"
    | (pr) r o' r' n' where "k = ''claims/pr/'' @ r" "split_on (CHR ''/'') r = [o', r', n']" "o' \<noteq> ''''" "r' \<noteq> ''''"
        "n' \<noteq> ''''" "t = NewPRClaim o' r' n'"
    using assms unfolding TargetFromKey_def
    by (fastforce simp: has_prefix_iff Let_def trim_prefix_def split: if_splits list.splits)
  then show ?thesis
    by cases (auto simp: rawKey_def target_defs split_on_eq_iff)
qed

lemma TargetFromKey_inj: "TargetFromKey k = Some t \<Longrightarrow> TargetFromKey k' = Some t \<Longrightarrow> k = k'"
  using TargetFromKey_rawKey by metis

section \<open>Pull-request numbers\<close>

lemma atoi_digits:
  assumes "list_all is_digit ds" "ds \<noteq> []"
  shows "atoi ds = (if int (read_nat ds) \<le> max_int64 then Some (int (read_nat ds)) else None)"
proof -
  obtain c r where "ds = c # r" using assms(2) by (meson neq_Nil_conv)
  with assms not_digit_sign show ?thesis by (auto simp: atoi_def)
qed

lemma itoa_digits: "0 \<le> v \<Longrightarrow> list_all is_digit (itoa v) \<and> itoa v \<noteq> []"
  by (simp add: itoa_def show_nat_digits)

lemma pullRequestNumber_canonical:
  assumes "pullRequestNumberFromLine U owner repo line = Some n"
  shows "\<exists>v. 1 \<le> v \<and> v \<le> max_int64 \<and> n = itoa v \<and> validPRNumber n"
proof -
  obtain raw v where "atoi raw = Some v" "\<not> v < 1" "n = itoa v"
    using assms by (auto simp: pullRequestNumberFromLine_def split: if_splits list.splits option.splits)
  moreover from this have "v \<le> max_int64"
    by (auto simp: atoi_def Let_def split: if_splits prod.splits)
  ultimately show ?thesis
    using itoa_digits [of v] by (intro exI [of _ v]) (auto simp: validPRNumber_def)
qed

lemma firstPullRequestNumber_line:
  "firstPullRequestNumber U owner repo ls = Some n \<Longrightarrow>
   \<exists>l \<in> set ls. pullRequestNumberFromLine U owner repo (trim_space U l) = Some n"
  by (induction ls) (auto split: option.splits)

lemma pullRequestNumberFromBody_valid:
  assumes "pullRequestNumberFromBody U owner repo body = Some n"
  shows "validPRNumber n"
proof -
  have "firstPullRequestNumber U owner repo (split_on (CHR 0x0A) body) = Some n"
    using assms by (simp add: pullRequestNumberFromBody_def split: if_splits)
  from firstPullRequestNumber_line [OF this] show ?thesis
    using pullRequestNumber_canonical by blast
qed

lemma read_nat_bound: "\<forall>d \<in> set ds. is_digit d \<Longrightarrow> read_nat ds < 10 ^ length ds"
proof (induction ds rule: rev_induct)
  case (snoc d ds)
  then have "read_nat ds < 10 ^ length ds" "digit_val d \<le> 9" by (auto simp: is_digit_def digit_val_def)
  then show ?case by (simp add: read_nat_def)
qed (simp add: read_nat_def)

lemma atoi_short_digits:
  assumes "\<forall>d \<in> set ds. is_digit d" "ds \<noteq> []" "length ds \<le> 10"
  shows "atoi ds = Some (int (read_nat ds))"
proof -
  have "read_nat ds < 10 ^ length ds" using assms(1) by (rule read_nat_bound)
  also have "(10::nat) ^ length ds \<le> 10 ^ 10" using assms(3) by (rule power_increasing) simp
  finally have "int (read_nat ds) \<le> max_int64" by simp
  with assms show ?thesis by (simp add: atoi_digits list_all_iff)
qed

lemma url_number_tail: "CHR ''/'' \<notin> set ds \<Longrightarrow> url_number (p @ ''/'' @ ds) = read_nat ds"
  by (simp add: url_number_def takeWhile_append)

lemma digits_no_slash: "\<forall>d \<in> set ds. is_digit d \<Longrightarrow> CHR ''/'' \<notin> set ds"
  using not_digit_sign(3) by auto

text \<open>The parser of the code accepts exactly the lines of that shape, with their number.\<close>

lemma pullRequestNumberFromLine_shape:
  assumes "is_pr_url U ow re l"
  shows "pullRequestNumberFromLine U ow re l = Some (show_nat (url_number l))"
proof -
  from assms obtain o' r' ds where l: "l = ''https://github.com/'' @ o' @ ''/'' @ r' @ ''/pull/'' @ ds"
    and sl: "CHR ''/'' \<notin> set o'" "CHR ''/'' \<notin> set r'" and eq: "equal_fold U o' ow" "equal_fold U r' re"
    and ds: "ds \<noteq> ''''" "length ds \<le> 10" "\<forall>d \<in> set ds. is_digit d" "0 < read_nat ds"
    unfolding is_pr_url_def by blast
  have sp: "split_on (CHR ''/'') (o' @ ''/'' @ r' @ ''/pull/'' @ ds) = [o', r', ''pull'', ds]"
    using sl digits_no_slash [OF ds(3)] by (simp add: split_on_append split_on_no_sep)
  have n: "url_number l = read_nat ds"
    using url_number_tail [OF digits_no_slash [OF ds(3)], of "''https://github.com/'' @ o' @ ''/'' @ r' @ ''/pull''"]
    by (simp add: l)
  have "has_prefix l ''https://github.com/''" "trim_prefix l ''https://github.com/'' = o' @ ''/'' @ r' @ ''/pull/'' @ ds"
    unfolding l by (simp_all add: has_prefix_def trim_prefix_def)
  then show ?thesis
    unfolding pullRequestNumberFromLine_def
    using sp eq ds atoi_short_digits [OF ds(3,1,2)] by (simp add: n list_all_iff itoa_def Suc_le_eq)
qed

lemma pullRequestNumberFromLine_only:
  assumes "pullRequestNumberFromLine U ow re l \<noteq> None" "ow \<noteq> ''''" "re \<noteq> ''''"
  shows "is_pr_url U ow re l"
proof -
  from assms(1) obtain o' r' ds where sp: "has_prefix l ''https://github.com/''"
    "split_on (CHR ''/'') (trim_prefix l ''https://github.com/'') = [o', r', ''pull'', ds]"
    and eq: "equal_fold U o' ow" "equal_fold U r' re"
    and ds: "ds \<noteq> []" "length ds \<le> 10" "list_all is_digit ds"
    and v: "\<exists>v. atoi ds = Some v \<and> 1 \<le> v"
    unfolding pullRequestNumberFromLine_def by (auto split: if_splits list.splits option.splits)
  have "l = ''https://github.com/'' @ o' @ ''/'' @ r' @ ''/pull/'' @ ds"
    "CHR ''/'' \<notin> set o'" "CHR ''/'' \<notin> set r'"
    using sp by (auto simp: has_prefix_iff trim_prefix_def split_on_eq_iff)
  moreover have "0 < read_nat ds" using v ds atoi_short_digits [of ds] by (auto simp: list_all_iff)
  ultimately show ?thesis
    unfolding is_pr_url_def using assms(2,3) eq ds by (auto simp: list_all_iff)
qed

lemma firstPullRequestNumber_filter:
  assumes "ow \<noteq> ''''" "re \<noteq> ''''"
  shows "firstPullRequestNumber U ow re ls =
    (case filter (is_pr_url U ow re) (map (trim_space U) ls) of [] \<Rightarrow> None | l # _ \<Rightarrow> Some (show_nat (url_number l)))"
proof (induction ls)
  case (Cons l ls)
  show ?case
  proof (cases "is_pr_url U ow re (trim_space U l)")
    case True
    with pullRequestNumberFromLine_shape [OF True] show ?thesis by simp
  next
    case False
    then have "pullRequestNumberFromLine U ow re (trim_space U l) = None"
      using pullRequestNumberFromLine_only assms by blast
    with False Cons show ?thesis by simp
  qed
qed simp

lemma pullRequestNumberFromBody_filter:
  "pullRequestNumberFromBody U ow re body =
    (case filter (is_pr_url U ow re) (map (trim_space U) (split_on (CHR 0x0A) body)) of
       [] \<Rightarrow> None | l # _ \<Rightarrow> Some (show_nat (url_number l)))"
proof (cases "ow = '''' \<or> re = ''''")
  case True
  then have "filter (is_pr_url U ow re) ls = []" for ls by (auto simp: is_pr_url_def)
  with True show ?thesis by (simp add: pullRequestNumberFromBody_def)
qed (auto simp: pullRequestNumberFromBody_def firstPullRequestNumber_filter)

lemma contains_dots_digits: "list_all is_digit s \<Longrightarrow> \<not> contains_str s ''..''"
  by (induction s) (auto simp: has_prefix_def is_digit_def)

lemma valid_component_PRNumber:
  assumes "validPRNumber n"
  shows "valid_component n"
proof -
  have d: "list_all is_digit n" "n \<noteq> []" using assms by (auto simp: validPRNumber_def)
  have "list_all isSafeClaimRune n"
    using d(1) digits_safe by (metis list.pred_mono_strong)
  moreover have "\<not> has_prefix n ''.''"
    using d by (cases n) (auto simp: has_prefix_def is_digit_def)
  moreover have "\<not> has_suffix n ''.lock''"
  proof
    assume "has_suffix n ''.lock''"
    then obtain t where "rev n = ''kcol.'' @ t" by (auto simp: has_suffix_def has_prefix_iff)
    then have "CHR ''k'' \<in> set n" by (metis append_Cons list.set_intros(1) set_rev)
    with d(1) show False by (auto simp: list_all_iff is_digit_def)
  qed
  ultimately show ?thesis
    using d validPRNumber_no_slash [OF assms] contains_dots_digits [OF d(1)]
    by (simp add: valid_component_def validateClaimComponent_def contains_str_single)
qed

section \<open>Derivation refines the abstract subject\<close>

lemma DeriveClaimKey_repo:
  "ty \<in> set repoKeyedTaskTypes \<Longrightarrow> DeriveClaimKey U ty i ow re = Inr k \<longleftrightarrow>
     valid_subject (RepoSubject (to_lower U ow) (to_lower U re)) \<and>
     k = render (RepoSubject (to_lower U ow) (to_lower U re))"
  by (auto simp: DeriveClaimKey_def Let_def validate_iff validate_Some_iff split: option.splits)

lemma DeriveClaimKey_task:
  "ty \<notin> set repoKeyedTaskTypes \<Longrightarrow> DeriveClaimKey U ty i ow re = Inr k \<longleftrightarrow>
     valid_subject (TaskSubject i) \<and> k = render (TaskSubject i)"
  by (auto simp: DeriveClaimKey_def validate_iff validate_Some_iff split: option.splits)

lemma DeriveClaimKeysWithBody_plain:
  "ty \<noteq> ''pr-review'' \<Longrightarrow> DeriveClaimKeysWithBody U ty i ow re body = Inr (k, k2, fb) \<longleftrightarrow>
     DeriveClaimKey U ty i ow re = Inr k \<and> k2 = '''' \<and> \<not> fb"
  by (auto simp: DeriveClaimKeysWithBody_def split: sum.splits)

lemma DeriveClaimKeysWithBody_pr:
  "DeriveClaimKeysWithBody U ''pr-review'' i ow re body = Inr (k, k2, fb) \<longleftrightarrow>
     (case pullRequestNumberFromBody U (to_lower U ow) (to_lower U re) body of
        Some n \<Rightarrow> valid_subject (PRSubject (to_lower U ow) (to_lower U re) n) \<and>
          k = render (PRSubject (to_lower U ow) (to_lower U re) n) \<and> k2 = '''' \<and> \<not> fb
      | None \<Rightarrow> valid_subject (TaskSubject i) \<and> k = render (TaskSubject i) \<and> k2 = '''' \<and> fb)"
proof (cases "pullRequestNumberFromBody U (to_lower U ow) (to_lower U re) body")
  case None
  have "''pr-review'' \<notin> set repoKeyedTaskTypes" by (simp add: repoKeyedTaskTypes_def)
  with None show ?thesis
    by (auto simp: DeriveClaimKeysWithBody_def DeriveClaimKey_def Let_def validate_iff validate_Some_iff
        split: option.splits)
next
  case (Some n)
  then have "validPRNumber n" by (rule pullRequestNumberFromBody_valid)
  with Some valid_component_PRNumber show ?thesis
    by (auto simp: DeriveClaimKeysWithBody_def Let_def validate_iff validate_Some_iff split: option.splits)
qed

lemma DeriveClaimKeysWithBody_spec:
  "DeriveClaimKeysWithBody U ty i ow re body = Inr (k, k2, fb) \<longleftrightarrow>
     (let s = subject_of U ty i ow re body in
      valid_subject s \<and> k = render s \<and> k2 = '''' \<and>
      fb = (ty = ''pr-review'' \<and> s = TaskSubject i))"
proof (cases "ty = ''pr-review''")
  case True
  then show ?thesis
    unfolding True DeriveClaimKeysWithBody_pr
    by (simp add: subject_of_def pullRequestNumberFromBody_filter Let_def split: option.split list.split)
next
  case False
  show ?thesis
  proof (cases "ty \<in> set repoKeyedTaskTypes")
    case True
    then have "subject_of U ty i ow re body = RepoSubject (to_lower U ow) (to_lower U re)"
      by (auto simp: subject_of_def repoKeyedTaskTypes_def)
    with False True show ?thesis
      by (auto simp: DeriveClaimKeysWithBody_plain DeriveClaimKey_repo Let_def simp del: render.simps)
  next
    case False2: False
    then have "subject_of U ty i ow re body = TaskSubject i"
      using False by (auto simp: subject_of_def repoKeyedTaskTypes_def)
    with False False2 show ?thesis
      by (auto simp: DeriveClaimKeysWithBody_plain DeriveClaimKey_task Let_def simp del: render.simps)
  qed
qed

section \<open>Properties\<close>

text \<open>Go's Unicode tables are consulted outside ASCII only; on ASCII inputs any instance serves.\<close>

definition plainUnicode :: unicode where
  "plainUnicode = \<lparr>u_lower = id, u_fold = (=), u_trim = id\<rparr>"

text \<open>
  C29: \<open>DeriveClaimKeysWithBody\<close> succeeds exactly when the subject of the task has valid components, and
  its primary key is that subject's rendering: the repository for the repository-keyed types, the pull
  request named by the first line of the body that is one of its URLs for a review, the task otherwise.
  The fallback flag is set exactly for a review keyed by its task id. The subject is specified without
  the parsers of the code.
\<close>

theorem derive_refines_subject:
  "(\<exists>k2. DeriveClaimKeysWithBody U ty i ow re body = Inr (k, k2, fb)) \<longleftrightarrow>
     (let s = subject_of U ty i ow re body in
      valid_subject s \<and> k = render s \<and> fb = (ty = ''pr-review'' \<and> s = TaskSubject i))"
  by (auto simp: DeriveClaimKeysWithBody_spec Let_def)

text \<open>
  C30: two tasks contend for the same claim key exactly when they work on the same subject: the same
  repository for the repository-keyed task types, the same pull request for reviews, the same task
  otherwise. Keys of different kinds never collide.
\<close>

theorem claim_key_exclusive:
  assumes "DeriveClaimKeysWithBody U ty i ow re body = Inr (k, k2, fb)"
    and "DeriveClaimKeysWithBody U ty' i' ow' re' body' = Inr (k', k2', fb')"
  shows "k = k' \<longleftrightarrow> subject_of U ty i ow re body = subject_of U ty' i' ow' re' body'"
  using assms render_inj by (auto simp: DeriveClaimKeysWithBody_spec Let_def)

theorem claim_key_exclusive_witness:
  "subject_of plainUnicode ''pr-review'' ''t1'' ''Acme'' ''Lib'' ''https://github.com/acme/lib/pull/007'' =
   subject_of plainUnicode ''pr-review'' ''t2'' ''acme'' ''lib'' ''https://github.com/ACME/lib/pull/7''"
proof -
  have a: "DeriveClaimKeysWithBody plainUnicode ''pr-review'' ''t1'' ''Acme'' ''Lib''
      ''https://github.com/acme/lib/pull/007'' = Inr (''claims/pr/acme/lib/7'', '''', False)"
    by code_simp
  have b: "DeriveClaimKeysWithBody plainUnicode ''pr-review'' ''t2'' ''acme'' ''lib''
      ''https://github.com/ACME/lib/pull/7'' = Inr (''claims/pr/acme/lib/7'', '''', False)"
    by code_simp
  show ?thesis using claim_key_exclusive [OF a b] by simp
qed

text \<open>
  C31: every derived key parses back to a typed target, and that target renders to the same key: no
  claim is taken under a key that later cannot be released or renewed through its target.
\<close>

theorem derived_key_roundtrip:
  assumes "DeriveClaimKeysWithBody U ty i ow re body = Inr (k, k2, fb)"
  shows "\<exists>t. TargetFromKey k = Some t \<and> KeyFor t = Some k"
  using assms TargetFromKey_render KeyFor_target_of by (auto simp: DeriveClaimKeysWithBody_spec Let_def)

theorem derived_key_roundtrip_witness:
  "\<exists>t. TargetFromKey ''claims/repo/acme/lib'' = Some t \<and> KeyFor t = Some ''claims/repo/acme/lib''"
proof -
  have "DeriveClaimKeysWithBody plainUnicode ''release'' ''t1'' ''Acme'' ''Lib'' '''' =
      Inr (''claims/repo/acme/lib'', '''', False)"
    by code_simp
  then show ?thesis by (rule derived_key_roundtrip)
qed

end
