(* ===== verification/Ref_Store.thy ===== *)
theory Ref_Store
  imports Claim_Key
begin

text \<open>
  The git-rest claim-ref API as the executor uses it (\<^verbatim>\<open>pkg/claim/ref_client.go\<close>), the RFC 3339
  form of a lease deadline, and the in-process git-rest of the repository's own tests
  (\<^verbatim>\<open>pkg/claim/fake_git_rest_test.go\<close>). The locale \<open>ref_store\<close> states what the stores built on
  the API rely on; the in-process server is shown to provide it.
\<close>

section \<open>The interface\<close>

record ClaimRef =
  ref_Ref :: string
  ref_Sha :: string
  ref_Cluster :: string
  ref_TaskID :: string
  ref_LeaseUntil :: string

text \<open>An implementation of the interface over a world \<open>'w\<close>: every call may change the world.\<close>

record 'w ClaimRefClient =
  rc_List :: "string \<Rightarrow> ('w, ClaimRef list result) state"
  rc_Put :: "string \<Rightarrow> string \<Rightarrow> string \<Rightarrow> string \<Rightarrow> go_time \<Rightarrow> ('w, string result) state"
  rc_Delete :: "string \<Rightarrow> string \<Rightarrow> ('w, claim_error option) state"

definition RequestTimeout :: duration where "RequestTimeout = 30 * second"

section \<open>Lease deadlines on the wire\<close>

text \<open>
  \<open>formatLeaseUntil\<close> renders an instant in UTC as RFC 3339 without fractional seconds. Days are
  counted from 1 January of year 1, the date of Go's zero instant.
\<close>

definition is_leap :: "int \<Rightarrow> bool" where
  "is_leap y \<longleftrightarrow> y mod 4 = 0 \<and> (y mod 100 \<noteq> 0 \<or> y mod 400 = 0)"

definition year_and_day :: "int \<Rightarrow> int \<times> int" where
  "year_and_day d =
     (let n400 = d div 146097; d1 = d mod 146097;
          n100 = min 3 (d1 div 36524); d2 = d1 - n100 * 36524;
          n4 = d2 div 1461; d3 = d2 mod 1461;
          n1 = min 3 (d3 div 365); d4 = d3 - n1 * 365
      in (1 + 400 * n400 + 100 * n100 + 4 * n4 + n1, d4))"

definition month_lengths :: "int \<Rightarrow> int list" where
  "month_lengths y = [31, if is_leap y then 29 else 28, 31, 30, 31, 30, 31, 31, 30, 31, 30, 31]"

fun month_and_day :: "int list \<Rightarrow> int \<Rightarrow> int \<Rightarrow> int \<times> int" where
  "month_and_day [] m d = (m, d + 1)"
| "month_and_day (l # ls) m d = (if d < l then (m, d + 1) else month_and_day ls (m + 1) (d - l))"

definition pad :: "nat \<Rightarrow> int \<Rightarrow> string" where
  "pad w n =
     (let ds = show_nat (nat \<bar>n\<bar>); z = replicate (w - length ds) (CHR ''0'') @ ds
      in if n < 0 then CHR ''-'' # z else z)"

definition formatLeaseUntil :: "go_time \<Rightarrow> string" where
  "formatLeaseUntil t =
     (let s = t div second; d = s div 86400; r = s mod 86400;
          (y, yd) = year_and_day d; (m, md) = month_and_day (month_lengths y) 1 yd
      in pad 4 y @ ''-'' @ pad 2 m @ ''-'' @ pad 2 md @ ''T'' @
         pad 2 (r div 3600) @ '':'' @ pad 2 (r mod 3600 div 60) @ '':'' @ pad 2 (r mod 60) @ ''Z'')"

section \<open>Prefix matching\<close>

definition matchesPrefix :: "string \<Rightarrow> string \<Rightarrow> bool" where
  "matchesPrefix ref prefix =
     (if has_suffix prefix ''/'' then has_prefix ref (''refs/'' @ prefix)
      else ref = ''refs/'' @ prefix \<or> has_prefix ref (''refs/'' @ prefix @ ''/''))"

section \<open>The in-process git-rest server\<close>

record fakeRef =
  fr_Sha :: string
  fr_Cluster :: string
  fr_TaskID :: string
  fr_LeaseUntil :: string

record fakeGitRest =
  refs :: "(string, fakeRef) gomap"
  shaSeq :: nat

fun show_hex :: "nat \<Rightarrow> string" where
  "show_hex n =
     (let dig = (\<lambda>k. if k < 10 then digit_char k else char_of (87 + k :: nat))
      in if n < 16 then [dig n] else show_hex (n div 16) @ [dig (n mod 16)])"

declare show_hex.simps [simp del]

definition hex40 :: "nat \<Rightarrow> string" where
  "hex40 n = replicate (40 - length (show_hex n)) (CHR ''0'') @ show_hex n"

definition claimRef_of :: "string \<Rightarrow> fakeRef \<Rightarrow> ClaimRef" where
  "claimRef_of ref stored =
     \<lparr>ref_Ref = ref, ref_Sha = fr_Sha stored, ref_Cluster = fr_Cluster stored,
      ref_TaskID = fr_TaskID stored, ref_LeaseUntil = fr_LeaseUntil stored\<rparr>"

definition fake_list :: "string \<Rightarrow> fakeGitRest \<Rightarrow> ClaimRef list" where
  "fake_list prefix f =
     sort_key ref_Ref
       (map (\<lambda>(ref, stored). claimRef_of ref stored)
         (filter (\<lambda>(ref, stored). matchesPrefix ref prefix) (refs f)))"

text \<open>The status of a write and the new state; 200 carries the new sha.\<close>

definition fake_put ::
  "string \<Rightarrow> string \<Rightarrow> string \<Rightarrow> string \<Rightarrow> string \<Rightarrow> fakeGitRest \<Rightarrow> string option \<times> fakeGitRest" where
  "fake_put key expectedSha cluster taskID leaseUntil f =
     (let fullRef = ''refs/'' @ key; existing = map_of (refs f) fullRef in
      if (if expectedSha = '''' then existing \<noteq> None
          else (case existing of None \<Rightarrow> True | Some r \<Rightarrow> fr_Sha r \<noteq> expectedSha))
      then (None, f)
      else
        (let sha = hex40 (Suc (shaSeq f)) in
         (Some sha,
          f\<lparr>refs := AList.update fullRef
               \<lparr>fr_Sha = sha, fr_Cluster = cluster, fr_TaskID = taskID, fr_LeaseUntil = leaseUntil\<rparr> (refs f),
            shaSeq := Suc (shaSeq f)\<rparr>)))"

definition fake_delete :: "string \<Rightarrow> string \<Rightarrow> fakeGitRest \<Rightarrow> bool \<times> fakeGitRest" where
  "fake_delete key expectedSha f =
     (let fullRef = ''refs/'' @ key in
      (case map_of (refs f) fullRef of
         None \<Rightarrow> (False, f)
       | Some r \<Rightarrow>
           if fr_Sha r \<noteq> expectedSha then (False, f)
           else (True, f\<lparr>refs := AList.delete fullRef (refs f)\<rparr>)))"

text \<open>The client in front of that server: 200 is success, 409 is \<open>ErrLeaseConflict\<close>.\<close>

definition fakeClient :: "fakeGitRest ClaimRefClient" where
  "fakeClient =
     \<lparr>rc_List = (\<lambda>prefix. gets (\<lambda>f. Inr (fake_list prefix f))),
      rc_Put = (\<lambda>key expectedSha cluster taskID leaseUntil.
        State (\<lambda>f. case fake_put key expectedSha cluster taskID (formatLeaseUntil leaseUntil) f of
          (None, f') \<Rightarrow> (Inl ErrLeaseConflict, f') | (Some sha, f') \<Rightarrow> (Inr sha, f'))),
      rc_Delete = (\<lambda>key expectedSha.
        State (\<lambda>f. case fake_delete key expectedSha f of
          (ok, f') \<Rightarrow> (if ok then None else Some ErrLeaseConflict, f')))\<rparr>"

section \<open>What the stores rely on\<close>

text \<open>
  \<open>content\<close> is the set of stored refs, by full ref name. A list returns the refs under the
  prefix and changes nothing; a create succeeds only where nothing is stored; a refused
  compare-and-swap changes nothing; a delete removes at most the ref it names.
\<close>

locale ref_store =
  fixes client :: "'w ClaimRefClient"
    and content :: "'w \<Rightarrow> (string \<rightharpoonup> ClaimRef)"
    and good :: "'w \<Rightarrow> bool"
  assumes content_ref: "good w \<Longrightarrow> content w r = Some x \<Longrightarrow> ref_Ref x = r"
    and list_frame: "good w \<Longrightarrow> run_state (rc_List client p) w = (res, w') \<Longrightarrow> good w' \<and> content w' = content w"
    and list_result: "good w \<Longrightarrow> run_state (rc_List client p) w = (Inr xs, w') \<Longrightarrow>
      distinct (map ref_Ref xs) \<and>
      (\<forall>x. x \<in> set xs \<longleftrightarrow> content w (ref_Ref x) = Some x \<and> matchesPrefix (ref_Ref x) p)"
    and put_ok: "good w \<Longrightarrow> run_state (rc_Put client k ''''  cl ti lu) w = (Inr sha, w') \<Longrightarrow>
      good w' \<and> content w (''refs/'' @ k) = None \<and>
      content w' = (content w)(''refs/'' @ k \<mapsto>
        \<lparr>ref_Ref = ''refs/'' @ k, ref_Sha = sha, ref_Cluster = cl, ref_TaskID = ti,
         ref_LeaseUntil = formatLeaseUntil lu\<rparr>)"
    and put_conflict: "good w \<Longrightarrow> run_state (rc_Put client k '''' cl ti lu) w = (Inl ErrLeaseConflict, w') \<Longrightarrow>
      good w' \<and> content w' = content w \<and> content w (''refs/'' @ k) \<noteq> None"
    and delete_ok: "good w \<Longrightarrow> run_state (rc_Delete client k sha) w = (None, w') \<Longrightarrow>
      good w' \<and> content w' = (content w)(''refs/'' @ k := None)"
    and delete_fail: "good w \<Longrightarrow> run_state (rc_Delete client k sha) w = (Some e, w') \<Longrightarrow>
      good w' \<and> (content w' = content w \<or> content w' = (content w)(''refs/'' @ k := None))"
    and delete_current: "good w \<Longrightarrow> content w (''refs/'' @ k) = Some x \<Longrightarrow>
      run_state (rc_Delete client k (ref_Sha x)) w = (Some e, w') \<Longrightarrow>
      e \<noteq> ErrLeaseConflict \<and> e \<noteq> ErrRefNotFound"

text \<open>The in-process server provides the contract.\<close>

definition fake_content :: "fakeGitRest \<Rightarrow> (string \<rightharpoonup> ClaimRef)" where
  "fake_content f r = map_option (claimRef_of r) (map_of (refs f) r)"

definition fake_good :: "fakeGitRest \<Rightarrow> bool" where
  "fake_good f \<longleftrightarrow> gomap_wf (refs f)"

lemma fake_list_set:
  "fake_good f \<Longrightarrow> x \<in> set (fake_list p f) \<longleftrightarrow>
     fake_content f (ref_Ref x) = Some x \<and> matchesPrefix (ref_Ref x) p"
proof -
  assume "fake_good f"
  then have "(r, st) \<in> set (refs f) \<longleftrightarrow> map_of (refs f) r = Some st" for r st
    by (simp add: fake_good_def gomap_mem_iff)
  then show ?thesis
    by (cases x) (auto simp: fake_list_def fake_content_def claimRef_of_def image_iff)
qed

lemma fake_list_distinct: "fake_good f \<Longrightarrow> distinct (map ref_Ref (fake_list p f))"
proof -
  assume good: "fake_good f"
  have "map ref_Ref (map (\<lambda>(ref, stored). claimRef_of ref stored) xs) = map fst xs" for xs
    by (induction xs) (auto simp: claimRef_of_def)
  moreover have "distinct (map fst (filter P (refs f)))" for P
    using good by (simp add: fake_good_def gomap_wf_def distinct_map_filter)
  ultimately have "distinct (map ref_Ref (map (\<lambda>(ref, stored). claimRef_of ref stored)
      (filter (\<lambda>(ref, stored). matchesPrefix ref p) (refs f))))"
    by (simp only:)
  then show ?thesis
    unfolding fake_list_def by (metis distinct_map distinct_sort set_sort)
qed

interpretation fake: ref_store fakeClient fake_content fake_good
proof (unfold_locales, goal_cases)
  case (1 w r x)
  then show ?case by (auto simp: fake_content_def claimRef_of_def)
next
  case (2 w p res w')
  then show ?case by (simp add: fakeClient_def)
next
  case (3 w p xs w')
  then show ?case by (auto simp: fakeClient_def fake_list_set fake_list_distinct)
next
  case (4 w k cl ti lu sha w')
  then show ?case
    by (auto simp: fakeClient_def fake_put_def Let_def fake_good_def fake_content_def fun_eq_iff
        update_conv claimRef_of_def split: if_splits option.splits)
next
  case (5 w k cl ti lu w')
  then show ?case
    by (auto simp: fakeClient_def fake_put_def Let_def fake_content_def split: if_splits)
next
  case (6 w k sha w')
  then show ?case
    by (auto simp: fakeClient_def fake_delete_def Let_def fake_good_def fake_content_def fun_eq_iff
        delete_conv split: if_splits option.splits)
next
  case (7 w k sha e w')
  then show ?case
    by (auto simp: fakeClient_def fake_delete_def Let_def split: if_splits option.splits)
next
  case (8 w k x e w')
  then show ?case
    by (auto simp: fakeClient_def fake_delete_def Let_def fake_content_def claimRef_of_def
        split: if_splits option.splits)
qed

section \<open>Reading and deleting listed refs\<close>

text \<open>A delete that fails for a reason other than a lost compare-and-swap is a transport failure.\<close>

definition reliable_deletes :: "'w ClaimRefClient \<Rightarrow> bool" where
  "reliable_deletes client \<longleftrightarrow>
     (\<forall>k sha w. fst (run_state (rc_Delete client k sha) w) \<in> {None, Some ErrLeaseConflict, Some ErrRefNotFound})"

text \<open>The refs that remain after the listed refs satisfying \<open>P\<close> are deleted.\<close>

definition drop_refs :: "(string \<rightharpoonup> ClaimRef) \<Rightarrow> (ClaimRef \<Rightarrow> bool) \<Rightarrow> (string \<rightharpoonup> ClaimRef)" where
  "drop_refs m P r = (case m r of None \<Rightarrow> None | Some x \<Rightarrow> if P x then None else Some x)"

lemma drop_refs_Some: "drop_refs m P r = Some x \<longleftrightarrow> m r = Some x \<and> \<not> P x"
  by (auto simp: drop_refs_def split: option.splits)

lemma drop_refs_False [simp]: "drop_refs m (\<lambda>_. False) = m"
  by (auto simp: drop_refs_def fun_eq_iff split: option.splits)

lemma matchesPrefix_refs: "matchesPrefix r p \<Longrightarrow> \<exists>k. r = ''refs/'' @ k"
  by (auto simp: matchesPrefix_def has_prefix_iff split: if_splits)

lemma trim_refs [simp]:
  "trim_prefix (CHR ''r'' # CHR ''e'' # CHR ''f'' # CHR ''s'' # CHR ''/'' # k) ''refs/'' = k"
  by (simp add: trim_prefix_def)

text \<open>
  Deleting one listed ref: a conflict or an already-gone ref is ignored, and so is every other
  failure, which is only logged.
\<close>

definition redriveDeleteRef :: "'w ClaimRefClient \<Rightarrow> ClaimRef \<Rightarrow> ('w, unit) state" where
  "redriveDeleteRef refClient ref =
     do { _ \<leftarrow> rc_Delete refClient (trim_prefix (ref_Ref ref) ''refs/'') (ref_Sha ref);
          State_Monad.return () }"

context ref_store
begin

lemma delete_listed:
  assumes "good w" "reliable_deletes client" "content w (ref_Ref x) = Some x" "ref_Ref x = ''refs/'' @ k"
    and run: "run_state (redriveDeleteRef client x) w = (u, w')"
  shows "good w' \<and> content w' = (content w)(ref_Ref x := None)"
proof -
  obtain e where run': "run_state (rc_Delete client k (ref_Sha x)) w = (e, w')"
    using run assms(4) by (auto simp: redriveDeleteRef_def split: prod.splits)
  have "fst (run_state (rc_Delete client k (ref_Sha x)) w) \<in> {None, Some ErrLeaseConflict, Some ErrRefNotFound}"
    using assms(2) unfolding reliable_deletes_def by blast
  moreover have "content w (''refs/'' @ k) = Some x" using assms(3,4) by simp
  ultimately have "e = None"
    using delete_current [OF assms(1), of k x] run' by (cases e) auto
  with delete_ok [OF assms(1)] run' assms(4) show ?thesis by auto
qed

lemma delete_loop:
  assumes "good w" "reliable_deletes client"
    and "distinct (map ref_Ref xs)"
    and "\<And>x. x \<in> set xs \<Longrightarrow> content w (ref_Ref x) = Some x \<and> (\<exists>k. ref_Ref x = ''refs/'' @ k)"
    and "run_state (for_each xs (\<lambda>x. if P x then redriveDeleteRef client x
            else State_Monad.return ())) w = (u, w')"
  shows "good w' \<and> content w' = drop_refs (content w) (\<lambda>x. x \<in> set xs \<and> P x)"
  using assms(1,3,4,5)
proof (induction xs arbitrary: w)
  case Nil
  then show ?case by simp
next
  case (Cons x xs)
  from Cons.prems(3) [of x] obtain k where x: "content w (ref_Ref x) = Some x" "ref_Ref x = ''refs/'' @ k"
    by fastforce
  show ?case
  proof (cases "P x")
    case False
    with Cons.prems have "good w' \<and> content w' = drop_refs (content w) (\<lambda>y. y \<in> set xs \<and> P y)"
      by (intro Cons.IH) auto
    with False show ?thesis by (auto simp: drop_refs_def fun_eq_iff split: option.splits)
  next
    case True
    obtain e v where d: "run_state (redriveDeleteRef client x) w = (e, v)" by (rule prod.exhaust)
    have v: "good v" "content v = (content w)(ref_Ref x := None)"
      using delete_listed [OF Cons.prems(1) assms(2) x d] by auto
    have "good w' \<and> content w' = drop_refs (content v) (\<lambda>y. y \<in> set xs \<and> P y)"
    proof (rule Cons.IH)
      show "good v" by (rule v(1))
      show "distinct (map ref_Ref xs)" using Cons.prems(2) by simp
      show "content v (ref_Ref y) = Some y \<and> (\<exists>k. ref_Ref y = ''refs/'' @ k)" if "y \<in> set xs" for y
      proof -
        have "ref_Ref y \<noteq> ref_Ref x"
          using Cons.prems(2) that by (metis distinct.simps(2) imageI list.set_map list.simps(9))
        with Cons.prems(3) [of y] that v(2) show ?thesis by simp
      qed
    qed (use Cons.prems(4) True d in \<open>simp split: prod.splits\<close>)
    moreover have "drop_refs (content v) (\<lambda>y. y \<in> set xs \<and> P y) = drop_refs (content w) (\<lambda>y. y \<in> set (x # xs) \<and> P y)"
    proof
      fix r
      show "drop_refs (content v) (\<lambda>y. y \<in> set xs \<and> P y) r = drop_refs (content w) (\<lambda>y. y \<in> set (x # xs) \<and> P y) r"
      proof (cases "r = ref_Ref x")
        case rx: True
        then show ?thesis using v(2) x(1) True by (simp add: drop_refs_def)
      next
        case False
        then have "y \<noteq> x" if "content w r = Some y" for y
          using content_ref [OF Cons.prems(1) that] by auto
        with False v(2) show ?thesis by (simp add: drop_refs_def split: option.split)
      qed
    qed
    ultimately show ?thesis by simp
  qed
qed

lemma list_loop:
  assumes "good w" "reliable_deletes client"
    and l: "run_state (rc_List client p) w = (Inr xs, v)"
    and run: "run_state (for_each xs (\<lambda>x. if P x then redriveDeleteRef client x
            else State_Monad.return ())) v = (u, w')"
  shows "good w' \<and> content w' = drop_refs (content w) (\<lambda>x. matchesPrefix (ref_Ref x) p \<and> P x)"
proof -
  have v: "good v" "content v = content w" using list_frame [OF assms(1) l] by auto
  have xs: "distinct (map ref_Ref xs)"
    "\<And>x. x \<in> set xs \<longleftrightarrow> content w (ref_Ref x) = Some x \<and> matchesPrefix (ref_Ref x) p"
    using list_result [OF assms(1) l] by auto
  have "good w' \<and> content w' = drop_refs (content v) (\<lambda>x. x \<in> set xs \<and> P x)"
    using v xs matchesPrefix_refs by (intro delete_loop [OF _ assms(2) _ _ run]) auto
  moreover have "drop_refs (content w) (\<lambda>x. x \<in> set xs \<and> P x) =
      drop_refs (content w) (\<lambda>x. matchesPrefix (ref_Ref x) p \<and> P x)"
    using xs(2) content_ref [OF assms(1)] by (auto simp: drop_refs_def fun_eq_iff split: option.splits)
  ultimately show ?thesis using v by simp
qed

lemma list_unless:
  "good w \<Longrightarrow> run_state (rc_List client p) w = (Inl e, v) \<Longrightarrow> good v \<and> content v = content w"
  using list_frame by blast

end

lemma fake_reliable: "reliable_deletes fakeClient"
  by (auto simp: reliable_deletes_def fakeClient_def fake_delete_def Let_def split: option.splits prod.splits)

lemma hex40_ne: "hex40 n \<noteq> ''''"
  unfolding hex40_def by (subst show_hex.simps) (simp add: Let_def)

end
