(* ===== verification/Lease_Manager.thy ===== *)
theory Lease_Manager
  imports Ref_Store
begin

text \<open>
  The lease manager (\<^verbatim>\<open>pkg/claim/lease_manager.go\<close>): the claims one executor holds, and the
  operations that take, release, take over and recover them. The typed vault-api client and the Job
  control are parameters over a world \<open>'w\<close>; the manager's own state is the held map and the labels
  it counts, in order. Every operation runs under the manager's lock, so one call is one step.
\<close>

section \<open>Interfaces\<close>

record Claim =
  cl_Scope :: string
  cl_ID :: string
  cl_Holder :: string
  cl_TaskID :: string
  cl_LeaseUntil :: go_time
  cl_RenewBefore :: go_time
  cl_LeaseToken :: string
  cl_LeaseUnreadable :: bool

text \<open>
  The context a call runs under: the caller's own, one capped at an instant (\<open>requestContext\<close>), or
  the detached recovery context (\<open>recoveryContext\<close>).
\<close>

datatype req_ctx = CallerCtx | DeadlineCtx go_time | RecoveryCtx

record 'w ClaimClient =
  cc_Acquire :: "req_ctx \<Rightarrow> ClaimTarget \<Rightarrow> string \<Rightarrow> string \<Rightarrow> int \<Rightarrow> ('w, Claim result) state"
  cc_Renew :: "req_ctx \<Rightarrow> ClaimTarget \<Rightarrow> string \<Rightarrow> string \<Rightarrow> string \<Rightarrow> int \<Rightarrow> ('w, Claim result) state"
  cc_List :: "req_ctx \<Rightarrow> string \<Rightarrow> ('w, Claim list result) state"
  cc_Release :: "req_ctx \<Rightarrow> ClaimTarget \<Rightarrow> string \<Rightarrow> ('w, claim_error option) state"
  cc_Read :: "req_ctx \<Rightarrow> ClaimTarget \<Rightarrow> ('w, Claim result) state"

record 'w JobControl =
  jc_IsJobRunning :: "req_ctx \<Rightarrow> string \<Rightarrow> ('w, bool result) state"
  jc_DeleteJob :: "req_ctx \<Rightarrow> string \<Rightarrow> ('w, claim_error option) state"

text \<open>What a lease manager is constructed with; \<open>le_ctxDone\<close> reads the caller's context.\<close>

record 'w lease_env =
  le_cluster :: string
  le_claimClient :: "'w ClaimClient"
  le_jobControl :: "'w JobControl"
  le_currentDateTime :: "('w, go_time) state"
  le_ctxDone :: "'w \<Rightarrow> bool"

section \<open>State\<close>

record heldClaim =
  hc_key :: string
  hc_target :: ClaimTarget
  hc_taskID :: string
  hc_leaseToken :: string
  hc_leaseUntil :: go_time
  hc_secondKey :: string
  hc_secondTarget :: ClaimTarget
  hc_secondToken :: string
  hc_lastRenewAt :: go_time
  hc_renewNextTick :: bool
  hc_pendingJobDeletion :: bool
  hc_pendingDeletionPath :: string
  hc_releasePending :: bool
  hc_needsRunningCheck :: bool
  hc_holdUntil :: go_time
  hc_joblessSince :: go_time
  hc_lastJoblessCheckAt :: go_time

definition zeroHeld :: heldClaim where
  "zeroHeld = \<lparr>hc_key = '''', hc_target = noTarget, hc_taskID = '''', hc_leaseToken = '''', hc_leaseUntil = 0,
     hc_secondKey = '''', hc_secondTarget = noTarget, hc_secondToken = '''', hc_lastRenewAt = 0,
     hc_renewNextTick = False, hc_pendingJobDeletion = False, hc_pendingDeletionPath = '''',
     hc_releasePending = False, hc_needsRunningCheck = False, hc_holdUntil = 0, hc_joblessSince = 0,
     hc_lastJoblessCheckAt = 0\<rparr>"

record 'w leaseManager =
  lm_held :: "(string, heldClaim) gomap"
  lm_counts :: "string list"
  lm_world :: 'w

record HeldClaim =
  HC_Key :: string
  HC_TaskID :: string
  HC_LeaseToken :: string
  HC_LeaseUntil :: go_time

record TakeoverResult =
  TR_Key :: string
  TR_TaskID :: string
  TR_LeaseToken :: string
  TR_LeaseUntil :: go_time
  TR_PreviousTaskID :: string

section \<open>Constants\<close>

definition LeaseDuration :: duration where "LeaseDuration = 300 * second"
definition TickInterval :: duration where "TickInterval = 10 * second"
definition RenewInterval :: duration where "RenewInterval = 60 * second"
definition FenceMargin :: duration where "FenceMargin = 60 * second"
definition FenceLead :: duration where "FenceLead = 10 * second"
definition TakeoverGrace :: duration where "TakeoverGrace = 30 * second"
definition JoblessGrace :: duration where "JoblessGrace = 300 * second"
definition JoblessCheckInterval :: duration where "JoblessCheckInterval = 60 * second"
definition SuccessGracePeriod :: duration where "SuccessGracePeriod = 300 * second"

definition leaseSeconds :: int where "leaseSeconds = LeaseDuration div second"

definition claimantTaskID :: "ClaimTarget \<Rightarrow> string \<Rightarrow> string" where
  "claimantTaskID target taskID = (if TaskID target \<noteq> '''' then '''' else taskID)"

definition fenceAt :: "go_time \<Rightarrow> go_time" where
  "fenceAt leaseUntil = leaseUntil + (- FenceMargin)"

definition fenceDue :: "go_time \<Rightarrow> go_time \<Rightarrow> bool" where
  "fenceDue now leaseUntil \<longleftrightarrow> now > fenceAt leaseUntil + (- FenceLead)"

definition renewDue :: "go_time \<Rightarrow> go_time \<Rightarrow> bool" where
  "renewDue now lastRenewAt \<longleftrightarrow> time_sub now lastRenewAt \<ge> RenewInterval"

definition takeoverAllowed :: "go_time \<Rightarrow> go_time \<Rightarrow> bool" where
  "takeoverAllowed now leaseUntil \<longleftrightarrow> \<not> now < leaseUntil + TakeoverGrace"

section \<open>Primitive steps\<close>

text \<open>A world operation inside the manager.\<close>

definition in_world :: "('w, 'a) state \<Rightarrow> ('w leaseManager, 'a) state" where
  "in_world x = State (\<lambda>m. case run_state x (lm_world m) of (a, w') \<Rightarrow> (a, m\<lparr>lm_world := w'\<rparr>))"

definition now_of :: "'w lease_env \<Rightarrow> ('w leaseManager, go_time) state" where
  "now_of env = in_world (le_currentDateTime env)"

definition countClaim :: "string \<Rightarrow> ('w leaseManager, unit) state" where
  "countClaim res = modify (\<lambda>m. m\<lparr>lm_counts := lm_counts m @ [res]\<rparr>)"

text \<open>A removal and a pending fence count one label each; the log lines are not modelled.\<close>

definition countClaimRemoval :: "string \<Rightarrow> ('w leaseManager, unit) state" where
  "countClaimRemoval res = countClaim res"

definition countClaimFencePending :: "('w leaseManager, unit) state" where
  "countClaimFencePending = countClaim ''fenced''"

definition countClaimCreated :: "bool \<Rightarrow> ('w leaseManager, unit) state" where
  "countClaimCreated recovered = (if recovered then countClaim ''recovered'' else countClaim ''claimed'')"

definition put_held :: "string \<Rightarrow> heldClaim \<Rightarrow> ('w leaseManager, unit) state" where
  "put_held key h = modify (\<lambda>m. m\<lparr>lm_held := AList.update key h (lm_held m)\<rparr>)"

definition drop_held :: "string \<Rightarrow> ('w leaseManager, unit) state" where
  "drop_held key = modify (\<lambda>m. m\<lparr>lm_held := AList.delete key (lm_held m)\<rparr>)"

text \<open>Assigning to fields of a held claim, which the code reaches through a pointer into the map.\<close>

definition upd_held :: "string \<Rightarrow> (heldClaim \<Rightarrow> heldClaim) \<Rightarrow> ('w leaseManager, unit) state" where
  "upd_held key f = modify (\<lambda>m. m\<lparr>lm_held := AList.map_entry key f (lm_held m)\<rparr>)"

definition get_held :: "string \<Rightarrow> ('w leaseManager, heldClaim option) state" where
  "get_held key = gets (\<lambda>m. map_of (lm_held m) key)"

definition heldKeys :: "(string, heldClaim) gomap \<Rightarrow> string list" where
  "heldKeys held = sort (gomap_keys held)"

definition findHeld :: "(string, heldClaim) gomap \<Rightarrow> string \<Rightarrow> heldClaim option" where
  "findHeld held key =
     (case map_of held key of
        Some h \<Rightarrow> Some h
      | None \<Rightarrow> map_option snd (find (\<lambda>(k, h). hc_secondKey h = key) held))"

definition requestDeadline :: "(string, heldClaim) gomap \<Rightarrow> go_time \<Rightarrow> go_time" where
  "requestDeadline held now =
     (let deadline = now + RequestTimeout;
          earliest = foldl (\<lambda>acc (k, h).
            if hc_pendingJobDeletion h then acc
            else (case acc of
                    None \<Rightarrow> Some (fenceAt (hc_leaseUntil h))
                  | Some e \<Rightarrow> if fenceAt (hc_leaseUntil h) < e then Some (fenceAt (hc_leaseUntil h)) else acc))
            None held
      in case earliest of Some e \<Rightarrow> if e < deadline then e else deadline | None \<Rightarrow> deadline)"

definition requestContext :: "'w lease_env \<Rightarrow> ('w leaseManager, req_ctx) state" where
  "requestContext env =
     do { now \<leftarrow> now_of env;
          held \<leftarrow> gets lm_held;
          State_Monad.return (DeadlineCtx (requestDeadline held now)) }"

definition readBack :: "'w lease_env \<Rightarrow> req_ctx \<Rightarrow> ClaimTarget \<Rightarrow> ('w leaseManager, Claim option result) state" where
  "readBack env ctx target =
     do { r \<leftarrow> in_world (cc_Read (le_claimClient env) ctx target);
          State_Monad.return
            (case r of Inl e \<Rightarrow> if e = ErrClaimFree then Inr None else Inl e | Inr c \<Rightarrow> Inr (Some c)) }"

definition readBackRecovery :: "'w lease_env \<Rightarrow> ClaimTarget \<Rightarrow> ('w leaseManager, Claim option result) state" where
  "readBackRecovery env target = readBack env RecoveryCtx target"

definition releaseRecovery :: "'w lease_env \<Rightarrow> ClaimTarget \<Rightarrow> string \<Rightarrow> ('w leaseManager, unit) state" where
  "releaseRecovery env target token =
     do { _ \<leftarrow> in_world (cc_Release (le_claimClient env) RecoveryCtx target token);
          State_Monad.return () }"

definition heldByUs :: "'w lease_env \<Rightarrow> Claim option \<Rightarrow> bool" where
  "heldByUs env c = (case c of None \<Rightarrow> False | Some x \<Rightarrow> cl_Holder x = le_cluster env)"

definition bestEffortRelease :: "'w lease_env \<Rightarrow> heldClaim \<Rightarrow> ('w leaseManager, unit) state" where
  "bestEffortRelease env h =
     do { ctx \<leftarrow> requestContext env;
          _ \<leftarrow> in_world (cc_Release (le_claimClient env) ctx (hc_target h) (hc_leaseToken h));
          if hc_secondKey h \<noteq> '''' then
            do { _ \<leftarrow> in_world (cc_Release (le_claimClient env) ctx (hc_secondTarget h) (hc_secondToken h));
                 State_Monad.return () }
          else State_Monad.return () }"

section \<open>Claiming\<close>

definition acquire ::
  "'w lease_env \<Rightarrow> ClaimTarget \<Rightarrow> string \<Rightarrow> ('w leaseManager, Claim result) state" where
  "acquire env target taskID =
     in_world (cc_Acquire (le_claimClient env) CallerCtx target (le_cluster env)
       (claimantTaskID target taskID) leaseSeconds)"

definition createPrimary ::
  "'w lease_env \<Rightarrow> ClaimTarget \<Rightarrow> string \<Rightarrow> ('w leaseManager, (Claim \<times> bool) result) state" where
  "createPrimary env target taskID =
     do { existing \<leftarrow> readBack env CallerCtx target;
          case existing of
            Inl readErr \<Rightarrow> do { countClaim ''error''; State_Monad.return (Inl readErr) }
          | Inr ex \<Rightarrow>
              (if ex \<noteq> None then do { countClaim ''conflict''; State_Monad.return (Inl ErrLeaseConflict) }
               else
                 do { claim \<leftarrow> acquire env target taskID;
                      case claim of
                        Inr c \<Rightarrow> State_Monad.return (Inr (c, False))
                      | Inl err \<Rightarrow>
                          if err = ErrClaimHeld then
                            do { countClaim ''conflict''; State_Monad.return (Inl ErrLeaseConflict) }
                          else
                            do { listed \<leftarrow> readBackRecovery env target;
                                 case listed of
                                   Inl readErr \<Rightarrow> do { countClaim ''error''; State_Monad.return (Inl readErr) }
                                 | Inr l \<Rightarrow>
                                     (case l of
                                        Some c \<Rightarrow>
                                          if heldByUs env (Some c) then State_Monad.return (Inr (c, True))
                                          else do { countClaim ''error''; State_Monad.return (Inl err) }
                                      | None \<Rightarrow> do { countClaim ''error''; State_Monad.return (Inl err) }) } }) }"

definition storeClaim ::
  "string \<Rightarrow> ClaimTarget \<Rightarrow> string \<Rightarrow> ClaimTarget \<Rightarrow> string \<Rightarrow> Claim \<Rightarrow> Claim option \<Rightarrow> go_time \<Rightarrow>
   ('w leaseManager, HeldClaim) state" where
  "storeClaim primaryKey primaryTarget secondaryKey secondaryTarget taskID primaryClaim secondaryClaim now =
     do { put_held primaryKey (zeroHeld\<lparr>hc_key := primaryKey, hc_target := primaryTarget, hc_taskID := taskID,
            hc_leaseToken := cl_LeaseToken primaryClaim, hc_leaseUntil := cl_LeaseUntil primaryClaim,
            hc_secondKey := secondaryKey, hc_secondTarget := secondaryTarget, hc_lastRenewAt := now,
            hc_secondToken := (case secondaryClaim of None \<Rightarrow> '''' | Some c \<Rightarrow> cl_LeaseToken c)\<rparr>);
          State_Monad.return \<lparr>HC_Key = primaryKey, HC_TaskID = taskID,
            HC_LeaseToken = cl_LeaseToken primaryClaim, HC_LeaseUntil = cl_LeaseUntil primaryClaim\<rparr> }"

definition notAnAddress :: claim_error where
  "notAnAddress = OtherError ''claim key is not a claim address''"

text \<open>Parsing the two keys of a claim; an empty secondary has no target.\<close>

definition takeoverTargets :: "string \<Rightarrow> string \<Rightarrow> (ClaimTarget \<times> ClaimTarget) result" where
  "takeoverTargets primary secondary =
     (case TargetFromKey primary of
        None \<Rightarrow> Inl notAnAddress
      | Some p \<Rightarrow>
          if secondary \<noteq> '''' then
            (case TargetFromKey secondary of None \<Rightarrow> Inl notAnAddress | Some s \<Rightarrow> Inr (p, s))
          else Inr (p, noTarget))"

definition claimPairLocked ::
  "'w lease_env \<Rightarrow> string \<Rightarrow> string \<Rightarrow> string \<Rightarrow> ('w leaseManager, HeldClaim result) state" where
  "claimPairLocked env primary secondary taskID =
     (case takeoverTargets primary secondary of
        Inl e \<Rightarrow> do { countClaim ''error''; State_Monad.return (Inl e) }
      | Inr (primaryTarget, secondaryTarget) \<Rightarrow>
          do { held \<leftarrow> gets lm_held;
               if findHeld held primary \<noteq> None \<or> (secondary \<noteq> '''' \<and> findHeld held secondary \<noteq> None) then
                 do { countClaim ''conflict''; State_Monad.return (Inl ErrLeaseConflict) }
               else
                 do { now \<leftarrow> now_of env;
                      created \<leftarrow> createPrimary env primaryTarget taskID;
                      case created of
                        Inl e \<Rightarrow> State_Monad.return (Inl e)
                      | Inr (primaryClaim, recovered) \<Rightarrow>
                          (if secondary = '''' then
                             do { h \<leftarrow> storeClaim primary primaryTarget '''' noTarget taskID primaryClaim None now;
                                  countClaimCreated recovered;
                                  State_Monad.return (Inr h) }
                           else
                             do { second \<leftarrow> acquire env secondaryTarget taskID;
                                  case second of
                                    Inr secondaryClaim \<Rightarrow>
                                      do { h \<leftarrow> storeClaim primary primaryTarget secondary secondaryTarget taskID
                                                 primaryClaim (Some secondaryClaim) now;
                                           countClaimCreated recovered;
                                           State_Monad.return (Inr h) }
                                  | Inl err \<Rightarrow>
                                      do { releaseRecovery env primaryTarget (cl_LeaseToken primaryClaim);
                                           if err = ErrClaimHeld then
                                             do { countClaim ''conflict''; State_Monad.return (Inl ErrLeaseConflict) }
                                           else
                                             do { countClaim ''error''; State_Monad.return (Inl err) } } }) } })"

definition ClaimPair ::
  "'w lease_env \<Rightarrow> string \<Rightarrow> string \<Rightarrow> string \<Rightarrow> ('w leaseManager, HeldClaim result) state" where
  "ClaimPair env primary secondary taskID = claimPairLocked env primary secondary taskID"

definition lm_Claim :: "'w lease_env \<Rightarrow> string \<Rightarrow> string \<Rightarrow> ('w leaseManager, HeldClaim result) state" where
  "lm_Claim env key taskID = ClaimPair env key '''' taskID"

section \<open>Releasing\<close>

definition releaseRef ::
  "'w lease_env \<Rightarrow> req_ctx \<Rightarrow> ClaimTarget \<Rightarrow> string \<Rightarrow> ('w leaseManager, string result) state" where
  "releaseRef env ctx target token =
     do { e \<leftarrow> in_world (cc_Release (le_claimClient env) ctx target token);
          State_Monad.return
            (case e of None \<Rightarrow> Inr ''released''
             | Some err \<Rightarrow> if err = ErrLeaseLost then Inr ''already_released'' else Inl err) }"

definition releaseRefWithDeadline ::
  "'w lease_env \<Rightarrow> ClaimTarget \<Rightarrow> string \<Rightarrow> ('w leaseManager, string result) state" where
  "releaseRefWithDeadline env target token =
     do { ctx \<leftarrow> requestContext env; releaseRef env ctx target token }"

definition pairRemovalResult :: "string \<Rightarrow> string \<Rightarrow> string" where
  "pairRemovalResult primary secondary =
     (if primary = ''already_released'' \<and> secondary = ''already_released'' then ''already_released''
      else ''released'')"

definition releaseLocked ::
  "'w lease_env \<Rightarrow> req_ctx \<Rightarrow> heldClaim \<Rightarrow> ('w leaseManager, claim_error option) state" where
  "releaseLocked env ctx h =
     do { running \<leftarrow> in_world (jc_IsJobRunning (le_jobControl env) ctx (hc_taskID h));
          case running of
            Inl err \<Rightarrow> do { countClaim ''error''; State_Monad.return (Some err) }
          | Inr r \<Rightarrow>
              (if r then State_Monad.return None
               else
                 do { primaryResult \<leftarrow> releaseRef env ctx (hc_target h) (hc_leaseToken h);
                      case primaryResult of
                        Inl err \<Rightarrow>
                          do { upd_held (hc_key h) (hc_releasePending_update (\<lambda>_. True));
                               countClaim ''error'';
                               State_Monad.return (Some err) }
                      | Inr p \<Rightarrow>
                          (if hc_secondKey h = '''' then
                             do { drop_held (hc_key h); countClaimRemoval p; State_Monad.return None }
                           else
                             do { secondaryResult \<leftarrow> releaseRef env ctx (hc_secondTarget h) (hc_secondToken h);
                                  case secondaryResult of
                                    Inl err \<Rightarrow>
                                      do { upd_held (hc_key h) (hc_releasePending_update (\<lambda>_. True));
                                           countClaim ''error'';
                                           State_Monad.return (Some err) }
                                  | Inr s \<Rightarrow>
                                      do { drop_held (hc_key h);
                                           countClaimRemoval (pairRemovalResult p s);
                                           State_Monad.return None } }) }) }"

definition lm_Release :: "'w lease_env \<Rightarrow> string \<Rightarrow> ('w leaseManager, claim_error option) state" where
  "lm_Release env key =
     do { held \<leftarrow> gets lm_held;
          case findHeld held key of
            None \<Rightarrow> State_Monad.return None
          | Some h \<Rightarrow>
              do { now \<leftarrow> now_of env;
                   if now < hc_holdUntil h then State_Monad.return None
                   else releaseLocked env CallerCtx h } }"

definition ReleaseAfterSuccess ::
  "'w lease_env \<Rightarrow> string \<Rightarrow> go_time \<Rightarrow> ('w leaseManager, claim_error option) state" where
  "ReleaseAfterSuccess env key completedAt =
     do { held \<leftarrow> gets lm_held;
          case findHeld held key of
            None \<Rightarrow> State_Monad.return None
          | Some h \<Rightarrow>
              do { now \<leftarrow> now_of env;
                   let holdUntil =
                     (if completedAt + SuccessGracePeriod > now + SuccessGracePeriod
                      then now + SuccessGracePeriod else completedAt + SuccessGracePeriod);
                   if now < holdUntil then
                     do { (if holdUntil > hc_holdUntil h
                          then upd_held (hc_key h) (hc_holdUntil_update (\<lambda>_. holdUntil))
                          else State_Monad.return ());
                          State_Monad.return None }
                   else if now < hc_holdUntil h then State_Monad.return None
                   else releaseLocked env CallerCtx h } }"

section \<open>Taking over\<close>

text \<open>\<open>takeoverRefusal\<close> counts when it refuses; the model returns the label with the error.\<close>

definition takeoverRefusal :: "go_time \<Rightarrow> Claim \<Rightarrow> (claim_error \<times> string) option" where
  "takeoverRefusal now listed =
     (if cl_LeaseUnreadable listed then Some (ErrLeaseNotExpired, ''takeover_too_early'')
      else if \<not> takeoverAllowed now (cl_LeaseUntil listed) then Some (ErrLeaseNotExpired, ''takeover_too_early'')
      else None)"

definition acquireForTakeover ::
  "'w lease_env \<Rightarrow> ClaimTarget \<Rightarrow> string \<Rightarrow> ('w leaseManager, (Claim \<times> bool) result) state" where
  "acquireForTakeover env target taskID =
     do { claim \<leftarrow> acquire env target taskID;
          case claim of
            Inr c \<Rightarrow> State_Monad.return (Inr (c, False))
          | Inl err \<Rightarrow>
              if err = ErrClaimHeld then
                do { countClaim ''conflict''; State_Monad.return (Inl ErrLeaseConflict) }
              else
                do { recovered \<leftarrow> readBackRecovery env target;
                     case recovered of
                       Inl _ \<Rightarrow> do { countClaim ''error''; State_Monad.return (Inl err) }
                     | Inr r \<Rightarrow>
                         (case r of
                            None \<Rightarrow> do { countClaim ''error''; State_Monad.return (Inl err) }
                          | Some c \<Rightarrow>
                              if heldByUs env (Some c) then
                                do { countClaim ''recovered''; State_Monad.return (Inr (c, True)) }
                              else do { countClaim ''error''; State_Monad.return (Inl err) }) } }"

definition takeoverResult :: "string \<Rightarrow> string \<Rightarrow> Claim \<Rightarrow> string \<Rightarrow> TakeoverResult" where
  "takeoverResult key taskID c prev =
     \<lparr>TR_Key = key, TR_TaskID = taskID, TR_LeaseToken = cl_LeaseToken c, TR_LeaseUntil = cl_LeaseUntil c,
      TR_PreviousTaskID = prev\<rparr>"

definition finishTakeoverPair ::
  "'w lease_env \<Rightarrow> string \<Rightarrow> string \<Rightarrow> ClaimTarget \<Rightarrow> ClaimTarget \<Rightarrow> string \<Rightarrow> Claim \<Rightarrow> Claim \<Rightarrow> bool \<Rightarrow> go_time \<Rightarrow>
   ('w leaseManager, TakeoverResult result) state" where
  "finishTakeoverPair env primary secondary primaryTarget secondaryTarget taskID primaryClaim listed
     recoveredPrimary now =
     do { second \<leftarrow> acquire env secondaryTarget taskID;
          case second of
            Inl err \<Rightarrow>
              do { releaseRecovery env primaryTarget (cl_LeaseToken primaryClaim);
                   if err = ErrClaimHeld then
                     do { countClaim ''conflict''; State_Monad.return (Inl ErrLeaseConflict) }
                   else do { countClaim ''error''; State_Monad.return (Inl err) } }
          | Inr secondaryClaim \<Rightarrow>
              do { storeClaim primary primaryTarget secondary secondaryTarget taskID primaryClaim
                     (Some secondaryClaim) now;
                   (if recoveredPrimary then State_Monad.return () else countClaim ''taken_over'');
                   State_Monad.return (Inr (takeoverResult primary taskID primaryClaim (cl_TaskID listed))) } }"

definition TakeoverPair ::
  "'w lease_env \<Rightarrow> string \<Rightarrow> string \<Rightarrow> string \<Rightarrow> ('w leaseManager, TakeoverResult result) state" where
  "TakeoverPair env primary secondary taskID =
     (case takeoverTargets primary secondary of
        Inl e \<Rightarrow> do { countClaim ''error''; State_Monad.return (Inl e) }
      | Inr (primaryTarget, secondaryTarget) \<Rightarrow>
          do { held \<leftarrow> gets lm_held;
               if findHeld held primary \<noteq> None \<or> (secondary \<noteq> '''' \<and> findHeld held secondary \<noteq> None) then
                 do { countClaim ''conflict''; State_Monad.return (Inl ErrLeaseConflict) }
               else
                 do { now \<leftarrow> now_of env;
                      r \<leftarrow> readBack env CallerCtx primaryTarget;
                      case r of
                        Inl e \<Rightarrow> do { countClaim ''error''; State_Monad.return (Inl e) }
                      | Inr None \<Rightarrow>
                          do { c \<leftarrow> claimPairLocked env primary secondary taskID;
                               State_Monad.return
                                 (case c of
                                    Inl e \<Rightarrow> Inl e
                                  | Inr h \<Rightarrow> Inr \<lparr>TR_Key = HC_Key h, TR_TaskID = HC_TaskID h,
                                      TR_LeaseToken = HC_LeaseToken h, TR_LeaseUntil = HC_LeaseUntil h,
                                      TR_PreviousTaskID = ''''\<rparr>) }
                      | Inr (Some listed) \<Rightarrow>
                          (case takeoverRefusal now listed of
                             Some (e, label) \<Rightarrow> do { countClaim label; State_Monad.return (Inl e) }
                           | None \<Rightarrow>
                               do { a \<leftarrow> acquireForTakeover env primaryTarget taskID;
                                    case a of
                                      Inl e \<Rightarrow> State_Monad.return (Inl e)
                                    | Inr (primaryClaim, recoveredPrimary) \<Rightarrow>
                                        (if secondary = '''' then
                                           do { storeClaim primary primaryTarget '''' noTarget taskID primaryClaim None now;
                                                (if recoveredPrimary then State_Monad.return ()
                                                else countClaim ''taken_over'');
                                                State_Monad.return
                                                  (Inr (takeoverResult primary taskID primaryClaim (cl_TaskID listed))) }
                                         else
                                           finishTakeoverPair env primary secondary primaryTarget secondaryTarget
                                             taskID primaryClaim listed recoveredPrimary now) }) } })"

definition lm_Takeover :: "'w lease_env \<Rightarrow> string \<Rightarrow> string \<Rightarrow> ('w leaseManager, TakeoverResult result) state" where
  "lm_Takeover env key taskID = TakeoverPair env key '''' taskID"


section \<open>Views of the held set\<close>

definition heldRows :: "heldClaim \<Rightarrow> HeldClaim list" where
  "heldRows h =
     \<lparr>HC_Key = hc_key h, HC_TaskID = hc_taskID h, HC_LeaseToken = hc_leaseToken h, HC_LeaseUntil = hc_leaseUntil h\<rparr> #
     (if hc_secondKey h \<noteq> '''' then
        [\<lparr>HC_Key = hc_secondKey h, HC_TaskID = hc_taskID h, HC_LeaseToken = hc_secondToken h,
          HC_LeaseUntil = hc_leaseUntil h\<rparr>]
      else [])"

definition HeldClaims :: "(string, heldClaim) gomap \<Rightarrow> HeldClaim list" where
  "HeldClaims held = sort_key HC_Key (concat (map (\<lambda>(k, h). heldRows h) held))"

text \<open>
  \<open>AuditMismatch\<close> as the number of increments of \<^verbatim>\<open>executor_claim_mismatch_total\<close>: a Go
  \<^verbatim>\<open>map[string]bool\<close> is ranged over its keys and read with \<^verbatim>\<open>false\<close> as the default.
\<close>

definition map_true :: "(string, bool) gomap \<Rightarrow> string \<Rightarrow> bool" where
  "map_true m k \<longleftrightarrow> map_of m k = Some True"

fun claimsWithoutJob :: "(string, bool) gomap \<Rightarrow> string list \<Rightarrow> string list \<Rightarrow> nat" where
  "claimsWithoutJob running counted [] = 0"
| "claimsWithoutJob running counted (t # ts) =
     (if t \<in> set counted then claimsWithoutJob running counted ts
      else (if map_true running t then 0 else 1) + claimsWithoutJob running (t # counted) ts)"

definition AuditMismatch :: "(string, heldClaim) gomap \<Rightarrow> (string, bool) gomap \<Rightarrow> nat" where
  "AuditMismatch m runningTaskIDs =
     (let held = map HC_TaskID (HeldClaims m)
      in length (filter (\<lambda>t. t \<notin> set held) (gomap_keys runningTaskIDs))
         + claimsWithoutJob runningTaskIDs [] held)"

section \<open>Recovering after a restart\<close>

definition claimKeyOf :: "Claim \<Rightarrow> string" where
  "claimKeyOf c = ''claims/'' @ cl_Scope c @ ''/'' @ cl_ID c"

definition targetFor :: "Claim \<Rightarrow> ClaimTarget" where
  "targetFor c = (case TargetFromKey (claimKeyOf c) of None \<Rightarrow> noTarget | Some t \<Rightarrow> t)"

definition secondKeyOf :: "Claim option \<Rightarrow> string" where
  "secondKeyOf c = (case c of None \<Rightarrow> '''' | Some x \<Rightarrow> claimKeyOf x)"

definition secondTargetOf :: "Claim option \<Rightarrow> ClaimTarget" where
  "secondTargetOf c = (case c of None \<Rightarrow> noTarget | Some x \<Rightarrow> targetFor x)"

definition secondTokenOf :: "Claim option \<Rightarrow> string" where
  "secondTokenOf c = (case c of None \<Rightarrow> '''' | Some x \<Rightarrow> cl_LeaseToken x)"

definition recoveredLeaseUntil :: "go_time \<Rightarrow> Claim \<Rightarrow> ('w leaseManager, go_time) state" where
  "recoveredLeaseUntil now listed =
     (if cl_LeaseUnreadable listed then
        do { countClaim ''error''; State_Monad.return (now + (- LeaseDuration)) }
      else State_Monad.return (cl_LeaseUntil listed))"

definition recoverFenceGroup ::
  "'w lease_env \<Rightarrow> Claim \<Rightarrow> Claim option \<Rightarrow> go_time \<Rightarrow> ('w leaseManager, unit) state" where
  "recoverFenceGroup env primary secondary leaseUntil =
     do { running \<leftarrow> in_world (jc_IsJobRunning (le_jobControl env) CallerCtx (cl_TaskID primary));
          (case running of Inl _ \<Rightarrow> countClaim ''error'' | Inr _ \<Rightarrow> State_Monad.return ());
          deleted \<leftarrow>
            (if running \<noteq> Inr False
             then in_world (jc_DeleteJob (le_jobControl env) CallerCtx (cl_TaskID primary))
             else State_Monad.return None);
          case deleted of
            Some err \<Rightarrow>
              do { countClaim ''error'';
                   countClaimFencePending;
                   put_held (claimKeyOf primary)
                     (zeroHeld\<lparr>hc_key := claimKeyOf primary, hc_target := targetFor primary,
                        hc_taskID := cl_TaskID primary, hc_leaseToken := cl_LeaseToken primary,
                        hc_leaseUntil := leaseUntil, hc_pendingJobDeletion := True,
                        hc_pendingDeletionPath := ''fence'', hc_secondKey := secondKeyOf secondary,
                        hc_secondTarget := secondTargetOf secondary, hc_secondToken := secondTokenOf secondary\<rparr>) }
          | None \<Rightarrow>
              do { bestEffortRelease env
                     (zeroHeld\<lparr>hc_key := claimKeyOf primary, hc_target := targetFor primary,
                        hc_taskID := cl_TaskID primary, hc_leaseToken := cl_LeaseToken primary,
                        hc_secondKey := secondKeyOf secondary, hc_secondTarget := secondTargetOf secondary,
                        hc_secondToken := secondTokenOf secondary\<rparr>);
                   countClaimRemoval ''fenced'' } }"

definition storeRecoveredPair ::
  "Claim \<Rightarrow> Claim \<Rightarrow> go_time \<Rightarrow> go_time \<Rightarrow> bool \<Rightarrow> ('w leaseManager, unit) state" where
  "storeRecoveredPair primary secondary leaseUntil now needsRunningCheck =
     put_held (claimKeyOf primary)
       (zeroHeld\<lparr>hc_key := claimKeyOf primary, hc_target := targetFor primary, hc_taskID := cl_TaskID primary,
          hc_leaseToken := cl_LeaseToken primary, hc_leaseUntil := leaseUntil,
          hc_secondKey := claimKeyOf secondary, hc_secondTarget := targetFor secondary,
          hc_secondToken := cl_LeaseToken secondary, hc_lastRenewAt := now, hc_renewNextTick := True,
          hc_needsRunningCheck := needsRunningCheck\<rparr>)"

definition repairOrAdoptSingle ::
  "Claim \<Rightarrow> go_time \<Rightarrow> go_time \<Rightarrow> bool \<Rightarrow> ('w leaseManager, unit) state" where
  "repairOrAdoptSingle primary leaseUntil now needsRunningCheck =
     do { put_held (claimKeyOf primary)
            (zeroHeld\<lparr>hc_key := claimKeyOf primary, hc_target := targetFor primary, hc_taskID := cl_TaskID primary,
               hc_leaseToken := cl_LeaseToken primary, hc_leaseUntil := leaseUntil, hc_lastRenewAt := now,
               hc_renewNextTick := True, hc_needsRunningCheck := needsRunningCheck\<rparr>);
          if \<not> needsRunningCheck then countClaim ''adopted'' else State_Monad.return () }"

definition recoverAdoptGroup ::
  "'w lease_env \<Rightarrow> Claim \<Rightarrow> Claim option \<Rightarrow> go_time \<Rightarrow> go_time \<Rightarrow> ('w leaseManager, unit) state" where
  "recoverAdoptGroup env primary secondary leaseUntil now =
     do { running \<leftarrow> in_world (jc_IsJobRunning (le_jobControl env) CallerCtx (cl_TaskID primary));
          case running of
            Inl err \<Rightarrow>
              do { countClaim ''error'';
                   (case secondary of
                      None \<Rightarrow> repairOrAdoptSingle primary leaseUntil now True
                    | Some s \<Rightarrow> storeRecoveredPair primary s leaseUntil now True) }
          | Inr r \<Rightarrow>
              (if r then
                 (case secondary of
                    None \<Rightarrow> repairOrAdoptSingle primary leaseUntil now False
                  | Some s \<Rightarrow>
                      do { storeRecoveredPair primary s leaseUntil now False; countClaim ''adopted'' })
               else
                 do { primaryResult \<leftarrow> releaseRef env CallerCtx (targetFor primary) (cl_LeaseToken primary);
                      case primaryResult of
                        Inl _ \<Rightarrow> countClaim ''error''
                      | Inr p \<Rightarrow>
                          (case secondary of
                             None \<Rightarrow> countClaimRemoval p
                           | Some s \<Rightarrow>
                               do { secondaryResult \<leftarrow>
                                      releaseRef env CallerCtx (targetFor s) (cl_LeaseToken s);
                                    case secondaryResult of
                                      Inl _ \<Rightarrow> countClaim ''error''
                                    | Inr q \<Rightarrow> countClaimRemoval (pairRemovalResult p q) }) }) }"

definition recoverGroup :: "'w lease_env \<Rightarrow> Claim \<Rightarrow> Claim option \<Rightarrow> ('w leaseManager, unit) state" where
  "recoverGroup env primary secondary =
     do { now \<leftarrow> now_of env;
          primaryLease \<leftarrow> recoveredLeaseUntil now primary;
          leaseUntil \<leftarrow>
            (case secondary of
               None \<Rightarrow> State_Monad.return primaryLease
             | Some s \<Rightarrow>
                 do { secondaryLease \<leftarrow> recoveredLeaseUntil now s;
                      State_Monad.return (if secondaryLease < primaryLease then secondaryLease else primaryLease) });
          if fenceDue now leaseUntil then recoverFenceGroup env primary secondary leaseUntil
          else recoverAdoptGroup env primary secondary leaseUntil now }"

text \<open>The last claim of a scope, as the loop over the group leaves it.\<close>

definition lastOfScope :: "string \<Rightarrow> Claim list \<Rightarrow> Claim option" where
  "lastOfScope scope claims = find (\<lambda>c. cl_Scope c = scope) (rev claims)"

definition recoverSingles :: "'w lease_env \<Rightarrow> Claim list \<Rightarrow> ('w leaseManager, unit) state" where
  "recoverSingles env claims =
     for_each (sort_key claimKeyOf claims) (\<lambda>c. recoverGroup env c None)"

definition recoverTaskGroup :: "'w lease_env \<Rightarrow> Claim list \<Rightarrow> ('w leaseManager, unit) state" where
  "recoverTaskGroup env claims =
     (if length claims = 2 then
        (case (lastOfScope ''repo'' claims, lastOfScope ''pr'' claims) of
           (Some repoClaim, Some prClaim) \<Rightarrow> recoverGroup env repoClaim (Some prClaim)
         | _ \<Rightarrow> recoverSingles env claims)
      else recoverSingles env claims)"

definition Recover :: "'w lease_env \<Rightarrow> ('w leaseManager, claim_error option) state" where
  "Recover env =
     do { claims \<leftarrow> in_world (cc_List (le_claimClient env) CallerCtx (le_cluster env));
          case claims of
            Inl err \<Rightarrow> do { countClaim ''error''; State_Monad.return (Some err) }
          | Inr cs \<Rightarrow>
              do { for_each (sort (remdups (map cl_TaskID cs)))
                     (\<lambda>t. recoverTaskGroup env (filter (\<lambda>c. cl_TaskID c = t) cs));
                   State_Monad.return None } }"

section \<open>Recovery at startup\<close>

definition recoverStartupAttempts :: nat where "recoverStartupAttempts = 5"

text \<open>
  \<open>waitForTaskView\<close> blocks on three channels: the events are the order in which they become ready,
  and \<open>viewReady\<close> is asked at each tick. The result says whether the view was seen ready.
\<close>

datatype wait_event = WaitCtxDone | WaitDeadline | WaitTick

fun waitForTaskView :: "wait_event list \<Rightarrow> ('s, bool) state \<Rightarrow> ('s, bool) state" where
  "waitForTaskView [] viewReady = State_Monad.return False"
| "waitForTaskView (WaitTick # es) viewReady =
     do { ready \<leftarrow> viewReady; if ready then State_Monad.return True else waitForTaskView es viewReady }"
| "waitForTaskView (_ # es) viewReady = State_Monad.return False"

fun recoverAttempts :: "'w lease_env \<Rightarrow> nat \<Rightarrow> ('w leaseManager, bool) state" where
  "recoverAttempts env 0 = State_Monad.return False"
| "recoverAttempts env (Suc n) =
     do { err \<leftarrow> Recover env;
          if err = None then State_Monad.return True
          else do { done \<leftarrow> gets (\<lambda>m. le_ctxDone env (lm_world m));
                    if done then State_Monad.return False else recoverAttempts env n } }"

text \<open>\<open>RecoverAtStartup\<close> never returns an error; the model returns whether an attempt succeeded.\<close>

definition RecoverAtStartup ::
  "'w lease_env \<Rightarrow> ('w leaseManager, bool) state option \<Rightarrow> wait_event list \<Rightarrow> ('w leaseManager, bool) state" where
  "RecoverAtStartup env viewReady events =
     do { (case viewReady of
             None \<Rightarrow> State_Monad.return False
           | Some check \<Rightarrow>
               do { ready \<leftarrow> check; if ready then State_Monad.return True else waitForTaskView events check });
          recoverAttempts env recoverStartupAttempts }"


section \<open>Reasoning about the manager's operations\<close>

text \<open>
  \<open>keeps x\<close>: the operation does not touch the held set. \<open>held_step R x\<close>: it changes the held set
  along \<open>R\<close> at most, whatever the world answers.
\<close>

named_theorems keeps_rules \<open>operations that leave the held set alone\<close>
named_theorems step_rules \<open>how operations change the held set\<close>

definition held_step ::
  "((string, heldClaim) gomap \<Rightarrow> (string, heldClaim) gomap \<Rightarrow> bool) \<Rightarrow> ('w leaseManager, 'a) state \<Rightarrow> bool" where
  "held_step R x \<longleftrightarrow> (\<forall>m. R (lm_held m) (lm_held (snd (run_state x m))))"

abbreviation keeps :: "('w leaseManager, 'a) state \<Rightarrow> bool" where
  "keeps x \<equiv> held_step (=) x"

lemma wp_in_world [wp_rules]:
  "wp (in_world x) Q m =
     (\<forall>a w'. run_state x (lm_world m) = (a, w') \<longrightarrow> Q a (m\<lparr>lm_world := w'\<rparr>))"
  by (simp add: wp_def in_world_def split: prod.split)

lemma wp_held_step:
  "held_step R x \<Longrightarrow> (\<And>a m'. R (lm_held m) (lm_held m') \<Longrightarrow> Q a m') \<Longrightarrow> wp x Q m"
  by (metis held_step_def snd_conv wpI)

lemma held_stepI: "(\<And>m. wp x (\<lambda>a m'. R (lm_held m) (lm_held m')) m) \<Longrightarrow> held_step R x"
  unfolding held_step_def wp_def by (simp add: case_prod_unfold)

lemma held_stepD: "held_step R x \<Longrightarrow> run_state x m = (a, m') \<Longrightarrow> R (lm_held m) (lm_held m')"
  by (metis held_step_def snd_conv)

lemma held_step_bind:
  "transp R \<Longrightarrow> held_step R x \<Longrightarrow> (\<And>a. held_step R (f a)) \<Longrightarrow> held_step R (State_Monad.bind x f)"
  unfolding held_step_def by (auto split: prod.split dest: transpD) (metis snd_conv transpD)

lemma held_step_mono: "held_step R x \<Longrightarrow> (\<And>a b. R a b \<Longrightarrow> S a b) \<Longrightarrow> held_step S x"
  by (simp add: held_step_def)

lemma held_step_return: "reflp R \<Longrightarrow> held_step R (State_Monad.return a)"
  by (simp add: held_step_def reflpD)

lemma held_step_for_each:
  "reflp R \<Longrightarrow> transp R \<Longrightarrow> (\<And>k. held_step R (f k)) \<Longrightarrow> held_step R (for_each ks f)"
  by (induction ks) (auto intro: held_step_return held_step_bind)

lemma keeps_basic [keeps_rules]:
  "keeps (State_Monad.return a)" "keeps (gets g)" "keeps (in_world x)" "keeps (countClaim l)"
  by (simp_all add: held_step_def in_world_def countClaim_def split: prod.split)

lemma keeps_bind [keeps_rules]: "keeps x \<Longrightarrow> (\<And>a. keeps (f a)) \<Longrightarrow> keeps (State_Monad.bind x f)"
  by (rule held_step_bind) (auto intro: transpI)

lemma keeps_cases [keeps_rules]:
  "keeps x \<Longrightarrow> keeps y \<Longrightarrow> keeps (if b then x else y)"
  "keeps x \<Longrightarrow> (\<And>a. keeps (f a)) \<Longrightarrow> keeps (case z of None \<Rightarrow> x | Some a \<Rightarrow> f a)"
  "(\<And>a. keeps (g a)) \<Longrightarrow> (\<And>b. keeps (h b)) \<Longrightarrow> keeps (case s of Inl a \<Rightarrow> g a | Inr b \<Rightarrow> h b)"
  "(\<And>a b. keeps (k a b)) \<Longrightarrow> keeps (case p of (a, b) \<Rightarrow> k a b)"
  by (auto split: option.split sum.split prod.split)

lemma keeps_ops [keeps_rules]:
  "keeps (now_of env)" "keeps (get_held k)" "keeps (countClaimRemoval l)" "keeps countClaimFencePending"
  "keeps (countClaimCreated b)"
  unfolding now_of_def get_held_def countClaimRemoval_def countClaimFencePending_def countClaimCreated_def
  by (intro keeps_rules)+

lemma keeps_requestContext [keeps_rules]: "keeps (requestContext env)"
  unfolding requestContext_def by (intro keeps_rules)

lemma keeps_readBack [keeps_rules]: "keeps (readBack env ctx t)" "keeps (readBackRecovery env t)"
  unfolding readBackRecovery_def readBack_def by (intro keeps_rules)+

lemma keeps_release [keeps_rules]:
  "keeps (releaseRecovery env t tok)" "keeps (bestEffortRelease env h)" "keeps (releaseRef env ctx t tok)"
  "keeps (releaseRefWithDeadline env t tok)" "keeps (acquire env t tid)"
  unfolding releaseRecovery_def bestEffortRelease_def releaseRef_def releaseRefWithDeadline_def acquire_def
  by (intro keeps_rules)+

lemma keeps_create [keeps_rules]: "keeps (createPrimary env t tid)" "keeps (acquireForTakeover env t tid)"
  unfolding createPrimary_def acquireForTakeover_def by (intro keeps_rules)+

lemma keeps_recoveredLeaseUntil [keeps_rules]: "keeps (recoveredLeaseUntil now c)"
  unfolding recoveredLeaseUntil_def by (intro keeps_rules)


text \<open>
  \<open>within P\<close>: no key is added, and what remains of a claim is related to what it was by \<open>P\<close>.
\<close>

definition within ::
  "(heldClaim \<Rightarrow> heldClaim \<Rightarrow> bool) \<Rightarrow> (string, heldClaim) gomap \<Rightarrow> (string, heldClaim) gomap \<Rightarrow> bool" where
  "within P H H' \<longleftrightarrow>
     (gomap_wf H \<longrightarrow> gomap_wf H' \<and> (\<forall>k h'. map_of H' k = Some h' \<longrightarrow> (\<exists>h. map_of H k = Some h \<and> P h h')))"

locale evolution =
  fixes P :: "heldClaim \<Rightarrow> heldClaim \<Rightarrow> bool"
  assumes P_refl: "P h h"
    and P_trans: "P a b \<Longrightarrow> P b c \<Longrightarrow> P a c"
begin

lemma within_refl: "reflp (within P)"
  by (rule reflpI) (auto simp: within_def intro: P_refl)

lemma within_trans: "transp (within P)"
  by (rule transpI) (unfold within_def, meson P_trans)

lemma evolve_return: "held_step (within P) (State_Monad.return a)"
  using within_refl by (rule held_step_return)

lemma evolve_bind:
  "held_step (within P) x \<Longrightarrow> (\<And>a. held_step (within P) (f a)) \<Longrightarrow> held_step (within P) (State_Monad.bind x f)"
  using within_trans by (rule held_step_bind)

lemma evolve_for_each:
  "(\<And>k. held_step (within P) (f k)) \<Longrightarrow> held_step (within P) (for_each ks f)"
  using within_refl within_trans by (rule held_step_for_each)

lemma evolve_keeps: "keeps x \<Longrightarrow> held_step (within P) x"
  by (erule held_step_mono) (use within_refl in \<open>auto dest: reflpD\<close>)

lemma evolve_drop: "held_step (within P) (drop_held k)"
  by (auto simp: held_step_def drop_held_def within_def map_of_delete_Some intro: P_refl)

lemma evolve_upd: "(\<And>h. P h (f h)) \<Longrightarrow> held_step (within P) (upd_held k f)"
  by (auto simp: held_step_def upd_held_def within_def map_of_entry_Some intro: P_refl
      split: if_splits)

lemma evolve_cases:
  "held_step (within P) x \<Longrightarrow> held_step (within P) y \<Longrightarrow> held_step (within P) (if b then x else y)"
  "held_step (within P) x \<Longrightarrow> (\<And>a. held_step (within P) (f a)) \<Longrightarrow>
     held_step (within P) (case z of None \<Rightarrow> x | Some a \<Rightarrow> f a)"
  "(\<And>a. held_step (within P) (g a)) \<Longrightarrow> (\<And>b. held_step (within P) (h b)) \<Longrightarrow>
     held_step (within P) (case s of Inl a \<Rightarrow> g a | Inr b \<Rightarrow> h b)"
  by (auto split: option.split sum.split)

lemmas evolve = evolve_keeps [OF keeps_basic(1)] evolve_keeps [OF keeps_basic(2)]
  evolve_keeps [OF keeps_basic(3)] evolve_keeps [OF keeps_basic(4)]
  evolve_bind evolve_cases evolve_drop

end


text \<open>The identity of a claim, and the lease it is judged by.\<close>

definition same_claim :: "heldClaim \<Rightarrow> heldClaim \<Rightarrow> bool" where
  "same_claim h h' \<longleftrightarrow>
     hc_key h' = hc_key h \<and> hc_target h' = hc_target h \<and> hc_taskID h' = hc_taskID h \<and>
     hc_secondKey h' = hc_secondKey h \<and> hc_secondTarget h' = hc_secondTarget h"

definition same_lease :: "heldClaim \<Rightarrow> heldClaim \<Rightarrow> bool" where
  "same_lease h h' \<longleftrightarrow>
     same_claim h h' \<and> hc_leaseUntil h' = hc_leaseUntil h \<and> hc_leaseToken h' = hc_leaseToken h \<and>
     (hc_pendingJobDeletion h \<longrightarrow> hc_pendingJobDeletion h') \<and> (hc_releasePending h \<longrightarrow> hc_releasePending h')"

interpretation ident: evolution same_claim
  by unfold_locales (auto simp: same_claim_def)

interpretation lease: evolution same_lease
  by unfold_locales (auto simp: same_lease_def same_claim_def)

lemma within_lease_ident: "held_step (within same_lease) x \<Longrightarrow> held_step (within same_claim) x"
  by (erule held_step_mono) (unfold within_def same_lease_def, blast)

lemma wp_keeps: "keeps x \<Longrightarrow> (\<And>a m'. lm_held m' = lm_held m \<Longrightarrow> Q a m') \<Longrightarrow> wp x Q m"
  by (erule wp_held_step) auto

lemmas wp_frames =
  wp_keeps [OF keeps_ops(1)] wp_keeps [OF keeps_requestContext] wp_keeps [OF keeps_readBack(1)]
  wp_keeps [OF keeps_readBack(2)] wp_keeps [OF keeps_release(1)] wp_keeps [OF keeps_release(2)]
  wp_keeps [OF keeps_release(3)] wp_keeps [OF keeps_release(4)] wp_keeps [OF keeps_release(5)]
  wp_keeps [OF keeps_create(1)] wp_keeps [OF keeps_create(2)] wp_keeps [OF keeps_recoveredLeaseUntil]

lemma step_releaseLocked: "held_step (within same_lease) (releaseLocked env ctx h)"
  unfolding releaseLocked_def
  by (intro lease.evolve lease.evolve_keeps [OF keeps_release(3)] lease.evolve_keeps [OF keeps_ops(3)]
      lease.evolve_upd) (auto simp: same_lease_def same_claim_def)

lemma step_Release: "held_step (within same_lease) (lm_Release env key)"
  unfolding lm_Release_def
  by (intro lease.evolve lease.evolve_keeps [OF keeps_ops(1)] step_releaseLocked)

lemma step_ReleaseAfterSuccess: "held_step (within same_lease) (ReleaseAfterSuccess env key t)"
  unfolding ReleaseAfterSuccess_def Let_def
  by (intro lease.evolve lease.evolve_keeps [OF keeps_ops(1)] step_releaseLocked lease.evolve_upd)
    (auto simp: same_lease_def same_claim_def)

section \<open>Claiming is all or nothing\<close>

lemma wp_storeClaim [wp_rules]:
  "wp (storeClaim pk pt sk st tid pc sc now) Q m \<longleftrightarrow>
     Q \<lparr>HC_Key = pk, HC_TaskID = tid, HC_LeaseToken = cl_LeaseToken pc, HC_LeaseUntil = cl_LeaseUntil pc\<rparr>
       (m\<lparr>lm_held := AList.update pk (zeroHeld\<lparr>hc_key := pk, hc_target := pt, hc_taskID := tid,
            hc_leaseToken := cl_LeaseToken pc, hc_leaseUntil := cl_LeaseUntil pc,
            hc_secondKey := sk, hc_secondTarget := st, hc_lastRenewAt := now,
            hc_secondToken := (case sc of None \<Rightarrow> '''' | Some c \<Rightarrow> cl_LeaseToken c)\<rparr>) (lm_held m)\<rparr>)"
  by (simp add: storeClaim_def put_held_def wp_rules)

lemma wp_countClaim [wp_rules]:
  "wp (countClaim l) Q m = Q () (m\<lparr>lm_counts := lm_counts m @ [l]\<rparr>)"
  "wp (countClaimRemoval l) Q m = Q () (m\<lparr>lm_counts := lm_counts m @ [l]\<rparr>)"
  by (simp_all add: countClaimRemoval_def countClaim_def wp_rules)

lemma wp_held_ops [wp_rules]:
  "wp (drop_held k) Q m = Q () (m\<lparr>lm_held := AList.delete k (lm_held m)\<rparr>)"
  "wp (upd_held k f) Q m = Q () (m\<lparr>lm_held := AList.map_entry k f (lm_held m)\<rparr>)"
  "wp (put_held k h) Q m = Q () (m\<lparr>lm_held := AList.update k h (lm_held m)\<rparr>)"
  "wp (get_held k) R m = R (map_of (lm_held m) k) m"
  "wp countClaimFencePending Q m = Q () (m\<lparr>lm_counts := lm_counts m @ [''fenced'']\<rparr>)"
  by (simp_all add: drop_held_def upd_held_def put_held_def get_held_def countClaimFencePending_def wp_rules)

text \<open>The claim a successful acquisition adds to the held set.\<close>

definition fresh_claim :: "string \<Rightarrow> string \<Rightarrow> string \<Rightarrow> heldClaim \<Rightarrow> bool" where
  "fresh_claim primary secondary taskID h \<longleftrightarrow>
     hc_key h = primary \<and> hc_taskID h = taskID \<and> hc_secondKey h = secondary \<and>
     TargetFromKey primary = Some (hc_target h) \<and>
     (if secondary = '''' then hc_secondTarget h = noTarget
      else TargetFromKey secondary = Some (hc_secondTarget h)) \<and>
     \<not> hc_pendingJobDeletion h \<and> \<not> hc_releasePending h \<and> is_zero (hc_holdUntil h)"

definition acquired ::
  "string \<Rightarrow> string \<Rightarrow> string \<Rightarrow> (string, heldClaim) gomap \<Rightarrow> (string, heldClaim) gomap \<Rightarrow> bool" where
  "acquired primary secondary taskID H H' \<longleftrightarrow>
     findHeld H primary = None \<and> (secondary \<noteq> '''' \<longrightarrow> findHeld H secondary = None) \<and>
     (\<exists>h. fresh_claim primary secondary taskID h \<and> H' = AList.update primary h H)"

lemma acquiredI:
  "fresh_claim p s tid h \<Longrightarrow> findHeld H p = None \<Longrightarrow> (s \<noteq> '''' \<Longrightarrow> findHeld H s = None) \<Longrightarrow>
     acquired p s tid H (AList.update p h H)"
  by (auto simp: acquired_def)

lemma takeoverTargets_ok:
  "takeoverTargets p s = Inr (pt, st) \<Longrightarrow>
     TargetFromKey p = Some pt \<and> (if s = '''' then st = noTarget else TargetFromKey s = Some st)"
  by (auto simp: takeoverTargets_def split: option.splits if_splits)

text \<open>All or nothing: an error leaves the held set as it was, a success adds exactly the claim.\<close>

definition outcome ::
  "string \<Rightarrow> string \<Rightarrow> string \<Rightarrow> (string, heldClaim) gomap \<Rightarrow> 'a result \<Rightarrow> (string, heldClaim) gomap \<Rightarrow> bool" where
  "outcome primary secondary taskID H r H' \<longleftrightarrow>
     (case r of Inl _ \<Rightarrow> H' = H | Inr _ \<Rightarrow> acquired primary secondary taskID H H')"

lemma outcome_simps [simp]:
  "outcome p s tid H (Inl e) H' \<longleftrightarrow> H' = H"
  "outcome p s tid H (Inr x) H' \<longleftrightarrow> acquired p s tid H H'"
  by (simp_all add: outcome_def)

lemma outcome_case:
  "outcome p s tid H r H' \<Longrightarrow> outcome p s tid H (case r of Inl e \<Rightarrow> Inl e | Inr h \<Rightarrow> Inr (f h)) H'"
  by (cases r) auto

lemmas claim_simps = wp_rules fresh_claim_def zeroHeld_def countClaimCreated_def is_zero_def

lemma claimPairLocked_outcome:
  "wp (claimPairLocked env p s tid) (\<lambda>r m'. outcome p s tid (lm_held m) r (lm_held m')) m"
  unfolding claimPairLocked_def
  by (auto simp: claim_simps dest!: takeoverTargets_ok intro!: wp_frames acquiredI)

lemma finishTakeoverPair_outcome:
  assumes "TargetFromKey p = Some pt" "s \<noteq> []" "TargetFromKey s = Some st"
    "findHeld (lm_held m) p = None" "findHeld (lm_held m) s = None"
  shows "wp (finishTakeoverPair env p s pt st tid pc listed rec now)
     (\<lambda>r m'. outcome p s tid (lm_held m) r (lm_held m')) m"
  unfolding finishTakeoverPair_def
  using assms by (auto simp: claim_simps intro!: wp_frames acquiredI)

lemma TakeoverPair_outcome:
  "wp (TakeoverPair env p s tid) (\<lambda>r m'. outcome p s tid (lm_held m) r (lm_held m')) m"
  unfolding TakeoverPair_def
  by (auto simp: claim_simps dest!: takeoverTargets_ok split: option.split
      intro!: wp_frames acquiredI outcome_case wp_mono [OF claimPairLocked_outcome]
        wp_mono [OF finishTakeoverPair_outcome])


section \<open>The held set is well formed\<close>

text \<open>
  Every entry is stored under its own key and carries the address that key names, so a renew or a
  release addresses the claim the key stands for.
\<close>

definition keyTarget :: "string \<Rightarrow> ClaimTarget" where
  "keyTarget k = (case TargetFromKey k of None \<Rightarrow> noTarget | Some t \<Rightarrow> t)"

definition claim_wf :: "string \<Rightarrow> heldClaim \<Rightarrow> bool" where
  "claim_wf k h \<longleftrightarrow>
     hc_key h = k \<and> hc_target h = keyTarget k \<and>
     hc_secondTarget h = (if hc_secondKey h = '''' then noTarget else keyTarget (hc_secondKey h))"

definition held_wf :: "(string, heldClaim) gomap \<Rightarrow> bool" where
  "held_wf H \<longleftrightarrow> gomap_wf H \<and> (\<forall>k h. map_of H k = Some h \<longrightarrow> claim_wf k h)"

abbreviation keeps_wf :: "(string, heldClaim) gomap \<Rightarrow> (string, heldClaim) gomap \<Rightarrow> bool" where
  "keeps_wf H H' \<equiv> held_wf H \<longrightarrow> held_wf H'"

lemma held_wf_nil [simp]: "held_wf []"
  by (simp add: held_wf_def)

lemma held_wf_update: "held_wf H \<Longrightarrow> claim_wf k h \<Longrightarrow> held_wf (AList.update k h H)"
  by (auto simp: held_wf_def update_conv)

lemma held_wf_within: "within same_claim H H' \<Longrightarrow> keeps_wf H H'"
proof
  assume w: "within same_claim H H'" and wf: "held_wf H"
  have "claim_wf k h'" if h': "map_of H' k = Some h'" for k h'
  proof -
    from w wf h' obtain h where "map_of H k = Some h" "same_claim h h'"
      unfolding within_def held_wf_def by blast
    with wf show ?thesis by (auto simp: held_wf_def claim_wf_def same_claim_def)
  qed
  with w wf show "held_wf H'" by (simp add: held_wf_def within_def)
qed

lemma held_wf_acquired: "acquired p s tid H H' \<Longrightarrow> keeps_wf H H'"
  by (auto simp: acquired_def fresh_claim_def claim_wf_def keyTarget_def intro!: held_wf_update)

lemma held_wf_outcome: "outcome p s tid H r H' \<Longrightarrow> keeps_wf H H'"
  by (cases r) (auto dest: held_wf_acquired)

lemma keeps_wf_refl: "reflp keeps_wf"
  by (rule reflpI) simp

lemma keeps_wf_trans: "transp keeps_wf"
  by (rule transpI) auto

lemma wf_keeps: "keeps x \<Longrightarrow> held_step keeps_wf x"
  by (erule held_step_mono) simp

lemma wf_put_held: "claim_wf k h \<Longrightarrow> held_step keeps_wf (put_held k h)"
  by (auto simp: held_step_def put_held_def intro: held_wf_update)

lemmas wf_bind = held_step_bind [OF keeps_wf_trans]

lemma targetFor_key: "targetFor c = keyTarget (claimKeyOf c)"
  by (simp add: targetFor_def keyTarget_def)

lemma claimKeyOf_ne: "claimKeyOf c \<noteq> ''''"
  by (simp add: claimKeyOf_def)

lemma wf_adopt:
  "held_step keeps_wf (repairOrAdoptSingle c l now b)" "held_step keeps_wf (storeRecoveredPair c d l now b)"
  unfolding repairOrAdoptSingle_def storeRecoveredPair_def put_held_def
  by (auto intro!: held_stepI held_wf_update
      simp: wp_rules claim_wf_def zeroHeld_def targetFor_key claimKeyOf_ne)

lemma second_wf:
  "secondTargetOf c = (if secondKeyOf c = '''' then noTarget else keyTarget (secondKeyOf c))"
  by (cases c) (auto simp: secondTargetOf_def secondKeyOf_def targetFor_key claimKeyOf_ne)

lemma wf_recoverFenceGroup: "held_step keeps_wf (recoverFenceGroup env c s l)"
proof (rule held_stepI)
  fix m
  show "wp (recoverFenceGroup env c s l) (\<lambda>a m'. keeps_wf (lm_held m) (lm_held m')) m"
    unfolding recoverFenceGroup_def countClaimFencePending_def put_held_def
    by (auto simp: wp_rules claim_wf_def zeroHeld_def targetFor_key second_wf
        intro!: wp_frames held_wf_update split: sum.split)
qed

lemma wf_recoverAdoptGroup: "held_step keeps_wf (recoverAdoptGroup env c s l now)"
proof (rule held_stepI)
  fix m
  show "wp (recoverAdoptGroup env c s l now) (\<lambda>a m'. keeps_wf (lm_held m) (lm_held m')) m"
    unfolding recoverAdoptGroup_def
    by (auto simp: wp_rules intro!: wp_frames wp_held_step [OF wf_adopt(1)] wp_held_step [OF wf_adopt(2)])
qed

lemma wf_recoverGroup: "held_step keeps_wf (recoverGroup env c s)"
proof (rule held_stepI)
  fix m
  show "wp (recoverGroup env c s) (\<lambda>a m'. keeps_wf (lm_held m) (lm_held m')) m"
    unfolding recoverGroup_def
    by (auto simp: wp_rules intro!: wp_frames wp_held_step [OF wf_recoverFenceGroup]
        wp_held_step [OF wf_recoverAdoptGroup])
qed

lemma wf_recoverTaskGroup: "held_step keeps_wf (recoverTaskGroup env cs)"
  unfolding recoverTaskGroup_def recoverSingles_def
  by (auto intro!: wf_recoverGroup held_step_for_each keeps_wf_refl keeps_wf_trans split: option.split)

lemma wf_Recover: "held_step keeps_wf (Recover env)"
proof (rule held_stepI)
  fix m
  have "held_step keeps_wf (for_each ts (\<lambda>t. recoverTaskGroup env (filter (\<lambda>c. cl_TaskID c = t) cs)))" for ts cs
    by (intro held_step_for_each keeps_wf_refl keeps_wf_trans wf_recoverTaskGroup)
  from wp_held_step [OF this]
  show "wp (Recover env) (\<lambda>a m'. keeps_wf (lm_held m) (lm_held m')) m"
    unfolding Recover_def by (auto simp: wp_rules)
qed

lemmas wf_ops =
  held_step_mono [OF within_lease_ident [OF step_Release] held_wf_within]
  held_step_mono [OF within_lease_ident [OF step_ReleaseAfterSuccess] held_wf_within]
  wf_Recover

section \<open>The request deadline\<close>

text \<open>The earliest fence instant of the claims that still have a Job to stop.\<close>

definition fence_instants :: "(string, heldClaim) gomap \<Rightarrow> go_time set" where
  "fence_instants H = {fenceAt (hc_leaseUntil h) | k h. (k, h) \<in> set H \<and> \<not> hc_pendingJobDeletion h}"

lemma fence_instants_Cons:
  "fence_instants ((k, h) # H) =
     (if hc_pendingJobDeletion h then {} else {fenceAt (hc_leaseUntil h)}) \<union> fence_instants H"
  by (auto simp: fence_instants_def)

lemma finite_fence_instants: "finite (fence_instants H)"
proof -
  have "fence_instants H \<subseteq> (\<lambda>(k, h). fenceAt (hc_leaseUntil h)) ` set H"
    by (auto simp: fence_instants_def)
  then show ?thesis by (rule finite_subset) simp
qed

lemma requestDeadline_Min: "requestDeadline H now = Min (insert (now + RequestTimeout) (fence_instants H))"
proof -
  let ?step = "\<lambda>acc (k, h). if hc_pendingJobDeletion h then acc
       else (case acc of None \<Rightarrow> Some (fenceAt (hc_leaseUntil h))
             | Some e \<Rightarrow> if fenceAt (hc_leaseUntil h) < e then Some (fenceAt (hc_leaseUntil h)) else acc)"
  have some: "foldl ?step (Some e) H = Some (Min (insert e (fence_instants H)))" for e and H :: "(string, heldClaim) gomap"
  proof (induction H arbitrary: e)
    case Nil
    then show ?case by (simp add: fence_instants_def)
  next
    case (Cons x H)
    then show ?case
      by (cases x; cases "fence_instants H = {}")
        (auto simp: fence_instants_Cons finite_fence_instants min_def)
  qed
  have none: "foldl ?step None H = (if fence_instants H = {} then None else Some (Min (fence_instants H)))"
    for H :: "(string, heldClaim) gomap"
  proof (induction H)
    case Nil
    then show ?case by (simp add: fence_instants_def)
  next
    case (Cons x H)
    then show ?case by (cases x) (auto simp: fence_instants_Cons some)
  qed
  show ?thesis
  proof (cases "fence_instants H = {}")
    case True
    then show ?thesis unfolding requestDeadline_def Let_def none by simp
  next
    case False
    define e where "e = Min (fence_instants H)"
    have "Min (insert (now + RequestTimeout) (fence_instants H)) = min (now + RequestTimeout) e"
      using False finite_fence_instants by (simp add: e_def)
    then show ?thesis
      unfolding requestDeadline_def Let_def none by (simp add: False min_def flip: e_def)
  qed
qed

section \<open>Properties\<close>

text \<open>The environment of the witnesses: a service that answers from fixed data.\<close>

definition staticClient :: "'w ClaimClient" where
  "staticClient =
     \<lparr>cc_Acquire = (\<lambda>ctx t hld tid n. State_Monad.return (Inl ErrClaimHeld)),
      cc_Renew = (\<lambda>ctx t hld tok tid n. State_Monad.return (Inl ErrLeaseLost)),
      cc_List = (\<lambda>ctx hld. State_Monad.return (Inr [])),
      cc_Release = (\<lambda>ctx t tok. State_Monad.return None),
      cc_Read = (\<lambda>ctx t. State_Monad.return (Inl ErrClaimFree))\<rparr>"

definition someClaim :: "string \<Rightarrow> go_time \<Rightarrow> Claim" where
  "someClaim hld u =
     \<lparr>cl_Scope = ''task'', cl_ID = ''t1'', cl_Holder = hld, cl_TaskID = ''t1'', cl_LeaseUntil = u,
      cl_RenewBefore = 0, cl_LeaseToken = ''tok'', cl_LeaseUnreadable = False\<rparr>"

definition grantClient :: "'w ClaimClient" where
  "grantClient = staticClient\<lparr>cc_Acquire := (\<lambda>ctx t hld tid n. State_Monad.return (Inr (someClaim hld hour)))\<rparr>"

definition staticEnv :: "'w ClaimClient \<Rightarrow> bool \<Rightarrow> 'w lease_env" where
  "staticEnv cc running =
     \<lparr>le_cluster = ''dev'', le_claimClient = cc,
      le_jobControl = \<lparr>jc_IsJobRunning = (\<lambda>ctx tid. State_Monad.return (Inr running)),
                       jc_DeleteJob = (\<lambda>ctx tid. State_Monad.return None)\<rparr>,
      le_currentDateTime = State_Monad.return minute, le_ctxDone = (\<lambda>_. False)\<rparr>"

definition idleManager :: "unit leaseManager" where
  "idleManager = \<lparr>lm_held = [], lm_counts = [], lm_world = ()\<rparr>"

definition someHeld :: heldClaim where
  "someHeld = zeroHeld\<lparr>hc_key := ''claims/task/t1'', hc_target := NewTaskClaim ''t1'', hc_taskID := ''t1'',
     hc_leaseToken := ''tok'', hc_leaseUntil := hour\<rparr>"

definition busyManager :: "unit leaseManager" where
  "busyManager = idleManager\<lparr>lm_held := [(''claims/task/t1'', someHeld)]\<rparr>"

text \<open>
  C6: claiming is all or nothing. Whatever the service and the clock answer, a \<open>ClaimPair\<close> that
  fails leaves the held set exactly as it was; one that succeeds was asked for keys not held before,
  and adds one entry, under the primary key, with the targets the two keys parse to, no pending
  deletion or release, and no success hold.
\<close>

theorem claim_pair_atomic:
  assumes "run_state (ClaimPair env primary secondary taskID) m = (r, m')"
  shows "case r of
      Inl e \<Rightarrow> lm_held m' = lm_held m
    | Inr c \<Rightarrow> findHeld (lm_held m) primary = None \<and> (secondary = '''' \<or> findHeld (lm_held m) secondary = None) \<and>
        (\<exists>h. fresh_claim primary secondary taskID h \<and> lm_held m' = AList.update primary h (lm_held m))"
  using wpD [OF claimPairLocked_outcome assms [unfolded ClaimPair_def]]
  by (auto simp: outcome_def acquired_def split: sum.splits)

theorem claim_pair_atomic_witness:
  "\<exists>h. fresh_claim ''claims/task/t1'' '''' ''t1'' h \<and>
    lm_held (snd (run_state (ClaimPair (staticEnv grantClient False) ''claims/task/t1'' '''' ''t1'') idleManager)) =
    [(''claims/task/t1'', h)]"
proof -
  let ?x = "run_state (ClaimPair (staticEnv grantClient False) ''claims/task/t1'' '''' ''t1'') idleManager"
  have ok: "isl (fst ?x) = False" by code_simp
  have "run_state (ClaimPair (staticEnv grantClient False) ''claims/task/t1'' '''' ''t1'') idleManager =
      (fst ?x, snd ?x)" by simp
  from claim_pair_atomic [OF this] ok show ?thesis by (cases "fst ?x") (auto simp: idleManager_def)
qed

text \<open>
  a takeover is all or nothing in the same sense, on the free path (which claims) and on the
  expired path (which acquires over the old lease).
\<close>

theorem takeover_pair_atomic:
  assumes "run_state (TakeoverPair env primary secondary taskID) m = (r, m')"
  shows "case r of
      Inl e \<Rightarrow> lm_held m' = lm_held m
    | Inr t \<Rightarrow> findHeld (lm_held m) primary = None \<and> (secondary = '''' \<or> findHeld (lm_held m) secondary = None) \<and>
        (\<exists>h. fresh_claim primary secondary taskID h \<and> lm_held m' = AList.update primary h (lm_held m))"
  using wpD [OF TakeoverPair_outcome assms] by (auto simp: outcome_def acquired_def split: sum.splits)

theorem takeover_pair_atomic_witness:
  "lm_held (snd (run_state (TakeoverPair (staticEnv staticClient False) ''claims/task/t1'' ''claims/task/t2'' ''t1'')
     busyManager)) = lm_held busyManager"
proof -
  let ?x = "run_state (TakeoverPair (staticEnv staticClient False) ''claims/task/t1'' ''claims/task/t2'' ''t1'') busyManager"
  have err: "isl (fst ?x)" by code_simp
  have "run_state (TakeoverPair (staticEnv staticClient False) ''claims/task/t1'' ''claims/task/t2'' ''t1'') busyManager =
      (fst ?x, snd ?x)" by simp
  from takeover_pair_atomic [OF this] err show ?thesis by (cases "fst ?x") auto
qed

text \<open>
  C26: no early takeover. When the claim read back has an unreadable lease, or one that ended less
  than the takeover grace ago, \<open>Takeover\<close> refuses with \<open>ErrLeaseNotExpired\<close> and sends nothing to the
  service after the read: the world is the one the read left, the held set is unchanged.
\<close>

theorem takeover_refuses_early:
  assumes "TargetFromKey key = Some t" and "findHeld (lm_held m) key = None"
    and "run_state (le_currentDateTime env) (lm_world m) = (now, w1)"
    and "run_state (cc_Read (le_claimClient env) CallerCtx t) w1 = (Inr c, w2)"
    and "cl_LeaseUnreadable c \<or> now < cl_LeaseUntil c + 30 * second"
  shows "run_state (lm_Takeover env key taskID) m =
    (Inl ErrLeaseNotExpired, m\<lparr>lm_world := w2, lm_counts := lm_counts m @ [''takeover_too_early'']\<rparr>)"
  using assms
  by (auto simp: lm_Takeover_def TakeoverPair_def takeoverTargets_def now_of_def in_world_def readBack_def
      takeoverRefusal_def takeoverAllowed_def TakeoverGrace_def countClaim_def)

theorem takeover_refuses_early_witness:
  "run_state (lm_Takeover
      (staticEnv (staticClient\<lparr>cc_Read := (\<lambda>ctx t. State_Monad.return (Inr (someClaim ''prod'' minute)))\<rparr>) False)
      ''claims/task/t1'' ''t1'') idleManager =
   (Inl ErrLeaseNotExpired, idleManager\<lparr>lm_counts := [''takeover_too_early'']\<rparr>)"
proof -
  let ?c = "someClaim ''prod'' minute"
  let ?env = "staticEnv (staticClient\<lparr>cc_Read := (\<lambda>ctx t. State_Monad.return (Inr ?c))\<rparr>) False"
  have "TargetFromKey ''claims/task/t1'' = Some (NewTaskClaim ''t1'')" by code_simp
  moreover have "findHeld (lm_held idleManager) ''claims/task/t1'' = None"
    by (simp add: findHeld_def idleManager_def)
  moreover have "run_state (le_currentDateTime ?env) (lm_world idleManager) = (minute, ())"
    by (simp add: staticEnv_def)
  moreover have "run_state (cc_Read (le_claimClient ?env) CallerCtx (NewTaskClaim ''t1'')) () = (Inr ?c, ())"
    by (simp add: staticEnv_def)
  moreover have "cl_LeaseUnreadable ?c \<or> minute < cl_LeaseUntil ?c + 30 * second"
    by (simp add: second_def someClaim_def)
  ultimately show ?thesis by (rule takeover_refuses_early [THEN trans]) (simp add: idleManager_def)
qed

text \<open>
  every lease request ends before the first fence. The deadline put on a request is the earliest
  of the request timeout and the fence instants of the held claims that still have a Job to stop.
\<close>

theorem request_deadline_earliest:
  "requestDeadline H now =
     Min (insert (now + RequestTimeout)
       {fenceAt (hc_leaseUntil h) | k h. (k, h) \<in> set H \<and> \<not> hc_pendingJobDeletion h})"
  using requestDeadline_Min [of H now] by (simp add: fence_instants_def)

text \<open>
  the claim outlives the Job. While the task's Job runs, or its state cannot be read, and while a
  success hold lasts, \<open>Release\<close> sends no release: the held set is unchanged and the world is the one
  the clock and the Job question left. An unreadable Job state is reported.
\<close>

theorem release_waits_for_job:
  assumes "findHeld (lm_held m) key = Some h"
    and "run_state (le_currentDateTime env) (lm_world m) = (now, w1)"
    and "run_state (jc_IsJobRunning (le_jobControl env) CallerCtx (hc_taskID h)) w1 = (r, w2)"
    and "now < hc_holdUntil h \<or> r \<noteq> Inr False"
    and "run_state (lm_Release env key) m = (e, m')"
  shows "lm_held m' = lm_held m \<and> lm_world m' = (if now < hc_holdUntil h then w1 else w2) \<and>
    e = (if now < hc_holdUntil h then None else case r of Inl err \<Rightarrow> Some err | Inr _ \<Rightarrow> None)"
proof (cases r)
  case (Inl err)
  with assms show ?thesis
    by (auto simp: lm_Release_def now_of_def in_world_def releaseLocked_def countClaim_def split: if_splits)
next
  case (Inr b)
  with assms show ?thesis
    by (auto simp: lm_Release_def now_of_def in_world_def releaseLocked_def countClaim_def split: if_splits)
qed

theorem release_waits_for_job_witness:
  "run_state (lm_Release (staticEnv staticClient True) ''claims/task/t1'') busyManager = (None, busyManager)"
proof -
  have a: "findHeld (lm_held busyManager) ''claims/task/t1'' = Some someHeld"
    by (simp add: findHeld_def busyManager_def idleManager_def)
  have b: "run_state (le_currentDateTime (staticEnv staticClient True)) (lm_world busyManager) = (minute, ())"
    by (simp add: staticEnv_def)
  have c: "run_state (jc_IsJobRunning (le_jobControl (staticEnv staticClient True)) CallerCtx (hc_taskID someHeld)) ()
      = (Inr True, ())" by (simp add: staticEnv_def)
  obtain e m' where d: "run_state (lm_Release (staticEnv staticClient True) ''claims/task/t1'') busyManager = (e, m')"
    by fastforce
  have "lm_counts m' = []"
    using d a b c by (auto simp: lm_Release_def now_of_def in_world_def releaseLocked_def busyManager_def
        idleManager_def split: if_splits)
  with release_waits_for_job [OF a b c _ d] d show ?thesis
    by (auto simp: someHeld_def zeroHeld_def minute_def second_def busyManager_def idleManager_def)
qed

text \<open>
  C28: a release is never forgotten. Once the Job is gone and no hold lasts, \<open>Release\<close> of a claim
  either drops it from the held set, and then only when the service released the ref or said the token
  was superseded, or keeps it marked \<open>releasePending\<close>, which the next pass retries, and reports the
  service's error. All other held claims stay as they are.
\<close>

theorem release_drops_or_retries:
  assumes "held_wf (lm_held m)" and "map_of (lm_held m) key = Some h"
    and "run_state (le_currentDateTime env) (lm_world m) = (now, w1)" and "\<not> now < hc_holdUntil h"
    and "run_state (jc_IsJobRunning (le_jobControl env) CallerCtx (hc_taskID h)) w1 = (Inr False, w2)"
    and "run_state (cc_Release (le_claimClient env) CallerCtx (hc_target h) (hc_leaseToken h)) w2 = (answer, w3)"
    and "run_state (lm_Release env key) m = (e, m')"
  shows "(e = None \<longrightarrow> answer \<in> {None, Some ErrLeaseLost}) \<and> (hc_secondKey h = '''' \<and> e \<noteq> None \<longrightarrow> e = answer) \<and>
    (case e of
      None \<Rightarrow> map_of (lm_held m') key = None
    | Some err \<Rightarrow> map_of (lm_held m') key = Some (h\<lparr>hc_releasePending := True\<rparr>)) \<and>
    (\<forall>k. k \<noteq> key \<longrightarrow> map_of (lm_held m') k = map_of (lm_held m) k)"
proof -
  have k: "hc_key h = key" using assms(1,2) by (simp add: held_wf_def claim_wf_def)
  have f: "findHeld (lm_held m) key = Some h" using assms(2) by (simp add: findHeld_def)
  let ?Q = "\<lambda>e m'. (e = None \<longrightarrow> answer \<in> {None, Some ErrLeaseLost}) \<and> (hc_secondKey h = '''' \<and> e \<noteq> None \<longrightarrow> e = answer) \<and>
    (case e of
      None \<Rightarrow> map_of (lm_held m') key = None
    | Some err \<Rightarrow> map_of (lm_held m') key = Some (h\<lparr>hc_releasePending := True\<rparr>)) \<and>
    (\<forall>k. k \<noteq> key \<longrightarrow> map_of (lm_held m') k = map_of (lm_held m) k)"
  have "wp (releaseLocked env CallerCtx h) ?Q (m\<lparr>lm_world := w1\<rparr>)"
    using assms(2,5,6) k unfolding releaseLocked_def releaseRef_def
    by (auto simp: wp_rules AList.delete_conv map_of_map_entry intro!: wp_frames split: option.splits if_splits)
  with f assms(3,4,7) show ?thesis
    by (auto simp: lm_Release_def now_of_def in_world_def wp_def)
qed

theorem release_drops_or_retries_witness:
  "map_of (lm_held (snd (run_state (lm_Release (staticEnv staticClient False) ''claims/task/t1'') busyManager)))
     ''claims/task/t1'' = None"
proof -
  let ?env = "staticEnv staticClient False :: unit lease_env"
  let ?x = "run_state (lm_Release ?env ''claims/task/t1'') busyManager"
  have wf: "held_wf (lm_held busyManager)"
    by (auto simp: held_wf_def busyManager_def idleManager_def gomap_wf_def claim_wf_def someHeld_def zeroHeld_def
        keyTarget_def TargetFromKey_def has_prefix_def trim_prefix_def)
  have h: "map_of (lm_held busyManager) ''claims/task/t1'' = Some someHeld"
    by (simp add: busyManager_def idleManager_def)
  have now: "run_state (le_currentDateTime ?env) (lm_world busyManager) = (minute, ())"
    by (simp add: staticEnv_def)
  have hold: "\<not> minute < hc_holdUntil someHeld"
    by (simp add: someHeld_def zeroHeld_def minute_def second_def)
  have job: "run_state (jc_IsJobRunning (le_jobControl ?env) CallerCtx (hc_taskID someHeld)) () = (Inr False, ())"
    by (simp add: staticEnv_def)
  have rel: "run_state (cc_Release (le_claimClient ?env) CallerCtx (hc_target someHeld) (hc_leaseToken someHeld)) () = (None, ())"
    by (simp add: staticEnv_def staticClient_def)
  have ok: "fst ?x = None" by code_simp
  have run: "?x = (fst ?x, snd ?x)" by simp
  show ?thesis using release_drops_or_retries [OF wf h now hold job rel run] unfolding ok by simp
qed

text \<open>
  the success hold. \<open>ReleaseAfterSuccess\<close> within the grace after a completion keeps the claim and
  sends nothing: it only moves the hold, which ends the grace period after the completion, never more
  than the grace period from now (a completion stamped in the future does not extend it), and never
  earlier than it did before.
\<close>

theorem success_hold_extends:
  assumes "held_wf (lm_held m)" and "map_of (lm_held m) key = Some h"
    and "run_state (le_currentDateTime env) (lm_world m) = (now, w1)"
    and "now < completedAt + SuccessGracePeriod"
  shows "run_state (ReleaseAfterSuccess env key completedAt) m =
    (None, m\<lparr>lm_world := w1, lm_held := AList.map_entry key
       (hc_holdUntil_update (\<lambda>u. max u (min completedAt now + SuccessGracePeriod))) (lm_held m)\<rparr>)"
proof -
  have k: "hc_key h = key" using assms(1,2) by (simp add: held_wf_def claim_wf_def)
  have f: "findHeld (lm_held m) key = Some h" using assms(2) by (simp add: findHeld_def)
  let ?u = "min completedAt now + SuccessGracePeriod"
  have u: "(if completedAt + SuccessGracePeriod > now + SuccessGracePeriod
            then now + SuccessGracePeriod else completedAt + SuccessGracePeriod) = ?u"
    by (simp add: min_def)
  have lt: "now < ?u" using assms(4) by (simp add: min_def SuccessGracePeriod_def second_def)
  have entry: "AList.map_entry key (hc_holdUntil_update (\<lambda>_. v)) (lm_held m) =
      AList.map_entry key (hc_holdUntil_update (\<lambda>u. max u v)) (lm_held m)" if "v > hc_holdUntil h" for v
    using that assms(1,2) by (auto intro!: map_entry_cong simp: held_wf_def max_def)
  have same: "lm_held m = AList.map_entry key (hc_holdUntil_update (\<lambda>u. max u v)) (lm_held m)"
    if "\<not> v > hc_holdUntil h" for v
    using that assms(1,2) by (auto intro!: map_entry_idle simp: held_wf_def max_def)
  show ?thesis
    using f assms(3) lt entry [of ?u] same [of ?u] k
    by (auto simp: ReleaseAfterSuccess_def now_of_def in_world_def Let_def u upd_held_def)
qed

theorem success_hold_extends_witness:
  "lm_held (snd (run_state (ReleaseAfterSuccess (staticEnv staticClient False) ''claims/task/t1'' hour) busyManager)) =
   [(''claims/task/t1'', someHeld\<lparr>hc_holdUntil := minute + SuccessGracePeriod\<rparr>)]"
proof -
  let ?env = "staticEnv staticClient False :: unit lease_env"
  have wf: "held_wf (lm_held busyManager)"
    by (auto simp: held_wf_def busyManager_def idleManager_def gomap_wf_def claim_wf_def someHeld_def zeroHeld_def
        keyTarget_def TargetFromKey_def has_prefix_def trim_prefix_def)
  have h: "map_of (lm_held busyManager) ''claims/task/t1'' = Some someHeld"
    by (simp add: busyManager_def idleManager_def)
  have now: "run_state (le_currentDateTime ?env) (lm_world busyManager) = (minute, ())"
    by (simp add: staticEnv_def)
  have "minute < hour + SuccessGracePeriod" by (simp add: hour_def minute_def second_def SuccessGracePeriod_def)
  from success_hold_extends [OF wf h now this] show ?thesis
    by (simp add: busyManager_def idleManager_def someHeld_def zeroHeld_def hour_def minute_def second_def
        SuccessGracePeriod_def)
qed

section \<open>The audit\<close>

lemma claimsWithoutJob_card:
  "claimsWithoutJob running counted ts = card {t \<in> set ts. t \<notin> set counted \<and> \<not> map_true running t}"
proof (induction ts arbitrary: counted)
  case (Cons t ts)
  show ?case
  proof (cases "t \<in> set counted \<or> map_true running t")
    case True
    then have "{u \<in> set (t # ts). u \<notin> set counted \<and> \<not> map_true running u} =
        {u \<in> set ts. u \<notin> set (if t \<in> set counted then counted else t # counted) \<and> \<not> map_true running u}"
      by auto
    with Cons True show ?thesis by auto
  next
    case False
    then have "{u \<in> set (t # ts). u \<notin> set counted \<and> \<not> map_true running u} =
        insert t {u \<in> set ts. u \<notin> set (t # counted) \<and> \<not> map_true running u}"
      by auto
    with Cons False show ?thesis by simp
  qed
qed simp

text \<open>The tasks with a held claim.\<close>

definition held_tasks :: "(string, heldClaim) gomap \<Rightarrow> string set" where
  "held_tasks H = (\<lambda>(k, h). hc_taskID h) ` set H"

lemma held_tasks_rows: "set (map HC_TaskID (HeldClaims H)) = held_tasks H"
  unfolding HeldClaims_def held_tasks_def heldRows_def by (force split: if_splits)

text \<open>
  the audit counts the symmetric difference. \<open>AuditMismatch\<close> raises the mismatch counter once for
  every task with a running Job and no held claim, and once for every task with a held claim and no
  running Job, however many refs and claims the task has.
\<close>

theorem audit_counts_difference:
  assumes "gomap_wf running" and "\<forall>t. map_of running t \<noteq> Some False"
  shows "AuditMismatch H running =
    card (dom (map_of running) - held_tasks H) + card (held_tasks H - dom (map_of running))"
proof -
  let ?held = "map HC_TaskID (HeldClaims H)"
  have "distinct (filter (\<lambda>t. t \<notin> set ?held) (gomap_keys running))"
    using assms(1) by (simp add: gomap_wf_def)
  from distinct_card [OF this]
  have "length (filter (\<lambda>t. t \<notin> set ?held) (gomap_keys running)) = card (dom (map_of running) - held_tasks H)"
    unfolding held_tasks_rows by (simp add: dom_map_of_conv_image_fst set_diff_eq)
  moreover have "{t \<in> held_tasks H. t \<notin> set [] \<and> \<not> map_true running t} = held_tasks H - dom (map_of running)"
    using assms(2) by (auto simp: map_true_def)
  ultimately show ?thesis
    unfolding AuditMismatch_def Let_def claimsWithoutJob_card held_tasks_rows by simp
qed

theorem audit_counts_difference_witness:
  "AuditMismatch (lm_held busyManager) [(''t2'', True), (''t3'', True)] =
     card (dom (map_of [(''t2'', True), (''t3'', True)]) - held_tasks (lm_held busyManager)) +
     card (held_tasks (lm_held busyManager) - dom (map_of [(''t2'', True), (''t3'', True)])) \<and>
   AuditMismatch (lm_held busyManager) [(''t2'', True), (''t3'', True)] = 3"
proof
  show "AuditMismatch (lm_held busyManager) [(''t2'', True), (''t3'', True)] = 3" by code_simp
qed (rule audit_counts_difference, auto simp: gomap_wf_def)

end
