(* ===== verification/Vault_Client.thy ===== *)
theory Vault_Client
  imports Lease_Manager
begin

text \<open>
  The typed vault-api claim client (\<^verbatim>\<open>pkg/claim/vault_api_client.go\<close>). The HTTP exchange with the
  vault API is a parameter over a world \<open>'w\<close>: given a method, a path and a body it answers a status
  and a body, or fails. The JSON decoders of the three response shapes and the library's date parser
  are parameters too. A \<open>*ClaimHeldError\<close> is the sentinel it wraps, \<open>ErrClaimHeld\<close>.
\<close>

section \<open>Addresses\<close>

definition hex_digit :: "nat \<Rightarrow> char" where
  "hex_digit n = (if n < 10 then digit_char n else char_of (55 + n))"

text \<open>\<^verbatim>\<open>url.PathEscape\<close>: the bytes a path segment may carry as they are, and \<^verbatim>\<open>%XX\<close> for the rest.\<close>

definition path_safe :: "char \<Rightarrow> bool" where
  "path_safe c \<longleftrightarrow>
     (let n = of_char c :: nat in
      (65 \<le> n \<and> n \<le> 90) \<or> (97 \<le> n \<and> n \<le> 122) \<or> (48 \<le> n \<and> n \<le> 57) \<or>
      c \<in> set ''-_.~$&+=:@'')"

definition escape_char :: "char \<Rightarrow> string" where
  "escape_char c =
     (if path_safe c then [c]
      else [CHR ''%'', hex_digit (of_char c div 16), hex_digit (of_char c mod 16)])"

definition PathEscape :: "string \<Rightarrow> string" where
  "PathEscape s = concat (map escape_char s)"

text \<open>\<^verbatim>\<open>url.QueryEscape\<close>: unreserved bytes as they are, a space as \<open>+\<close>, \<^verbatim>\<open>%XX\<close> for the rest.\<close>

definition query_safe :: "char \<Rightarrow> bool" where
  "query_safe c \<longleftrightarrow>
     (let n = of_char c :: nat in
      (65 \<le> n \<and> n \<le> 90) \<or> (97 \<le> n \<and> n \<le> 122) \<or> (48 \<le> n \<and> n \<le> 57) \<or> c \<in> set ''-_.~'')"

definition QueryEscape :: "string \<Rightarrow> string" where
  "QueryEscape s =
     concat (map (\<lambda>c. if query_safe c then [c] else if c = CHR '' '' then ''+''
       else [CHR ''%'', hex_digit (of_char c div 16), hex_digit (of_char c mod 16)]) s)"

definition target_path :: "ClaimTarget \<Rightarrow> string" where
  "target_path t =
     (if isAmbiguous t then ''''
      else if TaskID t \<noteq> '''' then ''/api/v1/tasks/'' @ PathEscape (TaskID t) @ ''/claim''
      else if isPR t \<and> (Owner t = '''' \<or> Repo t = '''' \<or> \<not> validPRNumber (Number t)) then ''''
      else if Owner t \<noteq> '''' \<and> Repo t \<noteq> '''' then
        (if isPR t then
           ''/api/v1/repos/'' @ PathEscape (Owner t) @ ''/'' @ PathEscape (Repo t) @ ''/pulls/'' @
             PathEscape (Number t) @ ''/claim''
         else ''/api/v1/repos/'' @ PathEscape (Owner t) @ ''/'' @ PathEscape (Repo t) @ ''/claim'')
      else '''')"

definition renewPath :: "ClaimTarget \<Rightarrow> string" where
  "renewPath t = (if target_path t \<noteq> '''' then target_path t @ ''/renew'' else '''')"

definition describe :: "ClaimTarget \<Rightarrow> string" where
  "describe t =
     (if isAmbiguous t then
        (if isPR t then
           ''ambiguous target (task '' @ TaskID t @ '', pull request '' @ Owner t @ ''/'' @ Repo t @ ''#'' @ Number t @ '')''
         else ''ambiguous target (task '' @ TaskID t @ '', repo '' @ Owner t @ ''/'' @ Repo t @ '')'')
      else if TaskID t \<noteq> '''' then ''task '' @ TaskID t
      else if isPR t \<and> (Owner t = '''' \<or> Repo t = '''') then
        ''pull request '' @ Number t @ '' without a repository''
      else if isPR t then ''pull request '' @ Owner t @ ''/'' @ Repo t @ ''#'' @ Number t
      else if isRepo t then ''repo '' @ Owner t @ ''/'' @ Repo t
      else ''no target'')"

section \<open>The wire\<close>

record claimRequestBody =
  rb_Holder :: string
  rb_TTLSeconds :: int
  rb_LeaseToken :: string
  rb_TaskID :: string

record claimResponseBody =
  cr_Scope :: string
  cr_ID :: string
  cr_Holder :: string
  cr_TaskID :: string
  cr_LeaseUntil :: string
  cr_RenewBefore :: string
  cr_LeaseToken :: string

record errorResponseBody =
  er_Error :: string
  er_Holder :: string
  er_LeaseUntil :: string

record 'w vaultAPI =
  va_do :: "req_ctx \<Rightarrow> string \<Rightarrow> string \<Rightarrow> claimRequestBody option \<Rightarrow> ('w, (int \<times> string) result) state"
  va_claim :: "string \<Rightarrow> claimResponseBody option"
  va_list :: "string \<Rightarrow> claimResponseBody list option"
  va_error :: "string \<Rightarrow> errorResponseBody option"
  va_parseDateTime :: "string \<Rightarrow> go_time option"

definition maxResponseBytes :: int where "maxResponseBytes = 10 * 1024 * 1024"

definition claimantTaskIDError :: "ClaimTarget \<Rightarrow> string \<Rightarrow> string" where
  "claimantTaskIDError target claimant =
     (if TaskID target \<noteq> '''' then
        (if claimant \<noteq> '''' then ''a task claim must not carry a claimant task id'' else '''')
      else if claimant = '''' then
        ''a repository or pull-request claim requires a claimant task id''
      else '''')"

definition doPath ::
  "'w vaultAPI \<Rightarrow> req_ctx \<Rightarrow> string \<Rightarrow> string \<Rightarrow> claimRequestBody option \<Rightarrow> ('w, (int \<times> string) result) state" where
  "doPath api ctx meth path body =
     (if path = '''' then State_Monad.return (Inl ErrClaimTargetInvalid)
      else
        do { r \<leftarrow> va_do api ctx meth path body;
             State_Monad.return
               (case r of
                  Inl e \<Rightarrow> Inl e
                | Inr (status, raw) \<Rightarrow>
                    if int (length raw) > maxResponseBytes then Inl (OtherError ''response too large'')
                    else Inr (status, raw)) })"

definition statusError :: "string \<Rightarrow> string \<Rightarrow> int \<Rightarrow> claim_error" where
  "statusError action target status =
     OtherError (action @ '' '' @ target @ '' answered '' @ itoa status)"

definition heldError :: "'w vaultAPI \<Rightarrow> string \<Rightarrow> claim_error" where
  "heldError api raw =
     (case va_error api raw of
        None \<Rightarrow> ErrClaimHeld
      | Some parsed \<Rightarrow>
          (case va_parseDateTime api (er_LeaseUntil parsed) of
             None \<Rightarrow> OtherError ''parse held lease_until''
           | Some _ \<Rightarrow> ErrClaimHeld))"

definition claimFromResponse :: "'w vaultAPI \<Rightarrow> claimResponseBody \<Rightarrow> bool \<Rightarrow> Claim result" where
  "claimFromResponse api parsed strictLease =
     (if cr_LeaseUntil parsed = '''' then Inl (OtherError ''missing lease_until'')
      else if cr_LeaseToken parsed = '''' then Inl (OtherError ''missing lease_token'')
      else
        (let res = \<lparr>cl_Scope = cr_Scope parsed, cl_ID = cr_ID parsed, cl_Holder = cr_Holder parsed,
                   cl_TaskID = cr_TaskID parsed, cl_LeaseUntil = 0, cl_RenewBefore = 0,
                   cl_LeaseToken = cr_LeaseToken parsed, cl_LeaseUnreadable = False\<rparr>
         in case va_parseDateTime api (cr_LeaseUntil parsed) of
              None \<Rightarrow>
                if strictLease then Inl (OtherError ''parse lease_until'')
                else Inr (res\<lparr>cl_LeaseUnreadable := True\<rparr>)
            | Some until \<Rightarrow>
                if cr_RenewBefore parsed \<noteq> '''' then
                  (case va_parseDateTime api (cr_RenewBefore parsed) of
                     None \<Rightarrow> Inl (OtherError ''parse renew_before'')
                   | Some before \<Rightarrow> Inr (res\<lparr>cl_LeaseUntil := until, cl_RenewBefore := before\<rparr>))
                else Inr (res\<lparr>cl_LeaseUntil := until\<rparr>)))"

definition decodeClaim :: "'w vaultAPI \<Rightarrow> string \<Rightarrow> Claim result" where
  "decodeClaim api raw =
     (case va_claim api raw of
        None \<Rightarrow> Inl (OtherError ''decode claim response'')
      | Some parsed \<Rightarrow> claimFromResponse api parsed True)"

fun claimsFromResponse :: "'w vaultAPI \<Rightarrow> claimResponseBody list \<Rightarrow> Claim list result" where
  "claimsFromResponse api [] = Inr []"
| "claimsFromResponse api (item # items) =
     (case claimFromResponse api item False of
        Inl e \<Rightarrow> Inl e
      | Inr c \<Rightarrow> (case claimsFromResponse api items of Inl e \<Rightarrow> Inl e | Inr cs \<Rightarrow> Inr (c # cs)))"

section \<open>The five operations\<close>

definition noBody :: claimRequestBody where
  "noBody = \<lparr>rb_Holder = '''', rb_TTLSeconds = 0, rb_LeaseToken = '''', rb_TaskID = ''''\<rparr>"

definition vault_Acquire ::
  "'w vaultAPI \<Rightarrow> req_ctx \<Rightarrow> ClaimTarget \<Rightarrow> string \<Rightarrow> string \<Rightarrow> int \<Rightarrow> ('w, Claim result) state" where
  "vault_Acquire api ctx target holder claimant ttlSeconds =
     (if claimantTaskIDError target claimant \<noteq> '''' then State_Monad.return (Inl ErrClaimTargetInvalid)
      else
        do { r \<leftarrow> doPath api ctx ''POST'' (target_path target)
                 (Some (noBody\<lparr>rb_Holder := holder, rb_TTLSeconds := ttlSeconds, rb_TaskID := claimant\<rparr>));
             State_Monad.return
               (case r of
                  Inl e \<Rightarrow> Inl e
                | Inr (status, raw) \<Rightarrow>
                    if status = 409 then Inl (heldError api raw)
                    else if status \<noteq> 201 then Inl (statusError ''acquire'' (describe target) status)
                    else decodeClaim api raw) })"

definition vault_Renew ::
  "'w vaultAPI \<Rightarrow> req_ctx \<Rightarrow> ClaimTarget \<Rightarrow> string \<Rightarrow> string \<Rightarrow> string \<Rightarrow> int \<Rightarrow> ('w, Claim result) state" where
  "vault_Renew api ctx target holder leaseToken claimant ttlSeconds =
     (if holder = '''' then State_Monad.return (Inl ErrClaimTargetInvalid)
      else if claimantTaskIDError target claimant \<noteq> '''' then State_Monad.return (Inl ErrClaimTargetInvalid)
      else
        do { r \<leftarrow> doPath api ctx ''POST'' (renewPath target)
                 (Some \<lparr>rb_Holder = holder, rb_TTLSeconds = ttlSeconds, rb_LeaseToken = leaseToken,
                        rb_TaskID = claimant\<rparr>);
             State_Monad.return
               (case r of
                  Inl e \<Rightarrow> Inl e
                | Inr (status, raw) \<Rightarrow>
                    if status = 409 then Inl ErrLeaseLost
                    else if status \<noteq> 200 then Inl (statusError ''renew'' (describe target) status)
                    else decodeClaim api raw) })"

definition vault_Release ::
  "'w vaultAPI \<Rightarrow> req_ctx \<Rightarrow> ClaimTarget \<Rightarrow> string \<Rightarrow> ('w, claim_error option) state" where
  "vault_Release api ctx target leaseToken =
     do { r \<leftarrow> doPath api ctx ''DELETE'' (target_path target) (Some (noBody\<lparr>rb_LeaseToken := leaseToken\<rparr>));
          State_Monad.return
            (case r of
               Inl e \<Rightarrow> Some e
             | Inr (status, raw) \<Rightarrow>
                 if status = 409 then Some ErrLeaseLost
                 else if status \<noteq> 204 then Some (statusError ''release'' (describe target) status)
                 else None) }"

definition vault_Read :: "'w vaultAPI \<Rightarrow> req_ctx \<Rightarrow> ClaimTarget \<Rightarrow> ('w, Claim result) state" where
  "vault_Read api ctx target =
     do { r \<leftarrow> doPath api ctx ''GET'' (target_path target) None;
          State_Monad.return
            (case r of
               Inl e \<Rightarrow> Inl e
             | Inr (status, raw) \<Rightarrow>
                 if status = 404 then Inl ErrClaimFree
                 else if status \<noteq> 200 then Inl (statusError ''read'' (describe target) status)
                 else decodeClaim api raw) }"

definition vault_List :: "'w vaultAPI \<Rightarrow> req_ctx \<Rightarrow> string \<Rightarrow> ('w, Claim list result) state" where
  "vault_List api ctx holder =
     do { r \<leftarrow> doPath api ctx ''GET''
                 (if holder \<noteq> '''' then ''/api/v1/claims?holder='' @ QueryEscape holder else ''/api/v1/claims'') None;
          State_Monad.return
            (case r of
               Inl e \<Rightarrow> Inl e
             | Inr (status, raw) \<Rightarrow>
                 if status \<noteq> 200 then Inl (statusError ''list'' ''claims'' status)
                 else (case va_list api raw of
                         None \<Rightarrow> Inl (OtherError ''decode claim list response'')
                       | Some items \<Rightarrow> claimsFromResponse api items)) }"

definition vaultAPIClaimClient :: "'w vaultAPI \<Rightarrow> 'w ClaimClient" where
  "vaultAPIClaimClient api =
     \<lparr>cc_Acquire = vault_Acquire api, cc_Renew = vault_Renew api, cc_List = vault_List api,
      cc_Release = vault_Release api, cc_Read = vault_Read api\<rparr>"



section \<open>Addresses do not alias\<close>

lemma of_char_hex_digit: "k < 16 \<Longrightarrow> of_char (hex_digit k) = (if k < 10 then 48 + k else 55 + k)"
  by (simp add: hex_digit_def digit_char_def)

lemma hex_digit_inj: "m < 16 \<Longrightarrow> n < 16 \<Longrightarrow> hex_digit m = hex_digit n \<Longrightarrow> m = n"
proof -
  assume m: "m < 16" and n: "n < 16" and eq: "hex_digit m = hex_digit n"
  have "(if m < 10 then 48 + m else 55 + m) = (if n < 10 then 48 + n else 55 + n)"
    unfolding of_char_hex_digit [OF m, symmetric] of_char_hex_digit [OF n, symmetric] eq by (rule refl)
  then show ?thesis by (simp split: if_splits)
qed

lemma hex_digit_no_slash: "k < 16 \<Longrightarrow> hex_digit k \<noteq> CHR ''/''"
  using of_char_hex_digit [of k] by (auto split: if_splits)

lemma path_safe_no: "\<not> path_safe (CHR ''/'')" "\<not> path_safe (CHR ''%'')"
  by (simp_all add: path_safe_def)

lemma nibbles: "of_char c div 16 < (16 :: nat)" "of_char c mod 16 < (16 :: nat)"
  by (rule less_mult_imp_div_less) simp_all

lemma escape_inj:
  assumes "escape_char c @ s = escape_char d @ t"
  shows "c = d \<and> s = t"
proof (cases "path_safe c \<or> path_safe d")
  case True
  then show ?thesis using assms path_safe_no by (auto simp: escape_char_def split: if_splits)
next
  case False
  with assms have hex: "hex_digit (of_char c div 16) = hex_digit (of_char d div 16)"
    "hex_digit (of_char c mod 16) = hex_digit (of_char d mod 16)" "s = t"
    by (auto simp: escape_char_def)
  have "of_char c div 16 = (of_char d div 16 :: nat)" "of_char c mod 16 = (of_char d mod 16 :: nat)"
    by (rule hex_digit_inj [OF nibbles(1) nibbles(1) hex(1)], rule hex_digit_inj [OF nibbles(2) nibbles(2) hex(2)])
  then have "of_char c = (of_char d :: nat)"
    by (metis div_mult_mod_eq)
  with hex(3) show ?thesis by simp
qed

lemma PathEscape_simps [simp]: "PathEscape [] = []" "PathEscape (c # s) = escape_char c @ PathEscape s"
  by (simp_all add: PathEscape_def)

lemma escape_char_ne [simp]: "escape_char c \<noteq> []"
  by (simp add: escape_char_def)

lemma PathEscape_inj: "PathEscape s = PathEscape t \<Longrightarrow> s = t"
proof (induction s arbitrary: t)
  case Nil
  then show ?case by (cases t) auto
next
  case (Cons c s)
  then show ?case by (cases t) (auto dest: escape_inj)
qed

lemma PathEscape_eq: "PathEscape s = PathEscape t \<longleftrightarrow> s = t"
  using PathEscape_inj by blast

lemma PathEscape_no_slash: "CHR ''/'' \<notin> set (PathEscape s)"
proof -
  have "CHR ''/'' \<notin> set (escape_char c)" for c
    using path_safe_no hex_digit_no_slash [OF nibbles(1)] hex_digit_no_slash [OF nibbles(2)]
    unfolding escape_char_def by (auto dest: sym)
  then show ?thesis by (induction s) auto
qed

text \<open>A path is its segments: splitting it again gives the components that were escaped.\<close>

definition segments :: "ClaimTarget \<Rightarrow> string list" where
  "segments t =
     (if TaskID t \<noteq> '''' then ['''', ''api'', ''v1'', ''tasks'', PathEscape (TaskID t), ''claim'']
      else if Number t = '''' then
        ['''', ''api'', ''v1'', ''repos'', PathEscape (Owner t), PathEscape (Repo t), ''claim'']
      else ['''', ''api'', ''v1'', ''repos'', PathEscape (Owner t), PathEscape (Repo t), ''pulls'',
            PathEscape (Number t), ''claim''])"

lemma split_segments: "split_on (CHR ''/'') (join_with ''/'' (segments t)) = segments t"
  by (rule split_on_join) (auto simp: segments_def PathEscape_no_slash)

lemma target_path_segments: "target_path t \<noteq> '''' \<Longrightarrow> target_path t = join_with ''/'' (segments t)"
  unfolding target_path_def segments_def isPR_def by (simp split: if_splits)

lemma segments_inj:
  assumes "segments t = segments u" "target_path t \<noteq> ''''" "target_path u \<noteq> ''''"
  shows "t = u"
proof -
  have shape: "TaskID x \<noteq> '''' \<longrightarrow> Owner x = '''' \<and> Repo x = '''' \<and> Number x = ''''"
    if "target_path x \<noteq> ''''" for x
  proof -
    from that have "\<not> isAmbiguous x" by (auto simp: target_path_def)
    then show ?thesis by (auto simp: isAmbiguous_def isRepo_def isPR_def)
  qed
  have "TaskID t = TaskID u \<and> Owner t = Owner u \<and> Repo t = Repo u \<and> Number t = Number u"
    using assms(1) shape [OF assms(2)] shape [OF assms(3)]
    by (simp add: segments_def PathEscape_eq split: if_splits)
  then show ?thesis by (intro ClaimTarget.equality) simp_all
qed

lemma target_path_inj:
  assumes "target_path t \<noteq> ''''" "target_path t = target_path u"
  shows "t = u"
proof (rule segments_inj)
  show "segments t = segments u"
    using assms split_segments [of t] split_segments [of u] target_path_segments [of t] target_path_segments [of u]
    by simp
qed (use assms in auto)

section \<open>What a response can be\<close>

lemma claimFromResponse_strict:
  "claimFromResponse api parsed True = Inr c \<Longrightarrow>
     cl_LeaseToken c \<noteq> '''' \<and> \<not> cl_LeaseUnreadable c \<and>
     va_parseDateTime api (cr_LeaseUntil parsed) = Some (cl_LeaseUntil c) \<and> cl_Holder c = cr_Holder parsed"
  by (auto simp: claimFromResponse_def Let_def split: if_splits option.splits)

lemma claimFromResponse_listed:
  "claimFromResponse api parsed False = Inr c \<Longrightarrow>
     cl_LeaseToken c \<noteq> '''' \<and> (cl_LeaseUnreadable c \<longleftrightarrow> va_parseDateTime api (cr_LeaseUntil parsed) = None)"
  by (auto simp: claimFromResponse_def Let_def split: if_splits option.splits)

lemma decodeClaim_ok: "decodeClaim api raw = Inr c \<Longrightarrow> cl_LeaseToken c \<noteq> '''' \<and> \<not> cl_LeaseUnreadable c"
  by (auto simp: decodeClaim_def dest: claimFromResponse_strict split: option.splits)

section \<open>Properties\<close>

text \<open>An API for the witnesses that answers every request with one status and no body.\<close>

definition statusAPI :: "int \<Rightarrow> nat vaultAPI" where
  "statusAPI status =
     \<lparr>va_do = (\<lambda>ctx meth path body. State (\<lambda>n. (Inr (status, ''''), Suc n))),
      va_claim = (\<lambda>raw. None), va_list = (\<lambda>raw. None), va_error = (\<lambda>raw. None), va_parseDateTime = (\<lambda>s. None)\<rparr>"

text \<open>
  two targets never share an address. The path of a claim determines its target, for every owner,
  repository, number and task id, including those with slashes or percent signs: a request can only
  touch the claim it names.
\<close>

theorem claim_paths_do_not_alias:
  assumes "target_path t \<noteq> ''''" and "target_path t = target_path u"
  shows "t = u"
  using assms by (rule target_path_inj)

theorem claim_paths_do_not_alias_witness:
  "target_path (NewRepoClaim ''a/b'' ''c'') \<noteq> target_path (NewRepoClaim ''a'' ''b/c'')"
proof
  assume eq: "target_path (NewRepoClaim ''a/b'' ''c'') = target_path (NewRepoClaim ''a'' ''b/c'')"
  have "target_path (NewRepoClaim ''a/b'' ''c'') \<noteq> ''''" by code_simp
  from claim_paths_do_not_alias [OF this eq] show False by (simp add: target_defs)
qed

text \<open>
  a target without an address never reaches the network. Exactly the targets that render to no
  key have no path, and every operation on one answers \<open>ErrClaimTargetInvalid\<close> without a request.
\<close>

theorem unaddressable_target_is_silent:
  assumes "KeyFor t = None"
  shows "run_state (vault_Acquire api ctx t hld cid n) w = (Inl ErrClaimTargetInvalid, w) \<and>
    run_state (vault_Renew api ctx t hld tok cid n) w = (Inl ErrClaimTargetInvalid, w) \<and>
    run_state (vault_Release api ctx t tok) w = (Some ErrClaimTargetInvalid, w) \<and>
    run_state (vault_Read api ctx t) w = (Inl ErrClaimTargetInvalid, w)"
proof -
  have p: "target_path t = ''''" using assms by (auto simp: KeyFor_def target_path_def split: if_splits)
  then have r: "renewPath t = ''''" by (simp add: renewPath_def)
  show ?thesis
    by (simp add: vault_Acquire_def vault_Renew_def vault_Release_def vault_Read_def doPath_def p r)
qed

theorem unaddressable_target_is_silent_witness:
  "run_state (vault_Read (statusAPI 200) CallerCtx (NewPRClaim ''acme'' ''lib'' ''7a'')) 0 =
   (Inl ErrClaimTargetInvalid, 0)"
proof -
  have "KeyFor (NewPRClaim ''acme'' ''lib'' ''7a'') = None" by code_simp
  from unaddressable_target_is_silent [OF this, of "statusAPI 200" CallerCtx _ _ _ 0] show ?thesis by simp
qed

text \<open>
  only a conflict loses a lease. When the transport itself does not claim so, \<open>Renew\<close> and
  \<open>Release\<close> answer \<open>ErrLeaseLost\<close> (on which the Job is deleted) exactly when the service answered 409;
  a refused, failed, oversized or undecodable answer is another error.
\<close>

theorem lease_lost_only_on_conflict:
  assumes "run_state (va_do api ctx ''POST'' (renewPath t)
             (Some \<lparr>rb_Holder = hld, rb_TTLSeconds = n, rb_LeaseToken = tok, rb_TaskID = cid\<rparr>)) w = (r, w')"
    and "r \<noteq> Inl ErrLeaseLost" and "hld \<noteq> ''''" and "claimantTaskIDError t cid = ''''" and "renewPath t \<noteq> ''''"
  shows "fst (run_state (vault_Renew api ctx t hld tok cid n) w) = Inl ErrLeaseLost \<longleftrightarrow>
    (\<exists>raw. r = Inr (409, raw) \<and> int (length raw) \<le> maxResponseBytes)"
  using assms
  by (auto simp: vault_Renew_def doPath_def statusError_def decodeClaim_def claimFromResponse_def Let_def
      split: sum.splits if_splits option.splits)

theorem lease_lost_only_on_conflict_witness:
  "fst (run_state (vault_Renew (statusAPI 503) CallerCtx (NewTaskClaim ''t1'') ''dev'' ''tok'' '''' 300) 0) \<noteq>
   Inl ErrLeaseLost"
proof -
  have d: "run_state (va_do (statusAPI 503) CallerCtx ''POST'' (renewPath (NewTaskClaim ''t1''))
     (Some \<lparr>rb_Holder = ''dev'', rb_TTLSeconds = 300, rb_LeaseToken = ''tok'', rb_TaskID = ''''\<rparr>)) 0 = (Inr (503, ''''), 1)"
    by (simp add: statusAPI_def)
  have c: "claimantTaskIDError (NewTaskClaim ''t1'') '''' = ''''" by code_simp
  have p: "renewPath (NewTaskClaim ''t1'') \<noteq> ''''" by code_simp
  show ?thesis using lease_lost_only_on_conflict [OF d _ _ c p] by simp
qed

text \<open>
  a claim the client reports can be used. Whatever \<open>Acquire\<close>, \<open>Renew\<close> or \<open>Read\<close> returns as a claim,
  and every listed claim not marked unreadable, has a lease token to release it with and a lease
  instant that was read; a response without them is an error, not a claim.
\<close>

theorem reported_claims_are_usable:
  assumes "fst (run_state (vault_Acquire api ctx t hld cid n) w) = Inr c \<or>
    fst (run_state (vault_Renew api ctx t hld tok cid n) w) = Inr c \<or>
    fst (run_state (vault_Read api ctx t) w) = Inr c \<or>
    (\<exists>cs. fst (run_state (vault_List api ctx hld) w) = Inr cs \<and> c \<in> set cs \<and> \<not> cl_LeaseUnreadable c)"
  shows "cl_LeaseToken c \<noteq> '''' \<and> \<not> cl_LeaseUnreadable c"
proof -
  have listed: "claimsFromResponse api items = Inr cs \<Longrightarrow> c \<in> set cs \<Longrightarrow> cl_LeaseToken c \<noteq> ''''" for items cs
    by (induction items arbitrary: cs) (auto dest: claimFromResponse_listed split: sum.splits)
  from assms consider
      (acquire) "fst (run_state (vault_Acquire api ctx t hld cid n) w) = Inr c"
    | (renew) "fst (run_state (vault_Renew api ctx t hld tok cid n) w) = Inr c"
    | (read) "fst (run_state (vault_Read api ctx t) w) = Inr c"
    | (list) cs where "fst (run_state (vault_List api ctx hld) w) = Inr cs" "c \<in> set cs" "\<not> cl_LeaseUnreadable c"
    by blast
  then show ?thesis
  proof cases
    case acquire
    then show ?thesis
      by (auto simp: vault_Acquire_def dest: decodeClaim_ok split: if_splits sum.splits prod.splits)
  next
    case renew
    then show ?thesis
      by (auto simp: vault_Renew_def dest: decodeClaim_ok split: if_splits sum.splits prod.splits)
  next
    case read
    then show ?thesis
      by (auto simp: vault_Read_def dest: decodeClaim_ok split: if_splits sum.splits prod.splits)
  next
    case list
    then show ?thesis
      by (auto simp: vault_List_def dest: listed split: if_splits sum.splits prod.splits option.splits)
  qed
qed

definition answerAPI :: "nat vaultAPI" where
  "answerAPI =
     (statusAPI 200)\<lparr>va_claim := (\<lambda>raw. Some \<lparr>cr_Scope = ''task'', cr_ID = ''t1'', cr_Holder = ''dev'',
        cr_TaskID = ''t1'', cr_LeaseUntil = ''x'', cr_RenewBefore = '''', cr_LeaseToken = ''tok''\<rparr>),
      va_parseDateTime := (\<lambda>s. Some hour)\<rparr>"

theorem reported_claims_are_usable_witness:
  "\<exists>c. fst (run_state (vault_Read answerAPI CallerCtx (NewTaskClaim ''t1'')) 0) = Inr c \<and>
    cl_LeaseToken c \<noteq> '''' \<and> \<not> cl_LeaseUnreadable c"
proof -
  have "\<not> isl (fst (run_state (vault_Read answerAPI CallerCtx (NewTaskClaim ''t1'')) 0))" by code_simp
  then obtain c where c: "fst (run_state (vault_Read answerAPI CallerCtx (NewTaskClaim ''t1'')) 0) = Inr c"
    by (cases "fst (run_state (vault_Read answerAPI CallerCtx (NewTaskClaim ''t1'')) 0)") auto
  from reported_claims_are_usable [OF disjI2 [OF disjI2 [OF disjI1 [OF c]]]] c show ?thesis by blast
qed

end
