(* ===== verification/Lease_Tick.thy ===== *)
theory Lease_Tick
  imports Lease_Manager
begin

text \<open>
  One pass of the lease loop (\<^verbatim>\<open>pkg/claim/lease_manager_tick.go\<close>). The code walks a sorted
  snapshot of the held keys and looks each one up again, so a claim an earlier step of the same
  pass removed is skipped; a held claim is a pointer in the code and a key of the held map here.
\<close>

definition ctxError :: claim_error where
  "ctxError = OtherError ''context canceled''"

definition ctxErr :: "'w lease_env \<Rightarrow> ('w leaseManager, bool) state" where
  "ctxErr env = gets (\<lambda>m. le_ctxDone env (lm_world m))"

definition all_held :: "(string \<Rightarrow> heldClaim \<Rightarrow> ('w leaseManager, unit) state) \<Rightarrow> ('w leaseManager, unit) state" where
  "all_held f =
     do { held \<leftarrow> gets lm_held;
          for_each (heldKeys held)
            (\<lambda>key. do { h \<leftarrow> get_held key;
                        case h of None \<Rightarrow> State_Monad.return () | Some x \<Rightarrow> f key x }) }"

section \<open>Pending Job deletions\<close>

definition retryPendingDeletion :: "'w lease_env \<Rightarrow> string \<Rightarrow> heldClaim \<Rightarrow> ('w leaseManager, unit) state" where
  "retryPendingDeletion env key h =
     (if \<not> hc_pendingJobDeletion h then State_Monad.return ()
      else
        do { e \<leftarrow> in_world (jc_DeleteJob (le_jobControl env) CallerCtx (hc_taskID h));
             case e of
               Some _ \<Rightarrow> countClaim ''error''
             | None \<Rightarrow>
                 do { (if hc_pendingDeletionPath h = ''fence'' then bestEffortRelease env h
                       else State_Monad.return ());
                      drop_held key } })"

definition retryPendingDeletions :: "'w lease_env \<Rightarrow> ('w leaseManager, unit) state" where
  "retryPendingDeletions env = all_held (retryPendingDeletion env)"

section \<open>The fence\<close>

definition fenceClaim :: "'w lease_env \<Rightarrow> string \<Rightarrow> heldClaim \<Rightarrow> ('w leaseManager, unit) state" where
  "fenceClaim env key h =
     (if hc_releasePending h then
        do { bestEffortRelease env h; drop_held key; countClaimRemoval ''fenced'' }
      else
        do { e \<leftarrow> in_world (jc_DeleteJob (le_jobControl env) CallerCtx (hc_taskID h));
             case e of
               Some _ \<Rightarrow>
                 do { countClaim ''error'';
                      countClaimFencePending;
                      upd_held key (\<lambda>x. x\<lparr>hc_pendingJobDeletion := True, hc_pendingDeletionPath := ''fence''\<rparr>) }
             | None \<Rightarrow>
                 do { bestEffortRelease env h; drop_held key; countClaimRemoval ''fenced'' } })"

definition evaluateFence :: "'w lease_env \<Rightarrow> go_time \<Rightarrow> ('w leaseManager, unit) state" where
  "evaluateFence env now =
     all_held (\<lambda>key h.
       if hc_pendingJobDeletion h \<or> \<not> fenceDue now (hc_leaseUntil h) then State_Monad.return ()
       else fenceClaim env key h)"

text \<open>The fence at the clock's current reading.\<close>

definition fenceNow :: "'w lease_env \<Rightarrow> ('w leaseManager, unit) state" where
  "fenceNow env = do { now \<leftarrow> now_of env; evaluateFence env now }"

section \<open>Pending and due releases\<close>

definition retryPendingRelease :: "'w lease_env \<Rightarrow> string \<Rightarrow> heldClaim \<Rightarrow> ('w leaseManager, unit) state" where
  "retryPendingRelease env key h =
     (if \<not> hc_releasePending h then State_Monad.return ()
      else
        do { primaryResult \<leftarrow> releaseRefWithDeadline env (hc_target h) (hc_leaseToken h);
             case primaryResult of
               Inl _ \<Rightarrow> countClaim ''error''
             | Inr p \<Rightarrow>
                 (if hc_secondKey h = '''' then do { drop_held key; countClaimRemoval p }
                  else
                    do { secondaryResult \<leftarrow> releaseRefWithDeadline env (hc_secondTarget h) (hc_secondToken h);
                         case secondaryResult of
                           Inl _ \<Rightarrow> countClaim ''error''
                         | Inr s \<Rightarrow> do { drop_held key; countClaimRemoval (pairRemovalResult p s) } }) })"

definition retryPendingReleases :: "'w lease_env \<Rightarrow> ('w leaseManager, unit) state" where
  "retryPendingReleases env = all_held (retryPendingRelease env)"

definition releaseExpiredHold ::
  "'w lease_env \<Rightarrow> go_time \<Rightarrow> string \<Rightarrow> heldClaim \<Rightarrow> ('w leaseManager, unit) state" where
  "releaseExpiredHold env now key h =
     (if is_zero (hc_holdUntil h) \<or> now < hc_holdUntil h then State_Monad.return ()
      else
        do { ctx \<leftarrow> requestContext env;
             _ \<leftarrow> releaseLocked env ctx h;
             State_Monad.return () })"

definition releaseExpiredHolds :: "'w lease_env \<Rightarrow> ('w leaseManager, unit) state" where
  "releaseExpiredHolds env = do { now \<leftarrow> now_of env; all_held (releaseExpiredHold env now) }"

definition releaseAfterRunningCheck ::
  "'w lease_env \<Rightarrow> string \<Rightarrow> heldClaim \<Rightarrow> ('w leaseManager, unit) state" where
  "releaseAfterRunningCheck env key h =
     do { primaryResult \<leftarrow> releaseRefWithDeadline env (hc_target h) (hc_leaseToken h);
          case primaryResult of
            Inl _ \<Rightarrow>
              do { countClaim ''error''; upd_held key (hc_releasePending_update (\<lambda>_. True)) }
          | Inr p \<Rightarrow>
              (if hc_secondKey h = '''' then do { drop_held key; countClaimRemoval p }
               else
                 do { secondaryResult \<leftarrow> releaseRefWithDeadline env (hc_secondTarget h) (hc_secondToken h);
                      case secondaryResult of
                        Inl _ \<Rightarrow>
                          do { countClaim ''error''; upd_held key (hc_releasePending_update (\<lambda>_. True)) }
                      | Inr s \<Rightarrow> do { drop_held key; countClaimRemoval (pairRemovalResult p s) } }) }"

section \<open>Claims without a Job\<close>

definition joblessPassBudget :: duration where "joblessPassBudget = 10 * second"

definition joblessEligible :: "heldClaim \<Rightarrow> bool" where
  "joblessEligible h \<longleftrightarrow>
     \<not> hc_pendingJobDeletion h \<and> \<not> hc_releasePending h \<and> \<not> hc_needsRunningCheck h \<and> is_zero (hc_holdUntil h)"

definition joblessDue :: "go_time \<Rightarrow> heldClaim \<Rightarrow> bool" where
  "joblessDue now h \<longleftrightarrow>
     joblessEligible h \<and>
     \<not> (\<not> is_zero (hc_lastJoblessCheckAt h) \<and> time_sub now (hc_lastJoblessCheckAt h) < JoblessCheckInterval)"

definition joblessDueKeys :: "(string, heldClaim) gomap \<Rightarrow> go_time \<Rightarrow> string list" where
  "joblessDueKeys held now =
     sort_key (\<lambda>k. hc_lastJoblessCheckAt (the (map_of held k)))
       (filter (\<lambda>k. joblessDue now (the (map_of held k))) (heldKeys held))"

definition releaseJoblessClaim ::
  "'w lease_env \<Rightarrow> string \<Rightarrow> heldClaim \<Rightarrow> ('w leaseManager, unit) state" where
  "releaseJoblessClaim env key h =
     do { countClaim ''jobless_released''; releaseAfterRunningCheck env key h }"

definition joblessSinceAt :: "go_time \<Rightarrow> heldClaim \<Rightarrow> go_time" where
  "joblessSinceAt now h = (if is_zero (hc_joblessSince h) then now else hc_joblessSince h)"

definition checkJobless ::
  "'w lease_env \<Rightarrow> go_time \<Rightarrow> string \<Rightarrow> heldClaim \<Rightarrow> ('w leaseManager, unit) state" where
  "checkJobless env now key h =
     do { upd_held key (hc_lastJoblessCheckAt_update (\<lambda>_. now));
          ctx \<leftarrow> requestContext env;
          running \<leftarrow> in_world (jc_IsJobRunning (le_jobControl env) ctx (hc_taskID h));
          case running of
            Inl _ \<Rightarrow> countClaim ''error''
          | Inr r \<Rightarrow>
              (if r then upd_held key (hc_joblessSince_update (\<lambda>_. 0))
               else
                 do { upd_held key (hc_joblessSince_update (\<lambda>_. joblessSinceAt now h));
                      if time_sub now (joblessSinceAt now h) < JoblessGrace then State_Monad.return ()
                      else releaseJoblessClaim env key h }) }"

fun joblessPass :: "'w lease_env \<Rightarrow> go_time \<Rightarrow> string list \<Rightarrow> ('w leaseManager, unit) state" where
  "joblessPass env now [] = State_Monad.return ()"
| "joblessPass env now (key # keys) =
     do { done \<leftarrow> ctxErr env;
          if done then State_Monad.return ()
          else
            do { t \<leftarrow> now_of env;
                 if time_sub t now \<ge> joblessPassBudget then State_Monad.return ()
                 else
                   do { h \<leftarrow> get_held key;
                        (case h of None \<Rightarrow> State_Monad.return () | Some x \<Rightarrow> checkJobless env now key x);
                        joblessPass env now keys } } }"

definition releaseJoblessClaims :: "'w lease_env \<Rightarrow> ('w leaseManager, unit) state" where
  "releaseJoblessClaims env =
     do { now \<leftarrow> now_of env;
          held \<leftarrow> gets lm_held;
          joblessPass env now (joblessDueKeys held now) }"

section \<open>Claims adopted with an unknown Job state\<close>

definition recheckRunningClaim ::
  "'w lease_env \<Rightarrow> string \<Rightarrow> heldClaim \<Rightarrow> ('w leaseManager, unit) state" where
  "recheckRunningClaim env key h =
     (if \<not> hc_needsRunningCheck h then State_Monad.return ()
      else
        do { running \<leftarrow> in_world (jc_IsJobRunning (le_jobControl env) CallerCtx (hc_taskID h));
             case running of
               Inl _ \<Rightarrow> countClaim ''error''
             | Inr r \<Rightarrow>
                 (if r then do { upd_held key (hc_needsRunningCheck_update (\<lambda>_. False)); countClaim ''adopted'' }
                  else releaseAfterRunningCheck env key h) })"

definition recheckRunning :: "'w lease_env \<Rightarrow> ('w leaseManager, unit) state" where
  "recheckRunning env = all_held (recheckRunningClaim env)"

section \<open>Renewing\<close>

definition claimLost :: "'w lease_env \<Rightarrow> string \<Rightarrow> heldClaim \<Rightarrow> ('w leaseManager, unit) state" where
  "claimLost env key h =
     do { countClaimRemoval ''claim_lost'';
          e \<leftarrow> in_world (jc_DeleteJob (le_jobControl env) CallerCtx (hc_taskID h));
          case e of
            Some _ \<Rightarrow>
              do { countClaim ''error'';
                   upd_held key (\<lambda>x. x\<lparr>hc_pendingJobDeletion := True, hc_pendingDeletionPath := ''lost''\<rparr>) }
          | None \<Rightarrow> drop_held key }"

text \<open>The label to count, or None when the claim is no longer held.\<close>

definition renewReadBack :: "'w lease_env \<Rightarrow> heldClaim \<Rightarrow> ('w leaseManager, string option) state" where
  "renewReadBack env h =
     do { fenceNow env;
          still \<leftarrow> get_held (hc_key h);
          if still = None then State_Monad.return None
          else
            do { ctx \<leftarrow> requestContext env;
                 listed \<leftarrow> readBack env ctx (hc_target h);
                 case listed of
                   Inl _ \<Rightarrow> State_Monad.return (Some ''renew_failed'')
                 | Inr l \<Rightarrow>
                     (case l of
                        None \<Rightarrow> do { claimLost env (hc_key h) h; State_Monad.return None }
                      | Some c \<Rightarrow>
                          (if heldByUs env (Some c) \<and> cl_LeaseToken c = hc_leaseToken h
                           then State_Monad.return (Some ''renew_failed'')
                           else if heldByUs env (Some c) then
                             do { upd_held (hc_key h)
                                    (\<lambda>x. x\<lparr>hc_leaseToken := cl_LeaseToken c, hc_leaseUntil := cl_LeaseUntil c\<rparr>);
                                  State_Monad.return (Some ''recovered'') }
                           else do { claimLost env (hc_key h) h; State_Monad.return None })) } }"

definition renewRequest ::
  "'w lease_env \<Rightarrow> ClaimTarget \<Rightarrow> string \<Rightarrow> string \<Rightarrow> ('w leaseManager, Claim result) state" where
  "renewRequest env target token taskID =
     do { ctx \<leftarrow> requestContext env;
          in_world (cc_Renew (le_claimClient env) ctx target (le_cluster env) token
            (claimantTaskID target taskID) leaseSeconds) }"

text \<open>The second half of \<open>renewClaim\<close>: the secondary ref of a pair.\<close>

definition renewSecondary ::
  "'w lease_env \<Rightarrow> string \<Rightarrow> heldClaim \<Rightarrow> string \<Rightarrow> ('w leaseManager, unit) state" where
  "renewSecondary env key h res =
     (if hc_secondKey h = '''' then countClaim res
      else
        do { second \<leftarrow> renewRequest env (hc_secondTarget h) (hc_secondToken h) (hc_taskID h);
             case second of
               Inr c \<Rightarrow>
                 do { upd_held key (hc_secondToken_update (\<lambda>_. cl_LeaseToken c)); countClaim res }
             | Inl err \<Rightarrow>
                 (if err = ErrLeaseLost then claimLost env key h
                  else
                    do { upd_held key (hc_renewNextTick_update (\<lambda>_. True)); countClaim ''renew_failed'' }) })"

definition renewClaim ::
  "'w lease_env \<Rightarrow> string \<Rightarrow> heldClaim \<Rightarrow> go_time \<Rightarrow> ('w leaseManager, unit) state" where
  "renewClaim env key h now =
     do { upd_held key (\<lambda>x. x\<lparr>hc_lastRenewAt := now, hc_renewNextTick := False\<rparr>);
          renewed \<leftarrow> renewRequest env (hc_target h) (hc_leaseToken h) (hc_taskID h);
          case renewed of
            Inr c \<Rightarrow>
              do { upd_held key (\<lambda>x. x\<lparr>hc_leaseToken := cl_LeaseToken c, hc_leaseUntil := cl_LeaseUntil c\<rparr>);
                   renewSecondary env key h ''renewed'' }
          | Inl err \<Rightarrow>
              (if err = ErrLeaseLost then claimLost env key h
               else
                 do { res \<leftarrow> renewReadBack env h;
                      case res of
                        None \<Rightarrow> State_Monad.return ()
                      | Some label \<Rightarrow> renewSecondary env key h label }) }"

definition renewIfDue :: "'w lease_env \<Rightarrow> string \<Rightarrow> heldClaim \<Rightarrow> ('w leaseManager, unit) state" where
  "renewIfDue env key h =
     (if hc_pendingJobDeletion h \<or> hc_releasePending h then State_Monad.return ()
      else
        do { now \<leftarrow> now_of env;
             if \<not> hc_renewNextTick h \<and> \<not> renewDue now (hc_lastRenewAt h) then State_Monad.return ()
             else do { renewClaim env key h now; fenceNow env } })"

definition renewDueClaims :: "'w lease_env \<Rightarrow> ('w leaseManager, unit) state" where
  "renewDueClaims env = all_held (renewIfDue env)"

section \<open>The pass\<close>

definition Tick :: "'w lease_env \<Rightarrow> ('w leaseManager, claim_error option) state" where
  "Tick env =
     do { retryPendingDeletions env;
          done \<leftarrow> ctxErr env;
          if done then State_Monad.return (Some ctxError)
          else
            do { fenceNow env;
                 done \<leftarrow> ctxErr env;
                 if done then State_Monad.return (Some ctxError)
                 else
                   do { retryPendingReleases env;
                        releaseExpiredHolds env;
                        releaseJoblessClaims env;
                        recheckRunning env;
                        done \<leftarrow> ctxErr env;
                        if done then State_Monad.return (Some ctxError)
                        else
                          do { renewDueClaims env;
                               done \<leftarrow> ctxErr env;
                               State_Monad.return (if done then Some ctxError else None) } } } }"


section \<open>How the pass changes the held set\<close>

lemma step_all_held: "evolution P \<Longrightarrow> (\<And>k h. held_step (within P) (f k h)) \<Longrightarrow> held_step (within P) (all_held f)"
  unfolding all_held_def
  by (intro evolution.evolve evolution.evolve_for_each evolution.evolve_keeps [OF _ keeps_ops(2)])

lemmas lease_ops = lease.evolve_keeps [OF keeps_release(2)] lease.evolve_keeps [OF keeps_release(3)]
  lease.evolve_keeps [OF keeps_release(4)] lease.evolve_keeps [OF keeps_requestContext]
  lease.evolve_keeps [OF keeps_ops(1)] lease.evolve_keeps [OF keeps_ops(2)] lease.evolve_keeps [OF keeps_ops(3)]
  lease.evolve_keeps [OF keeps_ops(4)] lease.evolve_upd step_releaseLocked

lemmas same_defs = same_lease_def same_claim_def

lemma step_retryPendingDeletions: "held_step (within same_lease) (retryPendingDeletions env)"
  unfolding retryPendingDeletions_def retryPendingDeletion_def
  by (intro step_all_held lease.evolution_axioms lease.evolve lease_ops)

lemma step_fenceClaim: "held_step (within same_lease) (fenceClaim env k h)"
  unfolding fenceClaim_def
  by (intro lease.evolve lease_ops) (auto simp: same_defs)

lemma step_evaluateFence: "held_step (within same_lease) (evaluateFence env now)"
  unfolding evaluateFence_def
  by (intro step_all_held lease.evolution_axioms lease.evolve step_fenceClaim)

lemma step_fenceNow: "held_step (within same_lease) (fenceNow env)"
  unfolding fenceNow_def by (intro lease.evolve lease_ops step_evaluateFence)

lemma step_retryPendingReleases: "held_step (within same_lease) (retryPendingReleases env)"
  unfolding retryPendingReleases_def retryPendingRelease_def
  by (intro step_all_held lease.evolution_axioms lease.evolve lease_ops)

lemma step_releaseExpiredHolds: "held_step (within same_lease) (releaseExpiredHolds env)"
  unfolding releaseExpiredHolds_def releaseExpiredHold_def
  by (intro lease.evolve lease_ops step_all_held lease.evolution_axioms)

lemma step_releaseAfterRunningCheck: "held_step (within same_lease) (releaseAfterRunningCheck env k h)"
  unfolding releaseAfterRunningCheck_def
  by (intro lease.evolve lease_ops) (auto simp: same_defs)

lemma step_checkJobless: "held_step (within same_lease) (checkJobless env now k h)"
  unfolding checkJobless_def releaseJoblessClaim_def
  by (intro lease.evolve lease_ops step_releaseAfterRunningCheck) (auto simp: same_defs)

lemma step_joblessPass: "held_step (within same_lease) (joblessPass env now ks)"
proof (induction ks)
  case Nil
  then show ?case by (simp add: lease.evolve_return)
next
  case (Cons k ks)
  then show ?case
    unfolding joblessPass.simps ctxErr_def by (intro lease.evolve lease_ops step_checkJobless)
qed

lemma step_releaseJoblessClaims: "held_step (within same_lease) (releaseJoblessClaims env)"
  unfolding releaseJoblessClaims_def by (intro lease.evolve lease_ops step_joblessPass)

lemma step_recheckRunning: "held_step (within same_lease) (recheckRunning env)"
  unfolding recheckRunning_def recheckRunningClaim_def
  by (intro step_all_held lease.evolution_axioms lease.evolve lease_ops step_releaseAfterRunningCheck)
    (auto simp: same_defs)

lemmas ident_ops = ident.evolve_keeps [OF keeps_readBack(1)] ident.evolve_keeps [OF keeps_requestContext]
  ident.evolve_keeps [OF keeps_ops(1)] ident.evolve_keeps [OF keeps_ops(2)] ident.evolve_keeps [OF keeps_ops(3)]
  ident.evolve_upd within_lease_ident [OF step_fenceNow]

lemma step_claimLost: "held_step (within same_claim) (claimLost env k h)"
  unfolding claimLost_def by (intro ident.evolve ident_ops) (auto simp: same_defs)

lemma step_renewSecondary: "held_step (within same_claim) (renewSecondary env k h l)"
  unfolding renewSecondary_def renewRequest_def
  by (intro ident.evolve ident_ops step_claimLost) (auto simp: same_defs)

lemma step_renewReadBack: "held_step (within same_claim) (renewReadBack env h)"
  unfolding renewReadBack_def
  by (intro ident.evolve ident_ops step_claimLost) (auto simp: same_defs)

lemma step_renewClaim: "held_step (within same_claim) (renewClaim env k h now)"
  unfolding renewClaim_def renewRequest_def
  by (intro ident.evolve ident_ops step_claimLost step_renewReadBack step_renewSecondary) (auto simp: same_defs)

lemma step_renewDueClaims: "held_step (within same_claim) (renewDueClaims env)"
  unfolding renewDueClaims_def renewIfDue_def
  by (intro step_all_held ident.evolution_axioms ident.evolve ident_ops step_renewClaim)

lemma step_Tick: "held_step (within same_claim) (Tick env)"
  unfolding Tick_def ctxErr_def
  by (intro ident.evolve ident_ops step_renewDueClaims within_lease_ident [OF step_retryPendingDeletions]
      within_lease_ident [OF step_retryPendingReleases] within_lease_ident [OF step_releaseExpiredHolds]
      within_lease_ident [OF step_releaseJoblessClaims] within_lease_ident [OF step_recheckRunning])


section \<open>The fence\<close>

text \<open>A held claim is safe at an instant when its fence is not due, or its Job deletion is pending.\<close>

definition fence_ok :: "go_time \<Rightarrow> (string, heldClaim) gomap \<Rightarrow> string \<Rightarrow> bool" where
  "fence_ok now H k \<longleftrightarrow>
     (\<forall>h. map_of H k = Some h \<longrightarrow> hc_pendingJobDeletion h \<or> \<not> fenceDue now (hc_leaseUntil h))"

definition fenced :: "go_time \<Rightarrow> (string, heldClaim) gomap \<Rightarrow> bool" where
  "fenced now H \<longleftrightarrow> (\<forall>k. fence_ok now H k)"

lemma fence_ok_within: "within same_lease H H' \<Longrightarrow> gomap_wf H \<Longrightarrow> fence_ok now H k \<Longrightarrow> fence_ok now H' k"
  unfolding fence_ok_def within_def same_lease_def by metis

lemma fenced_within: "within same_lease H H' \<Longrightarrow> gomap_wf H \<Longrightarrow> fenced now H \<Longrightarrow> fenced now H'"
  unfolding fenced_def using fence_ok_within by blast

lemma fenceDue_mono: "fenceDue t L \<Longrightarrow> t \<le> t' \<Longrightarrow> fenceDue t' L"
  by (simp add: fenceDue_def)

lemma fenced_earlier: "fenced t' H \<Longrightarrow> t \<le> t' \<Longrightarrow> fenced t H"
  unfolding fenced_def fence_ok_def using fenceDue_mono by blast

lemma within_wf: "within P H H' \<Longrightarrow> gomap_wf H \<Longrightarrow> gomap_wf H'"
  by (simp add: within_def)

lemma within_keys: "within P H H' \<Longrightarrow> gomap_wf H \<Longrightarrow> dom (map_of H') \<subseteq> dom (map_of H)"
  unfolding within_def by blast

lemma fenceClaim_ok: "wp (fenceClaim env k h) (\<lambda>_ m'. fence_ok now (lm_held m') k) m"
  unfolding fenceClaim_def
  by (auto simp: wp_rules fence_ok_def map_of_delete_Some map_of_entry_Some intro!: wp_frames)

lemma evaluateFence_fenced:
  assumes wf: "gomap_wf (lm_held m)"
  shows "wp (evaluateFence env now) (\<lambda>_ m'. fenced now (lm_held m')) m"
proof -
  define body where "body k = do { h \<leftarrow> get_held k;
      case h of None \<Rightarrow> State_Monad.return ()
      | Some x \<Rightarrow> if hc_pendingJobDeletion x \<or> \<not> fenceDue now (hc_leaseUntil x) then State_Monad.return ()
                  else fenceClaim env k x }" for k
  define ks where "ks = heldKeys (lm_held m)"
  let ?I = "\<lambda>s. gomap_wf (lm_held s) \<and> dom (map_of (lm_held s)) \<subseteq> set ks"
  have step: "held_step (within same_lease) (body k)" for k
    unfolding body_def by (intro lease.evolve lease_ops step_fenceClaim)
  have inv: "wp (body k) (\<lambda>_ s'. ?I s') s" if "?I s" for k s
    by (rule wp_held_step [OF step]) (use that within_wf within_keys in blast)
  have hit: "wp (body k) (\<lambda>_ s'. fence_ok now (lm_held s') k) s" for k s
    unfolding body_def by (auto simp: wp_rules fence_ok_def [of now "lm_held s"] intro: fenceClaim_ok)
  have "wp (for_each ks body) (\<lambda>_ s'. ?I s' \<and> (\<forall>k \<in> set ks. fence_ok now (lm_held s') k)) m"
  proof (rule wp_for_each_all)
    show "?I m" using wf by (auto simp: ks_def heldKeys_def dom_map_of_conv_image_fst)
    show "wp (body k) (\<lambda>_ s'. ?I s' \<and> fence_ok now (lm_held s') k) s" if "?I s" for k s
      by (rule wp_conj [OF inv [OF that] hit])
    show "wp (body k) (\<lambda>_ s'. fence_ok now (lm_held s') j) s" if "?I s" "fence_ok now (lm_held s) j" for k j s
      by (rule wp_held_step [OF step]) (use that fence_ok_within in blast)
  qed
  then have "wp (for_each ks body) (\<lambda>_ s'. fenced now (lm_held s')) m"
    by (rule wp_mono) (auto simp: fenced_def fence_ok_def dom_def)
  then show ?thesis
    by (simp add: evaluateFence_def all_held_def wp_rules ks_def body_def [abs_def])
qed


lemma wp_all_held:
  assumes "I m" and "\<And>k h s. I s \<Longrightarrow> map_of (lm_held s) k = Some h \<Longrightarrow> wp (f k h) (\<lambda>_. I) s"
  shows "wp (all_held f) (\<lambda>_. I) m"
  unfolding all_held_def
  by (simp add: wp_rules, rule wp_for_each) (use assms in \<open>auto simp: wp_rules\<close>)

section \<open>The pass against a clock that does not run backwards\<close>

definition advances :: "('w \<Rightarrow> go_time) \<Rightarrow> ('w, 'a) state \<Rightarrow> bool" where
  "advances time_of x \<longleftrightarrow> (\<forall>w. time_of w \<le> time_of (snd (run_state x w)))"

lemma advances_return: "advances f (State_Monad.return a)" "advances f (gets g)"
  by (simp_all add: advances_def)

lemma advances_bind: "advances f x \<Longrightarrow> (\<And>a. advances f (k a)) \<Longrightarrow> advances f (State_Monad.bind x k)"
  unfolding advances_def by (auto split: prod.split) (metis order_trans snd_conv)

lemma advances_cases:
  "advances t x \<Longrightarrow> advances t y \<Longrightarrow> advances t (if b then x else y)"
  "advances t x \<Longrightarrow> (\<And>a. advances t (f a)) \<Longrightarrow> advances t (case z of None \<Rightarrow> x | Some a \<Rightarrow> f a)"
  "(\<And>a. advances t (g a)) \<Longrightarrow> (\<And>b. advances t (h b)) \<Longrightarrow> advances t (case s of Inl a \<Rightarrow> g a | Inr b \<Rightarrow> h b)"
  by (auto split: option.split sum.split)

locale lease_clock =
  fixes env :: "'w lease_env" and time_of :: "'w \<Rightarrow> go_time"
  assumes clock_reads: "run_state (le_currentDateTime env) w = (t, w') \<Longrightarrow> time_of w \<le> t \<and> t \<le> time_of w'"
    and client_advances:
      "advances time_of (cc_Acquire (le_claimClient env) ctx tgt hld tid n)"
      "advances time_of (cc_Renew (le_claimClient env) ctx tgt hld tok tid n)"
      "advances time_of (cc_List (le_claimClient env) ctx hld)"
      "advances time_of (cc_Release (le_claimClient env) ctx tgt tok)"
      "advances time_of (cc_Read (le_claimClient env) ctx tgt)"
    and jobs_advance:
      "advances time_of (jc_IsJobRunning (le_jobControl env) ctx tid)"
      "advances time_of (jc_DeleteJob (le_jobControl env) ctx tid)"
begin

abbreviation mono :: "('w leaseManager, 'a) state \<Rightarrow> bool" where
  "mono x \<equiv> advances (\<lambda>m. time_of (lm_world m)) x"

lemma wp_mono_time: "mono x \<Longrightarrow> wp x (\<lambda>_ m'. time_of (lm_world m) \<le> time_of (lm_world m')) m"
  by (metis advances_def snd_conv wpI)

lemma wp_timed:
  assumes "mono x" "held_step R x"
    and "\<And>a m'. time_of (lm_world m) \<le> time_of (lm_world m') \<Longrightarrow> R (lm_held m) (lm_held m') \<Longrightarrow> Q a m'"
  shows "wp x Q m"
  using assms unfolding advances_def held_step_def wp_def by (simp add: case_prod_unfold)

lemma mono_basic:
  "mono (State_Monad.return a)" "mono (gets g)" "mono (countClaim l)" "mono (drop_held k)" "mono (upd_held k f)"
  "mono (get_held k)" "mono (countClaimRemoval l)" "mono countClaimFencePending"
  by (simp_all add: advances_def countClaim_def drop_held_def upd_held_def get_held_def countClaimRemoval_def
      countClaimFencePending_def)

lemma mono_world: "advances time_of x \<Longrightarrow> mono (in_world x)"
  by (auto simp: advances_def in_world_def split: prod.split) (metis snd_conv)

lemma mono_now: "mono (now_of env)"
  unfolding now_of_def
  by (rule mono_world) (metis advances_def clock_reads order_trans prod.collapse)

lemma mono_for_each: "(\<And>k. mono (f k)) \<Longrightarrow> mono (for_each ks f)"
  by (induction ks) (auto intro: advances_bind mono_basic(1))

lemmas mono_rules = advances_bind mono_basic mono_now advances_cases mono_for_each
  mono_world [OF client_advances(1)] mono_world [OF client_advances(2)] mono_world [OF client_advances(4)]
  mono_world [OF client_advances(5)] mono_world [OF jobs_advance(1)] mono_world [OF jobs_advance(2)]

lemma mono_requests: "mono (requestContext env)" "mono (bestEffortRelease env h)"
  "mono (releaseRef env ctx t tok)" "mono (releaseRefWithDeadline env t tok)" "mono (releaseLocked env ctx h)"
  unfolding requestContext_def bestEffortRelease_def releaseRefWithDeadline_def releaseRef_def releaseLocked_def
  by (intro mono_rules)+

lemma mono_all_held: "(\<And>k h. mono (f k h)) \<Longrightarrow> mono (all_held f)"
  unfolding all_held_def by (intro mono_rules)

lemma mono_fence: "mono (fenceClaim env k h)" "mono (evaluateFence env t)" "mono (fenceNow env)"
  unfolding fenceNow_def evaluateFence_def fenceClaim_def
  by (intro mono_rules mono_all_held mono_requests)+

lemma mono_releases: "mono (retryPendingDeletions env)" "mono (retryPendingReleases env)"
  "mono (releaseExpiredHolds env)" "mono (recheckRunning env)"
  unfolding retryPendingDeletions_def retryPendingDeletion_def retryPendingReleases_def retryPendingRelease_def
    releaseExpiredHolds_def releaseExpiredHold_def recheckRunning_def recheckRunningClaim_def
    releaseAfterRunningCheck_def
  by (intro mono_rules mono_all_held mono_requests)+

lemma mono_joblessPass: "mono (joblessPass env now ks)"
proof (induction ks)
  case Nil
  then show ?case by (simp add: mono_rules)
next
  case (Cons k ks)
  then show ?case
    unfolding joblessPass.simps ctxErr_def checkJobless_def releaseJoblessClaim_def releaseAfterRunningCheck_def
    by (intro mono_rules mono_requests)
qed

lemma mono_jobless: "mono (releaseJoblessClaims env)"
  unfolding releaseJoblessClaims_def by (intro mono_rules mono_joblessPass)

lemma mono_renew: "mono (claimLost env k h)" "mono (renewReadBack env h)" "mono (renewSecondary env k h l)"
  "mono (renewClaim env k h t)"
  unfolding renewClaim_def renewSecondary_def renewReadBack_def claimLost_def renewRequest_def readBack_def
  by (intro mono_rules mono_requests mono_fence)+

text \<open>The invariant of the pass from its first fence on.\<close>

definition guarded :: "go_time \<Rightarrow> 'w leaseManager \<Rightarrow> bool" where
  "guarded t m \<longleftrightarrow> gomap_wf (lm_held m) \<and> t \<le> time_of (lm_world m) \<and> fenced t (lm_held m)"

lemma guarded_lease:
  assumes "held_step (within same_lease) x" "mono x" "guarded t m"
  shows "wp x (\<lambda>_. guarded t) m"
  by (rule wp_timed [OF assms(2,1)]) (use assms(3) within_wf fenced_within in \<open>auto simp: guarded_def\<close>)

lemma fenceNow_guarded:
  assumes "gomap_wf (lm_held m)" "t \<le> time_of (lm_world m)"
  shows "wp (fenceNow env) (\<lambda>_. guarded t) m"
proof -
  have keep: "wp (evaluateFence env now) (\<lambda>_ m'. gomap_wf (lm_held m')) m1" if "gomap_wf (lm_held m1)" for now m1
    by (rule wp_held_step [OF step_evaluateFence]) (use that within_wf in blast)
  have "wp (evaluateFence env now) (\<lambda>_. guarded t) m1"
    if "lm_held m1 = lm_held m" "t \<le> now" "now \<le> time_of (lm_world m1)" for now m1
    by (rule wp_mono [OF wp_conj [OF wp_conj [OF keep evaluateFence_fenced] wp_mono_time [OF mono_fence(2)]]])
      (use that assms fenced_earlier in \<open>auto simp: guarded_def\<close>)
  then show ?thesis
    using clock_reads assms(2) by (fastforce simp: fenceNow_def now_of_def wp_rules)
qed

lemma renewIfDue_guarded:
  assumes "guarded t m"
  shows "wp (renewIfDue env k h) (\<lambda>_. guarded t) m"
proof -
  have renew: "wp (renewClaim env k h now) (\<lambda>_. wp (fenceNow env) (\<lambda>_. guarded t)) m1"
    if "lm_held m1 = lm_held m" "t \<le> time_of (lm_world m1)" for now m1
    by (rule wp_timed [OF mono_renew(4) step_renewClaim])
      (use that assms within_wf in \<open>auto simp: guarded_def intro!: fenceNow_guarded\<close>)
  have "wp (now_of env) (\<lambda>_ m1. lm_held m1 = lm_held m \<and> t \<le> time_of (lm_world m1)) m"
    by (rule wp_timed [OF mono_now keeps_ops(1)])
      (use assms in \<open>auto simp: guarded_def\<close>)
  then have "wp (now_of env) (\<lambda>now. wp (if \<not> hc_renewNextTick h \<and> \<not> renewDue now (hc_lastRenewAt h)
      then State_Monad.return () else do { renewClaim env k h now; fenceNow env }) (\<lambda>_. guarded t)) m"
    by (rule wp_mono) (use assms renew in \<open>auto simp: wp_rules guarded_def\<close>)
  then show ?thesis using assms by (simp add: renewIfDue_def wp_bind wp_return)
qed

lemma Tick_guarded:
  assumes "gomap_wf (lm_held m)"
  shows "wp (Tick env) (\<lambda>r m'. r = None \<longrightarrow> guarded (time_of (lm_world m)) m') m"
proof -
  let ?G = "guarded (time_of (lm_world m))"
  note stage = guarded_lease [OF step_retryPendingReleases mono_releases(2)]
    guarded_lease [OF step_releaseExpiredHolds mono_releases(3)]
    guarded_lease [OF step_releaseJoblessClaims mono_jobless]
    guarded_lease [OF step_recheckRunning mono_releases(4)]
  have renew: "wp (renewDueClaims env) (\<lambda>_. ?G) s" if "?G s" for s
    unfolding renewDueClaims_def by (rule wp_all_held [where I = ?G]) (use that renewIfDue_guarded in auto)
  have start: "wp (retryPendingDeletions env)
      (\<lambda>_ m1. gomap_wf (lm_held m1) \<and> time_of (lm_world m) \<le> time_of (lm_world m1)) m"
    by (rule wp_timed [OF mono_releases(1) step_retryPendingDeletions])
      (use assms within_wf in auto)
  show ?thesis
    unfolding Tick_def ctxErr_def wp_bind wp_gets
    by (rule wp_mono [OF start])
      (auto simp: wp_rules intro!: wp_mono [OF fenceNow_guarded] wp_mono [OF stage(1)] wp_mono [OF stage(2)]
        wp_mono [OF stage(3)] wp_mono [OF stage(4)] wp_mono [OF renew])
qed

end

section \<open>Reachable held sets\<close>

text \<open>
  Everything that changes a manager: its operations, and the world moving between them. Nothing is
  assumed of the service, the clock or the cluster.
\<close>

datatype manager_op =
    OpClaimPair string string string
  | OpTakeoverPair string string string
  | OpRelease string
  | OpReleaseAfterSuccess string go_time
  | OpTick
  | OpRecover

fun run_manager_op :: "'w lease_env \<Rightarrow> manager_op \<Rightarrow> ('w leaseManager, unit) state" where
  "run_manager_op env (OpClaimPair p s tid) = do { _ \<leftarrow> ClaimPair env p s tid; State_Monad.return () }"
| "run_manager_op env (OpTakeoverPair p s tid) = do { _ \<leftarrow> TakeoverPair env p s tid; State_Monad.return () }"
| "run_manager_op env (OpRelease k) = do { _ \<leftarrow> lm_Release env k; State_Monad.return () }"
| "run_manager_op env (OpReleaseAfterSuccess k t) = do { _ \<leftarrow> ReleaseAfterSuccess env k t; State_Monad.return () }"
| "run_manager_op env OpTick = do { _ \<leftarrow> Tick env; State_Monad.return () }"
| "run_manager_op env OpRecover = do { _ \<leftarrow> Recover env; State_Monad.return () }"

inductive manager_step :: "'w lease_env \<Rightarrow> 'w leaseManager \<Rightarrow> 'w leaseManager \<Rightarrow> bool"
  for env :: "'w lease_env" where
  operation: "run_state (run_manager_op env oper) m = ((), m') \<Longrightarrow> manager_step env m m'"
| world: "manager_step env m (m\<lparr>lm_world := w\<rparr>)"

inductive_cases manager_stepE: "manager_step env m m'"

lemma wf_ignore: "held_step keeps_wf x \<Longrightarrow> held_step keeps_wf (do { _ \<leftarrow> x; State_Monad.return () })"
  by (intro wf_bind held_step_return keeps_wf_refl)

lemma wf_claims: "held_step keeps_wf (ClaimPair env p s tid)" "held_step keeps_wf (TakeoverPair env p s tid)"
  unfolding ClaimPair_def
  by (rule held_stepI, rule wp_mono [OF claimPairLocked_outcome], erule held_wf_outcome)
    (rule held_stepI, rule wp_mono [OF TakeoverPair_outcome], erule held_wf_outcome)

lemma wf_Tick: "held_step keeps_wf (Tick env)"
  using step_Tick by (rule held_step_mono) (rule held_wf_within)

lemma wf_run_manager_op: "held_step keeps_wf (run_manager_op env oper)"
  by (cases oper) (simp_all add: wf_ignore wf_claims wf_ops wf_Tick)

text \<open>
  C5: the held set stays well formed. Whatever the lease manager does from an empty held set, in
  whatever order, and whatever the service answers, every held claim is stored under its own key, once,
  and carries the targets its primary and secondary keys parse to, so a renew or a release always
  addresses the claim its key stands for.
\<close>

theorem held_set_well_formed:
  assumes "(manager_step env)\<^sup>*\<^sup>* m m'" and "lm_held m = []"
  shows "held_wf (lm_held m')"
  using assms
proof (induction rule: rtranclp_induct)
  case (step m1 m2)
  from step(2) step(3) [OF step(4)] show ?case
    using held_stepD [OF wf_run_manager_op] by (elim manager_stepE) auto
qed simp

theorem held_set_well_formed_witness:
  "held_wf (lm_held (snd (run_state (run_manager_op (staticEnv grantClient False)
     (OpClaimPair ''claims/repo/acme/lib'' ''claims/pr/acme/lib/7'' ''t1'')) idleManager)))"
proof (rule held_set_well_formed)
  let ?x = "run_state (run_manager_op (staticEnv grantClient False)
     (OpClaimPair ''claims/repo/acme/lib'' ''claims/pr/acme/lib/7'' ''t1'')) idleManager"
  have "manager_step (staticEnv grantClient False) idleManager (snd ?x)"
    by (rule manager_step.operation [where oper = "OpClaimPair ''claims/repo/acme/lib'' ''claims/pr/acme/lib/7'' ''t1''"])
      (simp add: prod_eq_iff)
  then show "(manager_step (staticEnv grantClient False))\<^sup>*\<^sup>* idleManager (snd ?x)" by blast
qed (simp add: idleManager_def)

text \<open>
  the fence misses nobody. After \<open>evaluateFence\<close> at an instant, every claim still held either has a
  lease whose fence is not due at that instant, or is marked for the deletion of its Job, which every
  later pass retries; this holds whatever the cluster and the service answer.
\<close>

theorem evaluate_fence_complete:
  assumes "gomap_wf (lm_held m)" and "run_state (evaluateFence env now) m = (u, m')"
    and "map_of (lm_held m') k = Some h"
  shows "hc_pendingJobDeletion h \<or> now + FenceLead + FenceMargin \<le> hc_leaseUntil h"
  using wpD [OF evaluateFence_fenced [OF assms(1)] assms(2)] assms(3)
  by (fastforce simp: fenced_def fence_ok_def fenceDue_def fenceAt_def)

theorem evaluate_fence_complete_witness:
  "\<not> (\<exists>h. map_of (lm_held (snd (run_state (evaluateFence (staticEnv staticClient False) hour) busyManager)))
     ''claims/task/t1'' = Some h \<and> \<not> hc_pendingJobDeletion h)"
proof
  let ?x = "run_state (evaluateFence (staticEnv staticClient False) hour) busyManager"
  assume "\<exists>h. map_of (lm_held (snd ?x)) ''claims/task/t1'' = Some h \<and> \<not> hc_pendingJobDeletion h"
  then obtain h where h: "map_of (lm_held (snd ?x)) ''claims/task/t1'' = Some h" "\<not> hc_pendingJobDeletion h" by blast
  have wf: "gomap_wf (lm_held busyManager)" by (simp add: busyManager_def gomap_wf_def)
  have run: "?x = ((), snd ?x)" by (simp add: prod_eq_iff)
  from evaluate_fence_complete [OF wf run h(1)] h(2)
  have "hour + FenceLead + FenceMargin \<le> hc_leaseUntil h" by simp
  moreover have "hc_leaseUntil h = hour"
    using held_stepD [OF step_evaluateFence run] h(1) wf
    by (auto simp: within_def same_lease_def busyManager_def idleManager_def someHeld_def split: if_splits)
  ultimately show False by (simp add: FenceLead_def FenceMargin_def second_def)
qed

text \<open>
  C27: a lost claim stops its Job. When the service answers a renew with \<open>ErrLeaseLost\<close>, the Job of
  the claim is deleted and the claim dropped, or, when the deletion fails, the claim stays with a
  pending Job deletion, so it is never renewed again and the deletion is retried.
\<close>

theorem lost_claim_stops_job:
  assumes "gomap_wf (lm_held m)" and "map_of (lm_held m) key = Some h"
    and "run_state (renewRequest env (hc_target h) (hc_leaseToken h) (hc_taskID h))
           (m\<lparr>lm_held := AList.map_entry key (\<lambda>x. x\<lparr>hc_lastRenewAt := now, hc_renewNextTick := False\<rparr>) (lm_held m)\<rparr>)
         = (Inl ErrLeaseLost, m1)"
    and "run_state (jc_DeleteJob (le_jobControl env) CallerCtx (hc_taskID h)) (lm_world m1) = (e, w2)"
    and "run_state (renewClaim env key h now) m = (u, m')"
  shows "lm_world m' = w2 \<and>
    (case e of
       None \<Rightarrow> map_of (lm_held m') key = None
     | Some _ \<Rightarrow> \<exists>h'. map_of (lm_held m') key = Some h' \<and> hc_pendingJobDeletion h')"
proof -
  let ?m0 = "m\<lparr>lm_held := AList.map_entry key (\<lambda>x. x\<lparr>hc_lastRenewAt := now, hc_renewNextTick := False\<rparr>) (lm_held m)\<rparr>"
  have "keeps (renewRequest env (hc_target h) (hc_leaseToken h) (hc_taskID h))"
    unfolding renewRequest_def by (intro keeps_rules)
  from held_stepD [OF this assms(3)] have held: "lm_held m1 = lm_held ?m0" by simp
  have "wp (claimLost env key h) (\<lambda>_ m'. lm_world m' = w2 \<and>
    (case e of
       None \<Rightarrow> map_of (lm_held m') key = None
     | Some _ \<Rightarrow> \<exists>h'. map_of (lm_held m') key = Some h' \<and> hc_pendingJobDeletion h')) m1"
    using assms(2,4) held unfolding claimLost_def
    by (auto simp: wp_rules AList.delete_conv map_of_map_entry)
  moreover have "run_state (claimLost env key h) m1 = (u, m')"
    using assms(3,5) by (simp add: renewClaim_def upd_held_def modify_def)
  ultimately show ?thesis by (rule wpD)
qed

theorem lost_claim_stops_job_witness:
  "map_of (lm_held (snd (run_state (renewClaim (staticEnv staticClient False) ''claims/task/t1'' someHeld minute)
     busyManager))) ''claims/task/t1'' = None"
proof -
  let ?env = "staticEnv staticClient False :: unit lease_env"
  let ?m0 = "busyManager\<lparr>lm_held := AList.map_entry ''claims/task/t1''
    (\<lambda>x. x\<lparr>hc_lastRenewAt := minute, hc_renewNextTick := False\<rparr>) (lm_held busyManager)\<rparr>"
  have wf: "gomap_wf (lm_held busyManager)" by (simp add: busyManager_def gomap_wf_def)
  have h: "map_of (lm_held busyManager) ''claims/task/t1'' = Some someHeld"
    by (simp add: busyManager_def idleManager_def)
  have lost: "run_state (renewRequest ?env (hc_target someHeld) (hc_leaseToken someHeld) (hc_taskID someHeld)) ?m0
      = (Inl ErrLeaseLost, ?m0)"
    by (simp add: renewRequest_def requestContext_def now_of_def in_world_def staticEnv_def staticClient_def)
  have del: "run_state (jc_DeleteJob (le_jobControl ?env) CallerCtx (hc_taskID someHeld)) (lm_world ?m0) = (None, ())"
    by (simp add: staticEnv_def)
  have run: "run_state (renewClaim ?env ''claims/task/t1'' someHeld minute) busyManager =
      ((), snd (run_state (renewClaim ?env ''claims/task/t1'' someHeld minute) busyManager))"
    by (simp add: prod_eq_iff)
  from lost_claim_stops_job [OF wf h lost del run] show ?thesis by simp
qed

text \<open>
  a claim without a Job is given up only after the grace. When one jobless check drops a claim or
  decides its release, the absence of its Job was first noted at least the grace period before this
  check; a check that sees the Job run forgets the note, and one that cannot read the Job state keeps
  the claim and the note.
\<close>

theorem jobless_release_after_grace:
  assumes "map_of (lm_held m) key = Some h" and "\<not> hc_releasePending h"
    and "run_state (checkJobless env now key h) m = (u, m')"
  shows "(case map_of (lm_held m') key of
      None \<Rightarrow> \<not> is_zero (hc_joblessSince h) \<and> now - hc_joblessSince h \<ge> 300 * second
    | Some h' \<Rightarrow>
        (hc_releasePending h' \<longrightarrow> \<not> is_zero (hc_joblessSince h) \<and> now - hc_joblessSince h \<ge> 300 * second) \<and>
        hc_joblessSince h' \<in> {0, hc_joblessSince h, joblessSinceAt now h})"
proof -
  have old: "\<not> is_zero (hc_joblessSince h) \<and> now - hc_joblessSince h \<ge> 300 * second"
    if "\<not> time_sub now (joblessSinceAt now h) < JoblessGrace"
  proof -
    from that have "300 * second \<le> now - joblessSinceAt now h"
      using time_sub_ge [of "300 * second" now] by (simp add: JoblessGrace_def second_def not_less)
    then show ?thesis by (auto simp: joblessSinceAt_def second_def split: if_splits)
  qed
  have "wp (checkJobless env now key h) (\<lambda>_ m'. case map_of (lm_held m') key of
      None \<Rightarrow> \<not> is_zero (hc_joblessSince h) \<and> now - hc_joblessSince h \<ge> 300 * second
    | Some h' \<Rightarrow>
        (hc_releasePending h' \<longrightarrow> \<not> is_zero (hc_joblessSince h) \<and> now - hc_joblessSince h \<ge> 300 * second) \<and>
        hc_joblessSince h' \<in> {0, hc_joblessSince h, joblessSinceAt now h}) m"
    unfolding checkJobless_def releaseJoblessClaim_def releaseAfterRunningCheck_def
    using assms(1,2) old
    by (auto simp: wp_rules AList.delete_conv map_of_map_entry intro!: wp_frames)
  from wpD [OF this assms(3)] show ?thesis .
qed

theorem jobless_release_after_grace_witness:
  "hc_joblessSince (the (map_of (lm_held (snd (run_state
     (checkJobless (staticEnv staticClient False) minute ''claims/task/t1'' someHeld) busyManager)))
     ''claims/task/t1'')) = minute"
proof -
  let ?x = "run_state (checkJobless (staticEnv staticClient False) minute ''claims/task/t1'' someHeld) busyManager"
  have h: "map_of (lm_held busyManager) ''claims/task/t1'' = Some someHeld"
    by (simp add: busyManager_def idleManager_def)
  have p: "\<not> hc_releasePending someHeld" by (simp add: someHeld_def zeroHeld_def)
  have run: "?x = ((), snd ?x)" by (simp add: prod_eq_iff)
  have z: "hc_joblessSince someHeld = 0" by (simp add: someHeld_def zeroHeld_def)
  have nz: "(case map_of (lm_held (snd ?x)) ''claims/task/t1'' of None \<Rightarrow> True | Some x \<Rightarrow> hc_joblessSince x \<noteq> 0)"
    by code_simp
  from jobless_release_after_grace [OF h p run] z nz show ?thesis
    by (cases "map_of (lm_held (snd ?x)) ''claims/task/t1''") (auto simp: is_zero_def joblessSinceAt_def)
qed

end
