(* ===== verification/Claim_Service.thy ===== *)
theory Claim_Service
  imports Vault_Client Lease_Tick
begin

text \<open>
  The typed claim contract over git-rest refs (\<^verbatim>\<open>pkg/claim/claimtest/client.go\<close>), the implementation
  the repository's tests run the lease manager against: a claim is the ref at its key, its token is the
  ref's sha, and an expired or unreadable lease is taken over by an acquire. \<open>rc\<close> is any claim-ref
  client, \<open>now\<close> its clock and \<open>parseDateTime\<close> the library's date parser.
\<close>

section \<open>Targets and rows\<close>

definition scopeOf :: "ClaimTarget \<Rightarrow> string" where
  "scopeOf target = (if TaskID target \<noteq> '''' then ''task'' else if Number target \<noteq> '''' then ''pr'' else ''repo'')"

definition idOf :: "ClaimTarget \<Rightarrow> string" where
  "idOf target =
     (if TaskID target \<noteq> '''' then TaskID target
      else if Number target \<noteq> '''' then Owner target @ ''/'' @ Repo target @ ''/'' @ Number target
      else Owner target @ ''/'' @ Repo target)"

definition claimantError :: "ClaimTarget \<Rightarrow> string \<Rightarrow> string" where
  "claimantError target claimant =
     (if TaskID target \<noteq> '''' \<and> claimant \<noteq> '''' then ''a task claim must not carry a claimant task id''
      else if TaskID target = '''' \<and> claimant = '''' then
        ''a repository or pull-request claim requires a claimant task id''
      else '''')"

definition transportTaskID :: "ClaimTarget \<Rightarrow> string \<Rightarrow> string" where
  "transportTaskID target claimant = (if TaskID target \<noteq> '''' then TaskID target else claimant)"

definition newClaim :: "ClaimTarget \<Rightarrow> string \<Rightarrow> string \<Rightarrow> go_time \<Rightarrow> string \<Rightarrow> Claim" where
  "newClaim target holder claimant leaseUntil token =
     \<lparr>cl_Scope = scopeOf target, cl_ID = idOf target, cl_Holder = holder,
      cl_TaskID = transportTaskID target claimant, cl_LeaseUntil = leaseUntil, cl_RenewBefore = 0,
      cl_LeaseToken = token, cl_LeaseUnreadable = False\<rparr>"

definition claimFromRef :: "(string \<Rightarrow> go_time option) \<Rightarrow> ClaimRef \<Rightarrow> ClaimTarget \<Rightarrow> Claim" where
  "claimFromRef parseDateTime ref target =
     (let res = \<lparr>cl_Scope = scopeOf target, cl_ID = idOf target, cl_Holder = ref_Cluster ref,
                 cl_TaskID = ref_TaskID ref, cl_LeaseUntil = 0, cl_RenewBefore = 0,
                 cl_LeaseToken = ref_Sha ref, cl_LeaseUnreadable = False\<rparr>
      in case parseDateTime (ref_LeaseUntil ref) of
           None \<Rightarrow> res\<lparr>cl_LeaseUnreadable := True\<rparr>
         | Some until \<Rightarrow> res\<lparr>cl_LeaseUntil := until\<rparr>)"

section \<open>Reading\<close>

definition exact :: "'w ClaimRefClient \<Rightarrow> string \<Rightarrow> ('w, ClaimRef option result) state" where
  "exact rc key =
     do { r \<leftarrow> rc_List rc key;
          State_Monad.return
            (case r of Inl e \<Rightarrow> Inl e | Inr xs \<Rightarrow> Inr (find (\<lambda>ref. ref_Ref ref = ''refs/'' @ key) xs)) }"

text \<open>Either the sha an acquire must replace (empty when free), or the answer that it is held.\<close>

definition liveClaim ::
  "'w ClaimRefClient \<Rightarrow> ('w, go_time) state \<Rightarrow> (string \<Rightarrow> go_time option) \<Rightarrow> string \<Rightarrow> ('w, string result) state" where
  "liveClaim rc now parseDateTime key =
     do { r \<leftarrow> exact rc key;
          case r of
            Inl e \<Rightarrow> State_Monad.return (Inl e)
          | Inr x \<Rightarrow>
              (case x of
                 None \<Rightarrow> State_Monad.return (Inr '''')
               | Some ref \<Rightarrow>
                   (case parseDateTime (ref_LeaseUntil ref) of
                      None \<Rightarrow> State_Monad.return (Inr (ref_Sha ref))
                    | Some until \<Rightarrow>
                        do { t \<leftarrow> now;
                             State_Monad.return
                               (if \<not> until > t then Inr (ref_Sha ref) else Inl ErrClaimHeld) })) }"

section \<open>The operations\<close>

definition ct_Acquire ::
  "'w ClaimRefClient \<Rightarrow> ('w, go_time) state \<Rightarrow> (string \<Rightarrow> go_time option) \<Rightarrow>
   req_ctx \<Rightarrow> ClaimTarget \<Rightarrow> string \<Rightarrow> string \<Rightarrow> int \<Rightarrow> ('w, Claim result) state" where
  "ct_Acquire rc now parseDateTime ctx target holder claimant ttlSeconds =
     (case KeyFor target of
        None \<Rightarrow> State_Monad.return (Inl ErrClaimTargetInvalid)
      | Some key \<Rightarrow>
          (if claimantError target claimant \<noteq> '''' then State_Monad.return (Inl ErrClaimTargetInvalid)
           else
             do { live \<leftarrow> liveClaim rc now parseDateTime key;
                  case live of
                    Inl e \<Rightarrow> State_Monad.return (Inl e)
                  | Inr expected \<Rightarrow>
                      do { t \<leftarrow> now;
                           r \<leftarrow> rc_Put rc key expected holder (transportTaskID target claimant)
                                  (t + second * ttlSeconds);
                           case r of
                             Inl e \<Rightarrow>
                               (if e = ErrLeaseConflict then
                                  do { _ \<leftarrow> now; State_Monad.return (Inl ErrClaimHeld) }
                                else State_Monad.return (Inl e))
                           | Inr sha \<Rightarrow>
                               State_Monad.return
                                 (Inr (newClaim target holder claimant (t + second * ttlSeconds) sha)) } }))"

definition ct_Renew ::
  "'w ClaimRefClient \<Rightarrow> ('w, go_time) state \<Rightarrow>
   req_ctx \<Rightarrow> ClaimTarget \<Rightarrow> string \<Rightarrow> string \<Rightarrow> string \<Rightarrow> int \<Rightarrow> ('w, Claim result) state" where
  "ct_Renew rc now ctx target holder leaseToken claimant ttlSeconds =
     (case KeyFor target of
        None \<Rightarrow> State_Monad.return (Inl ErrClaimTargetInvalid)
      | Some key \<Rightarrow>
          (if holder = '''' then State_Monad.return (Inl ErrClaimTargetInvalid)
           else if claimantError target claimant \<noteq> '''' then State_Monad.return (Inl ErrClaimTargetInvalid)
           else
             do { t \<leftarrow> now;
                  r \<leftarrow> rc_Put rc key leaseToken holder (transportTaskID target claimant) (t + second * ttlSeconds);
                  State_Monad.return
                    (case r of
                       Inl e \<Rightarrow> Inl (if e = ErrLeaseConflict then ErrLeaseLost else e)
                     | Inr sha \<Rightarrow> Inr (newClaim target holder claimant (t + second * ttlSeconds) sha)) }))"

definition ct_Release ::
  "'w ClaimRefClient \<Rightarrow> req_ctx \<Rightarrow> ClaimTarget \<Rightarrow> string \<Rightarrow> ('w, claim_error option) state" where
  "ct_Release rc ctx target leaseToken =
     (case KeyFor target of
        None \<Rightarrow> State_Monad.return (Some ErrClaimTargetInvalid)
      | Some key \<Rightarrow>
          do { r \<leftarrow> rc_Delete rc key leaseToken;
               State_Monad.return
                 (case r of None \<Rightarrow> None | Some e \<Rightarrow> Some (if e = ErrLeaseConflict then ErrLeaseLost else e)) })"

definition ct_Read ::
  "'w ClaimRefClient \<Rightarrow> (string \<Rightarrow> go_time option) \<Rightarrow> req_ctx \<Rightarrow> ClaimTarget \<Rightarrow> ('w, Claim result) state" where
  "ct_Read rc parseDateTime ctx target =
     (case KeyFor target of
        None \<Rightarrow> State_Monad.return (Inl ErrClaimTargetInvalid)
      | Some key \<Rightarrow>
          do { r \<leftarrow> exact rc key;
               State_Monad.return
                 (case r of
                    Inl e \<Rightarrow> Inl e
                  | Inr x \<Rightarrow>
                      (case x of None \<Rightarrow> Inl ErrClaimFree | Some ref \<Rightarrow> Inr (claimFromRef parseDateTime ref target))) })"

fun listedClaims :: "(string \<Rightarrow> go_time option) \<Rightarrow> string \<Rightarrow> ClaimRef list \<Rightarrow> Claim list" where
  "listedClaims parseDateTime holder [] = []"
| "listedClaims parseDateTime holder (ref # rs) =
     (case TargetFromKey (trim_prefix (ref_Ref ref) ''refs/'') of
        None \<Rightarrow> listedClaims parseDateTime holder rs
      | Some target \<Rightarrow>
          if holder \<noteq> '''' \<and> ref_Cluster ref \<noteq> holder then listedClaims parseDateTime holder rs
          else claimFromRef parseDateTime ref target # listedClaims parseDateTime holder rs)"

definition ct_List ::
  "'w ClaimRefClient \<Rightarrow> (string \<Rightarrow> go_time option) \<Rightarrow> req_ctx \<Rightarrow> string \<Rightarrow> ('w, Claim list result) state" where
  "ct_List rc parseDateTime ctx holder =
     do { r \<leftarrow> rc_List rc ''claims/'';
          State_Monad.return
            (case r of Inl e \<Rightarrow> Inl e | Inr xs \<Rightarrow> Inr (listedClaims parseDateTime holder xs)) }"

definition claimtestClient ::
  "'w ClaimRefClient \<Rightarrow> ('w, go_time) state \<Rightarrow> (string \<Rightarrow> go_time option) \<Rightarrow> 'w ClaimClient" where
  "claimtestClient rc now parseDateTime =
     \<lparr>cc_Acquire = ct_Acquire rc now parseDateTime, cc_Renew = ct_Renew rc now,
      cc_List = ct_List rc parseDateTime, cc_Release = ct_Release rc, cc_Read = ct_Read rc parseDateTime\<rparr>"

end
