(* ===== verification/Fleet.thy ===== *)
theory Fleet
  imports Claim_Service
begin

text \<open>
  Several executors sharing one claim service. The locale \<open>claim_service\<close> states what the typed
  vault-api contract promises (the comments of \<open>ClaimClient\<close> in \<^verbatim>\<open>pkg/claim/vault_api_client.go\<close>):
  an acquire only takes a free or expired claim, a renew or release needs the current token, every
  grant has a fresh token, and a write that answers with an error may still have landed. The locale
  \<open>fleet\<close> adds the executors. What one executor may assume of the others is \<open>rely\<close>; what it keeps
  true of its own held set is \<open>sound\<close>.
\<close>

section \<open>The service as its clients see it\<close>

record lease =
  ls_holder :: string
  ls_token :: string
  ls_until :: go_time

record 'w service_view =
  sv_slot :: "'w \<Rightarrow> ClaimTarget \<Rightarrow> lease option"
  sv_used :: "'w \<Rightarrow> string set"
  sv_time :: "'w \<Rightarrow> go_time"
  sv_ok :: "'w \<Rightarrow> bool"
  sv_slack :: duration

definition untouched :: "'w service_view \<Rightarrow> 'w \<Rightarrow> 'w \<Rightarrow> bool" where
  "untouched V w w' \<longleftrightarrow> sv_slot V w' = sv_slot V w \<and> sv_used V w' = sv_used V w"

definition later :: "'w service_view \<Rightarrow> 'w \<Rightarrow> 'w \<Rightarrow> bool" where
  "later V w w' \<longleftrightarrow> sv_ok V w' \<and> sv_time V w \<le> sv_time V w'"

text \<open>A grant to \<open>hld\<close> with a token never issued before.\<close>

definition granted :: "'w service_view \<Rightarrow> string \<Rightarrow> ClaimTarget \<Rightarrow> 'w \<Rightarrow> 'w \<Rightarrow> lease \<Rightarrow> bool" where
  "granted V hld t w w' s \<longleftrightarrow>
     ls_holder s = hld \<and> ls_token s \<notin> sv_used V w \<and>
     sv_slot V w' = (sv_slot V w)(t \<mapsto> s) \<and> sv_used V w' = insert (ls_token s) (sv_used V w)"

text \<open>
  The claim an answer describes is the one stored; the instant in the answer exceeds the stored one
  by the slack at most (a stored deadline has whole seconds).
\<close>

definition describes :: "'w service_view \<Rightarrow> 'w \<Rightarrow> ClaimTarget \<Rightarrow> string \<Rightarrow> Claim \<Rightarrow> bool" where
  "describes V w t hld c \<longleftrightarrow>
     (\<exists>s. sv_slot V w t = Some s \<and> ls_holder s = hld \<and> ls_token s = cl_LeaseToken c \<and>
          cl_LeaseUntil c \<le> ls_until s + sv_slack V)"

text \<open>The targets the lease manager uses: those a key parses to, and the zero target.\<close>

definition addressable :: "ClaimTarget \<Rightarrow> bool" where
  "addressable t \<longleftrightarrow> t = noTarget \<or> (\<exists>k. TargetFromKey k = Some t)"

lemma addressableI: "TargetFromKey k = Some t \<Longrightarrow> addressable t"
  by (auto simp: addressable_def)

lemma addressable_keyTarget: "addressable (keyTarget k)"
  by (auto simp: addressable_def keyTarget_def split: option.split)

locale claim_service =
  fixes cc :: "'w ClaimClient" and V :: "'w service_view"
  assumes slot_used: "sv_ok V w \<Longrightarrow> sv_slot V w t = Some s \<Longrightarrow> ls_token s \<in> sv_used V w"
    and slot_target: "sv_ok V w \<Longrightarrow> sv_slot V w noTarget = None"
    and svc_acquire: "sv_ok V w \<Longrightarrow> addressable t \<Longrightarrow>
      run_state (cc_Acquire cc ctx t hld tid leaseSeconds) w = (r, w') \<Longrightarrow>
      later V w w' \<and>
      (untouched V w w' \<or>
       (\<forall>s. sv_slot V w t = Some s \<longrightarrow> ls_until s \<le> sv_time V w') \<and> (\<exists>s. granted V hld t w w' s)) \<and>
      (\<forall>c. r = Inr c \<longrightarrow> describes V w' t hld c)"
    and svc_renew: "sv_ok V w \<Longrightarrow> addressable t \<Longrightarrow> tok \<in> sv_used V w \<Longrightarrow>
      run_state (cc_Renew cc ctx t hld tok tid leaseSeconds) w = (r, w') \<Longrightarrow>
      later V w w' \<and>
      (untouched V w w' \<or>
       (\<exists>s0 s. sv_slot V w t = Some s0 \<and> ls_token s0 = tok \<and> ls_until s0 \<le> ls_until s \<and> granted V hld t w w' s)) \<and>
      (\<forall>c. r = Inr c \<longrightarrow> describes V w' t hld c)"
    and svc_release: "sv_ok V w \<Longrightarrow> addressable t \<Longrightarrow>
      run_state (cc_Release cc ctx t tok) w = (e, w') \<Longrightarrow>
      later V w w' \<and>
      (untouched V w w' \<or>
       (\<exists>s0. sv_slot V w t = Some s0 \<and> ls_token s0 = tok \<and>
             sv_slot V w' = (sv_slot V w)(t := None) \<and> sv_used V w' = sv_used V w))"
    and svc_read: "sv_ok V w \<Longrightarrow> addressable t \<Longrightarrow>
      run_state (cc_Read cc ctx t) w = (r, w') \<Longrightarrow>
      later V w w' \<and> untouched V w w' \<and> (\<forall>c. r = Inr c \<longrightarrow> describes V w t (cl_Holder c) c)"

section \<open>What an executor keeps true\<close>

text \<open>A held claim is backed: its lease is over, or the service has it stored for this executor.\<close>

definition backed :: "'w service_view \<Rightarrow> string \<Rightarrow> 'w \<Rightarrow> heldClaim \<Rightarrow> bool" where
  "backed V e w h \<longleftrightarrow>
     hc_leaseUntil h \<le> sv_time V w + sv_slack V \<or>
     (\<exists>s. sv_slot V w (hc_target h) = Some s \<and> ls_holder s = e \<and> hc_leaseUntil h \<le> ls_until s + sv_slack V)"

text \<open>A held token, where it is still the current one, is current for this executor.\<close>

definition own_token :: "'w service_view \<Rightarrow> string \<Rightarrow> 'w \<Rightarrow> heldClaim \<Rightarrow> bool" where
  "own_token V e w h \<longleftrightarrow>
     hc_leaseToken h \<in> sv_used V w \<and>
     (\<forall>s. sv_slot V w (hc_target h) = Some s \<longrightarrow> ls_token s = hc_leaseToken h \<longrightarrow> ls_holder s = e)"

text \<open>
  The invariant of one executor, except for the keys \<open>X\<close> it is in the middle of releasing. Claims
  whose release is already decided are not backed by anything.
\<close>

definition sound :: "'w service_view \<Rightarrow> string \<Rightarrow> string set \<Rightarrow> (string, heldClaim) gomap \<Rightarrow> 'w \<Rightarrow> bool" where
  "sound V e X H w \<longleftrightarrow>
     sv_ok V w \<and> held_wf H \<and>
     (\<forall>k h. map_of H k = Some h \<longrightarrow>
        hc_secondKey h = '''' \<and> own_token V e w h \<and>
        (k \<notin> X \<longrightarrow> \<not> hc_releasePending h \<longrightarrow> backed V e w h))"

text \<open>
  What executor \<open>d\<close> may see happen to the service between its own operations: its claims are taken
  only after they expired, and tokens are never reused.
\<close>

definition rely :: "'w service_view \<Rightarrow> string \<Rightarrow> 'w \<Rightarrow> 'w \<Rightarrow> bool" where
  "rely V d w w' \<longleftrightarrow>
     later V w w' \<and> sv_used V w \<subseteq> sv_used V w' \<and>
     (\<forall>t s. sv_slot V w t = Some s \<longrightarrow> ls_holder s = d \<longrightarrow>
        sv_slot V w' t = Some s \<or> ls_until s \<le> sv_time V w') \<and>
     (\<forall>t s. sv_slot V w' t = Some s \<longrightarrow> sv_slot V w t = Some s \<or> ls_token s \<notin> sv_used V w)"

lemma rely_refl: "sv_ok V w \<Longrightarrow> rely V d w w"
  by (simp add: rely_def later_def)

lemma relyD:
  assumes "rely V d w w'"
  shows rely_later: "sv_ok V w'" "sv_time V w \<le> sv_time V w'"
    and rely_used: "tok \<in> sv_used V w \<Longrightarrow> tok \<in> sv_used V w'"
    and rely_slot: "sv_slot V w t = Some s \<Longrightarrow> ls_holder s = d \<Longrightarrow>
      sv_slot V w' t = Some s \<or> ls_until s \<le> sv_time V w'"
    and rely_fresh: "sv_slot V w' t = Some s \<Longrightarrow> sv_slot V w t = Some s \<or> ls_token s \<notin> sv_used V w"
  using assms by (auto simp: rely_def later_def)

lemma rely_trans:
  assumes a: "rely V d w w1" and b: "rely V d w1 w2"
  shows "rely V d w w2"
proof -
  have "sv_time V w \<le> sv_time V w2" using relyD(2) [OF a] relyD(2) [OF b] by simp
  moreover have "sv_slot V w2 t = Some s \<or> ls_until s \<le> sv_time V w2"
    if "sv_slot V w t = Some s" "ls_holder s = d" for t s
    using relyD(4) [OF a that] relyD(2) [OF b] relyD(4) [OF b _ that(2)] by fastforce
  moreover have "sv_slot V w t = Some s \<or> ls_token s \<notin> sv_used V w" if "sv_slot V w2 t = Some s" for t s
    using relyD(5) [OF b that] relyD(5) [OF a] relyD(3) [OF a] by blast
  ultimately show ?thesis
    using relyD(1,3) [OF b] relyD(3) [OF a] by (auto simp: rely_def later_def)
qed

lemma rely_untouched: "later V w w' \<Longrightarrow> untouched V w w' \<Longrightarrow> rely V d w w'"
  by (simp add: rely_def untouched_def)

lemma sound_rely:
  assumes "sound V e X H w" "rely V e w w'"
  shows "sound V e X H w'"
proof -
  have "own_token V e w' h" if "own_token V e w h" for h
    using relyD(3) [OF assms(2)] relyD(5) [OF assms(2)] that unfolding own_token_def by metis
  moreover have "backed V e w' h" if "backed V e w h" for h
    using relyD(2) [OF assms(2)] relyD(4) [OF assms(2)] that unfolding backed_def by force
  ultimately show ?thesis
    using assms(1) relyD(1) [OF assms(2)] unfolding sound_def by blast
qed


lemma keyTarget_inj: "keyTarget k = keyTarget k' \<Longrightarrow> keyTarget k \<noteq> noTarget \<Longrightarrow> k = k'"
  unfolding keyTarget_def by (auto split: option.splits intro: TargetFromKey_inj)

lemma sound_target:
  assumes "sound V e X H w" "map_of H k = Some h" "map_of H k' = Some h'" "hc_target h' = hc_target h"
    "hc_target h \<noteq> noTarget"
  shows "k' = k"
proof -
  from assms have "hc_target h = keyTarget k" "hc_target h' = keyTarget k'"
    by (auto simp: sound_def held_wf_def claim_wf_def)
  with assms show ?thesis by (metis keyTarget_inj)
qed

lemma sound_grant:
  assumes sound: "sound V e X H w" and later: "later V w w'" and grant: "granted V e t w w' s"
    and keep: "\<And>k h. map_of H k = Some h \<Longrightarrow> hc_target h = t \<Longrightarrow> k \<notin> X \<Longrightarrow> \<not> hc_releasePending h \<Longrightarrow>
      hc_leaseUntil h \<le> sv_time V w' + sv_slack V \<or> hc_leaseUntil h \<le> ls_until s + sv_slack V"
  shows "sound V e X H w'"
proof -
  have "own_token V e w' h" if "own_token V e w h" for h
    using that grant by (auto simp: own_token_def granted_def)
  moreover have "backed V e w' h"
    if "map_of H k = Some h" "k \<notin> X" "\<not> hc_releasePending h" "backed V e w h" for k h
  proof (cases "hc_target h = t")
    case True
    with keep [OF that(1) True that(2,3)] grant show ?thesis by (auto simp: backed_def granted_def)
  next
    case False
    with that(4) grant later show ?thesis by (auto simp: backed_def granted_def later_def)
  qed
  ultimately show ?thesis using sound later unfolding sound_def later_def by blast
qed

lemma sound_drop:
  assumes sound: "sound V e X H w" and later: "later V w w'"
    and slot: "sv_slot V w' = (sv_slot V w)(t := None)" "sv_used V w' = sv_used V w"
    and gone: "\<And>k h. map_of H k = Some h \<Longrightarrow> hc_target h = t \<Longrightarrow> k \<in> X"
  shows "sound V e X H w'"
proof -
  have "own_token V e w' h" if "own_token V e w h" for h
    using that slot by (auto simp: own_token_def)
  moreover have "backed V e w' h" if "map_of H k = Some h" "k \<notin> X" "backed V e w h" for k h
  proof -
    from gone that have "hc_target h \<noteq> t" by blast
    with that(3) slot later show ?thesis by (auto simp: backed_def later_def)
  qed
  ultimately show ?thesis using sound later unfolding sound_def later_def by blast
qed

lemma sound_weaken: "sound V e X H w \<Longrightarrow> X \<subseteq> Y \<Longrightarrow> sound V e Y H w"
  unfolding sound_def by blast

text \<open>Changes of the held set.\<close>

lemma sound_delete: "sound V e X H w \<Longrightarrow> X \<subseteq> {k} \<Longrightarrow> sound V e {} (AList.delete k H) w"
  unfolding sound_def held_wf_def by (auto simp: map_of_delete_Some) blast

lemma sound_entry:
  assumes "sound V e X H w" "\<And>h. same_claim h (f h)"
    and "\<And>h. map_of H k = Some h \<Longrightarrow>
      own_token V e w (f h) \<and> (k \<notin> Y \<longrightarrow> \<not> hc_releasePending (f h) \<longrightarrow> backed V e w (f h))"
    and "X \<subseteq> insert k Y"
  shows "sound V e Y (AList.map_entry k f H) w"
proof -
  have "held_step (within same_claim) (upd_held k f)" by (rule ident.evolve_upd) (rule assms(2))
  from held_stepD [OF this, of "\<lparr>lm_held = H, lm_counts = [], lm_world = ()\<rparr>"]
  have "keeps_wf H (AList.map_entry k f H)"
    by (intro held_wf_within) (simp add: upd_held_def)
  with assms show ?thesis
    unfolding sound_def by (auto simp: map_of_entry_Some same_claim_def split: if_splits) blast
qed

lemma sound_update:
  assumes "sound V e {} H w" "claim_wf k h" "hc_secondKey h = ''''" "own_token V e w h" "backed V e w h"
  shows "sound V e {} (AList.update k h H) w"
  using assms unfolding sound_def by (auto simp: held_wf_update update_conv split: if_splits)


section \<open>One executor's operations\<close>

definition held_targets :: "(string, heldClaim) gomap \<Rightarrow> ClaimTarget set" where
  "held_targets H = {hc_target h | k h. map_of H k = Some h}"

text \<open>The world operations of one executor, and the guarantee it gives the others.\<close>

definition guarantees ::
  "'w service_view \<Rightarrow> string \<Rightarrow> 'w \<Rightarrow> string set \<Rightarrow> 'w leaseManager \<Rightarrow> bool" where
  "guarantees V e w0 X m \<longleftrightarrow>
     sound V e X (lm_held m) (lm_world m) \<and> (\<forall>d. d \<noteq> e \<longrightarrow> rely V d w0 (lm_world m))"

lemma guarantees_world:
  assumes "guarantees V e w0 X m" "sound V e Y (lm_held m) w'" "\<And>d. d \<noteq> e \<Longrightarrow> rely V d (lm_world m) w'"
  shows "guarantees V e w0 Y (m\<lparr>lm_world := w'\<rparr>)"
  using assms rely_trans unfolding guarantees_def by fastforce

lemma guarantees_held:
  assumes "guarantees V e w0 X m" "sound V e Y H (lm_world m)"
  shows "guarantees V e w0 Y (m\<lparr>lm_held := H\<rparr>)"
  using assms unfolding guarantees_def by simp

lemma guarantees_counts [simp]:
  "guarantees V e w0 X (m\<lparr>lm_counts := cs\<rparr>) = guarantees V e w0 X m"
  by (simp add: guarantees_def)

locale fleet = claim_service +
  fixes env :: "string \<Rightarrow> 'a lease_env"
  assumes env_cluster: "le_cluster (env e) = e"
    and env_client: "le_claimClient (env e) = cc"
    and env_clock: "sv_ok V w \<Longrightarrow> run_state (le_currentDateTime (env e)) w = (now, w') \<Longrightarrow>
      later V w w' \<and> untouched V w w'"
    and env_running: "sv_ok V w \<Longrightarrow> run_state (jc_IsJobRunning (le_jobControl (env e)) ctx tid) w = (b, w') \<Longrightarrow>
      later V w w' \<and> untouched V w w'"
    and env_delete: "sv_ok V w \<Longrightarrow> run_state (jc_DeleteJob (le_jobControl (env e)) ctx tid) w = (x, w') \<Longrightarrow>
      later V w w' \<and> untouched V w w'"
begin

lemma frame:
  assumes "guarantees V e w0 X m"
    and "\<And>w a w'. sv_ok V w \<Longrightarrow> run_state x w = (a, w') \<Longrightarrow> later V w w' \<and> untouched V w w'"
    and "\<And>a m'. guarantees V e w0 X m' \<Longrightarrow> lm_held m' = lm_held m \<Longrightarrow> Q a m'"
  shows "wp (in_world x) Q m"
proof -
  have "Q a (m\<lparr>lm_world := w'\<rparr>)" if "run_state x (lm_world m) = (a, w')" for a w'
  proof (rule assms(3))
    have "sv_ok V (lm_world m)" using assms(1) by (simp add: guarantees_def sound_def)
    then have "rely V d (lm_world m) w'" for d
      using assms(2) that by (blast intro: rely_untouched)
    with assms(1) show "guarantees V e w0 X (m\<lparr>lm_world := w'\<rparr>)"
      by (intro guarantees_world [OF assms(1)]) (auto simp: guarantees_def intro: sound_rely)
  qed simp
  then show ?thesis by (simp add: wp_in_world)
qed

lemma wp_clock:
  "guarantees V e w0 X m \<Longrightarrow> (\<And>a m'. guarantees V e w0 X m' \<Longrightarrow> lm_held m' = lm_held m \<Longrightarrow> Q a m') \<Longrightarrow>
   wp (now_of (env e)) Q m"
  unfolding now_of_def by (rule frame [OF _ env_clock])

lemma wp_running:
  "guarantees V e w0 X m \<Longrightarrow> (\<And>a m'. guarantees V e w0 X m' \<Longrightarrow> lm_held m' = lm_held m \<Longrightarrow> Q a m') \<Longrightarrow>
   wp (in_world (jc_IsJobRunning (le_jobControl (env e)) ctx tid)) Q m"
  by (rule frame [OF _ env_running])

lemma wp_deleteJob:
  "guarantees V e w0 X m \<Longrightarrow> (\<And>a m'. guarantees V e w0 X m' \<Longrightarrow> lm_held m' = lm_held m \<Longrightarrow> Q a m') \<Longrightarrow>
   wp (in_world (jc_DeleteJob (le_jobControl (env e)) ctx tid)) Q m"
  by (rule frame [OF _ env_delete])

lemma wp_deadline:
  assumes "guarantees V e w0 X m"
    and "\<And>a m'. guarantees V e w0 X m' \<Longrightarrow> lm_held m' = lm_held m \<Longrightarrow> Q a m'"
  shows "wp (requestContext (env e)) Q m"
  unfolding requestContext_def wp_bind by (rule wp_clock [OF assms(1)]) (auto simp: wp_gets wp_return assms(2))

lemma wp_read:
  assumes "guarantees V e w0 X m" and adr: "addressable t"
    and "\<And>a m'. guarantees V e w0 X m' \<Longrightarrow> lm_held m' = lm_held m \<Longrightarrow>
      (\<And>c. a = Inr (Some c) \<Longrightarrow> describes V (lm_world m') t (cl_Holder c) c) \<Longrightarrow> Q a m'"
  shows "wp (readBack (env e) ctx t) Q m"
proof -
  have ok: "sv_ok V (lm_world m)" using assms(1) by (simp add: guarantees_def sound_def)
  have "Q (case r of Inl e \<Rightarrow> if e = ErrClaimFree then Inr None else Inl e | Inr c \<Rightarrow> Inr (Some c))
      (m\<lparr>lm_world := w'\<rparr>)" if run: "run_state (cc_Read cc ctx t) (lm_world m) = (r, w')" for r w'
  proof (rule assms(3))
    note r = svc_read [OF ok adr run]
    then have "rely V d (lm_world m) w'" for d by (blast intro: rely_untouched)
    with assms(1) show "guarantees V e w0 X (m\<lparr>lm_world := w'\<rparr>)"
      by (intro guarantees_world [OF assms(1)]) (auto simp: guarantees_def intro: sound_rely)
    show "describes V (lm_world (m\<lparr>lm_world := w'\<rparr>)) t (cl_Holder c) c"
      if "(case r of Inl e \<Rightarrow> if e = ErrClaimFree then Inr None else Inl e | Inr c \<Rightarrow> Inr (Some c)) = Inr (Some c)" for c
      using that r by (auto simp: describes_def untouched_def split: sum.splits if_splits)
  qed simp
  then show ?thesis by (simp add: readBack_def wp_bind wp_return wp_in_world env_client)
qed

end


context fleet
begin

lemma guaranteesD:
  assumes "guarantees V e w0 X m"
  shows "sv_ok V (lm_world m)" "sound V e X (lm_held m) (lm_world m)"
    "map_of (lm_held m) k = Some h \<Longrightarrow> own_token V e (lm_world m) h"
    "map_of (lm_held m) k = Some h \<Longrightarrow> claim_wf k h \<and> hc_secondKey h = ''''"
    "map_of (lm_held m) k = Some h \<Longrightarrow> addressable (hc_target h) \<and> hc_leaseToken h \<in> sv_used V (lm_world m)"
  using assms by (auto simp: guarantees_def sound_def held_wf_def claim_wf_def addressable_keyTarget own_token_def)

lemma wp_release:
  assumes g: "guarantees V e w0 X m" and h: "map_of (lm_held m) k = Some h"
    and Q: "\<And>a m'. guarantees V e w0 (insert k X) m' \<Longrightarrow> lm_held m' = lm_held m \<Longrightarrow> Q a m'"
  shows "wp (in_world (cc_Release (le_claimClient (env e)) ctx (hc_target h) (hc_leaseToken h))) Q m"
proof -
  note ok = guaranteesD(1) [OF g]
  have adr: "addressable (hc_target h)" using guaranteesD(5) [OF g h] by simp
  have "guarantees V e w0 (insert k X) (m\<lparr>lm_world := w'\<rparr>)"
    if run: "run_state (cc_Release cc ctx (hc_target h) (hc_leaseToken h)) (lm_world m) = (a, w')" for a w'
  proof -
    from svc_release [OF ok adr run] have later: "later V (lm_world m) w'" by blast
    from svc_release [OF ok adr run] consider "untouched V (lm_world m) w'"
      | s0 where "sv_slot V (lm_world m) (hc_target h) = Some s0" "ls_token s0 = hc_leaseToken h"
          "sv_slot V w' = (sv_slot V (lm_world m))(hc_target h := None)" "sv_used V w' = sv_used V (lm_world m)"
      by blast
    then show ?thesis
    proof cases
      case 1
      then have "rely V d (lm_world m) w'" for d using later by (blast intro: rely_untouched)
      then show ?thesis
        using g by (intro guarantees_world [OF g]) (auto simp: guarantees_def intro: sound_rely sound_weaken)
    next
      case 2
      then have "hc_target h \<noteq> noTarget" using slot_target [OF ok] by force
      then have only: "k' = k" if "map_of (lm_held m) k' = Some h'" "hc_target h' = hc_target h" for k' h'
        using sound_target [OF guaranteesD(2) [OF g] h that] by blast
      have "sound V e (insert k X) (lm_held m) w'"
        by (rule sound_drop [OF sound_weaken [OF guaranteesD(2) [OF g]] later 2(3,4)]) (use only in auto)
      moreover have "ls_holder s0 = e" using guaranteesD(3) [OF g h] 2 by (simp add: own_token_def)
      then have "rely V d (lm_world m) w'" if "d \<noteq> e" for d
        using that 2 later by (auto simp: rely_def)
      ultimately show ?thesis by (rule guarantees_world [OF g])
    qed
  qed
  then show ?thesis by (auto simp: wp_in_world env_client intro: Q)
qed

lemma wp_renew:
  assumes g: "guarantees V e w0 X m" and h: "map_of (lm_held m) k = Some h"
    and Q: "\<And>a m'. guarantees V e w0 X m' \<Longrightarrow> lm_held m' = lm_held m \<Longrightarrow>
      (\<And>c. a = Inr c \<Longrightarrow> describes V (lm_world m') (hc_target h) e c) \<Longrightarrow> Q a m'"
  shows "wp (in_world (cc_Renew (le_claimClient (env e)) ctx (hc_target h) (le_cluster (env e)) (hc_leaseToken h)
      tid leaseSeconds)) Q m"
proof -
  note ok = guaranteesD(1) [OF g]
  have adr: "addressable (hc_target h)" "hc_leaseToken h \<in> sv_used V (lm_world m)"
    using guaranteesD(5) [OF g h] by auto
  have "guarantees V e w0 X (m\<lparr>lm_world := w'\<rparr>) \<and> (\<forall>c. a = Inr c \<longrightarrow> describes V w' (hc_target h) e c)"
    if run: "run_state (cc_Renew cc ctx (hc_target h) e (hc_leaseToken h) tid leaseSeconds) (lm_world m) = (a, w')"
    for a w'
  proof -
    from svc_renew [OF ok adr(1) adr(2) run] have later: "later V (lm_world m) w'"
      and ans: "\<forall>c. a = Inr c \<longrightarrow> describes V w' (hc_target h) e c" by blast+
    from svc_renew [OF ok adr(1) adr(2) run] consider "untouched V (lm_world m) w'"
      | s0 s where "sv_slot V (lm_world m) (hc_target h) = Some s0" "ls_token s0 = hc_leaseToken h"
          "ls_until s0 \<le> ls_until s" "granted V e (hc_target h) (lm_world m) w' s"
      by blast
    then have "guarantees V e w0 X (m\<lparr>lm_world := w'\<rparr>)"
    proof cases
      case 1
      then have "rely V d (lm_world m) w'" for d using later by (blast intro: rely_untouched)
      then show ?thesis
        using g by (intro guarantees_world [OF g]) (auto simp: guarantees_def intro: sound_rely)
    next
      case 2
      then have "hc_target h \<noteq> noTarget" using slot_target [OF ok] by force
      then have only: "k' = k" if "map_of (lm_held m) k' = Some h'" "hc_target h' = hc_target h" for k' h'
        using sound_target [OF guaranteesD(2) [OF g] h that] by blast
      have "sound V e X (lm_held m) w'"
      proof (rule sound_grant [OF guaranteesD(2) [OF g] later 2(4)])
        fix k' h'
        assume a: "map_of (lm_held m) k' = Some h'" "hc_target h' = hc_target h" "k' \<notin> X" "\<not> hc_releasePending h'"
        with only [OF a(1,2)] h have "backed V e (lm_world m) h"
          using guaranteesD(2) [OF g] by (auto simp: sound_def)
        with a only [OF a(1,2)] h 2 later show "hc_leaseUntil h' \<le> sv_time V w' + sv_slack V \<or>
            hc_leaseUntil h' \<le> ls_until s + sv_slack V"
          by (auto simp: backed_def later_def)
      qed
      moreover have "ls_holder s0 = e" using guaranteesD(3) [OF g h] 2 by (simp add: own_token_def)
      then have "rely V d (lm_world m) w'" if "d \<noteq> e" for d
        using that 2 later slot_used [OF ok] by (auto simp: rely_def granted_def)
      ultimately show ?thesis by (rule guarantees_world [OF g])
    qed
    with ans show ?thesis by blast
  qed
  then show ?thesis by (auto simp: wp_in_world env_client env_cluster intro!: Q)
qed

lemma wp_acquire:
  assumes g: "guarantees V e w0 X m" and adr: "addressable t"
    and free: "t \<notin> held_targets (lm_held m)"
    and Q: "\<And>a m'. guarantees V e w0 X m' \<Longrightarrow> lm_held m' = lm_held m \<Longrightarrow>
      (\<And>c. a = Inr c \<Longrightarrow> describes V (lm_world m') t e c) \<Longrightarrow> Q a m'"
  shows "wp (acquire (env e) t tid) Q m"
proof -
  note ok = guaranteesD(1) [OF g]
  have "guarantees V e w0 X (m\<lparr>lm_world := w'\<rparr>) \<and> (\<forall>c. a = Inr c \<longrightarrow> describes V w' t e c)"
    if run: "run_state (cc_Acquire cc CallerCtx t e (claimantTaskID t tid) leaseSeconds) (lm_world m) = (a, w')"
    for a w'
  proof -
    from svc_acquire [OF ok adr run] have later: "later V (lm_world m) w'"
      and ans: "\<forall>c. a = Inr c \<longrightarrow> describes V w' t e c" by blast+
    from svc_acquire [OF ok adr run] consider "untouched V (lm_world m) w'"
      | s where "\<forall>s0. sv_slot V (lm_world m) t = Some s0 \<longrightarrow> ls_until s0 \<le> sv_time V w'"
          "granted V e t (lm_world m) w' s"
      by blast
    then have "guarantees V e w0 X (m\<lparr>lm_world := w'\<rparr>)"
    proof cases
      case 1
      then have "rely V d (lm_world m) w'" for d using later by (blast intro: rely_untouched)
      then show ?thesis
        using g by (intro guarantees_world [OF g]) (auto simp: guarantees_def intro: sound_rely)
    next
      case 2
      have "sound V e X (lm_held m) w'"
        by (rule sound_grant [OF guaranteesD(2) [OF g] later 2(2)]) (use free in \<open>auto simp: held_targets_def\<close>)
      moreover have "rely V d (lm_world m) w'" for d
        using 2 later by (auto simp: rely_def granted_def)
      ultimately show ?thesis by (rule guarantees_world [OF g])
    qed
    with ans show ?thesis by blast
  qed
  then show ?thesis by (auto simp: acquire_def wp_in_world env_client env_cluster intro!: Q)
qed

end


declare wp_in_world [wp_rules del]

context fleet
begin

lemma guarantees_delete:
  "guarantees V e w0 X m \<Longrightarrow> X \<subseteq> {k} \<Longrightarrow>
   guarantees V e w0 {} (m\<lparr>lm_held := AList.delete k (lm_held m)\<rparr>)"
  by (blast intro: guarantees_held sound_delete dest: guaranteesD(2))

lemma guarantees_flags:
  assumes "guarantees V e w0 X m" "\<And>h. same_lease h (f h)"
  shows "guarantees V e w0 X (m\<lparr>lm_held := AList.map_entry k f (lm_held m)\<rparr>)"
proof (rule guarantees_held [OF assms(1)], rule sound_entry [OF guaranteesD(2) [OF assms(1)]])
  fix h
  have f: "hc_leaseToken (f h) = hc_leaseToken h" "hc_target (f h) = hc_target h"
    "hc_leaseUntil (f h) = hc_leaseUntil h" "hc_releasePending h \<longrightarrow> hc_releasePending (f h)"
    using assms(2) [of h] by (auto simp: same_defs)
  assume "map_of (lm_held m) k = Some h"
  with guaranteesD(2) [OF assms(1)] f
  show "own_token V e (lm_world m) (f h) \<and>
      (k \<notin> X \<longrightarrow> \<not> hc_releasePending (f h) \<longrightarrow> backed V e (lm_world m) (f h))"
    unfolding sound_def own_token_def backed_def by fastforce
qed (use assms(2) in \<open>auto simp: same_lease_def\<close>)

lemma guarantees_pending:
  assumes "guarantees V e w0 X m" "X \<subseteq> {k}"
  shows "guarantees V e w0 {} (m\<lparr>lm_held := AList.map_entry k (hc_releasePending_update (\<lambda>_. True)) (lm_held m)\<rparr>)"
proof (rule guarantees_held [OF assms(1)], rule sound_entry [OF guaranteesD(2) [OF assms(1)]])
  fix h
  assume "map_of (lm_held m) k = Some h"
  with guaranteesD(3) [OF assms(1)]
  show "own_token V e (lm_world m) (hc_releasePending_update (\<lambda>_. True) h) \<and>
      (k \<notin> {} \<longrightarrow> \<not> hc_releasePending (hc_releasePending_update (\<lambda>_. True) h) \<longrightarrow>
        backed V e (lm_world m) (hc_releasePending_update (\<lambda>_. True) h))"
    by (simp add: own_token_def)
qed (use assms(2) in \<open>auto simp: same_claim_def\<close>)

lemma guarantees_still_pending:
  assumes "guarantees V e w0 {k} m" "map_of (lm_held m) k = Some h" "hc_releasePending h"
  shows "guarantees V e w0 {} m"
proof -
  have "backed V e (lm_world m) h'"
    if "map_of (lm_held m) k' = Some h'" "\<not> hc_releasePending h'" for k' h'
  proof -
    have "k' \<noteq> k" using that assms(2,3) by auto
    with assms(1) that show ?thesis by (simp add: guarantees_def sound_def)
  qed
  with assms(1) show ?thesis by (auto simp: guarantees_def sound_def)
qed

lemma describes_backed:
  assumes "describes V w t e c" "sv_ok V w" "hc_target h = t" "hc_leaseToken h = cl_LeaseToken c"
    "hc_leaseUntil h = cl_LeaseUntil c"
  shows "own_token V e w h \<and> backed V e w h"
proof -
  from assms(1) obtain s where s: "sv_slot V w t = Some s" "ls_holder s = e" "ls_token s = cl_LeaseToken c"
    "cl_LeaseUntil c \<le> ls_until s + sv_slack V"
    unfolding describes_def by blast
  with slot_used [OF assms(2) s(1)] assms(3-5) show ?thesis unfolding own_token_def backed_def by auto
qed

lemma guarantees_renewed:
  assumes g: "guarantees V e w0 {} m" and h: "map_of (lm_held m) k = Some h"
    and c: "describes V (lm_world m) (hc_target h) e c"
  shows "guarantees V e w0 {} (m\<lparr>lm_held := AList.map_entry k
      (\<lambda>x. x\<lparr>hc_leaseToken := cl_LeaseToken c, hc_leaseUntil := cl_LeaseUntil c\<rparr>) (lm_held m)\<rparr>)"
proof (rule guarantees_held [OF g], rule sound_entry [OF guaranteesD(2) [OF g]])
  fix x
  let ?f = "\<lambda>x. x\<lparr>hc_leaseToken := cl_LeaseToken c, hc_leaseUntil := cl_LeaseUntil c\<rparr>"
  assume "map_of (lm_held m) k = Some x"
  with h have "x = h" by simp
  then show "own_token V e (lm_world m) (?f x) \<and>
      (k \<notin> {} \<longrightarrow> \<not> hc_releasePending (?f x) \<longrightarrow> backed V e (lm_world m) (?f x))"
    using describes_backed [OF c guaranteesD(1) [OF g], of "?f x"] by simp
qed (auto simp: same_claim_def)

lemma guarantees_stored:
  assumes g: "guarantees V e w0 {} m" and t: "TargetFromKey p = Some t" and c: "describes V (lm_world m) t e c"
    and h: "fresh_claim p '''' tid h" "hc_leaseToken h = cl_LeaseToken c" "hc_leaseUntil h = cl_LeaseUntil c"
  shows "guarantees V e w0 {} (m\<lparr>lm_held := AList.update p h (lm_held m)\<rparr>)"
proof (rule guarantees_held [OF g], rule sound_update [OF guaranteesD(2) [OF g]])
  show "claim_wf p h" "hc_secondKey h = ''''"
    using h(1) by (auto simp: fresh_claim_def claim_wf_def keyTarget_def)
  have "hc_target h = t" using h(1) t by (simp add: fresh_claim_def)
  with describes_backed [OF c guaranteesD(1) [OF g]] h
  show "own_token V e (lm_world m) h" "backed V e (lm_world m) h" by auto
qed

section \<open>Releasing keeps the guarantee\<close>

lemma wp_releaseRef:
  assumes "guarantees V e w0 X m" "map_of (lm_held m) k = Some h"
    and "\<And>a m'. guarantees V e w0 (insert k X) m' \<Longrightarrow> lm_held m' = lm_held m \<Longrightarrow> Q a m'"
  shows "wp (releaseRef (env e) ctx (hc_target h) (hc_leaseToken h)) Q m"
  unfolding releaseRef_def wp_bind wp_return by (rule wp_release [OF assms(1,2)]) (rule assms(3))

lemma wp_releaseRefDeadline:
  assumes "guarantees V e w0 X m" "map_of (lm_held m) k = Some h"
    and "\<And>a m'. guarantees V e w0 (insert k X) m' \<Longrightarrow> lm_held m' = lm_held m \<Longrightarrow> Q a m'"
  shows "wp (releaseRefWithDeadline (env e) (hc_target h) (hc_leaseToken h)) Q m"
  unfolding releaseRefWithDeadline_def wp_bind
  by (rule wp_deadline [OF assms(1)], rule wp_releaseRef) (use assms in auto)

lemma wp_bestEffort:
  assumes "guarantees V e w0 X m" "map_of (lm_held m) k = Some h"
    and "\<And>m'. guarantees V e w0 (insert k X) m' \<Longrightarrow> lm_held m' = lm_held m \<Longrightarrow> Q () m'"
  shows "wp (bestEffortRelease (env e) h) Q m"
proof -
  have "hc_secondKey h = ''''" using guaranteesD(4) [OF assms(1,2)] by simp
  then show ?thesis
    unfolding bestEffortRelease_def wp_bind
    by (intro wp_deadline [OF assms(1)] wp_release) (use assms in \<open>auto simp: wp_return\<close>)
qed

end


context fleet
begin

text \<open>The same, with the held set named by what an earlier step left.\<close>

lemma guarantees_delete_eq:
  "guarantees V e w0 X m \<Longrightarrow> lm_held m = H \<Longrightarrow> X \<subseteq> {k} \<Longrightarrow>
   guarantees V e w0 {} (m\<lparr>lm_held := AList.delete k H\<rparr>)"
  using guarantees_delete by blast

lemma guarantees_flags_eq:
  "guarantees V e w0 X m \<Longrightarrow> lm_held m = H \<Longrightarrow> (\<And>h. same_lease h (f h)) \<Longrightarrow>
   guarantees V e w0 X (m\<lparr>lm_held := AList.map_entry k f H\<rparr>)"
  using guarantees_flags by blast

lemma guarantees_pending_eq:
  "guarantees V e w0 X m \<Longrightarrow> lm_held m = H \<Longrightarrow> X \<subseteq> {k} \<Longrightarrow>
   guarantees V e w0 {} (m\<lparr>lm_held := AList.map_entry k (hc_releasePending_update (\<lambda>_. True)) H\<rparr>)"
  using guarantees_pending by blast

lemma guarantees_renewed_eq:
  "guarantees V e w0 {} m \<Longrightarrow> lm_held m = H \<Longrightarrow> map_of H k = Some h \<Longrightarrow>
   describes V (lm_world m) (hc_target h) e c \<Longrightarrow>
   guarantees V e w0 {} (m\<lparr>lm_held := AList.map_entry k
      (\<lambda>x. x\<lparr>hc_leaseToken := cl_LeaseToken c, hc_leaseUntil := cl_LeaseUntil c\<rparr>) H\<rparr>)"
  using guarantees_renewed by blast

lemma guarantees_stored_eq:
  "guarantees V e w0 {} m \<Longrightarrow> lm_held m = H \<Longrightarrow> TargetFromKey p = Some t \<Longrightarrow> describes V (lm_world m) t e c \<Longrightarrow>
   fresh_claim p '''' (hc_taskID h) h \<Longrightarrow> hc_leaseToken h = cl_LeaseToken c \<Longrightarrow> hc_leaseUntil h = cl_LeaseUntil c \<Longrightarrow>
   guarantees V e w0 {} (m\<lparr>lm_held := AList.update p h H\<rparr>)"
  using guarantees_stored by blast

lemma wp_releaseLocked:
  assumes "guarantees V e w0 {} m" "map_of (lm_held m) (hc_key h) = Some h"
  shows "wp (releaseLocked (env e) ctx h) (\<lambda>_. guarantees V e w0 {}) m"
proof -
  have "hc_secondKey h = ''''" using guaranteesD(4) [OF assms] by simp
  with assms show ?thesis
    unfolding releaseLocked_def
    by (auto simp: wp_rules intro!: wp_running wp_releaseRef guarantees_pending_eq guarantees_delete_eq)
qed

lemma findHeld_held:
  assumes "guarantees V e w0 X m" "findHeld (lm_held m) key = Some h"
  shows "map_of (lm_held m) (hc_key h) = Some h"
proof -
  have wf: "held_wf (lm_held m)" using guaranteesD(2) [OF assms(1)] by (simp add: sound_def)
  obtain k where "map_of (lm_held m) k = Some h"
    using assms(2) wf unfolding findHeld_def
    by (auto simp: find_Some_iff held_wf_def gomap_mem_iff [symmetric] split: option.splits) (metis nth_mem)
  with wf show ?thesis by (auto simp: held_wf_def claim_wf_def)
qed

lemma wp_Release:
  assumes g: "guarantees V e w0 {} m"
  shows "wp (lm_Release (env e) key) (\<lambda>_. guarantees V e w0 {}) m"
  unfolding lm_Release_def
  by (auto simp: wp_rules findHeld_held [OF g] g intro!: wp_clock [OF g] wp_releaseLocked)

lemma wp_ReleaseAfterSuccess:
  assumes g: "guarantees V e w0 {} m"
  shows "wp (ReleaseAfterSuccess (env e) key t) (\<lambda>_. guarantees V e w0 {}) m"
  unfolding ReleaseAfterSuccess_def Let_def
  by (auto simp: wp_rules same_defs findHeld_held [OF g] g
      intro!: wp_clock [OF g] wp_releaseLocked guarantees_flags_eq)

end

section \<open>Claiming and taking over keep the guarantee\<close>

context fleet
begin

lemma not_held_target:
  assumes "guarantees V e w0 X m" "findHeld (lm_held m) p = None" "TargetFromKey p = Some t"
  shows "t \<notin> held_targets (lm_held m)"
proof
  assume "t \<in> held_targets (lm_held m)"
  then obtain k h where h: "map_of (lm_held m) k = Some h" "hc_target h = t"
    by (auto simp: held_targets_def)
  moreover have "hc_target h = keyTarget k"
    using guaranteesD(4) [OF assms(1) h(1)] by (simp add: claim_wf_def)
  moreover have "keyTarget p = t" "t \<noteq> noTarget"
    using assms(3) TargetFromKey_rawKey by (auto simp: keyTarget_def)
  ultimately have "k = p" using keyTarget_inj by metis
  with assms(2) h(1) show False by (simp add: findHeld_def)
qed

text \<open>A new claim: read, acquire, and read back what a failed acquire may have left.\<close>

lemma wp_createPrimary:
  assumes g: "guarantees V e w0 {} m" and adr: "addressable t" and free: "t \<notin> held_targets (lm_held m)"
    and Q: "\<And>a m'. guarantees V e w0 {} m' \<Longrightarrow> lm_held m' = lm_held m \<Longrightarrow>
      (\<And>c b. a = Inr (c, b) \<Longrightarrow> describes V (lm_world m') t e c) \<Longrightarrow> Q a m'"
  shows "wp (createPrimary (env e) t tid) Q m"
proof -
  have count: "Q (Inl x) (m'\<lparr>lm_counts := cs\<rparr>)"
    if "guarantees V e w0 {} m'" "lm_held m' = lm_held m" for x m' cs
    by (rule Q) (use that in auto)
  have again: "wp (readBackRecovery (env e) t) (\<lambda>listed. wp (case listed of
        Inl readErr \<Rightarrow> do { countClaim ''error''; State_Monad.return (Inl readErr) }
      | Inr l \<Rightarrow> (case l of
          Some c \<Rightarrow> if heldByUs (env e) (Some c) then State_Monad.return (Inr (c, True))
                     else do { countClaim ''error''; State_Monad.return (Inl err) }
        | None \<Rightarrow> do { countClaim ''error''; State_Monad.return (Inl err) })) Q) m'"
    if "guarantees V e w0 {} m'" "lm_held m' = lm_held m" for m' err
    unfolding readBackRecovery_def
    by (rule wp_read [OF that(1) adr])
      (use that in \<open>auto simp: wp_rules heldByUs_def env_cluster intro!: Q count split: sum.split option.split\<close>)
  show ?thesis
    unfolding createPrimary_def
    by (auto simp: wp_rules free intro!: wp_read [OF g adr] wp_acquire [OF _ adr] count again Q split: sum.split)
qed

lemma wp_acquireForTakeover:
  assumes g: "guarantees V e w0 {} m" and adr: "addressable t" and free: "t \<notin> held_targets (lm_held m)"
    and Q: "\<And>a m'. guarantees V e w0 {} m' \<Longrightarrow> lm_held m' = lm_held m \<Longrightarrow>
      (\<And>c b. a = Inr (c, b) \<Longrightarrow> describes V (lm_world m') t e c) \<Longrightarrow> Q a m'"
  shows "wp (acquireForTakeover (env e) t tid) Q m"
proof -
  have count: "Q x (m'\<lparr>lm_counts := cs\<rparr>)"
    if "guarantees V e w0 {} m'" "lm_held m' = lm_held m"
      "\<And>c b. x = Inr (c, b) \<Longrightarrow> describes V (lm_world m') t e c" for x m' cs
    by (rule Q) (use that in auto)
  have again: "wp (readBackRecovery (env e) t) (\<lambda>recovered. wp (case recovered of
        Inl _ \<Rightarrow> do { countClaim ''error''; State_Monad.return (Inl err) }
      | Inr r \<Rightarrow> (case r of
          None \<Rightarrow> do { countClaim ''error''; State_Monad.return (Inl err) }
        | Some c \<Rightarrow> if heldByUs (env e) (Some c)
                     then do { countClaim ''recovered''; State_Monad.return (Inr (c, True)) }
                     else do { countClaim ''error''; State_Monad.return (Inl err) })) Q) m'"
    if "guarantees V e w0 {} m'" "lm_held m' = lm_held m" for m' err
    unfolding readBackRecovery_def
    by (rule wp_read [OF that(1) adr])
      (use that in \<open>auto simp: wp_rules heldByUs_def env_cluster intro!: count split: sum.split option.split\<close>)
  show ?thesis
    unfolding acquireForTakeover_def
    by (auto simp: wp_rules intro!: wp_acquire [OF g adr free] count again Q split: sum.split)
qed

lemma wp_claim:
  assumes g: "guarantees V e w0 {} m"
  shows "wp (claimPairLocked (env e) p '''' tid) (\<lambda>_. guarantees V e w0 {}) m"
  unfolding claimPairLocked_def
  by (auto simp: claim_simps not_held_target [OF g] g addressableI dest!: takeoverTargets_ok
      intro!: wp_clock [OF g] wp_createPrimary guarantees_stored_eq split: sum.split) simp_all

lemma wp_takeover:
  assumes g: "guarantees V e w0 {} m"
  shows "wp (TakeoverPair (env e) p '''' tid) (\<lambda>_. guarantees V e w0 {}) m"
  unfolding TakeoverPair_def
  by (auto simp: claim_simps not_held_target [OF g] g addressableI dest!: takeoverTargets_ok split: sum.split option.split
      intro!: wp_clock [OF g] wp_read wp_acquireForTakeover guarantees_stored_eq wp_mono [OF wp_claim]) simp_all

end


section \<open>The pass keeps the guarantee\<close>

context fleet
begin

lemma wp_retryPendingDeletion:
  assumes "guarantees V e w0 {} m" "map_of (lm_held m) k = Some h"
  shows "wp (retryPendingDeletion (env e) k h) (\<lambda>_. guarantees V e w0 {}) m"
  unfolding retryPendingDeletion_def
  by (auto simp: wp_rules assms intro!: wp_deleteJob [OF assms(1)] wp_bestEffort [where k = k] guarantees_delete_eq)

lemma wp_fenceClaim:
  assumes "guarantees V e w0 {} m" "map_of (lm_held m) k = Some h"
  shows "wp (fenceClaim (env e) k h) (\<lambda>_. guarantees V e w0 {}) m"
  unfolding fenceClaim_def
  by (auto simp: wp_rules assms same_defs
      intro!: wp_deleteJob [OF assms(1)] wp_bestEffort [where k = k] guarantees_delete_eq guarantees_flags_eq)

lemma wp_fence:
  assumes "guarantees V e w0 {} m"
  shows "wp (fenceNow (env e)) (\<lambda>_. guarantees V e w0 {}) m"
proof -
  have "wp (evaluateFence (env e) now) (\<lambda>_. guarantees V e w0 {}) m'" if "guarantees V e w0 {} m'" for now m'
    unfolding evaluateFence_def
    by (rule wp_all_held [where I = "guarantees V e w0 {}"])
      (use that wp_fenceClaim in \<open>auto simp: wp_rules\<close>)
  then show ?thesis
    unfolding fenceNow_def wp_bind by (rule wp_clock [OF assms])
qed

lemma wp_retryPendingRelease:
  assumes g: "guarantees V e w0 {} m" and h: "map_of (lm_held m) k = Some h"
  shows "wp (retryPendingRelease (env e) k h) (\<lambda>_. guarantees V e w0 {}) m"
proof (cases "hc_releasePending h")
  case False
  then show ?thesis by (simp add: retryPendingRelease_def wp_return g)
next
  case True
  have still: "guarantees V e w0 {} m'" if "guarantees V e w0 {k} m'" "lm_held m' = lm_held m" for m'
    by (rule guarantees_still_pending [OF that(1)]) (use that(2) h True in auto)
  have "hc_secondKey h = ''''" using guaranteesD(4) [OF g h] by simp
  with True show ?thesis
    unfolding retryPendingRelease_def
    by (auto simp: wp_rules intro!: wp_releaseRefDeadline [OF g h] guarantees_delete_eq) (auto intro: still)
qed

lemma wp_releaseExpiredHold:
  assumes g: "guarantees V e w0 {} m" and h: "map_of (lm_held m) k = Some h"
  shows "wp (releaseExpiredHold (env e) now k h) (\<lambda>_. guarantees V e w0 {}) m"
proof -
  have "hc_key h = k" using guaranteesD(4) [OF g h] by (simp add: claim_wf_def)
  then show ?thesis
    unfolding releaseExpiredHold_def using g h
    by (auto simp: wp_rules intro!: wp_deadline [OF g] wp_mono [OF wp_releaseLocked])
qed

lemma wp_releaseAfterRunningCheck:
  assumes g: "guarantees V e w0 {} m" and h: "map_of (lm_held m) k = Some h'"
    and eq: "hc_target h = hc_target h'" "hc_leaseToken h = hc_leaseToken h'" "hc_secondKey h = ''''"
  shows "wp (releaseAfterRunningCheck (env e) k h) (\<lambda>_. guarantees V e w0 {}) m"
  unfolding releaseAfterRunningCheck_def eq
  by (auto simp: wp_rules intro!: wp_releaseRefDeadline [OF g h] guarantees_delete_eq guarantees_pending_eq)

lemma wp_checkJobless:
  assumes g: "guarantees V e w0 {} m" and h: "map_of (lm_held m) k = Some h"
  shows "wp (checkJobless (env e) now k h) (\<lambda>_. guarantees V e w0 {}) m"
proof -
  have second: "hc_secondKey h = ''''" using guaranteesD(4) [OF g h] by simp
  have rel: "wp (releaseAfterRunningCheck (env e) k h) (\<lambda>_. guarantees V e w0 {}) m'"
    if "guarantees V e w0 {} m'" "\<exists>h'. map_of (lm_held m') k = Some h' \<and> same_lease h h'" for m'
    using that second by (auto simp: same_defs intro: wp_releaseAfterRunningCheck)
  show ?thesis
    unfolding checkJobless_def releaseJoblessClaim_def
    by (auto simp: wp_rules same_defs map_of_entry_at h
        intro!: wp_deadline [OF guarantees_flags_eq [OF g]] wp_running guarantees_flags_eq rel)
qed

lemma wp_joblessPass:
  "guarantees V e w0 {} m \<Longrightarrow> wp (joblessPass (env e) now ks) (\<lambda>_. guarantees V e w0 {}) m"
proof (induction ks arbitrary: m)
  case Nil
  then show ?case by (simp add: wp_return)
next
  case (Cons k ks)
  then show ?case
    unfolding joblessPass.simps ctxErr_def
    by (auto simp: wp_rules intro!: wp_clock wp_mono [OF wp_checkJobless])
qed

lemma wp_recheckRunningClaim:
  assumes g: "guarantees V e w0 {} m" and h: "map_of (lm_held m) k = Some h"
  shows "wp (recheckRunningClaim (env e) k h) (\<lambda>_. guarantees V e w0 {}) m"
proof -
  have "hc_secondKey h = ''''" using guaranteesD(4) [OF g h] by simp
  then show ?thesis
    unfolding recheckRunningClaim_def using g h
    by (auto simp: wp_rules same_defs intro!: wp_running [OF g] guarantees_flags_eq wp_releaseAfterRunningCheck)
qed

lemma wp_claimLost:
  assumes g: "guarantees V e w0 {} m"
  shows "wp (claimLost (env e) k h) (\<lambda>_. guarantees V e w0 {}) m"
  unfolding claimLost_def using g
  by (auto simp: wp_rules same_defs intro!: wp_deleteJob guarantees_flags_eq guarantees_delete_eq)

lemma wp_renewReadBack:
  assumes g: "guarantees V e w0 {} m" and wf: "claim_wf k h"
  shows "wp (renewReadBack (env e) h) (\<lambda>_. guarantees V e w0 {}) m"
proof -
  have key: "hc_key h = k" and adr: "addressable (hc_target h)"
    using wf by (auto simp: claim_wf_def addressable_keyTarget)
  have renewed: "guarantees V e' w0 {} (m'\<lparr>lm_held := AList.map_entry k
      (\<lambda>x. x\<lparr>hc_leaseToken := cl_LeaseToken c, hc_leaseUntil := cl_LeaseUntil c\<rparr>) H\<rparr>)"
    if "guarantees V e' w0 {} m'" "lm_held m' = H" "\<exists>h'. map_of H k = Some h'"
      "describes V (lm_world m') (hc_target h) e' c" for m' c H e'
  proof -
    from that(3) obtain h' where h': "map_of H k = Some h'" ..
    have "hc_target h' = hc_target h"
      using guaranteesD(4) [OF that(1)] that(2) h' wf by (simp add: claim_wf_def)
    with that show ?thesis by (intro guarantees_renewed_eq [OF that(1,2) h']) simp
  qed
  show ?thesis
    unfolding renewReadBack_def wp_bind key
    by (rule wp_mono [OF wp_fence [OF g]])
      (auto simp: wp_rules heldByUs_def env_cluster
        intro!: wp_deadline wp_read [OF _ adr] renewed wp_mono [OF wp_claimLost] split: sum.split option.split)
qed

lemma wp_renewClaim:
  assumes g: "guarantees V e w0 {} m" and h: "map_of (lm_held m) k = Some h"
  shows "wp (renewClaim (env e) k h now) (\<lambda>_. guarantees V e w0 {}) m"
proof -
  have wf: "claim_wf k h" and second: "hc_secondKey h = ''''" using guaranteesD(4) [OF g h] by auto
  define h1 where "h1 = h\<lparr>hc_lastRenewAt := now, hc_renewNextTick := False\<rparr>"
  define m1 where "m1 = m\<lparr>lm_held := AList.map_entry k
      (\<lambda>x. x\<lparr>hc_lastRenewAt := now, hc_renewNextTick := False\<rparr>) (lm_held m)\<rparr>"
  have g1: "guarantees V e w0 {} m1"
    unfolding m1_def by (rule guarantees_flags [OF g]) (simp add: same_defs)
  have h1: "map_of (lm_held m1) k = Some h1" by (simp add: m1_def h1_def map_of_entry_Some h)
  have eqs: "hc_target h = hc_target h1" "hc_leaseToken h = hc_leaseToken h1" by (simp_all add: h1_def)
  have "wp (renewRequest (env e) (hc_target h) (hc_leaseToken h) (hc_taskID h)) (\<lambda>renewed. wp (case renewed of
            Inr c \<Rightarrow>
              do { upd_held k (\<lambda>x. x\<lparr>hc_leaseToken := cl_LeaseToken c, hc_leaseUntil := cl_LeaseUntil c\<rparr>);
                   renewSecondary (env e) k h ''renewed'' }
          | Inl err \<Rightarrow>
              (if err = ErrLeaseLost then claimLost (env e) k h
               else
                 do { res \<leftarrow> renewReadBack (env e) h;
                      case res of
                        None \<Rightarrow> State_Monad.return ()
                      | Some label \<Rightarrow> renewSecondary (env e) k h label })) (\<lambda>_. guarantees V e w0 {})) m1"
    unfolding renewRequest_def wp_bind eqs
    by (intro wp_deadline [OF g1] wp_renew)
      (use h1 wf in \<open>auto simp: wp_rules renewSecondary_def second
        intro!: guarantees_renewed_eq wp_claimLost wp_mono [OF wp_renewReadBack] split: sum.split\<close>)
  then show ?thesis
    unfolding renewClaim_def wp_bind wp_held_ops(2) by (simp only: m1_def)
qed

lemma wp_renewIfDue:
  assumes g: "guarantees V e w0 {} m" and h: "map_of (lm_held m) k = Some h"
  shows "wp (renewIfDue (env e) k h) (\<lambda>_. guarantees V e w0 {}) m"
  unfolding renewIfDue_def using g h
  by (auto simp: wp_rules intro!: wp_clock [OF g] wp_mono [OF wp_renewClaim] wp_fence)

lemma wp_Tick:
  assumes "guarantees V e w0 {} m"
  shows "wp (Tick (env e)) (\<lambda>_. guarantees V e w0 {}) m"
proof -
  let ?G = "guarantees V e w0 {}"
  have deletions: "wp (retryPendingDeletions (env e)) (\<lambda>_. ?G) s" if "?G s" for s
    unfolding retryPendingDeletions_def by (rule wp_all_held [where I = ?G]) (use that wp_retryPendingDeletion in auto)
  have releases: "wp (retryPendingReleases (env e)) (\<lambda>_. ?G) s" if "?G s" for s
    unfolding retryPendingReleases_def by (rule wp_all_held [where I = ?G]) (use that wp_retryPendingRelease in auto)
  have all_holds: "wp (all_held (releaseExpiredHold (env e) now)) (\<lambda>_. ?G) s" if "?G s" for s now
    by (rule wp_all_held [where I = ?G]) (use that wp_releaseExpiredHold in auto)
  have holds: "wp (releaseExpiredHolds (env e)) (\<lambda>_. ?G) s" if "?G s" for s
    unfolding releaseExpiredHolds_def wp_bind by (rule wp_clock [OF that]) (rule all_holds)
  have jobless: "wp (releaseJoblessClaims (env e)) (\<lambda>_. ?G) s" if "?G s" for s
    unfolding releaseJoblessClaims_def wp_bind wp_gets by (rule wp_clock [OF that]) (rule wp_joblessPass)
  have recheck: "wp (recheckRunning (env e)) (\<lambda>_. ?G) s" if "?G s" for s
    unfolding recheckRunning_def by (rule wp_all_held [where I = ?G]) (use that wp_recheckRunningClaim in auto)
  have renew: "wp (renewDueClaims (env e)) (\<lambda>_. ?G) s" if "?G s" for s
    unfolding renewDueClaims_def by (rule wp_all_held [where I = ?G]) (use that wp_renewIfDue in auto)
  show ?thesis
    unfolding Tick_def ctxErr_def wp_bind wp_gets
    by (rule wp_mono [OF deletions [OF assms]])
      (auto simp: wp_rules intro!: wp_mono [OF wp_fence] wp_mono [OF releases] wp_mono [OF holds]
        wp_mono [OF jobless] wp_mono [OF recheck] wp_mono [OF renew])
qed

end


section \<open>The fleet\<close>

text \<open>
  Executors by cluster name, each with its held set, and one shared world. An operation of one
  executor is one step, as the manager's lock makes it; a restart empties the held set; the rest of
  the world may do anything that respects every executor's claims.
\<close>

record 'w fleet_state =
  fs_held :: "string \<Rightarrow> (string, heldClaim) gomap"
  fs_world :: 'w

datatype lease_op =
    DoClaim string string
  | DoTakeover string string
  | DoRelease string
  | DoReleaseAfterSuccess string go_time
  | DoTick

fun run_op :: "'w lease_env \<Rightarrow> lease_op \<Rightarrow> ('w leaseManager, unit) state" where
  "run_op env (DoClaim key tid) = do { _ \<leftarrow> lm_Claim env key tid; State_Monad.return () }"
| "run_op env (DoTakeover key tid) = do { _ \<leftarrow> lm_Takeover env key tid; State_Monad.return () }"
| "run_op env (DoRelease key) = do { _ \<leftarrow> lm_Release env key; State_Monad.return () }"
| "run_op env (DoReleaseAfterSuccess key t) = do { _ \<leftarrow> ReleaseAfterSuccess env key t; State_Monad.return () }"
| "run_op env DoTick = do { _ \<leftarrow> Tick env; State_Monad.return () }"

inductive fleet_step ::
  "(string \<Rightarrow> 'w lease_env) \<Rightarrow> 'w service_view \<Rightarrow> 'w fleet_state \<Rightarrow> 'w fleet_state \<Rightarrow> bool"
  for env :: "string \<Rightarrow> 'w lease_env" and V :: "'w service_view" where
  operation: "run_state (run_op (env e) oper)
      \<lparr>lm_held = fs_held s e, lm_counts = [], lm_world = fs_world s\<rparr> = ((), m) \<Longrightarrow>
    fleet_step env V s \<lparr>fs_held = (fs_held s)(e := lm_held m), fs_world = lm_world m\<rparr>"
| restart: "fleet_step env V s (s\<lparr>fs_held := (fs_held s)(e := [])\<rparr>)"
| world: "(\<And>d. rely V d (fs_world s) w') \<Longrightarrow> fleet_step env V s (s\<lparr>fs_world := w'\<rparr>)"

definition fleet_start :: "'w \<Rightarrow> 'w fleet_state" where
  "fleet_start w = \<lparr>fs_held = (\<lambda>_. []), fs_world = w\<rparr>"

definition fleet_reachable ::
  "(string \<Rightarrow> 'w lease_env) \<Rightarrow> 'w service_view \<Rightarrow> 'w \<Rightarrow> 'w fleet_state \<Rightarrow> bool" where
  "fleet_reachable env V w s \<longleftrightarrow> (fleet_step env V)\<^sup>*\<^sup>* (fleet_start w) s"

text \<open>A claim an executor acts on: held, not being released, and with its lease still running.\<close>

definition live_hold :: "'w service_view \<Rightarrow> 'w fleet_state \<Rightarrow> string \<Rightarrow> string \<Rightarrow> bool" where
  "live_hold V s e k \<longleftrightarrow>
     (\<exists>h. map_of (fs_held s e) k = Some h \<and> \<not> hc_releasePending h \<and>
          hc_leaseUntil h > sv_time V (fs_world s) + sv_slack V)"

context fleet
begin

lemma wp_run_op:
  assumes "guarantees V e w0 {} m"
  shows "wp (run_op (env e) oper) (\<lambda>_. guarantees V e w0 {}) m"
  using assms
  by (cases oper)
    (auto simp: wp_bind wp_return lm_Claim_def ClaimPair_def lm_Takeover_def
      intro!: wp_mono [OF wp_claim] wp_mono [OF wp_takeover] wp_mono [OF wp_Release]
        wp_mono [OF wp_ReleaseAfterSuccess] wp_mono [OF wp_Tick])

lemma fleet_step_sound:
  assumes "fleet_step env V s s'" and all: "\<And>e. sound V e {} (fs_held s e) (fs_world s)"
  shows "sound V d {} (fs_held s' d) (fs_world s')"
  using assms(1)
proof cases
  case (operation e oper m)
  let ?m0 = "\<lparr>lm_held = fs_held s e, lm_counts = [], lm_world = fs_world s\<rparr>"
  have ok: "sv_ok V (fs_world s)" using all by (simp add: sound_def)
  then have "guarantees V e (fs_world s) {} ?m0"
    using all by (simp add: guarantees_def rely_refl)
  from wpD [OF wp_run_op [OF this] operation(2)] have g: "guarantees V e (fs_world s) {} m" .
  show ?thesis
  proof (cases "d = e")
    case True
    with g operation(1) show ?thesis by (simp add: guarantees_def)
  next
    case False
    with g have "rely V d (fs_world s) (lm_world m)" by (simp add: guarantees_def)
    with all [of d] False operation(1) show ?thesis by (simp add: sound_rely)
  qed
next
  case (restart e)
  have "sv_ok V (fs_world s)" using all by (simp add: sound_def)
  then show ?thesis using restart all by (simp add: sound_def)
next
  case (world w')
  then show ?thesis using sound_rely [OF all] by simp
qed

lemma fleet_reachable_sound:
  assumes "fleet_reachable env V w s" "sv_ok V w"
  shows "sound V e {} (fs_held s e) (fs_world s)"
  using assms(1) unfolding fleet_reachable_def
proof (induction arbitrary: e rule: rtranclp_induct)
  case base
  then show ?case using assms(2) by (simp add: fleet_start_def sound_def)
next
  case (step s s')
  then show ?case using fleet_step_sound by blast
qed

lemma one_holder:
  assumes "fleet_reachable env V w s" "sv_ok V w" "live_hold V s e1 k" "live_hold V s e2 k"
  shows "e1 = e2"
proof -
  have "\<exists>sl. sv_slot V (fs_world s) (keyTarget k) = Some sl \<and> ls_holder sl = e" if "live_hold V s e k" for e
  proof -
    from that obtain h where h: "map_of (fs_held s e) k = Some h" "\<not> hc_releasePending h"
      "hc_leaseUntil h > sv_time V (fs_world s) + sv_slack V" by (auto simp: live_hold_def)
    have "backed V e (fs_world s) h" "hc_target h = keyTarget k"
      using fleet_reachable_sound [OF assms(1,2), of e] h by (auto simp: sound_def held_wf_def claim_wf_def)
    with h(3) show ?thesis by (auto simp: backed_def)
  qed
  from this [OF assms(3)] this [OF assms(4)] show ?thesis by auto
qed

end

end
