(* ===== verification/Lease_Format.thy ===== *)
theory Lease_Format
  imports Ref_Store
begin

text \<open>
  The wire form of a lease deadline determines the deadline to the second: a reader of RFC 3339
  timestamps in UTC (\<open>parseRFC3339\<close>, a specification, not code of the repository) gives back the
  instant \<open>formatLeaseUntil\<close> of \<^verbatim>\<open>pkg/claim/ref_client.go\<close> was given, cut to whole seconds. It is the
  concrete date parser the witnesses use for the library's \<^verbatim>\<open>ParseDateTime\<close>.
\<close>

section \<open>The calendar\<close>

definition days_before_year :: "int \<Rightarrow> int" where
  "days_before_year y = 365 * (y - 1) + (y - 1) div 4 - (y - 1) div 100 + (y - 1) div 400"

definition days_of :: "int \<Rightarrow> int \<Rightarrow> int \<Rightarrow> int" where
  "days_of y m d = days_before_year y + sum_list (take (nat (m - 1)) (month_lengths y)) + (d - 1)"

lemma cycle_bounds:
  fixes d1 :: int
  assumes "0 \<le> d1" "d1 < 146097" "n100 = min 3 (d1 div 36524)" "d2 = d1 - n100 * 36524"
    "n4 = d2 div 1461" "d3 = d2 mod 1461" "n1 = min 3 (d3 div 365)"
  shows "0 \<le> n100" "n100 \<le> 3" "0 \<le> n4" "n4 \<le> 24" "0 \<le> n1" "n1 \<le> 3"
    "d1 = 36524 * n100 + 1461 * n4 + 365 * n1 + (d3 - n1 * 365)" "0 \<le> d3 - n1 * 365"
proof -
  have d2: "0 \<le> d2 \<and> d2 \<le> 36524 \<and> 0 \<le> n100 \<and> n100 \<le> 3" using assms(1-4) by (simp add: min_def split: if_splits; linarith)
  have d3: "0 \<le> d3 \<and> d3 < 1461" "d2 = 1461 * n4 + d3" using assms(5,6) by auto
  show "0 \<le> n100" "n100 \<le> 3" using d2 by auto
  show "0 \<le> n4" "n4 \<le> 24" using d2 d3 by linarith+
  show "0 \<le> n1" "n1 \<le> 3" using assms(7) d3(1) by (auto simp: min_def)
  show "d1 = 36524 * n100 + 1461 * n4 + 365 * n1 + (d3 - n1 * 365)" using assms(4) d3(2) by simp
  show "0 \<le> d3 - n1 * 365" using assms(7) d3(1) by (simp add: min_def split: if_splits; linarith)
qed

lemma year_and_day_days:
  assumes "year_and_day d = (y, yd)"
  shows "days_before_year y + yd = d" and "0 \<le> d \<Longrightarrow> 1 \<le> y" and "0 \<le> yd"
proof -
  define n400 d1 n100 d2 n4 d3 n1 where defs: "n400 = d div 146097" "d1 = d mod 146097"
    "n100 = min 3 (d1 div 36524)" "d2 = d1 - n100 * 36524" "n4 = d2 div 1461" "d3 = d2 mod 1461"
    "n1 = min 3 (d3 div 365)"
  have y: "y = 1 + 400 * n400 + 100 * n100 + 4 * n4 + n1" and yd: "yd = d3 - n1 * 365"
    using assms unfolding year_and_day_def Let_def defs [symmetric] by simp_all
  have d: "d = 146097 * n400 + d1" "0 \<le> d1" "d1 < 146097" by (simp_all add: defs)
  note b = cycle_bounds [OF d(2,3) defs(3-7)]
  have q4: "(y - 1) div 4 = 100 * n400 + 25 * n100 + n4"
    by (rule int_div_pos_eq [of _ _ _ n1]) (use y b(1-6) in simp_all)
  have q100: "(y - 1) div 100 = 4 * n400 + n100"
    by (rule int_div_pos_eq [of _ _ _ "4 * n4 + n1"]) (use y b(1-6) in simp_all)
  have q400: "(y - 1) div 400 = n400"
    by (rule int_div_pos_eq [of _ _ _ "100 * n100 + 4 * n4 + n1"]) (use y b(1-6) in simp_all)
  show "days_before_year y + yd = d"
  proof -
    have d1: "d1 = 36524 * n100 + 1461 * n4 + d3" using b(7) by simp
    show ?thesis unfolding days_before_year_def q4 q100 q400 by (simp add: y yd d(1)) (simp add: d1)
  qed
  show "0 \<le> d \<Longrightarrow> 1 \<le> y" using b(1,3,5) y by (simp add: defs(1))
  show "0 \<le> yd" using b(8) yd by simp
qed

lemma month_and_day_days:
  assumes "month_and_day ls m d = (m', d')"
  shows "sum_list (take (nat (m' - m)) ls) + (d' - 1) = d \<and> m \<le> m' \<and> m' \<le> m + int (length ls) \<and> (0 \<le> d \<longrightarrow> 1 \<le> d')"
  using assms
proof (induction ls m d rule: month_and_day.induct)
  case (1 m d)
  then show ?case by auto
next
  case (2 l ls m d)
  show ?case
  proof (cases "d < l")
    case True
    with 2 show ?thesis by auto
  next
    case False
    with 2 have ih: "sum_list (take (nat (m' - (m + 1))) ls) + (d' - 1) = d - l" "m + 1 \<le> m'"
      "m' \<le> m + 1 + int (length ls)" "0 \<le> d - l \<longrightarrow> 1 \<le> d'" by auto
    then have "nat (m' - m) = Suc (nat (m' - (m + 1)))" by simp
    with ih False show ?thesis by auto
  qed
qed

section \<open>Reading it back\<close>

definition read_int :: "string \<Rightarrow> int" where
  "read_int s = int (read_nat s)"

definition parseRFC3339 :: "string \<Rightarrow> go_time option" where
  "parseRFC3339 s =
     (case split_on (CHR ''-'') s of
        [y, m, r] \<Rightarrow>
          (case split_on (CHR ''T'') r of
             [d, t] \<Rightarrow>
               (case split_on (CHR '':'') t of
                  [hh, mm, ssz] \<Rightarrow>
                    if s \<noteq> '''' \<and> last ssz = CHR ''Z'' then
                      Some ((days_of (read_int y) (read_int m) (read_int d) * 86400 + read_int hh * 3600 +
                             read_int mm * 60 + read_int (butlast ssz)) * second)
                    else None
                | _ \<Rightarrow> None)
           | _ \<Rightarrow> None)
      | _ \<Rightarrow> None)"

lemma read_nat_zeros: "read_nat (replicate k (CHR ''0'') @ ds) = read_nat ds"
proof -
  have "digit_val (CHR ''0'') = 0" by (simp add: digit_val_def)
  then show ?thesis unfolding read_nat_def by (induction k) simp_all
qed

lemma read_pad: "0 \<le> n \<Longrightarrow> read_int (pad w n) = n"
  by (simp add: pad_def Let_def read_int_def read_nat_zeros)

lemma pad_digits: "0 \<le> n \<Longrightarrow> list_all is_digit (pad w n)"
proof -
  have "list_all is_digit (replicate k (CHR ''0''))" for k
    by (induction k) (simp_all add: is_digit_def)
  then show "0 \<le> n \<Longrightarrow> list_all is_digit (pad w n)"
    by (simp add: pad_def Let_def show_nat_digits)
qed

lemma pad_no: "0 \<le> n \<Longrightarrow> \<not> is_digit c \<Longrightarrow> c \<notin> set (pad w n)"
  using pad_digits [of n w] by (auto simp: list_all_iff)

lemma not_digits: "\<not> is_digit (CHR ''-'')" "\<not> is_digit (CHR ''T'')" "\<not> is_digit (CHR '':'')" "\<not> is_digit (CHR ''Z'')"
  by (simp_all add: is_digit_def)

lemma parse_fields:
  assumes "0 \<le> y" "0 \<le> m" "0 \<le> d" "0 \<le> hh" "0 \<le> mm" "0 \<le> ss"
  shows "parseRFC3339 (pad 4 y @ ''-'' @ pad 2 m @ ''-'' @ pad 2 d @ ''T'' @ pad 2 hh @ '':'' @ pad 2 mm @ '':'' @
      pad 2 ss @ ''Z'') = Some ((days_of y m d * 86400 + hh * 3600 + mm * 60 + ss) * second)"
proof -
  define T where "T = pad 2 hh @ CHR '':'' # pad 2 mm @ CHR '':'' # pad 2 ss @ [CHR ''Z'']"
  define R where "R = pad 2 d @ CHR ''T'' # T"
  note no = pad_no [OF assms(1)] pad_no [OF assms(2)] pad_no [OF assms(3)] pad_no [OF assms(4)]
    pad_no [OF assms(5)] pad_no [OF assms(6)]
  have T: "CHR ''T'' \<notin> set T" "CHR ''-'' \<notin> set T"
    using no [OF not_digits(1)] no [OF not_digits(2)] by (simp_all add: T_def)
  have R: "CHR ''-'' \<notin> set R" using no(3) [OF not_digits(1)] T by (simp add: R_def)
  have s1: "split_on (CHR ''-'') (pad 4 y @ CHR ''-'' # pad 2 m @ CHR ''-'' # R) = [pad 4 y, pad 2 m, R]"
    using no(1,2) [OF not_digits(1)] R by (simp add: split_on_append split_on_no_sep)
  have s2: "split_on (CHR ''T'') R = [pad 2 d, T]"
    unfolding R_def using no(3) [OF not_digits(2)] T by (simp add: split_on_append split_on_no_sep)
  have s3: "split_on (CHR '':'') T = [pad 2 hh, pad 2 mm, pad 2 ss @ [CHR ''Z'']]"
    unfolding T_def using no(4,5,6) [OF not_digits(3)] by (simp add: split_on_append split_on_no_sep)
  have "pad 4 y @ ''-'' @ pad 2 m @ ''-'' @ pad 2 d @ ''T'' @ pad 2 hh @ '':'' @ pad 2 mm @ '':'' @ pad 2 ss @ ''Z'' =
      pad 4 y @ CHR ''-'' # pad 2 m @ CHR ''-'' # R"
    by (simp add: R_def T_def)
  then show ?thesis
    unfolding parseRFC3339_def by (simp add: s1 s2 s3 read_pad assms)
qed

lemma formatLeaseUntil_roundtrip:
  assumes "0 \<le> t"
  shows "parseRFC3339 (formatLeaseUntil t) = Some (t div second * second)"
proof -
  define s d r where "s = t div second" "d = s div 86400" "r = s mod 86400"
  note srd = this
  obtain y yd where yd: "year_and_day d = (y, yd)" by (rule prod.exhaust)
  obtain m md where md: "month_and_day (month_lengths y) 1 yd = (m, md)" by (rule prod.exhaust)
  have d0: "0 \<le> d" "0 \<le> r" "r < 86400" using assms by (simp_all add: srd second_def)
  note year = year_and_day_days [OF yd]
  note month = month_and_day_days [OF md]
  have "days_of y m md = d" using year(1) month by (simp add: days_of_def)
  moreover have "1 \<le> y" "1 \<le> m" "1 \<le> md" using year month d0 by auto
  moreover have "r div 3600 * 3600 + r mod 3600 div 60 * 60 + r mod 60 = r"
  proof -
    have "r mod 3600 mod 60 = r mod 60" by (simp add: mod_mod_cancel)
    with div_mult_mod_eq [of r 3600] div_mult_mod_eq [of "r mod 3600" 60] show ?thesis by linarith
  qed
  moreover have "d * 86400 + r = s" by (simp add: srd)
  moreover have "0 \<le> r div 3600" "0 \<le> r mod 3600 div 60" using d0 by (simp_all add: pos_imp_zdiv_nonneg_iff)
  ultimately show ?thesis
    using parse_fields [of y m md "r div 3600" "r mod 3600 div 60" "r mod 60"] d0
    unfolding formatLeaseUntil_def Let_def srd [symmetric] yd md
    by (simp add: add.assoc md)
qed

end
