(* ===== verification/Fleet_Instance.thy ===== *)
theory Fleet_Instance
  imports Fleet Lease_Format
begin

text \<open>
  The contract of the fleet is provided by the repository's own pieces: the claim client of
  \<^verbatim>\<open>pkg/claim/claimtest\<close> over the in-process git-rest of \<^verbatim>\<open>pkg/claim/fake_git_rest_test.go\<close>, a clock
  and a set of running Jobs. The interpretation discharges every assumption of \<open>claim_service\<close> and
  \<open>fleet\<close> on that model, and the witnesses run on it.
\<close>

section \<open>The world\<close>

record fleetWorld =
  fw_git :: fakeGitRest
  fw_clock :: go_time
  fw_jobs :: "string list"

definition on_git :: "(fakeGitRest, 'a) state \<Rightarrow> (fleetWorld, 'a) state" where
  "on_git x = State (\<lambda>w. case run_state x (fw_git w) of (a, g) \<Rightarrow> (a, w\<lparr>fw_git := g\<rparr>))"

definition gitClient :: "fleetWorld ClaimRefClient" where
  "gitClient =
     \<lparr>rc_List = (\<lambda>p. on_git (rc_List fakeClient p)),
      rc_Put = (\<lambda>k sha cl ti lu. on_git (rc_Put fakeClient k sha cl ti lu)),
      rc_Delete = (\<lambda>k sha. on_git (rc_Delete fakeClient k sha))\<rparr>"

definition fw_now :: "(fleetWorld, go_time) state" where
  "fw_now = gets fw_clock"

definition simJobs :: "fleetWorld JobControl" where
  "simJobs =
     \<lparr>jc_IsJobRunning = (\<lambda>ctx tid. gets (\<lambda>w. Inr (tid \<in> set (fw_jobs w)))),
      jc_DeleteJob = (\<lambda>ctx tid. State (\<lambda>w. (None, w\<lparr>fw_jobs := removeAll tid (fw_jobs w)\<rparr>)))\<rparr>"

definition simClient :: "fleetWorld ClaimClient" where
  "simClient = claimtestClient gitClient fw_now parseRFC3339"

definition simEnv :: "string \<Rightarrow> fleetWorld lease_env" where
  "simEnv e =
     \<lparr>le_cluster = e, le_claimClient = simClient, le_jobControl = simJobs, le_currentDateTime = fw_now,
      le_ctxDone = (\<lambda>_. False)\<rparr>"

section \<open>The service it is\<close>

definition lease_of :: "fakeRef \<Rightarrow> lease" where
  "lease_of r =
     \<lparr>ls_holder = fr_Cluster r, ls_token = fr_Sha r,
      ls_until = (case parseRFC3339 (fr_LeaseUntil r) of None \<Rightarrow> 0 | Some u \<Rightarrow> u)\<rparr>"

text \<open>The key a target is stored at, for targets that parse back from it.\<close>

definition storeKey :: "ClaimTarget \<Rightarrow> string option" where
  "storeKey t = (case KeyFor t of None \<Rightarrow> None | Some k \<Rightarrow> if TargetFromKey k = Some t then Some k else None)"

definition simSlot :: "fleetWorld \<Rightarrow> ClaimTarget \<Rightarrow> lease option" where
  "simSlot w t =
     (case storeKey t of None \<Rightarrow> None
      | Some k \<Rightarrow> map_option lease_of (map_of (refs (fw_git w)) (''refs/'' @ k)))"

definition simUsed :: "fleetWorld \<Rightarrow> string set" where
  "simUsed w = hex40 ` {1..shaSeq (fw_git w)}"

definition simOk :: "fleetWorld \<Rightarrow> bool" where
  "simOk w \<longleftrightarrow>
     0 \<le> fw_clock w \<and> gomap_wf (refs (fw_git w)) \<and>
     (\<forall>x r. map_of (refs (fw_git w)) x = Some r \<longrightarrow>
        fr_Sha r \<in> simUsed w \<and>
        ls_until (lease_of r) \<le> (fw_clock w + LeaseDuration) div second * second)"

definition simView :: "fleetWorld service_view" where
  "simView = \<lparr>sv_slot = simSlot, sv_used = simUsed, sv_time = fw_clock, sv_ok = simOk, sv_slack = second\<rparr>"

section \<open>Fresh tokens\<close>

definition hex_val :: "char \<Rightarrow> nat" where
  "hex_val c = (if is_digit c then digit_val c else of_char c - 87)"

definition read_hex :: "string \<Rightarrow> nat" where
  "read_hex s = foldl (\<lambda>acc c. 16 * acc + hex_val c) 0 s"

lemma hex_val_digit: "k < 16 \<Longrightarrow> hex_val (if k < 10 then digit_char k else char_of (87 + k)) = k"
  by (auto simp: hex_val_def is_digit_def of_char_digit_char digit_val_def)

lemma read_show_hex: "read_hex (show_hex n) = n"
proof (induction n rule: show_hex.induct)
  case (1 n)
  let ?dig = "\<lambda>k. if k < 10 then digit_char k else char_of (87 + k)"
  show ?case
  proof (cases "n < 16")
    case True
    then show ?thesis
      using hex_val_digit [of n] by (subst show_hex.simps) (simp add: Let_def read_hex_def)
  next
    case False
    with 1 have "read_hex (show_hex (n div 16)) = n div 16" by simp
    with False hex_val_digit [of "n mod 16"] show ?thesis
      by (subst show_hex.simps) (simp add: Let_def read_hex_def)
  qed
qed

lemma read_hex40: "read_hex (hex40 n) = n"
proof -
  have "hex_val (CHR ''0'') = 0" by (simp add: hex_val_def is_digit_def digit_val_def)
  then have "read_hex (replicate k (CHR ''0'') @ s) = read_hex s" for k s
    unfolding read_hex_def by (induction k) simp_all
  then show ?thesis by (simp add: hex40_def read_show_hex)
qed

lemma hex40_inj: "hex40 m = hex40 n \<longleftrightarrow> m = n"
  by (metis read_hex40)

lemma used_fresh: "hex40 (Suc (shaSeq (fw_git w))) \<notin> simUsed w"
  by (auto simp: simUsed_def hex40_inj)


lemma used_ne: "tok \<in> simUsed w \<Longrightarrow> tok \<noteq> ''''"
  using hex40_ne by (auto simp: simUsed_def)

section \<open>The operations on this world\<close>

lemma exact_sim:
  assumes "simOk w"
  shows "run_state (exact gitClient k) w =
    (Inr (map_option (claimRef_of (''refs/'' @ k)) (map_of (refs (fw_git w)) (''refs/'' @ k))), w)"
proof -
  define r where "r = ''refs/'' @ k"
  have good: "fake_good (fw_git w)" using assms by (simp add: simOk_def fake_good_def)
  have "matchesPrefix r k" unfolding r_def matchesPrefix_def by (simp add: has_prefix_def)
  then have mem: "x \<in> set (fake_list k (fw_git w)) \<and> ref_Ref x = r \<longleftrightarrow> fake_content (fw_git w) r = Some x" for x
    using fake_list_set [OF good] fake.content_ref [OF good] by metis
  have "find (\<lambda>ref. ref_Ref ref = r) (fake_list k (fw_git w)) = fake_content (fw_git w) r"
  proof (cases "find (\<lambda>ref. ref_Ref ref = r) (fake_list k (fw_git w))")
    case None
    then have "\<not> (x \<in> set (fake_list k (fw_git w)) \<and> ref_Ref x = r)" for x by (auto simp: find_None_iff)
    with mem None show ?thesis by (metis option.exhaust)
  next
    case (Some x)
    then have "x \<in> set (fake_list k (fw_git w)) \<and> ref_Ref x = r" by (auto simp: find_Some_iff)
    with mem Some show ?thesis by metis
  qed
  then show ?thesis
    unfolding r_def by (simp add: exact_def gitClient_def on_git_def fakeClient_def fake_content_def)
qed

text \<open>Writing a ref with the next sha.\<close>

definition written :: "string \<Rightarrow> string \<Rightarrow> string \<Rightarrow> fleetWorld \<Rightarrow> fleetWorld" where
  "written k hld tid w =
     w\<lparr>fw_git := (fw_git w)\<lparr>
         refs := AList.update (''refs/'' @ k)
           \<lparr>fr_Sha = hex40 (Suc (shaSeq (fw_git w))), fr_Cluster = hld, fr_TaskID = tid,
            fr_LeaseUntil = formatLeaseUntil (fw_clock w + LeaseDuration)\<rparr> (refs (fw_git w)),
         shaSeq := Suc (shaSeq (fw_git w))\<rparr>\<rparr>"

lemma put_sim:
  "run_state (rc_Put gitClient k sha hld tid (fw_clock w + LeaseDuration)) w =
     (if (if sha = '''' then map_of (refs (fw_git w)) (''refs/'' @ k) \<noteq> None
          else (case map_of (refs (fw_git w)) (''refs/'' @ k) of None \<Rightarrow> True | Some r \<Rightarrow> fr_Sha r \<noteq> sha))
      then (Inl ErrLeaseConflict, w)
      else (Inr (hex40 (Suc (shaSeq (fw_git w)))), written k hld tid w))"
  by (simp add: gitClient_def on_git_def fakeClient_def fake_put_def Let_def written_def)

lemma lease_seconds: "second * leaseSeconds = LeaseDuration"
  by (simp add: leaseSeconds_def LeaseDuration_def second_def)

lemma KeyFor_rawKey: "KeyFor t = Some k \<Longrightarrow> k = rawKey t"
  by (auto simp: KeyFor_def rawKey_def isPR_def split: if_splits)

lemma addressable_store: "addressable t \<Longrightarrow> storeKey t = KeyFor t"
proof -
  assume "addressable t"
  then consider "t = noTarget" | k where "TargetFromKey k = Some t" by (auto simp: addressable_def)
  then show ?thesis
  proof cases
    case 1
    then show ?thesis by (simp add: storeKey_def KeyFor_def noTarget_def isAmbiguous_def isPR_def)
  next
    case 2
    then have "TargetFromKey (rawKey t) = Some t" using TargetFromKey_rawKey [OF 2] by simp
    then show ?thesis using KeyFor_rawKey by (auto simp: storeKey_def split: option.split)
  qed
qed

lemma trunc_le: "t div second * second \<le> t" "t \<le> t div second * second + second"
  by (simp_all add: second_def)

lemma written_until:
  "simOk w \<Longrightarrow> parseRFC3339 (formatLeaseUntil (fw_clock w + LeaseDuration)) =
     Some ((fw_clock w + LeaseDuration) div second * second)"
  by (rule formatLeaseUntil_roundtrip) (simp add: simOk_def LeaseDuration_def second_def)

lemma grant_sim:
  assumes ok: "simOk w" and k: "storeKey t = Some k"
  shows "\<exists>s. granted simView hld t w (written k hld tid w) s \<and> later simView w (written k hld tid w) \<and>
      ls_until s = (fw_clock w + LeaseDuration) div second * second \<and>
      ls_token s = hex40 (Suc (shaSeq (fw_git w))) \<and> simSlot (written k hld tid w) t = Some s"
proof -
  let ?r = "\<lparr>fr_Sha = hex40 (Suc (shaSeq (fw_git w))), fr_Cluster = hld, fr_TaskID = tid,
      fr_LeaseUntil = formatLeaseUntil (fw_clock w + LeaseDuration)\<rparr>"
  let ?w = "written k hld tid w"
  have until: "ls_until (lease_of ?r) = (fw_clock w + LeaseDuration) div second * second"
    by (simp add: lease_of_def written_until [OF ok])
  have key: "storeKey t' \<noteq> Some k" if "t' \<noteq> t" for t'
    using k that by (auto simp: storeKey_def split: option.splits if_splits)
  have "simSlot ?w = (simSlot w)(t \<mapsto> lease_of ?r)"
    using k key by (auto simp: fun_eq_iff simSlot_def written_def update_conv split: option.split)
  moreover have used: "simUsed ?w = insert (hex40 (Suc (shaSeq (fw_git w)))) (simUsed w)"
    by (auto simp: simUsed_def written_def atLeastAtMostSuc_conv)
  moreover have "simOk ?w"
  proof -
    have "map_of (refs (fw_git ?w)) x = Some r \<Longrightarrow> fr_Sha r \<in> simUsed ?w \<and>
        ls_until (lease_of r) \<le> (fw_clock w + LeaseDuration) div second * second" for x r
      using ok used until
      by (auto simp: simOk_def written_def update_conv split: if_splits)
    moreover have "fw_clock ?w = fw_clock w" "gomap_wf (refs (fw_git ?w))"
      using ok by (simp_all add: written_def simOk_def)
    ultimately show ?thesis using ok unfolding simOk_def by simp
  qed
  ultimately show ?thesis
    using used_fresh [of w] until
    by (intro exI [of _ "lease_of ?r"])
      (simp add: granted_def later_def simView_def lease_of_def written_def)
qed


section \<open>The contract\<close>

lemma sim_still: "simOk w \<Longrightarrow> later simView w w \<and> untouched simView w w"
  by (simp add: later_def untouched_def simView_def)

lemma describes_new:
  assumes "simSlot w t = Some s" "ls_holder s = hld" "ls_token s = tok" "ls_until s = u div second * second"
  shows "describes simView w t hld (newClaim t hld tid u tok)"
  using assms trunc_le(2) [of u] by (simp add: describes_def simView_def newClaim_def)

lemma slot_store:
  "storeKey t = Some k \<Longrightarrow> map_of (refs (fw_git w)) (''refs/'' @ k) = Some r \<Longrightarrow> simSlot w t = Some (lease_of r)"
  by (simp add: simSlot_def)

lemma granted_describes:
  assumes ok: "simOk w" and k: "storeKey t = Some k"
    and free: "\<And>r. map_of (refs (fw_git w)) (''refs/'' @ k) = Some r \<Longrightarrow> ls_until (lease_of r) \<le> fw_clock w"
  shows "later simView w (written k hld tid w) \<and>
    ((\<forall>s. simSlot w t = Some s \<longrightarrow> ls_until s \<le> fw_clock w) \<and>
     (\<exists>s. granted simView hld t w (written k hld tid w) s)) \<and>
    describes simView (written k hld tid w) t hld
      (newClaim t hld cl (fw_clock w + LeaseDuration) (hex40 (Suc (shaSeq (fw_git w)))))"
proof -
  from grant_sim [OF ok k, of hld tid] obtain s where s: "granted simView hld t w (written k hld tid w) s"
    "later simView w (written k hld tid w)" "ls_until s = (fw_clock w + LeaseDuration) div second * second"
    "ls_token s = hex40 (Suc (shaSeq (fw_git w)))" "simSlot (written k hld tid w) t = Some s"
    by blast
  have "ls_holder s = hld" using s(1) by (simp add: granted_def)
  then have "describes simView (written k hld tid w) t hld
      (newClaim t hld cl (fw_clock w + LeaseDuration) (hex40 (Suc (shaSeq (fw_git w)))))"
    using s by (intro describes_new) auto
  moreover have "ls_until s' \<le> fw_clock w" if "simSlot w t = Some s'" for s'
    using that k free by (auto simp: simSlot_def)
  ultimately show ?thesis using s by blast
qed

lemma sim_Acquire:
  assumes ok: "simOk w" and adr: "addressable t"
    and run: "run_state (ct_Acquire gitClient fw_now parseRFC3339 ctx t hld tid leaseSeconds) w = (r, w')"
  shows "later simView w w' \<and>
      (untouched simView w w' \<or>
       (\<forall>s. simSlot w t = Some s \<longrightarrow> ls_until s \<le> fw_clock w') \<and> (\<exists>s. granted simView hld t w w' s)) \<and>
      (\<forall>c. r = Inr c \<longrightarrow> describes simView w' t hld c)"
proof (cases "KeyFor t = None \<or> claimantError t tid \<noteq> ''''")
  case True
  then have "r = Inl ErrClaimTargetInvalid \<and> w' = w" using run by (auto simp: ct_Acquire_def split: option.splits)
  then show ?thesis using sim_still [OF ok] by simp
next
  case False
  then obtain k where k: "KeyFor t = Some k" "storeKey t = Some k" using addressable_store [OF adr] by auto
  have clock: "fw_clock (written k hld x w) = fw_clock w" for x by (simp add: written_def)
  show ?thesis
  proof (cases "map_of (refs (fw_git w)) (''refs/'' @ k)")
    case None
    then have "r = Inr (newClaim t hld tid (fw_clock w + LeaseDuration) (hex40 (Suc (shaSeq (fw_git w))))) \<and>
        w' = written k hld (transportTaskID t tid) w"
      using run False k exact_sim [OF ok, of k]
      by (simp add: ct_Acquire_def liveClaim_def fw_now_def lease_seconds put_sim)
    then show ?thesis using granted_describes [OF ok k(2)] None clock by auto
  next
    case (Some ref)
    have sha: "fr_Sha ref \<noteq> ''''" using used_ne ok Some unfolding simOk_def by blast
    show ?thesis
    proof (cases "ls_until (lease_of ref) \<le> fw_clock w")
      case True
      then have "r = Inr (newClaim t hld tid (fw_clock w + LeaseDuration) (hex40 (Suc (shaSeq (fw_git w))))) \<and>
          w' = written k hld (transportTaskID t tid) w"
        using run False k exact_sim [OF ok, of k] Some sha
        by (auto simp: ct_Acquire_def liveClaim_def fw_now_def lease_seconds put_sim claimRef_of_def lease_of_def
            split: option.splits)
      then show ?thesis using granted_describes [OF ok k(2)] Some True clock by auto
    next
      case live: False
      then have "r = Inl ErrClaimHeld \<and> w' = w"
        using run False k exact_sim [OF ok, of k] Some ok
        by (auto simp: ct_Acquire_def liveClaim_def fw_now_def claimRef_of_def lease_of_def simOk_def
            split: option.splits)
      then show ?thesis using sim_still [OF ok] by simp
    qed
  qed
qed


lemma sim_Renew:
  assumes ok: "simOk w" and adr: "addressable t" and tok: "tok \<in> simUsed w"
    and run: "run_state (ct_Renew gitClient fw_now ctx t hld tok tid leaseSeconds) w = (r, w')"
  shows "later simView w w' \<and>
      (untouched simView w w' \<or>
       (\<exists>s0 s. simSlot w t = Some s0 \<and> ls_token s0 = tok \<and> ls_until s0 \<le> ls_until s \<and> granted simView hld t w w' s)) \<and>
      (\<forall>c. r = Inr c \<longrightarrow> describes simView w' t hld c)"
proof -
  have quiet: ?thesis if "r = Inl x \<and> w' = w" for x
    using that sim_still [OF ok] by simp
  show ?thesis
  proof (cases "KeyFor t = None \<or> hld = '''' \<or> claimantError t tid \<noteq> ''''")
    case True
    then have "r = Inl ErrClaimTargetInvalid \<and> w' = w"
      using run by (auto simp: ct_Renew_def split: option.splits if_splits)
    then show ?thesis by (rule quiet)
  next
    case False
    then obtain k where k: "KeyFor t = Some k" "storeKey t = Some k" using addressable_store [OF adr] by auto
    show ?thesis
    proof (cases "\<exists>ref. map_of (refs (fw_git w)) (''refs/'' @ k) = Some ref \<and> fr_Sha ref = tok")
      case no: False
      then have "r = Inl ErrLeaseLost \<and> w' = w"
        using run False k used_ne [OF tok]
        by (auto simp: ct_Renew_def fw_now_def lease_seconds put_sim split: option.splits if_splits)
      then show ?thesis by (rule quiet)
    next
      case True
      then obtain ref where ref: "map_of (refs (fw_git w)) (''refs/'' @ k) = Some ref" "fr_Sha ref = tok" by blast
      have res: "r = Inr (newClaim t hld tid (fw_clock w + LeaseDuration) (hex40 (Suc (shaSeq (fw_git w))))) \<and>
          w' = written k hld (transportTaskID t tid) w"
        using run False k used_ne [OF tok] ref
        by (simp add: ct_Renew_def fw_now_def lease_seconds put_sim)
      from grant_sim [OF ok k(2), of hld "transportTaskID t tid"] obtain s where
        s: "granted simView hld t w w' s" "later simView w w'"
          "ls_until s = (fw_clock w + LeaseDuration) div second * second"
          "ls_token s = hex40 (Suc (shaSeq (fw_git w)))" "simSlot w' t = Some s"
        using res by auto
      have "ls_holder s = hld" using s(1) by (simp add: granted_def)
      then have "\<forall>c. r = Inr c \<longrightarrow> describes simView w' t hld c"
        using s res by (auto intro: describes_new)
      moreover have "ls_until (lease_of ref) \<le> ls_until s"
        using ok ref(1) s(3) unfolding simOk_def by metis
      moreover have "simSlot w t = Some (lease_of ref)" "ls_token (lease_of ref) = tok"
        using slot_store [OF k(2) ref(1)] ref(2) by (simp_all add: lease_of_def)
      ultimately show ?thesis using s(1,2) by blast
    qed
  qed
qed

lemma sim_Release:
  assumes ok: "simOk w" and adr: "addressable t"
    and run: "run_state (ct_Release gitClient ctx t tok) w = (r, w')"
  shows "later simView w w' \<and>
      (untouched simView w w' \<or>
       (\<exists>s0. simSlot w t = Some s0 \<and> ls_token s0 = tok \<and> simSlot w' = (simSlot w)(t := None) \<and> simUsed w' = simUsed w))"
proof (cases "KeyFor t")
  case None
  then have "w' = w" using run by (simp add: ct_Release_def)
  then show ?thesis using sim_still [OF ok] by simp
next
  case (Some k)
  then have k: "storeKey t = Some k" using addressable_store [OF adr] by simp
  have other: "storeKey t' \<noteq> Some k" if "t' \<noteq> t" for t'
    using k that by (auto simp: storeKey_def split: option.splits if_splits)
  show ?thesis
  proof (cases "\<exists>ref. map_of (refs (fw_git w)) (''refs/'' @ k) = Some ref \<and> fr_Sha ref = tok")
    case False
    then have "w' = w"
      using run Some
      by (auto simp: ct_Release_def gitClient_def on_git_def fakeClient_def fake_delete_def Let_def split: option.splits)
    then show ?thesis using sim_still [OF ok] by simp
  next
    case True
    then obtain ref where ref: "map_of (refs (fw_git w)) (''refs/'' @ k) = Some ref" "fr_Sha ref = tok" by blast
    then have w': "w' = w\<lparr>fw_git := (fw_git w)\<lparr>refs := AList.delete (''refs/'' @ k) (refs (fw_git w))\<rparr>\<rparr>"
      using run Some
      by (auto simp: ct_Release_def gitClient_def on_git_def fakeClient_def fake_delete_def Let_def)
    have "simSlot w' = (simSlot w)(t := None)"
      using k other by (auto simp: fun_eq_iff simSlot_def w' delete_conv split: option.split)
    moreover have "simUsed w' = simUsed w" by (simp add: simUsed_def w')
    moreover have "simOk w'" using ok calculation(2) by (auto simp: simOk_def w' map_of_delete_Some)
    moreover have "ls_token (lease_of ref) = tok" using ref(2) by (simp add: lease_of_def)
    ultimately show ?thesis
      using slot_store [OF k ref(1)] by (auto simp: later_def simView_def w')
  qed
qed

lemma sim_Read:
  assumes ok: "simOk w" and adr: "addressable t"
    and run: "run_state (ct_Read gitClient parseRFC3339 ctx t) w = (r, w')"
  shows "later simView w w' \<and> untouched simView w w' \<and> (\<forall>c. r = Inr c \<longrightarrow> describes simView w t (cl_Holder c) c)"
proof (cases "KeyFor t")
  case None
  then show ?thesis using run sim_still [OF ok] by (auto simp: ct_Read_def)
next
  case (Some k)
  then have k: "storeKey t = Some k" using addressable_store [OF adr] by simp
  have "w' = w" using run Some exact_sim [OF ok, of k] by (simp add: ct_Read_def)
  moreover have "describes simView w t (cl_Holder c) c" if answer: "r = Inr c" for c
  proof -
    obtain ref where ref: "map_of (refs (fw_git w)) (''refs/'' @ k) = Some ref"
      "c = claimFromRef parseRFC3339 (claimRef_of (''refs/'' @ k) ref) t"
      using run answer Some exact_sim [OF ok, of k] by (auto simp: ct_Read_def split: option.splits)
    then show ?thesis
      using slot_store [OF k ref(1)]
      by (auto simp: describes_def simView_def claimFromRef_def claimRef_of_def lease_of_def Let_def second_def
          split: option.split)
  qed
  ultimately show ?thesis using sim_still [OF ok] by simp
qed

interpretation sim: fleet simClient simView simEnv
proof (unfold_locales, goal_cases)
  case (1 w t s)
  then obtain x r where "map_of (refs (fw_git w)) x = Some r" "s = lease_of r" "simOk w"
    by (auto simp: simView_def simSlot_def split: option.splits)
  then show ?case by (auto simp: simView_def simOk_def lease_of_def)
next
  case (2 w)
  have "storeKey noTarget = None" by (simp add: storeKey_def KeyFor_def noTarget_def isAmbiguous_def isPR_def)
  then show ?case by (simp add: simView_def simSlot_def)
next
  case (3 w t ctx hld tid r w')
  then show ?case using sim_Acquire [of w t ctx hld tid r w'] by (simp add: simView_def simClient_def claimtestClient_def)
next
  case (4 w t tok ctx hld tid r w')
  then show ?case using sim_Renew [of w t tok ctx hld tid r w'] by (simp add: simView_def simClient_def claimtestClient_def)
next
  case (5 w t ctx tok e w')
  then show ?case using sim_Release [of w t ctx tok e w'] by (simp add: simView_def simClient_def claimtestClient_def)
next
  case (6 w t ctx r w')
  then show ?case using sim_Read [of w t ctx r w'] by (simp add: simView_def simClient_def claimtestClient_def)
next
  case (7 e)
  then show ?case by (simp add: simEnv_def)
next
  case (8 e)
  then show ?case by (simp add: simEnv_def)
next
  case (9 w e now w')
  then show ?case by (auto simp: simEnv_def fw_now_def later_def untouched_def)
next
  case (10 w e ctx tid b w')
  then show ?case by (auto simp: simEnv_def simJobs_def later_def untouched_def)
next
  case (11 w e ctx tid x w')
  then show ?case
    by (auto simp: simEnv_def simJobs_def later_def untouched_def simView_def simSlot_def simUsed_def simOk_def
        fun_eq_iff split: option.split)
qed


section \<open>The clock of this world\<close>

lemma clock_git: "advances fw_clock (on_git x)"
  by (simp add: advances_def on_git_def split: prod.split)

lemma clock_client:
  "advances fw_clock (rc_List gitClient p)" "advances fw_clock (rc_Put gitClient k sha cl ti lu)"
  "advances fw_clock (rc_Delete gitClient k sha)" "advances fw_clock fw_now"
  by (simp_all add: gitClient_def clock_git fw_now_def advances_return)

lemmas clock_rules = advances_bind advances_return advances_cases clock_client

interpretation simclock: lease_clock "simEnv e" fw_clock for e
proof (unfold_locales, goal_cases)
  case (1 w t w')
  then show ?case by (auto simp: simEnv_def fw_now_def)
next
  case (2 ctx tgt hld tid n)
  then show ?case
    unfolding simEnv_def simClient_def claimtestClient_def ct_Acquire_def liveClaim_def exact_def
    by simp (intro clock_rules)
next
  case (3 ctx tgt hld tok tid n)
  then show ?case
    unfolding simEnv_def simClient_def claimtestClient_def ct_Renew_def
    by simp (intro clock_rules)
next
  case (4 ctx hld)
  then show ?case
    unfolding simEnv_def simClient_def claimtestClient_def ct_List_def
    by simp (intro clock_rules)
next
  case (5 ctx tgt tok)
  then show ?case
    unfolding simEnv_def simClient_def claimtestClient_def ct_Release_def
    by simp (intro clock_rules)
next
  case (6 ctx tgt)
  then show ?case
    unfolding simEnv_def simClient_def claimtestClient_def ct_Read_def exact_def
    by simp (intro clock_rules)
next
  case (7 ctx tid)
  then show ?case by (simp add: simEnv_def simJobs_def advances_return)
next
  case (8 ctx tid)
  then show ?case by (simp add: simEnv_def simJobs_def advances_def)
qed

end
