(* ===== verification/Redrive_Store.thy ===== *)
theory Redrive_Store
  imports Ref_Store
begin

text \<open>
  The shared redrive bookkeeping: the ref walker of \<^verbatim>\<open>pkg/claim/redrive_refs.go\<close>, the
  consecutive-spawn streak of \<^verbatim>\<open>redrive_streak_store.go\<close> and the failure reasons of
  \<^verbatim>\<open>redrive_reason_store.go\<close>. Times on the wire are parsed by \<^verbatim>\<open>libtime.ParseDateTime\<close>, which is
  not part of the repository: it is the parameter \<open>parseDateTime\<close>.
\<close>

section \<open>The ref walker\<close>

type_synonym redriveRefParser = "string \<Rightarrow> (string \<times> string \<times> string \<times> int) option"

definition RedriveStreakCluster :: string where "RedriveStreakCluster = ''redrive-streak''"
definition RedriveStreakPrefix :: string where "RedriveStreakPrefix = ''claims/redrive/''"
definition RedriveStreakPhaseNone :: string where "RedriveStreakPhaseNone = ''none''"
definition RedriveStreakLeaseDuration :: duration where "RedriveStreakLeaseDuration = 6 * hour"
definition redriveStreakMaxCreateAttempts :: nat where "redriveStreakMaxCreateAttempts = 3"
definition RedriveReasonPrefix :: string where "RedriveReasonPrefix = ''claims/redrive-reason/''"
definition RedriveReasonUnknown :: string where "RedriveReasonUnknown = ''unknown''"

definition redriveListForTask ::
  "'w ClaimRefClient \<Rightarrow> string \<Rightarrow> string \<Rightarrow> ('w, ClaimRef list result) state" where
  "redriveListForTask refClient pre taskID = rc_List refClient (pre @ taskID)"

text \<open>One turn of the search for the highest number of the task at the phase component.\<close>

definition redriveMax :: "redriveRefParser \<Rightarrow> string \<Rightarrow> string \<Rightarrow> int \<Rightarrow> ClaimRef \<Rightarrow> int" where
  "redriveMax parse taskID component highest ref =
     (case parse (ref_Ref ref) of
        None \<Rightarrow> highest
      | Some (refTaskID, refPhase, _, n) \<Rightarrow>
          if refTaskID \<noteq> taskID \<or> refPhase \<noteq> component then highest
          else if n > highest then n else highest)"

definition nextRedriveNumber :: "ClaimRef list \<Rightarrow> redriveRefParser \<Rightarrow> string \<Rightarrow> string \<Rightarrow> int" where
  "nextRedriveNumber rs parse taskID component =
     wrap64 (foldl (redriveMax parse taskID component) 0 rs + 1)"

text \<open>The guards of the deleting loops: which listed refs a loop acts on.\<close>

definition otherPhase :: "redriveRefParser \<Rightarrow> string \<Rightarrow> string \<Rightarrow> ClaimRef \<Rightarrow> bool" where
  "otherPhase parse t c x =
     (case parse (ref_Ref x) of None \<Rightarrow> False | Some (t', c', _, _) \<Rightarrow> t' = t \<and> c' \<noteq> c)"

definition ofTask :: "redriveRefParser \<Rightarrow> string \<Rightarrow> ClaimRef \<Rightarrow> bool" where
  "ofTask parse t x = (case parse (ref_Ref x) of None \<Rightarrow> False | Some (t', _, _, _) \<Rightarrow> t' = t)"

definition redriveDeleteOtherPhases ::
  "'w ClaimRefClient \<Rightarrow> string \<Rightarrow> string \<Rightarrow> redriveRefParser \<Rightarrow> ClaimRef list \<Rightarrow> ('w, unit) state" where
  "redriveDeleteOtherPhases refClient taskID component parse rs =
     for_each rs (\<lambda>ref. if otherPhase parse taskID component ref then redriveDeleteRef refClient ref
       else State_Monad.return ())"

text \<open>
  The create loop. The counter holds the attempts that are left, so the last attempt is the one
  entered with \<open>Suc 0\<close>; the result is the error, if any.
\<close>

fun recordRedriveLoop ::
  "'w ClaimRefClient \<Rightarrow> go_time \<Rightarrow> string \<Rightarrow> string \<Rightarrow> string \<Rightarrow> redriveRefParser \<Rightarrow> (int \<Rightarrow> string) \<Rightarrow>
   nat \<Rightarrow> ClaimRef list \<Rightarrow> ('w, claim_error option) state" where
  "recordRedriveLoop refClient leaseUntil pre taskID component parse buildKey 0 rs =
     State_Monad.return (Some (OtherError ''exhausted attempts''))"
| "recordRedriveLoop refClient leaseUntil pre taskID component parse buildKey (Suc left) rs =
     do { put \<leftarrow> rc_Put refClient (buildKey (nextRedriveNumber rs parse taskID component)) ''''
                  RedriveStreakCluster taskID leaseUntil;
          case put of
            Inr _ \<Rightarrow> do { redriveDeleteOtherPhases refClient taskID component parse rs;
                          State_Monad.return None }
          | Inl putErr \<Rightarrow>
              if putErr \<noteq> ErrLeaseConflict then State_Monad.return (Some putErr)
              else if left = 0 then State_Monad.return (Some putErr)
              else do { listed \<leftarrow> redriveListForTask refClient pre taskID;
                        case listed of
                          Inl e \<Rightarrow> State_Monad.return (Some e)
                        | Inr rs' \<Rightarrow> recordRedriveLoop refClient leaseUntil pre taskID component
                                      parse buildKey left rs' } }"

definition recordRedriveRef ::
  "'w ClaimRefClient \<Rightarrow> ('w, go_time) state \<Rightarrow> string \<Rightarrow> string \<Rightarrow> string \<Rightarrow> redriveRefParser \<Rightarrow>
   (int \<Rightarrow> string) \<Rightarrow> ('w, claim_error option) state" where
  "recordRedriveRef refClient currentDateTime pre taskID component parse buildKey =
     do { listed \<leftarrow> redriveListForTask refClient pre taskID;
          case listed of
            Inl e \<Rightarrow> State_Monad.return (Some e)
          | Inr rs \<Rightarrow>
              do { now \<leftarrow> currentDateTime;
                   recordRedriveLoop refClient (now + RedriveStreakLeaseDuration) pre taskID component
                     parse buildKey redriveStreakMaxCreateAttempts rs } }"

definition clearRedriveRefs ::
  "'w ClaimRefClient \<Rightarrow> string \<Rightarrow> string \<Rightarrow> redriveRefParser \<Rightarrow> ('w, claim_error option) state" where
  "clearRedriveRefs refClient pre taskID parse =
     (case validateClaimComponent ''task id'' taskID of
        Some e \<Rightarrow> State_Monad.return (Some e)
      | None \<Rightarrow>
          do { listed \<leftarrow> redriveListForTask refClient pre taskID;
               case listed of
                 Inl e \<Rightarrow> State_Monad.return (Some e)
               | Inr rs \<Rightarrow>
                   do { for_each rs (\<lambda>ref. if ofTask parse taskID ref then redriveDeleteRef refClient ref
                          else State_Monad.return ());
                        State_Monad.return None } })"

section \<open>The streak store\<close>

definition RedriveStreakPhaseComponent :: "string \<Rightarrow> string" where
  "RedriveStreakPhaseComponent phase = (if phase = '''' then RedriveStreakPhaseNone else phase)"

definition parseRedriveStreakRef :: "string \<Rightarrow> (string \<times> string \<times> int) option" where
  "parseRedriveStreakRef ref =
     (case split_on (CHR ''/'') (trim_prefix ref ''refs/'') of
        [p0, p1, p2, p3, p4] \<Rightarrow>
          if p0 \<noteq> ''claims'' \<or> p1 \<noteq> ''redrive'' then None
          else (case atoi p4 of
                  None \<Rightarrow> None
                | Some parsed \<Rightarrow> if parsed < 1 then None else Some (p2, p3, parsed))
      | _ \<Rightarrow> None)"

definition parseRedriveStreakRefForWalker :: redriveRefParser where
  "parseRedriveStreakRefForWalker ref =
     map_option (\<lambda>(taskID, phase, n). (taskID, phase, '''', n)) (parseRedriveStreakRef ref)"

definition redriveStreakRefExpired :: "(string \<Rightarrow> go_time option) \<Rightarrow> go_time \<Rightarrow> ClaimRef \<Rightarrow> bool" where
  "redriveStreakRefExpired parseDateTime now ref =
     (if ref_LeaseUntil ref = '''' then False
      else (case parseDateTime (ref_LeaseUntil ref) of
              None \<Rightarrow> False
            | Some leaseUntil \<Rightarrow> \<not> now < leaseUntil))"

text \<open>One listed ref counts toward the streak of a task at a phase component.\<close>

definition streakRefCounts ::
  "(string \<Rightarrow> go_time option) \<Rightarrow> go_time \<Rightarrow> string \<Rightarrow> string \<Rightarrow> ClaimRef \<Rightarrow> bool" where
  "streakRefCounts parseDateTime now taskID component ref =
     (case parseRedriveStreakRef (ref_Ref ref) of
        None \<Rightarrow> False
      | Some (refTaskID, refPhase, _) \<Rightarrow>
          refTaskID = taskID \<and> refPhase = component \<and> \<not> redriveStreakRefExpired parseDateTime now ref)"

definition streakCount ::
  "'w ClaimRefClient \<Rightarrow> ('w, go_time) state \<Rightarrow> (string \<Rightarrow> go_time option) \<Rightarrow>
   string \<Rightarrow> string \<Rightarrow> ('w, nat result) state" where
  "streakCount refClient currentDateTime parseDateTime taskID phase =
     (let component = RedriveStreakPhaseComponent phase in
      case validateClaimComponent ''task id'' taskID of
        Some e \<Rightarrow> State_Monad.return (Inl e)
      | None \<Rightarrow>
      (case validateClaimComponent ''phase'' component of
        Some e \<Rightarrow> State_Monad.return (Inl e)
      | None \<Rightarrow>
          do { listed \<leftarrow> redriveListForTask refClient RedriveStreakPrefix taskID;
               case listed of
                 Inl e \<Rightarrow> State_Monad.return (Inl e)
               | Inr rs \<Rightarrow>
                   do { now \<leftarrow> currentDateTime;
                        State_Monad.return (Inr (foldl (\<lambda>count ref.
                          if streakRefCounts parseDateTime now taskID component ref then count + 1
                          else count) 0 rs)) } }))"

text \<open>\<open>counts[taskID][phase]++\<close>, creating the inner map on first use.\<close>

definition bumpStreak ::
  "(string, (string, nat) gomap) gomap \<Rightarrow> string \<Rightarrow> string \<Rightarrow> (string, (string, nat) gomap) gomap" where
  "bumpStreak counts taskID phase =
     (let phases = (case map_of counts taskID of None \<Rightarrow> [] | Some m \<Rightarrow> m);
          n = (case map_of phases phase of None \<Rightarrow> 0 | Some k \<Rightarrow> k)
      in AList.update taskID (AList.update phase (n + 1) phases) counts)"

definition streakSnapshot ::
  "'w ClaimRefClient \<Rightarrow> ('w, go_time) state \<Rightarrow> (string \<Rightarrow> go_time option) \<Rightarrow>
   ('w, (string, (string, nat) gomap) gomap result) state" where
  "streakSnapshot refClient currentDateTime parseDateTime =
     do { listed \<leftarrow> rc_List refClient RedriveStreakPrefix;
          case listed of
            Inl e \<Rightarrow> State_Monad.return (Inl e)
          | Inr rs \<Rightarrow>
              do { now \<leftarrow> currentDateTime;
                   State_Monad.return (Inr (foldl (\<lambda>counts ref.
                     case parseRedriveStreakRef (ref_Ref ref) of
                       None \<Rightarrow> counts
                     | Some (taskID, phase, _) \<Rightarrow>
                         if redriveStreakRefExpired parseDateTime now ref then counts
                         else bumpStreak counts taskID phase) [] rs)) } }"

definition expiredOf :: "(string \<Rightarrow> go_time option) \<Rightarrow> go_time \<Rightarrow> string \<Rightarrow> ClaimRef \<Rightarrow> bool" where
  "expiredOf P now t x =
     (case parseRedriveStreakRef (ref_Ref x) of None \<Rightarrow> False
      | Some (t', _, _) \<Rightarrow> t' = t \<and> redriveStreakRefExpired P now x)"

definition pruneExpired ::
  "'w ClaimRefClient \<Rightarrow> ('w, go_time) state \<Rightarrow> (string \<Rightarrow> go_time option) \<Rightarrow> string \<Rightarrow> ('w, unit) state" where
  "pruneExpired refClient currentDateTime parseDateTime taskID =
     do { listed \<leftarrow> redriveListForTask refClient RedriveStreakPrefix taskID;
          case listed of
            Inl _ \<Rightarrow> State_Monad.return ()
          | Inr rs \<Rightarrow>
              do { now \<leftarrow> currentDateTime;
                   for_each rs (\<lambda>ref. if expiredOf parseDateTime now taskID ref
                     then redriveDeleteRef refClient ref else State_Monad.return ()) } }"

definition streakKey :: "string \<Rightarrow> string \<Rightarrow> int \<Rightarrow> string" where
  "streakKey taskID component next = RedriveStreakPrefix @ taskID @ ''/'' @ component @ ''/'' @ itoa next"

definition streakRecord ::
  "'w ClaimRefClient \<Rightarrow> ('w, go_time) state \<Rightarrow> (string \<Rightarrow> go_time option) \<Rightarrow>
   string \<Rightarrow> string \<Rightarrow> ('w, claim_error option) state" where
  "streakRecord refClient currentDateTime parseDateTime taskID phase =
     (let component = RedriveStreakPhaseComponent phase in
      case validateClaimComponent ''task id'' taskID of
        Some e \<Rightarrow> State_Monad.return (Some e)
      | None \<Rightarrow>
      (case validateClaimComponent ''phase'' component of
        Some e \<Rightarrow> State_Monad.return (Some e)
      | None \<Rightarrow>
          do { pruneExpired refClient currentDateTime parseDateTime taskID;
               recordRedriveRef refClient currentDateTime RedriveStreakPrefix taskID component
                 parseRedriveStreakRefForWalker (streakKey taskID component) }))"

definition streakClear :: "'w ClaimRefClient \<Rightarrow> string \<Rightarrow> ('w, claim_error option) state" where
  "streakClear refClient taskID =
     clearRedriveRefs refClient RedriveStreakPrefix taskID parseRedriveStreakRefForWalker"

section \<open>The reason store\<close>

definition parseRedriveReasonRef :: redriveRefParser where
  "parseRedriveReasonRef ref =
     (case split_on (CHR ''/'') (trim_prefix ref ''refs/'') of
        [p0, p1, p2, p3, p4, p5] \<Rightarrow>
          if p0 \<noteq> ''claims'' \<or> p1 \<noteq> ''redrive-reason'' then None
          else (case atoi p5 of
                  None \<Rightarrow> None
                | Some parsed \<Rightarrow> if parsed < 1 then None else Some (p2, p3, p4, parsed))
      | _ \<Rightarrow> None)"

definition reasonKey :: "string \<Rightarrow> string \<Rightarrow> string \<Rightarrow> int \<Rightarrow> string" where
  "reasonKey taskID component reason next =
     RedriveReasonPrefix @ taskID @ ''/'' @ component @ ''/'' @ reason @ ''/'' @ itoa next"

definition reasonRecord ::
  "'w ClaimRefClient \<Rightarrow> ('w, go_time) state \<Rightarrow> string \<Rightarrow> string \<Rightarrow> string \<Rightarrow> ('w, claim_error option) state" where
  "reasonRecord refClient currentDateTime taskID phase reason =
     (let component = RedriveStreakPhaseComponent phase;
          reason = (if reason = '''' then RedriveReasonUnknown else reason) in
      case validateClaimComponent ''task id'' taskID of
        Some e \<Rightarrow> State_Monad.return (Some e)
      | None \<Rightarrow>
      (case validateClaimComponent ''phase'' component of
        Some e \<Rightarrow> State_Monad.return (Some e)
      | None \<Rightarrow>
      (case validateClaimComponent ''reason'' reason of
        Some e \<Rightarrow> State_Monad.return (Some e)
      | None \<Rightarrow>
          recordRedriveRef refClient currentDateTime RedriveReasonPrefix taskID component
            parseRedriveReasonRef (reasonKey taskID component reason))))"

text \<open>
  Entries are ordered by their number; \<^verbatim>\<open>sort.Slice\<close> leaves the order of equal numbers open, and the
  model keeps the listed order there.
\<close>

definition sortedRedriveReasons :: "(int \<times> string) list \<Rightarrow> string list" where
  "sortedRedriveReasons entries = map snd (sort_key fst entries)"

definition reasonReasons ::
  "'w ClaimRefClient \<Rightarrow> string \<Rightarrow> string \<Rightarrow> ('w, string list result) state" where
  "reasonReasons refClient taskID phase =
     (let component = RedriveStreakPhaseComponent phase in
      case validateClaimComponent ''task id'' taskID of
        Some e \<Rightarrow> State_Monad.return (Inl e)
      | None \<Rightarrow>
      (case validateClaimComponent ''phase'' component of
        Some e \<Rightarrow> State_Monad.return (Inl e)
      | None \<Rightarrow>
          do { listed \<leftarrow> redriveListForTask refClient RedriveReasonPrefix taskID;
               case listed of
                 Inl e \<Rightarrow> State_Monad.return (Inl e)
               | Inr rs \<Rightarrow>
                   State_Monad.return (Inr (sortedRedriveReasons (foldl (\<lambda>entries ref.
                     case parseRedriveReasonRef (ref_Ref ref) of
                       None \<Rightarrow> entries
                     | Some (refTaskID, refPhase, reason, n) \<Rightarrow>
                         if refTaskID \<noteq> taskID \<or> refPhase \<noteq> component then entries
                         else entries @ [(n, reason)]) [] rs))) }))"

definition appendReason ::
  "(string, (string, (int \<times> string) list) gomap) gomap \<Rightarrow> string \<Rightarrow> string \<Rightarrow> int \<times> string \<Rightarrow>
   (string, (string, (int \<times> string) list) gomap) gomap" where
  "appendReason byTask taskID phase entry =
     (let phases = (case map_of byTask taskID of None \<Rightarrow> [] | Some m \<Rightarrow> m);
          entries = (case map_of phases phase of None \<Rightarrow> [] | Some es \<Rightarrow> es)
      in AList.update taskID (AList.update phase (entries @ [entry]) phases) byTask)"

definition reasonSnapshot ::
  "'w ClaimRefClient \<Rightarrow> ('w, (string, (string, string list) gomap) gomap result) state" where
  "reasonSnapshot refClient =
     do { listed \<leftarrow> rc_List refClient RedriveReasonPrefix;
          case listed of
            Inl e \<Rightarrow> State_Monad.return (Inl e)
          | Inr rs \<Rightarrow>
              State_Monad.return (Inr (map (\<lambda>(taskID, phases).
                  (taskID, map (\<lambda>(phase, entries). (phase, sortedRedriveReasons entries)) phases))
                (foldl (\<lambda>byTask ref.
                  case parseRedriveReasonRef (ref_Ref ref) of
                    None \<Rightarrow> byTask
                  | Some (taskID, phase, reason, n) \<Rightarrow> appendReason byTask taskID phase (n, reason)) [] rs))) }"

definition reasonClear :: "'w ClaimRefClient \<Rightarrow> string \<Rightarrow> ('w, claim_error option) state" where
  "reasonClear refClient taskID = clearRedriveRefs refClient RedriveReasonPrefix taskID parseRedriveReasonRef"

section \<open>Streak keys parse back\<close>

definition live_streak_ref ::
  "(string \<Rightarrow> go_time option) \<Rightarrow> go_time \<Rightarrow> string \<Rightarrow> string \<Rightarrow> (string \<rightharpoonup> ClaimRef) \<Rightarrow> string \<Rightarrow> bool" where
  "live_streak_ref parseDateTime now taskID component m r =
     (\<exists>x. m r = Some x \<and> matchesPrefix r (RedriveStreakPrefix @ taskID) \<and>
          streakRefCounts parseDateTime now taskID component x)"

text \<open>The length of the streak of a task in a phase.\<close>

definition live_count ::
  "(string \<Rightarrow> go_time option) \<Rightarrow> go_time \<Rightarrow> string \<Rightarrow> string \<Rightarrow> (string \<rightharpoonup> ClaimRef) \<Rightarrow> nat" where
  "live_count P now t c m = card {r. live_streak_ref P now t c m r}"

lemma join_five:
  "join_with ''/'' [a, b, c, d, e] = a @ ''/'' @ b @ ''/'' @ c @ ''/'' @ d @ ''/'' @ e"
  by simp

lemma parseRedriveStreakRef_key:
  assumes "valid_component t" "valid_component c" "1 \<le> n" "n \<le> max_int64"
  shows "parseRedriveStreakRef (''refs/'' @ streakKey t c n) = Some (t, c, n)"
proof -
  have key: "streakKey t c n = join_with ''/'' [''claims'', ''redrive'', t, c, itoa n]"
    by (simp add: streakKey_def RedriveStreakPrefix_def)
  have "split_on (CHR ''/'') (streakKey t c n) = [''claims'', ''redrive'', t, c, itoa n]"
    unfolding key using assms(1,2) valid_component_no_slash itoa_no_slash by (intro split_on_join) auto
  moreover have "atoi (itoa n) = Some n" using assms(3,4) by (intro atoi_itoa) auto
  ultimately show ?thesis using assms(3) by (simp add: parseRedriveStreakRef_def)
qed

lemma parseRedriveStreakRef_shape:
  assumes "parseRedriveStreakRef (''refs/'' @ k) = Some (t, c, n)"
  shows "\<exists>s. k = RedriveStreakPrefix @ t @ ''/'' @ s" "CHR ''/'' \<notin> set t" "1 \<le> n" "n \<le> max_int64"
proof -
  obtain p4 where sp: "split_on (CHR ''/'') k = [''claims'', ''redrive'', t, c, p4]" and
    a: "atoi p4 = Some n" "1 \<le> n"
    using assms by (auto simp: parseRedriveStreakRef_def split: list.splits if_splits option.splits)
  have "k = join_with ''/'' [''claims'', ''redrive'', t, c, p4]"
    using sp join_split_on [of "CHR ''/''" k] by simp
  then show "\<exists>s. k = RedriveStreakPrefix @ t @ ''/'' @ s" by (simp add: RedriveStreakPrefix_def)
  show "CHR ''/'' \<notin> set t" using split_on_sep_free [of t "CHR ''/''" k] sp by simp
  show "1 \<le> n" by (rule a(2))
  show "n \<le> max_int64" using a(1) by (auto simp: atoi_def Let_def split: if_splits prod.splits)
qed

lemma has_suffix_slash: "has_suffix (p @ t) ''/'' \<longleftrightarrow> (if t = [] then has_suffix p ''/'' else last t = CHR ''/'')"
proof (cases t rule: rev_cases)
  case Nil
  then show ?thesis by simp
next
  case (snoc ys y)
  then show ?thesis by (simp add: has_suffix_def)
qed

lemma matches_task_prefix:
  assumes "valid_component t"
  shows "matchesPrefix (''refs/'' @ p @ t @ ''/'' @ s) (p @ t)"
proof -
  have "CHR ''/'' \<notin> set t" "t \<noteq> []"
    using assms valid_component_no_slash valid_component_ne by auto
  then have "\<not> has_suffix (p @ t) ''/''"
    by (metis has_suffix_slash last_in_set)
  then show ?thesis
    by (auto simp: matchesPrefix_def has_prefix_iff)
qed

lemma matches_sub_prefix:
  "has_suffix p ''/'' \<Longrightarrow> matchesPrefix r (p @ t) \<Longrightarrow> matchesPrefix r p"
  by (auto simp: matchesPrefix_def has_prefix_iff split: if_splits)

lemma streak_matches:
  assumes "matchesPrefix r RedriveStreakPrefix" "parseRedriveStreakRef r = Some (t, c, n)" "valid_component t"
  shows "matchesPrefix r (RedriveStreakPrefix @ t)"
proof -
  obtain k where r: "r = ''refs/'' @ k" using matchesPrefix_refs [OF assms(1)] by auto
  obtain s where "k = RedriveStreakPrefix @ t @ ''/'' @ s"
    using parseRedriveStreakRef_shape(1) assms(2) r by blast
  with r matches_task_prefix [OF assms(3)] show ?thesis by simp
qed

lemma streak_prefix_slash: "has_suffix RedriveStreakPrefix ''/''"
  by (simp add: RedriveStreakPrefix_def has_suffix_def)

section \<open>Counting\<close>

lemma foldl_count: "foldl (\<lambda>n x. if P x then n + 1 else n) (k::nat) xs = k + length (filter P xs)"
  by (induction xs arbitrary: k) auto

lemma distinct_filter_card:
  assumes "distinct (map f xs)"
  shows "length (filter P xs) = card {f x | x. x \<in> set xs \<and> P x}"
proof -
  have "length (filter P xs) = card (set (map f (filter P xs)))"
    using assms by (metis distinct_card distinct_map_filter length_map)
  also have "set (map f (filter P xs)) = {f x | x. x \<in> set xs \<and> P x}" by auto
  finally show ?thesis .
qed

definition lookup2 :: "(string, (string, 'a) gomap) gomap \<Rightarrow> string \<Rightarrow> string \<Rightarrow> 'a option" where
  "lookup2 m t c = Option.bind (map_of m t) (\<lambda>inner. map_of inner c)"

lemma lookup2_bump:
  "lookup2 (bumpStreak m t c) t' c' =
     (if t' = t \<and> c' = c then Some (case lookup2 m t c of None \<Rightarrow> 1 | Some n \<Rightarrow> n + 1) else lookup2 m t' c')"
  by (auto simp: lookup2_def bumpStreak_def Let_def update_conv split: option.splits)

definition streak_at :: "(string, (string, nat) gomap) gomap \<Rightarrow> string \<Rightarrow> string \<Rightarrow> nat" where
  "streak_at m t c = (case lookup2 m t c of None \<Rightarrow> 0 | Some n \<Rightarrow> n)"

lemma streak_at_bump: "streak_at (bumpStreak m t c) t' c' = streak_at m t' c' + (if t' = t \<and> c' = c then 1 else 0)"
  by (auto simp: streak_at_def lookup2_bump split: option.splits)

lemma snapshot_fold:
  "streak_at (foldl (\<lambda>counts ref.
      case parseRedriveStreakRef (ref_Ref ref) of
        None \<Rightarrow> counts
      | Some (taskID, phase, _) \<Rightarrow>
          if redriveStreakRefExpired P now ref then counts else bumpStreak counts taskID phase) m xs) t c =
   streak_at m t c + length (filter (streakRefCounts P now t c) xs)"
proof (induction xs arbitrary: m)
  case Nil
  then show ?case by simp
next
  case (Cons x xs)
  show ?case
  proof (cases "parseRedriveStreakRef (ref_Ref x)")
    case None
    then show ?thesis using Cons.IH [of m] by (simp add: streakRefCounts_def)
  next
    case (Some p)
    obtain t1 c1 n where p: "p = (t1, c1, n)" by (cases p)
    show ?thesis
      using Some p Cons.IH [of m] Cons.IH [of "bumpStreak m t1 c1"]
      by (auto simp: streakRefCounts_def streak_at_bump)
  qed
qed

context ref_store
begin

text \<open>The live refs of a task at a phase component, and their number.\<close>

lemma listed_streak_card:
  assumes "good w" "run_state (rc_List client p) w = (Inr xs, v)"
    and "\<And>r x. content w r = Some x \<Longrightarrow> streakRefCounts P now t c x \<Longrightarrow>
           matchesPrefix r p \<longleftrightarrow> matchesPrefix r (RedriveStreakPrefix @ t)"
  shows "length (filter (streakRefCounts P now t c) xs) = live_count P now t c (content w)"
proof -
  have xs: "distinct (map ref_Ref xs)"
    "\<And>x. x \<in> set xs \<longleftrightarrow> content w (ref_Ref x) = Some x \<and> matchesPrefix (ref_Ref x) p"
    using list_result [OF assms(1,2)] by auto
  have "{ref_Ref x | x. x \<in> set xs \<and> streakRefCounts P now t c x} = {r. live_streak_ref P now t c (content w) r}"
    using xs(2) assms(3) content_ref [OF assms(1)] by (auto simp: live_streak_ref_def) blast+
  with distinct_filter_card [OF xs(1), of "streakRefCounts P now t c"] show ?thesis
    by (simp add: live_count_def)
qed

lemma streakCount_ok:
  assumes "good w" "\<And>u. run_state clock u = (now, u)"
    and "run_state (streakCount client clock P t ph) w = (Inr n, w')"
  shows "good w' \<and> content w' = content w \<and> valid_component t \<and>
    valid_component (RedriveStreakPhaseComponent ph) \<and>
    n = live_count P now t (RedriveStreakPhaseComponent ph) (content w)"
proof -
  let ?c = "RedriveStreakPhaseComponent ph"
  have v: "valid_component t" "valid_component ?c"
    using assms(3) by (auto simp: streakCount_def Let_def validate_iff validate_Some_iff split: option.splits)
  obtain xs where l: "run_state (rc_List client (RedriveStreakPrefix @ t)) w = (Inr xs, w')" and
    n: "n = length (filter (streakRefCounts P now t ?c) xs)"
    using assms(2,3) by (auto simp: streakCount_def Let_def redriveListForTask_def foldl_count
        split: option.splits prod.splits sum.splits)
  show ?thesis
    using v n listed_streak_card [OF assms(1) l] list_frame [OF assms(1) l] by simp
qed

lemma streakSnapshot_ok:
  assumes "good w" "\<And>u. run_state clock u = (now, u)" "valid_component t"
    and "run_state (streakSnapshot client clock P) w = (Inr m, w')"
  shows "good w' \<and> content w' = content w \<and> streak_at m t c = live_count P now t c (content w)"
proof -
  obtain xs where l: "run_state (rc_List client RedriveStreakPrefix) w = (Inr xs, w')" and
    m: "m = foldl (\<lambda>counts ref.
      case parseRedriveStreakRef (ref_Ref ref) of
        None \<Rightarrow> counts
      | Some (taskID, phase, _) \<Rightarrow>
          if redriveStreakRefExpired P now ref then counts else bumpStreak counts taskID phase) [] xs"
    using assms(2,4) by (auto simp: streakSnapshot_def split: prod.splits sum.splits)
  have "streak_at m t c = length (filter (streakRefCounts P now t c) xs)"
    unfolding m by (simp only: snapshot_fold) (simp add: streak_at_def lookup2_def)
  also have "\<dots> = live_count P now t c (content w)"
  proof (rule listed_streak_card [OF assms(1) l])
    fix r x assume "content w r = Some x" "streakRefCounts P now t c x"
    moreover from this have "ref_Ref x = r" using content_ref [OF assms(1)] by blast
    ultimately obtain n where "parseRedriveStreakRef r = Some (t, c, n)"
      by (auto simp: streakRefCounts_def split: option.splits)
    then show "matchesPrefix r RedriveStreakPrefix \<longleftrightarrow> matchesPrefix r (RedriveStreakPrefix @ t)"
      using streak_matches [OF _ _ assms(3)] matches_sub_prefix [OF streak_prefix_slash] by blast
  qed
  finally show ?thesis using list_frame [OF assms(1) l] by simp
qed

end

section \<open>Recording and clearing\<close>

definition reliable_lists :: "'w ClaimRefClient \<Rightarrow> bool" where
  "reliable_lists client \<longleftrightarrow> (\<forall>p w. \<exists>xs w'. run_state (rc_List client p) w = (Inr xs, w'))"

lemma highest_ge:
  "k \<le> foldl (redriveMax parse t c) k rs \<and>
    (\<forall>x d n. x \<in> set rs \<longrightarrow> parse (ref_Ref x) = Some (t, c, d, n) \<longrightarrow> n \<le> foldl (redriveMax parse t c) k rs)"
proof (induction rs arbitrary: k)
  case Nil
  then show ?case by simp
next
  case (Cons x rs)
  have "k \<le> redriveMax parse t c k x" by (simp add: redriveMax_def split: option.split prod.split)
  moreover have "\<And>d n. parse (ref_Ref x) = Some (t, c, d, n) \<Longrightarrow> n \<le> redriveMax parse t c k x"
    by (simp add: redriveMax_def)
  ultimately show ?case using Cons.IH [of "redriveMax parse t c k x"] by fastforce
qed

lemma highest_le:
  assumes "k \<le> b" "\<And>x a d e n. x \<in> set rs \<Longrightarrow> parse (ref_Ref x) = Some (a, d, e, n) \<Longrightarrow> n \<le> b"
  shows "foldl (redriveMax parse t c) k rs \<le> b"
  using assms
proof (induction rs arbitrary: k)
  case Nil
  then show ?case by simp
next
  case (Cons x rs)
  have "redriveMax parse t c k x \<le> b"
    using Cons.prems(1) Cons.prems(2) [of x] by (auto simp: redriveMax_def split: option.split)
  then have "foldl (redriveMax parse t c) (redriveMax parse t c k x) rs \<le> b"
    using Cons.prems(2) by (intro Cons.IH) (meson list.set_intros(2))+
  then show ?case by simp
qed

lemma next_number:
  assumes "\<And>x a d e n. x \<in> set rs \<Longrightarrow> parse (ref_Ref x) = Some (a, d, e, n) \<Longrightarrow> n < max_int64"
  shows "nextRedriveNumber rs parse t c = foldl (redriveMax parse t c) 0 rs + 1 \<and>
    1 \<le> nextRedriveNumber rs parse t c \<and> nextRedriveNumber rs parse t c \<le> max_int64"
proof -
  have "foldl (redriveMax parse t c) 0 rs \<le> max_int64 - 1"
    using assms by (intro highest_le) force+
  moreover have "0 \<le> foldl (redriveMax parse t c) 0 rs" using highest_ge by blast
  ultimately show ?thesis
    unfolding nextRedriveNumber_def by (subst (1 2 3) wrap64_id) auto
qed

context ref_store
begin

lemma prune_content:
  assumes "good w" "reliable_deletes client" "reliable_lists client" "\<And>u. run_state clock u = (now, u)"
    and "run_state (pruneExpired client clock P t) w = (u, w')"
  shows "good w' \<and> content w' = drop_refs (content w)
    (\<lambda>x. matchesPrefix (ref_Ref x) (RedriveStreakPrefix @ t) \<and> expiredOf P now t x)"
proof -
  obtain xs v where l: "run_state (rc_List client (RedriveStreakPrefix @ t)) w = (Inr xs, v)"
    using assms(3) unfolding reliable_lists_def by blast
  have "run_state (for_each xs (\<lambda>x. if expiredOf P now t x then redriveDeleteRef client x
      else State_Monad.return ())) v = (u, w')"
    using assms(4,5) l by (simp add: pruneExpired_def redriveListForTask_def)
  from list_loop [OF assms(1,2) l this] show ?thesis .
qed

lemma clear_content:
  assumes "good w" "reliable_deletes client"
    and "run_state (clearRedriveRefs client pre t parse) w = (None, w')"
  shows "valid_component t \<and> good w' \<and> content w' = drop_refs (content w)
    (\<lambda>x. matchesPrefix (ref_Ref x) (pre @ t) \<and> ofTask parse t x)"
proof -
  have v: "valid_component t"
    using assms(3) by (auto simp: clearRedriveRefs_def validate_Some_iff validate_iff split: option.splits)
  obtain xs v where l: "run_state (rc_List client (pre @ t)) w = (Inr xs, v)" and
    f: "run_state (for_each xs (\<lambda>x. if ofTask parse t x then redriveDeleteRef client x
      else State_Monad.return ())) v = ((), w')"
    using assms(3) by (auto simp: clearRedriveRefs_def redriveListForTask_def split: prod.splits sum.splits option.splits)
  from v list_loop [OF assms(1,2) l f] show ?thesis by simp
qed

lemma put_fresh:
  assumes "good w" "content w (''refs/'' @ k) = None"
  shows "run_state (rc_Put client k '''' cl ti lu) w \<noteq> (Inl ErrLeaseConflict, w')"
  using put_conflict [OF assms(1)] assms(2) by blast

text \<open>One pass through the walker adds exactly one ref and removes the task's other phases.\<close>

lemma recordRedriveRef_content:
  assumes good: "good w" and del: "reliable_deletes client" and clk: "\<And>u. run_state clock u = (now, u)"
    and run: "run_state (recordRedriveRef client clock pre t c parse build) w = (None, w')"
    and bound: "\<And>r x a d e n. content w r = Some x \<Longrightarrow> parse r = Some (a, d, e, n) \<Longrightarrow> n < max_int64"
    and key: "\<And>n. 1 \<le> n \<Longrightarrow> n \<le> max_int64 \<Longrightarrow>
      (\<exists>d. parse (''refs/'' @ build n) = Some (t, c, d, n)) \<and> matchesPrefix (''refs/'' @ build n) (pre @ t)"
  shows "\<exists>n sha. 1 \<le> n \<and> n \<le> max_int64 \<and> good w' \<and> content w (''refs/'' @ build n) = None \<and>
    content w' = (drop_refs (content w) (\<lambda>x. matchesPrefix (ref_Ref x) (pre @ t) \<and> otherPhase parse t c x))
      (''refs/'' @ build n \<mapsto> \<lparr>ref_Ref = ''refs/'' @ build n, ref_Sha = sha,
         ref_Cluster = RedriveStreakCluster, ref_TaskID = t,
         ref_LeaseUntil = formatLeaseUntil (now + RedriveStreakLeaseDuration)\<rparr>)"
proof -
  obtain xs v where l: "run_state (rc_List client (pre @ t)) w = (Inr xs, v)" and
    loop: "run_state (recordRedriveLoop client (now + RedriveStreakLeaseDuration) pre t c parse build 3 xs) v
      = (None, w')"
    using run clk by (auto simp: recordRedriveRef_def redriveListForTask_def redriveStreakMaxCreateAttempts_def
        split: prod.splits sum.splits)
  have v: "good v" "content v = content w" using list_frame [OF good l] by auto
  have xs: "distinct (map ref_Ref xs)"
    "\<And>x. x \<in> set xs \<longleftrightarrow> content w (ref_Ref x) = Some x \<and> matchesPrefix (ref_Ref x) (pre @ t)"
    using list_result [OF good l] by auto
  define n where "n = nextRedriveNumber xs parse t c"
  have n: "n = foldl (redriveMax parse t c) 0 xs + 1" "1 \<le> n" "n \<le> max_int64"
    unfolding n_def using next_number [of xs parse t c] bound xs(2) by blast+
  have fresh: "content w (''refs/'' @ build n) = None"
  proof (rule ccontr)
    assume "content w (''refs/'' @ build n) \<noteq> None"
    then obtain x where x: "content w (''refs/'' @ build n) = Some x" by auto
    have rx: "ref_Ref x = ''refs/'' @ build n" using content_ref [OF good x] .
    obtain d where "parse (''refs/'' @ build n) = Some (t, c, d, n)"
      "matchesPrefix (''refs/'' @ build n) (pre @ t)" using key [OF n(2,3)] by blast
    with x rx xs(2) have "x \<in> set xs" "parse (ref_Ref x) = Some (t, c, d, n)" by auto
    then have "n \<le> foldl (redriveMax parse t c) 0 xs" using highest_ge by blast
    with n(1) show False by simp
  qed
  obtain res v1 where p: "run_state (rc_Put client (build n) '''' RedriveStreakCluster t
      (now + RedriveStreakLeaseDuration)) v = (res, v1)" by (rule prod.exhaust)
  have "res \<noteq> Inl ErrLeaseConflict" using put_fresh [OF v(1)] fresh v(2) p by metis
  with loop p obtain sha where res: "res = Inr sha" and
    d: "run_state (redriveDeleteOtherPhases client t c parse xs) v1 = ((), w')"
    by (auto simp: numeral_3_eq_3 n_def [symmetric] split: sum.splits if_splits prod.splits)
  define new where "new = \<lparr>ref_Ref = ''refs/'' @ build n, ref_Sha = sha,
         ref_Cluster = RedriveStreakCluster, ref_TaskID = t,
         ref_LeaseUntil = formatLeaseUntil (now + RedriveStreakLeaseDuration)\<rparr>"
  have v1: "good v1" "content v1 = (content w)(''refs/'' @ build n \<mapsto> new)"
    using put_ok [OF v(1)] p res v(2) by (auto simp: new_def)
  have notin: "ref_Ref x \<noteq> ''refs/'' @ build n" if "x \<in> set xs" for x
    using that xs(2) fresh by (metis option.distinct(1))
  have "good w' \<and> content w' = drop_refs (content v1) (\<lambda>x. x \<in> set xs \<and> otherPhase parse t c x)"
  proof (rule delete_loop [OF v1(1) del xs(1) _ d [unfolded redriveDeleteOtherPhases_def]])
    fix x assume "x \<in> set xs"
    then have "content w (ref_Ref x) = Some x" "matchesPrefix (ref_Ref x) (pre @ t)" using xs(2) by auto
    with notin [OF \<open>x \<in> set xs\<close>] matchesPrefix_refs [of "ref_Ref x"] v1(2)
    show "content v1 (ref_Ref x) = Some x \<and> (\<exists>k. ref_Ref x = ''refs/'' @ k)" by fastforce
  qed
  moreover have "drop_refs (content v1) (\<lambda>x. x \<in> set xs \<and> otherPhase parse t c x) =
      (drop_refs (content w) (\<lambda>x. matchesPrefix (ref_Ref x) (pre @ t) \<and> otherPhase parse t c x))
      (''refs/'' @ build n \<mapsto> new)"
  proof
    fix r
    have "new \<notin> set xs" using notin [of new] by (auto simp: new_def)
    moreover have "y \<in> set xs \<longleftrightarrow> matchesPrefix (ref_Ref y) (pre @ t)" if "content w r = Some y" for y
      using that xs(2) content_ref [OF good that] by auto
    ultimately show "drop_refs (content v1) (\<lambda>x. x \<in> set xs \<and> otherPhase parse t c x) r =
      ((drop_refs (content w) (\<lambda>x. matchesPrefix (ref_Ref x) (pre @ t) \<and> otherPhase parse t c x))
      (''refs/'' @ build n \<mapsto> new)) r"
      by (auto simp: drop_refs_def v1(2) split: option.splits)
  qed
  ultimately show ?thesis
    using n(2,3) fresh by (intro exI [of _ n] exI [of _ sha]) (simp only: new_def)
qed

end

section \<open>What the streak store promises\<close>

text \<open>No stored number is the largest 64-bit integer, so the next number does not wrap around.\<close>

definition streak_numbers_bounded :: "(string \<rightharpoonup> ClaimRef) \<Rightarrow> bool" where
  "streak_numbers_bounded m \<longleftrightarrow>
     (\<forall>r t c n. r \<in> dom m \<longrightarrow> parseRedriveStreakRef r = Some (t, c, n) \<longrightarrow> n < max_int64)"

lemma streak_walker_parse:
  "parseRedriveStreakRefForWalker r = Some (t, c, d, n) \<longleftrightarrow> d = '''' \<and> parseRedriveStreakRef r = Some (t, c, n)"
  by (auto simp: parseRedriveStreakRefForWalker_def)

lemma otherPhase_streak:
  "otherPhase parseRedriveStreakRefForWalker t c x \<longleftrightarrow>
     (\<exists>c' n. parseRedriveStreakRef (ref_Ref x) = Some (t, c', n) \<and> c' \<noteq> c)"
  by (auto simp: otherPhase_def parseRedriveStreakRefForWalker_def split: option.splits)

lemma streakRefCounts_iff:
  "streakRefCounts P now t c x \<longleftrightarrow>
     (\<exists>n. parseRedriveStreakRef (ref_Ref x) = Some (t, c, n)) \<and> \<not> redriveStreakRefExpired P now x"
  by (auto simp: streakRefCounts_def split: option.splits)

lemma expiredOf_iff:
  "expiredOf P now t x \<longleftrightarrow>
     (\<exists>c n. parseRedriveStreakRef (ref_Ref x) = Some (t, c, n)) \<and> redriveStreakRefExpired P now x"
  by (auto simp: expiredOf_def split: option.splits)

lemma streakKey_matches: "valid_component t \<Longrightarrow> matchesPrefix (''refs/'' @ streakKey t c n) (RedriveStreakPrefix @ t)"
  using matches_task_prefix [of t RedriveStreakPrefix "c @ ''/'' @ itoa n"] by (simp add: streakKey_def)

context ref_store
begin

lemma finite_live:
  assumes "good w" "reliable_lists client"
  shows "finite {r. live_streak_ref P now t c (content w) r}"
proof -
  obtain xs v where l: "run_state (rc_List client (RedriveStreakPrefix @ t)) w = (Inr xs, v)"
    using assms(2) unfolding reliable_lists_def by blast
  have "{r. live_streak_ref P now t c (content w) r} \<subseteq> ref_Ref ` set xs"
    using list_result [OF assms(1) l] content_ref [OF assms(1)] by (force simp: live_streak_ref_def image_iff)
  then show ?thesis by (rule finite_subset) simp
qed

lemma streakRecord_content:
  assumes good: "good w" and del: "reliable_deletes client" and lst: "reliable_lists client"
    and clk: "\<And>u. run_state clock u = (now, u)"
    and run: "run_state (streakRecord client clock P t ph) w = (None, w')"
    and bound: "streak_numbers_bounded (content w)"
  defines "c \<equiv> RedriveStreakPhaseComponent ph"
  shows "valid_component t \<and> valid_component c \<and> good w' \<and>
    (\<exists>n sha. 1 \<le> n \<and> n \<le> max_int64 \<and>
      content w' = (drop_refs (content w)
        (\<lambda>x. matchesPrefix (ref_Ref x) (RedriveStreakPrefix @ t) \<and>
             (expiredOf P now t x \<or> otherPhase parseRedriveStreakRefForWalker t c x)))
        (''refs/'' @ streakKey t c n \<mapsto> \<lparr>ref_Ref = ''refs/'' @ streakKey t c n, ref_Sha = sha,
           ref_Cluster = RedriveStreakCluster, ref_TaskID = t,
           ref_LeaseUntil = formatLeaseUntil (now + RedriveStreakLeaseDuration)\<rparr>) \<and>
      (\<forall>x. content w (''refs/'' @ streakKey t c n) = Some x \<longrightarrow> expiredOf P now t x))"
proof -
  have v: "valid_component t" "valid_component c"
    using run by (auto simp: streakRecord_def Let_def c_def validate_iff validate_Some_iff split: option.splits)
  obtain u w1 where p: "run_state (pruneExpired client clock P t) w = (u, w1)" by (rule prod.exhaust)
  have r: "run_state (recordRedriveRef client clock RedriveStreakPrefix t c parseRedriveStreakRefForWalker
      (streakKey t c)) w1 = (None, w')"
    using run v p by (simp add: streakRecord_def Let_def c_def validate_iff [THEN iffD2])
  have w1: "good w1" "content w1 = drop_refs (content w)
      (\<lambda>x. matchesPrefix (ref_Ref x) (RedriveStreakPrefix @ t) \<and> expiredOf P now t x)"
    using prune_content [OF good del lst clk p] by auto
  have rec: "\<exists>n sha. 1 \<le> n \<and> n \<le> max_int64 \<and> good w' \<and> content w1 (''refs/'' @ streakKey t c n) = None \<and>
    content w' = (drop_refs (content w1)
        (\<lambda>x. matchesPrefix (ref_Ref x) (RedriveStreakPrefix @ t) \<and> otherPhase parseRedriveStreakRefForWalker t c x))
      (''refs/'' @ streakKey t c n \<mapsto> \<lparr>ref_Ref = ''refs/'' @ streakKey t c n, ref_Sha = sha,
         ref_Cluster = RedriveStreakCluster, ref_TaskID = t,
         ref_LeaseUntil = formatLeaseUntil (now + RedriveStreakLeaseDuration)\<rparr>)"
  proof (rule recordRedriveRef_content [OF w1(1) del clk r])
    fix r x a d e n
    assume "content w1 r = Some x" "parseRedriveStreakRefForWalker r = Some (a, d, e, n)"
    then show "n < max_int64" using bound
      by (auto simp: streak_numbers_bounded_def w1(2) drop_refs_Some streak_walker_parse)
  next
    fix n :: int assume "1 \<le> n" "n \<le> max_int64"
    then show "(\<exists>d. parseRedriveStreakRefForWalker (''refs/'' @ streakKey t c n) = Some (t, c, d, n)) \<and>
      matchesPrefix (''refs/'' @ streakKey t c n) (RedriveStreakPrefix @ t)"
      using parseRedriveStreakRef_key [OF v] streakKey_matches [OF v(1)]
      by (simp only: streak_walker_parse) simp
  qed
  have dd: "drop_refs (drop_refs (content w) A) B = drop_refs (content w) (\<lambda>x. A x \<or> B x)" for A B
    by (auto simp: drop_refs_def fun_eq_iff split: option.splits)
  from rec obtain n sha where n: "1 \<le> n" "n \<le> max_int64" "good w'"
    and fresh: "content w1 (''refs/'' @ streakKey t c n) = None"
    and cw': "content w' = (drop_refs (content w1)
        (\<lambda>x. matchesPrefix (ref_Ref x) (RedriveStreakPrefix @ t) \<and> otherPhase parseRedriveStreakRefForWalker t c x))
      (''refs/'' @ streakKey t c n \<mapsto> \<lparr>ref_Ref = ''refs/'' @ streakKey t c n, ref_Sha = sha,
         ref_Cluster = RedriveStreakCluster, ref_TaskID = t,
         ref_LeaseUntil = formatLeaseUntil (now + RedriveStreakLeaseDuration)\<rparr>)" by blast
  have "expiredOf P now t x" if "content w (''refs/'' @ streakKey t c n) = Some x" for x
    using fresh that by (simp only: w1(2) drop_refs_def) (simp split: if_splits)
  with v n cw' show ?thesis
    unfolding w1(2) dd conj_disj_distribL [symmetric] by blast
qed

end

context ref_store
begin

lemma streakRecord_live:
  assumes good: "good w" and del: "reliable_deletes client" and lst: "reliable_lists client"
    and clk: "\<And>u. run_state clock u = (now, u)"
    and run: "run_state (streakRecord client clock P t ph) w = (None, w')"
    and bound: "streak_numbers_bounded (content w)"
    and lease: "P (formatLeaseUntil (now + RedriveStreakLeaseDuration)) = Some L" "now < L"
  defines "c \<equiv> RedriveStreakPhaseComponent ph"
  shows "live_count P now t c (content w') = live_count P now t c (content w) + 1"
    and "c' \<noteq> c \<Longrightarrow> live_count P now t c' (content w') = 0"
    and "t' \<noteq> t \<Longrightarrow> live_count P now t' c' (content w') = live_count P now t' c' (content w)"
proof -
  define drop where "drop = (\<lambda>x. matchesPrefix (ref_Ref x) (RedriveStreakPrefix @ t) \<and>
    (expiredOf P now t x \<or> otherPhase parseRedriveStreakRefForWalker t c x))"
  obtain n sha where v: "valid_component t" "valid_component c" "good w'" and n: "1 \<le> n" "n \<le> max_int64"
    and cw': "content w' = (drop_refs (content w) drop)
        (''refs/'' @ streakKey t c n \<mapsto> \<lparr>ref_Ref = ''refs/'' @ streakKey t c n, ref_Sha = sha,
           ref_Cluster = RedriveStreakCluster, ref_TaskID = t,
           ref_LeaseUntil = formatLeaseUntil (now + RedriveStreakLeaseDuration)\<rparr>)"
    and old: "\<And>x. content w (''refs/'' @ streakKey t c n) = Some x \<Longrightarrow> expiredOf P now t x"
    using streakRecord_content [OF good del lst clk run bound] unfolding c_def drop_def by blast
  define k where "k = ''refs/'' @ streakKey t c n"
  define new where "new = \<lparr>ref_Ref = k, ref_Sha = sha, ref_Cluster = RedriveStreakCluster, ref_TaskID = t,
           ref_LeaseUntil = formatLeaseUntil (now + RedriveStreakLeaseDuration)\<rparr>"
  have cw: "content w' = (drop_refs (content w) drop)(k \<mapsto> new)"
    using cw' by (simp only: k_def new_def)
  have pk: "parseRedriveStreakRef k = Some (t, c, n)"
    unfolding k_def by (rule parseRedriveStreakRef_key [OF v(1,2) n])
  have newlive: "streakRefCounts P now a b new \<longleftrightarrow> a = t \<and> b = c" for a b
    using pk lease by (auto simp: new_def streakRefCounts_iff redriveStreakRefExpired_def)
  have mk: "matchesPrefix k (RedriveStreakPrefix @ t)"
    unfolding k_def by (rule streakKey_matches [OF v(1)])
  have other: "live_streak_ref P now a b (content w') r \<longleftrightarrow>
      (\<exists>x. content w r = Some x \<and> \<not> drop x \<and> matchesPrefix r (RedriveStreakPrefix @ a) \<and> streakRefCounts P now a b x)"
    if "r \<noteq> k" for a b r
    using that by (auto simp: live_streak_ref_def cw drop_refs_Some)
  have at_k: "live_streak_ref P now a b (content w') k \<longleftrightarrow> a = t \<and> b = c" for a b
    using mk newlive by (auto simp: live_streak_ref_def cw)
  have not_before: "\<not> live_streak_ref P now a b (content w) k" for a b
    using old [folded k_def] by (auto simp: live_streak_ref_def streakRefCounts_iff expiredOf_iff)
  have keep: "\<not> drop x" if "content w r = Some x" "streakRefCounts P now a b x" "a \<noteq> t \<or> b = c" for r x a b
    using that by (auto simp: drop_def streakRefCounts_iff expiredOf_iff otherPhase_streak)
  have "{r. live_streak_ref P now t c (content w') r} = insert k {r. live_streak_ref P now t c (content w) r}"
  proof (rule Set.set_eqI)
    fix r
    show "r \<in> {r. live_streak_ref P now t c (content w') r} \<longleftrightarrow> r \<in> insert k {r. live_streak_ref P now t c (content w) r}"
      using other [of r t c] at_k [of t c] keep [of r _ t c] by (auto simp: live_streak_ref_def)
  qed
  then show "live_count P now t c (content w') = live_count P now t c (content w) + 1"
    using finite_live [OF good lst, of P now t c] not_before [of t c] by (simp add: live_count_def)
  show "live_count P now t c' (content w') = 0" if "c' \<noteq> c"
  proof -
    have "\<not> live_streak_ref P now t c' (content w') r" for r
    proof (cases "r = k")
      case True
      then show ?thesis using at_k that by simp
    next
      case False
      have "drop x" if "content w r = Some x" "matchesPrefix r (RedriveStreakPrefix @ t)" "streakRefCounts P now t c' x" for x
        using that \<open>c' \<noteq> c\<close> content_ref [OF good that(1)]
        by (auto simp: drop_def streakRefCounts_iff otherPhase_streak)
      with other [OF False, of t c'] show ?thesis by blast
    qed
    then show ?thesis by (simp add: live_count_def)
  qed
  show "live_count P now t' c' (content w') = live_count P now t' c' (content w)" if "t' \<noteq> t"
  proof -
    have "live_streak_ref P now t' c' (content w') r = live_streak_ref P now t' c' (content w) r" for r
    proof (cases "r = k")
      case True
      then show ?thesis using at_k not_before that by simp
    next
      case False
      with other [OF False, of t' c'] keep [of r _ t' c'] that show ?thesis
        by (auto simp: live_streak_ref_def)
    qed
    then show ?thesis by (simp add: live_count_def)
  qed
qed

lemma streakClear_live:
  assumes good: "good w" and del: "reliable_deletes client"
    and run: "run_state (streakClear client t) w = (None, w')"
  shows "live_count P now t c (content w') = 0"
    and "t' \<noteq> t \<Longrightarrow> live_count P now t' c' (content w') = live_count P now t' c' (content w)"
proof -
  have cw: "content w' = drop_refs (content w)
    (\<lambda>x. matchesPrefix (ref_Ref x) (RedriveStreakPrefix @ t) \<and> ofTask parseRedriveStreakRefForWalker t x)"
    using clear_content [OF good del run [unfolded streakClear_def]] by blast
  have ofT: "ofTask parseRedriveStreakRefForWalker t x \<longleftrightarrow> a = t" if "streakRefCounts P now a b x" for x a b
    using that by (auto simp: streakRefCounts_iff ofTask_def parseRedriveStreakRefForWalker_def)
  have "\<not> live_streak_ref P now t c (content w') r" for r
    using ofT content_ref [OF good] by (fastforce simp: live_streak_ref_def cw drop_refs_Some)
  then show "live_count P now t c (content w') = 0" by (simp add: live_count_def)
  have "live_streak_ref P now t' c' (content w') r = live_streak_ref P now t' c' (content w) r" if "t' \<noteq> t" for r
    using ofT that by (auto simp: live_streak_ref_def cw drop_refs_Some)
  then show "t' \<noteq> t \<Longrightarrow> live_count P now t' c' (content w') = live_count P now t' c' (content w)"
    by (simp add: live_count_def)
qed

end

end
