(* ===== verification/Success_Store.thy ===== *)
theory Success_Store
  imports Redrive_Store
begin

text \<open>
  The shared success record (\<^verbatim>\<open>pkg/claim/success_store.go\<close>): the latest completed Job of a task
  per phase, kept in git-rest beside the claims under
  \<^verbatim>\<open>claims/success/<taskid>/<phase>/<unix seconds>\<close>.
\<close>

section \<open>Keys\<close>

definition SuccessRecordPrefix :: string where "SuccessRecordPrefix = ''claims/success/''"
definition SuccessRecordCluster :: string where "SuccessRecordCluster = ''success-record''"

definition parseSuccessRef :: "string \<Rightarrow> (string \<times> string \<times> go_time) option" where
  "parseSuccessRef ref =
     (case split_on (CHR ''/'') (trim_prefix ref ''refs/'') of
        [p0, p1, p2, p3, p4] \<Rightarrow>
          if p0 \<noteq> ''claims'' \<or> p1 \<noteq> ''success'' then None
          else (case atoi p4 of
                  None \<Rightarrow> None
                | Some unix \<Rightarrow> if unix < 1 then None else Some (p2, p3, unix_time unix))
      | _ \<Rightarrow> None)"

definition successRefExpired :: "(string \<Rightarrow> go_time option) \<Rightarrow> go_time \<Rightarrow> ClaimRef \<Rightarrow> bool" where
  "successRefExpired parseDateTime now ref =
     (if ref_LeaseUntil ref = '''' then False
      else (case parseDateTime (ref_LeaseUntil ref) of
              None \<Rightarrow> False
            | Some leaseUntil \<Rightarrow> \<not> now < leaseUntil))"

definition successKey :: "string \<Rightarrow> string \<Rightarrow> go_time \<Rightarrow> string" where
  "successKey taskID component completedAt =
     SuccessRecordPrefix @ taskID @ ''/'' @ component @ ''/'' @ itoa (time_unix completedAt)"

section \<open>Operations\<close>

text \<open>The guard of the pruning loop: a parsed record of the task, not the kept one, strictly older.\<close>

definition superseded :: "string \<Rightarrow> string \<Rightarrow> go_time \<Rightarrow> ClaimRef \<Rightarrow> bool" where
  "superseded taskID keep keepAt ref =
     (case parseSuccessRef (ref_Ref ref) of
        None \<Rightarrow> False
      | Some (refTaskID, _, refAt) \<Rightarrow>
          refTaskID = taskID \<and> trim_prefix (ref_Ref ref) ''refs/'' \<noteq> keep \<and> refAt < keepAt)"

definition keepOnly :: "'w ClaimRefClient \<Rightarrow> string \<Rightarrow> string \<Rightarrow> ('w, unit) state" where
  "keepOnly refClient taskID keep =
     (case parseSuccessRef keep of
        None \<Rightarrow> State_Monad.return ()
      | Some (_, _, keepAt) \<Rightarrow>
          do { listed \<leftarrow> redriveListForTask refClient SuccessRecordPrefix taskID;
               case listed of
                 Inl _ \<Rightarrow> State_Monad.return ()
               | Inr rs \<Rightarrow> for_each rs (\<lambda>ref. if superseded taskID keep keepAt ref
                              then redriveDeleteRef refClient ref else State_Monad.return ()) })"

definition successRecord ::
  "'w ClaimRefClient \<Rightarrow> duration \<Rightarrow> string \<Rightarrow> string \<Rightarrow> go_time \<Rightarrow> ('w, claim_error option) state" where
  "successRecord refClient retention taskID phase completedAt =
     (let component = RedriveStreakPhaseComponent phase in
      case validateClaimComponent ''task id'' taskID of
        Some e \<Rightarrow> State_Monad.return (Some e)
      | None \<Rightarrow>
      (case validateClaimComponent ''phase'' component of
        Some e \<Rightarrow> State_Monad.return (Some e)
      | None \<Rightarrow>
          do { put \<leftarrow> rc_Put refClient (successKey taskID component completedAt) ''''
                        SuccessRecordCluster taskID (completedAt + retention);
               case put of
                 Inr _ \<Rightarrow> do { keepOnly refClient taskID (successKey taskID component completedAt);
                               State_Monad.return None }
               | Inl err \<Rightarrow>
                   if err \<noteq> ErrLeaseConflict then State_Monad.return (Some err)
                   else do { keepOnly refClient taskID (successKey taskID component completedAt);
                             State_Monad.return None } }))"

text \<open>One turn of the search for the latest live record.\<close>

definition laterSuccess ::
  "(string \<Rightarrow> go_time option) \<Rightarrow> go_time \<Rightarrow> string \<Rightarrow> string \<Rightarrow> go_time option \<Rightarrow> ClaimRef \<Rightarrow> go_time option" where
  "laterSuccess parseDateTime now taskID component latest ref =
     (case parseSuccessRef (ref_Ref ref) of
        None \<Rightarrow> latest
      | Some (refTaskID, refPhase, at) \<Rightarrow>
          if refTaskID \<noteq> taskID \<or> refPhase \<noteq> component then latest
          else if successRefExpired parseDateTime now ref then latest
          else (case latest of None \<Rightarrow> Some at | Some l \<Rightarrow> if at > l then Some at else latest))"

definition successLookup ::
  "'w ClaimRefClient \<Rightarrow> ('w, go_time) state \<Rightarrow> (string \<Rightarrow> go_time option) \<Rightarrow>
   string \<Rightarrow> string \<Rightarrow> ('w, go_time option result) state" where
  "successLookup refClient currentDateTime parseDateTime taskID phase =
     (let component = RedriveStreakPhaseComponent phase in
      case validateClaimComponent ''task id'' taskID of
        Some e \<Rightarrow> State_Monad.return (Inl e)
      | None \<Rightarrow>
      (case validateClaimComponent ''phase'' component of
        Some e \<Rightarrow> State_Monad.return (Inl e)
      | None \<Rightarrow>
          do { listed \<leftarrow> redriveListForTask refClient SuccessRecordPrefix taskID;
               case listed of
                 Inl e \<Rightarrow> State_Monad.return (Inl e)
               | Inr rs \<Rightarrow>
                   do { now \<leftarrow> currentDateTime;
                        State_Monad.return (Inr
                          (foldl (laterSuccess parseDateTime now taskID component) None rs)) } }))"

definition putLater ::
  "(string, (string, go_time) gomap) gomap \<Rightarrow> string \<Rightarrow> string \<Rightarrow> go_time \<Rightarrow> (string, (string, go_time) gomap) gomap" where
  "putLater records taskID phase at =
     (let phases = (case map_of records taskID of None \<Rightarrow> [] | Some m \<Rightarrow> m) in
      AList.update taskID
        (case map_of phases phase of
           None \<Rightarrow> AList.update phase at phases
         | Some prev \<Rightarrow> if at > prev then AList.update phase at phases else phases) records)"

definition successSnapshot ::
  "'w ClaimRefClient \<Rightarrow> ('w, go_time) state \<Rightarrow> (string \<Rightarrow> go_time option) \<Rightarrow>
   ('w, (string, (string, go_time) gomap) gomap result) state" where
  "successSnapshot refClient currentDateTime parseDateTime =
     do { listed \<leftarrow> rc_List refClient SuccessRecordPrefix;
          case listed of
            Inl e \<Rightarrow> State_Monad.return (Inl e)
          | Inr rs \<Rightarrow>
              do { now \<leftarrow> currentDateTime;
                   State_Monad.return (Inr (foldl (\<lambda>records ref.
                     case parseSuccessRef (ref_Ref ref) of
                       None \<Rightarrow> records
                     | Some (taskID, phase, at) \<Rightarrow>
                         if successRefExpired parseDateTime now ref then records
                         else putLater records taskID phase at) [] rs)) } }"

section \<open>Keys parse back\<close>

lemma parseSuccessRef_key:
  assumes "valid_component t" "valid_component c" "1 \<le> time_unix at"
  shows "parseSuccessRef (''refs/'' @ successKey t c at) = Some (t, c, unix_time (time_unix at))"
    and "parseSuccessRef (successKey t c at) = Some (t, c, unix_time (time_unix at))"
proof -
  have key: "successKey t c at = join_with ''/'' [''claims'', ''success'', t, c, itoa (time_unix at)]"
    by (simp add: successKey_def SuccessRecordPrefix_def)
  have sp: "split_on (CHR ''/'') (successKey t c at) = [''claims'', ''success'', t, c, itoa (time_unix at)]"
    unfolding key using assms(1,2) valid_component_no_slash itoa_no_slash by (intro split_on_join) auto
  have "(time_unix at + 0) \<le> max_int64"
    unfolding time_unix_def wrap64_def
    using pos_mod_bound [of "2 ^ 64 :: int" "at div second - unix_epoch + 2 ^ 63"] by simp
  then have "atoi (itoa (time_unix at)) = Some (time_unix at)" using assms(3) by (intro atoi_itoa) auto
  with sp assms(3) show "parseSuccessRef (''refs/'' @ successKey t c at) = Some (t, c, unix_time (time_unix at))"
    by (simp add: parseSuccessRef_def)
  have "trim_prefix (successKey t c at) ''refs/'' = successKey t c at"
    by (simp add: trim_prefix_def successKey_def SuccessRecordPrefix_def)
  with \<open>atoi _ = _\<close> sp assms(3) show "parseSuccessRef (successKey t c at) = Some (t, c, unix_time (time_unix at))"
    by (simp add: parseSuccessRef_def)
qed

lemma successKey_matches: "valid_component t \<Longrightarrow> matchesPrefix (''refs/'' @ successKey t c at) (SuccessRecordPrefix @ t)"
  using matches_task_prefix [of t SuccessRecordPrefix "c @ ''/'' @ itoa (time_unix at)"] by (simp add: successKey_def)

section \<open>Recording keeps the newest completion\<close>

context ref_store
begin

lemma keepOnly_content:
  assumes "good w" "reliable_deletes client" "reliable_lists client"
    and "parseSuccessRef keep = Some (a, b, keepAt)"
    and "run_state (keepOnly client t keep) w = (u, w')"
  shows "good w' \<and> content w' = drop_refs (content w)
    (\<lambda>x. matchesPrefix (ref_Ref x) (SuccessRecordPrefix @ t) \<and> superseded t keep keepAt x)"
proof -
  obtain xs v where l: "run_state (rc_List client (SuccessRecordPrefix @ t)) w = (Inr xs, v)"
    using assms(3) unfolding reliable_lists_def by blast
  have "run_state (for_each xs (\<lambda>x. if superseded t keep keepAt x then redriveDeleteRef client x
      else State_Monad.return ())) v = (u, w')"
    using assms(4,5) l by (simp add: keepOnly_def redriveListForTask_def)
  from list_loop [OF assms(1,2) l this] show ?thesis .
qed

lemma successRecord_content:
  assumes good: "good w" and rel: "reliable_deletes client" "reliable_lists client"
    and run: "run_state (successRecord client ret t ph at) w = (None, w')"
    and pos: "1 \<le> time_unix at"
  defines "c \<equiv> RedriveStreakPhaseComponent ph"
  shows "valid_component t \<and> valid_component c \<and> good w' \<and>
    (\<exists>x. content w' = (drop_refs (content w) (\<lambda>y. matchesPrefix (ref_Ref y) (SuccessRecordPrefix @ t) \<and>
            superseded t (successKey t c at) (unix_time (time_unix at)) y))
            (''refs/'' @ successKey t c at \<mapsto> x) \<and>
         ref_Ref x = ''refs/'' @ successKey t c at \<and>
         (content w (''refs/'' @ successKey t c at) = Some x \<or>
          content w (''refs/'' @ successKey t c at) = None \<and> ref_LeaseUntil x = formatLeaseUntil (at + ret)))"
proof -
  have v: "valid_component t" "valid_component c"
    using run by (auto simp: successRecord_def Let_def c_def validate_iff validate_Some_iff split: option.splits)
  define k where "k = successKey t c at"
  define D where "D = (\<lambda>y. matchesPrefix (ref_Ref y) (SuccessRecordPrefix @ t) \<and>
            superseded t k (unix_time (time_unix at)) y)"
  obtain res w1 where p: "run_state (rc_Put client k '''' SuccessRecordCluster t (at + ret)) w = (res, w1)"
    by (rule prod.exhaust)
  have ko: "run_state (keepOnly client t k) w1 = ((), w')" and res: "res = Inl ErrLeaseConflict \<or> (\<exists>sha. res = Inr sha)"
    using run v p by (auto simp: successRecord_def Let_def c_def k_def validate_iff [THEN iffD2]
        split: sum.splits if_splits prod.splits)
  have pk: "parseSuccessRef k = Some (t, c, unix_time (time_unix at))"
    unfolding k_def by (rule parseSuccessRef_key(2) [OF v pos])
  obtain x where x: "good w1" "content w1 = (content w)(''refs/'' @ k \<mapsto> x)" "ref_Ref x = ''refs/'' @ k"
    "content w (''refs/'' @ k) = Some x \<or>
      content w (''refs/'' @ k) = None \<and> ref_LeaseUntil x = formatLeaseUntil (at + ret)"
  proof (cases res)
    case (Inl e)
    with res have "res = Inl ErrLeaseConflict" by auto
    with put_conflict [OF good] p obtain x where "good w1" "content w1 = content w" "content w (''refs/'' @ k) = Some x"
      by blast
    with that [of x] content_ref [OF good] show ?thesis by (simp add: fun_upd_idem)
  next
    case (Inr sha)
    with put_ok [OF good] p have "good w1" "content w (''refs/'' @ k) = None"
      "content w1 = (content w)(''refs/'' @ k \<mapsto> \<lparr>ref_Ref = ''refs/'' @ k, ref_Sha = sha,
         ref_Cluster = SuccessRecordCluster, ref_TaskID = t, ref_LeaseUntil = formatLeaseUntil (at + ret)\<rparr>)" by blast+
    with that show ?thesis by simp
  qed
  have w': "good w'" "content w' = drop_refs (content w1) D"
    using keepOnly_content [OF x(1) rel pk ko] by (auto simp: D_def)
  have "\<not> D x" using x(3) by (simp add: D_def superseded_def split: option.split)
  then have "content w' = (drop_refs (content w) D)(''refs/'' @ k \<mapsto> x)"
    unfolding w'(2) x(2) by (auto simp: drop_refs_def fun_eq_iff)
  with v w'(1) x(3,4) show ?thesis unfolding k_def [symmetric] D_def by blast
qed

end

section \<open>Looking up the newest completion\<close>

text \<open>The completion instants of the live records of a task at a phase component.\<close>

definition success_times ::
  "(string \<Rightarrow> go_time option) \<Rightarrow> go_time \<Rightarrow> string \<Rightarrow> string \<Rightarrow> (string \<rightharpoonup> ClaimRef) \<Rightarrow> go_time set" where
  "success_times P now t c m =
     {at. \<exists>r x. m r = Some x \<and> matchesPrefix r (SuccessRecordPrefix @ t) \<and>
                parseSuccessRef r = Some (t, c, at) \<and> \<not> successRefExpired P now x}"

text \<open>The refs that record a success of a task, at any phase and of any age.\<close>

definition records_of :: "(string \<rightharpoonup> ClaimRef) \<Rightarrow> string \<Rightarrow> string set" where
  "records_of m t = {r. m r \<noteq> None \<and> matchesPrefix r (SuccessRecordPrefix @ t) \<and>
                        (\<exists>c b. parseSuccessRef r = Some (t, c, b))}"

definition latest :: "go_time set \<Rightarrow> go_time option" where
  "latest S = (if S = {} then None else Some (Max S))"

definition record_time ::
  "(string \<Rightarrow> go_time option) \<Rightarrow> go_time \<Rightarrow> string \<Rightarrow> string \<Rightarrow> ClaimRef \<Rightarrow> go_time option" where
  "record_time P now t c x =
     (case parseSuccessRef (ref_Ref x) of None \<Rightarrow> None
      | Some (t', c', at) \<Rightarrow> if t' = t \<and> c' = c \<and> \<not> successRefExpired P now x then Some at else None)"

definition listed_times ::
  "(string \<Rightarrow> go_time option) \<Rightarrow> go_time \<Rightarrow> string \<Rightarrow> string \<Rightarrow> ClaimRef list \<Rightarrow> go_time set" where
  "listed_times P now t c xs = (\<Union>x \<in> set xs. set_option (record_time P now t c x))"

lemma record_time_Some:
  "record_time P now t c x = Some at \<longleftrightarrow>
     parseSuccessRef (ref_Ref x) = Some (t, c, at) \<and> \<not> successRefExpired P now x"
  by (auto simp: record_time_def split: option.splits if_splits)

lemma laterSuccess_record:
  "laterSuccess P now t c l x =
     (case record_time P now t c x of None \<Rightarrow> l
      | Some at \<Rightarrow> (case l of None \<Rightarrow> Some at | Some b \<Rightarrow> Some (max b at)))"
  by (auto simp: laterSuccess_def record_time_def max_def split: option.split)

lemma finite_listed_times: "finite (listed_times P now t c xs)"
  by (simp add: listed_times_def)

lemma later_Some:
  "foldl (laterSuccess P now t c) (Some l) xs = Some (Max (insert l (listed_times P now t c xs)))"
proof (induction xs arbitrary: l)
  case Nil
  then show ?case by (simp add: listed_times_def)
next
  case (Cons x xs)
  let ?S = "listed_times P now t c xs"
  have "Max (insert (max l a) ?S) = Max (insert l (insert a ?S))" for a
    using finite_listed_times [of P now t c xs] by (cases "?S = {}") (simp_all add: max.assoc)
  with Cons show ?case
    by (cases "record_time P now t c x") (simp_all add: laterSuccess_record [of P now t c "Some l" x] listed_times_def)
qed

lemma later_None: "foldl (laterSuccess P now t c) None xs = latest (listed_times P now t c xs)"
proof (induction xs)
  case Nil
  then show ?case by (simp add: listed_times_def latest_def)
next
  case (Cons x xs)
  then show ?case
    by (cases "record_time P now t c x")
      (simp_all add: laterSuccess_record [of P now t c None x] later_Some listed_times_def latest_def)
qed

context ref_store
begin

lemma successLookup_ok:
  assumes "good w" "\<And>u. run_state clock u = (now, u)"
    and "run_state (successLookup client clock P t ph) w = (Inr r, w')"
  shows "good w' \<and> content w' = content w \<and> valid_component t \<and>
    finite (success_times P now t (RedriveStreakPhaseComponent ph) (content w)) \<and>
    r = latest (success_times P now t (RedriveStreakPhaseComponent ph) (content w))"
proof -
  let ?c = "RedriveStreakPhaseComponent ph"
  obtain xs where l: "run_state (rc_List client (SuccessRecordPrefix @ t)) w = (Inr xs, w')" and
    v: "valid_component t" and r: "r = foldl (laterSuccess P now t ?c) None xs"
    using assms(2,3)
    by (auto simp: successLookup_def Let_def redriveListForTask_def validate_iff validate_Some_iff
        split: option.splits prod.splits sum.splits)
  have mem: "x \<in> set xs \<longleftrightarrow> content w (ref_Ref x) = Some x \<and> matchesPrefix (ref_Ref x) (SuccessRecordPrefix @ t)" for x
    using list_result [OF assms(1) l] by blast
  have "at \<in> listed_times P now t ?c xs \<longleftrightarrow> at \<in> success_times P now t ?c (content w)" for at
  proof
    assume "at \<in> listed_times P now t ?c xs"
    then obtain x where "x \<in> set xs" "record_time P now t ?c x = Some at" by (auto simp: listed_times_def)
    then show "at \<in> success_times P now t ?c (content w)"
      unfolding success_times_def record_time_Some mem by blast
  next
    assume "at \<in> success_times P now t ?c (content w)"
    then obtain r x where x: "content w r = Some x" "matchesPrefix r (SuccessRecordPrefix @ t)"
      "parseSuccessRef r = Some (t, ?c, at)" "\<not> successRefExpired P now x" by (auto simp: success_times_def)
    with content_ref [OF assms(1) x(1)] have "x \<in> set xs" "record_time P now t ?c x = Some at"
      by (simp_all add: mem record_time_Some)
    then show "at \<in> listed_times P now t ?c xs" by (force simp: listed_times_def)
  qed
  then have "listed_times P now t ?c xs = success_times P now t ?c (content w)" by blast
  with r finite_listed_times [of P now t ?c xs] v list_frame [OF assms(1) l] show ?thesis
    by (simp add: later_None)
qed

lemma record_newest_only:
  assumes good: "good w" and rel: "reliable_deletes client" "reliable_lists client"
    and run: "run_state (successRecord client ret t ph at) w = (None, w')" and pos: "1 \<le> time_unix at"
  defines "k \<equiv> ''refs/'' @ successKey t (RedriveStreakPhaseComponent ph) at"
  assumes newest: "\<And>r c b. r \<in> records_of (content w) t \<Longrightarrow> r \<noteq> k \<Longrightarrow> parseSuccessRef r = Some (t, c, b) \<Longrightarrow>
      b < unix_time (time_unix at)"
  shows "records_of (content w') t = {k} \<and> (\<forall>r. r \<notin> records_of (content w) t \<longrightarrow> r \<noteq> k \<longrightarrow> content w' r = content w r)"
proof -
  let ?c = "RedriveStreakPhaseComponent ph" and ?at = "unix_time (time_unix at)"
  let ?D = "\<lambda>y. matchesPrefix (ref_Ref y) (SuccessRecordPrefix @ t) \<and> superseded t (successKey t ?c at) ?at y"
  obtain x where v: "valid_component t" "valid_component ?c" and
    cw: "content w' = (drop_refs (content w) ?D) (k \<mapsto> x)"
    using successRecord_content [OF good rel run pos] unfolding k_def by auto
  have key: "parseSuccessRef k = Some (t, ?c, ?at)" "matchesPrefix k (SuccessRecordPrefix @ t)"
    using parseSuccessRef_key(1) [OF v pos] successKey_matches [OF v(1)] by (simp_all add: k_def)
  have gone: "content w' r = None" if "r \<in> records_of (content w) t" "r \<noteq> k" for r
  proof -
    from that(1) obtain y c b where r: "content w r = Some y" "matchesPrefix r (SuccessRecordPrefix @ t)"
      "parseSuccessRef r = Some (t, c, b)" by (auto simp: records_of_def)
    have "ref_Ref y = r" by (rule content_ref [OF good r(1)])
    moreover obtain q where "r = ''refs/'' @ q" using matchesPrefix_refs [OF r(2)] by blast
    ultimately have "?D y" using r newest [OF that r(3)] that(2) by (simp add: superseded_def k_def)
    with r(1) that(2) show ?thesis by (simp add: cw drop_refs_def)
  qed
  have kept: "content w' r = content w r" if "r \<notin> records_of (content w) t" "r \<noteq> k" for r
  proof (cases "content w r")
    case (Some y)
    then have "\<not> ?D y"
      using that(1) content_ref [OF good Some] by (auto simp: records_of_def superseded_def split: option.splits)
    with Some that(2) show ?thesis by (simp add: cw drop_refs_def)
  qed (use that(2) in \<open>simp add: cw drop_refs_def\<close>)
  have "r \<in> records_of (content w') t \<longleftrightarrow> r = k" for r
  proof (cases "r = k")
    case True
    then show ?thesis using key by (simp add: records_of_def cw)
  next
    case False
    show ?thesis
    proof (cases "r \<in> records_of (content w) t")
      case True
      with gone False show ?thesis by (simp add: records_of_def)
    next
      case rec: False
      with kept [OF rec False] False show ?thesis by (simp add: records_of_def)
    qed
  qed
  with kept show ?thesis by blast
qed

lemma success_times_of_one:
  assumes "records_of m t = {k}" "m k = Some x" "parseSuccessRef k = Some (t, c, b)" "\<not> successRefExpired P now x"
  shows "success_times P now t c' m = (if c' = c then {b} else {})"
proof -
  have k: "matchesPrefix k (SuccessRecordPrefix @ t)" using assms(1) by (auto simp: records_of_def)
  have "a \<in> success_times P now t c' m \<longleftrightarrow> c' = c \<and> a = b" for a
  proof
    assume "a \<in> success_times P now t c' m"
    then obtain r y where r: "m r = Some y" "matchesPrefix r (SuccessRecordPrefix @ t)"
      "parseSuccessRef r = Some (t, c', a)" unfolding success_times_def by blast
    then have "r \<in> records_of m t" unfolding records_of_def by simp
    with assms(1,3) r(3) show "c' = c \<and> a = b" by simp
  next
    assume "c' = c \<and> a = b"
    with assms(2-4) k show "a \<in> success_times P now t c' m" unfolding success_times_def by blast
  qed
  then show ?thesis by (cases "c' = c") auto
qed

end

end
