(* ===== verification/Claim_Scheme.thy ===== *)
theory Claim_Scheme
  imports Redrive_Store
begin

text \<open>
  The claim-key scheme declaration (\<^verbatim>\<open>pkg/claim/scheme.go\<close>): the fleet declares one key scheme in
  git-rest, the first executor to find none declares its own, and an executor whose scheme differs
  from the declared one refuses to claim.
\<close>

definition ClaimKeySchemeVersion :: string where "ClaimKeySchemeVersion = ''v2''"
definition ClaimSchemeRef :: string where "ClaimSchemeRef = ''claims/scheme''"
definition claimSchemeLease :: duration where "claimSchemeLease = 10 * 365 * 24 * hour"

text \<open>The outcomes the guard counts, one label per check.\<close>

datatype scheme_outcome = Bootstrapped | Confirmed | Mismatch | Unreadable

fun firstDeclaration :: "ClaimRef list \<Rightarrow> string option" where
  "firstDeclaration [] = None"
| "firstDeclaration (ref # rs) =
     (if trim_prefix (ref_Ref ref) ''refs/'' \<noteq> ClaimSchemeRef then firstDeclaration rs
      else Some (ref_TaskID ref))"

definition schemeRead :: "'w ClaimRefClient \<Rightarrow> ('w, string option result) state" where
  "schemeRead refClient =
     do { listed \<leftarrow> rc_List refClient ClaimSchemeRef;
          State_Monad.return
            (case listed of Inl e \<Rightarrow> Inl e | Inr rs \<Rightarrow> Inr (firstDeclaration rs)) }"

text \<open>
  A check answers whether the claim is admitted (\<open>None\<close>) or refused, together with the outcome it
  counts. The scheme this binary derives is an argument, so that executors of different versions
  can be run against one store; the code passes \<open>ClaimKeySchemeVersion\<close>.
\<close>

definition schemeConfirm :: "('w, claim_error option \<times> scheme_outcome) state" where
  "schemeConfirm = State_Monad.return (None, Confirmed)"

definition schemeRefuse :: "('w, claim_error option \<times> scheme_outcome) state" where
  "schemeRefuse = State_Monad.return (Some ErrSchemeMismatch, Mismatch)"

definition schemeAdmitUnreadable :: "('w, claim_error option \<times> scheme_outcome) state" where
  "schemeAdmitUnreadable = State_Monad.return (None, Unreadable)"

definition schemeBootstrap ::
  "'w ClaimRefClient \<Rightarrow> ('w, go_time) state \<Rightarrow> string \<Rightarrow> string \<Rightarrow>
   ('w, claim_error option \<times> scheme_outcome) state" where
  "schemeBootstrap refClient currentDateTime cluster mine =
     do { now \<leftarrow> currentDateTime;
          put \<leftarrow> rc_Put refClient ClaimSchemeRef '''' cluster mine (now + claimSchemeLease);
          case put of
            Inr _ \<Rightarrow> State_Monad.return (None, Bootstrapped)
          | Inl e \<Rightarrow>
              if e \<noteq> ErrLeaseConflict then schemeAdmitUnreadable
              else do { declared \<leftarrow> schemeRead refClient;
                        case declared of
                          Inl _ \<Rightarrow> schemeAdmitUnreadable
                        | Inr d \<Rightarrow>
                            (case d of
                               None \<Rightarrow> schemeAdmitUnreadable
                             | Some v \<Rightarrow> if v \<noteq> mine then schemeRefuse else schemeConfirm) } }"

definition schemeCheck ::
  "'w ClaimRefClient \<Rightarrow> ('w, go_time) state \<Rightarrow> string \<Rightarrow> string \<Rightarrow>
   ('w, claim_error option \<times> scheme_outcome) state" where
  "schemeCheck refClient currentDateTime cluster mine =
     do { declared \<leftarrow> schemeRead refClient;
          case declared of
            Inl _ \<Rightarrow> schemeAdmitUnreadable
          | Inr d \<Rightarrow>
              (case d of
                 None \<Rightarrow> schemeBootstrap refClient currentDateTime cluster mine
               | Some v \<Rightarrow> if v \<noteq> mine then schemeRefuse else schemeConfirm) }"

section \<open>The declared scheme\<close>

definition declared :: "(string \<rightharpoonup> ClaimRef) \<Rightarrow> string option" where
  "declared m = map_option ref_TaskID (m (''refs/'' @ ClaimSchemeRef))"

lemma firstDeclaration_None:
  "firstDeclaration rs = None \<longleftrightarrow> (\<forall>x \<in> set rs. trim_prefix (ref_Ref x) ''refs/'' \<noteq> ClaimSchemeRef)"
  by (induction rs) auto

lemma firstDeclaration_Some:
  "firstDeclaration rs = Some v \<Longrightarrow>
   \<exists>x \<in> set rs. trim_prefix (ref_Ref x) ''refs/'' = ClaimSchemeRef \<and> ref_TaskID x = v"
  by (induction rs) (auto split: if_splits)

lemma trim_scheme: "matchesPrefix r ClaimSchemeRef \<Longrightarrow> trim_prefix r ''refs/'' = ClaimSchemeRef \<longleftrightarrow> r = ''refs/'' @ ClaimSchemeRef"
  using matchesPrefix_refs [of r ClaimSchemeRef] by auto

lemma scheme_matches: "matchesPrefix (''refs/'' @ ClaimSchemeRef) ClaimSchemeRef"
  by (simp add: matchesPrefix_def ClaimSchemeRef_def has_suffix_def)

section \<open>A store shared with other writers\<close>

text \<open>
  What the guard relies on when executors of several clusters use the store at once. Before each call
  takes effect the other writers may have changed the refs in any way that keeps a scheme declaration
  once it is there: nothing holds, renews or reaps that ref. A list answers the refs under the prefix
  at that moment, a create succeeds only where nothing is stored, and a create refused by a conflict
  finds the ref taken and changes nothing.
\<close>

definition scheme_kept :: "(string \<rightharpoonup> ClaimRef) \<Rightarrow> (string \<rightharpoonup> ClaimRef) \<Rightarrow> bool" where
  "scheme_kept m m' \<longleftrightarrow> (\<forall>v. declared m = Some v \<longrightarrow> declared m' = Some v)"

lemma scheme_kept_refl [simp]: "scheme_kept m m"
  by (simp add: scheme_kept_def)

lemma scheme_kept_trans [trans]: "scheme_kept m m' \<Longrightarrow> scheme_kept m' m'' \<Longrightarrow> scheme_kept m m''"
  by (simp add: scheme_kept_def)

lemma scheme_kept_upd: "m r = None \<Longrightarrow> scheme_kept m (m(r \<mapsto> x))"
  by (auto simp: scheme_kept_def declared_def)

text \<open>A read that found the scheme \<open>v\<close> is judged the same way before and after a lost create.\<close>

definition judged :: "string \<Rightarrow> string \<Rightarrow> claim_error option \<Rightarrow> scheme_outcome \<Rightarrow> bool" where
  "judged mine v e out \<longleftrightarrow>
     e = (if v = mine then None else Some ErrSchemeMismatch) \<and> (out = Mismatch \<longleftrightarrow> v \<noteq> mine)"

locale shared_ref_store =
  fixes client :: "'w ClaimRefClient"
    and content :: "'w \<Rightarrow> (string \<rightharpoonup> ClaimRef)"
    and good :: "'w \<Rightarrow> bool"
  assumes shared_ref: "good w \<Longrightarrow> content w r = Some x \<Longrightarrow> ref_Ref x = r"
    and shared_list: "good w \<Longrightarrow> run_state (rc_List client p) w = (res, w') \<Longrightarrow>
      good w' \<and> scheme_kept (content w) (content w')"
    and shared_list_result: "good w \<Longrightarrow> run_state (rc_List client p) w = (Inr xs, w') \<Longrightarrow>
      x \<in> set xs \<longleftrightarrow> content w' (ref_Ref x) = Some x \<and> matchesPrefix (ref_Ref x) p"
    and shared_put_ok: "good w \<Longrightarrow> run_state (rc_Put client k '''' cl ti lu) w = (Inr sha, w') \<Longrightarrow>
      good w' \<and> (\<exists>m. scheme_kept (content w) m \<and> m (''refs/'' @ k) = None \<and>
        content w' = m(''refs/'' @ k \<mapsto>
          \<lparr>ref_Ref = ''refs/'' @ k, ref_Sha = sha, ref_Cluster = cl, ref_TaskID = ti,
           ref_LeaseUntil = formatLeaseUntil lu\<rparr>))"
    and shared_put_conflict: "good w \<Longrightarrow>
      run_state (rc_Put client k '''' cl ti lu) w = (Inl ErrLeaseConflict, w') \<Longrightarrow>
      good w' \<and> scheme_kept (content w) (content w') \<and> content w' (''refs/'' @ k) \<noteq> None"
begin

lemma schemeRead_ok:
  assumes "good w" "run_state (schemeRead client) w = (res, w')"
  shows "good w' \<and> scheme_kept (content w) (content w') \<and>
    (case res of Inl _ \<Rightarrow> True | Inr d \<Rightarrow> d = declared (content w'))"
proof -
  obtain l where l: "run_state (rc_List client ClaimSchemeRef) w = (l, w')" and
    res: "res = (case l of Inl e \<Rightarrow> Inl e | Inr rs \<Rightarrow> Inr (firstDeclaration rs))"
    using assms(2) by (auto simp: schemeRead_def split: prod.splits)
  have frame: "good w' \<and> scheme_kept (content w) (content w')" using shared_list [OF assms(1) l] .
  show ?thesis
  proof (cases l)
    case (Inl e)
    with frame res show ?thesis by simp
  next
    case (Inr rs)
    let ?k = "''refs/'' @ ClaimSchemeRef"
    have rs: "x \<in> set rs \<longleftrightarrow> content w' (ref_Ref x) = Some x \<and> matchesPrefix (ref_Ref x) ClaimSchemeRef" for x
      using shared_list_result [OF assms(1)] l Inr by blast
    have "firstDeclaration rs = declared (content w')"
    proof (cases "content w' ?k")
      case None
      then have "\<forall>x \<in> set rs. trim_prefix (ref_Ref x) ''refs/'' \<noteq> ClaimSchemeRef"
        using rs trim_scheme by (metis option.distinct(1))
      with None show ?thesis by (simp add: declared_def firstDeclaration_None [THEN iffD2])
    next
      case (Some y)
      have "ref_Ref y = ?k" using shared_ref Some frame by blast
      then have y: "y \<in> set rs" "ref_Ref y = ?k" using Some rs scheme_matches by auto
      then have "firstDeclaration rs \<noteq> None" by (auto simp: firstDeclaration_None intro!: bexI [of _ y])
      then obtain v where v: "firstDeclaration rs = Some v" by auto
      from firstDeclaration_Some [OF v] obtain x where
        "x \<in> set rs" "trim_prefix (ref_Ref x) ''refs/'' = ClaimSchemeRef" "ref_TaskID x = v" by auto
      with rs trim_scheme Some have "x = y" by (metis option.inject)
      with v Some \<open>ref_TaskID x = v\<close> show ?thesis by (simp add: declared_def)
    qed
    with frame Inr res show ?thesis by simp
  qed
qed

lemma schemeBootstrap_cases:
  assumes "good w" "\<And>u. run_state clock u = (now, u)"
    and "run_state (schemeBootstrap client clock cl mine) w = ((e, out), w')" "out \<noteq> Unreadable"
  shows "good w' \<and> scheme_kept (content w) (content w') \<and>
    (\<exists>v. declared (content w') = Some v \<and> judged mine v e out)"
proof -
  obtain p w1 where p: "run_state (rc_Put client ClaimSchemeRef '''' cl mine (now + claimSchemeLease)) w = (p, w1)"
    by (rule prod.exhaust)
  show ?thesis
  proof (cases p)
    case (Inr sha)
    then have "out = Bootstrapped" "e = None" "w' = w1"
      using assms(2,3) p by (auto simp: schemeBootstrap_def)
    moreover obtain m where m: "good w1" "scheme_kept (content w) m" "m (''refs/'' @ ClaimSchemeRef) = None"
      "content w1 = m(''refs/'' @ ClaimSchemeRef \<mapsto> \<lparr>ref_Ref = ''refs/'' @ ClaimSchemeRef, ref_Sha = sha,
         ref_Cluster = cl, ref_TaskID = mine, ref_LeaseUntil = formatLeaseUntil (now + claimSchemeLease)\<rparr>)"
      using shared_put_ok [OF assms(1)] p Inr by blast
    moreover have "scheme_kept (content w) (content w1)"
      unfolding m(4) by (rule scheme_kept_trans [OF m(2) scheme_kept_upd [of m, OF m(3)]])
    moreover have "declared (content w1) = Some mine"
      unfolding m(4) by (simp add: declared_def)
    ultimately show ?thesis unfolding judged_def by auto
  next
    case (Inl err)
    then have "err = ErrLeaseConflict"
      using assms(2-4) p by (auto simp: schemeBootstrap_def schemeAdmitUnreadable_def split: if_splits)
    with shared_put_conflict [OF assms(1)] p Inl have w1: "good w1" "scheme_kept (content w) (content w1)" by auto
    obtain r w2 where r: "run_state (schemeRead client) w1 = (r, w2)" by (rule prod.exhaust)
    from schemeRead_ok [OF w1(1) r] w1(2) have w2: "good w2" "scheme_kept (content w) (content w2)"
      "case r of Inl _ \<Rightarrow> True | Inr d \<Rightarrow> d = declared (content w2)" by (auto intro: scheme_kept_trans)
    have run: "run_state (case r of Inl _ \<Rightarrow> schemeAdmitUnreadable
        | Inr d \<Rightarrow> (case d of None \<Rightarrow> schemeAdmitUnreadable
           | Some v \<Rightarrow> if v \<noteq> mine then schemeRefuse else schemeConfirm)) w2 = ((e, out), w')"
      using assms(2,3) p Inl \<open>err = _\<close> r by (simp add: schemeBootstrap_def)
    then obtain v where v: "r = Inr (Some v)"
      using assms(4) by (auto simp: schemeAdmitUnreadable_def split: sum.splits option.splits)
    with run have "w' = w2" "judged mine v e out"
      by (auto simp: schemeRefuse_def schemeConfirm_def judged_def split: if_splits)
    moreover have "declared (content w2) = Some v" using v w2(3) by simp
    ultimately show ?thesis using w2(1,2) by blast
  qed
qed

lemma schemeCheck_cases:
  assumes "good w" "\<And>u. run_state clock u = (now, u)"
    and "run_state (schemeCheck client clock cl mine) w = ((e, out), w')" "out \<noteq> Unreadable"
  shows "good w' \<and> scheme_kept (content w) (content w') \<and>
    (\<exists>v. declared (content w') = Some v \<and> judged mine v e out)"
proof -
  obtain r w1 where r: "run_state (schemeRead client) w = (r, w1)" by (rule prod.exhaust)
  have w1: "good w1" "scheme_kept (content w) (content w1)"
    "case r of Inl _ \<Rightarrow> True | Inr d \<Rightarrow> d = declared (content w1)"
    using schemeRead_ok [OF assms(1) r] by auto
  obtain d where rd: "r = Inr d" "d = declared (content w1)"
    using assms(3,4) r w1(3) by (cases r) (auto simp: schemeCheck_def schemeAdmitUnreadable_def)
  show ?thesis
  proof (cases d)
    case (Some v)
    with assms(3) r rd(1) have "w' = w1" "judged mine v e out"
      by (auto simp: schemeCheck_def schemeRefuse_def schemeConfirm_def judged_def split: if_splits)
    with Some w1 rd show ?thesis by auto
  next
    case None
    then have "run_state (schemeBootstrap client clock cl mine) w1 = ((e, out), w')"
      using assms(3) r rd by (simp add: schemeCheck_def)
    from schemeBootstrap_cases [OF w1(1) assms(2) this assms(4)] w1(2) show ?thesis
      by (auto intro: scheme_kept_trans)
  qed
qed

end

text \<open>A store without other writers is one whose other writers do nothing.\<close>

sublocale ref_store \<subseteq> shared: shared_ref_store client content good
proof (unfold_locales, goal_cases)
  case (1 w r x)
  then show ?case by (rule content_ref)
next
  case (2 w p res w')
  then show ?case using list_frame by simp
next
  case (3 w p xs w' x)
  then show ?case using list_result [OF 3] list_frame [OF 3] by simp
next
  case (4 w k cl ti lu sha w')
  then show ?case using put_ok [OF 4] by (intro conjI exI [of _ "content w"]) auto
next
  case (5 w k cl ti lu w')
  then show ?case using put_conflict [OF 5] by simp
qed

section \<open>The in-process server under contention\<close>

text \<open>
  The in-process git-rest with other executors at work: before each call of this executor a batch of
  foreign writes reaches the server, one batch per call in the order of the script. A foreign writer
  may create, replace and delete any ref except that it only creates the scheme declaration.
\<close>

datatype foreign_write =
    ForeignPut string string string string go_time
  | ForeignDelete string string

record contested_store =
  co_store :: fakeGitRest
  co_script :: "foreign_write list list"

fun foreign_step :: "foreign_write \<Rightarrow> fakeGitRest \<Rightarrow> fakeGitRest" where
  "foreign_step (ForeignPut key sha cluster taskID until) f =
     snd (run_state (rc_Put fakeClient key sha cluster taskID until) f)"
| "foreign_step (ForeignDelete key sha) f = snd (run_state (rc_Delete fakeClient key sha) f)"

fun foreign_fair :: "foreign_write \<Rightarrow> bool" where
  "foreign_fair (ForeignPut key sha cluster taskID until) \<longleftrightarrow> (key = ClaimSchemeRef \<longrightarrow> sha = '''')"
| "foreign_fair (ForeignDelete key sha) \<longleftrightarrow> key \<noteq> ClaimSchemeRef"

definition contend :: "(fakeGitRest, 'a) state \<Rightarrow> (contested_store, 'a) state" where
  "contend act =
     State (\<lambda>w. let s = fold foreign_step (case co_script w of [] \<Rightarrow> [] | b # _ \<Rightarrow> b) (co_store w)
                in case run_state act s of (r, s') \<Rightarrow> (r, \<lparr>co_store = s', co_script = tl (co_script w)\<rparr>))"

definition contestedClient :: "contested_store ClaimRefClient" where
  "contestedClient =
     \<lparr>rc_List = (\<lambda>prefix. contend (rc_List fakeClient prefix)),
      rc_Put = (\<lambda>key sha cluster taskID until. contend (rc_Put fakeClient key sha cluster taskID until)),
      rc_Delete = (\<lambda>key sha. contend (rc_Delete fakeClient key sha))\<rparr>"

definition contested_content :: "contested_store \<Rightarrow> (string \<rightharpoonup> ClaimRef)" where
  "contested_content w = fake_content (co_store w)"

definition contested_good :: "contested_store \<Rightarrow> bool" where
  "contested_good w \<longleftrightarrow> fake_good (co_store w) \<and> list_all (list_all foreign_fair) (co_script w)"

lemma fake_declared: "declared (fake_content f) = map_option fr_TaskID (map_of (refs f) (''refs/'' @ ClaimSchemeRef))"
  unfolding declared_def fake_content_def option.map_comp by (simp add: comp_def claimRef_of_def)

lemma foreign_put_keeps:
  assumes "key = ClaimSchemeRef \<longrightarrow> sha = ''''" "fake_good f" "fake_put key sha cl ti lu f = (res, f')"
  shows "fake_good f' \<and> scheme_kept (fake_content f) (fake_content f')"
proof (cases "f' = f")
  case False
  then obtain x where f': "refs f' = AList.update (''refs/'' @ key) x (refs f)"
    and free: "sha = '''' \<longrightarrow> map_of (refs f) (''refs/'' @ key) = None"
    using assms(3) by (auto simp: fake_put_def Let_def split: if_splits)
  have "map_of (refs f') (''refs/'' @ ClaimSchemeRef) = map_of (refs f) (''refs/'' @ ClaimSchemeRef)
      \<or> map_of (refs f) (''refs/'' @ ClaimSchemeRef) = None"
    using assms(1) free unfolding f' by (cases "key = ClaimSchemeRef") (auto simp: update_conv)
  moreover have "fake_good f'" using assms(2) unfolding fake_good_def f' by simp
  ultimately show ?thesis by (auto simp only: scheme_kept_def fake_declared)
qed (use assms(2) in simp)

lemma foreign_delete_keeps:
  assumes "key \<noteq> ClaimSchemeRef" "fake_good f" "fake_delete key sha f = (res, f')"
  shows "fake_good f' \<and> scheme_kept (fake_content f) (fake_content f')"
proof (cases "f' = f")
  case False
  then have f': "refs f' = AList.delete (''refs/'' @ key) (refs f)"
    using assms(3) by (auto simp: fake_delete_def Let_def split: if_splits option.splits)
  have "map_of (refs f') (''refs/'' @ ClaimSchemeRef) = map_of (refs f) (''refs/'' @ ClaimSchemeRef)"
    using assms(1) unfolding f' by (simp add: delete_conv)
  moreover have "fake_good f'" using assms(2) unfolding fake_good_def f' by simp
  ultimately show ?thesis by (auto simp only: scheme_kept_def fake_declared)
qed (use assms(2) in simp)

lemma foreign_step_keeps:
  assumes "foreign_fair a" "fake_good f"
  shows "fake_good (foreign_step a f) \<and> scheme_kept (fake_content f) (fake_content (foreign_step a f))"
proof (cases a)
  case (ForeignPut key sha cl ti lu)
  obtain res f' where put: "fake_put key sha cl ti (formatLeaseUntil lu) f = (res, f')" by (rule prod.exhaust)
  then have "foreign_step a f = f'" using ForeignPut by (cases res) (simp_all add: fakeClient_def)
  with foreign_put_keeps [OF _ assms(2) put] assms(1) ForeignPut show ?thesis by simp
next
  case (ForeignDelete key sha)
  obtain res f' where del: "fake_delete key sha f = (res, f')" by (rule prod.exhaust)
  then have "foreign_step a f = f'" using ForeignDelete by (simp add: fakeClient_def)
  with foreign_delete_keeps [OF _ assms(2) del] assms(1) ForeignDelete show ?thesis by simp
qed

lemma foreign_steps_keep:
  "list_all foreign_fair as \<Longrightarrow> fake_good f \<Longrightarrow>
   fake_good (fold foreign_step as f) \<and> scheme_kept (fake_content f) (fake_content (fold foreign_step as f))"
proof (induction as arbitrary: f)
  case (Cons a as)
  then have "fake_good (foreign_step a f)" "scheme_kept (fake_content f) (fake_content (foreign_step a f))"
    using foreign_step_keeps by auto
  with Cons show ?case by (auto intro: scheme_kept_trans)
qed simp

lemma contend_run:
  assumes "contested_good w" "run_state (contend act) w = (r, w')"
  obtains s where "fake_good s" "scheme_kept (contested_content w) (fake_content s)"
    "run_state act s = (r, co_store w')" "list_all (list_all foreign_fair) (co_script w')"
proof -
  let ?as = "case co_script w of [] \<Rightarrow> [] | b # _ \<Rightarrow> b"
  have "list_all foreign_fair ?as" "list_all (list_all foreign_fair) (tl (co_script w))"
    using assms(1) by (cases "co_script w"; simp add: contested_good_def)+
  with foreign_steps_keep [of ?as "co_store w"] assms show ?thesis
    by (intro that [of "fold foreign_step ?as (co_store w)"])
      (auto simp: contend_def contested_good_def contested_content_def Let_def split: prod.splits)
qed

interpretation contested: shared_ref_store contestedClient contested_content contested_good
proof (unfold_locales, goal_cases)
  case (1 w r x)
  then show ?case using fake.content_ref by (auto simp: contested_good_def contested_content_def)
next
  case (2 w p res w')
  then obtain s where s: "fake_good s" "scheme_kept (contested_content w) (fake_content s)"
    "run_state (rc_List fakeClient p) s = (res, co_store w')" "list_all (list_all foreign_fair) (co_script w')"
    by (auto simp: contestedClient_def elim: contend_run)
  with fake.list_frame [OF s(1,3)] show ?case by (simp add: contested_good_def contested_content_def)
next
  case (3 w p xs w' x)
  then obtain s where s: "fake_good s" "run_state (rc_List fakeClient p) s = (Inr xs, co_store w')"
    by (auto simp: contestedClient_def elim: contend_run)
  with fake.list_frame [OF s] fake.list_result [OF s] show ?case by (simp add: contested_content_def)
next
  case (4 w k cl ti lu sha w')
  then obtain s where s: "fake_good s" "scheme_kept (contested_content w) (fake_content s)"
    "run_state (rc_Put fakeClient k '''' cl ti lu) s = (Inr sha, co_store w')"
    "list_all (list_all foreign_fair) (co_script w')"
    by (auto simp: contestedClient_def elim: contend_run)
  with fake.put_ok [OF s(1,3)] show ?case by (auto simp: contested_good_def contested_content_def)
next
  case (5 w k cl ti lu w')
  then obtain s where s: "fake_good s" "scheme_kept (contested_content w) (fake_content s)"
    "run_state (rc_Put fakeClient k '''' cl ti lu) s = (Inl ErrLeaseConflict, co_store w')"
    "list_all (list_all foreign_fair) (co_script w')"
    by (auto simp: contestedClient_def elim: contend_run)
  with fake.put_conflict [OF s(1,3)] show ?case by (simp add: contested_good_def contested_content_def)
qed

end
