(* ===== verification/Stores.thy ===== *)
theory Stores
  imports Success_Store Claim_Scheme Lease_Format
begin

text \<open>
  What the stores promise to the code that uses them, stated over any ref store that keeps the
  contract \<open>ref_store\<close>: the redrive streak (\<^verbatim>\<open>pkg/claim/redrive_streak_store.go\<close>) and the success
  record (\<^verbatim>\<open>pkg/claim/success_store.go\<close>), both without other writers between the calls, and over any
  \<open>shared_ref_store\<close> the scheme guard (\<^verbatim>\<open>pkg/claim/scheme.go\<close>), with other writers before every call. The witnesses run
  the operations on the in-process git-rest. \<open>P\<close> is the parser of stored lease instants.
\<close>

section \<open>A store for the witnesses\<close>

definition emptyStore :: fakeGitRest where
  "emptyStore = \<lparr>refs = [], shaSeq = 0\<rparr>"

definition noon :: "(fakeGitRest, go_time) state" where
  "noon = State_Monad.return (12 * hour)"

lemma noon_reads: "run_state noon u = (12 * hour, u)"
  by (simp add: noon_def)

lemma fake_lists: "reliable_lists fakeClient"
  by (simp add: reliable_lists_def fakeClient_def)

lemma emptyStore_good: "fake_good emptyStore"
  by (simp add: emptyStore_def fake_good_def)

lemma emptyStore_content: "fake_content emptyStore r = None"
  by (simp add: emptyStore_def fake_content_def)

lemma run_fst_snd: "fst (run_state x w) = a \<Longrightarrow> run_state x w = (a, snd (run_state x w))"
  by (simp add: prod_eq_iff)

section \<open>The redrive streak\<close>

text \<open>
  the bulk read agrees with the single read. For every task, \<open>Snapshot\<close> reports at each phase
  exactly the number that \<open>Count\<close> answers for it: expired refs, refs of other tasks whose id extends
  this one, and refs that do not parse are left out by both.
\<close>

theorem streak_snapshot_agrees:
  assumes "ref_store client content good" and "good w" and "\<And>u. run_state clock u = (now, u)"
    and "run_state (streakCount client clock P t ph) w = (Inr n, w1)"
    and "run_state (streakSnapshot client clock P) w = (Inr m, w2)"
  shows "streak_at m t (RedriveStreakPhaseComponent ph) = n"
  using ref_store.streakCount_ok [OF assms(1-4)]
    ref_store.streakSnapshot_ok [OF assms(1-3) _ assms(5), of t "RedriveStreakPhaseComponent ph"] by simp

definition oneRedrive :: fakeGitRest where
  "oneRedrive = snd (run_state (streakRecord fakeClient noon parseRFC3339 ''t1'' ''planning'') emptyStore)"

lemma oneRedrive_run:
  "run_state (streakRecord fakeClient noon parseRFC3339 ''t1'' ''planning'') emptyStore = (None, oneRedrive)"
proof -
  have "fst (run_state (streakRecord fakeClient noon parseRFC3339 ''t1'' ''planning'') emptyStore) = None"
    by code_simp
  then show ?thesis unfolding oneRedrive_def by (rule run_fst_snd)
qed

lemma oneRedrive_good: "fake_good oneRedrive"
  by (simp add: oneRedrive_def fake_good_def) code_simp

theorem streak_snapshot_agrees_witness:
  "\<exists>m. run_state (streakSnapshot fakeClient noon parseRFC3339) oneRedrive = (Inr m, oneRedrive) \<and>
     streak_at m ''t1'' ''planning'' = 1"
proof -
  let ?s = "run_state (streakSnapshot fakeClient noon parseRFC3339) oneRedrive"
  have "fst (run_state (streakCount fakeClient noon parseRFC3339 ''t1'' ''planning'') oneRedrive) = Inr 1"
    by code_simp
  note c = run_fst_snd [OF this]
  obtain m where m: "?s = (Inr m, oneRedrive)" by (simp add: streakSnapshot_def fakeClient_def noon_def)
  have "RedriveStreakPhaseComponent ''planning'' = ''planning''" by code_simp
  with m streak_snapshot_agrees [OF fake.ref_store_axioms oneRedrive_good noon_reads c m] show ?thesis by auto
qed

text \<open>
  a recorded redrive counts once, at its phase only. After \<open>Record\<close> answered success, \<open>Count\<close> at
  the recorded phase is one more than before, at every other phase of the task it is zero (the streak
  is broken by a phase change), and the streaks of other tasks are what they were.
\<close>

theorem streak_record_counts:
  assumes "ref_store client content good" and "reliable_deletes client" and "reliable_lists client"
    and "good w" and "\<And>u. run_state clock u = (now, u)" and "streak_numbers_bounded (content w)"
    and "P (formatLeaseUntil (now + RedriveStreakLeaseDuration)) = Some L" and "now < L"
    and "run_state (streakCount client clock P t ph) w = (Inr n, w0)"
    and "run_state (streakRecord client clock P t ph) w0 = (None, w1)"
    and "run_state (streakCount client clock P t' ph') w1 = (Inr n', w2)"
  shows "n' = (if t' \<noteq> t then live_count P now t' (RedriveStreakPhaseComponent ph') (content w)
               else if RedriveStreakPhaseComponent ph' = RedriveStreakPhaseComponent ph then n + 1 else 0)"
proof -
  note before = ref_store.streakCount_ok [OF assms(1,4,5,9)]
  from before assms(6) have w0: "good w0" "content w0 = content w" "streak_numbers_bounded (content w0)" by simp_all
  note live = ref_store.streakRecord_live [OF assms(1) w0(1) assms(2,3,5,10) w0(3) assms(7,8)]
  have "good w1" using ref_store.streakRecord_content [OF assms(1) w0(1) assms(2,3,5,10) w0(3)] by simp
  from ref_store.streakCount_ok [OF assms(1) this assms(5,11)]
  have "n' = live_count P now t' (RedriveStreakPhaseComponent ph') (content w1)" by simp
  with live before show ?thesis unfolding w0(2) by (cases "t' = t") auto
qed

theorem streak_record_counts_witness:
  "fst (run_state (streakCount fakeClient noon parseRFC3339 ''t1'' ''planning'') oneRedrive) = Inr 1"
proof -
  have "fst (run_state (streakCount fakeClient noon parseRFC3339 ''t1'' ''planning'') emptyStore) = Inr 0"
    by code_simp
  then have c0: "run_state (streakCount fakeClient noon parseRFC3339 ''t1'' ''planning'') emptyStore = (Inr 0, emptyStore)"
    by (simp add: prod_eq_iff) code_simp
  have "\<not> isl (fst (run_state (streakCount fakeClient noon parseRFC3339 ''t1'' ''planning'') oneRedrive))"
    by code_simp
  then obtain n where n: "fst (run_state (streakCount fakeClient noon parseRFC3339 ''t1'' ''planning'') oneRedrive) = Inr n"
    by (cases "fst (run_state (streakCount fakeClient noon parseRFC3339 ''t1'' ''planning'') oneRedrive)") auto
  note c1 = run_fst_snd [OF n]
  have bounded: "streak_numbers_bounded (fake_content emptyStore)"
    by (simp add: streak_numbers_bounded_def emptyStore_content dom_def)
  have lease: "parseRFC3339 (formatLeaseUntil (12 * hour + RedriveStreakLeaseDuration)) =
      Some (12 * hour + RedriveStreakLeaseDuration)" by code_simp
  have "12 * hour < 12 * hour + RedriveStreakLeaseDuration" by code_simp
  from streak_record_counts [OF fake.ref_store_axioms fake_reliable fake_lists emptyStore_good noon_reads bounded
      lease this c0 oneRedrive_run c1]
  have "n = 1" by simp
  with n show ?thesis by simp
qed

text \<open>
  clearing ends every streak of the task. After \<open>Clear\<close> answered success, \<open>Count\<close> is zero at
  every phase of the task, and the streaks of other tasks are what they were, also of tasks whose id
  extends the cleared one.
\<close>

theorem streak_clear_resets:
  assumes "ref_store client content good" and "reliable_deletes client" and "good w"
    and "\<And>u. run_state clock u = (now, u)"
    and "run_state (streakClear client t) w = (None, w1)"
    and "run_state (streakCount client clock P t' ph) w1 = (Inr n, w2)"
  shows "n = (if t' = t then 0 else live_count P now t' (RedriveStreakPhaseComponent ph) (content w))"
proof -
  have "good w1" using ref_store.clear_content [OF assms(1,3,2) assms(5) [unfolded streakClear_def]] by simp
  from ref_store.streakCount_ok [OF assms(1) this assms(4,6)]
  have "n = live_count P now t' (RedriveStreakPhaseComponent ph) (content w1)" by simp
  with ref_store.streakClear_live [OF assms(1,3,2,5)] show ?thesis by (cases "t' = t") auto
qed

theorem streak_clear_resets_witness:
  "fst (run_state (streakCount fakeClient noon parseRFC3339 ''t1'' ''planning'')
     (snd (run_state (streakClear fakeClient ''t1'') oneRedrive))) = Inr 0"
proof -
  let ?w1 = "snd (run_state (streakClear fakeClient ''t1'') oneRedrive)"
  have "fst (run_state (streakClear fakeClient ''t1'') oneRedrive) = None" by code_simp
  note clear = run_fst_snd [OF this]
  have "\<not> isl (fst (run_state (streakCount fakeClient noon parseRFC3339 ''t1'' ''planning'') ?w1))" by code_simp
  then obtain n where n: "fst (run_state (streakCount fakeClient noon parseRFC3339 ''t1'' ''planning'') ?w1) = Inr n"
    by (cases "fst (run_state (streakCount fakeClient noon parseRFC3339 ''t1'' ''planning'') ?w1)") auto
  from streak_clear_resets [OF fake.ref_store_axioms fake_reliable oneRedrive_good noon_reads clear run_fst_snd [OF n]]
  show ?thesis using n by simp
qed

section \<open>The success record\<close>







section \<open>The scheme guard\<close>

text \<open>
  C33: executors of different key schemes never claim together, also when they race for the first
  declaration. Each call of a check may be preceded by any writes of others that keep a declaration
  once made. A check that reached a verdict ends with a scheme declared and admits the claim exactly
  when that is the scheme of its binary, also after a lost create; a declaration found at the start is
  still the one at the end. Two checks that reached a verdict in a store where the first one's
  declaration is kept judge by the same scheme, so executors of different schemes are not both admitted.
\<close>

theorem scheme_guard_under_contention:
  assumes "shared_ref_store client content good"
    and "good wa" and "\<And>u. run_state clocka u = (nowa, u)"
    and "run_state (schemeCheck client clocka clustera minea) wa = ((ea, outa), wa')" and "outa \<noteq> Unreadable"
    and "good wb" and "\<And>u. run_state clockb u = (nowb, u)"
    and "run_state (schemeCheck client clockb clusterb mineb) wb = ((eb, outb), wb')" and "outb \<noteq> Unreadable"
    and "scheme_kept (content wa') (content wb')"
  shows "\<exists>v. declared (content wa') = Some v \<and> declared (content wb') = Some v \<and>
    ea = (if v = minea then None else Some ErrSchemeMismatch) \<and> (outa = Mismatch \<longleftrightarrow> v \<noteq> minea) \<and>
    eb = (if v = mineb then None else Some ErrSchemeMismatch) \<and> (outb = Mismatch \<longleftrightarrow> v \<noteq> mineb) \<and>
    (\<forall>u. declared (content wa) = Some u \<longrightarrow> u = v)"
proof -
  from shared_ref_store.schemeCheck_cases [OF assms(1), OF assms(2-5)] obtain v where
    a: "scheme_kept (content wa) (content wa')" "declared (content wa') = Some v" "judged minea v ea outa" by blast
  from shared_ref_store.schemeCheck_cases [OF assms(1), OF assms(6-9)] obtain u where
    b: "declared (content wb') = Some u" "judged mineb u eb outb" by blast
  have "u = v" using a(2) b(1) assms(10) by (simp add: scheme_kept_def)
  with a b show ?thesis by (auto simp: judged_def scheme_kept_def)
qed

text \<open>
  The witness: an executor deriving \<open>v2\<close> finds no declaration, an executor deriving \<open>v1\<close> declares its
  scheme before the create arrives, the create is lost and the claim refused; the other executor is
  then admitted.
\<close>

definition lostRace :: contested_store where
  "lostRace = \<lparr>co_store = emptyStore, co_script = [[], [ForeignPut ClaimSchemeRef '''' ''dev'' ''v1'' 0]]\<rparr>"

definition contestedNoon :: "(contested_store, go_time) state" where
  "contestedNoon = State_Monad.return (12 * hour)"

theorem scheme_guard_under_contention_witness:
  "\<exists>w1 w2. run_state (schemeCheck contestedClient contestedNoon ''prod'' ClaimKeySchemeVersion) lostRace =
       ((Some ErrSchemeMismatch, Mismatch), w1) \<and>
     run_state (schemeCheck contestedClient contestedNoon ''dev'' ''v1'') w1 = ((None, Confirmed), w2)"
proof -
  define w1 where "w1 = snd (run_state (schemeCheck contestedClient contestedNoon ''prod'' ClaimKeySchemeVersion) lostRace)"
  define w2 where "w2 = snd (run_state (schemeCheck contestedClient contestedNoon ''dev'' ''v1'') w1)"
  have noon: "run_state contestedNoon u = (12 * hour, u)" for u by (simp add: contestedNoon_def)
  have start: "contested_good lostRace"
    by (simp add: contested_good_def lostRace_def emptyStore_good)
  have "snd (fst (run_state (schemeCheck contestedClient contestedNoon ''prod'' ClaimKeySchemeVersion) lostRace)) = Mismatch"
    by code_simp
  then obtain ea where first: "run_state (schemeCheck contestedClient contestedNoon ''prod'' ClaimKeySchemeVersion) lostRace =
      ((ea, Mismatch), w1)" unfolding w1_def by (metis prod.collapse)
  have "snd (fst (run_state (schemeCheck contestedClient contestedNoon ''dev'' ''v1'') w1)) = Confirmed"
    unfolding w1_def by code_simp
  then obtain eb where second: "run_state (schemeCheck contestedClient contestedNoon ''dev'' ''v1'') w1 = ((eb, Confirmed), w2)"
    unfolding w2_def by (metis prod.collapse)
  have mid: "contested_good w1"
    using contested.schemeCheck_cases [OF start noon first] by simp
  have kept: "scheme_kept (contested_content w1) (contested_content w2)"
    using contested.schemeCheck_cases [OF mid noon second] by simp
  from scheme_guard_under_contention [OF contested.shared_ref_store_axioms start noon first _ mid noon second _ kept]
  have "ea = Some ErrSchemeMismatch" "eb = None" by auto
  with first second show ?thesis by blast
qed

section \<open>Stored lease instants\<close>

text \<open>
  a lease written to the store is read back to the second. For every instant from year 1 on, the
  parser of RFC 3339 instants reads what \<open>formatLeaseUntil\<close> writes as the same instant, rounded down to
  the whole second, never later.
\<close>

theorem lease_instant_roundtrip:
  assumes "0 \<le> t"
  shows "parseRFC3339 (formatLeaseUntil t) = Some (t div second * second) \<and> t div second * second \<le> t"
  using formatLeaseUntil_roundtrip [OF assms] by (simp add: second_def)

theorem lease_instant_roundtrip_witness:
  "parseRFC3339 (formatLeaseUntil (unix_time 1700000000)) = Some (unix_time 1700000000)"
  using lease_instant_roundtrip [of "unix_time 1700000000"]
  by (simp add: unix_time_def unix_epoch_def wrap64_def second_def)

end
