(* ===== verification/Go_Error.thy ===== *)
theory Go_Error
  imports Claim_Key
begin

text \<open>
  Errors as the dispatcher sees them. Go wraps an error by a value that unwraps to it, and
  \<^verbatim>\<open>errors.Is\<close>, \<^verbatim>\<open>errors.As\<close> and the predicates of the Kubernetes error package look along that chain.
  The chain is a datatype: the roots are the sentinels the code tests, the Kubernetes status errors by
  their reason, and plain errors; the wrappers are the three error structs of the handler
  (\<^verbatim>\<open>job_lookup_denied.go\<close>, \<^verbatim>\<open>task_event_handler.go\<close>, \<^verbatim>\<open>task_event_handler_trigger_refusal.go\<close>) and
  \<^verbatim>\<open>errors.Wrapf\<close>.
\<close>

datatype go_error =
    PlainError string
  | ApiStatus string
  | ClaimFailure claim_error
  | ErrConfigNotFound
  | ErrConfigAmbiguous
  | ErrTaskContentTooLarge
  | ContextDone
  | ValidationError string
  | Wrapped string go_error
  | jobLookupDeniedError go_error string string
  | spawnJobError go_error
  | triggerRefusalWriteError go_error

fun unwrap :: "go_error \<Rightarrow> go_error option" where
  "unwrap (Wrapped _ e) = Some e"
| "unwrap (jobLookupDeniedError e _ _) = Some e"
| "unwrap (spawnJobError e) = Some e"
| "unwrap (triggerRefusalWriteError e) = Some e"
| "unwrap _ = None"

text \<open>The error followed by everything it unwraps to.\<close>

fun chain :: "go_error \<Rightarrow> go_error list" where
  "chain (Wrapped m e) = Wrapped m e # chain e"
| "chain (jobLookupDeniedError e a n) = jobLookupDeniedError e a n # chain e"
| "chain (spawnJobError e) = spawnJobError e # chain e"
| "chain (triggerRefusalWriteError e) = triggerRefusalWriteError e # chain e"
| "chain e = [e]"

lemma chain_unwrap: "chain e = e # (case unwrap e of None \<Rightarrow> [] | Some e' \<Rightarrow> chain e')"
  by (cases e) auto

definition errors_Is :: "go_error \<Rightarrow> go_error \<Rightarrow> bool" where
  "errors_Is err target \<longleftrightarrow> target \<in> set (chain err)"

text \<open>The reason of the first Kubernetes status error along the chain.\<close>

fun api_reason_in :: "go_error list \<Rightarrow> string" where
  "api_reason_in [] = ''''"
| "api_reason_in (e # es) = (case e of ApiStatus r \<Rightarrow> r | _ \<Rightarrow> api_reason_in es)"

definition api_reason :: "go_error \<Rightarrow> string" where
  "api_reason err = api_reason_in (chain err)"

text \<open>The first of each of the handler's own error structs along the chain (\<^verbatim>\<open>errors.As\<close>).\<close>

fun as_denied_in :: "go_error list \<Rightarrow> (go_error \<times> string \<times> string) option" where
  "as_denied_in [] = None"
| "as_denied_in (e # es) =
     (case e of jobLookupDeniedError x a n \<Rightarrow> Some (x, a, n) | _ \<Rightarrow> as_denied_in es)"

definition as_denied :: "go_error \<Rightarrow> (go_error \<times> string \<times> string) option" where
  "as_denied err = as_denied_in (chain err)"

definition is_spawn_error :: "go_error \<Rightarrow> bool" where
  "is_spawn_error err \<longleftrightarrow> list_ex (\<lambda>e. case e of spawnJobError _ \<Rightarrow> True | _ \<Rightarrow> False) (chain err)"

definition is_refusal_write_error :: "go_error \<Rightarrow> bool" where
  "is_refusal_write_error err \<longleftrightarrow>
     list_ex (\<lambda>e. case e of triggerRefusalWriteError _ \<Rightarrow> True | _ \<Rightarrow> False) (chain err)"

section \<open>What the handler asks of an error\<close>

definition isJobLookupDenied :: "go_error \<Rightarrow> bool" where
  "isJobLookupDenied err \<longleftrightarrow> api_reason err = ''Unauthorized'' \<or> api_reason err = ''Forbidden''"

definition wrapJobLookupError :: "go_error \<Rightarrow> string \<Rightarrow> string \<Rightarrow> string \<Rightarrow> go_error" where
  "wrapJobLookupError err assignee namespace msg =
     (if \<not> isJobLookupDenied err then Wrapped msg err
      else Wrapped msg (jobLookupDeniedError err assignee namespace))"

definition isPermanentSpawnError :: "go_error option \<Rightarrow> bool" where
  "isPermanentSpawnError err =
     (case err of
        None \<Rightarrow> False
      | Some e \<Rightarrow>
          errors_Is e ErrTaskContentTooLarge \<or> api_reason e = ''Invalid'' \<or> api_reason e = ''BadRequest'')"

lemma errors_Is_Wrapped [simp]:
  "target \<noteq> Wrapped m e \<Longrightarrow> errors_Is (Wrapped m e) target = errors_Is e target"
  by (auto simp: errors_Is_def)

lemma errors_Is_refl [simp]: "errors_Is e e"
  by (subst errors_Is_def) (subst chain_unwrap, simp)

lemma api_reason_simps [simp]:
  "api_reason (Wrapped m e) = api_reason e"
  "api_reason (jobLookupDeniedError e a n) = api_reason e"
  "api_reason (spawnJobError e) = api_reason e"
  "api_reason (triggerRefusalWriteError e) = api_reason e"
  "api_reason (ApiStatus r) = r"
  by (simp_all add: api_reason_def)

lemma as_denied_simps [simp]:
  "as_denied (Wrapped m e) = as_denied e"
  "as_denied (jobLookupDeniedError e a n) = Some (e, a, n)"
  by (simp_all add: as_denied_def)

text \<open>A lookup error is seen as denied exactly when the cluster refused the executor's credentials.\<close>

lemma as_denied_wrap:
  "as_denied err = None \<Longrightarrow>
     as_denied (wrapJobLookupError err a n m) = (if isJobLookupDenied err then Some (err, a, n) else None)"
  by (simp add: wrapJobLookupError_def)

end
