(* ===== verification/Agent_Config.thy ===== *)
theory Agent_Config
  imports Go_Error
begin

text \<open>
  Agent configurations: the \<^verbatim>\<open>Config\<close> resource with its validation
  (\<^verbatim>\<open>k8s/apis/agent.benjamin-borbe.de/v1\<close>), the resolved \<^verbatim>\<open>AgentConfiguration\<close>, the resolver that
  routes an assignee or a task type to one of them (\<^verbatim>\<open>pkg/config_resolver.go\<close>), and the small
  policies of \<^verbatim>\<open>pkg\<close> that read them (task types, job namespace, claim mode).

  A slice that may be nil is an option over a list, because \<^verbatim>\<open>reflect.DeepEqual\<close> tells the two
  apart; \<open>elems\<close> is what a \<^verbatim>\<open>range\<close> loop sees. A Kubernetes toleration has the fields of
  \<^verbatim>\<open>corev1.Toleration\<close>; the code only copies it.
\<close>

section \<open>The resource\<close>

type_synonym 'a goslice = "'a list option"

definition elems :: "'a goslice \<Rightarrow> 'a list" where
  "elems s = (case s of None \<Rightarrow> [] | Some xs \<Rightarrow> xs)"

text \<open>\<^verbatim>\<open>append([]T(nil), s...)\<close>: an empty slice becomes nil.\<close>

definition copy_slice :: "'a goslice \<Rightarrow> 'a goslice" where
  "copy_slice s = (if elems s = [] then None else Some (elems s))"

lemma elems_simps [simp]: "elems None = []" "elems (Some xs) = xs" "elems (copy_slice s) = elems s"
  by (auto simp: elems_def copy_slice_def split: option.split)

record toleration =
  tol_Key :: string
  tol_Operator :: string
  tol_Value :: string
  tol_Effect :: string
  tol_TolerationSeconds :: "int option"

type_synonym string_map = "(string, string) gomap option"

record Trigger =
  tr_Phases :: "string goslice"
  tr_Statuses :: "string goslice"

record ConfigMapItem =
  cmi_Key :: string
  cmi_Path :: string

record AgentResourceList =
  arl_CPU :: string
  arl_Memory :: string
  arl_EphemeralStorage :: string

record AgentResources =
  ar_Requests :: AgentResourceList
  ar_Limits :: AgentResourceList

definition AgentTypeJob :: string where "AgentTypeJob = ''job''"
definition AgentTypeService :: string where "AgentTypeService = ''service''"

definition AvailableAgentTypes :: "string list" where
  "AvailableAgentTypes = [AgentTypeJob, AgentTypeService]"

definition IsKnownAgentType :: "string \<Rightarrow> bool" where
  "IsKnownAgentType t = (if t = '''' then True else list_ex (\<lambda>known. t = known) AvailableAgentTypes)"

record ConfigSpec =
  sp_Assignee :: string
  sp_Image :: string
  sp_Heartbeat :: string
  sp_Type :: string
  sp_TaskType :: string
  sp_TaskTypes :: "string goslice"
  sp_DefaultForTaskTypes :: "string goslice"
  sp_Resources :: "AgentResources option"
  sp_Env :: string_map
  sp_SecretName :: string
  sp_VolumeClaim :: string
  sp_VolumeMountPath :: string
  sp_ConfigMapName :: string
  sp_ConfigMapMountPath :: string
  sp_ConfigMapItems :: "ConfigMapItem goslice"
  sp_PriorityClassName :: string
  sp_NodeSelector :: string_map
  sp_Tolerations :: "toleration goslice"
  sp_JobNamespace :: string
  sp_MaxConcurrentJobs :: int
  sp_RerunOnLostClaim :: "bool option"
  sp_Trigger :: "Trigger option"
  sp_ZombieSweeperIntervalSeconds :: "int option"
  sp_ZombieJobTimeoutSeconds :: "int option"

record Config =
  cfg_Namespace :: string
  cfg_Name :: string
  cfg_Spec :: ConfigSpec

text \<open>Two Go maps are deeply equal when both are nil or both hold the same entries.\<close>

definition same_map :: "string_map \<Rightarrow> string_map \<Rightarrow> bool" where
  "same_map m n =
     (case (m, n) of
        (None, None) \<Rightarrow> True
      | (Some a, Some b) \<Rightarrow> list_all (\<lambda>k. map_of a k = map_of b k) (gomap_keys a @ gomap_keys b)
      | _ \<Rightarrow> False)"

definition spec_Equal :: "ConfigSpec \<Rightarrow> ConfigSpec \<Rightarrow> bool" where
  "spec_Equal s t \<longleftrightarrow>
     sp_Assignee s = sp_Assignee t \<and>
     sp_Image s = sp_Image t \<and>
     sp_Heartbeat s = sp_Heartbeat t \<and>
     sp_Type s = sp_Type t \<and>
     sp_TaskType s = sp_TaskType t \<and>
     sp_TaskTypes s = sp_TaskTypes t \<and>
     sp_DefaultForTaskTypes s = sp_DefaultForTaskTypes t \<and>
     sp_SecretName s = sp_SecretName t \<and>
     sp_VolumeClaim s = sp_VolumeClaim t \<and>
     sp_VolumeMountPath s = sp_VolumeMountPath t \<and>
     sp_ConfigMapName s = sp_ConfigMapName t \<and>
     sp_ConfigMapMountPath s = sp_ConfigMapMountPath t \<and>
     sp_ConfigMapItems s = sp_ConfigMapItems t \<and>
     sp_PriorityClassName s = sp_PriorityClassName t \<and>
     same_map (sp_NodeSelector s) (sp_NodeSelector t) \<and>
     sp_Tolerations s = sp_Tolerations t \<and>
     sp_JobNamespace s = sp_JobNamespace t \<and>
     sp_MaxConcurrentJobs s = sp_MaxConcurrentJobs t \<and>
     sp_RerunOnLostClaim s = sp_RerunOnLostClaim t \<and>
     same_map (sp_Env s) (sp_Env t) \<and>
     sp_Resources s = sp_Resources t \<and>
     sp_Trigger s = sp_Trigger t \<and>
     sp_ZombieSweeperIntervalSeconds s = sp_ZombieSweeperIntervalSeconds t \<and>
     sp_ZombieJobTimeoutSeconds s = sp_ZombieJobTimeoutSeconds t"

section \<open>Validation\<close>

definition DefaultZombieSweeperIntervalSeconds :: int where "DefaultZombieSweeperIntervalSeconds = 60"
definition MinZombieSweeperIntervalSeconds :: int where "MinZombieSweeperIntervalSeconds = 10"
definition DefaultZombieJobTimeoutSeconds :: int where "DefaultZombieJobTimeoutSeconds = 1800"
definition MinZombieJobTimeoutSeconds :: int where "MinZombieJobTimeoutSeconds = 30"

text \<open>The enumerations of \<^verbatim>\<open>vault-cli\<close> validate their own values.\<close>

record vault_domain =
  dom_phaseValidate :: "string \<Rightarrow> go_error option"
  dom_statusValidate :: "string \<Rightarrow> go_error option"

fun first_error :: "('a \<Rightarrow> go_error option) \<Rightarrow> 'a list \<Rightarrow> go_error option" where
  "first_error f [] = None"
| "first_error f (x # xs) = (case f x of Some e \<Rightarrow> Some e | None \<Rightarrow> first_error f xs)"

definition validateConfigMapItem :: "ConfigMapItem \<Rightarrow> go_error option" where
  "validateConfigMapItem item =
     (if cmi_Key item = '''' then Some (ValidationError ''configMapItems.key is empty'')
      else if cmi_Path item = '''' \<or> has_prefix (cmi_Path item) ''/'' \<or> contains_str (cmi_Path item) ''..''
      then Some (ValidationError ''configMapItems.path must be relative'')
      else None)"

definition validateConfigMapItems :: "ConfigSpec \<Rightarrow> go_error option" where
  "validateConfigMapItems s =
     (if sp_ConfigMapName s = '''' \<and> length (elems (sp_ConfigMapItems s)) > 0
      then Some (ValidationError ''configMapItems requires ConfigMapName to be set'')
      else first_error validateConfigMapItem (elems (sp_ConfigMapItems s)))"

definition validateTrigger :: "vault_domain \<Rightarrow> Trigger option \<Rightarrow> go_error option" where
  "validateTrigger D trigger =
     (case trigger of
        None \<Rightarrow> None
      | Some t \<Rightarrow>
          (case first_error (\<lambda>p. map_option (Wrapped ''invalid trigger phase'') (dom_phaseValidate D p)) (elems (tr_Phases t)) of
             Some e \<Rightarrow> Some e
           | None \<Rightarrow> first_error (\<lambda>p. map_option (Wrapped ''invalid trigger status'') (dom_statusValidate D p)) (elems (tr_Statuses t))))"

definition validateAgentType :: "string \<Rightarrow> go_error option" where
  "validateAgentType t = (if IsKnownAgentType t then None else Some (ValidationError ''type''))"

text \<open>\<^verbatim>\<open>^[a-z0-9-]+$\<close>\<close>

definition taskTypePattern :: "string \<Rightarrow> bool" where
  "taskTypePattern t \<longleftrightarrow>
     t \<noteq> '''' \<and> list_all (\<lambda>c. (97 \<le> (of_char c :: nat) \<and> of_char c \<le> (122 :: nat)) \<or> is_digit c \<or> c = CHR ''-'') t"

definition validateTaskTypeValue :: "string \<Rightarrow> go_error option" where
  "validateTaskTypeValue t =
     (if t = '''' then None
      else if \<not> taskTypePattern t then Some (ValidationError ''taskType must match'')
      else if length t > 63 then Some (ValidationError ''taskType exceeds maximum length of 63'')
      else None)"

definition validateTaskTypesList :: "string list \<Rightarrow> go_error option" where
  "validateTaskTypesList types =
     first_error (\<lambda>t.
       if \<not> taskTypePattern t then Some (ValidationError ''taskTypes element must match'')
       else if length t > 63 then Some (ValidationError ''taskTypes element exceeds maximum length of 63'')
       else None) types"

definition validateZombieSweeperInterval :: "int option \<Rightarrow> go_error option" where
  "validateZombieSweeperInterval v =
     (case v of None \<Rightarrow> None
      | Some n \<Rightarrow> if n < MinZombieSweeperIntervalSeconds
                  then Some (ValidationError ''zombieSweeperIntervalSeconds invalid'') else None)"

definition validateZombieJobTimeout :: "int option \<Rightarrow> go_error option" where
  "validateZombieJobTimeout v =
     (case v of None \<Rightarrow> None
      | Some n \<Rightarrow> if n < MinZombieJobTimeoutSeconds
                  then Some (ValidationError ''zombieJobTimeoutSeconds invalid'') else None)"

text \<open>The first failing check of a sequence of checks decides.\<close>

fun checks :: "go_error option list \<Rightarrow> go_error option" where
  "checks [] = None"
| "checks (c # cs) = (case c of Some e \<Rightarrow> Some e | None \<Rightarrow> checks cs)"

definition refuse_if :: "bool \<Rightarrow> string \<Rightarrow> go_error option" where
  "refuse_if b msg = (if b then Some (ValidationError msg) else None)"

definition spec_Validate :: "vault_domain \<Rightarrow> ConfigSpec \<Rightarrow> go_error option" where
  "spec_Validate D s = checks
     [refuse_if (sp_Assignee s = '''') ''assignee is empty'',
      refuse_if (sp_Image s = '''') ''image is empty'',
      refuse_if (sp_Heartbeat s = '''') ''heartbeat is empty'',
      refuse_if (sp_VolumeClaim s \<noteq> '''' \<and> sp_VolumeMountPath s = '''') ''VolumeMountPath required when VolumeClaim set'',
      refuse_if (sp_ConfigMapName s \<noteq> '''' \<and> sp_ConfigMapMountPath s = '''') ''ConfigMapMountPath required when ConfigMapName set'',
      validateConfigMapItems s,
      validateTrigger D (sp_Trigger s),
      validateAgentType (sp_Type s),
      refuse_if (sp_Type s \<noteq> AgentTypeService \<and> sp_TaskType s = '''' \<and> elems (sp_TaskTypes s) = [])
        ''at least one of taskType or taskTypes must be set'',
      validateTaskTypeValue (sp_TaskType s),
      validateTaskTypesList (elems (sp_TaskTypes s)),
      validateTaskTypesList (elems (sp_DefaultForTaskTypes s)),
      validateZombieSweeperInterval (sp_ZombieSweeperIntervalSeconds s),
      validateZombieJobTimeout (sp_ZombieJobTimeoutSeconds s)]"

section \<open>After a lost claim\<close>

datatype LostClaimAction = RedispatchAfterLostClaim | ParkAfterLostClaim

definition RerunOnLostClaimEnabled :: "bool option \<Rightarrow> bool" where
  "RerunOnLostClaimEnabled r \<longleftrightarrow> (case r of None \<Rightarrow> False | Some b \<Rightarrow> b)"

definition LostClaimAction_of :: "bool option \<Rightarrow> LostClaimAction" where
  "LostClaimAction_of r = (if RerunOnLostClaimEnabled r then RedispatchAfterLostClaim else ParkAfterLostClaim)"

section \<open>Task types, job namespace and claim mode\<close>

definition EffectiveTaskTypes :: "string \<Rightarrow> string list \<Rightarrow> string list" where
  "EffectiveTaskTypes taskType taskTypes =
     foldl (\<lambda>res t. if t \<in> set res then res else res @ [t])
       (if taskType \<noteq> '''' then [taskType] else []) taskTypes"

definition TaskTypeInSet :: "string \<Rightarrow> string list \<Rightarrow> bool" where
  "TaskTypeInSet taskType effectiveTypes =
     (if taskType = '''' then False else list_ex (\<lambda>t. t = taskType) effectiveTypes)"

definition ResolveJobNamespace :: "string \<Rightarrow> string \<Rightarrow> go_error + string" where
  "ResolveJobNamespace executorNamespace jobNamespace =
     (if jobNamespace = '''' then Inr executorNamespace
      else if jobNamespace = executorNamespace
      then Inl (PlainError ''jobNamespace may not equal the executor namespace'')
      else Inr jobNamespace)"

datatype ClaimMode = ClaimModeOff | ClaimModeShadow | ClaimModeOn | ClaimModeUnparsed

fun TakesClaim :: "ClaimMode \<Rightarrow> bool" where
  "TakesClaim ClaimModeShadow = True"
| "TakesClaim ClaimModeOn = True"
| "TakesClaim _ = False"

definition ParseClaimMode :: "string \<Rightarrow> bool \<Rightarrow> go_error + ClaimMode" where
  "ParseClaimMode value present =
     (if \<not> present then Inr ClaimModeOff
      else if value = ''off'' then Inr ClaimModeOff
      else if value = ''shadow'' then Inr ClaimModeShadow
      else if value = ''on'' then Inr ClaimModeOn
      else Inl (Wrapped ''claim mode invalid, accepted: off|shadow|on'' (PlainError ''claim mode invalid'')))"

lemma set_foldl_add: "set (foldl (\<lambda>res t. if t \<in> set res then res else res @ [t]) acc ts) = set acc \<union> set ts"
  by (induction ts arbitrary: acc) auto

lemma distinct_foldl_add:
  "distinct acc \<Longrightarrow> distinct (foldl (\<lambda>res t. if t \<in> set res then res else res @ [t]) acc ts)"
  by (induction ts arbitrary: acc) auto

lemma set_EffectiveTaskTypes:
  "set (EffectiveTaskTypes t ts) = (if t = '''' then {} else {t}) \<union> set ts"
  by (simp add: EffectiveTaskTypes_def set_foldl_add)

lemma distinct_EffectiveTaskTypes: "distinct (EffectiveTaskTypes t ts)"
  unfolding EffectiveTaskTypes_def by (rule distinct_foldl_add) simp

lemma TaskTypeInSet_iff: "TaskTypeInSet t ts \<longleftrightarrow> t \<noteq> '''' \<and> t \<in> set ts"
  by (auto simp: TaskTypeInSet_def list_ex_iff)

section \<open>Resolved configurations\<close>

text \<open>\<^verbatim>\<open>strings.LastIndex\<close> of one byte: \<open>-1\<close> when it does not occur.\<close>

fun lastIndexFrom :: "char \<Rightarrow> int \<Rightarrow> int \<Rightarrow> string \<Rightarrow> int" where
  "lastIndexFrom c i best [] = best"
| "lastIndexFrom c i best (x # xs) = lastIndexFrom c (i + 1) (if x = c then i else best) xs"

definition lastIndex :: "string \<Rightarrow> char \<Rightarrow> int" where
  "lastIndex s c = lastIndexFrom c 0 (- 1) s"

definition appendBranchTag :: "string \<Rightarrow> string \<Rightarrow> string" where
  "appendBranchTag img branch =
     (if lastIndex img (CHR '':'') > lastIndex img (CHR ''/'') then img
      else img @ '':'' @ branch)"

record AgentConfiguration =
  ac_Assignee :: string
  ac_Type :: string
  ac_TaskType :: string
  ac_TaskTypes :: "string goslice"
  ac_DefaultForTaskTypes :: "string goslice"
  ac_Image :: string
  ac_Env :: string_map
  ac_VolumeClaim :: string
  ac_VolumeMountPath :: string
  ac_ConfigMapName :: string
  ac_ConfigMapMountPath :: string
  ac_ConfigMapItems :: "ConfigMapItem goslice"
  ac_SecretName :: string
  ac_Resources :: "AgentResources option"
  ac_MaxConcurrentJobs :: int
  ac_PriorityClassName :: string
  ac_NodeSelector :: string_map
  ac_Tolerations :: "toleration goslice"
  ac_JobNamespace :: string
  ac_ImagePullSecret :: string
  ac_Trigger :: "Trigger option"
  ac_RerunOnLostClaim :: "bool option"
  ac_ZombieJobTimeoutSeconds :: "int option"

definition ac_LostClaimAction :: "AgentConfiguration \<Rightarrow> LostClaimAction" where
  "ac_LostClaimAction a = LostClaimAction_of (ac_RerunOnLostClaim a)"

definition EffectiveZombieJobTimeoutSeconds :: "AgentConfiguration \<Rightarrow> int" where
  "EffectiveZombieJobTimeoutSeconds a =
     (case ac_ZombieJobTimeoutSeconds a of Some n \<Rightarrow> n | None \<Rightarrow> DefaultZombieJobTimeoutSeconds)"

definition FindByAssignee :: "AgentConfiguration list \<Rightarrow> string \<Rightarrow> AgentConfiguration option" where
  "FindByAssignee a assignee = find (\<lambda>c. ac_Assignee c = assignee) a"

text \<open>\<^verbatim>\<open>TaggedConfigurations\<close> builds fresh values and leaves \<open>Type\<close> and \<open>DefaultForTaskTypes\<close> at zero.\<close>

definition TaggedConfigurations :: "AgentConfiguration list \<Rightarrow> string \<Rightarrow> AgentConfiguration list" where
  "TaggedConfigurations a branch = map (\<lambda>c.
     \<lparr>ac_Assignee = ac_Assignee c, ac_Type = '''', ac_TaskType = ac_TaskType c,
      ac_TaskTypes = copy_slice (ac_TaskTypes c), ac_DefaultForTaskTypes = None,
      ac_Image = appendBranchTag (ac_Image c) branch, ac_Env = ac_Env c,
      ac_VolumeClaim = ac_VolumeClaim c, ac_VolumeMountPath = ac_VolumeMountPath c,
      ac_ConfigMapName = ac_ConfigMapName c, ac_ConfigMapMountPath = ac_ConfigMapMountPath c,
      ac_ConfigMapItems = ac_ConfigMapItems c, ac_SecretName = ac_SecretName c, ac_Resources = ac_Resources c,
      ac_MaxConcurrentJobs = ac_MaxConcurrentJobs c, ac_PriorityClassName = ac_PriorityClassName c,
      ac_NodeSelector = ac_NodeSelector c, ac_Tolerations = ac_Tolerations c, ac_JobNamespace = ac_JobNamespace c,
      ac_ImagePullSecret = ac_ImagePullSecret c, ac_Trigger = ac_Trigger c,
      ac_RerunOnLostClaim = ac_RerunOnLostClaim c, ac_ZombieJobTimeoutSeconds = ac_ZombieJobTimeoutSeconds c\<rparr>) a"

section \<open>The resolver\<close>

text \<open>
  The loops poll the context before every item; \<open>cancelled i\<close> is what the \<open>i\<close>-th poll of a call sees.
\<close>

fun copyEnvFrom ::
  "(nat \<Rightarrow> bool) \<Rightarrow> nat \<Rightarrow> (string, string) gomap \<Rightarrow> (string, string) gomap \<Rightarrow> go_error + (string, string) gomap" where
  "copyEnvFrom cancelled i out [] = Inr out"
| "copyEnvFrom cancelled i out ((k, v) # rest) =
     (if cancelled i then Inl (Wrapped ''copy env cancelled'' ContextDone)
      else copyEnvFrom cancelled (Suc i) (AList.update k v out) rest)"

definition copyEnv :: "(nat \<Rightarrow> bool) \<Rightarrow> nat \<Rightarrow> string_map \<Rightarrow> go_error + (string, string) gomap" where
  "copyEnv cancelled i m = copyEnvFrom cancelled i [] (case m of None \<Rightarrow> [] | Some e \<Rightarrow> e)"

definition convert :: "(nat \<Rightarrow> bool) \<Rightarrow> nat \<Rightarrow> Config \<Rightarrow> string \<Rightarrow> go_error + AgentConfiguration" where
  "convert cancelled i obj branch =
     (let s = cfg_Spec obj in
      case copyEnv cancelled i (sp_Env s) of
        Inl e \<Rightarrow> Inl (Wrapped ''convert config'' e)
      | Inr env \<Rightarrow> Inr
          \<lparr>ac_Assignee = sp_Assignee s, ac_Type = sp_Type s, ac_TaskType = sp_TaskType s,
           ac_TaskTypes = copy_slice (sp_TaskTypes s),
           ac_DefaultForTaskTypes = copy_slice (sp_DefaultForTaskTypes s),
           ac_Image = appendBranchTag (sp_Image s) branch, ac_Env = Some env,
           ac_VolumeClaim = sp_VolumeClaim s, ac_VolumeMountPath = sp_VolumeMountPath s,
           ac_ConfigMapName = sp_ConfigMapName s, ac_ConfigMapMountPath = sp_ConfigMapMountPath s,
           ac_ConfigMapItems = sp_ConfigMapItems s, ac_SecretName = sp_SecretName s, ac_Resources = sp_Resources s,
           ac_MaxConcurrentJobs = sp_MaxConcurrentJobs s, ac_PriorityClassName = sp_PriorityClassName s,
           ac_NodeSelector = sp_NodeSelector s, ac_Tolerations = sp_Tolerations s, ac_JobNamespace = sp_JobNamespace s,
           ac_ImagePullSecret = '''', ac_Trigger = sp_Trigger s,
           ac_RerunOnLostClaim = sp_RerunOnLostClaim s, ac_ZombieJobTimeoutSeconds = sp_ZombieJobTimeoutSeconds s\<rparr>)"

fun scanAssignee :: "(nat \<Rightarrow> bool) \<Rightarrow> nat \<Rightarrow> string \<Rightarrow> Config list \<Rightarrow> go_error + (nat \<times> Config option)" where
  "scanAssignee cancelled i wanted [] = Inr (i, None)"
| "scanAssignee cancelled i wanted (it # its) =
     (if cancelled i then Inl (Wrapped ''resolve config cancelled'' ContextDone)
      else if sp_Assignee (cfg_Spec it) = wanted then Inr (Suc i, Some it)
      else scanAssignee cancelled (Suc i) wanted its)"

definition Resolve ::
  "(nat \<Rightarrow> bool) \<Rightarrow> go_error + Config list \<Rightarrow> string \<Rightarrow> string \<Rightarrow> string \<Rightarrow> go_error + AgentConfiguration" where
  "Resolve cancelled provided branch vaultName assignee =
     (case provided of
        Inl e \<Rightarrow> Inl (Wrapped ''list agent configs'' e)
      | Inr items \<Rightarrow>
          (case scanAssignee cancelled 0 (assignee @ ''-'' @ vaultName) items of
             Inl e \<Rightarrow> Inl e
           | Inr (i, Some it) \<Rightarrow> convert cancelled i it branch
           | Inr (i, None) \<Rightarrow>
               (case scanAssignee cancelled i assignee items of
                  Inl e \<Rightarrow> Inl e
                | Inr (j, Some it) \<Rightarrow> convert cancelled j it branch
                | Inr (j, None) \<Rightarrow> Inl (Wrapped ''find composed assignee'' ErrConfigNotFound))))"

fun matchTaskType ::
  "(nat \<Rightarrow> bool) \<Rightarrow> nat \<Rightarrow> string \<Rightarrow> Config list \<Rightarrow> Config list \<Rightarrow> go_error + (nat \<times> Config list)" where
  "matchTaskType cancelled i taskType acc [] = Inr (i, acc)"
| "matchTaskType cancelled i taskType acc (it # its) =
     (if cancelled i then Inl (Wrapped ''resolve config by task_type cancelled'' ContextDone)
      else matchTaskType cancelled (Suc i) taskType
        (if TaskTypeInSet taskType (EffectiveTaskTypes (sp_TaskType (cfg_Spec it)) (elems (sp_TaskTypes (cfg_Spec it))))
         then acc @ [it] else acc) its)"

fun narrowCandidates :: "Config list \<Rightarrow> string list \<Rightarrow> Config option" where
  "narrowCandidates matches [] = None"
| "narrowCandidates matches (candidate # cs) =
     (case filter (\<lambda>it. sp_Assignee (cfg_Spec it) = candidate) matches of
        [] \<Rightarrow> narrowCandidates matches cs
      | [hit] \<Rightarrow> Some hit
      | _ \<Rightarrow> None)"

definition narrowByAssignee :: "string \<Rightarrow> Config list \<Rightarrow> string \<Rightarrow> Config option" where
  "narrowByAssignee vaultName matches assignee =
     (if assignee = '''' then None
      else narrowCandidates matches [assignee @ ''-'' @ vaultName, assignee])"

definition narrowByDefault :: "Config list \<Rightarrow> string \<Rightarrow> Config option" where
  "narrowByDefault matches taskType =
     (case filter (\<lambda>it. TaskTypeInSet taskType (elems (sp_DefaultForTaskTypes (cfg_Spec it)))) matches of
        [hit] \<Rightarrow> Some hit
      | _ \<Rightarrow> None)"

definition ResolveByTaskType ::
  "(nat \<Rightarrow> bool) \<Rightarrow> go_error + Config list \<Rightarrow> string \<Rightarrow> string \<Rightarrow> string \<Rightarrow> string \<Rightarrow> go_error + AgentConfiguration" where
  "ResolveByTaskType cancelled provided branch vaultName taskType preferAssignee =
     (case provided of
        Inl e \<Rightarrow> Inl (Wrapped ''list agent configs'' e)
      | Inr items \<Rightarrow>
          (case matchTaskType cancelled 0 taskType [] items of
             Inl e \<Rightarrow> Inl e
           | Inr (i, matches) \<Rightarrow>
               (case matches of
                  [] \<Rightarrow> Inl (Wrapped ''find config for task_type'' ErrConfigNotFound)
                | [m] \<Rightarrow> convert cancelled i m branch
                | _ \<Rightarrow>
                    (case narrowByAssignee vaultName matches preferAssignee of
                       Some preferred \<Rightarrow> convert cancelled i preferred branch
                     | None \<Rightarrow>
                         (case narrowByDefault matches taskType of
                            Some designated \<Rightarrow> convert cancelled i designated branch
                          | None \<Rightarrow>
                              if preferAssignee \<noteq> ''''
                              then Inl (Wrapped ''task_type matches configs and previous_assignee names none of them uniquely'' ErrConfigAmbiguous)
                              else Inl (Wrapped ''task_type matches configs'' ErrConfigAmbiguous))))))"

section \<open>What the resolver picks\<close>

definition declares :: "string \<Rightarrow> Config \<Rightarrow> bool" where
  "declares t it \<longleftrightarrow>
     t \<noteq> '''' \<and> (sp_TaskType (cfg_Spec it) = t \<or> t \<in> set (elems (sp_TaskTypes (cfg_Spec it))))"

lemma declares_iff:
  "TaskTypeInSet t (EffectiveTaskTypes (sp_TaskType (cfg_Spec it)) (elems (sp_TaskTypes (cfg_Spec it)))) = declares t it"
  by (auto simp: TaskTypeInSet_iff set_EffectiveTaskTypes declares_def)

text \<open>The context of a call that is never cancelled.\<close>

abbreviation never :: "nat \<Rightarrow> bool" where
  "never \<equiv> \<lambda>_. False"

lemma scanAssignee_running:
  "\<exists>j. scanAssignee never i a items = Inr (j, find (\<lambda>it. sp_Assignee (cfg_Spec it) = a) items)"
  by (induction items arbitrary: i) auto

lemma matchTaskType_running:
  "\<exists>j. matchTaskType never i t acc items = Inr (j, acc @ filter (declares t) items)"
proof (induction items arbitrary: i acc)
  case (Cons it items)
  then show ?case using Cons [of "Suc i" "acc @ [it]"] by (simp add: declares_iff)
qed simp

lemma copyEnvFrom_running:
  "\<exists>env. copyEnvFrom never i out m = Inr env \<and> map_of env = map_of out ++ map_of (rev m)"
proof (induction m arbitrary: i out)
  case Nil
  then show ?case by simp
next
  case (Cons kv m)
  obtain k v where kv: "kv = (k, v)" by (cases kv)
  obtain env where env: "copyEnvFrom never (Suc i) (AList.update k v out) m = Inr env"
      and of: "map_of env = map_of (AList.update k v out) ++ map_of (rev m)"
    using Cons by blast
  have "map_of env = map_of out ++ map_of (rev (kv # m))"
    unfolding of by (simp add: kv update_conv' map_add_assoc [symmetric] map_add_upd_left fun_eq_iff map_add_def
      split: option.split)
  with env show ?case by (simp add: kv)
qed

lemma copyEnv_running:
  assumes "\<forall>e. m = Some e \<longrightarrow> gomap_wf e"
  shows "\<exists>env. copyEnv never i m = Inr env \<and> map_of env = (case m of None \<Rightarrow> Map.empty | Some e \<Rightarrow> map_of e)"
proof -
  have rev: "map_of (rev e) = map_of e" if "gomap_wf e" for e :: "(string, string) gomap"
    using that by (intro map_of_inject_set [THEN iffD2]) (auto simp: gomap_wf_def rev_map [symmetric])
  show ?thesis
    using copyEnvFrom_running [of i "[]" "case m of None \<Rightarrow> [] | Some e \<Rightarrow> e"] assms rev
    by (auto simp: copyEnv_def split: option.splits)
qed

text \<open>A conversion carries the routing fields over and tags the image.\<close>

lemma convert_running:
  "\<exists>ac. convert never i it branch = Inr ac \<and> ac_Assignee ac = sp_Assignee (cfg_Spec it) \<and>
           ac_TaskType ac = sp_TaskType (cfg_Spec it) \<and> elems (ac_TaskTypes ac) = elems (sp_TaskTypes (cfg_Spec it)) \<and>
           ac_Trigger ac = sp_Trigger (cfg_Spec it) \<and> ac_Image ac = appendBranchTag (sp_Image (cfg_Spec it)) branch"
proof -
  obtain env where "copyEnv never i (sp_Env (cfg_Spec it)) = Inr env"
    using copyEnvFrom_running unfolding copyEnv_def by blast
  then show ?thesis by (simp add: convert_def Let_def)
qed

text \<open>What a configuration inherits from the resource it was converted from.\<close>

definition comes_from :: "string \<Rightarrow> AgentConfiguration \<Rightarrow> Config \<Rightarrow> bool" where
  "comes_from branch ac it \<longleftrightarrow> (\<exists>cancelled i. convert cancelled i it branch = Inr ac)"

lemma narrowCandidates_Some:
  "narrowCandidates ms cs = Some it \<Longrightarrow> \<exists>c \<in> set cs. filter (\<lambda>x. sp_Assignee (cfg_Spec x) = c) ms = [it]"
  by (induction cs) (auto split: list.splits)

lemma narrowByDefault_Some:
  "narrowByDefault ms t = Some it \<longleftrightarrow>
     filter (\<lambda>x. TaskTypeInSet t (elems (sp_DefaultForTaskTypes (cfg_Spec x)))) ms = [it]"
  by (auto simp: narrowByDefault_def split: list.splits)

text \<open>The choice among the resources that declare a type, before the conversion.\<close>

definition chosen :: "string \<Rightarrow> string \<Rightarrow> string \<Rightarrow> Config list \<Rightarrow> go_error + Config" where
  "chosen vault t pref ms =
     (case ms of
        [] \<Rightarrow> Inl (Wrapped ''find config for task_type'' ErrConfigNotFound)
      | [m] \<Rightarrow> Inr m
      | _ \<Rightarrow>
          (case narrowByAssignee vault ms pref of
             Some m \<Rightarrow> Inr m
           | None \<Rightarrow>
               (case narrowByDefault ms t of
                  Some m \<Rightarrow> Inr m
                | None \<Rightarrow> Inl (if pref \<noteq> ''''
                    then Wrapped ''task_type matches configs and previous_assignee names none of them uniquely'' ErrConfigAmbiguous
                    else Wrapped ''task_type matches configs'' ErrConfigAmbiguous))))"

lemma ResolveByTaskType_running:
  "\<exists>i. ResolveByTaskType never (Inr items) branch vault t pref =
     (case chosen vault t pref (filter (declares t) items) of
        Inl e \<Rightarrow> Inl e | Inr it \<Rightarrow> convert never i it branch)"
proof -
  obtain j where "matchTaskType never 0 t [] items = Inr (j, filter (declares t) items)"
    using matchTaskType_running [of 0 t "[]" items] by auto
  then show ?thesis
    by (intro exI [of _ j]) (auto simp: ResolveByTaskType_def chosen_def split: list.split option.split)
qed

text \<open>The ways a lookup by task type may settle on one of several configurations.\<close>

definition singled_out :: "string \<Rightarrow> string \<Rightarrow> string \<Rightarrow> Config list \<Rightarrow> Config \<Rightarrow> bool" where
  "singled_out vault t pref ms it \<longleftrightarrow>
     ms = [it] \<or>
     (pref \<noteq> '''' \<and> filter (\<lambda>x. sp_Assignee (cfg_Spec x) = pref @ ''-'' @ vault) ms = [it]) \<or>
     (pref \<noteq> '''' \<and> filter (\<lambda>x. sp_Assignee (cfg_Spec x) = pref) ms = [it]) \<or>
     filter (\<lambda>x. t \<in> set (elems (sp_DefaultForTaskTypes (cfg_Spec x)))) ms = [it]"

lemma narrowByAssignee_Some:
  assumes "narrowByAssignee vault ms pref = Some it"
  shows "singled_out vault t pref ms it"
proof -
  have n: "pref \<noteq> ''''" "narrowCandidates ms [pref @ ''-'' @ vault, pref] = Some it"
    using assms unfolding narrowByAssignee_def by (metis option.distinct(1))+
  from narrowCandidates_Some [OF n(2)] n(1) show ?thesis unfolding singled_out_def by auto
qed

lemma narrowByDefault_singled:
  "narrowByDefault ms t = Some it \<Longrightarrow> t \<noteq> '''' \<Longrightarrow> singled_out vault t pref ms it"
  by (simp add: narrowByDefault_Some singled_out_def TaskTypeInSet_iff)

lemma singled_out_member: "singled_out vault t pref ms it \<Longrightarrow> it \<in> set ms"
  unfolding singled_out_def by (elim disjE conjE) (metis filter_is_subset list.set_intros(1) subsetD)+

lemma chosen_Inr:
  assumes "chosen vault t pref ms = Inr it" "t \<noteq> '''' \<or> ms = []"
  shows "singled_out vault t pref ms it"
proof (cases "ms = [it]")
  case True
  then show ?thesis by (simp add: singled_out_def)
next
  case False
  then show ?thesis
    using assms narrowByAssignee_Some [of vault ms pref it t] narrowByDefault_singled [of ms t it vault pref]
    by (auto simp: chosen_def split: list.splits option.splits)
qed

lemma chosen_NotFound: "(\<exists>e. chosen vault t pref ms = Inl e \<and> errors_Is e ErrConfigNotFound) \<longleftrightarrow> ms = []"
  by (auto simp: chosen_def errors_Is_def split: list.splits option.splits)

section \<open>Properties\<close>

text \<open>
  C38: The lookup by task type never guesses. If it returns a configuration then that configuration
  comes from a resource that declares the task type and is singled out: the only one that declares
  it, the only one under the preferred assignee, or the only designated default. It reports
  "not found" exactly when no resource declares the type.
\<close>

theorem resolve_by_type_never_guesses:
  "(\<forall>ac. ResolveByTaskType never (Inr items) branch vault t pref = Inr ac \<longrightarrow>
      (\<exists>it \<in> set items. declares t it \<and> comes_from branch ac it \<and>
         singled_out vault t pref (filter (declares t) items) it)) \<and>
   ((\<exists>e. ResolveByTaskType never (Inr items) branch vault t pref = Inl e \<and> errors_Is e ErrConfigNotFound)
      \<longleftrightarrow> (\<forall>it \<in> set items. \<not> declares t it))"
proof -
  define ms where "ms = filter (declares t) items"
  obtain i where run: "ResolveByTaskType never (Inr items) branch vault t pref =
     (case chosen vault t pref ms of Inl e \<Rightarrow> Inl e | Inr it \<Rightarrow> convert never i it branch)"
    using ResolveByTaskType_running unfolding ms_def by blast
  have conv: "convert never i it branch \<noteq> Inl e" for it e using convert_running [of i it branch] by auto
  have t: "t \<noteq> '''' \<or> ms = []" by (auto simp: ms_def declares_def filter_empty_conv)
  have "\<exists>it \<in> set items. declares t it \<and> comes_from branch ac it \<and> singled_out vault t pref ms it"
    if "ResolveByTaskType never (Inr items) branch vault t pref = Inr ac" for ac
  proof -
    from that obtain it where it: "chosen vault t pref ms = Inr it" "convert never i it branch = Inr ac"
      unfolding run by (auto split: sum.splits)
    from chosen_Inr [OF it(1) t] have "singled_out vault t pref ms it" .
    moreover from singled_out_member [OF this] have "it \<in> set items \<and> declares t it" by (simp add: ms_def)
    ultimately show ?thesis using it(2) unfolding comes_from_def by blast
  qed
  moreover have "(\<exists>e. ResolveByTaskType never (Inr items) branch vault t pref = Inl e \<and> errors_Is e ErrConfigNotFound)
      \<longleftrightarrow> ms = []"
    using chosen_NotFound [of vault t pref ms] conv unfolding run by (auto split: sum.splits)
  ultimately show ?thesis by (simp add: ms_def filter_empty_conv)
qed

definition bareSpec :: "string \<Rightarrow> string list \<Rightarrow> ConfigSpec" where
  "bareSpec assignee types =
     \<lparr>sp_Assignee = assignee, sp_Image = ''img'', sp_Heartbeat = ''30m'', sp_Type = '''', sp_TaskType = '''',
      sp_TaskTypes = Some types, sp_DefaultForTaskTypes = None, sp_Resources = None, sp_Env = None,
      sp_SecretName = '''', sp_VolumeClaim = '''', sp_VolumeMountPath = '''', sp_ConfigMapName = '''',
      sp_ConfigMapMountPath = '''', sp_ConfigMapItems = None, sp_PriorityClassName = '''', sp_NodeSelector = None,
      sp_Tolerations = None, sp_JobNamespace = '''', sp_MaxConcurrentJobs = 0, sp_RerunOnLostClaim = None,
      sp_Trigger = None, sp_ZombieSweeperIntervalSeconds = None, sp_ZombieJobTimeoutSeconds = None\<rparr>"

definition bareConfig :: "string \<Rightarrow> string list \<Rightarrow> Config" where
  "bareConfig assignee types = \<lparr>cfg_Namespace = ''agent'', cfg_Name = assignee, cfg_Spec = bareSpec assignee types\<rparr>"

theorem resolve_by_type_never_guesses_witness:
  "\<exists>ac. ResolveByTaskType never (Inr [bareConfig ''a'' [''x''], bareConfig ''b'' [''x'', ''y'']]) ''dev'' ''v'' ''x'' ''b'' = Inr ac \<and>
     (\<exists>it \<in> set [bareConfig ''a'' [''x''], bareConfig ''b'' [''x'', ''y'']]. declares ''x'' it \<and> comes_from ''dev'' ac it)"
proof -
  have "\<not> isl (ResolveByTaskType never (Inr [bareConfig ''a'' [''x''], bareConfig ''b'' [''x'', ''y'']]) ''dev'' ''v'' ''x'' ''b'')"
    by code_simp
  then obtain ac where "ResolveByTaskType never (Inr [bareConfig ''a'' [''x''], bareConfig ''b'' [''x'', ''y'']]) ''dev'' ''v'' ''x'' ''b'' = Inr ac"
    by (metis isl_def sum.exhaust_sel)
  with resolve_by_type_never_guesses [of "[bareConfig ''a'' [''x''], bareConfig ''b'' [''x'', ''y'']]" "''dev''" "''v''" "''x''" "''b''"]
  show ?thesis by blast
qed

text \<open>What a map field of a specification holds.\<close>

abbreviation entries_of :: "string_map \<Rightarrow> (string \<rightharpoonup> string) option" where
  "entries_of m \<equiv> map_option map_of m"

lemma same_map_iff: "same_map m n \<longleftrightarrow> entries_of m = entries_of n"
proof (cases m; cases n)
  fix a b assume ab: "m = Some a" "n = Some b"
  have "list_all (\<lambda>k. map_of a k = map_of b k) (gomap_keys a @ gomap_keys b) \<longleftrightarrow> map_of a = map_of b"
  proof
    assume agree: "list_all (\<lambda>k. map_of a k = map_of b k) (gomap_keys a @ gomap_keys b)"
    show "map_of a = map_of b"
    proof
      fix k
      show "map_of a k = map_of b k"
        using agree map_of_eq_None_iff [of a k] map_of_eq_None_iff [of b k]
        by (cases "k \<in> set (gomap_keys a @ gomap_keys b)") (auto simp: list_all_iff)
    qed
  qed (simp add: list_all_iff)
  with ab show ?thesis by (simp add: same_map_def)
qed (simp_all add: same_map_def)

text \<open>
  Two specifications are reported equal exactly when every one of their fields agrees: with the
  two map fields compared as maps, nothing of the resource is left out of the comparison that decides
  whether a watched change is a change.
\<close>

theorem spec_equal_compares_all_fields:
  "spec_Equal s t \<longleftrightarrow>
     s\<lparr>sp_Env := None, sp_NodeSelector := None\<rparr> = t\<lparr>sp_Env := None, sp_NodeSelector := None\<rparr> \<and>
     entries_of (sp_Env s) = entries_of (sp_Env t) \<and> entries_of (sp_NodeSelector s) = entries_of (sp_NodeSelector t)"
  by (cases s; cases t) (auto simp: spec_Equal_def same_map_iff)

end
