(* ===== verification/Task_Model.thy ===== *)
theory Task_Model
  imports Agent_Config
begin

text \<open>
  Tasks and the two places an executor keeps them: the task store (\<^verbatim>\<open>pkg/task_store.go\<close>), which
  remembers what this executor spawned, and the task view (\<^verbatim>\<open>pkg/handler/task_view.go\<close>), which replays
  the task topic. The vault matcher and the phase and status gates are here as well.

  The task type of the agent library is a record; its frontmatter is a Go map from keys to values: the
  kinds of values the executor writes, and the others as opaque text. The library's accessors and its JSON decoder
  are parameters (\<open>task_lib\<close>).
\<close>

section \<open>Tasks\<close>

datatype fmvalue = FmString string | FmInt int | FmBool bool | FmNil | FmOther string

type_synonym frontmatter = "(string, fmvalue) gomap"

record Task =
  TaskIdentifier :: string
  Vault :: string
  Frontmatter :: frontmatter
  Content :: string

record task_lib =
  lib_Status :: "frontmatter \<Rightarrow> string"
  lib_Phase :: "frontmatter \<Rightarrow> string option"
  lib_Assignee :: "frontmatter \<Rightarrow> string"
  lib_Stage :: "frontmatter \<Rightarrow> string"
  lib_TaskType :: "frontmatter \<Rightarrow> string"
  lib_CurrentJob :: "frontmatter \<Rightarrow> string"
  lib_JobStartedAt :: "frontmatter \<Rightarrow> go_error + go_time"
  lib_TriggerCount :: "frontmatter \<Rightarrow> int"
  lib_MaxTriggers :: "frontmatter \<Rightarrow> int"
  lib_String :: "frontmatter \<Rightarrow> string \<Rightarrow> string option"
  lib_Int :: "frontmatter \<Rightarrow> string \<Rightarrow> int option"
  lib_Unmarshal :: "string \<Rightarrow> go_error + Task"

definition taskWithFrontmatterValue :: "Task \<Rightarrow> string \<Rightarrow> fmvalue \<Rightarrow> Task" where
  "taskWithFrontmatterValue task key value = task\<lparr>Frontmatter := AList.update key value (Frontmatter task)\<rparr>"

definition taskPhase :: "task_lib \<Rightarrow> Task \<Rightarrow> string" where
  "taskPhase L task = (case lib_Phase L (Frontmatter task) of Some p \<Rightarrow> p | None \<Rightarrow> '''')"

definition taskPhaseString :: "task_lib \<Rightarrow> Task \<Rightarrow> string" where
  "taskPhaseString L task = (case lib_Phase L (Frontmatter task) of Some p \<Rightarrow> p | None \<Rightarrow> '''')"

definition taskCluster :: "Task \<Rightarrow> string" where
  "taskCluster task = (case map_of (Frontmatter task) ''cluster'' of Some (FmString v) \<Rightarrow> v | _ \<Rightarrow> '''')"

section \<open>Phases and statuses\<close>

text \<open>The values of the phase and status enumerations of \<^verbatim>\<open>vault-cli\<close>, as the repository documents them.\<close>

definition TaskPhaseTodo :: string where "TaskPhaseTodo = ''todo''"
definition TaskPhasePlanning :: string where "TaskPhasePlanning = ''planning''"
definition TaskPhaseExecution :: string where "TaskPhaseExecution = ''execution''"
definition TaskPhaseInProgress :: string where "TaskPhaseInProgress = ''in_progress''"
definition TaskPhaseAIReview :: string where "TaskPhaseAIReview = ''ai_review''"
definition TaskPhaseHumanReview :: string where "TaskPhaseHumanReview = ''human_review''"
definition TaskPhaseDone :: string where "TaskPhaseDone = ''done''"
definition TaskStatusInProgress :: string where "TaskStatusInProgress = ''in_progress''"
definition TaskStatusCompleted :: string where "TaskStatusCompleted = ''completed''"
definition TaskStatusAborted :: string where "TaskStatusAborted = ''aborted''"

definition terminalPhases :: "string list" where
  "terminalPhases = [TaskPhaseHumanReview, TaskPhaseDone]"

definition knownPhases :: "string list" where
  "knownPhases = [TaskPhaseTodo, TaskPhasePlanning, TaskPhaseExecution, TaskPhaseInProgress,
     TaskPhaseAIReview, TaskPhaseHumanReview, TaskPhaseDone]"

definition IsTerminal :: "string \<Rightarrow> bool" where
  "IsTerminal phase \<longleftrightarrow> phase \<in> set terminalPhases"

definition terminalStatuses :: "string list" where
  "terminalStatuses = [TaskStatusCompleted, TaskStatusAborted]"

definition IsTerminalStatus :: "string \<Rightarrow> bool" where
  "IsTerminalStatus status \<longleftrightarrow> status \<in> set terminalStatuses"

definition defaultTriggerPhases :: "string list" where
  "defaultTriggerPhases = [TaskPhasePlanning, TaskPhaseExecution, TaskPhaseAIReview]"

definition defaultTriggerStatuses :: "string list" where
  "defaultTriggerStatuses = [TaskStatusInProgress]"

definition effectiveTriggerPhases :: "AgentConfiguration option \<Rightarrow> string list" where
  "effectiveTriggerPhases cfg =
     (case cfg of
        None \<Rightarrow> defaultTriggerPhases
      | Some c \<Rightarrow> (case ac_Trigger c of
            None \<Rightarrow> defaultTriggerPhases
          | Some t \<Rightarrow> if elems (tr_Phases t) = [] then defaultTriggerPhases else elems (tr_Phases t)))"

definition effectiveTriggerStatuses :: "AgentConfiguration option \<Rightarrow> string list" where
  "effectiveTriggerStatuses cfg =
     (case cfg of
        None \<Rightarrow> defaultTriggerStatuses
      | Some c \<Rightarrow> (case ac_Trigger c of
            None \<Rightarrow> defaultTriggerStatuses
          | Some t \<Rightarrow> if elems (tr_Statuses t) = [] then defaultTriggerStatuses else elems (tr_Statuses t)))"

text \<open>Why a task does not fit the configuration its assignee names; the empty string means it fits.\<close>

definition taskTypeMismatchReason :: "task_lib \<Rightarrow> Task \<Rightarrow> AgentConfiguration option \<Rightarrow> string" where
  "taskTypeMismatchReason L task cfg =
     (case cfg of
        None \<Rightarrow> ''''
      | Some c \<Rightarrow>
          (let effectiveTypes = EffectiveTaskTypes (ac_TaskType c) (elems (ac_TaskTypes c));
               taskType = lib_TaskType L (Frontmatter task) in
           if effectiveTypes = [] then ''''
           else if TaskTypeInSet taskType effectiveTypes then ''''
           else if taskType = '''' then ''task has no task_type''
           else ''task_type not in effective set''))"

section \<open>Vaults\<close>

record VaultMatcher =
  vm_vault :: string
  vm_accepted :: "string list"

definition NewVaultMatcher :: "string \<Rightarrow> string list \<Rightarrow> VaultMatcher" where
  "NewVaultMatcher vault aliases =
     \<lparr>vm_vault = vault,
      vm_accepted = (if vault \<noteq> '''' then [vault] else []) @ filter (\<lambda>alias. alias \<noteq> '''') aliases\<rparr>"

definition Accepts :: "VaultMatcher \<Rightarrow> string \<Rightarrow> bool" where
  "Accepts m stamp = (if stamp = '''' then False else stamp \<in> set (vm_accepted m))"

definition DefaultVaultAliases :: "string \<Rightarrow> string list" where
  "DefaultVaultAliases vault =
     (case map_of
        [(''openclaw'', [''openclaw'', ''private-agent'']),
         (''private-agent'', [''openclaw'', ''private-agent'']),
         (''personal'', [''personal'', ''private-personal'']),
         (''private-personal'', [''personal'', ''private-personal'']),
         (''trading'', [''trading'', ''private-trading'']),
         (''private-trading'', [''trading'', ''private-trading''])] vault of
        None \<Rightarrow> [] | Some as \<Rightarrow> as)"

section \<open>The task store\<close>

record parkRecord =
  pr_CompletedAt :: go_time
  pr_PublishedAt :: go_time

record SucceededJob =
  sj_Phase :: string
  sj_CompletedAt :: go_time

record TaskStore =
  ts_tasks :: "(string, Task) gomap"
  ts_succeeded :: "(string, SucceededJob) gomap"
  ts_parked :: "(string, parkRecord) gomap"

definition NewTaskStore :: TaskStore where
  "NewTaskStore = \<lparr>ts_tasks = [], ts_succeeded = [], ts_parked = []\<rparr>"

definition MarkSucceeded :: "string \<Rightarrow> string \<Rightarrow> go_time \<Rightarrow> TaskStore \<Rightarrow> TaskStore" where
  "MarkSucceeded tid phase at s =
     (if (case map_of (ts_succeeded s) tid of Some prev \<Rightarrow> \<not> at > sj_CompletedAt prev | None \<Rightarrow> False) then s
      else s\<lparr>ts_succeeded := AList.update tid \<lparr>sj_Phase = phase, sj_CompletedAt = at\<rparr> (ts_succeeded s)\<rparr>)"

definition MarkParkPublished :: "string \<Rightarrow> go_time \<Rightarrow> go_time \<Rightarrow> TaskStore \<Rightarrow> TaskStore" where
  "MarkParkPublished tid completedAt publishedAt s =
     s\<lparr>ts_parked := AList.update tid \<lparr>pr_CompletedAt = completedAt, pr_PublishedAt = publishedAt\<rparr> (ts_parked s)\<rparr>"

definition ParkPublishedAt :: "string \<Rightarrow> go_time \<Rightarrow> TaskStore \<Rightarrow> go_time option" where
  "ParkPublishedAt tid completedAt s =
     (case map_of (ts_parked s) tid of
        None \<Rightarrow> None
      | Some r \<Rightarrow> if pr_CompletedAt r \<noteq> completedAt then None else Some (pr_PublishedAt r))"

definition LastSucceeded :: "string \<Rightarrow> TaskStore \<Rightarrow> SucceededJob option" where
  "LastSucceeded tid s = map_of (ts_succeeded s) tid"

definition PruneSucceededBefore :: "go_time \<Rightarrow> TaskStore \<Rightarrow> TaskStore" where
  "PruneSucceededBefore cutoff s =
     s\<lparr>ts_succeeded := filter (\<lambda>(tid, job). \<not> sj_CompletedAt job < cutoff) (ts_succeeded s)\<rparr>"

definition store_Store :: "string \<Rightarrow> Task \<Rightarrow> TaskStore \<Rightarrow> TaskStore" where
  "store_Store tid task s = s\<lparr>ts_tasks := AList.update tid task (ts_tasks s)\<rparr>"

definition store_Load :: "string \<Rightarrow> TaskStore \<Rightarrow> Task option" where
  "store_Load tid s = map_of (ts_tasks s) tid"

definition store_Delete :: "string \<Rightarrow> TaskStore \<Rightarrow> TaskStore" where
  "store_Delete tid s = s\<lparr>ts_tasks := AList.delete tid (ts_tasks s)\<rparr>"

definition DeleteIfCurrentJob :: "task_lib \<Rightarrow> string \<Rightarrow> string \<Rightarrow> TaskStore \<Rightarrow> bool \<times> TaskStore" where
  "DeleteIfCurrentJob L tid jobName s =
     (case map_of (ts_tasks s) tid of
        None \<Rightarrow> (False, s)
      | Some task \<Rightarrow>
          if lib_CurrentJob L (Frontmatter task) \<noteq> jobName then (False, s)
          else (True, s\<lparr>ts_tasks := AList.delete tid (ts_tasks s)\<rparr>))"

section \<open>The task view\<close>

record ConsumerMessage =
  msg_Topic :: string
  msg_Partition :: int
  msg_Offset :: int
  msg_Key :: string
  msg_Value :: string

datatype decode_error = errEmptyTaskEvent | errEmptyTaskIdentifier | UnmarshalError go_error

definition decodeTaskEvent :: "task_lib \<Rightarrow> string \<Rightarrow> decode_error + Task" where
  "decodeTaskEvent L value =
     (if value = '''' then Inl errEmptyTaskEvent
      else (case lib_Unmarshal L value of
              Inl e \<Rightarrow> Inl (UnmarshalError e)
            | Inr task \<Rightarrow> if TaskIdentifier task = '''' then Inl errEmptyTaskIdentifier else Inr task))"

record taskView =
  tv_tasks :: "(string, Task) gomap"
  tv_marks :: "(int, int) gomap"
  tv_consumed :: "(int, int) gomap"
  tv_marksCaptured :: bool
  tv_ready :: bool

definition NewTaskView :: taskView where
  "NewTaskView = \<lparr>tv_tasks = [], tv_marks = [], tv_consumed = [], tv_marksCaptured = False, tv_ready = False\<rparr>"

definition consumed_of :: "taskView \<Rightarrow> int \<Rightarrow> int" where
  "consumed_of v p = (case map_of (tv_consumed v) p of None \<Rightarrow> 0 | Some c \<Rightarrow> c)"

text \<open>The result says whether the view became ready in this call.\<close>

definition evaluateReadinessLocked :: "taskView \<Rightarrow> bool \<times> taskView" where
  "evaluateReadinessLocked v =
     (if tv_ready v \<or> \<not> tv_marksCaptured v then (False, v)
      else if list_ex (\<lambda>(p, mark). consumed_of v p < mark) (tv_marks v) then (False, v)
      else (True, v\<lparr>tv_ready := True\<rparr>))"

definition CaptureHighWaterMarks :: "go_error + (int, int) gomap \<Rightarrow> taskView \<Rightarrow> go_error option \<times> taskView" where
  "CaptureHighWaterMarks marks v =
     (case marks of
        Inl e \<Rightarrow> (Some (Wrapped ''capture high-water marks'' e), v)
      | Inr m \<Rightarrow> (None, snd (evaluateReadinessLocked (v\<lparr>tv_marks := m, tv_marksCaptured := True\<rparr>))))"

definition view_ConsumeMessage :: "task_lib \<Rightarrow> ConsumerMessage \<Rightarrow> taskView \<Rightarrow> taskView" where
  "view_ConsumeMessage L msg v =
     (let tasks = (case decodeTaskEvent L (msg_Value msg) of
            Inr task \<Rightarrow>
              (let task = (case lib_Phase L (Frontmatter task) of
                   Some phase \<Rightarrow> if IsTerminal phase then task\<lparr>Content := ''''\<rparr> else task
                 | None \<Rightarrow> task)
               in AList.update (TaskIdentifier task) task (tv_tasks v))
          | Inl _ \<Rightarrow> AList.delete (msg_Key msg) (tv_tasks v));
          next = wrap64 (msg_Offset msg + 1);
          consumed = (if next > consumed_of v (msg_Partition msg)
                      then AList.update (msg_Partition msg) next (tv_consumed v) else tv_consumed v)
      in snd (evaluateReadinessLocked (v\<lparr>tv_tasks := tasks, tv_consumed := consumed\<rparr>)))"

definition view_Snapshot :: "taskView \<Rightarrow> Task list" where
  "view_Snapshot v = map snd (tv_tasks v)"

definition view_Get :: "string \<Rightarrow> taskView \<Rightarrow> Task option" where
  "view_Get tid v = map_of (tv_tasks v) tid"

section \<open>The store\<close>

lemma MarkSucceeded_tasks [simp]: "ts_tasks (MarkSucceeded tid p at s) = ts_tasks s"
  by (simp add: MarkSucceeded_def)

lemma LastSucceeded_MarkSucceeded:
  "LastSucceeded j (MarkSucceeded tid p at s) =
     (if j = tid then
        (case LastSucceeded tid s of
           Some prev \<Rightarrow> if at > sj_CompletedAt prev then Some \<lparr>sj_Phase = p, sj_CompletedAt = at\<rparr> else Some prev
         | None \<Rightarrow> Some \<lparr>sj_Phase = p, sj_CompletedAt = at\<rparr>)
      else LastSucceeded j s)"
  by (auto simp: LastSucceeded_def MarkSucceeded_def update_conv' split: option.split)

lemma store_Load_simps [simp]:
  "store_Load j (store_Store tid t s) = (if j = tid then Some t else store_Load j s)"
  "store_Load j (store_Delete tid s) = (if j = tid then None else store_Load j s)"
  by (simp_all add: store_Load_def store_Store_def store_Delete_def update_conv' AList.delete_conv)

section \<open>Replaying the topic\<close>

definition replay :: "task_lib \<Rightarrow> ConsumerMessage list \<Rightarrow> taskView \<Rightarrow> taskView" where
  "replay L msgs v = foldl (\<lambda>v msg. view_ConsumeMessage L msg v) v msgs"

text \<open>
  What the topic says of one task: the last message with its key decides, an undecodable or empty one
  retires the task, and a task at a terminal phase keeps no body.
\<close>

definition event_of :: "task_lib \<Rightarrow> ConsumerMessage \<Rightarrow> Task option" where
  "event_of L msg =
     (case decodeTaskEvent L (msg_Value msg) of
        Inl _ \<Rightarrow> None
      | Inr task \<Rightarrow> Some (case lib_Phase L (Frontmatter task) of
            Some phase \<Rightarrow> if IsTerminal phase then task\<lparr>Content := ''''\<rparr> else task
          | None \<Rightarrow> task))"

definition topic_state :: "task_lib \<Rightarrow> ConsumerMessage list \<Rightarrow> string \<Rightarrow> Task option" where
  "topic_state L msgs k =
     (case filter (\<lambda>m. msg_Key m = k) (rev msgs) of [] \<Rightarrow> None | m # _ \<Rightarrow> event_of L m)"

text \<open>A message is keyed when the task it carries is the one its key names.\<close>

definition keyed :: "task_lib \<Rightarrow> ConsumerMessage \<Rightarrow> bool" where
  "keyed L msg \<longleftrightarrow>
     (case decodeTaskEvent L (msg_Value msg) of Inl _ \<Rightarrow> True | Inr task \<Rightarrow> TaskIdentifier task = msg_Key msg)"

lemma evaluateReadiness_tasks [simp]:
  "tv_tasks (snd (evaluateReadinessLocked v)) = tv_tasks v"
  "tv_marks (snd (evaluateReadinessLocked v)) = tv_marks v"
  "tv_consumed (snd (evaluateReadinessLocked v)) = tv_consumed v"
  "tv_marksCaptured (snd (evaluateReadinessLocked v)) = tv_marksCaptured v"
  by (simp_all add: evaluateReadinessLocked_def)

lemma view_ConsumeMessage_Get:
  assumes "keyed L msg"
  shows "view_Get k (view_ConsumeMessage L msg v) = (if msg_Key msg = k then event_of L msg else view_Get k v)"
  using assms
  by (auto simp: view_Get_def view_ConsumeMessage_def event_of_def keyed_def Let_def update_conv' AList.delete_conv
      split: sum.splits option.splits)

lemma replay_snoc: "replay L (msgs @ [m]) v = view_ConsumeMessage L m (replay L msgs v)"
  by (simp add: replay_def)

lemma topic_state_snoc: "topic_state L (msgs @ [m]) k = (if msg_Key m = k then event_of L m else topic_state L msgs k)"
  by (simp add: topic_state_def)



lemma consumed_reached:
  "min_int64 \<le> msg_Offset msg \<Longrightarrow> msg_Offset msg < max_int64 \<Longrightarrow>
     msg_Offset msg + 1 \<le> consumed_of (view_ConsumeMessage L msg v) (msg_Partition msg)"
  by (auto simp: consumed_of_def view_ConsumeMessage_def Let_def update_conv' wrap64_id)

text \<open>A view that is ready has replayed every partition up to the marks it captured.\<close>

definition caught_up :: "taskView \<Rightarrow> bool" where
  "caught_up v \<longleftrightarrow> tv_marksCaptured v \<and> (\<forall>(p, mark) \<in> set (tv_marks v). mark \<le> consumed_of v p)"

lemma consumed_of_evaluate [simp]: "consumed_of (snd (evaluateReadinessLocked v)) p = consumed_of v p"
  by (simp add: consumed_of_def)

lemma caught_up_evaluate [simp]: "caught_up (snd (evaluateReadinessLocked v)) = caught_up v"
  by (simp add: caught_up_def)




inductive view_step :: "task_lib \<Rightarrow> taskView \<Rightarrow> taskView \<Rightarrow> bool" for L where
  consume: "view_step L v (view_ConsumeMessage L msg v)"
| capture: "\<not> tv_marksCaptured v \<Longrightarrow> view_step L v (snd (CaptureHighWaterMarks marks v))"

inductive_cases view_stepE: "view_step L v v'"


section \<open>Properties\<close>

text \<open>
  C39: The view is the compacted topic. After any sequence of keyed messages the view holds for each
  task exactly what the last message with its key says: the decoded task (without its body at a
  terminal phase), or nothing if that message was a tombstone or undecodable.
\<close>

theorem task_view_replays_topic:
  assumes "list_all (keyed L) msgs"
  shows "view_Get k (replay L msgs NewTaskView) = topic_state L msgs k"
  using assms
proof (induction msgs rule: rev_induct)
  case Nil
  then show ?case by (simp add: replay_def topic_state_def view_Get_def NewTaskView_def)
next
  case (snoc m msgs)
  then show ?case by (simp add: replay_snoc topic_state_snoc view_ConsumeMessage_Get)
qed

definition plainLib :: task_lib where
  "plainLib =
     (let str = (\<lambda>fm k. case map_of fm k of Some (FmString v) \<Rightarrow> Some v | _ \<Rightarrow> None);
          get = (\<lambda>fm k. case str fm k of Some v \<Rightarrow> v | None \<Rightarrow> '''') in
      \<lparr>lib_Status = (\<lambda>fm. get fm ''status''), lib_Phase = (\<lambda>fm. str fm ''phase''),
       lib_Assignee = (\<lambda>fm. get fm ''assignee''), lib_Stage = (\<lambda>fm. get fm ''stage''),
       lib_TaskType = (\<lambda>fm. get fm ''task_type''), lib_CurrentJob = (\<lambda>fm. get fm ''current_job''),
       lib_JobStartedAt = (\<lambda>fm. Inr 0), lib_TriggerCount = (\<lambda>fm. 0), lib_MaxTriggers = (\<lambda>fm. 3),
       lib_String = str, lib_Int = (\<lambda>fm k. None),
       lib_Unmarshal = (\<lambda>v. Inr \<lparr>TaskIdentifier = v, Vault = ''personal'', Frontmatter = [], Content = ''body''\<rparr>)\<rparr>)"

definition event :: "int \<Rightarrow> string \<Rightarrow> ConsumerMessage" where
  "event n v = \<lparr>msg_Topic = ''task'', msg_Partition = 0, msg_Offset = n, msg_Key = ''t1'', msg_Value = v\<rparr>"

theorem task_view_replays_topic_witness:
  "view_Get ''t1'' (replay plainLib [event 0 ''t1'', event 1 ''''] NewTaskView) = None \<and>
   view_Get ''t1'' (replay plainLib [event 0 ''t1'', event 1 '''', event 2 ''t1''] NewTaskView) \<noteq> None"
proof -
  have "list_all (keyed plainLib) [event 0 ''t1'', event 1 ''''] \<and>
        list_all (keyed plainLib) [event 0 ''t1'', event 1 '''', event 2 ''t1'']" by code_simp
  moreover have "topic_state plainLib [event 0 ''t1'', event 1 ''''] ''t1'' = None \<and>
        topic_state plainLib [event 0 ''t1'', event 1 '''', event 2 ''t1''] ''t1'' \<noteq> None" by code_simp
  ultimately show ?thesis using task_view_replays_topic by metis
qed



end
