(* ===== verification/Zombie_Reason.thy ===== *)
theory Zombie_Reason
  imports Go_Error
begin

text \<open>
  The closed vocabulary of failure reasons (\<^verbatim>\<open>pkg/zombie_reason.go\<close>) and its parser.
\<close>

definition ZombieReasonImagePullBackOff :: string where "ZombieReasonImagePullBackOff = ''image_pull_backoff''"
definition ZombieReasonPodEvicted :: string where "ZombieReasonPodEvicted = ''pod_evicted''"
definition ZombieReasonDeadlineExceeded :: string where "ZombieReasonDeadlineExceeded = ''deadline_exceeded''"
definition ZombieReasonPodNotScheduled :: string where "ZombieReasonPodNotScheduled = ''pod_not_scheduled''"
definition ZombieReasonPodCrashNoStdout :: string where "ZombieReasonPodCrashNoStdout = ''pod_crash_no_stdout''"
definition ZombieReasonExecutorWatchLost :: string where "ZombieReasonExecutorWatchLost = ''executor_watch_lost''"
definition ZombieReasonTypeMismatch :: string where "ZombieReasonTypeMismatch = ''type_mismatch''"
definition ZombieReasonPodOOMKilled :: string where "ZombieReasonPodOOMKilled = ''pod_oom_killed''"

definition zombieReasonValues :: "string list" where
  "zombieReasonValues =
     [ZombieReasonImagePullBackOff, ZombieReasonPodEvicted, ZombieReasonDeadlineExceeded, ZombieReasonPodNotScheduled,
      ZombieReasonPodCrashNoStdout, ZombieReasonExecutorWatchLost, ZombieReasonTypeMismatch, ZombieReasonPodOOMKilled]"

definition jobFailedConditionAliases :: "(string, string) gomap" where
  "jobFailedConditionAliases =
     [(''BackoffLimitExceeded'', ZombieReasonPodCrashNoStdout), (''PodFailurePolicy'', ZombieReasonPodCrashNoStdout),
      (''JobFailed'', ZombieReasonPodCrashNoStdout)]"

definition ParseZombieReason :: "string \<Rightarrow> string option" where
  "ParseZombieReason s =
     (let v = (case index_of (CHR '' '') s of Some i \<Rightarrow> take i s | None \<Rightarrow> s) in
      case List.find (\<lambda>reason. reason = v) zombieReasonValues of
        Some reason \<Rightarrow> Some reason
      | None \<Rightarrow> map_of jobFailedConditionAliases v)"

lemmas zombie_reasons = ZombieReasonImagePullBackOff_def ZombieReasonPodEvicted_def ZombieReasonDeadlineExceeded_def
  ZombieReasonPodNotScheduled_def ZombieReasonPodCrashNoStdout_def ZombieReasonExecutorWatchLost_def
  ZombieReasonTypeMismatch_def ZombieReasonPodOOMKilled_def

lemma index_of_free: "c \<notin> set s \<Longrightarrow> index_of c s = None"
  by (induction s) auto

lemma index_of_append: "c \<notin> set s \<Longrightarrow> index_of c (s @ c # t) = Some (length s)"
  by (induction s) auto

text \<open>Only the text before the first space counts.\<close>

lemma ParseZombieReason_detail: "CHR '' '' \<notin> set s \<Longrightarrow> ParseZombieReason (s @ CHR '' '' # t) = ParseZombieReason s"
  by (simp add: ParseZombieReason_def index_of_free index_of_append)

lemma reasons_no_space: "r \<in> set zombieReasonValues \<Longrightarrow> CHR '' '' \<notin> set r"
  by (auto simp: zombieReasonValues_def zombie_reasons)

lemma find_eq: "r \<in> set xs \<Longrightarrow> List.find (\<lambda>x. x = r) xs = Some r"
  by (induction xs) auto

lemma ParseZombieReason_value: "r \<in> set zombieReasonValues \<Longrightarrow> ParseZombieReason r = Some r"
  by (simp add: ParseZombieReason_def index_of_free reasons_no_space find_eq)

lemma ParseZombieReason_range: "ParseZombieReason s = Some r \<Longrightarrow> r \<in> set zombieReasonValues"
  by (auto simp: ParseZombieReason_def Let_def jobFailedConditionAliases_def zombieReasonValues_def
      split: option.splits if_splits)

end
