(* ===== verification/Handler_Base.thy ===== *)
theory Handler_Base
  imports Task_Model Zombie_Reason Lease_Tick Claim_Scheme Success_Store
begin

text \<open>
  The task event handler (\<^verbatim>\<open>pkg/handler\<close>), first part: its collaborators, its state, and the
  bookkeeping the decision chain is made of: deferred respawns and their epochs, queue stamps, the
  redrive streak, the success record, the trigger budget, the active-Job cache and the claim
  life cycle.

  The state holds the lease manager of this executor (\<open>th_lease\<close>), so claiming and releasing are the
  operations of \<^verbatim>\<open>Lease_Manager\<close>; Kubernetes, Kafka and git-rest are the world \<open>'w\<close> inside it. Caches
  that the code hangs on the context of one pass are fields that are \<open>None\<close> outside a pass. Locks are
  not modelled: each operation is one step, and what another goroutine may do between two steps is
  covered by stating the results for arbitrary states. Log lines are not modelled; every metric
  increment is.
\<close>

abbreviation ret :: "'a \<Rightarrow> ('s, 'a) state" where
  "ret \<equiv> State_Monad.return"

section \<open>Collaborators\<close>

record 'w JobSpawner =
  js_SpawnJob :: "Task \<Rightarrow> AgentConfiguration \<Rightarrow> ('w, go_error + string) state"
  js_IsJobActive :: "string \<Rightarrow> string \<Rightarrow> ('w, go_error + bool) state"
  js_ListActiveJobs :: "string \<Rightarrow> string \<Rightarrow> ('w, go_error + (string, bool) gomap) state"
  js_JobExists :: "string \<Rightarrow> string \<Rightarrow> ('w, go_error + bool) state"

record 'w ResultPublisher =
  rp_SpawnNotification :: "Task \<Rightarrow> string \<Rightarrow> ('w, go_error option) state"
  rp_IncrementTriggerCount :: "Task \<Rightarrow> ('w, go_error option) state"
  rp_SetTriggerScope :: "Task \<Rightarrow> string \<Rightarrow> int \<Rightarrow> ('w, go_error option) state"
  rp_TriggerBudgetRefusal :: "Task \<Rightarrow> string \<Rightarrow> int \<Rightarrow> int \<Rightarrow> ('w, go_error option) state"
  rp_TypeMismatchFailure :: "Task \<Rightarrow> string \<Rightarrow> ('w, go_error option) state"
  rp_RestoreAssignee :: "Task \<Rightarrow> string \<Rightarrow> ('w, go_error option) state"
  rp_ParkLostClaim :: "Task \<Rightarrow> ('w, go_error option) state"
  rp_ParkSucceeded :: "Task \<Rightarrow> ('w, go_error option) state"
  rp_QueueEntry :: "Task \<Rightarrow> string \<Rightarrow> ('w, go_error option) state"
  rp_Abort :: "Task \<Rightarrow> string \<Rightarrow> int \<Rightarrow> ('w, go_error option) state"

record 'w ConfigResolver =
  cr_Resolve :: "string \<Rightarrow> ('w, go_error + AgentConfiguration) state"
  cr_ResolveByTaskType :: "string \<Rightarrow> string \<Rightarrow> ('w, go_error + AgentConfiguration) state"

record 'w SuccessStore =
  ss_Record :: "string \<Rightarrow> string \<Rightarrow> go_time \<Rightarrow> ('w, claim_error option) state"
  ss_Lookup :: "string \<Rightarrow> string \<Rightarrow> ('w, go_time option result) state"
  ss_Snapshot :: "('w, (string, (string, go_time) gomap) gomap result) state"

record TaskIndexItem =
  ti_ID :: string
  ti_Status :: string
  ti_Phase :: string

record TaskIndex =
  ix_Items :: "TaskIndexItem list"
  ix_Total :: int
  ix_Warnings :: int
  ix_AgeSeconds :: int

text \<open>
  What a handler is constructed with. A factory is nil, or returns nil, or returns a client; the
  optional collaborators are nil unless an option sets them.
\<close>

record 'w handler_env =
  he_lib :: task_lib
  he_unicode :: unicode
  he_jobSpawner :: "'w JobSpawner"
  he_namespace :: string
  he_branch :: string
  he_cluster :: string
  he_stageFilter :: bool
  he_runUntagged :: bool
  he_resolver :: "'w ConfigResolver"
  he_publisher :: "'w ResultPublisher"
  he_deadLetter :: "(ConsumerMessage \<Rightarrow> go_error \<Rightarrow> ('w, go_error option) state) option"
  he_now :: "('w, go_time) state"
  he_vaultMatcher :: VaultMatcher
  he_configProvider :: "('w, go_error + Config list) state option"
  he_claimMode :: ClaimMode
  he_refClientFactory :: "'w ClaimRefClient option option"
  he_claimClientFactory :: "'w ClaimClient option option"
  he_jobControl :: "'w JobControl option"
  he_indexClient :: "('w, go_error + TaskIndex option) state option"
  he_successStore :: "'w SuccessStore option"
  he_podQuota :: "(string \<Rightarrow> string \<Rightarrow> ('w, go_error + (int \<times> bool)) state) option"
  he_ctxDone :: "'w \<Rightarrow> bool"
  he_sleep :: "duration \<Rightarrow> ('w, unit) state"
  he_parseDateTime :: "string \<Rightarrow> go_time option"

section \<open>State\<close>

record deferredEntry =
  de_task :: Task
  de_config :: AgentConfiguration
  de_retryAfter :: go_time

record deferredClaim =
  dc_id :: string
  dc_epoch :: int

record redriveStreak =
  rs_count :: int
  rs_phase :: string
  rs_since :: go_time

record cachedActiveJobs =
  ca_active :: "(string, bool) gomap"
  ca_gen :: int
  ca_readAt :: go_time

record 'w taskEventHandler =
  th_deferredRespawns :: "(string, deferredEntry) gomap"
  th_deferredEpochs :: "(string, int) gomap"
  th_refusedGates :: "(string, string) gomap"
  th_queuedAtStamps :: "(string, string) gomap"
  th_redriveStreaks :: "(string, redriveStreak) gomap"
  th_spawnPending :: "string list"
  th_spawnGens :: "(string, int) gomap"
  th_jobLookupDeniedLoggedAt :: "(string, go_time) gomap"
  th_configAcceptedPairs :: "(string \<times> string) list"
  th_taskStore :: TaskStore
  th_view :: "taskView option"
  th_lease :: "'w leaseManager"
  th_jobCache :: "(string, cachedActiveJobs) gomap option"
  th_streakCache :: "(string, (string, nat) gomap) gomap result option option"
  th_reasonCache :: "(string, (string, string list) gomap) gomap result option option"
  th_successCache :: "(string, (string, go_time) gomap) gomap result option option"
  th_indexCache :: "(go_error + TaskIndex option) option option"
  th_counts :: "(string \<times> string list) list"

section \<open>Constants\<close>

definition defaultRespawnGracePeriod :: duration where "defaultRespawnGracePeriod = SuccessGracePeriod"
definition taskRerunWindow :: duration where "taskRerunWindow = hour"
definition deferredRespawnInterval :: duration where "deferredRespawnInterval = 30 * second"
definition concurrencyCapRetryDelay :: duration where "concurrencyCapRetryDelay = 60 * second"
definition maxConsecutiveRedrives :: int where "maxConsecutiveRedrives = 3"
definition transientRedriveBudget :: int where "transientRedriveBudget = 3"
definition jobCacheTTL :: duration where "jobCacheTTL = 10 * second"
definition jobLookupDeniedInterval :: duration where "jobLookupDeniedInterval = minute"
definition parkWriteAttempts :: nat where "parkWriteAttempts = 3"
definition parkWriteRetryDelay :: duration where "parkWriteRetryDelay = 200 * 1000000"
definition triggerScopeRefLen :: nat where "triggerScopeRefLen = 8"

section \<open>Primitive steps\<close>

definition in_lease :: "('w leaseManager, 'a) state \<Rightarrow> ('w taskEventHandler, 'a) state" where
  "in_lease x = State (\<lambda>h. case run_state x (th_lease h) of (a, m) \<Rightarrow> (a, h\<lparr>th_lease := m\<rparr>))"

definition outside :: "('w, 'a) state \<Rightarrow> ('w taskEventHandler, 'a) state" where
  "outside x = in_lease (in_world x)"

definition clock :: "'w handler_env \<Rightarrow> ('w taskEventHandler, go_time) state" where
  "clock env = outside (he_now env)"

definition count :: "string \<Rightarrow> string list \<Rightarrow> ('w taskEventHandler, unit) state" where
  "count metric labels = modify (\<lambda>h. h\<lparr>th_counts := th_counts h @ [(metric, labels)]\<rparr>)"

definition task_event :: "string \<Rightarrow> ('w taskEventHandler, unit) state" where
  "task_event label = count ''task_events'' [label]"

definition ctxDone :: "'w handler_env \<Rightarrow> ('w taskEventHandler, bool) state" where
  "ctxDone env = gets (\<lambda>h. he_ctxDone env (lm_world (th_lease h)))"

definition on_store :: "(TaskStore \<Rightarrow> TaskStore) \<Rightarrow> ('w taskEventHandler, unit) state" where
  "on_store f = modify (\<lambda>h. h\<lparr>th_taskStore := f (th_taskStore h)\<rparr>)"

section \<open>Deferred respawns\<close>

text \<open>An epoch is a 64-bit counter.\<close>

definition epoch_of :: "(string, int) gomap \<Rightarrow> string \<Rightarrow> int" where
  "epoch_of m tid = (case map_of m tid of None \<Rightarrow> 0 | Some e \<Rightarrow> e)"

definition bump :: "int \<Rightarrow> int" where
  "bump e = (e + 1) mod 2 ^ 64"

definition removeDeferredEntry :: "string \<Rightarrow> ('w taskEventHandler, unit) state" where
  "removeDeferredEntry tid = modify (\<lambda>h. h\<lparr>
     th_deferredRespawns := AList.delete tid (th_deferredRespawns h),
     th_queuedAtStamps := AList.delete tid (th_queuedAtStamps h),
     th_deferredEpochs := AList.update tid (bump (epoch_of (th_deferredEpochs h) tid)) (th_deferredEpochs h)\<rparr>)"

definition clearQueuedAtStampIfNotDeferred :: "string \<Rightarrow> ('w taskEventHandler, unit) state" where
  "clearQueuedAtStampIfNotDeferred tid = modify (\<lambda>h.
     if map_of (th_deferredRespawns h) tid = None
     then h\<lparr>th_queuedAtStamps := AList.delete tid (th_queuedAtStamps h)\<rparr> else h)"

definition claimInvalidated :: "deferredClaim option \<Rightarrow> 'w taskEventHandler \<Rightarrow> bool" where
  "claimInvalidated claim h =
     (case claim of None \<Rightarrow> False | Some c \<Rightarrow> epoch_of (th_deferredEpochs h) (dc_id c) \<noteq> dc_epoch c)"

definition claimStillValid :: "deferredClaim option \<Rightarrow> ('w taskEventHandler, bool) state" where
  "claimStillValid claim = gets (\<lambda>h. case claim of None \<Rightarrow> True | Some _ \<Rightarrow> \<not> claimInvalidated claim h)"

definition recordClaimInvalidated :: "('w taskEventHandler, unit) state" where
  "recordClaimInvalidated = task_event ''deferred_claim_invalidated''"

definition storeGraceWindowDeferral ::
  "Task \<Rightarrow> AgentConfiguration option \<Rightarrow> go_time \<Rightarrow> deferredClaim option \<Rightarrow> ('w taskEventHandler, unit) state" where
  "storeGraceWindowDeferral task config retryAfter claim =
     (case config of
        None \<Rightarrow> ret ()
      | Some c \<Rightarrow> modify (\<lambda>h.
          if claimInvalidated claim h then h
          else h\<lparr>th_deferredRespawns := AList.update (TaskIdentifier task)
                   \<lparr>de_task = task, de_config = c, de_retryAfter = retryAfter\<rparr> (th_deferredRespawns h)\<rparr>))"

definition queuedAtFromView :: "'w handler_env \<Rightarrow> string \<Rightarrow> ('w taskEventHandler, string) state" where
  "queuedAtFromView env tid = gets (\<lambda>h.
     case th_view h of
       None \<Rightarrow> ''''
     | Some v \<Rightarrow>
         (case view_Get tid v of
            None \<Rightarrow> ''''
          | Some t \<Rightarrow> (case lib_String (he_lib env) (Frontmatter t) ''queued_at'' of None \<Rightarrow> '''' | Some q \<Rightarrow> q)))"

definition queuedAtStamp :: "string \<Rightarrow> ('w taskEventHandler, string) state" where
  "queuedAtStamp tid = gets (\<lambda>h. case map_of (th_queuedAtStamps h) tid of None \<Rightarrow> '''' | Some v \<Rightarrow> v)"

definition recordQueuedAtStamp :: "string \<Rightarrow> string \<Rightarrow> ('w taskEventHandler, unit) state" where
  "recordQueuedAtStamp tid value = modify (\<lambda>h. h\<lparr>th_queuedAtStamps := AList.update tid value (th_queuedAtStamps h)\<rparr>)"

text \<open>A task that carries no queue stamp yet: the view's, the handler's own, or a new one that is published.\<close>

definition stampQueueEntryFresh :: "'w handler_env \<Rightarrow> Task \<Rightarrow> ('w taskEventHandler, Task) state" where
  "stampQueueEntryFresh env task =
     do { fromView \<leftarrow> queuedAtFromView env (TaskIdentifier task);
          if fromView \<noteq> [] then ret (taskWithFrontmatterValue task ''queued_at'' (FmString fromView))
          else
            do { stamped \<leftarrow> queuedAtStamp (TaskIdentifier task);
                 if stamped \<noteq> [] then ret (taskWithFrontmatterValue task ''queued_at'' (FmString stamped))
                 else
                   do { now \<leftarrow> clock env;
                        recordQueuedAtStamp (TaskIdentifier task) (formatLeaseUntil now);
                        _ \<leftarrow> outside (rp_QueueEntry (he_publisher env) task (formatLeaseUntil now));
                        ret (taskWithFrontmatterValue task ''queued_at'' (FmString (formatLeaseUntil now))) } } }"

definition stampQueueEntry :: "'w handler_env \<Rightarrow> Task \<Rightarrow> ('w taskEventHandler, Task) state" where
  "stampQueueEntry env task =
     (case lib_String (he_lib env) (Frontmatter task) ''queued_at'' of
        Some v \<Rightarrow> if v \<noteq> '''' then ret task else stampQueueEntryFresh env task
      | None \<Rightarrow> stampQueueEntryFresh env task)"

definition admissionPriority :: "'w handler_env \<Rightarrow> Task \<Rightarrow> go_time" where
  "admissionPriority env task =
     (case lib_JobStartedAt (he_lib env) (Frontmatter task) of
        Inl _ \<Rightarrow> 0
      | Inr startedAt \<Rightarrow>
          if is_zero startedAt then 0
          else (case lib_String (he_lib env) (Frontmatter task) ''queued_at'' of
              None \<Rightarrow> startedAt
            | Some v \<Rightarrow>
                if v \<noteq> '''' then (case he_parseDateTime env v of Some queuedAt \<Rightarrow> queuedAt | None \<Rightarrow> startedAt)
                else startedAt))"

section \<open>Job lookups\<close>

definition jobNamespace :: "'w handler_env \<Rightarrow> AgentConfiguration option \<Rightarrow> go_error + string" where
  "jobNamespace env config =
     (case config of None \<Rightarrow> Inr (he_namespace env)
      | Some c \<Rightarrow> ResolveJobNamespace (he_namespace env) (ac_JobNamespace c))"

definition jobNamespaceForTask :: "'w handler_env \<Rightarrow> AgentConfiguration option \<Rightarrow> go_error + string" where
  "jobNamespaceForTask env config =
     (case jobNamespace env config of Inl e \<Rightarrow> Inl (Wrapped ''resolve job namespace'' e) | Inr n \<Rightarrow> Inr n)"

definition rejectInvalidJobNamespace ::
  "'w handler_env \<Rightarrow> AgentConfiguration option \<Rightarrow> ('w taskEventHandler, bool) state" where
  "rejectInvalidJobNamespace env config =
     (case config of
        None \<Rightarrow> ret False
      | Some c \<Rightarrow>
          (case ResolveJobNamespace (he_namespace env) (ac_JobNamespace c) of
             Inl _ \<Rightarrow> do { task_event ''error''; ret True }
           | Inr _ \<Rightarrow> ret False))"

definition spawnedNamespace :: "'w handler_env \<Rightarrow> AgentConfiguration \<Rightarrow> string" where
  "spawnedNamespace env config =
     (case ResolveJobNamespace (he_namespace env) (ac_JobNamespace config) of
        Inl _ \<Rightarrow> ''unresolved'' | Inr n \<Rightarrow> n)"

definition assigneeOf :: "AgentConfiguration option \<Rightarrow> string" where
  "assigneeOf config = (case config of None \<Rightarrow> '''' | Some c \<Rightarrow> ac_Assignee c)"

definition spawnGenFor :: "string \<Rightarrow> ('w taskEventHandler, int) state" where
  "spawnGenFor assignee = gets (\<lambda>h. epoch_of (th_spawnGens h) assignee)"

definition bumpSpawnGen :: "string \<Rightarrow> ('w taskEventHandler, unit) state" where
  "bumpSpawnGen assignee = modify (\<lambda>h.
     h\<lparr>th_spawnGens := AList.update assignee (bump (epoch_of (th_spawnGens h) assignee)) (th_spawnGens h)\<rparr>)"

definition activeJobsFor ::
  "'w handler_env \<Rightarrow> string \<Rightarrow> string \<Rightarrow> ('w taskEventHandler, go_error + (string, bool) gomap) state" where
  "activeJobsFor env namespace assignee =
     do { cache \<leftarrow> gets th_jobCache;
          gen \<leftarrow> spawnGenFor assignee;
          now \<leftarrow> clock env;
          let cacheKey = namespace @ ''/'' @ assignee;
          let hit = (case cache of
              None \<Rightarrow> None
            | Some m \<Rightarrow>
                (case map_of m cacheKey of
                   None \<Rightarrow> None
                 | Some cached \<Rightarrow>
                     if ca_gen cached = gen \<and> time_sub now (ca_readAt cached) < jobCacheTTL
                     then Some (ca_active cached) else None));
          case hit of
            Some active \<Rightarrow> ret (Inr active)
          | None \<Rightarrow>
              do { listed \<leftarrow> outside (js_ListActiveJobs (he_jobSpawner env) namespace assignee);
                   case listed of
                     Inl e \<Rightarrow> ret (Inl e)
                   | Inr active \<Rightarrow>
                       do { (case cache of
                               None \<Rightarrow> ret ()
                             | Some _ \<Rightarrow> modify (\<lambda>h. h\<lparr>th_jobCache := map_option (AList.update cacheKey
                                 \<lparr>ca_active = active, ca_gen = gen, ca_readAt = now\<rparr>) (th_jobCache h)\<rparr>));
                            ret (Inr active) } } }"

definition isJobActive ::
  "'w handler_env \<Rightarrow> Task \<Rightarrow> AgentConfiguration option \<Rightarrow> ('w taskEventHandler, go_error + bool) state" where
  "isJobActive env task config =
     (case jobNamespaceForTask env config of
        Inl e \<Rightarrow> ret (Inl e)
      | Inr namespace \<Rightarrow>
          if assigneeOf config = '''' then
            do { active \<leftarrow> outside (js_IsJobActive (he_jobSpawner env) namespace (TaskIdentifier task));
                 ret (case active of
                        Inl e \<Rightarrow> Inl (wrapJobLookupError e '''' namespace ''check active job'')
                      | Inr b \<Rightarrow> Inr b) }
          else
            do { activeSet \<leftarrow> activeJobsFor env namespace (assigneeOf config);
                 ret (case activeSet of
                        Inl e \<Rightarrow> Inl (wrapJobLookupError e (assigneeOf config) namespace ''check active job'')
                      | Inr m \<Rightarrow> Inr (map_of m (TaskIdentifier task) = Some True)) })"

definition logJobLookupDenied :: "'w handler_env \<Rightarrow> string \<Rightarrow> string \<Rightarrow> ('w taskEventHandler, unit) state" where
  "logJobLookupDenied env assignee namespace =
     do { now \<leftarrow> clock env;
          modify (\<lambda>h.
            (let key = assignee @ ''/'' @ namespace in
             case map_of (th_jobLookupDeniedLoggedAt h) key of
               Some loggedAt \<Rightarrow>
                 if time_sub now loggedAt < jobLookupDeniedInterval then h
                 else h\<lparr>th_jobLookupDeniedLoggedAt := AList.update key now (th_jobLookupDeniedLoggedAt h)\<rparr>
             | None \<Rightarrow> h\<lparr>th_jobLookupDeniedLoggedAt := AList.update key now (th_jobLookupDeniedLoggedAt h)\<rparr>)) }"

definition handleJobLookupDenied :: "'w handler_env \<Rightarrow> go_error \<Rightarrow> ('w taskEventHandler, bool) state" where
  "handleJobLookupDenied env err =
     (case as_denied err of
        None \<Rightarrow> ret False
      | Some (_, assignee, namespace) \<Rightarrow>
          do { count ''job_lookup_denied'' [assignee, namespace];
               logJobLookupDenied env assignee namespace;
               ret True })"

section \<open>The vault index\<close>

definition indexTerminalIDs :: "TaskIndex option \<Rightarrow> string list" where
  "indexTerminalIDs index =
     (case index of
        None \<Rightarrow> []
      | Some ix \<Rightarrow> foldl (\<lambda>terminal item.
          if IsTerminalStatus (ti_Status item) \<or> IsTerminal (ti_Phase item) then List.insert (ti_ID item) terminal
          else removeAll (ti_ID item) terminal) [] (ix_Items ix))"

definition vaultIndexFor :: "'w handler_env \<Rightarrow> ('w taskEventHandler, go_error + TaskIndex option) state" where
  "vaultIndexFor env =
     (case he_indexClient env of
        None \<Rightarrow> ret (Inr None)
      | Some read \<Rightarrow>
          do { cache \<leftarrow> gets th_indexCache;
               case cache of
                 None \<Rightarrow> outside read
               | Some (Some loaded) \<Rightarrow> ret loaded
               | Some None \<Rightarrow>
                   do { index \<leftarrow> outside read;
                        modify (\<lambda>h. h\<lparr>th_indexCache := Some (Some index)\<rparr>);
                        ret index } })"

definition indexGateSuppresses :: "'w handler_env \<Rightarrow> Task \<Rightarrow> ('w taskEventHandler, bool) state" where
  "indexGateSuppresses env task =
     do { index \<leftarrow> vaultIndexFor env;
          case index of
            Inl _ \<Rightarrow> ret False
          | Inr ix \<Rightarrow>
              if TaskIdentifier task \<notin> set (indexTerminalIDs ix) then ret False
              else do { count ''reconcile_refused'' [''index_terminal'']; ret True } }"

definition finalSpawnRefusals ::
  "'w handler_env \<Rightarrow> Task \<Rightarrow> deferredClaim option \<Rightarrow> ('w taskEventHandler, bool) state" where
  "finalSpawnRefusals env task claim =
     do { valid \<leftarrow> claimStillValid claim;
          if \<not> valid then do { recordClaimInvalidated; ret True }
          else indexGateSuppresses env task }"

section \<open>The lease manager\<close>

text \<open>
  The handler builds its lease manager once, from values that never change, so the result of the
  construction is a function of the environment: an error, or what the manager runs with together
  with the ref client behind the shared stores.
\<close>

definition createLeaseManager :: "'w handler_env \<Rightarrow> go_error + ('w lease_env \<times> 'w ClaimRefClient)" where
  "createLeaseManager env =
     (case he_refClientFactory env of
        None \<Rightarrow> Inl (PlainError ''claim ref client factory is nil'')
      | Some None \<Rightarrow> Inl (PlainError ''claim ref client factory returned nil'')
      | Some (Some refClient) \<Rightarrow>
          (case he_claimClientFactory env of
             None \<Rightarrow> Inl (PlainError ''claim client factory is nil'')
           | Some None \<Rightarrow> Inl (PlainError ''claim client factory returned nil'')
           | Some (Some claimClient) \<Rightarrow>
               (case he_jobControl env of
                  None \<Rightarrow> Inl (PlainError ''claim job control is nil'')
                | Some jobControl \<Rightarrow>
                    if he_cluster env = '''' then
                      Inl (Wrapped ''create claim lease manager'' (PlainError ''lease manager cluster must not be empty''))
                    else Inr (\<lparr>le_cluster = he_cluster env, le_claimClient = claimClient, le_jobControl = jobControl,
                               le_currentDateTime = he_now env, le_ctxDone = he_ctxDone env\<rparr>, refClient))))"

definition leaseManager_of :: "'w handler_env \<Rightarrow> go_error + ('w lease_env \<times> 'w ClaimRefClient)" where
  "leaseManager_of env =
     (if \<not> TakesClaim (he_claimMode env) then Inl (PlainError ''claim mode takes no claim: no lease manager constructed'')
      else createLeaseManager env)"

text \<open>
  A release walks the held claims of the task, unless a spawn of that task is between its claim and
  its Job; errors are only logged.
\<close>

definition releaseTaskClaimLockedWith ::
  "'w handler_env \<Rightarrow> string \<Rightarrow> ('w lease_env \<Rightarrow> string \<Rightarrow> ('w leaseManager, claim_error option) state) \<Rightarrow>
   ('w taskEventHandler, unit) state" where
  "releaseTaskClaimLockedWith env tid release =
     do { pending \<leftarrow> gets (\<lambda>h. tid \<in> set (th_spawnPending h));
          if pending then ret ()
          else
            (case leaseManager_of env of
               Inl _ \<Rightarrow> ret ()
             | Inr (lenv, _) \<Rightarrow>
                 do { rows \<leftarrow> gets (\<lambda>h. HeldClaims (lm_held (th_lease h)));
                      for_each rows (\<lambda>held.
                        if HC_TaskID held \<noteq> tid then ret ()
                        else do { _ \<leftarrow> in_lease (release lenv (HC_Key held)); ret () }) }) }"

definition releaseTaskClaimLocked :: "'w handler_env \<Rightarrow> string \<Rightarrow> ('w taskEventHandler, unit) state" where
  "releaseTaskClaimLocked env tid = releaseTaskClaimLockedWith env tid lm_Release"

definition ReleaseTaskClaim :: "'w handler_env \<Rightarrow> string \<Rightarrow> ('w taskEventHandler, unit) state" where
  "ReleaseTaskClaim env tid =
     (if he_claimMode env = ClaimModeOff then ret () else releaseTaskClaimLocked env tid)"

definition markSpawnPending :: "string \<Rightarrow> ('w taskEventHandler, unit) state" where
  "markSpawnPending tid = modify (\<lambda>h. h\<lparr>th_spawnPending := List.insert tid (th_spawnPending h)\<rparr>)"

definition clearSpawnPending :: "string \<Rightarrow> ('w taskEventHandler, unit) state" where
  "clearSpawnPending tid = modify (\<lambda>h. h\<lparr>th_spawnPending := removeAll tid (th_spawnPending h)\<rparr>)"

section \<open>The success record\<close>

definition recurringCadences :: "(string, duration) gomap" where
  "recurringCadences =
     [(''daily'', 24 * hour), (''weekdays'', 24 * hour), (''weekly'', 7 * 24 * hour),
      (''monthly'', 30 * 24 * hour), (''quarterly'', 90 * 24 * hour)]"

definition successRecordRetention :: duration where
  "successRecordRetention =
     foldl (\<lambda>longest (_, period). if period > longest then period else longest) taskRerunWindow recurringCadences"

definition successStore :: "'w handler_env \<Rightarrow> 'w SuccessStore option" where
  "successStore env =
     (case he_successStore env of
        Some store \<Rightarrow> Some store
      | None \<Rightarrow>
          if \<not> TakesClaim (he_claimMode env) then None
          else (case he_refClientFactory env of
              Some (Some refClient) \<Rightarrow> Some
                \<lparr>ss_Record = (\<lambda>taskID phase completedAt. successRecord refClient successRecordRetention taskID phase completedAt),
                 ss_Lookup = (\<lambda>taskID phase. successLookup refClient (he_now env) (he_parseDateTime env) taskID phase),
                 ss_Snapshot = successSnapshot refClient (he_now env) (he_parseDateTime env)\<rparr>
            | _ \<Rightarrow> None))"

definition recordTaskSuccess ::
  "'w handler_env \<Rightarrow> string \<Rightarrow> string \<Rightarrow> go_time \<Rightarrow> ('w taskEventHandler, unit) state" where
  "recordTaskSuccess env tid phase completedAt =
     (case successStore env of
        None \<Rightarrow> ret ()
      | Some store \<Rightarrow> do { _ \<leftarrow> outside (ss_Record store tid phase completedAt); ret () })"

definition ReleaseTaskClaimAfterSuccess ::
  "'w handler_env \<Rightarrow> string \<Rightarrow> string \<Rightarrow> go_time \<Rightarrow> ('w taskEventHandler, unit) state" where
  "ReleaseTaskClaimAfterSuccess env tid phase completedAt =
     do { recordTaskSuccess env tid phase completedAt;
          if he_claimMode env = ClaimModeOff then ret ()
          else releaseTaskClaimLockedWith env tid (\<lambda>lenv key. ReleaseAfterSuccess lenv key completedAt) }"

text \<open>The pass-scoped snapshot of the shared successes, loaded on first use.\<close>

definition successCacheLookup ::
  "'w SuccessStore \<Rightarrow> string \<Rightarrow> string \<Rightarrow> ('w taskEventHandler, go_time option result) state" where
  "successCacheLookup store tid phase =
     do { cache \<leftarrow> gets th_successCache;
          snapshot \<leftarrow> (case cache of
              Some (Some loaded) \<Rightarrow> ret loaded
            | _ \<Rightarrow> do { loaded \<leftarrow> outside (ss_Snapshot store);
                        modify (\<lambda>h. h\<lparr>th_successCache := Some (Some loaded)\<rparr>);
                        ret loaded });
          ret (case snapshot of
                 Inl e \<Rightarrow> Inl e
               | Inr m \<Rightarrow> Inr (case map_of m tid of
                     None \<Rightarrow> None
                   | Some phases \<Rightarrow> map_of phases (RedriveStreakPhaseComponent phase))) }"

definition sharedSuccess ::
  "'w handler_env \<Rightarrow> string \<Rightarrow> string \<Rightarrow> ('w taskEventHandler, go_time option) state" where
  "sharedSuccess env tid phase =
     (case successStore env of
        None \<Rightarrow> ret None
      | Some store \<Rightarrow>
          do { cache \<leftarrow> gets th_successCache;
               found \<leftarrow> (if cache \<noteq> None then successCacheLookup store tid phase
                         else outside (ss_Lookup store tid phase));
               ret (case found of Inl _ \<Rightarrow> None | Inr at \<Rightarrow> at) })"

definition lastSuccess ::
  "'w handler_env \<Rightarrow> string \<Rightarrow> string \<Rightarrow> ('w taskEventHandler, SucceededJob option) state" where
  "lastSuccess env tid phase =
     do { remembered \<leftarrow> gets (\<lambda>h. LastSucceeded tid (th_taskStore h));
          let memory = (case remembered of
              Some j \<Rightarrow> if sj_Phase j \<noteq> phase then None else Some j | None \<Rightarrow> None);
          shared \<leftarrow> sharedSuccess env tid phase;
          case (memory, shared) of
            (Some m, Some s) \<Rightarrow>
              if s > sj_CompletedAt m then
                do { on_store (MarkSucceeded tid phase s); ret (Some \<lparr>sj_Phase = phase, sj_CompletedAt = s\<rparr>) }
              else ret (Some m)
          | (None, Some s) \<Rightarrow>
              do { on_store (MarkSucceeded tid phase s); ret (Some \<lparr>sj_Phase = phase, sj_CompletedAt = s\<rparr>) }
          | (Some m, None) \<Rightarrow> ret (Some m)
          | (None, None) \<Rightarrow> ret None }"

text \<open>Weekdays count from Sunday; the model reads an instant in UTC, and its first day was a Monday.\<close>

definition day :: duration where "day = 24 * hour"

definition weekday :: "go_time \<Rightarrow> int" where
  "weekday t = (t div day + 1) mod 7"

function skipWeekend :: "go_time \<Rightarrow> go_time" where
  "skipWeekend next = (if weekday next = 6 \<or> weekday next = 0 then skipWeekend (next + day) else next)"
  by pat_completeness auto

lemma weekday_add_day: "weekday (t + day) = (weekday t + 1) mod 7"
proof -
  have "(t + day) div day = t div day + 1" by (simp add: day_def hour_def minute_def second_def)
  then show ?thesis by (simp add: weekday_def mod_simps)
qed

termination skipWeekend
  by (relation "measure (\<lambda>t. if weekday t = 6 then 2 else if weekday t = 0 then 1 else 0)")
     (auto simp: weekday_add_day)

declare skipWeekend.simps [simp del]

definition recurringToken :: "'w handler_env \<Rightarrow> frontmatter \<Rightarrow> string option" where
  "recurringToken env fm =
     (case lib_String (he_lib env) fm ''recurring'' of
        None \<Rightarrow> None
      | Some token \<Rightarrow>
          (let trimmed = to_lower (he_unicode env) (trim_space (he_unicode env) token) in
           if trimmed = '''' \<or> trimmed = ''<nil>'' then None
           else if map_of recurringCadences trimmed = None then None
           else Some trimmed))"

definition recurringPeriod :: "'w handler_env \<Rightarrow> frontmatter \<Rightarrow> duration option" where
  "recurringPeriod env fm =
     (case recurringToken env fm of None \<Rightarrow> None | Some token \<Rightarrow> map_of recurringCadences token)"

definition recurringNextRun :: "'w handler_env \<Rightarrow> frontmatter \<Rightarrow> go_time \<Rightarrow> go_time option" where
  "recurringNextRun env fm completedAt =
     (case recurringToken env fm of
        None \<Rightarrow> None
      | Some token \<Rightarrow>
          (let next = completedAt + (case map_of recurringCadences token of None \<Rightarrow> 0 | Some d \<Rightarrow> d) in
           Some (if token = ''weekdays'' then skipWeekend next else next)))"

definition recentlySucceeded :: "'w handler_env \<Rightarrow> Task \<Rightarrow> ('w taskEventHandler, bool) state" where
  "recentlySucceeded env task =
     do { succeeded \<leftarrow> lastSuccess env (TaskIdentifier task) (taskPhase (he_lib env) task);
          case succeeded of
            None \<Rightarrow> ret False
          | Some s \<Rightarrow>
              do { now \<leftarrow> clock env;
                   let elapsed = max 0 (time_sub now (sj_CompletedAt s));
                   expired \<leftarrow> (case recurringNextRun env (Frontmatter task) (sj_CompletedAt s) of
                       Some next \<Rightarrow> do { now2 \<leftarrow> clock env; ret (\<not> now2 < next) }
                     | None \<Rightarrow> ret (elapsed \<ge> defaultRespawnGracePeriod));
                   if expired then ret False
                   else do { task_event ''skipped_recent_success''; ret True } } }"

definition parkSucceededWithoutPhaseMove :: "'w handler_env \<Rightarrow> Task \<Rightarrow> ('w taskEventHandler, bool) state" where
  "parkSucceededWithoutPhaseMove env task =
     do { view \<leftarrow> gets th_view;
          case view of
            None \<Rightarrow> ret False
          | Some v \<Rightarrow>
              (case view_Get (TaskIdentifier task) v of
                 None \<Rightarrow> ret False
               | Some current \<Rightarrow>
                   do { succeeded \<leftarrow> lastSuccess env (TaskIdentifier current) (taskPhase (he_lib env) current);
                        case succeeded of
                          None \<Rightarrow> ret False
                        | Some s \<Rightarrow>
                            do { now \<leftarrow> clock env;
                                 if max 0 (time_sub now (sj_CompletedAt s)) < defaultRespawnGracePeriod then ret False
                                 else
                                   do { published \<leftarrow> gets (\<lambda>h. ParkPublishedAt (TaskIdentifier task) (sj_CompletedAt s) (th_taskStore h));
                                        case published of
                                          Some publishedAt \<Rightarrow> ret (time_sub now publishedAt < defaultRespawnGracePeriod)
                                        | None \<Rightarrow>
                                            do { err \<leftarrow> outside (rp_ParkSucceeded (he_publisher env) current);
                                                 case err of
                                                   Some _ \<Rightarrow> ret True
                                                 | None \<Rightarrow>
                                                     do { task_event ''parked_succeeded'';
                                                          on_store (MarkParkPublished (TaskIdentifier task) (sj_CompletedAt s) now);
                                                          ret True } } } } }) }"

definition suppressOrPark :: "'w handler_env \<Rightarrow> Task \<Rightarrow> ('w taskEventHandler, bool) state" where
  "suppressOrPark env task =
     do { recent \<leftarrow> recentlySucceeded env task;
          if recent then ret True
          else if recurringPeriod env (Frontmatter task) \<noteq> None then ret False
          else parkSucceededWithoutPhaseMove env task }"

definition recordTaskRerun :: "'w handler_env \<Rightarrow> Task \<Rightarrow> ('w taskEventHandler, unit) state" where
  "recordTaskRerun env task =
     do { succeeded \<leftarrow> gets (\<lambda>h. LastSucceeded (TaskIdentifier task) (th_taskStore h));
          case succeeded of
            None \<Rightarrow> ret ()
          | Some s \<Rightarrow>
              if sj_Phase s \<noteq> taskPhase (he_lib env) task then ret ()
              else
                do { now \<leftarrow> clock env;
                     let elapsed = time_sub now (sj_CompletedAt s);
                     if elapsed < 0 \<or> elapsed \<ge> taskRerunWindow then ret ()
                     else count ''task_reruns'' [lib_TaskType (he_lib env) (Frontmatter task)] } }"

end
