(* ===== verification/Handler_Spawn.thy ===== *)
theory Handler_Spawn
  imports Handler_Base
begin

text \<open>
  The task event handler, second part: the gates between a task and its Job (\<^verbatim>\<open>task_event_handler_redrive.go\<close>,
  \<^verbatim>\<open>task_event_handler_trigger_refusal.go\<close>, \<^verbatim>\<open>concurrency_admission.go\<close>, \<^verbatim>\<open>concurrency_capacity.go\<close>,
  \<^verbatim>\<open>job_lookup_denied.go\<close>, \<^verbatim>\<open>task_event_handler_current_job.go\<close>, \<^verbatim>\<open>task_event_handler_claim_probe.go\<close>,
  \<^verbatim>\<open>claim_wiring.go\<close>) and the funnel they form, \<open>spawnIfNeededClaimed\<close> of \<^verbatim>\<open>task_event_handler.go\<close>.
\<close>

section \<open>The redrive streak\<close>

definition brokenRedriveReasons :: "string list" where
  "brokenRedriveReasons = [ZombieReasonPodCrashNoStdout, ZombieReasonPodOOMKilled, ZombieReasonTypeMismatch]"

datatype redrive_class = redriveClassUnknown | redriveClassBroken | redriveClassTransient

definition allSameRedriveReason :: "string list \<Rightarrow> bool" where
  "allSameRedriveReason reasons = list_all (\<lambda>reason. reason = hd reasons) (tl reasons)"

definition classifyRedriveReasons :: "string list \<Rightarrow> int \<Rightarrow> redrive_class" where
  "classifyRedriveReasons reasons n =
     (if n < 1 \<or> reasons = [] then redriveClassUnknown
      else
        (let window = min (nat n) (length reasons); recent = drop (length reasons - window) reasons in
         if list_all (\<lambda>reason. reason = RedriveReasonUnknown) recent then redriveClassUnknown
         else if int (length recent) \<ge> maxConsecutiveRedrives \<and> allSameRedriveReason recent \<and>
                 hd recent \<in> set brokenRedriveReasons
         then redriveClassBroken
         else redriveClassTransient))"

definition redriveStreakExpired :: "redriveStreak \<Rightarrow> go_time \<Rightarrow> bool" where
  "redriveStreakExpired streak now =
     (if is_zero (rs_since streak) then False
      else \<not> now < rs_since streak + RedriveStreakLeaseDuration)"

definition inMemoryRedriveCount :: "'w handler_env \<Rightarrow> string \<Rightarrow> string \<Rightarrow> ('w taskEventHandler, int) state" where
  "inMemoryRedriveCount env tid phase =
     do { streak \<leftarrow> gets (\<lambda>h. map_of (th_redriveStreaks h) tid);
          case streak of
            None \<Rightarrow> ret 0
          | Some s \<Rightarrow>
              if rs_phase s \<noteq> phase then ret 0
              else do { now \<leftarrow> clock env;
                        ret (if redriveStreakExpired s now then 0 else rs_count s) } }"

text \<open>The shared stores are behind the lease manager; in mode off there are none.\<close>

definition redriveStreakStore :: "'w handler_env \<Rightarrow> go_error + 'w ClaimRefClient option" where
  "redriveStreakStore env =
     (if he_claimMode env = ClaimModeOff then Inr None
      else (case leaseManager_of env of Inl e \<Rightarrow> Inl e | Inr (_, refClient) \<Rightarrow> Inr (Some refClient)))"

definition redriveReasonStore :: "'w handler_env \<Rightarrow> go_error + 'w ClaimRefClient option" where
  "redriveReasonStore env =
     (if he_claimMode env = ClaimModeOff then Inr None
      else (case leaseManager_of env of Inl e \<Rightarrow> Inl e | Inr (_, refClient) \<Rightarrow> Inr (Some refClient)))"

definition phase_entry :: "(string, (string, 'a) gomap) gomap \<Rightarrow> string \<Rightarrow> string \<Rightarrow> 'a \<Rightarrow> 'a" where
  "phase_entry m tid phase dflt =
     (case map_of m tid of
        None \<Rightarrow> dflt
      | Some phases \<Rightarrow> (case map_of phases (RedriveStreakPhaseComponent phase) of None \<Rightarrow> dflt | Some x \<Rightarrow> x))"

definition redriveStreakCount ::
  "'w handler_env \<Rightarrow> 'w ClaimRefClient \<Rightarrow> string \<Rightarrow> string \<Rightarrow> ('w taskEventHandler, nat result) state" where
  "redriveStreakCount env store tid phase =
     do { cache \<leftarrow> gets th_streakCache;
          case cache of
            None \<Rightarrow> outside (streakCount store (he_now env) (he_parseDateTime env) tid phase)
          | Some loaded \<Rightarrow>
              do { snapshot \<leftarrow> (case loaded of
                       Some s \<Rightarrow> ret s
                     | None \<Rightarrow> do { s \<leftarrow> outside (streakSnapshot store (he_now env) (he_parseDateTime env));
                                    modify (\<lambda>h. h\<lparr>th_streakCache := Some (Some s)\<rparr>);
                                    ret s });
                   ret (case snapshot of Inl e \<Rightarrow> Inl e | Inr m \<Rightarrow> Inr (phase_entry m tid phase 0)) } }"

definition redriveReasonsFor ::
  "'w handler_env \<Rightarrow> string \<Rightarrow> string \<Rightarrow> ('w taskEventHandler, string list) state" where
  "redriveReasonsFor env tid phase =
     (case redriveReasonStore env of
        Inl _ \<Rightarrow> ret []
      | Inr None \<Rightarrow> ret []
      | Inr (Some store) \<Rightarrow>
          do { cache \<leftarrow> gets th_reasonCache;
               reasons \<leftarrow> (case cache of
                   None \<Rightarrow> outside (reasonReasons store tid phase)
                 | Some loaded \<Rightarrow>
                     do { snapshot \<leftarrow> (case loaded of
                              Some s \<Rightarrow> ret s
                            | None \<Rightarrow> do { s \<leftarrow> outside (reasonSnapshot store);
                                           modify (\<lambda>h. h\<lparr>th_reasonCache := Some (Some s)\<rparr>);
                                           ret s });
                          ret (case snapshot of Inl e \<Rightarrow> Inl e | Inr m \<Rightarrow> Inr (phase_entry m tid phase [])) });
               ret (case reasons of Inl _ \<Rightarrow> [] | Inr rs \<Rightarrow> rs) })"

definition abortReasonForClass :: "redrive_class \<Rightarrow> string" where
  "abortReasonForClass class =
     (if class = redriveClassBroken then ''capped:broken-signature'' else ''capped:transient-retries-exhausted'')"

definition abortRedrive :: "'w handler_env \<Rightarrow> Task \<Rightarrow> string \<Rightarrow> int \<Rightarrow> ('w taskEventHandler, unit) state" where
  "abortRedrive env task reason streak =
     do { _ \<leftarrow> outside (rp_Abort (he_publisher env) task reason streak); ret () }"

text \<open>The streak that counts: a readable shared count replaces the one in memory.\<close>

definition effectiveStreak :: "'w handler_env \<Rightarrow> string \<Rightarrow> string \<Rightarrow> ('w taskEventHandler, int) state" where
  "effectiveStreak env tid phase =
     do { memory \<leftarrow> inMemoryRedriveCount env tid phase;
          case redriveStreakStore env of
            Inl _ \<Rightarrow> ret memory
          | Inr None \<Rightarrow> ret memory
          | Inr (Some store) \<Rightarrow>
              do { stored \<leftarrow> redriveStreakCount env store tid phase;
                   ret (case stored of Inl _ \<Rightarrow> memory | Inr n \<Rightarrow> int n) } }"

definition redriveStreakCapped :: "'w handler_env \<Rightarrow> Task \<Rightarrow> ('w taskEventHandler, bool) state" where
  "redriveStreakCapped env task =
     (let tid = TaskIdentifier task; phase = taskPhaseString (he_lib env) task in
      do { streak \<leftarrow> effectiveStreak env tid phase;
           if streak < maxConsecutiveRedrives then ret False
           else
             do { reasons \<leftarrow> redriveReasonsFor env tid phase;
                  let class = classifyRedriveReasons reasons streak;
                  if class = redriveClassTransient \<and> streak < maxConsecutiveRedrives + transientRedriveBudget then ret False
                  else
                    do { count ''redrive_capped'' [lib_TaskType (he_lib env) (Frontmatter task), phase];
                         (if class \<noteq> redriveClassUnknown
                          then abortRedrive env task (abortReasonForClass class) streak else ret ());
                         ret True } } })"

definition recordRedriveSpawn :: "'w handler_env \<Rightarrow> Task \<Rightarrow> ('w taskEventHandler, unit) state" where
  "recordRedriveSpawn env task =
     do { now \<leftarrow> clock env;
          modify (\<lambda>h.
            (let tid = TaskIdentifier task; phase = taskPhaseString (he_lib env) task;
                 streak = (case map_of (th_redriveStreaks h) tid of
                     None \<Rightarrow> 1
                   | Some prev \<Rightarrow> if rs_phase prev \<noteq> phase \<or> redriveStreakExpired prev now then 1 else rs_count prev + 1)
             in h\<lparr>th_redriveStreaks := AList.update tid \<lparr>rs_count = streak, rs_phase = phase, rs_since = now\<rparr>
                    (th_redriveStreaks h)\<rparr>)) }"

definition clearRedriveStreak :: "'w handler_env \<Rightarrow> string \<Rightarrow> ('w taskEventHandler, unit) state" where
  "clearRedriveStreak env tid =
     do { modify (\<lambda>h. h\<lparr>th_redriveStreaks := AList.delete tid (th_redriveStreaks h)\<rparr>);
          (case redriveStreakStore env of
             Inr (Some store) \<Rightarrow> do { _ \<leftarrow> outside (streakClear store tid); ret () }
           | _ \<Rightarrow> ret ());
          (case redriveReasonStore env of
             Inr (Some store) \<Rightarrow> do { _ \<leftarrow> outside (reasonClear store tid); ret () }
           | _ \<Rightarrow> ret ()) }"

section \<open>The trigger budget\<close>

definition triggerScope :: "task_lib \<Rightarrow> frontmatter \<Rightarrow> string" where
  "triggerScope L fm =
     (let phase = (case lib_Phase L fm of None \<Rightarrow> '''' | Some p \<Rightarrow> p);
          r = (case lib_String L fm ''ref'' of None \<Rightarrow> '''' | Some v \<Rightarrow> v)
      in phase @ '':'' @ take triggerScopeRefLen r)"

definition scopeChanged :: "task_lib \<Rightarrow> frontmatter \<Rightarrow> bool" where
  "scopeChanged L fm = (case lib_String L fm ''trigger_scope'' of None \<Rightarrow> False | Some stored \<Rightarrow> stored \<noteq> triggerScope L fm)"

definition triggerRefusalRecorded :: "task_lib \<Rightarrow> frontmatter \<Rightarrow> string \<Rightarrow> int \<Rightarrow> int \<Rightarrow> bool" where
  "triggerRefusalRecorded L fm scope n maxTriggers =
     (case (lib_Int L fm ''trigger_refusal_count'', lib_Int L fm ''trigger_refusal_max'', lib_String L fm ''trigger_refusal_scope'') of
        (Some recordedCount, Some recordedMax, Some recordedScope) \<Rightarrow>
          recordedCount = n \<and> recordedMax = maxTriggers \<and> recordedScope = scope
      | _ \<Rightarrow> False)"

definition recordTriggerRefusal :: "'w handler_env \<Rightarrow> Task \<Rightarrow> string \<Rightarrow> ('w taskEventHandler, go_error option) state" where
  "recordTriggerRefusal env task scope =
     (let fm = Frontmatter task; n = lib_TriggerCount (he_lib env) fm; maxTriggers = lib_MaxTriggers (he_lib env) fm in
      if triggerRefusalRecorded (he_lib env) fm scope n maxTriggers then ret None
      else do { err \<leftarrow> outside (rp_TriggerBudgetRefusal (he_publisher env) task scope n maxTriggers);
                ret (map_option (Wrapped ''publish trigger budget refusal'') err) })"

definition budgetExhausted :: "task_lib \<Rightarrow> frontmatter \<Rightarrow> bool" where
  "budgetExhausted L fm \<longleftrightarrow>
     (map_of fm ''max_triggers'' \<noteq> None \<or> lib_String L fm ''ref'' \<noteq> None) \<and> \<not> scopeChanged L fm \<and>
     lib_TriggerCount L fm \<ge> lib_MaxTriggers L fm"

definition checkTriggerBudget :: "'w handler_env \<Rightarrow> Task \<Rightarrow> ('w taskEventHandler, bool \<times> go_error option) state" where
  "checkTriggerBudget env task =
     (if budgetExhausted (he_lib env) (Frontmatter task) then
        do { task_event ''skipped_trigger_cap'';
             err \<leftarrow> recordTriggerRefusal env task (triggerScope (he_lib env) (Frontmatter task));
             ret (True, err) }
      else ret (False, None))"

definition triggerBudgetRefusesSpawn ::
  "'w handler_env \<Rightarrow> Task \<Rightarrow> ('w taskEventHandler, bool \<times> go_error option) state" where
  "triggerBudgetRefusesSpawn env task =
     do { r \<leftarrow> checkTriggerBudget env task;
          case r of
            (_, Some err) \<Rightarrow> do { task_event ''error''; ret (True, Some (triggerRefusalWriteError err)) }
          | (refused, None) \<Rightarrow> ret (refused, None) }"

definition triggerBudgetWrite :: "task_lib \<Rightarrow> frontmatter \<Rightarrow> bool \<Rightarrow> bool \<Rightarrow> int \<times> bool" where
  "triggerBudgetWrite L fm changed hasScope =
     (if changed then (1, True)
      else if \<not> hasScope then (wrap64 (lib_TriggerCount L fm + 1), True)
      else (0, False))"

definition recordTriggerSpawn :: "'w handler_env \<Rightarrow> Task \<Rightarrow> ('w taskEventHandler, go_error option) state" where
  "recordTriggerSpawn env task =
     (let fm = Frontmatter task; hasScope = lib_String (he_lib env) fm ''trigger_scope'' \<noteq> None;
          (n, useScopeWrite) = triggerBudgetWrite (he_lib env) fm (scopeChanged (he_lib env) fm) hasScope in
      if \<not> useScopeWrite then
        do { err \<leftarrow> outside (rp_IncrementTriggerCount (he_publisher env) task);
             ret (map_option (Wrapped ''publish increment trigger_count'') err) }
      else
        do { err \<leftarrow> outside (rp_SetTriggerScope (he_publisher env) task (triggerScope (he_lib env) fm) n);
             ret (map_option (Wrapped ''publish set trigger scope'') err) })"

section \<open>Concurrency\<close>

definition effectiveConcurrencyCap :: "int \<Rightarrow> int \<Rightarrow> bool \<Rightarrow> int \<times> bool" where
  "effectiveConcurrencyCap maxConcurrentJobs podQuota quotaBounded =
     (if \<not> quotaBounded then
        (if maxConcurrentJobs < 0 then (0, False) else (maxConcurrentJobs, False))
      else
        (let podQuota = (if podQuota < 0 then 0 else podQuota) in
         if maxConcurrentJobs \<le> 0 then (podQuota, True)
         else if podQuota < maxConcurrentJobs then (podQuota, True)
         else (maxConcurrentJobs, True)))"

datatype quotaBound = quotaUnbounded | quotaBounded | quotaReadFailed

definition podQuotaFor ::
  "'w handler_env \<Rightarrow> string \<Rightarrow> AgentConfiguration \<Rightarrow> ('w taskEventHandler, int \<times> quotaBound) state" where
  "podQuotaFor env namespace config =
     (case he_podQuota env of
        None \<Rightarrow> ret (0, quotaUnbounded)
      | Some podQuota \<Rightarrow>
          if ac_PriorityClassName config = '''' then ret (0, quotaUnbounded)
          else
            do { r \<leftarrow> outside (podQuota namespace (ac_PriorityClassName config));
                 case r of
                   Inl _ \<Rightarrow> do { task_event ''pod_quota_read_failed''; ret (0, quotaReadFailed) }
                 | Inr (quota, bounded) \<Rightarrow>
                     (let st = (if bounded then quotaBounded else quotaUnbounded) in
                      ret (if quota < 0 then (0, st) else (quota, st))) })"

text \<open>
  A task over the cap is parked for a later retry, unless its place in the pass was invalidated in the
  meantime or another entry for it is already parked.
\<close>

definition parkAtCap ::
  "'w handler_env \<Rightarrow> Task \<Rightarrow> AgentConfiguration \<Rightarrow> deferredClaim option \<Rightarrow> ('w taskEventHandler, unit) state" where
  "parkAtCap env task config claim =
     do { task_event ''deferred_concurrency_cap'';
          count ''deferred_concurrency_cap_by_assignee'' [ac_Assignee config];
          stamped \<leftarrow> stampQueueEntry env task;
          invalid \<leftarrow> gets (claimInvalidated claim);
          if invalid then
            do { recordClaimInvalidated; clearQueuedAtStampIfNotDeferred (TaskIdentifier stamped) }
          else
            do { exists \<leftarrow> gets (\<lambda>h. map_of (th_deferredRespawns h) (TaskIdentifier stamped) \<noteq> None);
                 if claim \<noteq> None \<and> exists then clearQueuedAtStampIfNotDeferred (TaskIdentifier stamped)
                 else
                   do { now \<leftarrow> clock env;
                        modify (\<lambda>h. h\<lparr>th_deferredRespawns := AList.update (TaskIdentifier stamped)
                          \<lparr>de_task = stamped, de_config = config, de_retryAfter = now + concurrencyCapRetryDelay\<rparr>
                          (th_deferredRespawns h)\<rparr>) } } }"

definition deferIfAtConcurrencyCap ::
  "'w handler_env \<Rightarrow> Task \<Rightarrow> AgentConfiguration option \<Rightarrow> deferredClaim option \<Rightarrow>
   ('w taskEventHandler, go_error + bool) state" where
  "deferIfAtConcurrencyCap env task config claim =
     (case config of
        None \<Rightarrow> ret (Inr False)
      | Some c \<Rightarrow>
          if he_podQuota env = None \<and> ac_MaxConcurrentJobs c \<le> 0 then ret (Inr False)
          else
            (case jobNamespaceForTask env config of
               Inl e \<Rightarrow> ret (Inl e)
             | Inr namespace \<Rightarrow>
                 do { q \<leftarrow> podQuotaFor env namespace c;
                      let (capacity, capacityBounded) =
                        effectiveConcurrencyCap (ac_MaxConcurrentJobs c) (fst q) (snd q = quotaBounded);
                      if capacity \<le> 0 \<and> \<not> capacityBounded then ret (Inr False)
                      else
                        do { activeSet \<leftarrow> activeJobsFor env namespace (ac_Assignee c);
                             case activeSet of
                               Inl e \<Rightarrow> ret (Inl (wrapJobLookupError e (ac_Assignee c) namespace ''count active jobs''))
                             | Inr m \<Rightarrow>
                                 if int (length m) < capacity then ret (Inr False)
                                 else
                                   do { invalid \<leftarrow> gets (claimInvalidated claim);
                                        if invalid then do { recordClaimInvalidated; ret (Inr True) }
                                        else do { parkAtCap env task c claim; ret (Inr True) } } } }))"

section \<open>A Job that may still run\<close>

definition storedCurrentJob :: "'w handler_env \<Rightarrow> string \<Rightarrow> ('w taskEventHandler, string) state" where
  "storedCurrentJob env tid = gets (\<lambda>h.
     case store_Load tid (th_taskStore h) of None \<Rightarrow> '''' | Some t \<Rightarrow> lib_CurrentJob (he_lib env) (Frontmatter t))"

definition staleEventForTask :: "'w handler_env \<Rightarrow> Task \<Rightarrow> ('w taskEventHandler, bool) state" where
  "staleEventForTask env task =
     do { storedJob \<leftarrow> storedCurrentJob env (TaskIdentifier task);
          ret (storedJob \<noteq> '''' \<and> storedJob \<noteq> lib_CurrentJob (he_lib env) (Frontmatter task)) }"

definition splitOwnerRepo :: "string \<Rightarrow> (string \<times> string) option" where
  "splitOwnerRepo raw =
     (case index_of (CHR ''/'') raw of
        None \<Rightarrow> None
      | Some i \<Rightarrow> if i = 0 \<or> i = length raw - 1 then None else Some (take i raw, drop (i + 1) raw))"

definition trim_suffix :: "string \<Rightarrow> string \<Rightarrow> string" where
  "trim_suffix s p = (if has_suffix s p then take (length s - length p) s else s)"

text \<open>What follows the first \<^verbatim>\<open>://\<close>.\<close>

fun after_scheme :: "string \<Rightarrow> string option" where
  "after_scheme [] = None"
| "after_scheme (x # xs) = (if has_prefix (x # xs) ''://'' then Some (drop 3 (x # xs)) else after_scheme xs)"

definition ownerRepoFromCloneURL :: "unicode \<Rightarrow> string \<Rightarrow> (string \<times> string) option" where
  "ownerRepoFromCloneURL U raw0 =
     (let raw = trim_suffix (trim_suffix (trim_space U raw0) ''/'') ''.git'' in
      case after_scheme raw of
        Some rest0 \<Rightarrow>
          (let rest = (case index_of (CHR ''@'') rest0 of Some at \<Rightarrow> drop (at + 1) rest0 | None \<Rightarrow> rest0) in
           case index_of (CHR ''/'') rest of None \<Rightarrow> None | Some slash \<Rightarrow> splitOwnerRepo (drop (slash + 1) rest))
      | None \<Rightarrow>
          if has_prefix raw ''git@'' then
            (case index_of (CHR '':'') raw of None \<Rightarrow> None | Some colon \<Rightarrow> splitOwnerRepo (drop (colon + 1) raw))
          else None)"

definition claimOwnerRepo :: "'w handler_env \<Rightarrow> Task \<Rightarrow> string \<times> string" where
  "claimOwnerRepo env task =
     (case Option.bind (lib_String (he_lib env) (Frontmatter task) ''repo'') splitOwnerRepo of
        Some r \<Rightarrow> r
      | None \<Rightarrow>
          (case Option.bind (lib_String (he_lib env) (Frontmatter task) ''clone_url'') (ownerRepoFromCloneURL (he_unicode env)) of
             Some r \<Rightarrow> r
           | None \<Rightarrow> ('''', '''')))"

definition taskClaimKeys :: "'w handler_env \<Rightarrow> Task \<Rightarrow> (string \<times> string \<times> bool) result" where
  "taskClaimKeys env task =
     (case claimOwnerRepo env task of
        (owner, repo) \<Rightarrow>
          DeriveClaimKeysWithBody (he_unicode env) (lib_TaskType (he_lib env) (Frontmatter task))
            (TaskIdentifier task) owner repo (Content task))"

definition claimTargetFor :: "'w handler_env \<Rightarrow> Task \<Rightarrow> ClaimTarget result" where
  "claimTargetFor env task =
     (case taskClaimKeys env task of
        Inl e \<Rightarrow> Inl e
      | Inr (key, _, _) \<Rightarrow>
          (case TargetFromKey key of None \<Rightarrow> Inl (OtherError ''claim key is not addressable'') | Some target \<Rightarrow> Inr target))"

datatype claimProbeResult = claimProbeUnavailable | claimProbeHeld | claimProbeFree

text \<open>A failed probe is \<open>None\<close>; its error is logged and counted, and the caller only sees that it failed.\<close>

definition countClaimProbeFailure :: "('w taskEventHandler, claimProbeResult option) state" where
  "countClaimProbeFailure = do { task_event ''claim_probe_failed''; ret None }"

definition claimProbe :: "'w handler_env \<Rightarrow> Task \<Rightarrow> ('w taskEventHandler, claimProbeResult option) state" where
  "claimProbe env task =
     (if he_claimMode env \<noteq> ClaimModeOn then ret (Some claimProbeUnavailable)
      else
        (case he_claimClientFactory env of
           None \<Rightarrow> countClaimProbeFailure
         | Some None \<Rightarrow> countClaimProbeFailure
         | Some (Some client) \<Rightarrow>
             (case claimTargetFor env task of
                Inl _ \<Rightarrow> countClaimProbeFailure
              | Inr target \<Rightarrow>
                  do { current \<leftarrow> outside (cc_Read client CallerCtx target);
                       case current of
                         Inl e \<Rightarrow> if e = ErrClaimFree then ret (Some claimProbeFree) else countClaimProbeFailure
                       | Inr c \<Rightarrow>
                           if cl_LeaseUnreadable c then ret (Some claimProbeHeld)
                           else do { now \<leftarrow> clock env;
                                     ret (Some (if now < cl_LeaseUntil c + TakeoverGrace
                                                then claimProbeHeld else claimProbeFree)) } })))"

definition currentJobFinishedWithoutStoreEntry :: "'w handler_env \<Rightarrow> Task \<Rightarrow> ('w taskEventHandler, bool) state" where
  "currentJobFinishedWithoutStoreEntry env task =
     do { probe \<leftarrow> claimProbe env task;
          ret (case probe of None \<Rightarrow> False | Some p \<Rightarrow> p \<noteq> claimProbeHeld) }"

definition jobProvablyFinished ::
  "'w handler_env \<Rightarrow> Task \<Rightarrow> string \<Rightarrow> string \<Rightarrow> ('w taskEventHandler, go_error + bool) state" where
  "jobProvablyFinished env task currentJob namespace =
     do { stored \<leftarrow> storedCurrentJob env (TaskIdentifier task);
          if stored \<noteq> '''' \<and> stored = currentJob then ret (Inr True)
          else if stored = '''' then
            do { finished \<leftarrow> currentJobFinishedWithoutStoreEntry env task; ret (Inr finished) }
          else
            do { exists \<leftarrow> outside (js_JobExists (he_jobSpawner env) namespace stored);
                 case exists of
                   Inl e \<Rightarrow> ret (Inl e)
                 | Inr True \<Rightarrow> ret (Inr False)
                 | Inr False \<Rightarrow>
                     do { on_store (\<lambda>s. snd (DeleteIfCurrentJob (he_lib env) (TaskIdentifier task) stored s));
                          ret (Inr True) } } }"

definition currentJobFinished ::
  "'w handler_env \<Rightarrow> Task \<Rightarrow> string \<Rightarrow> string \<Rightarrow> string \<Rightarrow> ('w taskEventHandler, go_error + bool) state" where
  "currentJobFinished env task currentJob namespace assignee =
     do { finished \<leftarrow> jobProvablyFinished env task currentJob namespace;
          ret (case finished of
                 Inl e \<Rightarrow> Inl (wrapJobLookupError e assignee namespace ''check whether current_job is finished'')
               | Inr b \<Rightarrow> Inr b) }"

definition withinRespawnGraceWindow ::
  "'w handler_env \<Rightarrow> Task \<Rightarrow> AgentConfiguration option \<Rightarrow> deferredClaim option \<Rightarrow> ('w taskEventHandler, bool) state" where
  "withinRespawnGraceWindow env task config claim =
     (case lib_JobStartedAt (he_lib env) (Frontmatter task) of
        Inl _ \<Rightarrow> ret False
      | Inr jobStartedAt \<Rightarrow>
          if is_zero jobStartedAt then ret False
          else
            do { now \<leftarrow> clock env;
                 if time_sub now jobStartedAt \<ge> defaultRespawnGracePeriod then ret False
                 else
                   do { task_event ''respawn_grace_window'';
                        storeGraceWindowDeferral task config (jobStartedAt + defaultRespawnGracePeriod) claim;
                        ret True } })"

definition checkActiveCurrentJob ::
  "'w handler_env \<Rightarrow> Task \<Rightarrow> string \<Rightarrow> AgentConfiguration option \<Rightarrow> deferredClaim option \<Rightarrow>
   ('w taskEventHandler, go_error + bool) state" where
  "checkActiveCurrentJob env task currentJob config claim =
     (case jobNamespaceForTask env config of
        Inl e \<Rightarrow> ret (Inl e)
      | Inr namespace \<Rightarrow>
          do { active \<leftarrow> outside (js_IsJobActive (he_jobSpawner env) namespace (TaskIdentifier task));
               case active of
                 Inl e \<Rightarrow> ret (Inl (wrapJobLookupError e (assigneeOf config) namespace ''check current_job active''))
               | Inr True \<Rightarrow> do { task_event ''skipped_active_job''; ret (Inr True) }
               | Inr False \<Rightarrow>
                   do { within \<leftarrow> withinRespawnGraceWindow env task config claim;
                        if within then ret (Inr True)
                        else
                          do { finished \<leftarrow> currentJobFinished env task currentJob namespace (assigneeOf config);
                               case finished of
                                 Inl e \<Rightarrow> ret (Inl e)
                               | Inr True \<Rightarrow> ret (Inr False)
                               | Inr False \<Rightarrow>
                                   do { task_event ''skipped_foreign_job'';
                                        now \<leftarrow> clock env;
                                        storeGraceWindowDeferral task config (now + deferredRespawnInterval) claim;
                                        ret (Inr True) } } } })"

definition suppressForActiveCurrentJob ::
  "'w handler_env \<Rightarrow> Task \<Rightarrow> AgentConfiguration option \<Rightarrow> deferredClaim option \<Rightarrow>
   ('w taskEventHandler, go_error + bool) state" where
  "suppressForActiveCurrentJob env task config claim =
     (let currentJob = lib_CurrentJob (he_lib env) (Frontmatter task) in
      if currentJob = '''' then ret (Inr False)
      else
        do { r \<leftarrow> checkActiveCurrentJob env task currentJob config claim;
             case r of
               Inr suppress \<Rightarrow> ret (Inr suppress)
             | Inl err \<Rightarrow>
                 do { denied \<leftarrow> handleJobLookupDenied env err;
                      if denied then ret (Inr True)
                      else do { task_event ''error''; ret (Inl err) } } })"

section \<open>Taking the claim\<close>

definition claimFailureDecision :: "'w handler_env \<Rightarrow> bool" where
  "claimFailureDecision env \<longleftrightarrow> he_claimMode env = ClaimModeShadow"

text \<open>Up to three attempts, with a pause that ends early when the context does.\<close>

fun parkAttempts :: "'w handler_env \<Rightarrow> Task \<Rightarrow> nat \<Rightarrow> ('w taskEventHandler, unit) state" where
  "parkAttempts env task 0 = count ''parked_lost_claim'' [''failed'']"
| "parkAttempts env task (Suc n) =
     do { err \<leftarrow> outside (rp_ParkLostClaim (he_publisher env) task);
          if err = None then count ''parked_lost_claim'' [''parked'']
          else if n = 0 then count ''parked_lost_claim'' [''failed'']
          else
            do { outside (he_sleep env parkWriteRetryDelay);
                 done \<leftarrow> ctxDone env;
                 if done then ret () else parkAttempts env task n } }"

definition parkAfterLostClaim :: "'w handler_env \<Rightarrow> Task \<Rightarrow> ('w taskEventHandler, unit) state" where
  "parkAfterLostClaim env task = parkAttempts env task parkWriteAttempts"

definition claimOrTakeOver ::
  "'w handler_env \<Rightarrow> 'w lease_env \<Rightarrow> string \<Rightarrow> string \<Rightarrow> Task \<Rightarrow> AgentConfiguration \<Rightarrow> ('w taskEventHandler, bool) state" where
  "claimOrTakeOver env lenv primary secondary task config =
     do { claimed \<leftarrow> in_lease (ClaimPair lenv primary secondary (TaskIdentifier task));
          case claimed of
            Inr _ \<Rightarrow> ret True
          | Inl claimErr \<Rightarrow>
              if claimErr = ErrLeaseConflict then
                do { taken \<leftarrow> in_lease (TakeoverPair lenv primary secondary (TaskIdentifier task));
                     case taken of
                       Inl _ \<Rightarrow> ret (claimFailureDecision env)
                     | Inr _ \<Rightarrow>
                         if he_claimMode env = ClaimModeOn \<and> ac_LostClaimAction config = ParkAfterLostClaim then
                           do { parkAfterLostClaim env task; ret False }
                         else ret True }
              else ret (claimFailureDecision env) }"

definition acquireSpawnClaim ::
  "'w handler_env \<Rightarrow> Task \<Rightarrow> AgentConfiguration \<Rightarrow> ('w taskEventHandler, bool) state" where
  "acquireSpawnClaim env task config =
     (if he_claimMode env = ClaimModeOff then ret True
      else
        (case leaseManager_of env of
           Inl _ \<Rightarrow> ret (claimFailureDecision env)
         | Inr (lenv, refClient) \<Rightarrow>
             do { guard \<leftarrow> outside (schemeCheck refClient (he_now env) (he_cluster env) ClaimKeySchemeVersion);
                  if fst guard \<noteq> None then ret (claimFailureDecision env)
                  else
                    (case taskClaimKeys env task of
                       Inl _ \<Rightarrow> ret (claimFailureDecision env)
                     | Inr (primary, secondary, fallback) \<Rightarrow>
                         do { (if fallback then count ''claim_key_fallback'' [] else ret ());
                              claimOrTakeOver env lenv primary secondary task config }) }))"

section \<open>Spawning\<close>

definition storeSpawnedJob :: "'w handler_env \<Rightarrow> Task \<Rightarrow> string \<Rightarrow> ('w taskEventHandler, unit) state" where
  "storeSpawnedJob env task jobName =
     do { now \<leftarrow> clock env;
          on_store (store_Store (TaskIdentifier task)
            (task\<lparr>Frontmatter := AList.update ''job_started_at'' (FmString (formatLeaseUntil now))
                     (AList.update ''current_job'' (FmString jobName) (Frontmatter task))\<rparr>)) }"

definition finishSpawn ::
  "'w handler_env \<Rightarrow> Task \<Rightarrow> AgentConfiguration \<Rightarrow> string \<Rightarrow> ('w taskEventHandler, go_error option) state" where
  "finishSpawn env task config jobName =
     do { bumpSpawnGen (ac_Assignee config);
          storeSpawnedJob env task jobName;
          err \<leftarrow> recordTriggerSpawn env task;
          case err of
            Some e \<Rightarrow> do { task_event ''error''; ret (Some e) }
          | None \<Rightarrow>
              do { _ \<leftarrow> outside (rp_SpawnNotification (he_publisher env) task jobName);
                   task_event ''spawned'';
                   count ''jobs_spawned'' [spawnedNamespace env config];
                   recordTaskRerun env task;
                   recordRedriveSpawn env task;
                   ret None } }"

definition spawnClaimedJob ::
  "'w handler_env \<Rightarrow> Task \<Rightarrow> AgentConfiguration \<Rightarrow> ('w taskEventHandler, go_error + bool) state" where
  "spawnClaimedJob env task config =
     do { created \<leftarrow> outside (js_SpawnJob (he_jobSpawner env) task config);
          case created of
            Inl err \<Rightarrow>
              do { task_event ''error'';
                   clearSpawnPending (TaskIdentifier task);
                   releaseTaskClaimLocked env (TaskIdentifier task);
                   ret (Inl (Wrapped ''spawn job failed'' (spawnJobError err))) }
          | Inr jobName \<Rightarrow>
              do { err \<leftarrow> finishSpawn env task config jobName;
                   ret (case err of Some e \<Rightarrow> Inl e | None \<Rightarrow> Inr True) } }"

datatype spawnOutcome = spawnOutcomeSuppressed | spawnOutcomeSpawned | spawnOutcomeCapped

definition skipForeignVaultTask :: "'w handler_env \<Rightarrow> Task \<Rightarrow> ('w taskEventHandler, bool) state" where
  "skipForeignVaultTask env task =
     (if Accepts (he_vaultMatcher env) (Vault task) then ret False
      else do { task_event ''skipped_foreign_vault''; ret True })"

text \<open>
  The last stretch of the funnel: the claim, with the spawn marked pending so that a concurrent release
  leaves it alone, and then the Job. The deferred \<open>clearSpawnPending\<close> runs on every way out. The Go code
  dereferences the configuration here; callers pass a configuration whenever the chain gets this far.
\<close>

definition claimAndSpawn ::
  "'w handler_env \<Rightarrow> Task \<Rightarrow> AgentConfiguration \<Rightarrow> ('w taskEventHandler, go_error + spawnOutcome) state" where
  "claimAndSpawn env task config =
     do { markSpawnPending (TaskIdentifier task);
          acquired \<leftarrow> acquireSpawnClaim env task config;
          r \<leftarrow> (if \<not> acquired then ret (Inr spawnOutcomeSuppressed)
                else
                  do { spawned \<leftarrow> spawnClaimedJob env task config;
                       ret (case spawned of
                              Inl e \<Rightarrow> Inl e
                            | Inr b \<Rightarrow> Inr (if b then spawnOutcomeSpawned else spawnOutcomeSuppressed)) });
          clearSpawnPending (TaskIdentifier task);
          ret r }"

text \<open>A failed lookup: denied ones only suppress, the others are counted and returned.\<close>

definition lookupFailed :: "'w handler_env \<Rightarrow> go_error \<Rightarrow> ('w taskEventHandler, go_error + spawnOutcome) state" where
  "lookupFailed env err =
     do { denied \<leftarrow> handleJobLookupDenied env err;
          if denied then ret (Inr spawnOutcomeSuppressed)
          else do { task_event ''error''; ret (Inl err) } }"

text \<open>
  The funnel. Its callers pass a configuration; for none, which they never pass, the code would panic where it reads
  the concurrency limit or builds the Job, and the model answers an error instead.
\<close>

definition spawnIfNeededClaimed ::
  "'w handler_env \<Rightarrow> Task \<Rightarrow> AgentConfiguration option \<Rightarrow> deferredClaim option \<Rightarrow>
   ('w taskEventHandler, go_error + spawnOutcome) state" where
  "spawnIfNeededClaimed env task config claim =
     do { foreignVault \<leftarrow> skipForeignVaultTask env task;
          if foreignVault then ret (Inr spawnOutcomeSuppressed)
          else
     do { badNamespace \<leftarrow> rejectInvalidJobNamespace env config;
          if badNamespace then ret (Inr spawnOutcomeSuppressed)
          else
     do { current \<leftarrow> suppressForActiveCurrentJob env task config claim;
          case current of
            Inl e \<Rightarrow> ret (Inl e)
          | Inr True \<Rightarrow> ret (Inr spawnOutcomeSuppressed)
          | Inr False \<Rightarrow>
     do { active \<leftarrow> isJobActive env task config;
          case active of
            Inl e \<Rightarrow> lookupFailed env e
          | Inr True \<Rightarrow> do { task_event ''skipped_active_job''; ret (Inr spawnOutcomeSuppressed) }
          | Inr False \<Rightarrow>
     do { parked \<leftarrow> suppressOrPark env task;
          if parked then ret (Inr spawnOutcomeSuppressed)
          else
     do { capped \<leftarrow> redriveStreakCapped env task;
          if capped then ret (Inr spawnOutcomeCapped)
          else
     do { deferred \<leftarrow> deferIfAtConcurrencyCap env task config claim;
          case deferred of
            Inl e \<Rightarrow> lookupFailed env e
          | Inr True \<Rightarrow> ret (Inr spawnOutcomeSuppressed)
          | Inr False \<Rightarrow>
     do { budget \<leftarrow> triggerBudgetRefusesSpawn env task;
          case budget of
            (True, Some e) \<Rightarrow> ret (Inl e)
          | (True, None) \<Rightarrow> ret (Inr spawnOutcomeSuppressed)
          | (False, _) \<Rightarrow>
     do { refused \<leftarrow> finalSpawnRefusals env task claim;
          if refused then ret (Inr spawnOutcomeSuppressed)
          else
            (case config of
               None \<Rightarrow> ret (Inl (PlainError ''nil configuration''))
             | Some c \<Rightarrow> claimAndSpawn env task c) } } } } } } } } }"

definition spawnIfNeeded ::
  "'w handler_env \<Rightarrow> Task \<Rightarrow> AgentConfiguration option \<Rightarrow> ('w taskEventHandler, go_error + bool) state" where
  "spawnIfNeeded env task config =
     do { r \<leftarrow> spawnIfNeededClaimed env task config None;
          ret (case r of Inl e \<Rightarrow> Inl e | Inr o1 \<Rightarrow> Inr (o1 = spawnOutcomeSpawned)) }"

end
