(* ===== verification/Handler_Passes.thy ===== *)
theory Handler_Passes
  imports Handler_Spawn
begin

text \<open>
  The task event handler, third part: its entry points. The Kafka consumer (\<open>ConsumeMessage\<close> with the
  filter \<open>parseAndFilter\<close>), the reconcile pass over the task view (\<open>ReconcileOnce\<close> with the filter
  \<open>reconcileTask\<close>), the replay of deferred respawns (\<open>evalDeferredRespawns\<close>), and the comparison of the
  view with the vault index (\<^verbatim>\<open>view_divergence.go\<close>).
\<close>

section \<open>Gates shared by the two filters\<close>

definition isForeignCluster :: "'w handler_env \<Rightarrow> Task \<Rightarrow> bool" where
  "isForeignCluster env task =
     (let c = taskCluster task in if c = '''' then \<not> he_runUntagged env else c \<noteq> he_cluster env)"

definition skipForeignCluster :: "'w handler_env \<Rightarrow> Task \<Rightarrow> ('w taskEventHandler, bool) state" where
  "skipForeignCluster env task =
     (if \<not> isForeignCluster env task then ret False
      else if taskCluster task = '''' then do { task_event ''skipped_untagged''; ret True }
      else do { task_event ''skipped_foreign_cluster''; ret True })"

definition pinOutsidePool :: "'w handler_env \<Rightarrow> Task \<Rightarrow> string \<Rightarrow> bool" where
  "pinOutsidePool env task stage \<longleftrightarrow>
     (let c = taskCluster task in c \<noteq> '''' \<and> c = he_cluster env \<and> stage \<noteq> he_branch env)"

definition stageSkipResult :: "'w handler_env \<Rightarrow> Task \<Rightarrow> string \<Rightarrow> string option" where
  "stageSkipResult env task stage =
     (if \<not> he_stageFilter env \<or> stage = he_branch env then None
      else if pinOutsidePool env task stage then Some ''pin_outside_pool''
      else Some ''skipped_stage'')"

text \<open>Whether the phase gate stops the task.\<close>

definition applyPhaseGate :: "string \<Rightarrow> ('w taskEventHandler, bool) state" where
  "applyPhaseGate phase =
     (if IsTerminal phase then do { task_event ''spawn_suppressed_terminal_phase''; ret True }
      else do { (if phase \<in> set knownPhases then ret () else task_event ''unknown_phase''); ret False })"

text \<open>
  The result of a resolution: an error, a skip, or a configuration, which is nil for a task without
  assignee.
\<close>

datatype resolution = ResolveFailed go_error | ResolveSkip | ResolveTo "AgentConfiguration option"

definition resolveConfig :: "'w handler_env \<Rightarrow> Task \<Rightarrow> ('w taskEventHandler, resolution) state" where
  "resolveConfig env task =
     (let assignee = lib_Assignee (he_lib env) (Frontmatter task) in
      if assignee = '''' then ret (ResolveTo None)
      else
        do { resolved \<leftarrow> outside (cr_Resolve (he_resolver env) assignee);
             case resolved of
               Inr c \<Rightarrow> ret (ResolveTo (Some c))
             | Inl e \<Rightarrow>
                 if errors_Is e ErrConfigNotFound then
                   do { task_event ''skipped_unknown_assignee'';
                        count ''skipped_unknown_assignee_by_assignee'' [assignee];
                        ret ResolveSkip }
                 else do { task_event ''error''; ret (ResolveFailed (Wrapped ''resolve agent config'' e)) } })"

definition inTypePreviousAssignee ::
  "'w handler_env \<Rightarrow> string \<Rightarrow> string \<Rightarrow> ('w taskEventHandler, go_error + string) state" where
  "inTypePreviousAssignee env previousAssignee taskType =
     (if previousAssignee = '''' then ret (Inr '''')
      else
        do { config \<leftarrow> outside (cr_Resolve (he_resolver env) previousAssignee);
             ret (case config of
                    Inl e \<Rightarrow>
                      if errors_Is e ErrConfigNotFound then Inr '''' else Inl (Wrapped ''resolve previous_assignee'' e)
                  | Inr c \<Rightarrow>
                      if TaskTypeInSet taskType (EffectiveTaskTypes (ac_TaskType c) (elems (ac_TaskTypes c)))
                      then Inr previousAssignee else Inr '''') })"

definition resolveConfigForReconcile :: "'w handler_env \<Rightarrow> Task \<Rightarrow> ('w taskEventHandler, resolution) state" where
  "resolveConfigForReconcile env task =
     do { r \<leftarrow> resolveConfig env task;
          if r \<noteq> ResolveTo None then ret r
          else
            (let taskType = lib_TaskType (he_lib env) (Frontmatter task) in
             if taskType = '''' then ret (ResolveTo None)
             else
               do { previous \<leftarrow> inTypePreviousAssignee env
                      (case lib_String (he_lib env) (Frontmatter task) ''previous_assignee'' of None \<Rightarrow> '''' | Some v \<Rightarrow> v) taskType;
                    case previous of
                      Inl e \<Rightarrow> ret (ResolveFailed e)
                    | Inr previousAssignee \<Rightarrow>
                        do { resolved \<leftarrow> outside (cr_ResolveByTaskType (he_resolver env) taskType previousAssignee);
                             case resolved of
                               Inr c \<Rightarrow> ret (ResolveTo (Some c))
                             | Inl e \<Rightarrow>
                                 if errors_Is e ErrConfigNotFound then
                                   do { task_event ''skipped_unknown_assignee''; ret ResolveSkip }
                                 else ret (ResolveFailed e) } }) }"

section \<open>The Kafka path\<close>

definition cleanupTerminalTask :: "'w handler_env \<Rightarrow> Task \<Rightarrow> ('w taskEventHandler, unit) state" where
  "cleanupTerminalTask env task =
     (if \<not> IsTerminalStatus (lib_Status (he_lib env) (Frontmatter task)) then ret ()
      else
        do { stale \<leftarrow> staleEventForTask env task;
             if stale then ret ()
             else
               do { ReleaseTaskClaim env (TaskIdentifier task);
                    on_store (store_Delete (TaskIdentifier task));
                    removeDeferredEntry (TaskIdentifier task);
                    clearRedriveStreak env (TaskIdentifier task) } })"

datatype filtered = FilterFailed go_error | Skipped | Accepted Task "AgentConfiguration option"

definition skipAndEvict :: "Task \<Rightarrow> string \<Rightarrow> ('w taskEventHandler, filtered) state" where
  "skipAndEvict task label =
     do { task_event label; removeDeferredEntry (TaskIdentifier task); ret Skipped }"

text \<open>The gates after the configuration is known.\<close>

definition filterResolved ::
  "'w handler_env \<Rightarrow> Task \<Rightarrow> AgentConfiguration option \<Rightarrow> ('w taskEventHandler, filtered) state" where
  "filterResolved env task config =
     (let L = he_lib env; fm = Frontmatter task in
      if IsTerminalStatus (lib_Status L fm) then skipAndEvict task ''skipped_terminal_status''
      else if lib_Status L fm \<notin> set (effectiveTriggerStatuses config) then skipAndEvict task ''skipped_status''
      else
        do { stopped \<leftarrow> (case lib_Phase L fm of None \<Rightarrow> ret False | Some phase \<Rightarrow> applyPhaseGate phase);
             if stopped then
               do { stale \<leftarrow> staleEventForTask env task;
                    (if stale then ret () else ReleaseTaskClaim env (TaskIdentifier task));
                    removeDeferredEntry (TaskIdentifier task);
                    ret Skipped }
             else if (case lib_Phase L fm of None \<Rightarrow> True | Some phase \<Rightarrow> phase \<notin> set (effectiveTriggerPhases config))
             then skipAndEvict task ''skipped_phase''
             else
               (case stageSkipResult env task (lib_Stage L fm) of
                  Some label \<Rightarrow> skipAndEvict task label
                | None \<Rightarrow>
                    if lib_Assignee L fm = '''' then skipAndEvict task ''skipped_assignee''
                    else ret (Accepted task config)) })"

definition filterTask :: "'w handler_env \<Rightarrow> Task \<Rightarrow> ('w taskEventHandler, filtered) state" where
  "filterTask env task =
     do { foreign \<leftarrow> skipForeignCluster env task;
          if foreign then do { removeDeferredEntry (TaskIdentifier task); ret Skipped }
          else
            do { resolved \<leftarrow> resolveConfig env task;
                 case resolved of
                   ResolveFailed e \<Rightarrow> ret (FilterFailed e)
                 | ResolveSkip \<Rightarrow> do { removeDeferredEntry (TaskIdentifier task); ret Skipped }
                 | ResolveTo config \<Rightarrow>
                     (let mismatch = taskTypeMismatchReason (he_lib env) task config in
                      if mismatch \<noteq> '''' then
                        do { err \<leftarrow> outside (rp_TypeMismatchFailure (he_publisher env) task mismatch);
                             case err of
                               Some e \<Rightarrow>
                                 do { task_event ''error'';
                                      ret (FilterFailed (Wrapped ''publish type mismatch failure'' e)) }
                             | None \<Rightarrow> skipAndEvict task ''type_mismatch'' }
                      else filterResolved env task config) } }"

definition parseAndFilter :: "'w handler_env \<Rightarrow> ConsumerMessage \<Rightarrow> ('w taskEventHandler, filtered) state" where
  "parseAndFilter env msg =
     (case decodeTaskEvent (he_lib env) (msg_Value msg) of
        Inl _ \<Rightarrow> ret Skipped
      | Inr task \<Rightarrow> do { cleanupTerminalTask env task; filterTask env task })"

definition skipPermanentMessage ::
  "'w handler_env \<Rightarrow> ConsumerMessage \<Rightarrow> go_error \<Rightarrow> ('w taskEventHandler, go_error option) state" where
  "skipPermanentMessage env msg cause =
     (case he_deadLetter env of
        None \<Rightarrow> ret (Some cause)
      | Some publish \<Rightarrow>
          do { err \<leftarrow> outside (publish msg cause);
               case err of
                 Some e \<Rightarrow> ret (Some (Wrapped ''publish dead letter'' e))
               | None \<Rightarrow>
                   do { task_event ''skipped_permanent'';
                        count ''dead_letter'' [msg_Topic msg];
                        ret None } })"

definition classifySpawnError ::
  "'w handler_env \<Rightarrow> ConsumerMessage \<Rightarrow> go_error option \<Rightarrow> ('w taskEventHandler, go_error option) state" where
  "classifySpawnError env msg err =
     (case err of
        Some e \<Rightarrow> if isPermanentSpawnError (Some e) then skipPermanentMessage env msg e else ret (Some e)
      | None \<Rightarrow> ret None)"

definition ConsumeMessage :: "'w handler_env \<Rightarrow> ConsumerMessage \<Rightarrow> ('w taskEventHandler, go_error option) state" where
  "ConsumeMessage env msg =
     do { r \<leftarrow> parseAndFilter env msg;
          case r of
            FilterFailed e \<Rightarrow> ret (Some e)
          | Skipped \<Rightarrow> ret None
          | Accepted task config \<Rightarrow>
              do { view \<leftarrow> gets th_view;
                   if (case view of None \<Rightarrow> False | Some v \<Rightarrow> \<not> tv_ready v) then
                     do { task_event ''skipped_view_not_ready''; ret None }
                   else
                     do { spawned \<leftarrow> spawnIfNeeded env task config;
                          let err = (case spawned of Inl e \<Rightarrow> Some e | Inr _ \<Rightarrow> None);
                          case err of
                            Some e \<Rightarrow>
                              if is_refusal_write_error e then do { task_event ''event_refusal_write_failed''; ret None }
                              else classifySpawnError env msg err
                          | None \<Rightarrow> classifySpawnError env msg err } } }"

section \<open>The reconcile path\<close>

definition recordReconcileRefusal :: "string \<Rightarrow> string \<Rightarrow> ('w taskEventHandler, bool) state" where
  "recordReconcileRefusal tid gate =
     do { changed \<leftarrow> gets (\<lambda>h. (case map_of (th_refusedGates h) tid of None \<Rightarrow> '''' | Some g \<Rightarrow> g) \<noteq> gate);
          modify (\<lambda>h. h\<lparr>th_refusedGates := AList.update tid gate (th_refusedGates h)\<rparr>);
          ret changed }"

definition clearReconcileRefusal :: "string \<Rightarrow> ('w taskEventHandler, unit) state" where
  "clearReconcileRefusal tid = modify (\<lambda>h. h\<lparr>th_refusedGates := AList.delete tid (th_refusedGates h)\<rparr>)"

definition refuseReconcile :: "Task \<Rightarrow> string \<Rightarrow> ('w taskEventHandler, filtered) state" where
  "refuseReconcile task gate =
     do { count ''reconcile_refused'' [gate];
          _ \<leftarrow> recordReconcileRefusal (TaskIdentifier task) gate;
          ret Skipped }"

definition reconcileResolved ::
  "'w handler_env \<Rightarrow> Task \<Rightarrow> AgentConfiguration option \<Rightarrow> ('w taskEventHandler, filtered) state" where
  "reconcileResolved env task config =
     (let L = he_lib env; fm = Frontmatter task in
      if IsTerminalStatus (lib_Status L fm) then refuseReconcile task ''terminal_status''
      else if lib_Status L fm \<notin> set (effectiveTriggerStatuses config) then refuseReconcile task ''status_not_triggered''
      else
        (case lib_Phase L fm of
           None \<Rightarrow> refuseReconcile task ''phase_not_triggered''
         | Some phase \<Rightarrow>
             if phase \<notin> set (effectiveTriggerPhases config) then refuseReconcile task ''phase_not_triggered''
             else if IsTerminal phase then refuseReconcile task ''terminal_phase''
             else if he_stageFilter env \<and> lib_Stage L fm \<noteq> he_branch env then
               do { (if pinOutsidePool env task (lib_Stage L fm) then task_event ''pin_outside_pool'' else ret ());
                    refuseReconcile task ''stage_mismatch'' }
             else if lib_Assignee L fm = '''' \<and> config = None then refuseReconcile task ''no_routing''
             else do { clearReconcileRefusal (TaskIdentifier task); ret (Accepted task config) }))"

definition reconcileTask :: "'w handler_env \<Rightarrow> Task \<Rightarrow> ('w taskEventHandler, filtered) state" where
  "reconcileTask env task =
     (if isForeignCluster env task then
        do { removeDeferredEntry (TaskIdentifier task); refuseReconcile task ''foreign_cluster'' }
      else
        do { resolved \<leftarrow> resolveConfigForReconcile env task;
             case resolved of
               ResolveFailed e \<Rightarrow> ret (FilterFailed e)
             | ResolveSkip \<Rightarrow> refuseReconcile task ''unresolved_config''
             | ResolveTo config \<Rightarrow>
                 (let mismatch = taskTypeMismatchReason (he_lib env) task config in
                  if mismatch \<noteq> '''' then
                    do { err \<leftarrow> outside (rp_TypeMismatchFailure (he_publisher env) task mismatch);
                         case err of
                           Some e \<Rightarrow>
                             do { task_event ''error'';
                                  ret (FilterFailed (Wrapped ''publish type mismatch failure'' e)) }
                         | None \<Rightarrow> refuseReconcile task ''type_mismatch'' }
                  else reconcileResolved env task config) })"

datatype reconcileOutcome =
    reconcileOutcomeSkipped
  | reconcileOutcomeRedriven
  | reconcileOutcomeDeferred
  | reconcileOutcomeCapped

record reconcileCandidate =
  cand_task :: Task
  cand_config :: "AgentConfiguration option"
  cand_claim :: deferredClaim

definition restoreParkedAssignee ::
  "'w handler_env \<Rightarrow> Task \<Rightarrow> AgentConfiguration option \<Rightarrow> ('w taskEventHandler, reconcileOutcome) state" where
  "restoreParkedAssignee env task config =
     do { err \<leftarrow> outside (rp_RestoreAssignee (he_publisher env) task (assigneeOf config));
          case err of
            Some _ \<Rightarrow> ret reconcileOutcomeSkipped
          | None \<Rightarrow> do { count ''reconcile_redriven'' []; ret reconcileOutcomeRedriven } }"

text \<open>A task is collected as a candidate (\<open>Inr\<close>) or its pass ends here with an outcome.\<close>

definition gatherCandidate ::
  "'w handler_env \<Rightarrow> Task \<Rightarrow> ('w taskEventHandler, reconcileOutcome + reconcileCandidate) state" where
  "gatherCandidate env task =
     do { r \<leftarrow> reconcileTask env task;
          case r of
            FilterFailed _ \<Rightarrow> ret (Inl reconcileOutcomeSkipped)
          | Skipped \<Rightarrow> ret (Inl reconcileOutcomeSkipped)
          | Accepted t config \<Rightarrow>
              do { suppressed \<leftarrow> indexGateSuppresses env t;
                   if suppressed then ret (Inl reconcileOutcomeSkipped)
                   else if lib_Assignee (he_lib env) (Frontmatter t) = '''' then
                     do { restored \<leftarrow> restoreParkedAssignee env t config; ret (Inl restored) }
                   else
                     do { claim \<leftarrow> (if TaskIdentifier t \<noteq> '''' then
                              gets (\<lambda>h. \<lparr>dc_id = TaskIdentifier t, dc_epoch = epoch_of (th_deferredEpochs h) (TaskIdentifier t)\<rparr>)
                            else ret \<lparr>dc_id = '''', dc_epoch = 0\<rparr>);
                          ret (Inr \<lparr>cand_task = t, cand_config = config, cand_claim = claim\<rparr>) } } }"

record reconcileCounters =
  rc_evaluated :: int
  rc_redriven :: int
  rc_deferred :: int
  rc_skipped :: int
  rc_capped :: int

definition zeroCounters :: reconcileCounters where
  "zeroCounters = \<lparr>rc_evaluated = 0, rc_redriven = 0, rc_deferred = 0, rc_skipped = 0, rc_capped = 0\<rparr>"

fun counters_add :: "reconcileOutcome \<Rightarrow> reconcileCounters \<Rightarrow> reconcileCounters" where
  "counters_add reconcileOutcomeRedriven c = c\<lparr>rc_evaluated := rc_evaluated c + 1, rc_redriven := rc_redriven c + 1\<rparr>"
| "counters_add reconcileOutcomeDeferred c = c\<lparr>rc_evaluated := rc_evaluated c + 1, rc_deferred := rc_deferred c + 1\<rparr>"
| "counters_add reconcileOutcomeCapped c = c\<lparr>rc_evaluated := rc_evaluated c + 1, rc_capped := rc_capped c + 1\<rparr>"
| "counters_add reconcileOutcomeSkipped c = c\<lparr>rc_skipped := rc_skipped c + 1\<rparr>"

fun gatherCandidates ::
  "'w handler_env \<Rightarrow> Task list \<Rightarrow> reconcileCandidate list \<Rightarrow> reconcileCounters \<Rightarrow>
   ('w taskEventHandler, reconcileCandidate list \<times> reconcileCounters) state" where
  "gatherCandidates env [] acc c = ret (acc, c)"
| "gatherCandidates env (task # tasks) acc c =
     do { done \<leftarrow> ctxDone env;
          if done then ret (acc, c)
          else
            do { r \<leftarrow> gatherCandidate env task;
                 case r of
                   Inr candidate \<Rightarrow> gatherCandidates env tasks (acc @ [candidate]) c
                 | Inl out \<Rightarrow> gatherCandidates env tasks acc (counters_add out c) } }"

definition sortCandidatesByAdmissionPriority ::
  "'w handler_env \<Rightarrow> reconcileCandidate list \<Rightarrow> reconcileCandidate list" where
  "sortCandidatesByAdmissionPriority env candidates =
     sort_key (\<lambda>candidate. admissionPriority env (cand_task candidate)) candidates"

definition driveCandidate :: "'w handler_env \<Rightarrow> reconcileCandidate \<Rightarrow> ('w taskEventHandler, reconcileOutcome) state" where
  "driveCandidate env candidate =
     do { r \<leftarrow> spawnIfNeededClaimed env (cand_task candidate) (cand_config candidate) (Some (cand_claim candidate));
          case r of
            Inl _ \<Rightarrow> ret reconcileOutcomeSkipped
          | Inr spawnOutcomeSpawned \<Rightarrow> do { count ''reconcile_redriven'' []; ret reconcileOutcomeRedriven }
          | Inr spawnOutcomeCapped \<Rightarrow> ret reconcileOutcomeCapped
          | Inr spawnOutcomeSuppressed \<Rightarrow> ret reconcileOutcomeDeferred }"

text \<open>The result says whether the pass reached the end of the candidates.\<close>

fun driveCandidates ::
  "'w handler_env \<Rightarrow> reconcileCandidate list \<Rightarrow> reconcileCounters \<Rightarrow> ('w taskEventHandler, bool \<times> reconcileCounters) state" where
  "driveCandidates env [] c = ret (True, c)"
| "driveCandidates env (candidate # rest) c =
     do { done \<leftarrow> ctxDone env;
          if done then ret (False, c)
          else do { out \<leftarrow> driveCandidate env candidate; driveCandidates env rest (counters_add out c) } }"

datatype vaultPassOutcome = vaultOutcomeOK | vaultOutcomeMismatch | vaultOutcomeUnstamped

definition classifyVaults :: "Task list \<Rightarrow> VaultMatcher \<Rightarrow> vaultPassOutcome \<times> string list" where
  "classifyVaults tasks matcher =
     (if tasks = [] then (vaultOutcomeOK, [])
      else
        (let seen = sort (remdups (filter (\<lambda>v. v \<noteq> '''') (map Vault tasks)));
             owned = list_ex (\<lambda>task. Vault task \<noteq> '''' \<and> Accepts matcher (Vault task)) tasks in
         if seen = [] then (vaultOutcomeUnstamped, [])
         else if \<not> owned then (vaultOutcomeMismatch, seen)
         else (vaultOutcomeOK, seen)))"

definition ownedTasks :: "Task list \<Rightarrow> VaultMatcher \<Rightarrow> Task list" where
  "ownedTasks tasks matcher = filter (\<lambda>task. Accepts matcher (Vault task)) tasks"

section \<open>The accepted set\<close>

definition configAcceptedPairs :: "Config list \<Rightarrow> (string \<times> string) list" where
  "configAcceptedPairs items =
     remdups (concat (map (\<lambda>item.
       concat (map (\<lambda>phase.
         map (\<lambda>taskType. (phase, taskType))
           (EffectiveTaskTypes (sp_TaskType (cfg_Spec item)) (elems (sp_TaskTypes (cfg_Spec item)))))
         (effectiveTriggerPhases (Some
            \<lparr>ac_Assignee = '''', ac_Type = '''', ac_TaskType = '''', ac_TaskTypes = None, ac_DefaultForTaskTypes = None,
             ac_Image = '''', ac_Env = None, ac_VolumeClaim = '''', ac_VolumeMountPath = '''', ac_ConfigMapName = '''',
             ac_ConfigMapMountPath = '''', ac_ConfigMapItems = None, ac_SecretName = '''', ac_Resources = None,
             ac_MaxConcurrentJobs = 0, ac_PriorityClassName = '''', ac_NodeSelector = None, ac_Tolerations = None,
             ac_JobNamespace = '''', ac_ImagePullSecret = '''', ac_Trigger = sp_Trigger (cfg_Spec item),
             ac_RerunOnLostClaim = None, ac_ZombieJobTimeoutSeconds = None\<rparr>)))) items))"

definition refreshConfigAccepted :: "'w handler_env \<Rightarrow> ('w taskEventHandler, go_error option) state" where
  "refreshConfigAccepted env =
     (case he_configProvider env of
        None \<Rightarrow> ret None
      | Some provider \<Rightarrow>
          do { items \<leftarrow> outside provider;
               case items of
                 Inl e \<Rightarrow>
                   do { count ''config_accepted_refresh'' [''read_error''];
                        ret (Some (Wrapped ''list agent configs for accepted set'' e)) }
               | Inr its \<Rightarrow>
                   do { done \<leftarrow> ctxDone env;
                        if done then
                          do { count ''config_accepted_refresh'' [''read_error''];
                               ret (Some (Wrapped ''refresh accepted config set cancelled'' ContextDone)) }
                        else
                          do { modify (\<lambda>h. h\<lparr>th_configAcceptedPairs := configAcceptedPairs its\<rparr>);
                               count ''config_accepted_refresh'' [''ok''];
                               ret None } } })"

section \<open>The view against the index\<close>

record viewDivergenceFinding =
  vd_ID :: string
  vd_Absent :: bool
  vd_ViewStatus :: string
  vd_ViewPhase :: string
  vd_VaultStatus :: string
  vd_VaultPhase :: string

record viewDivergenceReport =
  vr_Compared :: nat
  vr_Divergent :: nat
  vr_Absent :: nat
  vr_Findings :: "viewDivergenceFinding list"

definition itemsByID :: "TaskIndex \<Rightarrow> (string, TaskIndexItem) gomap" where
  "itemsByID index = foldl (\<lambda>m item. AList.update (ti_ID item) item m) [] (ix_Items index)"

definition compareTask ::
  "task_lib \<Rightarrow> (string, TaskIndexItem) gomap \<Rightarrow> viewDivergenceReport \<Rightarrow> Task \<Rightarrow> viewDivergenceReport" where
  "compareTask L items report task =
     (let st = lib_Status L (Frontmatter task); ph = taskPhaseString L task in
      case map_of items (TaskIdentifier task) of
        None \<Rightarrow> report\<lparr>vr_Absent := vr_Absent report + 1,
          vr_Findings := vr_Findings report @ [\<lparr>vd_ID = TaskIdentifier task, vd_Absent = True, vd_ViewStatus = st,
            vd_ViewPhase = ph, vd_VaultStatus = '''', vd_VaultPhase = ''''\<rparr>]\<rparr>
      | Some item \<Rightarrow>
          if st = ti_Status item \<and> ph = ti_Phase item then report\<lparr>vr_Compared := vr_Compared report + 1\<rparr>
          else report\<lparr>vr_Compared := vr_Compared report + 1, vr_Divergent := vr_Divergent report + 1,
            vr_Findings := vr_Findings report @ [\<lparr>vd_ID = TaskIdentifier task, vd_Absent = False, vd_ViewStatus = st,
              vd_ViewPhase = ph, vd_VaultStatus = ti_Status item, vd_VaultPhase = ti_Phase item\<rparr>]\<rparr>)"

definition compareViewToIndex :: "task_lib \<Rightarrow> Task list \<Rightarrow> TaskIndex \<Rightarrow> viewDivergenceReport" where
  "compareViewToIndex L owned index =
     (let report = foldl (compareTask L (itemsByID index))
        \<lparr>vr_Compared = 0, vr_Divergent = 0, vr_Absent = 0, vr_Findings = []\<rparr> owned
      in report\<lparr>vr_Findings := sort_key vd_ID (vr_Findings report)\<rparr>)"

definition checkViewDivergence :: "'w handler_env \<Rightarrow> Task list \<Rightarrow> ('w taskEventHandler, unit) state" where
  "checkViewDivergence env owned =
     (if he_indexClient env = None then ret ()
      else
        do { index \<leftarrow> vaultIndexFor env;
             case index of
               Inl _ \<Rightarrow> count ''view_divergence'' [''read_error'']
             | Inr None \<Rightarrow> count ''view_divergence'' [''read_error'']
             | Inr (Some ix) \<Rightarrow>
                 (let findings = vr_Findings (compareViewToIndex (he_lib env) owned ix) in
                  do { count ''view_divergence'' [''ok''];
                       for_each (filter (\<lambda>f. \<not> vd_Absent f) findings) (\<lambda>_. count ''view_divergence'' [''mismatch'']);
                       for_each (filter vd_Absent findings) (\<lambda>_. count ''view_divergence'' [''absent'']) }) })"

section \<open>The passes\<close>

text \<open>Caches live as long as the context of the pass that created them.\<close>

definition openPass :: "('w taskEventHandler, unit) state" where
  "openPass = modify (\<lambda>h. h\<lparr>th_jobCache := Some [], th_streakCache := Some None, th_reasonCache := Some None,
     th_successCache := Some None, th_indexCache := Some None\<rparr>)"

definition closePass :: "('w taskEventHandler, unit) state" where
  "closePass = modify (\<lambda>h. h\<lparr>th_jobCache := None, th_streakCache := None, th_reasonCache := None,
     th_successCache := None, th_indexCache := None\<rparr>)"

datatype pass_result =
    PassViewNotReady
  | PassUnstamped
  | PassMismatch "string list"
  | PassAborted reconcileCounters
  | PassDone reconcileCounters

definition reconcileOwned :: "'w handler_env \<Rightarrow> Task list \<Rightarrow> ('w taskEventHandler, pass_result) state" where
  "reconcileOwned env owned =
     do { gathered \<leftarrow> gatherCandidates env owned [] zeroCounters;
          let (candidates, c) = gathered;
          done \<leftarrow> ctxDone env;
          if done then do { count ''reconcile_passes'' [''aborted'']; ret (PassAborted c) }
          else
            do { stillOpen \<leftarrow> ctxDone env;
                 (if \<not> stillOpen then checkViewDivergence env owned else ret ());
                 driven \<leftarrow> driveCandidates env (sortCandidatesByAdmissionPriority env candidates) c;
                 if fst driven then do { count ''reconcile_passes'' [''ok'']; ret (PassDone (snd driven)) }
                 else do { count ''reconcile_passes'' [''aborted'']; ret (PassAborted (snd driven)) } } }"

definition reconcileView :: "'w handler_env \<Rightarrow> taskView \<Rightarrow> ('w taskEventHandler, pass_result) state" where
  "reconcileView env view =
     (if \<not> tv_ready view then do { count ''reconcile_passes'' [''view_not_ready'']; ret PassViewNotReady }
      else
        (case classifyVaults (view_Snapshot view) (he_vaultMatcher env) of
           (vaultOutcomeUnstamped, _) \<Rightarrow> do { count ''reconcile_passes'' [''task_vault_unstamped'']; ret PassUnstamped }
         | (vaultOutcomeMismatch, seen) \<Rightarrow> do { count ''reconcile_passes'' [''task_vault_mismatch'']; ret (PassMismatch seen) }
         | (vaultOutcomeOK, _) \<Rightarrow>
             do { now \<leftarrow> clock env;
                  on_store (PruneSucceededBefore (now - successRecordRetention));
                  reconcileOwned env (ownedTasks (view_Snapshot view) (he_vaultMatcher env)) }))"

text \<open>A handler without a view cannot reconcile: the Go code would dereference nil.\<close>

definition ReconcileOnce :: "'w handler_env \<Rightarrow> ('w taskEventHandler, pass_result) state" where
  "ReconcileOnce env =
     do { _ \<leftarrow> refreshConfigAccepted env;
          openPass;
          view \<leftarrow> gets th_view;
          r \<leftarrow> (case view of None \<Rightarrow> ret PassViewNotReady | Some v \<Rightarrow> reconcileView env v);
          closePass;
          ret r }"

record deferredReplay =
  dr_entry :: deferredEntry
  dr_claim :: deferredClaim

definition sortDeferredByAdmissionPriority :: "'w handler_env \<Rightarrow> deferredReplay list \<Rightarrow> deferredReplay list" where
  "sortDeferredByAdmissionPriority env replays =
     sort_key (\<lambda>rpl. admissionPriority env (de_task (dr_entry rpl))) replays"

text \<open>Taking the entries that are due out of the map, each with the epoch it had.\<close>

definition takeReady :: "go_time \<Rightarrow> ('w taskEventHandler, deferredReplay list) state" where
  "takeReady now =
     do { h \<leftarrow> gets (\<lambda>h. h);
          let due = filter (\<lambda>(tid, entry). \<not> now < de_retryAfter entry) (th_deferredRespawns h);
          modify (\<lambda>h. h\<lparr>th_deferredRespawns := filter (\<lambda>(tid, entry). now < de_retryAfter entry) (th_deferredRespawns h)\<rparr>);
          ret (map (\<lambda>(tid, entry). \<lparr>dr_entry = entry,
            dr_claim = \<lparr>dc_id = tid, dc_epoch = epoch_of (th_deferredEpochs h) tid\<rparr>\<rparr>) due) }"

fun replayDeferred :: "'w handler_env \<Rightarrow> deferredReplay list \<Rightarrow> ('w taskEventHandler, go_error option) state" where
  "replayDeferred env [] = ret None"
| "replayDeferred env (rpl # rest) =
     do { done \<leftarrow> ctxDone env;
          if done then ret None
          else
            (let task = de_task (dr_entry rpl); tid = TaskIdentifier task in
             do { suppressed \<leftarrow> indexGateSuppresses env task;
                  if suppressed then do { clearQueuedAtStampIfNotDeferred tid; replayDeferred env rest }
                  else
                    do { r \<leftarrow> spawnIfNeededClaimed env task (Some (de_config (dr_entry rpl))) (Some (dr_claim rpl));
                         case r of
                           Inl e \<Rightarrow>
                             if is_refusal_write_error e then
                               do { task_event ''deferred_respawn_refusal_write_failed'';
                                    clearQueuedAtStampIfNotDeferred tid; replayDeferred env rest }
                             else if is_spawn_error e then
                               do { task_event ''deferred_respawn_spawn_failed'';
                                    clearQueuedAtStampIfNotDeferred tid; replayDeferred env rest }
                             else ret (Some (Wrapped ''deferred respawn'' e))
                         | Inr o1 \<Rightarrow>
                             if o1 \<noteq> spawnOutcomeSpawned then
                               do { clearQueuedAtStampIfNotDeferred tid; replayDeferred env rest }
                             else
                               do { clearQueuedAtStampIfNotDeferred tid;
                                    task_event ''respawn_after_grace_window'';
                                    replayDeferred env rest } } }) }"

definition evalDeferredRespawns :: "'w handler_env \<Rightarrow> ('w taskEventHandler, go_error option) state" where
  "evalDeferredRespawns env =
     do { modify (\<lambda>h. h\<lparr>th_indexCache := Some None\<rparr>);
          now \<leftarrow> clock env;
          ready \<leftarrow> takeReady now;
          r \<leftarrow> replayDeferred env (sortDeferredByAdmissionPriority env ready);
          modify (\<lambda>h. h\<lparr>th_indexCache := None\<rparr>);
          ret r }"

text \<open>Seeding the deferred map from the store at start-up; a resolution error skips the task.\<close>

fun seedFrom :: "'w handler_env \<Rightarrow> (string \<times> Task) list \<Rightarrow> ('w taskEventHandler, unit) state" where
  "seedFrom env [] = ret ()"
| "seedFrom env ((tid, task) # rest) =
     do { done \<leftarrow> ctxDone env;
          if done then ret ()
          else
            do { h \<leftarrow> gets (\<lambda>h. h);
                 let L = he_lib env;
                 let fm = Frontmatter task;
                 (if map_of (th_deferredRespawns h) tid \<noteq> None \<or> lib_CurrentJob L fm = '''' \<or>
                     (case lib_Phase L fm of None \<Rightarrow> False | Some p \<Rightarrow> IsTerminal p) \<or> IsTerminalStatus (lib_Status L fm)
                  then ret ()
                  else
                    (case lib_JobStartedAt L fm of
                       Inl _ \<Rightarrow> ret ()
                     | Inr jobStartedAt \<Rightarrow>
                         do { config \<leftarrow> outside (cr_Resolve (he_resolver env) (lib_Assignee L fm));
                              case config of
                                Inl _ \<Rightarrow> ret ()
                              | Inr c \<Rightarrow> modify (\<lambda>h. h\<lparr>th_deferredRespawns := AList.update tid
                                  \<lparr>de_task = task, de_config = c, de_retryAfter = jobStartedAt + defaultRespawnGracePeriod\<rparr>
                                  (th_deferredRespawns h)\<rparr>) }));
                 seedFrom env rest } }"

definition seedDeferredRespawnsFromStore :: "'w handler_env \<Rightarrow> ('w taskEventHandler, unit) state" where
  "seedDeferredRespawnsFromStore env =
     do { snapshot \<leftarrow> gets (\<lambda>h. ts_tasks (th_taskStore h)); seedFrom env snapshot }"

end
