(* ===== verification/Handler_Frames.thy ===== *)
theory Handler_Frames
  imports Handler_Passes
begin

text \<open>
  What the operations of the handler leave alone. \<open>leaves f m\<close> says that the observation \<open>f\<close> of the
  state is the same after \<open>m\<close>; the rules of \<open>leaves_intros\<close> follow the structure of a program, so a frame
  of a large operation is proved from the frames of what it calls. The locale \<open>dispatch_world\<close> is the
  contract between the handler and its collaborators: none of them but \<open>SpawnJob\<close> creates a Job.
\<close>

section \<open>Frames\<close>

named_theorems leaves_intros \<open>introduction rules for frames\<close>

definition leaves :: "('s \<Rightarrow> 'a) \<Rightarrow> ('s, 'b) state \<Rightarrow> bool" where
  "leaves f m \<longleftrightarrow> (\<forall>s. f (snd (run_state m s)) = f s)"

lemma leavesD: "leaves f m \<Longrightarrow> run_state m s = (a, s') \<Longrightarrow> f s' = f s"
  unfolding leaves_def by (metis snd_conv)

lemma leaves_ret [leaves_intros]: "leaves f (ret a)"
  by (simp add: leaves_def)

lemma leaves_bind [leaves_intros]: "leaves f m \<Longrightarrow> (\<And>a. leaves f (g a)) \<Longrightarrow> leaves f (State_Monad.bind m g)"
  by (simp add: leaves_def split_beta)

lemma leaves_gets [leaves_intros]: "leaves f (gets g)"
  by (simp add: leaves_def)

lemma leaves_modify: "(\<And>s. f (g s) = f s) \<Longrightarrow> leaves f (modify g)"
  by (simp add: leaves_def)

lemma leaves_if [leaves_intros]: "(b \<Longrightarrow> leaves f m) \<Longrightarrow> (\<not> b \<Longrightarrow> leaves f n) \<Longrightarrow> leaves f (if b then m else n)"
  by simp

lemma leaves_case [leaves_intros]:
  "(x = None \<Longrightarrow> leaves f m) \<Longrightarrow> (\<And>a. x = Some a \<Longrightarrow> leaves f (g a)) \<Longrightarrow> leaves f (case x of None \<Rightarrow> m | Some a \<Rightarrow> g a)"
  "(\<And>a. y = Inl a \<Longrightarrow> leaves f (p a)) \<Longrightarrow> (\<And>b. y = Inr b \<Longrightarrow> leaves f (q b)) \<Longrightarrow> leaves f (case y of Inl a \<Rightarrow> p a | Inr b \<Rightarrow> q b)"
  "(\<And>a b. z = (a, b) \<Longrightarrow> leaves f (r a b)) \<Longrightarrow> leaves f (case z of (a, b) \<Rightarrow> r a b)"
  "leaves f m \<Longrightarrow> leaves f n \<Longrightarrow> leaves f (case t of True \<Rightarrow> m | False \<Rightarrow> n)"
  by (cases x, simp, simp) (cases y, simp, simp, (cases z, simp), cases t, simp, simp)

lemma leaves_Let [leaves_intros]: "(\<And>y. leaves f (g y)) \<Longrightarrow> leaves f (Let x g)"
  by simp

lemma leaves_for_each [leaves_intros]: "(\<And>x. leaves f (g x)) \<Longrightarrow> leaves f (for_each xs g)"
  by (induction xs) (auto intro!: leaves_intros)

lemma leaves_pair: "leaves f m \<Longrightarrow> leaves g m \<Longrightarrow> leaves (\<lambda>s. (f s, g s)) m"
  by (simp add: leaves_def)

lemma leaves_in_world: "leaves (\<lambda>m. f (lm_world m)) (in_world x) \<longleftrightarrow> leaves f x"
proof
  assume k: "leaves (\<lambda>m. f (lm_world m)) (in_world x)"
  show "leaves f x"
    unfolding leaves_def
  proof
    fix w
    show "f (snd (run_state x w)) = f w"
      using k [unfolded leaves_def, rule_format, of "\<lparr>lm_held = [], lm_counts = [], lm_world = w\<rparr>"]
      by (simp add: in_world_def split: prod.splits)
  qed
qed (simp add: leaves_def in_world_def split_beta)

lemma leaves_in_lease: "leaves f x \<Longrightarrow> leaves (\<lambda>h. f (th_lease h)) (in_lease x)"
  by (simp add: leaves_def in_lease_def split_beta)

text \<open>What an operation on the lease manager or on the world never touches.\<close>

lemma leaves_outside_field:
  "(\<And>h m. f (h\<lparr>th_lease := m\<rparr>) = f h) \<Longrightarrow> leaves f (in_lease x)"
  "(\<And>h m. f (h\<lparr>th_lease := m\<rparr>) = f h) \<Longrightarrow> leaves f (outside y)"
  by (simp_all add: leaves_def in_lease_def outside_def split_beta)

section \<open>Frames of the lease manager\<close>

text \<open>The operations a handler performs on its lease manager reach the world only through the claim
  client, the check for a running Job and the clock.\<close>

definition lease_calm :: "('w \<Rightarrow> 'j) \<Rightarrow> 'w lease_env \<Rightarrow> bool" where
  "lease_calm jobs lenv \<longleftrightarrow>
     leaves jobs (le_currentDateTime lenv) \<and>
     (\<forall>ctx t c ti s. leaves jobs (cc_Acquire (le_claimClient lenv) ctx t c ti s)) \<and>
     (\<forall>ctx t tok. leaves jobs (cc_Release (le_claimClient lenv) ctx t tok)) \<and>
     (\<forall>ctx t. leaves jobs (cc_Read (le_claimClient lenv) ctx t)) \<and>
     (\<forall>ctx ti. leaves jobs (jc_IsJobRunning (le_jobControl lenv) ctx ti))"

lemma lease_calmD:
  assumes "lease_calm jobs lenv"
  shows "leaves (\<lambda>m. jobs (lm_world m)) (in_world (le_currentDateTime lenv))"
    and "leaves (\<lambda>m. jobs (lm_world m)) (in_world (cc_Acquire (le_claimClient lenv) ctx t c ti s))"
    and "leaves (\<lambda>m. jobs (lm_world m)) (in_world (cc_Release (le_claimClient lenv) ctx t tok))"
    and "leaves (\<lambda>m. jobs (lm_world m)) (in_world (cc_Read (le_claimClient lenv) ctx t))"
    and "leaves (\<lambda>m. jobs (lm_world m)) (in_world (jc_IsJobRunning (le_jobControl lenv) ctx ti))"
  using assms by (simp_all add: lease_calm_def leaves_in_world)

lemma leaves_lease_steps [leaves_intros]:
  "leaves (\<lambda>m. jobs (lm_world m)) (countClaim l)"
  "leaves (\<lambda>m. jobs (lm_world m)) (put_held k h)"
  "leaves (\<lambda>m. jobs (lm_world m)) (drop_held k)"
  "leaves (\<lambda>m. jobs (lm_world m)) (upd_held k g)"
  by (simp_all add: countClaim_def put_held_def drop_held_def upd_held_def leaves_modify)

lemmas lease_frame_defs =
  now_of_def requestContext_def readBack_def readBackRecovery_def releaseRecovery_def acquire_def
  createPrimary_def storeClaim_def countClaimCreated_def claimPairLocked_def ClaimPair_def
  releaseRef_def releaseLocked_def countClaimRemoval_def lm_Release_def ReleaseAfterSuccess_def
  acquireForTakeover_def finishTakeoverPair_def TakeoverPair_def

lemma lease_ops_leave:
  assumes "lease_calm jobs lenv"
  shows "leaves (\<lambda>m. jobs (lm_world m)) (ClaimPair lenv p s ti)"
    and "leaves (\<lambda>m. jobs (lm_world m)) (TakeoverPair lenv p s ti)"
    and "leaves (\<lambda>m. jobs (lm_world m)) (lm_Release lenv k)"
    and "leaves (\<lambda>m. jobs (lm_world m)) (ReleaseAfterSuccess lenv k at)"
  unfolding lease_frame_defs by (intro leaves_intros lease_calmD [OF assms])+

section \<open>The contract with the collaborators\<close>

definition publisher_calm :: "('w \<Rightarrow> 'j) \<Rightarrow> 'w ResultPublisher \<Rightarrow> bool" where
  "publisher_calm jobs p \<longleftrightarrow>
     (\<forall>t j. leaves jobs (rp_SpawnNotification p t j)) \<and> (\<forall>t. leaves jobs (rp_IncrementTriggerCount p t)) \<and>
     (\<forall>t s n. leaves jobs (rp_SetTriggerScope p t s n)) \<and> (\<forall>t s n m. leaves jobs (rp_TriggerBudgetRefusal p t s n m)) \<and>
     (\<forall>t r. leaves jobs (rp_TypeMismatchFailure p t r)) \<and> (\<forall>t a. leaves jobs (rp_RestoreAssignee p t a)) \<and>
     (\<forall>t. leaves jobs (rp_ParkLostClaim p t)) \<and> (\<forall>t. leaves jobs (rp_ParkSucceeded p t)) \<and>
     (\<forall>t q. leaves jobs (rp_QueueEntry p t q)) \<and> (\<forall>t r n. leaves jobs (rp_Abort p t r n))"

definition ref_client_calm :: "('w \<Rightarrow> 'j) \<Rightarrow> 'w ClaimRefClient \<Rightarrow> bool" where
  "ref_client_calm jobs rc \<longleftrightarrow>
     (\<forall>p. leaves jobs (rc_List rc p)) \<and> (\<forall>k e c t u. leaves jobs (rc_Put rc k e c t u)) \<and>
     (\<forall>k s. leaves jobs (rc_Delete rc k s))"

definition success_store_calm :: "('w \<Rightarrow> 'j) \<Rightarrow> 'w SuccessStore \<Rightarrow> bool" where
  "success_store_calm jobs s \<longleftrightarrow>
     (\<forall>t p c. leaves jobs (ss_Record s t p c)) \<and> (\<forall>t p. leaves jobs (ss_Lookup s t p)) \<and> leaves jobs (ss_Snapshot s)"

definition claim_client_calm :: "('w \<Rightarrow> 'j) \<Rightarrow> 'w ClaimClient \<Rightarrow> bool" where
  "claim_client_calm jobs cc \<longleftrightarrow>
     (\<forall>ctx t c ti s. leaves jobs (cc_Acquire cc ctx t c ti s)) \<and>
     (\<forall>ctx t tok. leaves jobs (cc_Release cc ctx t tok)) \<and> (\<forall>ctx t. leaves jobs (cc_Read cc ctx t))"

lemma ref_client_calmD:
  "ref_client_calm jobs rc \<Longrightarrow> leaves jobs (rc_List rc p)"
  "ref_client_calm jobs rc \<Longrightarrow> leaves jobs (rc_Put rc k e c t u)"
  "ref_client_calm jobs rc \<Longrightarrow> leaves jobs (rc_Delete rc k s)"
  by (simp_all add: ref_client_calm_def)

lemmas store_frame_defs =
  redriveListForTask_def redriveDeleteRef_def clearRedriveRefs_def streakCount_def streakSnapshot_def streakClear_def
  reasonReasons_def reasonSnapshot_def reasonClear_def keepOnly_def successRecord_def successLookup_def
  successSnapshot_def schemeRead_def schemeConfirm_def schemeRefuse_def schemeAdmitUnreadable_def
  schemeBootstrap_def schemeCheck_def

text \<open>The shared stores only use their ref client and the clock.\<close>

lemma stores_leave:
  assumes "ref_client_calm jobs rc" "leaves jobs now"
  shows "leaves jobs (streakCount rc now P t p)" and "leaves jobs (streakSnapshot rc now P)"
    and "leaves jobs (streakClear rc t)" and "leaves jobs (reasonReasons rc t p)" and "leaves jobs (reasonSnapshot rc)"
    and "leaves jobs (reasonClear rc t)" and "leaves jobs (successRecord rc d t p at)"
    and "leaves jobs (successLookup rc now P t p)" and "leaves jobs (successSnapshot rc now P)"
    and "leaves jobs (schemeCheck rc now cl v)"
  unfolding store_frame_defs by (intro leaves_intros ref_client_calmD [OF assms(1)] assms(2))+

locale dispatch_world =
  fixes env :: "'w handler_env" and jobs :: "'w \<Rightarrow> 'j"
  assumes clock_calm: "leaves jobs (he_now env)"
    and lookup_calm: "leaves jobs (js_IsJobActive (he_jobSpawner env) n t)"
    and listing_calm: "leaves jobs (js_ListActiveJobs (he_jobSpawner env) n a)"
    and existence_calm: "leaves jobs (js_JobExists (he_jobSpawner env) n j)"
    and publisher_calm: "publisher_calm jobs (he_publisher env)"
    and ref_client_calm: "he_refClientFactory env = Some (Some rc) \<Longrightarrow> ref_client_calm jobs rc"
    and claim_client_calm: "he_claimClientFactory env = Some (Some cc) \<Longrightarrow> claim_client_calm jobs cc"
    and running_calm: "he_jobControl env = Some jc \<Longrightarrow> leaves jobs (jc_IsJobRunning jc ctx t)"
    and index_calm: "he_indexClient env = Some read \<Longrightarrow> leaves jobs read"
    and success_store_calm: "he_successStore env = Some ss \<Longrightarrow> success_store_calm jobs ss"
    and quota_calm: "he_podQuota env = Some q \<Longrightarrow> leaves jobs (q n a)"
    and sleep_calm: "leaves jobs (he_sleep env d)"

text \<open>The Jobs created so far and the epochs of the deferred entries.\<close>

definition created :: "('w \<Rightarrow> 'j) \<Rightarrow> 'w taskEventHandler \<Rightarrow> 'j \<times> (string, int) gomap" where
  "created jobs h = (jobs (lm_world (th_lease h)), th_deferredEpochs h)"

lemma leaves_created_outside [leaves_intros]: "leaves jobs x \<Longrightarrow> leaves (created jobs) (outside x)"
  by (simp add: leaves_def created_def outside_def in_lease_def in_world_def split_beta)

lemma leaves_created_lease: "leaves (\<lambda>m. jobs (lm_world m)) x \<Longrightarrow> leaves (created jobs) (in_lease x)"
  by (simp add: leaves_def created_def in_lease_def split_beta)

lemma leaves_created_steps [leaves_intros]:
  "leaves (created jobs) (count m ls)"
  "leaves (created jobs) (task_event l)"
  "leaves (created jobs) (on_store f)"
  "leaves (created jobs) (ctxDone env)"
  "leaves (created jobs) (clearQueuedAtStampIfNotDeferred tid)"
  "leaves (created jobs) (recordQueuedAtStamp tid v)"
  "leaves (created jobs) (storeGraceWindowDeferral t c r d)"
  "leaves (created jobs) (bumpSpawnGen a)"
  "leaves (created jobs) (markSpawnPending tid)"
  "leaves (created jobs) (clearSpawnPending tid)"
  "leaves (created jobs) recordClaimInvalidated"
  "leaves (created jobs) (claimStillValid d)"
  "leaves (created jobs) (queuedAtFromView env tid)"
  "leaves (created jobs) (queuedAtStamp tid)"
  "leaves (created jobs) (spawnGenFor a)"
  "leaves (created jobs) (storedCurrentJob env tid)"
  by (auto simp: leaves_def created_def count_def task_event_def on_store_def ctxDone_def
      clearQueuedAtStampIfNotDeferred_def recordQueuedAtStamp_def storeGraceWindowDeferral_def bumpSpawnGen_def
      markSpawnPending_def clearSpawnPending_def recordClaimInvalidated_def claimStillValid_def
      queuedAtFromView_def queuedAtStamp_def spawnGenFor_def storedCurrentJob_def split: option.split)

lemma leaves_created_modify [leaves_intros]:
  "leaves (created jobs) (modify (\<lambda>h. h\<lparr>th_jobCache := c1 h\<rparr>))"
  "leaves (created jobs) (modify (\<lambda>h. h\<lparr>th_indexCache := c2 h\<rparr>))"
  "leaves (created jobs) (modify (\<lambda>h. h\<lparr>th_streakCache := c3 h\<rparr>))"
  "leaves (created jobs) (modify (\<lambda>h. h\<lparr>th_reasonCache := c4 h\<rparr>))"
  "leaves (created jobs) (modify (\<lambda>h. h\<lparr>th_successCache := c5 h\<rparr>))"
  "leaves (created jobs) (modify (\<lambda>h. h\<lparr>th_deferredRespawns := c6 h\<rparr>))"
  by (simp_all add: leaves_modify created_def)

context dispatch_world
begin

lemma publisher_leaves:
  "leaves jobs (rp_SpawnNotification (he_publisher env) t j)"
  "leaves jobs (rp_IncrementTriggerCount (he_publisher env) t)"
  "leaves jobs (rp_SetTriggerScope (he_publisher env) t s n)"
  "leaves jobs (rp_TriggerBudgetRefusal (he_publisher env) t s n m)"
  "leaves jobs (rp_ParkLostClaim (he_publisher env) t)"
  "leaves jobs (rp_ParkSucceeded (he_publisher env) t)"
  "leaves jobs (rp_QueueEntry (he_publisher env) t q)"
  "leaves jobs (rp_Abort (he_publisher env) t r n)"
  using publisher_calm by (simp_all add: publisher_calm_def)

lemmas calm = clock_calm lookup_calm listing_calm existence_calm publisher_leaves sleep_calm

lemma clock_leaves [leaves_intros]: "leaves (created jobs) (clock env)"
  unfolding clock_def by (intro leaves_intros calm)

lemma lease_calm_manager: "leaseManager_of env = Inr (lenv, rc) \<Longrightarrow> lease_calm jobs lenv \<and> ref_client_calm jobs rc"
  using clock_calm ref_client_calm claim_client_calm running_calm
  by (auto simp: leaseManager_of_def createLeaseManager_def lease_calm_def claim_client_calm_def
      split: option.splits if_splits)

lemma lookups_leave [leaves_intros]:
  "leaves (created jobs) (activeJobsFor env n a)"
  "leaves (created jobs) (isJobActive env t c)"
  "leaves (created jobs) (handleJobLookupDenied env e)"
  "leaves (created jobs) (podQuotaFor env n cfg)"
proof -
  show active: "leaves (created jobs) (activeJobsFor env n a)" for n a
    unfolding activeJobsFor_def by (intro leaves_intros calm)
  show "leaves (created jobs) (isJobActive env t c)"
    unfolding isJobActive_def by (intro leaves_intros calm active)
  show "leaves (created jobs) (handleJobLookupDenied env e)"
    unfolding handleJobLookupDenied_def logJobLookupDenied_def
    by (intro leaves_intros calm leaves_modify) (simp add: created_def Let_def split: option.split)
  show "leaves (created jobs) (podQuotaFor env n cfg)"
    unfolding podQuotaFor_def
    by (cases "he_podQuota env") (auto intro!: leaves_intros quota_calm)
qed

lemma index_leaves [leaves_intros]:
  "leaves (created jobs) (vaultIndexFor env)"
  "leaves (created jobs) (indexGateSuppresses env t)"
  "leaves (created jobs) (finalSpawnRefusals env t d)"
proof -
  show v: "leaves (created jobs) (vaultIndexFor env)"
    unfolding vaultIndexFor_def by (cases "he_indexClient env") (auto intro!: leaves_intros index_calm)
  show i: "leaves (created jobs) (indexGateSuppresses env t)" for t
    unfolding indexGateSuppresses_def by (intro leaves_intros v)
  show "leaves (created jobs) (finalSpawnRefusals env t d)"
    unfolding finalSpawnRefusals_def by (intro leaves_intros i)
qed

lemma release_leaves [leaves_intros]:
  assumes "\<And>lenv k. lease_calm jobs lenv \<Longrightarrow> leaves (\<lambda>m. jobs (lm_world m)) (release lenv k)"
  shows "leaves (created jobs) (releaseTaskClaimLockedWith env tid release)"
proof (cases "leaseManager_of env")
  case (Inl e)
  then show ?thesis unfolding releaseTaskClaimLockedWith_def by (auto intro!: leaves_intros)
next
  case (Inr x)
  obtain lenv rc where "x = (lenv, rc)" by (cases x)
  with Inr lease_calm_manager have "lease_calm jobs lenv" by auto
  with Inr \<open>x = (lenv, rc)\<close> show ?thesis
    unfolding releaseTaskClaimLockedWith_def
    by (auto intro!: leaves_intros leaves_created_lease assms)
qed

lemma releases_leave [leaves_intros]:
  "leaves (created jobs) (releaseTaskClaimLocked env tid)"
  "leaves (created jobs) (ReleaseTaskClaim env tid)"
proof -
  show r: "leaves (created jobs) (releaseTaskClaimLocked env tid)"
    unfolding releaseTaskClaimLocked_def by (intro leaves_intros lease_ops_leave)
  show "leaves (created jobs) (ReleaseTaskClaim env tid)"
    unfolding ReleaseTaskClaim_def by (intro leaves_intros r)
qed

lemma successStore_calm: "successStore env = Some ss \<Longrightarrow> success_store_calm jobs ss"
  using ref_client_calm clock_calm success_store_calm
  by (auto simp: successStore_def success_store_calm_def stores_leave split: option.splits if_splits)

lemma success_leaves [leaves_intros]:
  "leaves (created jobs) (sharedSuccess env tid ph)"
  "leaves (created jobs) (lastSuccess env tid ph)"
  "leaves (created jobs) (suppressOrPark env t)"
  "leaves (created jobs) (recordTaskRerun env t)"
proof -
  show shared: "leaves (created jobs) (sharedSuccess env tid ph)" for tid ph
  proof (cases "successStore env")
    case (Some ss)
    with successStore_calm have "success_store_calm jobs ss" by blast
    with Some show ?thesis
      unfolding sharedSuccess_def successCacheLookup_def
      by (auto intro!: leaves_intros simp: success_store_calm_def)
  qed (simp add: sharedSuccess_def leaves_intros)
  show last: "leaves (created jobs) (lastSuccess env tid ph)" for tid ph
    unfolding lastSuccess_def by (intro leaves_intros shared)
  show "leaves (created jobs) (suppressOrPark env t)"
    unfolding suppressOrPark_def recentlySucceeded_def parkSucceededWithoutPhaseMove_def
    by (intro leaves_intros last calm)
  show "leaves (created jobs) (recordTaskRerun env t)"
    unfolding recordTaskRerun_def by (intro leaves_intros)
qed

lemma redrive_leaves [leaves_intros]:
  "leaves (created jobs) (effectiveStreak env tid ph)"
  "leaves (created jobs) (redriveStreakCapped env t)"
  "leaves (created jobs) (recordRedriveSpawn env t)"
proof -
  have store: "redriveStreakStore env = Inr (Some rc) \<Longrightarrow> ref_client_calm jobs rc" for rc
    using lease_calm_manager by (auto simp: redriveStreakStore_def split: if_splits sum.splits)
  have reasons: "redriveReasonStore env = Inr (Some rc) \<Longrightarrow> ref_client_calm jobs rc" for rc
    using lease_calm_manager by (auto simp: redriveReasonStore_def split: if_splits sum.splits)
  have memory: "leaves (created jobs) (inMemoryRedriveCount env tid ph)" for tid ph
    unfolding inMemoryRedriveCount_def by (intro leaves_intros)
  show streak: "leaves (created jobs) (effectiveStreak env tid ph)" for tid ph
    unfolding effectiveStreak_def redriveStreakCount_def
    using store
    by (auto intro!: leaves_intros memory stores_leave clock_calm split: sum.split option.split)
  have rs: "leaves (created jobs) (redriveReasonsFor env tid ph)" for tid ph
    unfolding redriveReasonsFor_def
    using reasons
    by (auto intro!: leaves_intros stores_leave clock_calm split: sum.split option.split)
  show "leaves (created jobs) (redriveStreakCapped env t)"
    unfolding redriveStreakCapped_def abortRedrive_def by (intro leaves_intros streak rs calm)
  show "leaves (created jobs) (recordRedriveSpawn env t)"
    unfolding recordRedriveSpawn_def
    by (intro leaves_intros leaves_modify) (simp add: created_def Let_def)
qed

lemma budget_leaves [leaves_intros]:
  "leaves (created jobs) (triggerBudgetRefusesSpawn env t)"
  "leaves (created jobs) (recordTriggerSpawn env t)"
  unfolding triggerBudgetRefusesSpawn_def checkTriggerBudget_def recordTriggerRefusal_def recordTriggerSpawn_def
  by (intro leaves_intros calm)+

lemma admission_leaves [leaves_intros]: "leaves (created jobs) (deferIfAtConcurrencyCap env t c d)"
  unfolding deferIfAtConcurrencyCap_def parkAtCap_def stampQueueEntry_def stampQueueEntryFresh_def
  by (intro leaves_intros calm)

lemma current_job_leaves [leaves_intros]: "leaves (created jobs) (suppressForActiveCurrentJob env t c d)"
proof -
  have probe: "leaves (created jobs) (claimProbe env t)" for t
    unfolding claimProbe_def countClaimProbeFailure_def
    using claim_client_calm
    by (auto intro!: leaves_intros simp: claim_client_calm_def split: option.split)
  have finished: "leaves (created jobs) (currentJobFinished env t j n a)" for t j n a
    unfolding currentJobFinished_def jobProvablyFinished_def currentJobFinishedWithoutStoreEntry_def
    by (intro leaves_intros probe calm)
  show ?thesis
    unfolding suppressForActiveCurrentJob_def checkActiveCurrentJob_def withinRespawnGraceWindow_def
    by (intro leaves_intros finished calm)
qed

lemma lookupFailed_leaves [leaves_intros]: "leaves (created jobs) (lookupFailed env e)"
  unfolding lookupFailed_def by (intro leaves_intros)

lemma parkAttempts_leaves: "leaves (created jobs) (parkAttempts env t n)"
  by (induction n) (auto intro!: leaves_intros calm)

lemma claiming_leaves [leaves_intros]: "leaves (created jobs) (acquireSpawnClaim env t c)"
proof (cases "leaseManager_of env")
  case (Inr x)
  obtain lenv rc where x: "x = (lenv, rc)" by (cases x)
  with Inr lease_calm_manager have calm': "lease_calm jobs lenv" "ref_client_calm jobs rc" by auto
  have "leaves (created jobs) (claimOrTakeOver env lenv p s t c)" for p s
    unfolding claimOrTakeOver_def parkAfterLostClaim_def
    by (intro leaves_intros leaves_created_lease lease_ops_leave [OF calm'(1)] parkAttempts_leaves)
  with Inr x show ?thesis
    unfolding acquireSpawnClaim_def
    by (auto intro!: leaves_intros stores_leave [OF calm'(2) clock_calm])
qed (auto simp: acquireSpawnClaim_def intro!: leaves_intros)

lemma finishSpawn_leaves [leaves_intros]: "leaves (created jobs) (finishSpawn env t c j)"
  unfolding finishSpawn_def storeSpawnedJob_def by (intro leaves_intros calm)

end

end
