(* ===== verification/Dispatch.thy ===== *)
theory Dispatch
  imports Handler_Frames
begin

text \<open>
  Properties of the dispatch decision: which gates stand between a task and its Job, that a Job runs
  under a claim, that an eviction stops work already queued, and how the Kafka path and the reconcile
  path relate.
\<close>

section \<open>Stepping through the funnel\<close>

text \<open>One stage of the funnel: a step that leaves \<open>f\<close> alone, and what follows it.\<close>

lemma wp_stage:
  assumes "f s = K" and "leaves f m" and "\<And>a s'. run_state m s = (a, s') \<Longrightarrow> f s' = K \<Longrightarrow> wp (g a) Q s'"
  shows "wp (State_Monad.bind m g) Q s"
proof -
  obtain a s' where run: "run_state m s = (a, s')" by (cases "run_state m s")
  with leavesD [OF assms(2) run] assms(1,3) have "wp (g a) Q s'" by simp
  then show ?thesis by (simp add: wp_def run)
qed

lemma wp_true [simp]: "wp m (\<lambda>_ _. True) s"
  by (simp add: wp_def split_beta)

lemma wp_leaves: "leaves f m \<Longrightarrow> wp m (\<lambda>_ s'. f s' = f s) s"
  by (rule wpI) (rule leavesD)

lemma wp_in_lease [wp_rules]:
  "wp (in_lease x) Q h = wp x (\<lambda>a m. Q a (h\<lparr>th_lease := m\<rparr>)) (th_lease h)"
  by (simp add: wp_def in_lease_def split_beta)

lemma wp_bool [wp_rules]:
  "wp (case b of True \<Rightarrow> m | False \<Rightarrow> n) Q s = ((b \<longrightarrow> wp m Q s) \<and> (\<not> b \<longrightarrow> wp n Q s))"
  by (cases b) auto

lemma skipForeignVault_False:
  "run_state (skipForeignVaultTask env task) h = (False, h') \<Longrightarrow> Accepts (he_vaultMatcher env) (Vault task)"
  by (auto simp: skipForeignVaultTask_def task_event_def count_def split: if_splits)

lemma rejectInvalid_False:
  "run_state (rejectInvalidJobNamespace env (Some c)) h = (False, h') \<Longrightarrow>
     \<exists>ns. ResolveJobNamespace (he_namespace env) (ac_JobNamespace c) = Inr ns"
  by (auto simp: rejectInvalidJobNamespace_def task_event_def count_def split: sum.splits)

lemma budget_False:
  "run_state (triggerBudgetRefusesSpawn env task) h = ((False, e), h') \<Longrightarrow>
     \<not> budgetExhausted (he_lib env) (Frontmatter task)"
  by (auto simp: triggerBudgetRefusesSpawn_def checkTriggerBudget_def task_event_def count_def
      split: if_splits option.splits prod.splits)

lemma finalRefusals_False:
  "run_state (finalSpawnRefusals env task claim) h = (False, h') \<Longrightarrow> \<not> claimInvalidated claim h"
  by (auto simp: finalSpawnRefusals_def claimStillValid_def recordClaimInvalidated_def task_event_def count_def
      claimInvalidated_def split: if_splits option.splits)

lemma claimInvalidated_created:
  "created jobs h = created jobs h' \<Longrightarrow> claimInvalidated claim h = claimInvalidated claim h'"
  by (simp add: created_def claimInvalidated_def split: option.split)

lemma leaves_vault [leaves_intros]:
  "leaves (created jobs) (skipForeignVaultTask env task)"
  "leaves (created jobs) (rejectInvalidJobNamespace env c)"
  unfolding skipForeignVaultTask_def rejectInvalidJobNamespace_def by (intro leaves_intros)+

text \<open>What has to hold of a task, its configuration and its place in the pass before a Job is created.\<close>

definition gates_open ::
  "'w handler_env \<Rightarrow> Task \<Rightarrow> AgentConfiguration option \<Rightarrow> deferredClaim option \<Rightarrow> 'w taskEventHandler \<Rightarrow> bool" where
  "gates_open env task config claim h \<longleftrightarrow>
     Accepts (he_vaultMatcher env) (Vault task) \<and>
     (\<exists>c ns. config = Some c \<and> ResolveJobNamespace (he_namespace env) (ac_JobNamespace c) = Inr ns) \<and>
     \<not> budgetExhausted (he_lib env) (Frontmatter task) \<and> \<not> claimInvalidated claim h"

context dispatch_world
begin

lemma lookupFailed_stays:
  assumes "created jobs h = K"
  shows "wp (lookupFailed env e) (\<lambda>r h'. (created jobs h' = K \<and> r \<noteq> Inr spawnOutcomeSpawned) \<or> G) h"
proof (rule wpI)
  fix r h' assume run: "run_state (lookupFailed env e) h = (r, h')"
  have "created jobs h' = K" using leavesD [OF lookupFailed_leaves run] assms by simp
  moreover have "r \<noteq> Inr spawnOutcomeSpawned"
    using run by (auto simp: lookupFailed_def split: prod.splits if_splits)
  ultimately show "(created jobs h' = K \<and> r \<noteq> Inr spawnOutcomeSpawned) \<or> G" by simp
qed

lemma gates_openI:
  assumes "run_state (skipForeignVaultTask env task) h = (False, h1)"
    and "run_state (rejectInvalidJobNamespace env (Some c)) h1 = (False, h2)"
    and "run_state (triggerBudgetRefusesSpawn env task) h6 = ((False, e), h7)"
    and "run_state (finalSpawnRefusals env task claim) h7 = (False, h8)"
    and "created jobs h7 = created jobs h"
  shows "wp x (\<lambda>r h'. P r h' \<or> gates_open env task (Some c) claim h) h8"
proof -
  have "gates_open env task (Some c) claim h"
    using skipForeignVault_False [OF assms(1)] rejectInvalid_False [OF assms(2)]
      budget_False [OF assms(3)] finalRefusals_False [OF assms(4)] claimInvalidated_created [OF assms(5)]
    unfolding gates_open_def by simp
  then show ?thesis by simp
qed

lemma spawn_behind_gates:
  "wp (spawnIfNeededClaimed env task config claim)
     (\<lambda>r h'. (created jobs h' = created jobs h \<and> r \<noteq> Inr spawnOutcomeSpawned) \<or> gates_open env task config claim h) h"
proof -
  note stage = wp_stage [where f = "created jobs" and K = "created jobs h"]
  show ?thesis
  proof (cases config)
    case None
    show ?thesis
      unfolding spawnIfNeededClaimed_def None
      by (auto simp: wp_return wp_if wp_sum wp_bool wp_prod wp_option intro!: stage leaves_intros lookupFailed_stays)
  next
    case (Some c)
    show ?thesis
      unfolding spawnIfNeededClaimed_def Some
      by (auto simp: wp_return wp_if wp_sum wp_bool wp_prod wp_option
          intro!: stage leaves_intros lookupFailed_stays) (erule gates_openI, assumption+)
  qed
qed

end

section \<open>The claim behind a Job\<close>

abbreviation held_of :: "'w taskEventHandler \<Rightarrow> (string, heldClaim) gomap" where
  "held_of h \<equiv> lm_held (th_lease h)"

lemma leaves_held_outside [leaves_intros]: "leaves held_of (outside x)"
  by (simp add: leaves_def outside_def in_lease_def in_world_def split_beta)

lemma leaves_held_steps [leaves_intros]:
  "leaves held_of (count m ls)"
  "leaves held_of (task_event l)"
  "leaves held_of (on_store f)"
  "leaves held_of (ctxDone env)"
  "leaves held_of (bumpSpawnGen a)"
  "leaves held_of (markSpawnPending tid)"
  "leaves held_of (clearSpawnPending tid)"
  by (auto simp: leaves_def count_def task_event_def on_store_def ctxDone_def bumpSpawnGen_def
      markSpawnPending_def clearSpawnPending_def)

lemma leaves_held_finish [leaves_intros]: "leaves held_of (finishSpawn env t c j)"
  unfolding finishSpawn_def storeSpawnedJob_def recordTriggerSpawn_def recordTaskRerun_def recordRedriveSpawn_def clock_def
  by (intro leaves_intros leaves_modify) (simp add: Let_def)

lemma leaves_held_park: "leaves held_of (parkAttempts env t n)"
  by (induction n) (auto intro!: leaves_intros)

text \<open>The claim of a task is in the held set: under the key derived from the task, fresh and with its id.\<close>

definition claim_held :: "'w handler_env \<Rightarrow> Task \<Rightarrow> (string, heldClaim) gomap \<Rightarrow> bool" where
  "claim_held env task H \<longleftrightarrow>
     (\<exists>p s fb hc. taskClaimKeys env task = Inr (p, s, fb) \<and> map_of H p = Some hc \<and> fresh_claim p s (TaskIdentifier task) hc)"

lemma claim_heldI:
  "taskClaimKeys env task = Inr (p, s, fb) \<Longrightarrow> acquired p s (TaskIdentifier task) H H' \<Longrightarrow> claim_held env task H'"
  by (auto simp: claim_held_def acquired_def update_conv')

lemma claimOrTakeOver_claims:
  assumes "taskClaimKeys env task = Inr (p, s, fb)" and "he_claimMode env = ClaimModeOn"
  shows "wp (claimOrTakeOver env lenv p s task c) (\<lambda>ok h'. ok \<longrightarrow> claim_held env task (held_of h')) h"
proof -
  have taken: "wp (TakeoverPair lenv p s (TaskIdentifier task))
      (\<lambda>r m'. \<forall>t. r = Inr t \<longrightarrow> claim_held env task (lm_held m')) m" for m
    by (rule wp_mono [OF TakeoverPair_outcome]) (auto intro: claim_heldI [OF assms(1)])
  have claimed: "wp (ClaimPair lenv p s (TaskIdentifier task))
      (\<lambda>r m'. \<forall>t. r = Inr t \<longrightarrow> claim_held env task (lm_held m')) m" for m
    unfolding ClaimPair_def by (rule wp_mono [OF claimPairLocked_outcome]) (auto intro: claim_heldI [OF assms(1)])
  show ?thesis
    unfolding claimOrTakeOver_def
    by (auto simp: wp_rules claimFailureDecision_def assms(2) 
        intro!: wpI [of "parkAfterLostClaim env task"] wp_mono [OF claimed] wp_mono [OF taken])
qed

lemma acquireSpawnClaim_claims:
  "wp (acquireSpawnClaim env task c)
     (\<lambda>ok h'. ok \<and> he_claimMode env = ClaimModeOn \<longrightarrow> claim_held env task (held_of h')) h"
proof (cases "he_claimMode env = ClaimModeOn")
  case True
  then show ?thesis
    unfolding acquireSpawnClaim_def
    by (auto simp: wp_rules count_def claimFailureDecision_def split: sum.split
        intro!: wpI [of "outside x" for x] claimOrTakeOver_claims)
qed simp

lemma wp_step: "(\<And>a s'. wp (g a) Q s') \<Longrightarrow> wp (State_Monad.bind m g) Q s"
  by (simp add: wp_def split_beta)

lemma spawnClaimedJob_claims:
  assumes "claim_held env task (held_of h)"
  shows "wp (spawnClaimedJob env task c) (\<lambda>r h'. r = Inr True \<longrightarrow> claim_held env task (held_of h')) h"
  unfolding spawnClaimedJob_def
  apply (rule wp_stage [where f = held_of and K = "held_of h"], simp, intro leaves_intros)
  subgoal for made h1
    using assms
    by (cases made) (simp, intro wp_step, simp add: wp_return,
      simp, rule wp_stage [where f = held_of and K = "held_of h"], simp, intro leaves_intros,
      simp add: wp_return split: option.split)
  done

lemma claimAndSpawn_claims:
  assumes "he_claimMode env = ClaimModeOn"
  shows "wp (claimAndSpawn env task c)
     (\<lambda>r h'. r = Inr spawnOutcomeSpawned \<longrightarrow> claim_held env task (held_of h')) h"
proof -
  let ?Q = "\<lambda>r h'. r = Inr spawnOutcomeSpawned \<longrightarrow> claim_held env task (held_of h')"
  have finish: "wp (State_Monad.bind (clearSpawnPending tid) (\<lambda>_. ret r)) ?Q h" if "?Q r h" for tid r h
    using that by (simp add: clearSpawnPending_def wp_rules)
  show ?thesis
    unfolding claimAndSpawn_def
    apply (rule wp_step)
    apply (simp only: wp_bind [of "acquireSpawnClaim env task c"])
    apply (rule wp_mono [OF acquireSpawnClaim_claims])
    subgoal for pending h1 ok h2
      using assms
      by (cases ok) (auto simp: wp_bind [of "spawnClaimedJob env task c"] wp_return wp_bind [of "ret x" for x]
          intro!: finish wp_mono [OF spawnClaimedJob_claims] split: sum.splits if_splits)
    done
qed

lemma spawn_claims:
  assumes "he_claimMode env = ClaimModeOn"
  shows "wp (spawnIfNeededClaimed env task config claim)
     (\<lambda>r h'. r = Inr spawnOutcomeSpawned \<longrightarrow> claim_held env task (held_of h')) h"
  unfolding spawnIfNeededClaimed_def lookupFailed_def
  by (auto simp: wp_return wp_if wp_sum wp_bool wp_prod wp_option
      intro!: wp_step claimAndSpawn_claims [OF assms])

section \<open>The two filters\<close>

text \<open>What both filters ask of a task and the configuration its assignee resolves to.\<close>

definition runnable :: "'w handler_env \<Rightarrow> Task \<Rightarrow> AgentConfiguration option \<Rightarrow> bool" where
  "runnable env task config \<longleftrightarrow>
     (let L = he_lib env; fm = Frontmatter task in
      \<not> isForeignCluster env task \<and> taskTypeMismatchReason L task config = '''' \<and>
      \<not> IsTerminalStatus (lib_Status L fm) \<and> lib_Status L fm \<in> set (effectiveTriggerStatuses config) \<and>
      (\<exists>p. lib_Phase L fm = Some p \<and> p \<in> set (effectiveTriggerPhases config) \<and> \<not> IsTerminal p) \<and>
      (he_stageFilter env \<longrightarrow> lib_Stage L fm = he_branch env))"

text \<open>The value a step returns, without its effect on the state.\<close>

abbreviation result :: "('s, 'a) state \<Rightarrow> 's \<Rightarrow> 'a" where
  "result m s \<equiv> fst (run_state m s)"

lemma result_bind: "result (State_Monad.bind m g) s = result (g (result m s)) (snd (run_state m s))"
  by (simp add: split_beta)

lemma result_skips [simp]:
  "result (skipAndEvict task label) h = Skipped"
  "result (refuseReconcile task gate) h = Skipped"
  "result (applyPhaseGate phase) h = IsTerminal phase"
  "result (skipForeignCluster env task) h = isForeignCluster env task"
  by (simp_all add: skipAndEvict_def refuseReconcile_def applyPhaseGate_def skipForeignCluster_def split_beta)

lemma filterResolved_accepts:
  assumes "lib_Assignee (he_lib env) (Frontmatter task) \<noteq> ''''" and "\<not> isForeignCluster env task"
    and "taskTypeMismatchReason (he_lib env) task config = ''''"
  shows "result (filterResolved env task config) h = Accepted t c \<longleftrightarrow>
     t = task \<and> c = config \<and> runnable env task config"
  using assms unfolding filterResolved_def Let_def runnable_def stageSkipResult_def
  by (cases "lib_Phase (he_lib env) (Frontmatter task)") (auto simp: result_bind simp del: run_state_bind)

lemma reconcileResolved_accepts:
  assumes "lib_Assignee (he_lib env) (Frontmatter task) \<noteq> ''''" and "\<not> isForeignCluster env task"
    and "taskTypeMismatchReason (he_lib env) task config = ''''"
  shows "result (reconcileResolved env task config) h = Accepted t c \<longleftrightarrow>
     t = task \<and> c = config \<and> runnable env task config"
  using assms unfolding reconcileResolved_def Let_def runnable_def
  by (cases "lib_Phase (he_lib env) (Frontmatter task)") (auto simp: result_bind simp del: run_state_bind)

text \<open>What the resolver says of the task's assignee.\<close>

abbreviation resolves :: "'w handler_env \<Rightarrow> Task \<Rightarrow> 'w taskEventHandler \<Rightarrow> AgentConfiguration option \<Rightarrow> bool" where
  "resolves env task h config \<equiv>
     (\<exists>c. config = Some c \<and>
        result (outside (cr_Resolve (he_resolver env) (lib_Assignee (he_lib env) (Frontmatter task)))) h = Inr c)"

lemma resolveConfig_resolves:
  assumes "lib_Assignee (he_lib env) (Frontmatter task) \<noteq> ''''"
  shows "result (resolveConfig env task) h = ResolveTo config \<longleftrightarrow> resolves env task h config"
  using assms unfolding resolveConfig_def
  by (auto simp: Let_def result_bind simp del: run_state_bind split: sum.split)

lemma resolveConfigForReconcile_resolves:
  assumes "lib_Assignee (he_lib env) (Frontmatter task) \<noteq> ''''"
  shows "result (resolveConfigForReconcile env task) h = ResolveTo config \<longleftrightarrow> resolves env task h config"
  using resolveConfig_resolves [OF assms, of h] unfolding resolveConfigForReconcile_def
  by (auto simp: Let_def result_bind simp del: run_state_bind)

lemma skipForeign_local: "\<not> isForeignCluster env task \<Longrightarrow> run_state (skipForeignCluster env task) h = (False, h)"
  by (simp add: skipForeignCluster_def)

lemma filterTask_accepts:
  assumes "lib_Assignee (he_lib env) (Frontmatter task) \<noteq> ''''"
  shows "result (filterTask env task) h = Accepted t c \<longleftrightarrow> t = task \<and> resolves env task h c \<and> runnable env task c"
proof (cases "isForeignCluster env task")
  case True
  then show ?thesis by (simp add: filterTask_def result_bind runnable_def Let_def del: run_state_bind)
next
  case False
  note sub = filterResolved_accepts [OF assms False] resolveConfig_resolves [OF assms, symmetric]
  show ?thesis
    unfolding filterTask_def
    by (cases "result (resolveConfig env task) h")
      (auto simp: result_bind skipForeign_local [OF False] sub runnable_def Let_def simp del: run_state_bind split: option.split)
qed

lemma reconcileTask_accepts:
  assumes "lib_Assignee (he_lib env) (Frontmatter task) \<noteq> ''''"
  shows "result (reconcileTask env task) h = Accepted t c \<longleftrightarrow> t = task \<and> resolves env task h c \<and> runnable env task c"
proof (cases "isForeignCluster env task")
  case True
  then show ?thesis by (simp add: reconcileTask_def result_bind runnable_def Let_def del: run_state_bind)
next
  case False
  note sub = reconcileResolved_accepts [OF assms False] resolveConfigForReconcile_resolves [OF assms, symmetric]
  show ?thesis
    unfolding reconcileTask_def
    by (cases "result (resolveConfigForReconcile env task) h")
      (auto simp: result_bind False sub runnable_def Let_def simp del: run_state_bind split: option.split)
qed

section \<open>The counters of a pass\<close>

definition balanced :: "reconcileCounters \<Rightarrow> bool" where
  "balanced c \<longleftrightarrow> rc_evaluated c = rc_redriven c + rc_deferred c + rc_capped c"

abbreviation total :: "reconcileCounters \<Rightarrow> int" where
  "total c \<equiv> rc_evaluated c + rc_skipped c"

lemma counters_add_balanced [simp]: "balanced (counters_add o1 c) = balanced c"
  by (cases o1) (auto simp: balanced_def)

lemma counters_add_total [simp]: "total (counters_add o1 c) = total c + 1"
  by (cases o1) auto

lemma gatherCandidates_accounts:
  assumes "run_state (gatherCandidates env ts acc c) h = ((cands, c'), h')"
  shows "(balanced c \<longrightarrow> balanced c') \<and>
    (\<not> he_ctxDone env (lm_world (th_lease h')) \<longrightarrow> total c' + int (length cands) = total c + int (length acc) + int (length ts))"
  using assms
proof (induction ts arbitrary: acc c h)
  case (Cons task ts)
  show ?case
    using Cons.prems Cons.IH
    by (auto simp: ctxDone_def split: if_splits prod.splits sum.splits)
qed simp

lemma driveCandidates_accounts:
  assumes "run_state (driveCandidates env cands c) h = ((completed, c'), h')"
  shows "(balanced c \<longrightarrow> balanced c') \<and> (completed \<longrightarrow> total c' = total c + int (length cands))"
  using assms
proof (induction cands arbitrary: c h)
  case (Cons cand cands)
  show ?case
    using Cons.prems Cons.IH by (fastforce simp: ctxDone_def split: if_splits prod.splits)
qed simp

end
