(* ===== verification/Dispatch_Instance.thy ===== *)
theory Dispatch_Instance
  imports Dispatch Claim_Service Lease_Format
begin

text \<open>
  A concrete dispatcher: the handler over a world with the in-memory ref store, a clock, the Jobs of the
  cluster and the commands sent. Claims go through the in-process claim service, configurations through
  the modelled resolver. It provides the contract \<open>dispatch_world\<close> and the inputs of the witnesses.
\<close>

section \<open>The world\<close>

record dispatchWorld =
  dw_git :: fakeGitRest
  dw_clock :: go_time
  dw_jobs :: "string list"
  dw_sent :: "string list"

definition in_git :: "(fakeGitRest, 'a) state \<Rightarrow> (dispatchWorld, 'a) state" where
  "in_git x = State (\<lambda>w. case run_state x (dw_git w) of (a, g) \<Rightarrow> (a, w\<lparr>dw_git := g\<rparr>))"

definition dwRefs :: "dispatchWorld ClaimRefClient" where
  "dwRefs =
     \<lparr>rc_List = (\<lambda>p. in_git (rc_List fakeClient p)),
      rc_Put = (\<lambda>k sha cl ti lu. in_git (rc_Put fakeClient k sha cl ti lu)),
      rc_Delete = (\<lambda>k sha. in_git (rc_Delete fakeClient k sha))\<rparr>"

definition dwNow :: "(dispatchWorld, go_time) state" where
  "dwNow = gets dw_clock"

definition dwClaims :: "dispatchWorld ClaimClient" where
  "dwClaims = claimtestClient dwRefs dwNow parseRFC3339"

definition dwJobControl :: "dispatchWorld JobControl" where
  "dwJobControl =
     \<lparr>jc_IsJobRunning = (\<lambda>ctx tid. gets (\<lambda>w. Inr (tid \<in> set (dw_jobs w)))),
      jc_DeleteJob = (\<lambda>ctx tid. State (\<lambda>w. (None, w\<lparr>dw_jobs := removeAll tid (dw_jobs w)\<rparr>)))\<rparr>"

definition dwSpawner :: "dispatchWorld JobSpawner" where
  "dwSpawner =
     \<lparr>js_SpawnJob = (\<lambda>task config. State (\<lambda>w.
        (Inr (''job-'' @ TaskIdentifier task), w\<lparr>dw_jobs := dw_jobs w @ [TaskIdentifier task]\<rparr>))),
      js_IsJobActive = (\<lambda>ns tid. gets (\<lambda>w. Inr (tid \<in> set (dw_jobs w)))),
      js_ListActiveJobs = (\<lambda>ns a. gets (\<lambda>w. Inr (map (\<lambda>tid. (tid, True)) (remdups (dw_jobs w))))),
      js_JobExists = (\<lambda>ns j. gets (\<lambda>w. Inr (list_ex (\<lambda>tid. ''job-'' @ tid = j) (dw_jobs w))))\<rparr>"

definition send :: "string \<Rightarrow> (dispatchWorld, go_error option) state" where
  "send command = State (\<lambda>w. (None, w\<lparr>dw_sent := dw_sent w @ [command]\<rparr>))"

definition dwPublisher :: "dispatchWorld ResultPublisher" where
  "dwPublisher =
     \<lparr>rp_SpawnNotification = (\<lambda>t j. send ''spawn''), rp_IncrementTriggerCount = (\<lambda>t. send ''increment''),
      rp_SetTriggerScope = (\<lambda>t s n. send ''scope''), rp_TriggerBudgetRefusal = (\<lambda>t s n m. send ''refusal''),
      rp_TypeMismatchFailure = (\<lambda>t r. send ''mismatch''), rp_RestoreAssignee = (\<lambda>t a. send ''restore''),
      rp_ParkLostClaim = (\<lambda>t. send ''park_lost''), rp_ParkSucceeded = (\<lambda>t. send ''park''),
      rp_QueueEntry = (\<lambda>t q. send ''queue''), rp_Abort = (\<lambda>t r n. send ''abort'')\<rparr>"

definition dwResolver :: "Config list \<Rightarrow> dispatchWorld ConfigResolver" where
  "dwResolver items =
     \<lparr>cr_Resolve = (\<lambda>a. ret (Resolve never (Inr items) ''dev'' ''personal'' a)),
      cr_ResolveByTaskType = (\<lambda>t a. ret (ResolveByTaskType never (Inr items) ''dev'' ''personal'' t a))\<rparr>"

definition dwEnv :: "dispatchWorld handler_env" where
  "dwEnv =
     \<lparr>he_lib = plainLib, he_unicode = plainUnicode, he_jobSpawner = dwSpawner, he_namespace = ''agents'',
      he_branch = ''dev'', he_cluster = ''east'', he_stageFilter = False, he_runUntagged = True,
      he_resolver = dwResolver [bareConfig ''claude'' [''code'']], he_publisher = dwPublisher, he_deadLetter = None,
      he_now = dwNow, he_vaultMatcher = NewVaultMatcher ''personal'' [], he_configProvider = None,
      he_claimMode = ClaimModeOn, he_refClientFactory = Some (Some dwRefs),
      he_claimClientFactory = Some (Some dwClaims), he_jobControl = Some dwJobControl, he_indexClient = None,
      he_successStore = None, he_podQuota = None, he_ctxDone = (\<lambda>_. False), he_sleep = (\<lambda>d. ret ()),
      he_parseDateTime = parseRFC3339\<rparr>"

definition dwIdle :: "dispatchWorld taskEventHandler" where
  "dwIdle =
     \<lparr>th_deferredRespawns = [], th_deferredEpochs = [], th_refusedGates = [], th_queuedAtStamps = [],
      th_redriveStreaks = [], th_spawnPending = [], th_spawnGens = [], th_jobLookupDeniedLoggedAt = [],
      th_configAcceptedPairs = [], th_taskStore = NewTaskStore, th_view = None,
      th_lease = \<lparr>lm_held = [], lm_counts = [],
        lm_world = \<lparr>dw_git = \<lparr>refs = [], shaSeq = 0\<rparr>, dw_clock = hour, dw_jobs = [], dw_sent = []\<rparr>\<rparr>,
      th_jobCache = None, th_streakCache = None, th_reasonCache = None, th_successCache = None, th_indexCache = None,
      th_counts = []\<rparr>"

definition dwConfig :: AgentConfiguration where
  "dwConfig = (case convert never 0 (bareConfig ''claude'' [''code'']) ''dev'' of Inr c \<Rightarrow> c | Inl _ \<Rightarrow> undefined)"

definition dwTask :: Task where
  "dwTask = \<lparr>TaskIdentifier = ''t1'', Vault = ''personal'',
     Frontmatter = [(''status'', FmString ''in_progress''), (''phase'', FmString ''execution''),
       (''assignee'', FmString ''claude''), (''task_type'', FmString ''code'')],
     Content = ''body''\<rparr>"

section \<open>It keeps the contract\<close>

lemma in_git_leaves [leaves_intros]: "leaves dw_jobs (in_git x)"
  by (simp add: leaves_def in_git_def split_beta)

lemma send_leaves [leaves_intros]: "leaves dw_jobs (send c)"
  by (simp add: leaves_def send_def)

lemma dwRefs_calm: "ref_client_calm dw_jobs dwRefs"
  by (simp add: ref_client_calm_def dwRefs_def leaves_intros)

lemma dwNow_leaves: "leaves dw_jobs dwNow"
  unfolding dwNow_def by (intro leaves_intros)

lemma dwClaims_calm: "claim_client_calm dw_jobs dwClaims"
  unfolding claim_client_calm_def dwClaims_def claimtestClient_def ClaimClient.simps
    ct_Acquire_def ct_Release_def ct_Read_def liveClaim_def exact_def
  by (intro allI conjI leaves_intros ref_client_calmD [OF dwRefs_calm] dwNow_leaves)

interpretation dw: dispatch_world dwEnv dw_jobs
proof
  show "leaves dw_jobs (he_now dwEnv)" by (simp add: dwEnv_def dwNow_leaves)
  show "leaves dw_jobs (js_IsJobActive (he_jobSpawner dwEnv) n t)" for n t
    by (simp add: dwEnv_def dwSpawner_def leaves_intros)
  show "leaves dw_jobs (js_ListActiveJobs (he_jobSpawner dwEnv) n a)" for n a
    by (simp add: dwEnv_def dwSpawner_def leaves_intros)
  show "leaves dw_jobs (js_JobExists (he_jobSpawner dwEnv) n j)" for n j
    by (simp add: dwEnv_def dwSpawner_def leaves_intros)
  show "publisher_calm dw_jobs (he_publisher dwEnv)"
    by (simp add: publisher_calm_def dwEnv_def dwPublisher_def leaves_intros)
  show "he_refClientFactory dwEnv = Some (Some rc) \<Longrightarrow> ref_client_calm dw_jobs rc" for rc
    by (auto simp: dwEnv_def dwRefs_calm)
  show "he_claimClientFactory dwEnv = Some (Some cc) \<Longrightarrow> claim_client_calm dw_jobs cc" for cc
    by (auto simp: dwEnv_def dwClaims_calm)
  show "he_jobControl dwEnv = Some jc \<Longrightarrow> leaves dw_jobs (jc_IsJobRunning jc ctx t)" for jc ctx t
    by (auto simp: dwEnv_def dwJobControl_def leaves_intros)
  show "he_indexClient dwEnv = Some read \<Longrightarrow> leaves dw_jobs read" for read by (simp add: dwEnv_def)
  show "he_successStore dwEnv = Some ss \<Longrightarrow> success_store_calm dw_jobs ss" for ss by (simp add: dwEnv_def)
  show "he_podQuota dwEnv = Some q \<Longrightarrow> leaves dw_jobs (q n a)" for q n a by (simp add: dwEnv_def)
  show "leaves dw_jobs (he_sleep dwEnv d)" for d by (simp add: dwEnv_def leaves_intros)
qed

end
