(* ===== verification/Dispatch_Theorems.thy ===== *)
theory Dispatch_Theorems
  imports Dispatch_Instance
begin

text \<open>
  The properties of the dispatcher that hold of every environment with the contract \<open>dispatch_world\<close>, or
  of every environment at all, with their instances on the concrete dispatcher.
\<close>

section \<open>The concrete dispatcher spawns\<close>

text \<open>The stages of the funnel that let the task of the concrete dispatcher through, one by one.\<close>

lemma dw_gate_stages:
  "run_state (skipForeignVaultTask dwEnv dwTask) dwIdle = (False, dwIdle)"
  "run_state (rejectInvalidJobNamespace dwEnv (Some dwConfig)) dwIdle = (False, dwIdle)"
  "run_state (suppressForActiveCurrentJob dwEnv dwTask (Some dwConfig) None) dwIdle = (Inr False, dwIdle)"
  "run_state (isJobActive dwEnv dwTask (Some dwConfig)) dwIdle = (Inr False, dwIdle)"
  "run_state (suppressOrPark dwEnv dwTask) dwIdle = (False, dwIdle)"
  by code_simp+

lemma dw_budget_stages:
  "run_state (redriveStreakCapped dwEnv dwTask) dwIdle = (False, dwIdle)"
  "run_state (deferIfAtConcurrencyCap dwEnv dwTask (Some dwConfig) None) dwIdle = (Inr False, dwIdle)"
  "run_state (triggerBudgetRefusesSpawn dwEnv dwTask) dwIdle = ((False, None), dwIdle)"
  "run_state (finalSpawnRefusals dwEnv dwTask None) dwIdle = (False, dwIdle)"
  by code_simp+

lemma dw_acquires: "result (acquireSpawnClaim dwEnv dwTask dwConfig) (dwIdle\<lparr>th_spawnPending := [''t1'']\<rparr>)"
  by code_simp

lemma dw_sends [simp]: "result (outside (send c)) h = None"
  by (simp add: outside_def in_lease_def in_world_def send_def)

lemma dw_spawner [simp]: "result (outside (js_SpawnJob (he_jobSpawner dwEnv) task c)) h = Inr (''job-'' @ TaskIdentifier task)"
  by (simp add: dwEnv_def dwSpawner_def outside_def in_lease_def in_world_def)

lemma dw_publisher [simp]: "he_publisher dwEnv = dwPublisher"
  by (simp add: dwEnv_def)

lemma dw_records: "result (recordTriggerSpawn dwEnv task) h = None"
  by (simp add: recordTriggerSpawn_def result_bind dwPublisher_def Let_def split: prod.split del: run_state_bind)

lemma dw_finishes: "result (spawnClaimedJob dwEnv task c) h = Inr True"
  by (simp add: spawnClaimedJob_def finishSpawn_def result_bind dw_records cong: bind_weak_cong del: run_state_bind)

lemma dw_marks: "run_state (markSpawnPending (TaskIdentifier dwTask)) dwIdle = ((), dwIdle\<lparr>th_spawnPending := [''t1'']\<rparr>)"
  by code_simp

lemma dw_spawns: "result (spawnIfNeededClaimed dwEnv dwTask (Some dwConfig) None) dwIdle = Inr spawnOutcomeSpawned"
  by (simp add: spawnIfNeededClaimed_def claimAndSpawn_def result_bind dw_gate_stages dw_budget_stages
      dw_marks dw_acquires dw_finishes cong: bind_weak_cong del: run_state_bind)

section \<open>Who gets a Job\<close>

text \<open>
  C4: A call of the spawn funnel creates a Job, or reports one as spawned, only for a task of this
  executor's vault whose configuration is known and names an admissible namespace, whose trigger budget is
  not exhausted, and whose queued claim has not been invalidated since it was captured.
\<close>

theorem job_created_only_behind_gates:
  assumes "dispatch_world env jobs"
    and "run_state (spawnIfNeededClaimed env task config claim) h = (r, h')"
    and "jobs (lm_world (th_lease h')) \<noteq> jobs (lm_world (th_lease h)) \<or> r = Inr spawnOutcomeSpawned"
  shows "Accepts (he_vaultMatcher env) (Vault task) \<and>
     (\<exists>c ns. config = Some c \<and> ResolveJobNamespace (he_namespace env) (ac_JobNamespace c) = Inr ns) \<and>
     \<not> budgetExhausted (he_lib env) (Frontmatter task) \<and> \<not> claimInvalidated claim h"
  using wpD [OF dispatch_world.spawn_behind_gates [OF assms(1)] assms(2)] assms(3)
  by (auto simp: gates_open_def created_def)

theorem job_created_only_behind_gates_witness:
  "Accepts (he_vaultMatcher dwEnv) (Vault dwTask) \<and>
     (\<exists>c ns. Some dwConfig = Some c \<and> ResolveJobNamespace (he_namespace dwEnv) (ac_JobNamespace c) = Inr ns) \<and>
     \<not> budgetExhausted (he_lib dwEnv) (Frontmatter dwTask) \<and> \<not> claimInvalidated None dwIdle"
  using job_created_only_behind_gates [OF dw.dispatch_world_axioms prod.collapse [symmetric]] dw_spawns by blast

text \<open>
  C3: With claims on, a spawn the funnel reports has left the claim of its task in the held set: under the
  key derived from the task, with the task's identifier, the target its key parses to, no deletion of its Job
  and no release pending, and no hold on it.
\<close>

theorem spawned_job_is_claimed:
  assumes "he_claimMode env = ClaimModeOn"
    and "run_state (spawnIfNeededClaimed env task config claim) h = (Inr spawnOutcomeSpawned, h')"
  shows "\<exists>p s fb hc. taskClaimKeys env task = Inr (p, s, fb) \<and> map_of (lm_held (th_lease h')) p = Some hc \<and>
     fresh_claim p s (TaskIdentifier task) hc"
  using wpD [OF spawn_claims [OF assms(1)] assms(2)] by (simp add: claim_held_def)

theorem spawned_job_is_claimed_witness:
  "\<exists>h'. run_state (spawnIfNeededClaimed dwEnv dwTask (Some dwConfig) None) dwIdle = (Inr spawnOutcomeSpawned, h') \<and>
     (\<exists>p s fb hc. taskClaimKeys dwEnv dwTask = Inr (p, s, fb) \<and> map_of (lm_held (th_lease h')) p = Some hc \<and>
        fresh_claim p s (TaskIdentifier dwTask) hc)"
proof -
  obtain r h' where run: "run_state (spawnIfNeededClaimed dwEnv dwTask (Some dwConfig) None) dwIdle = (r, h')"
    by fastforce
  have "r = Inr spawnOutcomeSpawned" using dw_spawns by (simp add: run)
  moreover have "he_claimMode dwEnv = ClaimModeOn" by (simp add: dwEnv_def)
  ultimately show ?thesis using spawned_job_is_claimed run by blast
qed

section \<open>Eviction\<close>

definition evict :: "string \<Rightarrow> 'w taskEventHandler \<Rightarrow> 'w taskEventHandler" where
  "evict tid h = snd (run_state (removeDeferredEntry tid) h)"

lemma epoch_evict [simp]: "epoch_of (th_deferredEpochs (evict tid h)) tid = bump (epoch_of (th_deferredEpochs h) tid)"
  by (simp add: evict_def removeDeferredEntry_def epoch_of_def update_conv')

lemma epoch_evictions:
  "epoch_of (th_deferredEpochs ((evict tid ^^ Suc n) h)) tid = (epoch_of (th_deferredEpochs h) tid + int (Suc n)) mod 2 ^ 64"
  by (induction n) (simp_all add: bump_def mod_simps algebra_simps)

lemma evictions_invalidate:
  assumes "0 < n" and "n < 2 ^ 64"
  shows "epoch_of (th_deferredEpochs ((evict tid ^^ n) h)) tid \<noteq> epoch_of (th_deferredEpochs h) tid"
proof -
  let ?e = "epoch_of (th_deferredEpochs h) tid"
  obtain k where k: "n = Suc k" using assms(1) gr0_conv_Suc by blast
  have "(?e + int n) mod 2 ^ 64 \<noteq> ?e"
  proof
    assume eq: "(?e + int n) mod 2 ^ 64 = ?e"
    then have "(?e + int n) mod 2 ^ 64 = ?e mod 2 ^ 64" by (metis mod_mod_trivial)
    then have "(2 :: int) ^ 64 dvd int n" by (metis add_diff_cancel_left' mod_eq_dvd_iff)
    with assms show False by (auto dest: zdvd_imp_le)
  qed
  then show ?thesis by (simp only: k epoch_evictions not_False_eq_True)
qed

text \<open>
  C8: Work that was captured for a task (a reconcile candidate or a deferred replay carries the task's
  epoch) creates no Job once the task has been evicted, however often, up to the wrap-around of the epoch
  after 2^64 evictions.
\<close>

theorem eviction_stops_captured_work:
  assumes "dispatch_world env jobs"
    and "0 < n" and "n < 2 ^ 64"
    and "claim = \<lparr>dc_id = tid, dc_epoch = epoch_of (th_deferredEpochs h) tid\<rparr>"
    and "run_state (spawnIfNeededClaimed env task config (Some claim)) ((evict tid ^^ n) h) = (r, h')"
  shows "jobs (lm_world (th_lease h')) = jobs (lm_world (th_lease ((evict tid ^^ n) h))) \<and> r \<noteq> Inr spawnOutcomeSpawned"
  using wpD [OF dispatch_world.spawn_behind_gates [OF assms(1)] assms(5)] evictions_invalidate [OF assms(2,3), of tid h]
  by (auto simp: gates_open_def created_def claimInvalidated_def assms(4))

theorem eviction_stops_captured_work_witness:
  "dw_jobs (lm_world (th_lease (snd (run_state (spawnIfNeededClaimed dwEnv dwTask (Some dwConfig)
       (Some \<lparr>dc_id = ''t1'', dc_epoch = 0\<rparr>)) ((evict ''t1'' ^^ 2) dwIdle))))) =
     dw_jobs (lm_world (th_lease ((evict ''t1'' ^^ 2) dwIdle)))"
proof -
  have "0 = epoch_of (th_deferredEpochs dwIdle) ''t1''" by code_simp
  then have "\<lparr>dc_id = ''t1'', dc_epoch = 0\<rparr> = \<lparr>dc_id = ''t1'', dc_epoch = epoch_of (th_deferredEpochs dwIdle) ''t1''\<rparr>"
    by simp
  from eviction_stops_captured_work [OF dw.dispatch_world_axioms _ _ this prod.collapse [symmetric], where n = 2]
  show ?thesis by simp
qed

section \<open>The two ways in\<close>

text \<open>
  C7: The Kafka path and the reconcile path agree on every task that names an assignee: from the same
  state, one accepts the task with a configuration exactly when the other does, and that is when the
  resolver knows the assignee and the task is runnable under that configuration.
\<close>

theorem kafka_and_reconcile_filters_agree:
  assumes "lib_Assignee (he_lib env) (Frontmatter task) \<noteq> ''''"
  shows "(fst (run_state (filterTask env task) h) = Accepted t c \<longleftrightarrow> fst (run_state (reconcileTask env task) h) = Accepted t c) \<and>
    (fst (run_state (filterTask env task) h) = Accepted t c \<longleftrightarrow> t = task \<and>
      (\<exists>c0. c = Some c0 \<and> runnable env task c \<and>
         fst (run_state (cr_Resolve (he_resolver env) (lib_Assignee (he_lib env) (Frontmatter task))) (lm_world (th_lease h))) = Inr c0))"
  unfolding filterTask_accepts [OF assms] reconcileTask_accepts [OF assms]
  by (auto simp: outside_def in_lease_def in_world_def split_beta)

theorem kafka_and_reconcile_filters_agree_witness:
  "fst (run_state (filterTask dwEnv dwTask) dwIdle) = Accepted dwTask (Some dwConfig) \<and>
   fst (run_state (reconcileTask dwEnv dwTask) dwIdle) = Accepted dwTask (Some dwConfig)"
proof -
  have "lib_Assignee (he_lib dwEnv) (Frontmatter dwTask) \<noteq> ''''" by code_simp
  moreover have "fst (run_state (filterTask dwEnv dwTask) dwIdle) = Accepted dwTask (Some dwConfig)" by code_simp
  ultimately show ?thesis using kafka_and_reconcile_filters_agree by metis
qed

section \<open>The accounts of a pass\<close>

lemma leaves_view: "leaves th_view (refreshConfigAccepted env)" "leaves th_view openPass"
  unfolding refreshConfigAccepted_def openPass_def
  by (auto simp: leaves_def outside_def in_lease_def count_def ctxDone_def split: option.splits sum.splits prod.splits if_splits)

lemma reconcileOwned_accounts:
  "wp (reconcileOwned env owned) (\<lambda>r h'. \<forall>c. r = PassDone c \<longrightarrow> balanced c \<and> total c = int (length owned)) h"
proof (rule wpI, intro allI impI)
  fix r h' c assume run: "run_state (reconcileOwned env owned) h = (r, h')" and r: "r = PassDone c"
  obtain cands c1 h1 where g: "run_state (gatherCandidates env owned [] zeroCounters) h = ((cands, c1), h1)"
    by (metis prod.collapse)
  have "balanced c1" and open1: "\<not> he_ctxDone env (lm_world (th_lease h1)) \<Longrightarrow> total c1 + int (length cands) = int (length owned)"
    using gatherCandidates_accounts [OF g] by (auto simp: balanced_def zeroCounters_def)
  moreover from run r g obtain h2 h3 where "\<not> he_ctxDone env (lm_world (th_lease h1))"
    and "run_state (driveCandidates env (sortCandidatesByAdmissionPriority env cands) c1) h2 = ((True, c), h3)"
    by (auto simp: reconcileOwned_def ctxDone_def count_def split: if_splits prod.splits)
  ultimately show "balanced c \<and> total c = int (length owned)"
    using driveCandidates_accounts [of env "sortCandidatesByAdmissionPriority env cands" c1 h2 True c h3]
    by (simp add: sortCandidatesByAdmissionPriority_def)
qed

text \<open>
  C34: A reconcile pass that runs to its end accounts for every task this executor owns in the view: each is
  either skipped or evaluated, and every evaluated task was redriven, deferred or capped. Only a ready
  view is reconciled.
\<close>

theorem reconcile_pass_accounts:
  assumes "th_view h = Some view" and "run_state (ReconcileOnce env) h = (PassDone c, h')"
  shows "rc_evaluated c = rc_redriven c + rc_deferred c + rc_capped c \<and>
    rc_evaluated c + rc_skipped c = int (length (ownedTasks (view_Snapshot view) (he_vaultMatcher env))) \<and> tv_ready view"
proof -
  let ?Q = "\<lambda>r h'. \<forall>c. r = PassDone c \<longrightarrow>
    balanced c \<and> total c = int (length (ownedTasks (view_Snapshot view) (he_vaultMatcher env))) \<and> tv_ready view"
  have view: "wp (reconcileView env view) ?Q h1" for h1
    unfolding reconcileView_def
    by (auto simp: wp_return wp_if intro!: wp_step wp_mono [OF reconcileOwned_accounts] split: prod.split vaultPassOutcome.split)
  have close: "wp (State_Monad.bind closePass (\<lambda>_. ret r)) ?Q h1" if "?Q r h1" for r h1
    using that by (simp add: closePass_def wp_rules)
  have "wp (ReconcileOnce env) ?Q h"
    unfolding ReconcileOnce_def
    apply (rule wp_stage [where f = th_view, OF assms(1) leaves_view(1)])
    apply (rule wp_stage [where f = th_view and K = "Some view"], assumption, rule leaves_view(2))
    apply (simp add: wp_bind [of "gets th_view"] wp_gets)
    apply (simp only: wp_bind [of "reconcileView env view"])
    apply (rule wp_mono [OF view], erule close)
    done
  from wpD [OF this assms(2)] show ?thesis by (simp add: balanced_def)
qed

definition dwView :: taskView where
  "dwView = NewTaskView\<lparr>tv_tasks := [(''t1'', dwTask), (''t2'', dwTask\<lparr>TaskIdentifier := ''t2'', Vault := ''other''\<rparr>),
     (''t3'', dwTask\<lparr>TaskIdentifier := ''t3'', Frontmatter := []\<rparr>)], tv_ready := True\<rparr>"

lemma dw_never_done: "run_state (ctxDone dwEnv) h = (False, h)"
  by (simp add: ctxDone_def dwEnv_def)

lemma dw_drives_all: "fst (result (driveCandidates dwEnv cands c) h)"
  by (induction cands arbitrary: c h) (auto simp: dw_never_done split_beta)

lemma dw_pass_done:
  assumes "th_view h = Some v" and "tv_ready v" and "fst (classifyVaults (view_Snapshot v) (he_vaultMatcher dwEnv)) = vaultOutcomeOK"
  shows "\<exists>c. result (ReconcileOnce dwEnv) h = PassDone c"
proof -
  have owned: "\<exists>c. result (reconcileOwned dwEnv ts) h1 = PassDone c" for ts h1
    using dw_drives_all unfolding reconcileOwned_def by (auto simp: dw_never_done split_beta)
  have refreshed: "run_state (refreshConfigAccepted dwEnv) h = (None, h)"
    by (simp add: refreshConfigAccepted_def dwEnv_def)
  have "result (reconcileView dwEnv v) h1 =
      result (reconcileOwned dwEnv (ownedTasks (view_Snapshot v) (he_vaultMatcher dwEnv)))
        (snd (run_state (on_store (PruneSucceededBefore (result (clock dwEnv) h1 - successRecordRetention)))
           (snd (run_state (clock dwEnv) h1))))" for h1
    using assms(2,3) by (simp add: reconcileView_def split_beta split: prod.split)
  with owned show ?thesis
    unfolding ReconcileOnce_def openPass_def by (simp add: split_beta refreshed assms(1))
qed

theorem reconcile_pass_accounts_witness:
  "\<exists>c. fst (run_state (ReconcileOnce dwEnv) (dwIdle\<lparr>th_view := Some dwView\<rparr>)) = PassDone c \<and>
     rc_evaluated c = rc_redriven c + rc_deferred c + rc_capped c \<and> rc_evaluated c + rc_skipped c = 2"
proof -
  have "fst (classifyVaults (view_Snapshot dwView) (he_vaultMatcher dwEnv)) = vaultOutcomeOK" by code_simp
  then obtain c where c: "fst (run_state (ReconcileOnce dwEnv) (dwIdle\<lparr>th_view := Some dwView\<rparr>)) = PassDone c"
    using dw_pass_done [of "dwIdle\<lparr>th_view := Some dwView\<rparr>" dwView] by (auto simp: dwView_def)
  have "int (length (ownedTasks (view_Snapshot dwView) (he_vaultMatcher dwEnv))) = 2" by code_simp
  with c reconcile_pass_accounts [OF _ prod_eqI [of "run_state (ReconcileOnce dwEnv) (dwIdle\<lparr>th_view := Some dwView\<rparr>)"
      "(PassDone c, snd (run_state (ReconcileOnce dwEnv) (dwIdle\<lparr>th_view := Some dwView\<rparr>)))"], of dwView]
  show ?thesis by simp
qed

section \<open>The redrive cap\<close>









definition dwStreak :: "int \<Rightarrow> dispatchWorld taskEventHandler" where
  "dwStreak n = dwIdle\<lparr>th_redriveStreaks := [(''t1'', \<lparr>rs_count = n, rs_phase = ''execution'', rs_since = hour\<rparr>)]\<rparr>"


text \<open>
  The shared count replaces the count in memory, it is not compared with it: a task this process has
  spawned any number of times at the phase is let through while the store has fewer than three failures.
\<close>

theorem shared_streak_replaces_memory:
  assumes "redriveStreakStore env = Inr (Some store)" and "th_streakCache h = None"
    and "run_state (inMemoryRedriveCount env (TaskIdentifier task) (taskPhaseString (he_lib env) task)) h = (memory, h1)"
    and "fst (run_state (streakCount store (he_now env) (he_parseDateTime env)
           (TaskIdentifier task) (taskPhaseString (he_lib env) task)) (lm_world (th_lease h1))) = Inr n" and "n < 3"
  shows "\<not> fst (run_state (redriveStreakCapped env task) h)"
proof -
  have "leaves th_streakCache (inMemoryRedriveCount env (TaskIdentifier task) (taskPhaseString (he_lib env) task))"
    unfolding inMemoryRedriveCount_def clock_def
    by (auto simp: leaves_def outside_def in_lease_def split: option.splits if_splits prod.splits)
  from leavesD [OF this assms(3)] have "th_streakCache h1 = None" using assms(2) by simp
  with assms(1,3-5) show ?thesis
    unfolding redriveStreakCapped_def effectiveStreak_def redriveStreakCount_def
    by (simp add: Let_def split_beta outside_def in_lease_def in_world_def maxConsecutiveRedrives_def)
qed

theorem shared_streak_replaces_memory_witness:
  "fst (run_state (inMemoryRedriveCount dwEnv (TaskIdentifier dwTask) (taskPhaseString (he_lib dwEnv) dwTask)) (dwStreak 5)) = 5 \<and>
   \<not> fst (run_state (redriveStreakCapped dwEnv dwTask) (dwStreak 5))"
proof -
  have store: "redriveStreakStore dwEnv = Inr (Some dwRefs)"
    by (simp add: redriveStreakStore_def leaseManager_of_def createLeaseManager_def dwEnv_def)
  have uncached: "th_streakCache (dwStreak 5) = None" by (simp add: dwStreak_def dwIdle_def)
  have memory: "run_state (inMemoryRedriveCount dwEnv (TaskIdentifier dwTask) (taskPhaseString (he_lib dwEnv) dwTask)) (dwStreak 5) =
      (5, dwStreak 5)"
    by code_simp
  have shared: "fst (run_state (streakCount dwRefs (he_now dwEnv) (he_parseDateTime dwEnv)
      (TaskIdentifier dwTask) (taskPhaseString (he_lib dwEnv) dwTask)) (lm_world (th_lease (dwStreak 5)))) = Inr 0"
    by code_simp
  from shared_streak_replaces_memory [OF store uncached memory shared] memory show ?thesis by simp
qed

section \<open>The concurrency cap\<close>

lemma capacity_bounds:
  assumes "0 < maxJobs" and "effectiveConcurrencyCap maxJobs quota bounded = (capacity, capped)"
  shows "capacity \<le> maxJobs \<and> (bounded \<longrightarrow> capacity \<le> max 0 quota) \<and> (0 < capacity \<or> capped)"
  using assms by (auto simp: effectiveConcurrencyCap_def Let_def split: if_splits)

text \<open>
  C36: A task of an agent with a limit on its concurrent Jobs passes the concurrency gate only while fewer
  Jobs of that agent are active than the limit and than the pod quota of its priority class, when one
  binds.
\<close>

theorem concurrency_cap_holds:
  assumes "0 < ac_MaxConcurrentJobs c"
    and "jobNamespaceForTask env (Some c) = Inr namespace"
    and "run_state (podQuotaFor env namespace c) h = ((quota, bound), h1)"
    and "fst (run_state (activeJobsFor env namespace (ac_Assignee c)) h1) = Inr active"
    and "fst (run_state (deferIfAtConcurrencyCap env task (Some c) claim) h) = Inr False"
  shows "int (length active) < ac_MaxConcurrentJobs c \<and> (bound = quotaBounded \<longrightarrow> int (length active) < max 0 quota)"
proof -
  obtain capacity capped where cap:
    "effectiveConcurrencyCap (ac_MaxConcurrentJobs c) quota (bound = quotaBounded) = (capacity, capped)" by fastforce
  have "int (length active) < capacity"
    using assms cap capacity_bounds [OF assms(1) cap] unfolding deferIfAtConcurrencyCap_def
    by (auto simp: split_beta Let_def split: if_splits)
  with capacity_bounds [OF assms(1) cap] show ?thesis by auto
qed

definition dwCapped :: AgentConfiguration where
  "dwCapped = dwConfig\<lparr>ac_MaxConcurrentJobs := 2, ac_PriorityClassName := ''high''\<rparr>"

definition dwQuota :: "dispatchWorld handler_env" where
  "dwQuota = dwEnv\<lparr>he_podQuota := Some (\<lambda>ns p. ret (Inr (1, True)))\<rparr>"

theorem concurrency_cap_holds_witness:
  "fst (run_state (deferIfAtConcurrencyCap dwQuota dwTask (Some dwCapped) None) dwIdle) = Inr False \<and>
   int (length ([] :: (string \<times> bool) list)) < 2 \<and> int (length ([] :: (string \<times> bool) list)) < 1"
proof -
  have limit: "0 < ac_MaxConcurrentJobs dwCapped" by (simp add: dwCapped_def)
  have namespace: "jobNamespaceForTask dwQuota (Some dwCapped) = Inr ''agents''" by code_simp
  have quota: "run_state (podQuotaFor dwQuota ''agents'' dwCapped) dwIdle = ((1, quotaBounded), dwIdle)" by code_simp
  have active: "fst (run_state (activeJobsFor dwQuota ''agents'' (ac_Assignee dwCapped)) dwIdle) = Inr []" by code_simp
  have passes: "fst (run_state (deferIfAtConcurrencyCap dwQuota dwTask (Some dwCapped) None) dwIdle) = Inr False" by code_simp
  from concurrency_cap_holds [OF limit namespace quota active passes] passes show ?thesis by (simp add: dwCapped_def)
qed

section \<open>Recurring tasks\<close>

lemma skipWeekend_props:
  "weekday (skipWeekend t) \<notin> {0, 6} \<and> t \<le> skipWeekend t \<and> skipWeekend t \<le> t + 2 * day"
proof -
  have day: "0 < day" by (simp add: day_def hour_def minute_def second_def)
  have sunday: "skipWeekend t = t + day" if "weekday t = 0" for t
    using that by (simp add: skipWeekend.simps [of t] skipWeekend.simps [of "t + day"] weekday_add_day)
  have saturday: "skipWeekend t = t + 2 * day" if "weekday t = 6" for t
    using that sunday [of "t + day"] by (simp add: skipWeekend.simps [of t] weekday_add_day)
  show ?thesis
    using sunday [of t] saturday [of t] day weekday_add_day [of t] weekday_add_day [of "t + day"]
    by (cases "weekday t = 0"; cases "weekday t = 6") (auto simp: skipWeekend.simps [of t] algebra_simps)
qed

text \<open>
  C37: The next run of a recurring task lies at least a day and at most 90 days after its completion, and a
  task that recurs on weekdays runs next within three days and never on a Saturday or Sunday. The search
  for the next weekday terminates.
\<close>

theorem recurring_next_run_bounds:
  assumes "recurringNextRun env fm completedAt = Some next_run"
  shows "completedAt + day \<le> next_run \<and> next_run \<le> completedAt + 90 * day \<and>
    (recurringToken env fm = Some ''weekdays'' \<longrightarrow>
      next_run \<le> completedAt + 3 * day \<and> weekday next_run \<noteq> 6 \<and> weekday next_run \<noteq> 0)"
proof -
  obtain token where tk: "recurringToken env fm = Some token" and "map_of recurringCadences token \<noteq> None"
    using assms by (auto simp: recurringNextRun_def recurringToken_def Let_def split: option.splits if_splits)
  then have "token \<in> {''daily'', ''weekdays'', ''weekly'', ''monthly'', ''quarterly''}"
    by (auto simp: recurringCadences_def split: if_splits)
  then show ?thesis
    using assms tk skipWeekend_props [of "completedAt + day"]
    by (auto simp: recurringNextRun_def recurringCadences_def Let_def day_def hour_def minute_def second_def)
qed

theorem recurring_next_run_bounds_witness:
  "\<exists>n. recurringNextRun dwEnv [(''recurring'', FmString '' Weekdays'')] (4 * day) = Some n \<and> weekday n \<noteq> 6 \<and> weekday n \<noteq> 0"
proof -
  have tk: "recurringToken dwEnv [(''recurring'', FmString '' Weekdays'')] = Some ''weekdays''" by code_simp
  then obtain n where "recurringNextRun dwEnv [(''recurring'', FmString '' Weekdays'')] (4 * day) = Some n"
    by (auto simp: recurringNextRun_def Let_def)
  with recurring_next_run_bounds [OF this] tk show ?thesis by blast
qed

end
