(* ===== verification/Kube_Model.thy ===== *)
theory Kube_Model
  imports Task_Model Zombie_Reason
begin

text \<open>
  Jobs and Pods of the cluster, as far as the executor reads or writes them, and what it reads off one Job
  or one Pod alone: whether a Job is over and why, which Job owns a Pod and how a Pod failed
  (\<^verbatim>\<open>pkg/job_watcher.go\<close>, and the same test of a Job in \<^verbatim>\<open>pkg/spawner/job_spawner.go\<close>).

  The types are those of the Kubernetes API with the fields the executor uses. A nil map and an empty map
  are the same value, since the code makes a nil map before it writes to it. A zero time is \<open>0\<close>.
\<close>

section \<open>Objects\<close>

record JobCondition =
  jcn_Type :: string
  jcn_Status :: string
  jcn_Reason :: string
  jcn_LastTransitionTime :: go_time

datatype VolumeSource =
    PersistentVolumeClaim string
  | ConfigMapSource string "(string \<times> string) list"
  | SecretSource string "(string \<times> string) list" int

record Volume =
  vol_Name :: string
  vol_Source :: VolumeSource

record VolumeMount =
  vm_Name :: string
  vm_MountPath :: string

record Container =
  ctr_Name :: string
  ctr_Image :: string
  ctr_Env :: "(string, string) gomap"
  ctr_EnvFrom :: "string list"
  ctr_Requests :: "(string, string) gomap"
  ctr_Limits :: "(string, string) gomap"
  ctr_VolumeMounts :: "VolumeMount list"

record PodSpec =
  ps_Containers :: "Container list"
  ps_Volumes :: "Volume list"
  ps_RestartPolicy :: string
  ps_ImagePullSecrets :: "string list"
  ps_PriorityClassName :: string
  ps_NodeSelector :: "(string, string) gomap"
  ps_Tolerations :: "toleration list"
  ps_FSGroup :: "int option"

record Job =
  job_Namespace :: string
  job_Name :: string
  job_Labels :: "(string, string) gomap"
  job_Annotations :: "(string, string) gomap"
  job_TemplateLabels :: "(string, string) gomap"
  job_PodSpec :: PodSpec
  job_BackoffLimit :: "int option"
  job_TTLSecondsAfterFinished :: "int option"
  job_ActiveDeadlineSeconds :: "int option"
  job_Conditions :: "JobCondition list"
  job_CompletionTime :: "go_time option"
  job_Succeeded :: int
  job_Failed :: int
  job_Active :: int

record ContainerStatus =
  cs_Waiting :: "string option"
  cs_Terminated :: "(string \<times> int) option"

record PodCondition =
  pcn_Type :: string
  pcn_Status :: string

record Pod =
  po_Namespace :: string
  po_Name :: string
  po_Labels :: "(string, string) gomap"
  po_Owners :: "(string \<times> string) list"
  po_CreationTimestamp :: go_time
  po_Phase :: string
  po_Reason :: string
  po_Conditions :: "PodCondition list"
  po_ContainerStatuses :: "ContainerStatus list"

definition taskIDLabelKey :: string where "taskIDLabelKey = ''agent.benjamin-borbe.de/task-id''"
definition assigneeLabelKey :: string where "assigneeLabelKey = ''agent.benjamin-borbe.de/assignee''"
definition TaskPhaseAnnotationKey :: string where "TaskPhaseAnnotationKey = ''agent.benjamin-borbe.de/task-phase''"

text \<open>Reading a Go map: an absent key reads as the empty string.\<close>

definition map_get :: "(string, string) gomap \<Rightarrow> string \<Rightarrow> string" where
  "map_get m k = (case map_of m k of Some v \<Rightarrow> v | None \<Rightarrow> '''')"

section \<open>The end of a Job\<close>

definition failed_condition :: "JobCondition \<Rightarrow> bool" where
  "failed_condition c \<longleftrightarrow> jcn_Type c = ''Failed'' \<and> jcn_Status c = ''True''"

definition IsJobFailed :: "Job \<Rightarrow> bool" where
  "IsJobFailed job \<longleftrightarrow> list_ex failed_condition (job_Conditions job)"

definition IsJobSucceeded :: "Job \<Rightarrow> bool" where
  "IsJobSucceeded job \<longleftrightarrow> list_ex (\<lambda>c. jcn_Type c = ''Complete'' \<and> jcn_Status c = ''True'') (job_Conditions job)"

definition isBackoffLimitExceeded :: "Job \<Rightarrow> bool" where
  "isBackoffLimitExceeded job \<longleftrightarrow>
     list_ex (\<lambda>c. failed_condition c \<and> jcn_Reason c = ''BackoffLimitExceeded'') (job_Conditions job)"

text \<open>A Job that still counts as running: no terminal condition, and no counter that says it is over.\<close>

definition unfinished :: "Job \<Rightarrow> bool" where
  "unfinished job \<longleftrightarrow>
     \<not> (IsJobFailed job \<or> IsJobSucceeded job) \<and> \<not> job_Succeeded job > 0 \<and> \<not> (job_Failed job > 0 \<and> job_Active job = 0)"

definition jobFailedReasonless :: string where "jobFailedReasonless = ''JobFailed''"
definition backoffLimitExceededReason :: string where "backoffLimitExceededReason = ''BackoffLimitExceeded''"
definition podUnresolvedMarker :: string where "podUnresolvedMarker = ''pod-unresolved''"

fun conditionsReason :: "JobCondition list \<Rightarrow> string" where
  "conditionsReason [] = ZombieReasonPodCrashNoStdout"
| "conditionsReason (c # cs) =
     (if failed_condition c then
        (if jcn_Reason c = ''DeadlineExceeded'' then ZombieReasonDeadlineExceeded
         else if jcn_Reason c = ''BackoffLimitExceeded'' then ZombieReasonPodCrashNoStdout
         else conditionsReason cs)
      else conditionsReason cs)"

definition JobFailureReason :: "Job \<Rightarrow> string" where
  "JobFailureReason job = conditionsReason (job_Conditions job)"

definition jobFailedCondition :: "Job \<Rightarrow> string option" where
  "jobFailedCondition job =
     (case find failed_condition (job_Conditions job) of
        None \<Rightarrow> None
      | Some c \<Rightarrow> Some (if jcn_Reason c = '''' then jobFailedReasonless else jcn_Reason c))"

definition jobFailedAt :: "Job \<Rightarrow> go_time option" where
  "jobFailedAt job =
     (case find (\<lambda>c. failed_condition c \<and> jcn_LastTransitionTime c \<noteq> 0) (job_Conditions job) of
        Some c \<Rightarrow> Some (jcn_LastTransitionTime c)
      | None \<Rightarrow> (case job_CompletionTime job of Some t \<Rightarrow> if t \<noteq> 0 then Some t else None | None \<Rightarrow> None))"

section \<open>The failure of a Pod\<close>

definition terminated_badly :: "ContainerStatus \<Rightarrow> bool" where
  "terminated_badly cs \<longleftrightarrow> (case cs_Terminated cs of Some (_, code) \<Rightarrow> code \<noteq> 0 | None \<Rightarrow> False)"

definition hasNonZeroTerminatedContainer :: "Pod \<Rightarrow> bool" where
  "hasNonZeroTerminatedContainer pod \<longleftrightarrow> list_ex terminated_badly (po_ContainerStatuses pod)"

fun waitingReason :: "ContainerStatus list \<Rightarrow> string" where
  "waitingReason [] = ''''"
| "waitingReason (cs # css) =
     (case cs_Waiting cs of
        None \<Rightarrow> waitingReason css
      | Some r \<Rightarrow>
          if r = ''ImagePullBackOff'' \<or> r = ''ErrImagePull'' then ZombieReasonImagePullBackOff
          else if r = ''CrashLoopBackOff'' then ZombieReasonPodCrashNoStdout
          else waitingReason css)"

definition classifyPodFailure :: "Pod \<Rightarrow> string" where
  "classifyPodFailure pod =
     (let waiting = waitingReason (po_ContainerStatuses pod) in
      if waiting \<noteq> '''' then waiting
      else if po_Reason pod = ''Evicted'' then ZombieReasonPodEvicted
      else if po_Phase pod = ''Failed'' \<and> list_ex terminated_badly (po_ContainerStatuses pod)
      then ZombieReasonPodCrashNoStdout
      else '''')"

definition ownerJobName :: "Pod \<Rightarrow> string" where
  "ownerJobName pod = (case find (\<lambda>(kind, name). kind = ''Job'') (po_Owners pod) of Some (_, name) \<Rightarrow> name | None \<Rightarrow> '''')"

definition hasPodScheduledFalse :: "Pod \<Rightarrow> bool" where
  "hasPodScheduledFalse pod \<longleftrightarrow> list_ex (\<lambda>c. pcn_Type c = ''PodScheduled'' \<and> pcn_Status c = ''False'') (po_Conditions pod)"

text \<open>The loop of \<^verbatim>\<open>jobPod\<close> and \<^verbatim>\<open>terminalPodDetail\<close>: of the pods that qualify the one created last, the
  first of them on a tie.\<close>

definition newestPod :: "(Pod \<Rightarrow> bool) \<Rightarrow> Pod list \<Rightarrow> Pod option" where
  "newestPod ok pods =
     fold (\<lambda>pod best.
       if \<not> ok pod then best
       else (case best of
           None \<Rightarrow> Some pod
         | Some b \<Rightarrow> if po_CreationTimestamp pod > po_CreationTimestamp b then Some pod else best)) pods None"

definition terminatedDetail :: "Pod option \<Rightarrow> (string \<times> int) option" where
  "terminatedDetail best =
     (case best of
        None \<Rightarrow> None
      | Some pod \<Rightarrow> (case find terminated_badly (po_ContainerStatuses pod) of Some cs \<Rightarrow> cs_Terminated cs | None \<Rightarrow> None))"

section \<open>What they find\<close>

lemma conditionsReason_eq:
  "conditionsReason cs =
     (case find (\<lambda>c. failed_condition c \<and> jcn_Reason c \<in> {''DeadlineExceeded'', ''BackoffLimitExceeded''}) cs of
        Some c \<Rightarrow> if jcn_Reason c = ''DeadlineExceeded'' then ZombieReasonDeadlineExceeded else ZombieReasonPodCrashNoStdout
      | None \<Rightarrow> ZombieReasonPodCrashNoStdout)"
  by (induction cs) auto

lemma failed_condition_found: "IsJobFailed job \<longleftrightarrow> jobFailedCondition job \<noteq> None"
  using find_None_iff [of failed_condition "job_Conditions job"]
  by (auto simp: IsJobFailed_def jobFailedCondition_def list_ex_iff split: option.split)

lemma newestPod_snoc:
  "newestPod ok (pods @ [pod]) =
     (if \<not> ok pod then newestPod ok pods
      else (case newestPod ok pods of
          None \<Rightarrow> Some pod
        | Some b \<Rightarrow> if po_CreationTimestamp pod > po_CreationTimestamp b then Some pod else newestPod ok pods))"
  unfolding newestPod_def by simp

lemma newestPod_None: "newestPod ok pods = None \<longleftrightarrow> (\<forall>p \<in> set pods. \<not> ok p)"
  by (induction pods rule: rev_induct) (auto simp: newestPod_snoc newestPod_def [of _ "[]"] split: option.splits)

lemma newestPod_Some:
  "newestPod ok pods = Some b \<Longrightarrow>
     b \<in> set pods \<and> ok b \<and> (\<forall>p \<in> set pods. ok p \<longrightarrow> po_CreationTimestamp p \<le> po_CreationTimestamp b)"
proof (induction pods arbitrary: b rule: rev_induct)
  case (snoc pod pods)
  show ?case
  proof (cases "newestPod ok pods")
    case None
    with snoc.prems show ?thesis using newestPod_None [of ok pods] by (auto simp: newestPod_snoc split: if_splits)
  next
    case (Some b')
    with snoc.IH [OF Some] snoc.prems show ?thesis by (fastforce simp: newestPod_snoc split: if_splits)
  qed
qed (simp add: newestPod_def)

lemma waitingReason_range: "waitingReason css \<in> {'''', ZombieReasonImagePullBackOff, ZombieReasonPodCrashNoStdout}"
  by (induction css) (auto split: option.split)

lemma classifyPodFailure_range:
  "classifyPodFailure pod \<in> {'''', ZombieReasonImagePullBackOff, ZombieReasonPodCrashNoStdout, ZombieReasonPodEvicted}"
  using waitingReason_range [of "po_ContainerStatuses pod"] by (auto simp: classifyPodFailure_def Let_def)

end
