(* ===== verification/Job_Watcher.thy ===== *)
theory Job_Watcher
  imports Kube_Model Handler_Base
begin

text \<open>
  The Job watcher (\<^verbatim>\<open>pkg/job_watcher.go\<close>): which namespaces are watched, and what a terminal Job or a failed
  Pod does to the claim, the task store and the vault.

  The state is the watcher with the task store it shares with the handler. Parameters: the informers and the
  listers of a namespace, the listing of Jobs, the configuration provider, the publisher and the releaser of
  claims (nil when claims are off). The informers call \<open>HandleJob\<close> and \<open>HandlePod\<close> one event at a time.
\<close>

section \<open>State\<close>

record 'w ClaimReleaser =
  rel_ReleaseTaskClaim :: "string \<Rightarrow> ('w, unit) state"
  rel_ReleaseTaskClaimAfterSuccess :: "string \<Rightarrow> string \<Rightarrow> go_time \<Rightarrow> ('w, unit) state"

record 'w watcher_env =
  we_lib :: task_lib
  we_namespace :: string
  we_configProvider :: "('w, go_error + Config list) state"
  we_now :: "('w, go_time) state"
  we_PublishFailure :: "Task \<Rightarrow> string \<Rightarrow> string \<Rightarrow> Pod option \<Rightarrow> ('w, go_error option) state"
  we_PublishStoreMissFailure :: "Task \<Rightarrow> string \<Rightarrow> string \<Rightarrow> ('w, go_error option) state"
  we_PublishClearCurrentJob :: "Task \<Rightarrow> string \<Rightarrow> ('w, go_error option) state"
  we_claimReleaser :: "'w ClaimReleaser option"
  we_ListJobs :: "string \<Rightarrow> string \<times> string \<Rightarrow> ('w, go_error + Job list) state"
  we_NewInformer :: "string \<Rightarrow> ('w, go_error option) state"
  we_AddJobEventHandler :: "string \<Rightarrow> ('w, go_error option) state"
  we_AddPodEventHandler :: "string \<Rightarrow> ('w, go_error option) state"
  we_Start :: "string \<Rightarrow> ('w, unit) state"
  we_HasSynced :: "string \<Rightarrow> ('w, bool) state"
  we_ListPods :: "string \<Rightarrow> ('w, go_error + Pod list) state"
  we_ctxDone :: "'w \<Rightarrow> bool"

record 'w jobWatcher =
  jw_taskStore :: TaskStore
  jw_startedAt :: go_time
  jw_watched :: "string list"
  jw_synced :: "string list"
  jw_informers :: "string list"
  jw_counts :: "string list"
  jw_world :: 'w

definition NewJobWatcher :: "string \<Rightarrow> TaskStore \<Rightarrow> go_time \<Rightarrow> 'w \<Rightarrow> 'w jobWatcher" where
  "NewJobWatcher namespace taskStore startedAt w =
     \<lparr>jw_taskStore = taskStore, jw_startedAt = startedAt, jw_watched = [namespace], jw_synced = [namespace],
      jw_informers = [], jw_counts = [], jw_world = w\<rparr>"

definition ask :: "('w, 'a) state \<Rightarrow> ('w jobWatcher, 'a) state" where
  "ask x = State (\<lambda>j. case run_state x (jw_world j) of (a, w) \<Rightarrow> (a, j\<lparr>jw_world := w\<rparr>))"

definition on_store :: "(TaskStore \<Rightarrow> TaskStore) \<Rightarrow> ('w jobWatcher, unit) state" where
  "on_store f = modify (\<lambda>j. j\<lparr>jw_taskStore := f (jw_taskStore j)\<rparr>)"

definition load :: "string \<Rightarrow> ('w jobWatcher, Task option) state" where
  "load tid = gets (\<lambda>j. store_Load tid (jw_taskStore j))"

section \<open>Namespaces\<close>

definition resolveJobWatcherNamespaces :: "string \<Rightarrow> Config list \<Rightarrow> string list" where
  "resolveJobWatcherNamespaces executorNamespace cfgs =
     sort (remdups (executorNamespace #
       concat (map (\<lambda>cfg. case ResolveJobNamespace executorNamespace (sp_JobNamespace (cfg_Spec cfg)) of
                      Inl _ \<Rightarrow> [] | Inr namespace \<Rightarrow> [namespace]) cfgs)))"

definition informerStarted :: "string \<Rightarrow> ('w jobWatcher, bool) state" where
  "informerStarted namespace = gets (\<lambda>j. namespace \<in> set (jw_informers j))"

definition startNamespaceInformer :: "'w watcher_env \<Rightarrow> string \<Rightarrow> ('w jobWatcher, go_error option) state" where
  "startNamespaceInformer env namespace =
     do { err \<leftarrow> ask (we_NewInformer env namespace);
          case err of
            Some e \<Rightarrow> ret (Some (Wrapped ''create informers for namespace'' e))
          | None \<Rightarrow>
              do { err \<leftarrow> ask (we_AddJobEventHandler env namespace);
                   case err of
                     Some e \<Rightarrow> ret (Some (Wrapped ''add job event handler for namespace'' e))
                   | None \<Rightarrow>
                       do { err \<leftarrow> ask (we_AddPodEventHandler env namespace);
                            case err of
                              Some e \<Rightarrow> ret (Some (Wrapped ''add pod event handler for namespace'' e))
                            | None \<Rightarrow>
                                do { modify (\<lambda>j. j\<lparr>jw_watched := List.insert namespace (jw_watched j),
                                       jw_synced := removeAll namespace (jw_synced j),
                                       jw_informers := jw_informers j @ [namespace]\<rparr>);
                                     ask (we_Start env namespace);
                                     ret None } } } }"

fun startInformersForNamespaces :: "'w watcher_env \<Rightarrow> string list \<Rightarrow> ('w jobWatcher, go_error option) state" where
  "startInformersForNamespaces env [] = ret None"
| "startInformersForNamespaces env (namespace # namespaces) =
     do { started \<leftarrow> informerStarted namespace;
          if started then startInformersForNamespaces env namespaces
          else do { err \<leftarrow> startNamespaceInformer env namespace;
                    case err of Some e \<Rightarrow> ret (Some e) | None \<Rightarrow> startInformersForNamespaces env namespaces } }"

definition reconcileNamespaceSet :: "'w watcher_env \<Rightarrow> ('w jobWatcher, go_error option) state" where
  "reconcileNamespaceSet env =
     do { r \<leftarrow> ask (we_configProvider env);
          case r of
            Inl e \<Rightarrow> ret (Some (Wrapped ''list configs for job watcher namespaces'' e))
          | Inr cfgs \<Rightarrow> startInformersForNamespaces env (resolveJobWatcherNamespaces (we_namespace env) cfgs) }"

text \<open>One tick of \<^verbatim>\<open>Run\<close>: a failing provider is skipped until the next tick, a failing start ends the run.\<close>

definition watcherTick :: "'w watcher_env \<Rightarrow> ('w jobWatcher, go_error option) state" where
  "watcherTick env =
     do { r \<leftarrow> ask (we_configProvider env);
          case r of
            Inl e \<Rightarrow> ret None
          | Inr cfgs \<Rightarrow>
              do { err \<leftarrow> startInformersForNamespaces env (resolveJobWatcherNamespaces (we_namespace env) cfgs);
                   ret (map_option (Wrapped ''start informers for re-resolved namespaces'') err) } }"

definition namespaceWatched :: "string \<Rightarrow> ('w jobWatcher, bool) state" where
  "namespaceWatched namespace = gets (\<lambda>j. namespace \<in> set (jw_watched j))"

text \<open>The cache of a namespace has synced: remembered, or asked of the informer and then remembered.\<close>

definition cacheSynced :: "'w watcher_env \<Rightarrow> string \<Rightarrow> ('w jobWatcher, bool) state" where
  "cacheSynced env namespace =
     do { synced \<leftarrow> gets (\<lambda>j. namespace \<in> set (jw_synced j));
          if synced then ret True
          else
            do { s \<leftarrow> ask (we_HasSynced env namespace);
                 if s then do { modify (\<lambda>j. j\<lparr>jw_synced := List.insert namespace (jw_synced j)\<rparr>); ret True }
                 else ret False } }"

definition namespaceReady :: "'w watcher_env \<Rightarrow> string \<Rightarrow> ('w jobWatcher, bool) state" where
  "namespaceReady env namespace =
     do { watched \<leftarrow> namespaceWatched namespace;
          if \<not> watched then ret False
          else
            do { started \<leftarrow> informerStarted namespace;
                 if \<not> started then gets (\<lambda>j. namespace \<in> set (jw_synced j)) else cacheSynced env namespace } }"

text \<open>Whether there is a lister for the pods of a namespace.\<close>

definition podListerForNamespace :: "'w watcher_env \<Rightarrow> string \<Rightarrow> ('w jobWatcher, bool) state" where
  "podListerForNamespace env namespace =
     do { started \<leftarrow> informerStarted namespace;
          if \<not> started then ret False else cacheSynced env namespace }"

section \<open>The reason of a failure\<close>

definition ownedPods :: "'w watcher_env \<Rightarrow> Job \<Rightarrow> (Pod \<Rightarrow> bool) \<Rightarrow> ('w jobWatcher, Pod option) state" where
  "ownedPods env job ok =
     do { lister \<leftarrow> podListerForNamespace env (job_Namespace job);
          if \<not> lister then ret None
          else
            do { r \<leftarrow> ask (we_ListPods env (job_Namespace job));
                 ret (case r of
                     Inl _ \<Rightarrow> None
                   | Inr pods \<Rightarrow> newestPod (\<lambda>pod. ownerJobName pod = job_Name job \<and> ok pod) pods) } }"

definition jobPod :: "'w watcher_env \<Rightarrow> Job \<Rightarrow> ('w jobWatcher, Pod option) state" where
  "jobPod env job = ownedPods env job (\<lambda>_. True)"

definition terminalPodDetail :: "'w watcher_env \<Rightarrow> Job \<Rightarrow> ('w jobWatcher, (string \<times> int) option) state" where
  "terminalPodDetail env job =
     do { best \<leftarrow> ownedPods env job hasNonZeroTerminatedContainer; ret (terminatedDetail best) }"

definition detailed :: "string \<Rightarrow> string \<times> int \<Rightarrow> string" where
  "detailed reason d = reason @ '' ('' @ fst d @ ''/'' @ itoa (snd d) @ '')''"

definition backoffFailureReason :: "'w watcher_env \<Rightarrow> Job \<Rightarrow> ('w jobWatcher, string) state" where
  "backoffFailureReason env job =
     do { r \<leftarrow> terminalPodDetail env job;
          ret (case r of
              None \<Rightarrow> backoffLimitExceededReason @ '' ('' @ podUnresolvedMarker @ '')''
            | Some d \<Rightarrow>
                if fst d = ''OOMKilled'' then detailed ZombieReasonPodOOMKilled d
                else detailed ZombieReasonPodCrashNoStdout d) }"

definition fallthroughFailureReason :: "'w watcher_env \<Rightarrow> Job \<Rightarrow> ('w jobWatcher, string) state" where
  "fallthroughFailureReason env job =
     (case jobFailedCondition job of
        None \<Rightarrow> ret ZombieReasonPodCrashNoStdout
      | Some condition \<Rightarrow>
          do { r \<leftarrow> terminalPodDetail env job;
               ret (case r of None \<Rightarrow> condition | Some d \<Rightarrow> detailed condition d) })"

definition failureReason :: "'w watcher_env \<Rightarrow> Job \<Rightarrow> ('w jobWatcher, string) state" where
  "failureReason env job =
     (if JobFailureReason job = ZombieReasonDeadlineExceeded then ret ZombieReasonDeadlineExceeded
      else if isBackoffLimitExceeded job then backoffFailureReason env job
      else fallthroughFailureReason env job)"

section \<open>Releasing the claim\<close>

definition tracksJob :: "task_lib \<Rightarrow> Task \<Rightarrow> string \<Rightarrow> bool" where
  "tracksJob L task jobName \<longleftrightarrow> lib_CurrentJob L (Frontmatter task) = '''' \<or> lib_CurrentJob L (Frontmatter task) = jobName"

definition claimReleaseAllowed :: "'w watcher_env \<Rightarrow> string \<Rightarrow> string \<Rightarrow> ('w jobWatcher, bool) state" where
  "claimReleaseAllowed env tid jobName =
     (case we_claimReleaser env of
        None \<Rightarrow> ret False
      | Some _ \<Rightarrow>
          do { entry \<leftarrow> load tid;
               ret (case entry of Some task \<Rightarrow> tracksJob (we_lib env) task jobName | None \<Rightarrow> True) })"

definition with_releaser :: "'w watcher_env \<Rightarrow> ('w ClaimReleaser \<Rightarrow> ('w, unit) state) \<Rightarrow> ('w jobWatcher, unit) state" where
  "with_releaser env f = (case we_claimReleaser env of None \<Rightarrow> ret () | Some r \<Rightarrow> ask (f r))"

definition releaseClaim :: "'w watcher_env \<Rightarrow> string \<Rightarrow> string \<Rightarrow> ('w jobWatcher, unit) state" where
  "releaseClaim env tid jobName =
     do { allowed \<leftarrow> claimReleaseAllowed env tid jobName;
          if \<not> allowed then ret () else with_releaser env (\<lambda>r. rel_ReleaseTaskClaim r tid) }"

definition releaseClaimAfterSuccess ::
  "'w watcher_env \<Rightarrow> string \<Rightarrow> string \<Rightarrow> string \<Rightarrow> go_time \<Rightarrow> ('w jobWatcher, unit) state" where
  "releaseClaimAfterSuccess env tid jobName phase completedAt =
     do { allowed \<leftarrow> claimReleaseAllowed env tid jobName;
          if \<not> allowed then ret ()
          else with_releaser env (\<lambda>r. rel_ReleaseTaskClaimAfterSuccess r tid phase completedAt) }"

definition releaseSucceededJobClaim :: "'w watcher_env \<Rightarrow> string \<Rightarrow> Job \<Rightarrow> ('w jobWatcher, unit) state" where
  "releaseSucceededJobClaim env tid job =
     (case job_CompletionTime job of
        None \<Rightarrow> releaseClaim env tid (job_Name job)
      | Some at \<Rightarrow>
          releaseClaimAfterSuccess env tid (job_Name job) (map_get (job_Annotations job) TaskPhaseAnnotationKey) at)"

section \<open>Terminal Jobs\<close>

fun activeIn :: "bool \<Rightarrow> Job list \<Rightarrow> go_error + bool" where
  "activeIn done [] = Inr False"
| "activeIn done (job # jobs) =
     (if done then Inl (Wrapped ''list jobs for task cancelled'' ContextDone)
      else if unfinished job then Inr True
      else activeIn done jobs)"

definition taskHasActiveJob :: "'w watcher_env \<Rightarrow> string \<Rightarrow> string \<Rightarrow> ('w jobWatcher, go_error + bool) state" where
  "taskHasActiveJob env namespace tid =
     do { r \<leftarrow> ask (we_ListJobs env namespace (taskIDLabelKey, tid));
          case r of
            Inl e \<Rightarrow> ret (Inl (Wrapped ''list jobs for task'' e))
          | Inr jobs \<Rightarrow> do { done \<leftarrow> gets (\<lambda>j. we_ctxDone env (jw_world j)); ret (activeIn done jobs) } }"

text \<open>The end of both terminal paths: the entry goes unless it tracks another Job while a Job is active.\<close>

definition convergeStore :: "'w watcher_env \<Rightarrow> string \<Rightarrow> Task \<Rightarrow> Job \<Rightarrow> ('w jobWatcher, unit) state" where
  "convergeStore env tid task job =
     (if \<not> tracksJob (we_lib env) task (job_Name job) then
        do { active \<leftarrow> taskHasActiveJob env (job_Namespace job) tid;
             case active of
               Inl _ \<Rightarrow> ret ()
             | Inr a \<Rightarrow> if a then ret () else on_store (store_Delete tid) }
      else on_store (store_Delete tid))"

definition handleSucceeded :: "'w watcher_env \<Rightarrow> string \<Rightarrow> Task \<Rightarrow> Job \<Rightarrow> ('w jobWatcher, unit) state" where
  "handleSucceeded env tid task job =
     do { err \<leftarrow> ask (we_PublishClearCurrentJob env task (job_Name job));
          case err of Some _ \<Rightarrow> ret () | None \<Rightarrow> convergeStore env tid task job }"

definition handleSucceededJob :: "'w watcher_env \<Rightarrow> string \<Rightarrow> string \<Rightarrow> Job \<Rightarrow> ('w jobWatcher, unit) state" where
  "handleSucceededJob env namespace tid job =
     do { ready \<leftarrow> namespaceReady env namespace;
          (if \<not> ready then modify (\<lambda>j. j\<lparr>jw_counts := jw_counts j @ [''success_before_cache_sync'']\<rparr>) else ret ());
          (case job_CompletionTime job of
             Some at \<Rightarrow> on_store (MarkSucceeded tid (map_get (job_Annotations job) TaskPhaseAnnotationKey) at)
           | None \<Rightarrow> ret ());
          releaseSucceededJobClaim env tid job;
          entry \<leftarrow> load tid;
          case entry of Some task \<Rightarrow> handleSucceeded env tid task job | None \<Rightarrow> ret () }"

definition storeMissPublishWindow :: duration where "storeMissPublishWindow = 30 * 60 * second"

definition freshStoreMissFailure :: "'w watcher_env \<Rightarrow> go_time \<Rightarrow> ('w jobWatcher, bool) state" where
  "freshStoreMissFailure env failedAt =
     do { startedAt \<leftarrow> gets jw_startedAt;
          if \<not> failedAt > startedAt then ret False
          else do { now \<leftarrow> ask (we_now env); ret (time_sub now failedAt < storeMissPublishWindow) } }"

definition taskFromFailedJob :: "string \<Rightarrow> Job \<Rightarrow> Task" where
  "taskFromFailedJob tid job =
     (let phase = map_get (job_Annotations job) TaskPhaseAnnotationKey in
      \<lparr>TaskIdentifier = tid, Vault = '''',
       Frontmatter = (''max_triggers'', FmNil) # (if phase \<noteq> '''' then [(''phase'', FmString phase)] else []),
       Content = ''''\<rparr>)"

definition publishStoreMissFailure ::
  "'w watcher_env \<Rightarrow> string \<Rightarrow> Job \<Rightarrow> string \<Rightarrow> ('w jobWatcher, bool) state" where
  "publishStoreMissFailure env tid job reason =
     (case jobFailedAt job of
        None \<Rightarrow> ret False
      | Some failedAt \<Rightarrow>
          do { fresh \<leftarrow> freshStoreMissFailure env failedAt;
               if \<not> fresh then ret False
               else
                 do { active \<leftarrow> taskHasActiveJob env (job_Namespace job) tid;
                      case active of
                        Inl _ \<Rightarrow> ret False
                      | Inr a \<Rightarrow>
                          if a then ret True
                          else
                            do { _ \<leftarrow> ask (we_PublishStoreMissFailure env (taskFromFailedJob tid job) (job_Name job) reason);
                                 ret True } } })"

definition publishSyntheticFailure ::
  "'w watcher_env \<Rightarrow> string \<Rightarrow> Task \<Rightarrow> Job \<Rightarrow> string \<Rightarrow> ('w jobWatcher, unit) state" where
  "publishSyntheticFailure env tid task job reason =
     do { pod \<leftarrow> jobPod env job;
          _ \<leftarrow> ask (we_PublishFailure env task (job_Name job) reason pod);
          convergeStore env tid task job }"

definition handleTerminal ::
  "'w watcher_env \<Rightarrow> string \<Rightarrow> Job \<Rightarrow> string \<Rightarrow> bool \<Rightarrow> ('w jobWatcher, unit) state" where
  "handleTerminal env tid job reason alwaysPublish =
     do { entry \<leftarrow> load tid;
          case entry of
            Some task \<Rightarrow> publishSyntheticFailure env tid task job reason
          | None \<Rightarrow>
              if alwaysPublish then do { _ \<leftarrow> publishStoreMissFailure env tid job reason; ret () } else ret () }"

definition HandleJob :: "'w watcher_env \<Rightarrow> Job \<Rightarrow> ('w jobWatcher, unit) state" where
  "HandleJob env job =
     do { watched \<leftarrow> namespaceWatched (job_Namespace job);
          if \<not> watched then ret ()
          else
            (let tid = map_get (job_Labels job) taskIDLabelKey in
             if tid = '''' then ret ()
             else if IsJobFailed job then
               do { ready \<leftarrow> namespaceReady env (job_Namespace job);
                    if \<not> ready then ret ()
                    else
                      do { reason \<leftarrow> failureReason env job;
                           releaseClaim env tid (job_Name job);
                           handleTerminal env tid job reason True } }
             else if IsJobSucceeded job then handleSucceededJob env (job_Namespace job) tid job
             else ret ()) }"

section \<open>Failed Pods\<close>

definition HandlePod :: "'w watcher_env \<Rightarrow> Pod \<Rightarrow> ('w jobWatcher, unit) state" where
  "HandlePod env pod =
     do { ready \<leftarrow> namespaceReady env (po_Namespace pod);
          if \<not> ready then ret ()
          else
            (let tid = map_get (po_Labels pod) taskIDLabelKey; reason = classifyPodFailure pod in
             if tid = '''' then ret ()
             else if reason = '''' then ret ()
             else
               do { entry \<leftarrow> load tid;
                    case entry of
                      None \<Rightarrow> ret ()
                    | Some task \<Rightarrow>
                        (let jobName = ownerJobName pod in
                         if jobName = '''' then ret ()
                         else do { _ \<leftarrow> ask (we_PublishFailure env task jobName reason (Some pod)); ret () }) }) }"

end
