(* ===== verification/Result_Publisher.thy ===== *)
theory Result_Publisher
  imports Task_Model Zombie_Reason Success_Store
begin

text \<open>
  The result publisher (\<^verbatim>\<open>pkg/result_publisher.go\<close>): the commands the executor sends so that the
  controller writes the vault task files, and the bounded memory of what was sent lately.

  Parameters: the command sender and the event encoder of the cqrs library, the reader of pod logs, and the
  log redaction of \<^verbatim>\<open>pkg/log_redactor.go\<close>. The random request id of a command is left out. The lazily
  built stores are functions of the ref client, which the factory returns or not.
\<close>

section \<open>Remembering what was published\<close>

definition dedupeCapacity :: nat where "dedupeCapacity = 1024"
definition dedupeTTL :: duration where "dedupeTTL = 3600 * second"
definition defaultMaxTriggers :: int where "defaultMaxTriggers = 3"

record ttlDedupe =
  dd_capacity :: nat
  dd_ttl :: duration
  dd_order :: "string list"
  dd_seen :: "(string, go_time) gomap"

definition newDedupe :: "nat \<Rightarrow> ttlDedupe" where
  "newDedupe capacity = \<lparr>dd_capacity = capacity, dd_ttl = dedupeTTL, dd_order = [], dd_seen = []\<rparr>"

definition checkDedupe :: "ttlDedupe \<Rightarrow> go_time \<Rightarrow> string \<Rightarrow> bool" where
  "checkDedupe d now jobName =
     (case map_of (dd_seen d) jobName of None \<Rightarrow> False | Some ts \<Rightarrow> time_sub now ts < dd_ttl d)"

definition recordDedupe :: "go_time \<Rightarrow> string \<Rightarrow> ttlDedupe \<Rightarrow> ttlDedupe" where
  "recordDedupe now jobName d =
     (if map_of (dd_seen d) jobName \<noteq> None then d\<lparr>dd_seen := AList.update jobName now (dd_seen d)\<rparr>
      else
        (let d = (if length (dd_order d) \<ge> dd_capacity d
                  then d\<lparr>dd_order := tl (dd_order d), dd_seen := AList.delete (hd (dd_order d)) (dd_seen d)\<rparr> else d)
         in d\<lparr>dd_order := dd_order d @ [jobName], dd_seen := AList.update jobName now (dd_seen d)\<rparr>))"

section \<open>Commands\<close>

record BodySection =
  bs_Heading :: string
  bs_Section :: string

record UpdateFrontmatterCommand =
  uc_TaskIdentifier :: string
  uc_TargetVault :: string
  uc_Updates :: frontmatter
  uc_Body :: "BodySection option"

record IncrementFrontmatterCommand =
  ic_TaskIdentifier :: string
  ic_TargetVault :: string
  ic_Field :: string
  ic_Delta :: int

datatype command =
    UpdateFrontmatter UpdateFrontmatterCommand
  | IncrementFrontmatter IncrementFrontmatterCommand

datatype operation = UpdateFrontmatterCommandOperation | IncrementFrontmatterCommandOperation

record 'e CommandObject =
  co_Operation :: operation
  co_Initiator :: string
  co_Event :: 'e

record Pod_ref =
  pod_Namespace :: string
  pod_Name :: string

record ('e, 'w) publisher_env =
  pe_lib :: task_lib
  pe_now :: "('w, go_time) state"
  pe_ParseEvent :: "command \<Rightarrow> go_error + 'e"
  pe_Send :: "'e CommandObject \<Rightarrow> ('w, go_error option) state"
  pe_refClientFactory :: "'w ClaimRefClient option option"
  pe_podLogReader :: "(string \<Rightarrow> string \<Rightarrow> ('w, go_error + string) state) option"
  pe_parseDateTime :: "string \<Rightarrow> go_time option"
  pe_redactLog :: "string \<Rightarrow> string"

record 'w resultPublisher =
  pb_dedupe :: ttlDedupe
  pb_aborted :: "string list"
  pb_world :: 'w

abbreviation done_with :: "'a \<Rightarrow> ('s, 'a) state" where
  "done_with \<equiv> State_Monad.return"

definition sending :: "('w, 'a) state \<Rightarrow> ('w resultPublisher, 'a) state" where
  "sending x = State (\<lambda>p. case run_state x (pb_world p) of (a, w) \<Rightarrow> (a, p\<lparr>pb_world := w\<rparr>))"

definition seenLately :: "('e, 'w) publisher_env \<Rightarrow> string \<Rightarrow> ('w resultPublisher, bool) state" where
  "seenLately env jobName =
     do { d \<leftarrow> gets pb_dedupe;
          if map_of (dd_seen d) jobName = None then done_with False
          else do { now \<leftarrow> sending (pe_now env); done_with (checkDedupe d now jobName) } }"

definition remember :: "('e, 'w) publisher_env \<Rightarrow> string \<Rightarrow> ('w resultPublisher, unit) state" where
  "remember env jobName =
     do { now \<leftarrow> sending (pe_now env);
          modify (\<lambda>p. p\<lparr>pb_dedupe := recordDedupe now jobName (pb_dedupe p)\<rparr>) }"

definition publishRaw ::
  "('e, 'w) publisher_env \<Rightarrow> operation \<Rightarrow> command \<Rightarrow> ('w resultPublisher, go_error option) state" where
  "publishRaw env oper payload =
     (case pe_ParseEvent env payload of
        Inl e \<Rightarrow> done_with (Some (Wrapped ''parse event for operation'' e))
      | Inr ev \<Rightarrow>
          do { err \<leftarrow> sending (pe_Send env \<lparr>co_Operation = oper, co_Initiator = ''executor'', co_Event = ev\<rparr>);
               done_with (map_option (Wrapped ''send command for operation'') err) })"

definition targetVaultFromTask :: "task_lib \<Rightarrow> Task \<Rightarrow> string" where
  "targetVaultFromTask L task = (case lib_String L (Frontmatter task) ''target_vault'' of Some v \<Rightarrow> v | None \<Rightarrow> '''')"

definition updateCommand :: "task_lib \<Rightarrow> Task \<Rightarrow> frontmatter \<Rightarrow> BodySection option \<Rightarrow> command" where
  "updateCommand L task updates body = UpdateFrontmatter
     \<lparr>uc_TaskIdentifier = TaskIdentifier task, uc_TargetVault = targetVaultFromTask L task, uc_Updates = updates, uc_Body = body\<rparr>"

definition publishUpdate ::
  "('e, 'w) publisher_env \<Rightarrow> Task \<Rightarrow> frontmatter \<Rightarrow> BodySection option \<Rightarrow> ('w resultPublisher, go_error option) state" where
  "publishUpdate env task updates body =
     publishRaw env UpdateFrontmatterCommandOperation (updateCommand (pe_lib env) task updates body)"

definition PublishIncrementTriggerCount ::
  "('e, 'w) publisher_env \<Rightarrow> Task \<Rightarrow> ('w resultPublisher, go_error option) state" where
  "PublishIncrementTriggerCount env task =
     publishRaw env IncrementFrontmatterCommandOperation (IncrementFrontmatter
       \<lparr>ic_TaskIdentifier = TaskIdentifier task, ic_TargetVault = targetVaultFromTask (pe_lib env) task,
        ic_Field = ''trigger_count'', ic_Delta = 1\<rparr>)"

section \<open>The evidence of failures\<close>

definition pub_redriveStore :: "('e, 'w) publisher_env \<Rightarrow> 'w ClaimRefClient option" where
  "pub_redriveStore env = (case pe_refClientFactory env of None \<Rightarrow> None | Some client \<Rightarrow> client)"

definition clearReasonsForNewStreak :: "('e, 'w) publisher_env \<Rightarrow> Task \<Rightarrow> ('w resultPublisher, unit) state" where
  "clearReasonsForNewStreak env task =
     (case pub_redriveStore env of
        None \<Rightarrow> done_with ()
      | Some store \<Rightarrow> do { _ \<leftarrow> sending (reasonClear store (TaskIdentifier task)); done_with () })"

definition recordRedriveFailure :: "('e, 'w) publisher_env \<Rightarrow> Task \<Rightarrow> ('w resultPublisher, unit) state" where
  "recordRedriveFailure env task =
     (case pub_redriveStore env of
        None \<Rightarrow> done_with ()
      | Some store \<Rightarrow>
          (let phase = taskPhase (pe_lib env) task in
           do { n \<leftarrow> sending (streakCount store (pe_now env) (pe_parseDateTime env) (TaskIdentifier task) phase);
                (case n of
                   Inl _ \<Rightarrow> done_with ()
                 | Inr c \<Rightarrow> if c = 0 then clearReasonsForNewStreak env task else done_with ());
                _ \<leftarrow> sending (streakRecord store (pe_now env) (pe_parseDateTime env) (TaskIdentifier task) phase);
                done_with () }))"

definition recordRedriveReason :: "('e, 'w) publisher_env \<Rightarrow> Task \<Rightarrow> string \<Rightarrow> ('w resultPublisher, unit) state" where
  "recordRedriveReason env task reason =
     (case pub_redriveStore env of
        None \<Rightarrow> done_with ()
      | Some store \<Rightarrow>
          (let normalized = (case ParseZombieReason reason of Some parsed \<Rightarrow> parsed | None \<Rightarrow> RedriveReasonUnknown) in
           do { _ \<leftarrow> sending (reasonRecord store (pe_now env) (TaskIdentifier task) (taskPhase (pe_lib env) task) normalized);
                done_with () }))"

section \<open>The log tail\<close>

definition nl :: string where "nl = [CHR 0x0A]"

definition backtick :: char where "backtick = CHR 0x60"

text \<open>The longest run of backticks, with the length of the run under way.\<close>

fun longestRun :: "nat \<Rightarrow> nat \<Rightarrow> string \<Rightarrow> nat" where
  "longestRun longest run [] = longest"
| "longestRun longest run (r # rs) =
     (if r = backtick then longestRun (if run + 1 > longest then run + 1 else longest) (run + 1) rs
      else longestRun longest 0 rs)"

definition logFence :: "string \<Rightarrow> string" where
  "logFence tail =
     (let longest = longestRun 0 0 tail; longest = (if longest < 2 then 2 else longest) in replicate (longest + 1) backtick)"

definition trim_right_nl :: "string \<Rightarrow> string" where
  "trim_right_nl s = rev (dropWhile (\<lambda>c. c = CHR 0x0A) (rev s))"

definition logTailBlock :: "('e, 'w) publisher_env \<Rightarrow> Pod_ref option \<Rightarrow> ('w resultPublisher, string) state" where
  "logTailBlock env pod =
     (case (pe_podLogReader env, pod) of
        (Some reader, Some p) \<Rightarrow>
          do { r \<leftarrow> sending (reader (pod_Namespace p) (pod_Name p));
               done_with (case r of
                   Inl _ \<Rightarrow> ''''
                 | Inr raw \<Rightarrow>
                     (let tail = trim_right_nl (pe_redactLog env raw); fence = logFence tail in
                      if tail = '''' then ''''
                      else nl @ ''- **Log tail:**'' @ nl @ nl @ fence @ nl @ tail @ nl @ fence @ nl)) }
      | _ \<Rightarrow> done_with '''')"

section \<open>Failures\<close>

definition crashFailureUpdates :: "Task \<Rightarrow> string \<Rightarrow> frontmatter" where
  "crashFailureUpdates task reason =
     (let updates = [(''current_job'', FmString '''')];
          armClass = (case ParseZombieReason reason of
              Some parsed \<Rightarrow> parsed = ZombieReasonPodCrashNoStdout \<or> parsed = ZombieReasonPodNotScheduled
            | None \<Rightarrow> False) in
      if \<not> armClass then updates
      else if map_of (Frontmatter task) ''max_triggers'' \<noteq> None then updates
      else AList.update ''max_triggers'' (FmInt defaultMaxTriggers) updates)"

definition dash :: string where "dash = [CHR 0xE2, CHR 0x80, CHR 0x94]"

definition storeMissFailureNote :: string where
  "storeMissFailureNote =
     ''- **Note:** this record had already reached its terminal status before the Job '' @
     ''above ran. The Job crashed before producing any output, so the run left no trace of '' @
     ''its own on this record. This entry exists because that crash would otherwise be '' @
     ''silent '' @ dash @ '' the task had already left the executor's in-memory store, so no other path '' @
     ''could report it. The status above is unchanged: only `current_job` was cleared and '' @
     ''`trigger_count` incremented.'' @ nl"

definition storeMissFailureNoteOther :: string where
  "storeMissFailureNoteOther =
     ''- **Note:** this record was not in the executor's in-memory store when the Job '' @
     ''above failed. The status above is unchanged: only `current_job` was cleared and '' @
     ''`trigger_count` incremented.'' @ nl"

definition storeMissFailureNoteFor :: "string \<Rightarrow> string" where
  "storeMissFailureNoteFor reason =
     (if ParseZombieReason reason = Some ZombieReasonPodCrashNoStdout then storeMissFailureNote else storeMissFailureNoteOther)"

definition publishFailure ::
  "('e, 'w) publisher_env \<Rightarrow> Task \<Rightarrow> string \<Rightarrow> string \<Rightarrow> string \<Rightarrow> Pod_ref option \<Rightarrow>
   ('w resultPublisher, go_error option) state" where
  "publishFailure env task jobName reason note pod =
     do { seen \<leftarrow> seenLately env jobName;
          if seen then done_with None
          else
            do { now \<leftarrow> sending (pe_now env);
                 tail \<leftarrow> logTailBlock env pod;
                 let section = ''## Failure'' @ nl @ nl @ ''- **Timestamp:** '' @ formatLeaseUntil now @ nl @
                   ''- **Job:** '' @ jobName @ nl @ ''- **Reason:** '' @ reason @ nl @ note @ tail;
                 err \<leftarrow> publishUpdate env task (crashFailureUpdates task reason)
                   (Some \<lparr>bs_Heading = ''## Failure'', bs_Section = section\<rparr>);
                 case err of
                   Some e \<Rightarrow> done_with (Some (Wrapped ''publish zombie failure update'' e))
                 | None \<Rightarrow>
                     do { err \<leftarrow> PublishIncrementTriggerCount env task;
                          case err of
                            Some e \<Rightarrow> done_with (Some (Wrapped ''publish zombie failure trigger_count increment'' e))
                          | None \<Rightarrow>
                              do { remember env jobName;
                                   recordRedriveFailure env task;
                                   recordRedriveReason env task reason;
                                   done_with None } } } }"

definition PublishFailure ::
  "('e, 'w) publisher_env \<Rightarrow> Task \<Rightarrow> string \<Rightarrow> string \<Rightarrow> Pod_ref option \<Rightarrow> ('w resultPublisher, go_error option) state" where
  "PublishFailure env task jobName reason pod = publishFailure env task jobName reason '''' pod"

definition PublishStoreMissFailure ::
  "('e, 'w) publisher_env \<Rightarrow> Task \<Rightarrow> string \<Rightarrow> string \<Rightarrow> ('w resultPublisher, go_error option) state" where
  "PublishStoreMissFailure env task jobName reason =
     publishFailure env task jobName reason (storeMissFailureNoteFor reason) None"

definition PublishTypeMismatchFailure ::
  "('e, 'w) publisher_env \<Rightarrow> Task \<Rightarrow> string \<Rightarrow> ('w resultPublisher, go_error option) state" where
  "PublishTypeMismatchFailure env task reason =
     do { now \<leftarrow> sending (pe_now env);
          let priorAssignee = lib_Assignee (pe_lib env) (Frontmatter task);
          let section = ''## Failure'' @ nl @ nl @ ''- **Timestamp:** '' @ formatLeaseUntil now @ nl @
            ''- **Assignee:** '' @ priorAssignee @ nl @ ''- **Reason:** '' @ reason @ nl;
          let updates = [(''assignee'', FmString ''''), (''current_job'', FmString '''')] @
            (if priorAssignee \<noteq> '''' then [(''previous_assignee'', FmString priorAssignee)] else []);
          err \<leftarrow> publishUpdate env task updates (Some \<lparr>bs_Heading = ''## Failure'', bs_Section = section\<rparr>);
          done_with (map_option (Wrapped ''publish type mismatch failure'') err) }"

section \<open>The other writes\<close>

definition PublishSpawnNotification ::
  "('e, 'w) publisher_env \<Rightarrow> Task \<Rightarrow> string \<Rightarrow> ('w resultPublisher, go_error option) state" where
  "PublishSpawnNotification env task jobName =
     do { now \<leftarrow> sending (pe_now env);
          publishUpdate env task
            [(''spawn_notification'', FmBool True), (''current_job'', FmString jobName),
             (''job_started_at'', FmString (formatLeaseUntil now))] None }"

definition PublishClearCurrentJob ::
  "('e, 'w) publisher_env \<Rightarrow> Task \<Rightarrow> string \<Rightarrow> ('w resultPublisher, go_error option) state" where
  "PublishClearCurrentJob env task jobName =
     do { seen \<leftarrow> seenLately env jobName;
          if seen then done_with None
          else
            do { err \<leftarrow> publishUpdate env task [(''current_job'', FmString '''')] None;
                 case err of
                   Some e \<Rightarrow> done_with (Some (Wrapped ''publish current_job clear'' e))
                 | None \<Rightarrow> do { remember env jobName; done_with None } } }"

definition PublishSetTriggerScope ::
  "('e, 'w) publisher_env \<Rightarrow> Task \<Rightarrow> string \<Rightarrow> int \<Rightarrow> ('w resultPublisher, go_error option) state" where
  "PublishSetTriggerScope env task scope n =
     do { err \<leftarrow> publishUpdate env task [(''trigger_scope'', FmString scope), (''trigger_count'', FmInt n)] None;
          done_with (map_option (Wrapped ''publish set trigger scope'') err) }"

definition triggerRefusalDedupeKey :: "string \<Rightarrow> string \<Rightarrow> int \<Rightarrow> int \<Rightarrow> string" where
  "triggerRefusalDedupeKey tid scope n maxTriggers =
     ''trigger_refusal:'' @ tid @ '':'' @ scope @ '':'' @ itoa n @ '':'' @ itoa maxTriggers"

definition PublishTriggerBudgetRefusal ::
  "('e, 'w) publisher_env \<Rightarrow> Task \<Rightarrow> string \<Rightarrow> int \<Rightarrow> int \<Rightarrow> ('w resultPublisher, go_error option) state" where
  "PublishTriggerBudgetRefusal env task scope n maxTriggers =
     (let dedupeKey = triggerRefusalDedupeKey (TaskIdentifier task) scope n maxTriggers in
      do { seen \<leftarrow> seenLately env dedupeKey;
           if seen then done_with None
           else
             do { now \<leftarrow> sending (pe_now env);
                  let section = ''## Trigger Budget'' @ nl @ nl @ ''- **Timestamp:** '' @ formatLeaseUntil now @ nl @
                    ''- **Refusal:** trigger_count '' @ itoa n @ '' >= max_triggers '' @ itoa maxTriggers @ nl @
                    ''- **Scope:** '' @ scope @ nl;
                  err \<leftarrow> publishUpdate env task [] (Some \<lparr>bs_Heading = ''## Trigger Budget'', bs_Section = section\<rparr>);
                  case err of
                    Some e \<Rightarrow> done_with (Some (Wrapped ''publish trigger budget refusal'' e))
                  | None \<Rightarrow> do { remember env dedupeKey; done_with None } } })"

definition PublishRestoreAssignee ::
  "('e, 'w) publisher_env \<Rightarrow> Task \<Rightarrow> string \<Rightarrow> ('w resultPublisher, go_error option) state" where
  "PublishRestoreAssignee env task assignee = publishUpdate env task [(''assignee'', FmString assignee)] None"

definition PublishParkLostClaim :: "('e, 'w) publisher_env \<Rightarrow> Task \<Rightarrow> ('w resultPublisher, go_error option) state" where
  "PublishParkLostClaim env task = publishUpdate env task [(''phase'', FmString TaskPhaseHumanReview)] None"

definition PublishParkSucceeded :: "('e, 'w) publisher_env \<Rightarrow> Task \<Rightarrow> ('w resultPublisher, go_error option) state" where
  "PublishParkSucceeded env task = PublishParkLostClaim env task"

definition PublishAbort ::
  "('e, 'w) publisher_env \<Rightarrow> Task \<Rightarrow> string \<Rightarrow> int \<Rightarrow> ('w resultPublisher, go_error option) state" where
  "PublishAbort env task reason streak =
     (if lib_Status (pe_lib env) (Frontmatter task) = TaskStatusAborted then done_with None
      else
        (let dedupeKey = ''abort:'' @ TaskIdentifier task in
         do { seen \<leftarrow> seenLately env dedupeKey;
              if seen then done_with None
              else
                do { err \<leftarrow> publishUpdate env task
                       [(''status'', FmString TaskStatusAborted), (''aborted_reason'', FmString reason),
                        (''gate_successor'', FmString ''none''), (''current_job'', FmString '''')] None;
                     case err of
                       Some e \<Rightarrow> done_with (Some (Wrapped ''publish abort'' e))
                     | None \<Rightarrow>
                         do { modify (\<lambda>p. p\<lparr>pb_aborted := pb_aborted p @ [reason]\<rparr>);
                              remember env dedupeKey;
                              done_with None } } }))"

definition PublishQueueEntry ::
  "('e, 'w) publisher_env \<Rightarrow> Task \<Rightarrow> string \<Rightarrow> ('w resultPublisher, go_error option) state" where
  "PublishQueueEntry env task queuedAt = publishUpdate env task [(''queued_at'', FmString queuedAt)] None"

section \<open>The memory of publications\<close>

definition dedupe_ok :: "ttlDedupe \<Rightarrow> bool" where
  "dedupe_ok d \<longleftrightarrow> distinct (dd_order d) \<and> set (dd_order d) = dom (map_of (dd_seen d)) \<and>
     length (dd_order d) \<le> dd_capacity d \<and> 0 < dd_capacity d"

lemma newDedupe_ok: "0 < n \<Longrightarrow> dedupe_ok (newDedupe n)"
  by (simp add: dedupe_ok_def newDedupe_def)

lemma recordDedupe_fields [simp]:
  "dd_capacity (recordDedupe now k d) = dd_capacity d"
  "dd_ttl (recordDedupe now k d) = dd_ttl d"
  by (simp_all add: recordDedupe_def Let_def)

lemma recordDedupe_ok: "dedupe_ok d \<Longrightarrow> dedupe_ok (recordDedupe now k d)"
proof (cases "map_of (dd_seen d) k = None \<and> dd_capacity d \<le> length (dd_order d)")
  case True
  assume ok: "dedupe_ok d"
  with True obtain x xs where "dd_order d = x # xs" by (cases "dd_order d") (auto simp: dedupe_ok_def)
  then show ?thesis
    using True ok by (auto simp: dedupe_ok_def recordDedupe_def dom_def update_conv' delete_conv' split: if_splits)
qed (auto simp: dedupe_ok_def recordDedupe_def Let_def dom_def update_conv')

lemma recordDedupe_seen [simp]: "map_of (dd_seen (recordDedupe now k d)) k = Some now"
  by (simp add: recordDedupe_def Let_def update_conv')

text \<open>What a key still has in front of it before it is evicted.\<close>

definition younger :: "string \<Rightarrow> nat \<Rightarrow> ttlDedupe \<Rightarrow> bool" where
  "younger k n d \<longleftrightarrow> (\<exists>xs ys. dd_order d = xs @ k # ys \<and> length ys \<le> n)"

lemma recordDedupe_younger: "dedupe_ok d \<Longrightarrow> map_of (dd_seen d) k = None \<Longrightarrow> younger k 0 (recordDedupe now k d)"
  by (simp add: recordDedupe_def younger_def Let_def)

lemma younger_step:
  assumes "dedupe_ok d" and "younger k n d" and "n + 1 < dd_capacity d" and "k' \<noteq> k"
  shows "younger k (n + 1) (recordDedupe now k' d) \<and> map_of (dd_seen (recordDedupe now k' d)) k = map_of (dd_seen d) k"
proof -
  obtain xs ys where order: "dd_order d = xs @ k # ys" and "length ys \<le> n" using assms(2) by (auto simp: younger_def)
  show ?thesis
  proof (cases "map_of (dd_seen d) k' = None \<and> dd_capacity d \<le> length (dd_order d)")
    case True
    with order assms(3) \<open>length ys \<le> n\<close> obtain x zs where xs: "xs = x # zs" by (cases xs) auto
    with assms(1) order have "x \<noteq> k" by (auto simp: dedupe_ok_def)
    moreover have "younger k (n + 1) (recordDedupe now k' d)"
      unfolding younger_def
      by (rule exI [of _ zs], rule exI [of _ "ys @ [k']"]) (use True order xs \<open>length ys \<le> n\<close> in \<open>simp add: recordDedupe_def\<close>)
    ultimately show ?thesis
      using True order xs assms(4) by (simp add: recordDedupe_def update_conv' delete_conv')
  next
    case False
    then have "younger k (n + 1) (recordDedupe now k' d)"
      unfolding younger_def recordDedupe_def
      by (cases "map_of (dd_seen d) k'")
        (use order \<open>length ys \<le> n\<close> in \<open>auto simp: Let_def intro: exI [of _ xs] exI [of _ "ys @ [k']"] exI [of _ ys]\<close>)
    then show ?thesis using False assms(4) by (auto simp: recordDedupe_def Let_def update_conv')
  qed
qed

definition recordAll :: "(go_time \<times> string) list \<Rightarrow> ttlDedupe \<Rightarrow> ttlDedupe" where
  "recordAll ks d = fold (\<lambda>(t, k). recordDedupe t k) ks d"

lemma recordAll_simps [simp]:
  "recordAll [] d = d"
  "recordAll ((t, k) # ks) d = recordAll ks (recordDedupe t k d)"
  by (simp_all add: recordAll_def)

lemma recordAll_fields [simp]: "dd_capacity (recordAll ks d) = dd_capacity d" "dd_ttl (recordAll ks d) = dd_ttl d"
  by (induction ks arbitrary: d) auto

lemma recordAll_remembers:
  assumes "dedupe_ok d" and "younger k n d" and "n + length ks < dd_capacity d" and "k \<notin> snd ` set ks"
  shows "map_of (dd_seen (recordAll ks d)) k = map_of (dd_seen d) k"
  using assms
proof (induction ks arbitrary: d n)
  case (Cons e ks)
  obtain t k' where e: "e = (t, k')" by fastforce
  with Cons.prems have "k' \<noteq> k" and "n + 1 < dd_capacity d" by auto
  note step = younger_step [OF Cons.prems(1,2) this(2,1), of t]
  have "map_of (dd_seen (recordAll ks (recordDedupe t k' d))) k = map_of (dd_seen (recordDedupe t k' d)) k"
    using Cons.IH [OF recordDedupe_ok [OF Cons.prems(1)] conjunct1 [OF step]] Cons.prems(3,4) by (simp add: e)
  with step show ?case by (simp add: e)
qed simp

section \<open>The fence around a log\<close>

lemma longestRun_ge: "longest \<le> longestRun longest run s"
proof (induction s arbitrary: longest run)
  case (Cons c s)
  show ?case
    using Cons.IH [of longest 0] order_trans [OF _ Cons.IH [of "run + 1" "run + 1"], of longest] Cons.IH [of longest "run + 1"]
    by (cases "run + 1 > longest") auto
qed simp

lemma longestRun_prefix:
  "0 < k \<Longrightarrow> has_prefix s (replicate k backtick) \<Longrightarrow> run + k \<le> longestRun longest run s"
proof (induction s arbitrary: longest run k)
  case (Cons c s)
  then obtain j where k: "k = Suc j" by (cases k) auto
  show ?case
  proof (cases "j = 0")
    case True
    have "run + 1 \<le> (if run + 1 > longest then run + 1 else longest)" by simp
    then have "run + 1 \<le> longestRun (if run + 1 > longest then run + 1 else longest) (run + 1) s"
      using longestRun_ge order_trans by blast
    with True k Cons.prems show ?thesis by simp
  next
    case False
    with Cons.IH [of j "run + 1"] Cons.prems k show ?thesis by simp
  qed
qed (auto simp: gr0_conv_Suc)

lemma longestRun_contains:
  "0 < k \<Longrightarrow> contains_str s (replicate k backtick) \<Longrightarrow> k \<le> longestRun longest run s"
proof (induction s arbitrary: longest run)
  case (Cons c s)
  then show ?case
    using longestRun_prefix [of k "c # s" run longest] by (auto simp del: longestRun.simps) (auto)
qed auto

lemma logFence_safe: "\<not> contains_str tail (logFence tail) \<and> 3 \<le> length (logFence tail)"
proof
  let ?n = "if longestRun 0 0 tail < 2 then 2 else longestRun 0 0 tail"
  have fence: "logFence tail = replicate (Suc ?n) backtick" by (simp add: logFence_def Let_def)
  show "\<not> contains_str tail (logFence tail)"
    using longestRun_contains [of "Suc ?n" tail 0 0] unfolding fence by auto
  show "3 \<le> length (logFence tail)" by (simp add: fence)
qed

end
