(* ===== verification/Publisher_Theorems.thy ===== *)
theory Publisher_Theorems
  imports Result_Publisher Handler_Frames Lease_Format
begin

text \<open>
  Properties of the result publisher: which commands its operations send, and how long a publication is
  remembered. The locale \<open>publisher_log\<close> is the contract with the command sender: what it accepts is
  appended to a log, and nothing else the publisher uses touches that log.
\<close>

section \<open>The commands sent\<close>

text \<open>
  What a command is expected to write: exactly these frontmatter keys, each with the given value where
  one is given, or the increment of one key.
\<close>

datatype expected = Sets "(string \<times> fmvalue option) list" | Bumps string int

fun meets :: "expected \<Rightarrow> command \<Rightarrow> bool" where
  "meets (Sets es) (UpdateFrontmatter u) \<longleftrightarrow>
     list_all2 (\<lambda>(k, e) (k', v). k' = k \<and> (e = None \<or> e = Some v)) es (uc_Updates u)"
| "meets (Bumps field delta) (IncrementFrontmatter i) \<longleftrightarrow> ic_Field i = field \<and> ic_Delta i = delta"
| "meets _ _ \<longleftrightarrow> False"

fun operation_of :: "command \<Rightarrow> operation" where
  "operation_of (UpdateFrontmatter _) = UpdateFrontmatterCommandOperation"
| "operation_of (IncrementFrontmatter _) = IncrementFrontmatterCommandOperation"

fun addressed_to :: "task_lib \<Rightarrow> Task \<Rightarrow> command \<Rightarrow> bool" where
  "addressed_to L task (UpdateFrontmatter u) \<longleftrightarrow>
     uc_TaskIdentifier u = TaskIdentifier task \<and> uc_TargetVault u = targetVaultFromTask L task"
| "addressed_to L task (IncrementFrontmatter i) \<longleftrightarrow>
     ic_TaskIdentifier i = TaskIdentifier task \<and> ic_TargetVault i = targetVaultFromTask L task"

text \<open>A command object that carries a command for this task which writes what is expected.\<close>

definition carries :: "('e, 'w) publisher_env \<Rightarrow> Task \<Rightarrow> 'e CommandObject \<Rightarrow> expected \<Rightarrow> bool" where
  "carries env task co e \<longleftrightarrow>
     co_Initiator co = ''executor'' \<and>
     (\<exists>cmd. pe_ParseEvent env cmd = Inr (co_Event co) \<and> co_Operation co = operation_of cmd \<and>
        addressed_to (pe_lib env) task cmd \<and> meets e cmd)"

text \<open>
  A publication of the commands \<open>es\<close>: whatever its outcome it sends no other command and keeps their
  order; without an error it has sent all of them, or none when \<open>skip\<close> held at its start.
\<close>

definition publishes ::
  "('w \<Rightarrow> 'e CommandObject list) \<Rightarrow> ('e CommandObject \<Rightarrow> expected \<Rightarrow> bool) \<Rightarrow> expected list \<Rightarrow>
   ('w resultPublisher \<Rightarrow> bool) \<Rightarrow> ('w resultPublisher, go_error option) state \<Rightarrow> bool" where
  "publishes log P es skip m \<longleftrightarrow>
     (\<forall>p. \<exists>cs. log (pb_world (snd (run_state m p))) = log (pb_world p) @ cs \<and> length cs \<le> length es \<and>
        list_all2 P cs (take (length cs) es) \<and>
        (fst (run_state m p) = None \<longrightarrow> length cs = length es \<or> cs = [] \<and> skip p))"

abbreviation quiet :: "('w \<Rightarrow> 'e CommandObject list) \<Rightarrow> ('w resultPublisher, 'a) state \<Rightarrow> bool" where
  "quiet log \<equiv> leaves (\<lambda>p. log (pb_world p))"

abbreviation always_sent :: "'w resultPublisher \<Rightarrow> bool" where
  "always_sent \<equiv> \<lambda>_. False"

text \<open>The memory holds a publication under this key.\<close>

definition remembered :: "string \<Rightarrow> 'w resultPublisher \<Rightarrow> bool" where
  "remembered k p \<longleftrightarrow> map_of (dd_seen (pb_dedupe p)) k \<noteq> None"

lemma publishesI:
  assumes "\<And>p r p'. run_state m p = (r, p') \<Longrightarrow> \<exists>cs. log (pb_world p') = log (pb_world p) @ cs \<and>
      length cs \<le> length es \<and> list_all2 P cs (take (length cs) es) \<and>
      (r = None \<longrightarrow> length cs = length es \<or> cs = [] \<and> skip p)"
  shows "publishes log P es skip m"
  unfolding publishes_def using assms by (metis prod.collapse)

lemma publishesE:
  assumes "publishes log P es skip m" "run_state m p = (r, p')"
  obtains cs where "log (pb_world p') = log (pb_world p) @ cs" "length cs \<le> length es"
    "list_all2 P cs (take (length cs) es)" "r = None \<longrightarrow> length cs = length es \<or> cs = [] \<and> skip p"
  using assms unfolding publishes_def by (metis fst_conv snd_conv)

lemma publishes_quiet: "quiet log m \<Longrightarrow> publishes log P [] skip m"
  by (rule publishesI) (auto dest: leavesD)

lemma publishes_after_quiet:
  assumes "quiet log m" "\<And>a. publishes log P es always_sent (g a)"
  shows "publishes log P es always_sent (State_Monad.bind m g)"
proof (rule publishesI)
  fix p r p' assume "run_state (State_Monad.bind m g) p = (r, p')"
  then obtain a q where m: "run_state m p = (a, q)" and g: "run_state (g a) q = (r, p')" by (auto split: prod.splits)
  have "log (pb_world q) = log (pb_world p)" using leavesD [OF assms(1) m] .
  with publishesE [OF assms(2) g] show "\<exists>cs. log (pb_world p') = log (pb_world p) @ cs \<and>
      length cs \<le> length es \<and> list_all2 P cs (take (length cs) es) \<and> (r = None \<longrightarrow> length cs = length es \<or> cs = [] \<and> False)"
    by metis
qed

lemma publishes_seq:
  assumes "publishes log P es always_sent m" "publishes log P fs always_sent n"
  shows "publishes log P (es @ fs) always_sent
    (State_Monad.bind m (\<lambda>err. case err of Some e \<Rightarrow> ret (Some (f e)) | None \<Rightarrow> n))"
proof (rule publishesI)
  fix p r p'
  assume run: "run_state (State_Monad.bind m (\<lambda>err. case err of Some e \<Rightarrow> ret (Some (f e)) | None \<Rightarrow> n)) p = (r, p')"
  obtain err q where m: "run_state m p = (err, q)" by (rule prod.exhaust)
  obtain cs where cs: "log (pb_world q) = log (pb_world p) @ cs" "length cs \<le> length es"
    "list_all2 P cs (take (length cs) es)" "err = None \<longrightarrow> length cs = length es"
    using publishesE [OF assms(1) m] by metis
  show "\<exists>cs. log (pb_world p') = log (pb_world p) @ cs \<and> length cs \<le> length (es @ fs) \<and>
      list_all2 P cs (take (length cs) (es @ fs)) \<and> (r = None \<longrightarrow> length cs = length (es @ fs) \<or> cs = [] \<and> False)"
  proof (cases err)
    case (Some e)
    with run m have "p' = q" "r \<noteq> None" by auto
    with cs show ?thesis by auto
  next
    case None
    with run m have "run_state n q = (r, p')" by simp
    then obtain ds where "log (pb_world p') = log (pb_world q) @ ds" "length ds \<le> length fs"
      "list_all2 P ds (take (length ds) fs)" "r = None \<longrightarrow> length ds = length fs"
      using publishesE [OF assms(2)] by metis
    with cs None show ?thesis by (intro exI [of _ "cs @ ds"]) (auto intro: list_all2_appendI)
  qed
qed

lemma publishes_wrapped:
  assumes "publishes log P es skip m"
  shows "publishes log P es skip (State_Monad.bind m (\<lambda>err. ret (map_option f err)))"
  using assms unfolding publishes_def by (simp add: split_beta)

lemma publishes_then_quiet:
  assumes "publishes log P es always_sent m" "quiet log n"
  shows "publishes log P es always_sent
    (State_Monad.bind m (\<lambda>err. case err of Some e \<Rightarrow> ret (Some (f e)) | None \<Rightarrow> n))"
  using publishes_seq [OF assms(1) publishes_quiet [OF assms(2)]] by simp

lemma publishes_unless_seen:
  assumes "quiet log (seenLately env k)" "publishes log P es always_sent m"
  shows "publishes log P es (remembered k)
    (State_Monad.bind (seenLately env k) (\<lambda>seen. if seen then ret None else m))"
proof (rule publishesI)
  fix p r p' assume run: "run_state (State_Monad.bind (seenLately env k) (\<lambda>seen. if seen then ret None else m)) p = (r, p')"
  obtain seen q where s: "run_state (seenLately env k) p = (seen, q)" by (rule prod.exhaust)
  have log: "log (pb_world q) = log (pb_world p)" using leavesD [OF assms(1) s] .
  have known: "seen \<Longrightarrow> remembered k p"
    using s by (auto simp: seenLately_def remembered_def split: if_splits)
  show "\<exists>cs. log (pb_world p') = log (pb_world p) @ cs \<and> length cs \<le> length es \<and>
      list_all2 P cs (take (length cs) es) \<and> (r = None \<longrightarrow> length cs = length es \<or> cs = [] \<and> remembered k p)"
  proof (cases seen)
    case True
    with run s log known show ?thesis by (intro exI [of _ "[]"]) auto
  next
    case False
    with run s have "run_state m q = (r, p')" by simp
    with publishesE [OF assms(2)] log show ?thesis by metis
  qed
qed

lemma publishes_if_not:
  assumes "publishes log P es skip m"
  shows "publishes log P es (\<lambda>p. b \<or> skip p) (if b then ret None else m)"
  using assms unfolding publishes_def by (cases b) auto

lemma quiet_sending: "leaves log m \<Longrightarrow> quiet log (sending m)"
  by (simp add: leaves_def sending_def split_beta)

lemma recordRedriveLoop_leaves:
  "ref_client_calm log rc \<Longrightarrow> leaves log (recordRedriveLoop rc until pre tid c parse key n rs)"
  by (induction n arbitrary: rs)
    (auto intro!: leaves_intros ref_client_calmD simp: redriveListForTask_def redriveDeleteOtherPhases_def redriveDeleteRef_def)

lemma records_leave:
  assumes "ref_client_calm log rc" "leaves log now"
  shows "leaves log (streakRecord rc now P t p)" and "leaves log (reasonRecord rc now t p r)"
  unfolding streakRecord_def reasonRecord_def pruneExpired_def recordRedriveRef_def redriveListForTask_def redriveDeleteRef_def
  by (intro leaves_intros ref_client_calmD [OF assms(1)] assms(2) recordRedriveLoop_leaves [OF assms(1)])+

locale publisher_log =
  fixes env :: "('e, 'w) publisher_env" and log :: "'w \<Rightarrow> 'e CommandObject list"
  assumes send_logs: "run_state (pe_Send env co) w = (r, w') \<Longrightarrow> log w' = log w @ [co] \<or> (r \<noteq> None \<and> log w' = log w)"
    and now_calm: "leaves log (pe_now env)"
    and refs_calm: "pe_refClientFactory env = Some (Some rc) \<Longrightarrow> ref_client_calm log rc"
    and reader_calm: "pe_podLogReader env = Some reader \<Longrightarrow> leaves log (reader n p)"
begin

lemma quiet_now: "quiet log (sending (pe_now env))"
  by (rule quiet_sending) (rule now_calm)

lemma quiet_memory: "quiet log (seenLately env k)" "quiet log (remember env k)"
  unfolding seenLately_def remember_def by (intro leaves_intros quiet_now leaves_modify; simp)+

lemma quiet_evidence: "quiet log (recordRedriveFailure env task)" "quiet log (recordRedriveReason env task reason)"
proof -
  have store: "ref_client_calm log rc" if "pub_redriveStore env = Some rc" for rc
    using that refs_calm by (auto simp: pub_redriveStore_def split: option.splits)
  have clear: "quiet log (clearReasonsForNewStreak env task)"
    unfolding clearReasonsForNewStreak_def
    by (intro leaves_intros quiet_sending stores_leave [OF store now_calm])
  show "quiet log (recordRedriveFailure env task)"
    unfolding recordRedriveFailure_def
    by (intro leaves_intros clear quiet_sending stores_leave [OF store now_calm] records_leave [OF store now_calm])
  show "quiet log (recordRedriveReason env task reason)"
    unfolding recordRedriveReason_def
    by (intro leaves_intros quiet_sending records_leave [OF store now_calm])
qed

lemma quiet_tail: "quiet log (logTailBlock env pod)"
  unfolding logTailBlock_def by (intro leaves_intros quiet_sending) (auto intro: reader_calm)

lemmas quiet_rules = leaves_intros quiet_now quiet_memory quiet_evidence quiet_tail

lemma publishes_raw:
  assumes "addressed_to (pe_lib env) task cmd" "meets e cmd"
  shows "publishes log (carries env task) [e] always_sent (publishRaw env (operation_of cmd) cmd)"
proof (rule publishesI)
  fix p r p' assume run: "run_state (publishRaw env (operation_of cmd) cmd) p = (r, p')"
  show "\<exists>cs. log (pb_world p') = log (pb_world p) @ cs \<and> length cs \<le> length [e] \<and>
      list_all2 (carries env task) cs (take (length cs) [e]) \<and> (r = None \<longrightarrow> length cs = length [e] \<or> cs = [] \<and> False)"
  proof (cases "pe_ParseEvent env cmd")
    case (Inl err)
    with run show ?thesis by (intro exI [of _ "[]"]) (auto simp: publishRaw_def)
  next
    case (Inr ev)
    let ?co = "\<lparr>co_Operation = operation_of cmd, co_Initiator = ''executor'', co_Event = ev\<rparr>"
    have "carries env task ?co e" using assms Inr by (auto simp: carries_def)
    obtain err w where send: "run_state (pe_Send env ?co) (pb_world p) = (err, w)" by (rule prod.exhaust)
    with run Inr have "pb_world p' = w" "r = map_option (Wrapped ''send command for operation'') err"
      by (auto simp: publishRaw_def sending_def)
    with send_logs [OF send] \<open>carries env task ?co e\<close> show ?thesis
      by (elim disjE) (auto intro: exI [of _ "[?co]"] exI [of _ "[]"])
  qed
qed

lemma publishes_update:
  assumes "meets (Sets es) (updateCommand (pe_lib env) task updates body)"
  shows "publishes log (carries env task) [Sets es] always_sent (publishUpdate env task updates body)"
proof -
  have "operation_of (updateCommand (pe_lib env) task updates body) = UpdateFrontmatterCommandOperation"
    "addressed_to (pe_lib env) task (updateCommand (pe_lib env) task updates body)"
    by (simp_all add: updateCommand_def)
  with publishes_raw [OF _ assms] show ?thesis unfolding publishUpdate_def by metis
qed

lemma publishes_increment:
  "publishes log (carries env task) [Bumps ''trigger_count'' 1] always_sent (PublishIncrementTriggerCount env task)"
  unfolding PublishIncrementTriggerCount_def
  by (subst operation_of.simps(2) [symmetric], rule publishes_raw) simp_all

lemma publishes_publishFailure:
  assumes "meets (Sets es) (updateCommand (pe_lib env) task (crashFailureUpdates task reason) None)"
  shows "publishes log (carries env task) [Sets es, Bumps ''trigger_count'' 1] (remembered job)
    (publishFailure env task job reason note pod)"
proof -
  have upd: "publishes log (carries env task) [Sets es] always_sent
      (publishUpdate env task (crashFailureUpdates task reason) body)" for body
    using assms by (intro publishes_update) (simp add: updateCommand_def)
  have "publishes log (carries env task) ([Sets es] @ [Bumps ''trigger_count'' 1]) (remembered job)
    (publishFailure env task job reason note pod)"
    unfolding publishFailure_def Let_def
    by (intro publishes_unless_seen publishes_after_quiet publishes_seq publishes_then_quiet publishes_increment upd
        quiet_rules)
  then show ?thesis by simp
qed

end

text \<open>
  The frontmatter a failure writes: the current Job is cleared, and the crash class arms the trigger cap
  of a task that has none. The class of a Job that was never scheduled is left open here.
\<close>

definition failure_writes :: "Task \<Rightarrow> string \<Rightarrow> (string \<times> fmvalue option) list" where
  "failure_writes task reason =
     (''current_job'', Some (FmString '''')) #
     (if ParseZombieReason reason = Some ZombieReasonPodCrashNoStdout \<and> map_of (Frontmatter task) ''max_triggers'' = None
      then [(''max_triggers'', Some (FmInt defaultMaxTriggers))] else [])"

lemma crash_writes:
  "ParseZombieReason reason \<noteq> Some ZombieReasonPodNotScheduled \<Longrightarrow>
   meets (Sets (failure_writes task reason)) (updateCommand L task (crashFailureUpdates task reason) body)"
  by (auto simp: failure_writes_def crashFailureUpdates_def updateCommand_def Let_def split: option.splits)

text \<open>
  C10: Every operation of the publisher sends exactly its commands. They are addressed to the task it was
  called for, in that task's vault, and write exactly the frontmatter keys of the operation with their
  values (only the start of a Job is an instant read on the way); no other command is sent, whatever fails.
  An operation that answers no error has sent all of them, or was one of the deduplicated operations and
  its publication is remembered (an abort also does nothing for a task already aborted). The failure of a
  Job that was never scheduled and the refusal of a trigger budget are not covered.
\<close>

theorem publisher_sends_exact_writes:
  assumes "publisher_log env log"
  shows "(ParseZombieReason reason \<noteq> Some ZombieReasonPodNotScheduled \<longrightarrow>
      publishes log (carries env task) [Sets (failure_writes task reason), Bumps ''trigger_count'' 1] (remembered job)
        (PublishFailure env task job reason pod) \<and>
      publishes log (carries env task) [Sets (failure_writes task reason), Bumps ''trigger_count'' 1] (remembered job)
        (PublishStoreMissFailure env task job reason)) \<and>
    publishes log (carries env task)
      [Sets ([(''assignee'', Some (FmString '''')), (''current_job'', Some (FmString ''''))] @
         (let a = lib_Assignee (pe_lib env) (Frontmatter task)
          in if a = '''' then [] else [(''previous_assignee'', Some (FmString a))]))]
      always_sent (PublishTypeMismatchFailure env task why) \<and>
    publishes log (carries env task)
      [Sets [(''spawn_notification'', Some (FmBool True)), (''current_job'', Some (FmString job)), (''job_started_at'', None)]]
      always_sent (PublishSpawnNotification env task job) \<and>
    publishes log (carries env task) [Sets [(''current_job'', Some (FmString ''''))]] (remembered job)
      (PublishClearCurrentJob env task job) \<and>
    publishes log (carries env task) [Bumps ''trigger_count'' 1] always_sent (PublishIncrementTriggerCount env task) \<and>
    publishes log (carries env task)
      [Sets [(''trigger_scope'', Some (FmString scope)), (''trigger_count'', Some (FmInt n))]]
      always_sent (PublishSetTriggerScope env task scope n) \<and>
    publishes log (carries env task) [Sets [(''assignee'', Some (FmString assignee))]] always_sent
      (PublishRestoreAssignee env task assignee) \<and>
    publishes log (carries env task) [Sets [(''phase'', Some (FmString ''human_review''))]] always_sent
      (PublishParkLostClaim env task) \<and>
    publishes log (carries env task) [Sets [(''phase'', Some (FmString ''human_review''))]] always_sent
      (PublishParkSucceeded env task) \<and>
    publishes log (carries env task)
      [Sets [(''status'', Some (FmString ''aborted'')), (''aborted_reason'', Some (FmString why)),
             (''gate_successor'', Some (FmString ''none'')), (''current_job'', Some (FmString ''''))]]
      (\<lambda>p. lib_Status (pe_lib env) (Frontmatter task) = ''aborted'' \<or> remembered (''abort:'' @ TaskIdentifier task) p)
      (PublishAbort env task why n) \<and>
    publishes log (carries env task) [Sets [(''queued_at'', Some (FmString instant))]] always_sent
      (PublishQueueEntry env task instant)"
proof -
  note P = publishes_unless_seen publishes_after_quiet publishes_wrapped publishes_then_quiet publishes_if_not
    publisher_log.publishes_update [OF assms] publisher_log.publishes_increment [OF assms]
    publisher_log.publishes_publishFailure [OF assms] publisher_log.quiet_rules [OF assms]
  show ?thesis
    unfolding PublishFailure_def PublishStoreMissFailure_def PublishTypeMismatchFailure_def PublishSpawnNotification_def
      PublishClearCurrentJob_def PublishSetTriggerScope_def PublishRestoreAssignee_def
      PublishParkSucceeded_def PublishParkLostClaim_def PublishAbort_def PublishQueueEntry_def Let_def
      TaskStatusAborted_def [symmetric] TaskPhaseHumanReview_def [symmetric]
    by (intro conjI impI P crash_writes)
      (simp_all add: updateCommand_def leaves_modify)
qed

section \<open>A concrete publisher\<close>

record pubWorld =
  pw_git :: fakeGitRest
  pw_clock :: go_time
  pw_sent :: "command CommandObject list"

definition pw_in_git :: "(fakeGitRest, 'a) state \<Rightarrow> (pubWorld, 'a) state" where
  "pw_in_git x = State (\<lambda>w. case run_state x (pw_git w) of (a, g) \<Rightarrow> (a, w\<lparr>pw_git := g\<rparr>))"

definition pwRefs :: "pubWorld ClaimRefClient" where
  "pwRefs =
     \<lparr>rc_List = (\<lambda>p. pw_in_git (rc_List fakeClient p)),
      rc_Put = (\<lambda>k sha cl ti lu. pw_in_git (rc_Put fakeClient k sha cl ti lu)),
      rc_Delete = (\<lambda>k sha. pw_in_git (rc_Delete fakeClient k sha))\<rparr>"

definition pwEnv :: "(command, pubWorld) publisher_env" where
  "pwEnv =
     \<lparr>pe_lib = plainLib, pe_now = gets pw_clock, pe_ParseEvent = Inr,
      pe_Send = (\<lambda>co. State (\<lambda>w. (None, w\<lparr>pw_sent := pw_sent w @ [co]\<rparr>))),
      pe_refClientFactory = Some (Some pwRefs),
      pe_podLogReader = Some (\<lambda>ns name. ret (Inr (''boom'' @ nl))), pe_parseDateTime = parseRFC3339,
      pe_redactLog = (\<lambda>s. s)\<rparr>"

definition pwIdle :: "pubWorld resultPublisher" where
  "pwIdle =
     \<lparr>pb_dedupe = newDedupe 4, pb_aborted = [],
      pb_world = \<lparr>pw_git = \<lparr>refs = [], shaSeq = 0\<rparr>, pw_clock = hour, pw_sent = []\<rparr>\<rparr>"

definition pwTask :: Task where
  "pwTask = \<lparr>TaskIdentifier = ''t1'', Vault = ''personal'',
     Frontmatter = [(''target_vault'', FmString ''work''), (''phase'', FmString ''execution'')], Content = ''body''\<rparr>"

lemma pw_in_git_leaves [leaves_intros]: "leaves pw_sent (pw_in_git x)"
  by (simp add: leaves_def pw_in_git_def split_beta)

interpretation pw: publisher_log pwEnv pw_sent
proof
  show "run_state (pe_Send pwEnv co) w = (r, w') \<Longrightarrow> pw_sent w' = pw_sent w @ [co] \<or> (r \<noteq> None \<and> pw_sent w' = pw_sent w)" for co w r w'
    by (auto simp: pwEnv_def)
  show "leaves pw_sent (pe_now pwEnv)" by (simp add: pwEnv_def leaves_intros)
  show "pe_refClientFactory pwEnv = Some (Some rc) \<Longrightarrow> ref_client_calm pw_sent rc" for rc
    by (auto simp: pwEnv_def pwRefs_def ref_client_calm_def leaves_intros)
  show "pe_podLogReader pwEnv = Some reader \<Longrightarrow> leaves pw_sent (reader n p)" for reader n p
    by (auto simp: pwEnv_def leaves_intros)
qed

theorem publisher_sends_exact_writes_witness:
  "publishes pw_sent (carries pwEnv pwTask) [Sets [(''phase'', Some (FmString ''human_review''))]] always_sent
     (PublishParkLostClaim pwEnv pwTask) \<and>
   publishes pw_sent (carries pwEnv pwTask) [Sets (failure_writes pwTask ''pod_crash_no_stdout''), Bumps ''trigger_count'' 1]
     (remembered ''job-1'') (PublishFailure pwEnv pwTask ''job-1'' ''pod_crash_no_stdout'' None) \<and>
   failure_writes pwTask ''pod_crash_no_stdout'' =
     [(''current_job'', Some (FmString '''')), (''max_triggers'', Some (FmInt 3))] \<and>
   \<not> remembered ''job-1'' pwIdle \<and>
   length (pw_sent (pb_world (snd (run_state (PublishParkLostClaim pwEnv pwTask) pwIdle)))) = 1"
proof (intro conjI)
  have crash: "ParseZombieReason ''pod_crash_no_stdout'' \<noteq> Some ZombieReasonPodNotScheduled" by code_simp
  show "publishes pw_sent (carries pwEnv pwTask) [Sets [(''phase'', Some (FmString ''human_review''))]] always_sent
     (PublishParkLostClaim pwEnv pwTask)"
    using publisher_sends_exact_writes [OF pw.publisher_log_axioms] by blast
  show "publishes pw_sent (carries pwEnv pwTask) [Sets (failure_writes pwTask ''pod_crash_no_stdout''), Bumps ''trigger_count'' 1]
     (remembered ''job-1'') (PublishFailure pwEnv pwTask ''job-1'' ''pod_crash_no_stdout'' None)"
    using publisher_sends_exact_writes [OF pw.publisher_log_axioms] crash by blast
  show "failure_writes pwTask ''pod_crash_no_stdout'' =
     [(''current_job'', Some (FmString '''')), (''max_triggers'', Some (FmInt 3))]" by code_simp
  show "\<not> remembered ''job-1'' pwIdle" by code_simp
  show "length (pw_sent (pb_world (snd (run_state (PublishParkLostClaim pwEnv pwTask) pwIdle)))) = 1"
    by (simp add: PublishParkLostClaim_def publishUpdate_def publishRaw_def pwEnv_def pwIdle_def sending_def)
qed

section \<open>A failure is published once\<close>

lemma leaves_memory [leaves_intros]:
  "leaves pb_dedupe (sending x)"
  by (simp add: leaves_def sending_def split_beta)

lemma publish_leaves_memory [leaves_intros]:
  "leaves pb_dedupe (publishRaw env oper cmd)"
  "leaves pb_dedupe (logTailBlock env pod)"
  "leaves pb_dedupe (recordRedriveFailure env task)"
  "leaves pb_dedupe (recordRedriveReason env task reason)"
  unfolding publishRaw_def logTailBlock_def recordRedriveFailure_def clearReasonsForNewStreak_def recordRedriveReason_def
  by (intro leaves_intros)+

lemma seenLately_run:
  assumes "pe_now env = gets clk"
  shows "run_state (seenLately env k) p = (checkDedupe (pb_dedupe p) (clk (pb_world p)) k, p)"
  by (simp add: seenLately_def assms sending_def checkDedupe_def split: option.split)

lemma remember_memory:
  "\<exists>ts. pb_dedupe (snd (run_state (remember env k) p)) = recordDedupe ts k (pb_dedupe p)"
  by (auto simp: remember_def sending_def split_beta)

text \<open>The memory after a run that ended without an error, for a program that ends in \<open>remember\<close>.\<close>

definition remembers :: "string \<Rightarrow> ('w resultPublisher, go_error option) state \<Rightarrow> bool" where
  "remembers k m \<longleftrightarrow> (\<forall>p p'. run_state m p = (None, p') \<longrightarrow> (\<exists>ts. pb_dedupe p' = recordDedupe ts k (pb_dedupe p)))"

lemma remembers_bind: "leaves pb_dedupe m \<Longrightarrow> (\<And>a. remembers k (g a)) \<Longrightarrow> remembers k (State_Monad.bind m g)"
  unfolding remembers_def by (auto split: prod.splits dest!: leavesD) metis

lemma remembers_error:
  "remembers k (ret (Some e))"
  "remembers k n \<Longrightarrow> remembers k (case err of Some e \<Rightarrow> ret (Some (c e)) | None \<Rightarrow> n)"
  by (auto simp: remembers_def split: option.split)

lemma remembers_tail: "leaves pb_dedupe m \<Longrightarrow> remembers k (do { remember env k; m })"
  using remember_memory [of env k] unfolding remembers_def
  by (auto split: prod.splits dest!: leavesD) (metis snd_conv)

lemma remembers_Let: "(\<And>y. remembers k (g y)) \<Longrightarrow> remembers k (Let x g)"
  by simp

lemmas remembers_intros = remembers_tail remembers_bind remembers_error remembers_Let

lemma publishFailure_remembers:
  assumes "pe_now env = gets clk" and "map_of (dd_seen (pb_dedupe p)) job = None"
    and "run_state (publishFailure env task job reason note pod) p = (None, p')"
  shows "\<exists>ts. pb_dedupe p' = recordDedupe ts job (pb_dedupe p)"
proof -
  have "remembers job (do { now \<leftarrow> sending (pe_now env);
                 tail \<leftarrow> logTailBlock env pod;
                 let section = ''## Failure'' @ nl @ nl @ ''- **Timestamp:** '' @ formatLeaseUntil now @ nl @
                   ''- **Job:** '' @ job @ nl @ ''- **Reason:** '' @ reason @ nl @ note @ tail;
                 err \<leftarrow> publishUpdate env task (crashFailureUpdates task reason)
                   (Some \<lparr>bs_Heading = ''## Failure'', bs_Section = section\<rparr>);
                 case err of
                   Some e \<Rightarrow> done_with (Some (Wrapped ''publish zombie failure update'' e))
                 | None \<Rightarrow>
                     do { err \<leftarrow> PublishIncrementTriggerCount env task;
                          case err of
                            Some e \<Rightarrow> done_with (Some (Wrapped ''publish zombie failure trigger_count increment'' e))
                          | None \<Rightarrow>
                              do { remember env job;
                                   recordRedriveFailure env task;
                                   recordRedriveReason env task reason;
                                   done_with None } } })" (is "remembers job ?m")
    unfolding publishUpdate_def PublishIncrementTriggerCount_def by (intro remembers_intros leaves_intros)
  moreover have "run_state ?m p = (None, p')"
    using assms(3) unfolding publishFailure_def run_state_bind [of "seenLately env job"] seenLately_run [OF assms(1)]
    by (simp add: checkDedupe_def assms(2) del: run_state_bind)
  ultimately show ?thesis unfolding remembers_def by blast
qed

text \<open>
  C11: A failure is published once. Once the failure of a Job has been published, publishing it again, with or
  without the note of a store miss, and clearing the task's current Job for it send nothing and change nothing,
  as long as fewer other publications than the capacity of the memory were recorded and the time to live has
  not passed.
\<close>

theorem failure_published_once:
  assumes "pe_now env = gets clk" and "dedupe_ok (pb_dedupe p)" and "map_of (dd_seen (pb_dedupe p)) job = None"
    and "run_state (publishFailure env task job reason note pod) p = (None, p1)"
    and "pb_dedupe p2 = recordAll ks (pb_dedupe p1)" and "length ks < dd_capacity (pb_dedupe p)" and "job \<notin> snd ` set ks"
    and "\<And>ts. map_of (dd_seen (pb_dedupe p1)) job = Some ts \<Longrightarrow> time_sub (clk (pb_world p2)) ts < dd_ttl (pb_dedupe p)"
  shows "run_state (PublishFailure env task' job reason' pod') p2 = (None, p2) \<and>
    run_state (PublishStoreMissFailure env task' job reason') p2 = (None, p2) \<and>
    run_state (PublishClearCurrentJob env task' job) p2 = (None, p2)"
proof -
  obtain ts where p1: "pb_dedupe p1 = recordDedupe ts job (pb_dedupe p)"
    using publishFailure_remembers [OF assms(1,3,4)] by blast
  have "map_of (dd_seen (recordAll ks (pb_dedupe p1))) job = map_of (dd_seen (pb_dedupe p1)) job"
    using recordAll_remembers [of "pb_dedupe p1" job 0 ks] assms(2,3,6,7)
    by (simp add: p1 recordDedupe_ok recordDedupe_younger)
  then have "run_state (seenLately env job) p2 = (True, p2)"
    using assms(8) by (simp add: seenLately_run [OF assms(1)] checkDedupe_def assms(5) p1)
  then show ?thesis
    by (simp add: PublishFailure_def PublishStoreMissFailure_def publishFailure_def PublishClearCurrentJob_def cong: bind_weak_cong)
qed

theorem failure_published_once_witness:
  "\<exists>p1. run_state (PublishFailure (pwEnv\<lparr>pe_refClientFactory := None\<rparr>) pwTask ''job-1'' ''boom'' None) pwIdle = (None, p1) \<and>
     length (pw_sent (pb_world p1)) = 2 \<and>
     run_state (PublishFailure (pwEnv\<lparr>pe_refClientFactory := None\<rparr>) pwTask ''job-1'' ''boom'' None) p1 = (None, p1)"
proof -
  let ?env = "pwEnv\<lparr>pe_refClientFactory := None\<rparr>"
  let ?m = "publishFailure ?env pwTask ''job-1'' ''boom'' '''' None"
  let ?p = "snd (run_state ?m pwIdle)"
  have ran: "fst (run_state ?m pwIdle) = None \<and> length (pw_sent (pb_world ?p)) = 2 \<and> pw_clock (pb_world ?p) = hour \<and>
      map_of (dd_seen (pb_dedupe ?p)) ''job-1'' = Some hour"
    by (simp add: publishFailure_def seenLately_def remember_def logTailBlock_def publishUpdate_def publishRaw_def
      PublishIncrementTriggerCount_def recordRedriveFailure_def recordRedriveReason_def pub_redriveStore_def
      pwEnv_def pwIdle_def newDedupe_def sending_def recordDedupe_def)
  have now: "pe_now ?env = gets pw_clock" and ok: "dedupe_ok (pb_dedupe pwIdle)"
    and fresh: "map_of (dd_seen (pb_dedupe pwIdle)) ''job-1'' = None"
    and sizes: "dd_capacity (pb_dedupe pwIdle) = 4" "time_sub hour hour < dd_ttl (pb_dedupe pwIdle)"
    by (simp_all add: pwEnv_def pwIdle_def newDedupe_ok) (simp_all add: newDedupe_def dedupeTTL_def time_sub_def second_def)
  have run: "run_state ?m pwIdle = (None, ?p)" using ran by (simp add: prod_eq_iff)
  have "run_state (PublishFailure ?env pwTask ''job-1'' ''boom'' None) ?p = (None, ?p)"
    by (rule conjunct1 [OF failure_published_once [OF now ok fresh run, where ks = "[]"]]) (use ran sizes in auto)
  with run ran show ?thesis by (auto simp: PublishFailure_def)
qed

text \<open>
  A log tail is fenced safely. What is appended for the log of a pod is empty, or a block between two
  fences of at least three backticks that occur nowhere in the tail, so a log cannot end its own block.
\<close>

theorem log_block_fenced:
  assumes "run_state (logTailBlock env pod) p = (block, p')" and "block \<noteq> ''''"
  shows "\<exists>tail. tail \<noteq> '''' \<and> block = nl @ ''- **Log tail:**'' @ nl @ nl @ logFence tail @ nl @ tail @ nl @ logFence tail @ nl \<and>
    \<not> contains_str tail (logFence tail) \<and> 3 \<le> length (logFence tail)"
proof -
  have "\<exists>tail. tail \<noteq> '''' \<and> block = nl @ ''- **Log tail:**'' @ nl @ nl @ logFence tail @ nl @ tail @ nl @ logFence tail @ nl"
    using assms by (auto simp: logTailBlock_def Let_def split: option.splits sum.splits if_splits prod.splits)
  then show ?thesis using logFence_safe by blast
qed

theorem log_block_fenced_witness:
  "\<exists>tail. fst (run_state (logTailBlock pwEnv (Some \<lparr>pod_Namespace = ''agents'', pod_Name = ''pod''\<rparr>)) pwIdle) =
     nl @ ''- **Log tail:**'' @ nl @ nl @ logFence tail @ nl @ tail @ nl @ logFence tail @ nl"
proof -
  let ?m = "logTailBlock pwEnv (Some \<lparr>pod_Namespace = ''agents'', pod_Name = ''pod''\<rparr>)"
  have "fst (run_state ?m pwIdle) \<noteq> ''''" by code_simp
  from log_block_fenced [OF prod.collapse [symmetric] this] show ?thesis by blast
qed

end
