(* ===== verification/Watcher_Theorems.thy ===== *)
theory Watcher_Theorems
  imports Job_Watcher Publisher_Theorems
begin

text \<open>
  Properties of the Job watcher. That an operation does not use a collaborator is stated by exchanging the
  collaborator: the operation behaves the same with another one in its place.
\<close>

section \<open>Frames\<close>

lemma ask_leaves [leaves_intros]: "leaves jw_taskStore (ask x)"
  by (simp add: leaves_def ask_def split_beta)

lemma load_leaves [leaves_intros]: "leaves f (load tid)"
  by (simp add: leaves_def load_def)

lemma reads_leave_store [leaves_intros]:
  "leaves jw_taskStore (namespaceReady env ns)"
  "leaves jw_taskStore (failureReason env job)"
  "leaves jw_taskStore (jobPod env job)"
  "leaves jw_taskStore (releaseClaim env tid name)"
  "leaves jw_taskStore (releaseSucceededJobClaim env tid job)"
  "leaves jw_taskStore (taskHasActiveJob env ns tid)"
  "leaves jw_taskStore (publishStoreMissFailure env tid job reason)"
  unfolding namespaceReady_def namespaceWatched_def informerStarted_def cacheSynced_def failureReason_def backoffFailureReason_def
    fallthroughFailureReason_def terminalPodDetail_def jobPod_def ownedPods_def podListerForNamespace_def releaseClaim_def
    releaseSucceededJobClaim_def releaseClaimAfterSuccess_def claimReleaseAllowed_def with_releaser_def taskHasActiveJob_def
    publishStoreMissFailure_def freshStoreMissFailure_def
  by (intro leaves_intros leaves_modify; simp)+

lemma leaves_snd: "leaves f m \<Longrightarrow> f (snd (run_state m s)) = f s"
  by (simp add: leaves_def)

section \<open>Which collaborators an operation uses\<close>

lemma releaser_unused [simp]:
  "namespaceReady (env\<lparr>we_claimReleaser := r\<rparr>) = namespaceReady env"
  "failureReason (env\<lparr>we_claimReleaser := r\<rparr>) = failureReason env"
  "handleTerminal (env\<lparr>we_claimReleaser := r\<rparr>) = handleTerminal env"
  "handleSucceeded (env\<lparr>we_claimReleaser := r\<rparr>) = handleSucceeded env"
  unfolding namespaceReady_def cacheSynced_def failureReason_def backoffFailureReason_def fallthroughFailureReason_def
    terminalPodDetail_def ownedPods_def podListerForNamespace_def handleTerminal_def publishSyntheticFailure_def
    publishStoreMissFailure_def freshStoreMissFailure_def taskHasActiveJob_def convergeStore_def jobPod_def handleSucceeded_def
  by (simp_all cong: if_cong option.case_cong)

lemma publishers_unused [simp]:
  "namespaceReady (env\<lparr>we_PublishFailure := f, we_PublishStoreMissFailure := g\<rparr>) = namespaceReady env"
  "handleSucceededJob (env\<lparr>we_PublishFailure := f, we_PublishStoreMissFailure := g\<rparr>) = handleSucceededJob env"
  unfolding namespaceReady_def cacheSynced_def handleSucceededJob_def handleSucceeded_def convergeStore_def
    releaseSucceededJobClaim_def releaseClaim_def releaseClaimAfterSuccess_def claimReleaseAllowed_def with_releaser_def
    taskHasActiveJob_def
  by (simp_all cong: if_cong option.case_cong)

lemma store_after [simp]:
  "jw_taskStore (snd (run_state (namespaceReady env ns) j)) = jw_taskStore j"
  "jw_taskStore (snd (run_state (failureReason env job) j)) = jw_taskStore j"
  "jw_taskStore (snd (run_state (jobPod env job) j)) = jw_taskStore j"
  "jw_taskStore (snd (run_state (releaseClaim env tid name) j)) = jw_taskStore j"
  "jw_taskStore (snd (run_state (releaseSucceededJobClaim env tid job) j)) = jw_taskStore j"
  "jw_taskStore (snd (run_state (taskHasActiveJob env ns tid) j)) = jw_taskStore j"
  "jw_taskStore (snd (run_state (publishStoreMissFailure env tid job reason) j)) = jw_taskStore j"
  "jw_taskStore (snd (run_state (ask x) j)) = jw_taskStore j"
  by (rule leaves_snd, rule leaves_intros)+

section \<open>A superseded Job\<close>

definition jobSuperseded :: "task_lib \<Rightarrow> string \<Rightarrow> string \<Rightarrow> TaskStore \<Rightarrow> bool" where
  "jobSuperseded L tid jobName store \<longleftrightarrow>
     (case store_Load tid store of Some task \<Rightarrow> \<not> tracksJob L task jobName | None \<Rightarrow> False)"

lemma superseded_not_released [simp]:
  "jobSuperseded (we_lib env) tid (job_Name job) (jw_taskStore j) \<Longrightarrow> run_state (releaseClaim env tid (job_Name job)) j = ((), j)"
  "jobSuperseded (we_lib env) tid (job_Name job) (jw_taskStore j) \<Longrightarrow> run_state (releaseSucceededJobClaim env tid job) j = ((), j)"
  by (auto simp: jobSuperseded_def releaseClaim_def releaseSucceededJobClaim_def releaseClaimAfterSuccess_def claimReleaseAllowed_def
    load_def split: option.splits)

lemma no_releaser [simp]:
  "run_state (releaseClaim (env\<lparr>we_claimReleaser := None\<rparr>) tid name) j = ((), j)"
  "run_state (releaseSucceededJobClaim (env\<lparr>we_claimReleaser := None\<rparr>) tid job) j = ((), j)"
  by (auto simp: releaseClaim_def releaseSucceededJobClaim_def releaseClaimAfterSuccess_def claimReleaseAllowed_def split: option.splits)

lemma store_Load_MarkSucceeded [simp]: "store_Load t (MarkSucceeded tid phase at s) = store_Load t s"
  by (simp add: store_Load_def MarkSucceeded_def)

lemma superseded_MarkSucceeded [simp]: "jobSuperseded L t name (MarkSucceeded tid phase at s) = jobSuperseded L t name s"
  by (simp add: jobSuperseded_def)

lemma activeIn_false: "activeIn done jobs = Inr False \<Longrightarrow> \<not> list_ex unfinished jobs"
  by (induction jobs) (auto split: if_splits)

lemma active_kept:
  assumes "\<And>w jobs w'. run_state (we_ListJobs env ns (taskIDLabelKey, tid)) w = (Inr jobs, w') \<Longrightarrow> list_ex unfinished jobs"
  shows "fst (run_state (taskHasActiveJob env ns tid) j) \<noteq> Inr False"
  using assms activeIn_false unfolding taskHasActiveJob_def
  by (auto simp: ask_def split_beta split: sum.splits) (metis prod.collapse)

lemma converge_keeps:
  assumes "\<not> tracksJob (we_lib env) task (job_Name job)"
    and "\<And>w jobs w'. run_state (we_ListJobs env (job_Namespace job) (taskIDLabelKey, tid)) w = (Inr jobs, w') \<Longrightarrow> list_ex unfinished jobs"
  shows "jw_taskStore (snd (run_state (convergeStore env tid task job) j)) = jw_taskStore j"
  using active_kept [where j = j, OF assms(2)] assms(1)
  by (auto simp: convergeStore_def split_beta split: sum.split)

text \<open>
  C9: A terminal event of a Job that its task has left behind is harmless. When the store names another Job
  for the task and the cluster still has an unfinished Job of the task, the event of the old Job neither
  releases the claim nor evicts the store entry, whether it succeeded or failed.
\<close>

theorem stale_terminal_event_harmless:
  assumes "map_get (job_Labels job) taskIDLabelKey = tid" and "store_Load tid (jw_taskStore j) = Some task"
    and "\<not> tracksJob (we_lib env) task (job_Name job)"
    and "\<And>w jobs w'. run_state (we_ListJobs env (job_Namespace job) (taskIDLabelKey, tid)) w = (Inr jobs, w') \<Longrightarrow> list_ex unfinished jobs"
  shows "run_state (HandleJob env job) j = run_state (HandleJob (env\<lparr>we_claimReleaser := None\<rparr>) job) j \<and>
    store_Load tid (jw_taskStore (snd (run_state (HandleJob env job) j))) = Some task"
proof
  have old: "jobSuperseded (we_lib env) tid (job_Name job) (jw_taskStore j)"
    using assms(2,3) by (simp add: jobSuperseded_def)
  show "run_state (HandleJob env job) j = run_state (HandleJob (env\<lparr>we_claimReleaser := None\<rparr>) job) j"
    using old by (simp add: HandleJob_def handleSucceededJob_def namespaceWatched_def split_beta Let_def assms(1) on_store_def
      split: option.split)
  have kept: "jw_taskStore (snd (run_state (convergeStore env tid task job) s)) = jw_taskStore s" for s
    by (rule converge_keeps [OF assms(3)]) (rule assms(4))
  show "store_Load tid (jw_taskStore (snd (run_state (HandleJob env job) j))) = Some task"
    using old assms(2,3) kept
    by (auto simp: HandleJob_def handleSucceededJob_def handleTerminal_def publishSyntheticFailure_def handleSucceeded_def
      namespaceWatched_def split_beta Let_def assms(1) on_store_def load_def split: option.split)
qed

section \<open>Terminal events of the current Job\<close>

lemma store_Load_Delete [simp]: "store_Load t (store_Delete tid s) = (if t = tid then None else store_Load t s)"
  by (simp add: store_Load_def store_Delete_def delete_conv')

lemma converge_evicts:
  "tracksJob (we_lib env) task (job_Name job) \<Longrightarrow>
     jw_taskStore (snd (run_state (convergeStore env tid task job) j)) = store_Delete tid (jw_taskStore j)"
  by (simp add: convergeStore_def on_store_def)

lemma ready_synced: "ns \<in> set (jw_watched j) \<Longrightarrow> ns \<in> set (jw_synced j) \<Longrightarrow> run_state (namespaceReady env ns) j = (True, j)"
  by (simp add: namespaceReady_def namespaceWatched_def informerStarted_def cacheSynced_def)

text \<open>
  A failed Job ends its task's entry. Once the caches of its namespace have synced, the event of the failed
  Job that the entry tracks evicts exactly this entry, even when publishing the failure fails; the entries
  of all other tasks stay.
\<close>

theorem failed_job_evicts_its_entry:
  assumes "IsJobFailed job" and "job_Namespace job \<in> set (jw_watched j)" and "job_Namespace job \<in> set (jw_synced j)"
    and "map_get (job_Labels job) taskIDLabelKey = tid" and "tid \<noteq> ''''"
    and "store_Load tid (jw_taskStore j) = Some task" and "tracksJob (we_lib env) task (job_Name job)"
  shows "store_Load t (jw_taskStore (snd (run_state (HandleJob env job) j))) =
    (if t = tid then None else store_Load t (jw_taskStore j))"
  using assms
  by (simp add: HandleJob_def namespaceWatched_def ready_synced handleTerminal_def publishSyntheticFailure_def load_def
    split_beta converge_evicts)

text \<open>
  A succeeded Job is trusted. For a Job that has not failed the watcher never uses the two operations that
  publish failures. A completed Job is remembered with its phase and completion time whether or not the
  caches of its namespace have synced and whether or not its task is in the store.
\<close>

theorem succeeded_job_trusted:
  assumes "\<not> IsJobFailed job"
  shows "HandleJob env job = HandleJob (env\<lparr>we_PublishFailure := f, we_PublishStoreMissFailure := g\<rparr>) job \<and>
    (IsJobSucceeded job \<and> job_Namespace job \<in> set (jw_watched j) \<and> map_get (job_Labels job) taskIDLabelKey \<noteq> '''' \<and>
     job_CompletionTime job = Some at \<longrightarrow>
     ts_succeeded (jw_taskStore (snd (run_state (HandleJob env job) j))) =
     ts_succeeded (MarkSucceeded (map_get (job_Labels job) taskIDLabelKey)
       (map_get (job_Annotations job) TaskPhaseAnnotationKey) at (jw_taskStore j)))"
proof
  show "HandleJob env job = HandleJob (env\<lparr>we_PublishFailure := f, we_PublishStoreMissFailure := g\<rparr>) job"
    using assms by (simp add: HandleJob_def Let_def cong: if_cong)
  have succeeded: "ts_succeeded (jw_taskStore (snd (run_state (handleSucceeded env tid task job) s))) = ts_succeeded (jw_taskStore s)"
    for tid task s
    by (simp add: handleSucceeded_def convergeStore_def on_store_def store_Delete_def split_beta split: option.split sum.split)
  show "IsJobSucceeded job \<and> job_Namespace job \<in> set (jw_watched j) \<and> map_get (job_Labels job) taskIDLabelKey \<noteq> '''' \<and>
     job_CompletionTime job = Some at \<longrightarrow>
     ts_succeeded (jw_taskStore (snd (run_state (HandleJob env job) j))) =
     ts_succeeded (MarkSucceeded (map_get (job_Labels job) taskIDLabelKey)
       (map_get (job_Annotations job) TaskPhaseAnnotationKey) at (jw_taskStore j))"
    using assms
    by (simp add: HandleJob_def namespaceWatched_def handleSucceededJob_def load_def split_beta Let_def on_store_def succeeded
      split: option.split)
qed

section \<open>The published reason\<close>

lemma detailed_parse: "CHR '' '' \<notin> set r \<Longrightarrow> ParseZombieReason (detailed r d) = ParseZombieReason r"
  unfolding detailed_def using ParseZombieReason_detail by simp

lemma parse_conditions:
  "ParseZombieReason (detailed ZombieReasonPodCrashNoStdout d) = Some ZombieReasonPodCrashNoStdout"
  "ParseZombieReason (detailed ZombieReasonPodOOMKilled d) = Some ZombieReasonPodOOMKilled"
  "ParseZombieReason (backoffLimitExceededReason @ '' ('' @ podUnresolvedMarker @ '')'') = Some ZombieReasonPodCrashNoStdout"
  "ParseZombieReason ZombieReasonDeadlineExceeded = Some ZombieReasonDeadlineExceeded"
proof -
  show "ParseZombieReason (detailed ZombieReasonPodCrashNoStdout d) = Some ZombieReasonPodCrashNoStdout"
    using reasons_no_space ParseZombieReason_value by (simp add: detailed_parse zombieReasonValues_def)
  show "ParseZombieReason (detailed ZombieReasonPodOOMKilled d) = Some ZombieReasonPodOOMKilled"
    using reasons_no_space ParseZombieReason_value by (simp add: detailed_parse zombieReasonValues_def)
qed code_simp+

lemma parse_condition:
  "c \<in> {''JobFailed'', ''PodFailurePolicy''} \<Longrightarrow> ParseZombieReason c = Some ZombieReasonPodCrashNoStdout"
  "c \<in> {''JobFailed'', ''PodFailurePolicy''} \<Longrightarrow> ParseZombieReason (detailed c d) = Some ZombieReasonPodCrashNoStdout"
proof -
  have "ParseZombieReason ''JobFailed'' = Some ZombieReasonPodCrashNoStdout"
    and "ParseZombieReason ''PodFailurePolicy'' = Some ZombieReasonPodCrashNoStdout" by code_simp+
  then show "c \<in> {''JobFailed'', ''PodFailurePolicy''} \<Longrightarrow> ParseZombieReason c = Some ZombieReasonPodCrashNoStdout"
    and "c \<in> {''JobFailed'', ''PodFailurePolicy''} \<Longrightarrow> ParseZombieReason (detailed c d) = Some ZombieReasonPodCrashNoStdout"
    by (auto simp: detailed_parse)
qed

text \<open>The conditions left for the last branch of \<open>failureReason\<close>.\<close>

lemma fallthrough_condition:
  assumes "JobFailureReason job \<noteq> ZombieReasonDeadlineExceeded" and "\<not> isBackoffLimitExceeded job"
    and "\<And>c. c \<in> set (job_Conditions job) \<Longrightarrow> failed_condition c \<Longrightarrow>
      jcn_Reason c \<in> {'''', ''DeadlineExceeded'', ''BackoffLimitExceeded'', ''PodFailurePolicy''}"
    and "jobFailedCondition job = Some condition"
  shows "condition \<in> {''JobFailed'', ''PodFailurePolicy''}"
proof -
  obtain c where c: "find failed_condition (job_Conditions job) = Some c"
    and condition: "condition = (if jcn_Reason c = '''' then jobFailedReasonless else jcn_Reason c)"
    using assms(4) by (auto simp: jobFailedCondition_def split: option.splits)
  then have "c \<in> set (job_Conditions job)" and "failed_condition c" by (auto simp: find_Some_iff)
  moreover from this have "jcn_Reason c \<noteq> ''BackoffLimitExceeded''"
    using assms(2) by (auto simp: isBackoffLimitExceeded_def list_ex_iff)
  moreover have "jcn_Reason c \<noteq> ''DeadlineExceeded''"
  proof
    assume late: "jcn_Reason c = ''DeadlineExceeded''"
    then obtain d where "find (\<lambda>c. failed_condition c \<and> jcn_Reason c \<in> {''DeadlineExceeded'', ''BackoffLimitExceeded''})
        (job_Conditions job) = Some d"
      using \<open>c \<in> set _\<close> \<open>failed_condition c\<close> by (fastforce simp: find_None_iff2 [symmetric] find_None_iff)
    moreover from this have "jcn_Reason d \<noteq> ''BackoffLimitExceeded''" and "jcn_Reason d \<in> {''DeadlineExceeded'', ''BackoffLimitExceeded''}"
      using assms(2) by (auto simp: find_Some_iff isBackoffLimitExceeded_def list_ex_iff)
    ultimately show False using assms(1) by (simp add: JobFailureReason_def conditionsReason_eq)
  qed
  ultimately show ?thesis using assms(3) [of c] condition by (auto simp: jobFailedReasonless_def)
qed

text \<open>
  Every failure is published under the vocabulary. For the failure conditions Kubernetes gives to the
  Jobs the executor creates, the published reason parses back to a class of the closed vocabulary: to the
  deadline, to an out-of-memory kill or to a crash; and only a Job past its deadline is published as such.
\<close>

theorem published_reason_classified:
  assumes "\<And>c. c \<in> set (job_Conditions job) \<Longrightarrow> failed_condition c \<Longrightarrow>
      jcn_Reason c \<in> {'''', ''DeadlineExceeded'', ''BackoffLimitExceeded'', ''PodFailurePolicy''}"
    and "run_state (failureReason env job) j = (reason, j')"
  shows "ParseZombieReason reason \<in>
      Some ` {ZombieReasonDeadlineExceeded, ZombieReasonPodOOMKilled, ZombieReasonPodCrashNoStdout} \<and>
    (ParseZombieReason reason = Some ZombieReasonDeadlineExceeded \<longleftrightarrow> JobFailureReason job = ZombieReasonDeadlineExceeded)"
proof -
  have distinct: "ZombieReasonPodOOMKilled \<noteq> ZombieReasonDeadlineExceeded" "ZombieReasonPodCrashNoStdout \<noteq> ZombieReasonDeadlineExceeded"
    and crash: "ParseZombieReason ZombieReasonPodCrashNoStdout = Some ZombieReasonPodCrashNoStdout" by code_simp+
  consider "JobFailureReason job = ZombieReasonDeadlineExceeded"
    | "JobFailureReason job \<noteq> ZombieReasonDeadlineExceeded" "isBackoffLimitExceeded job"
    | "JobFailureReason job \<noteq> ZombieReasonDeadlineExceeded" "\<not> isBackoffLimitExceeded job" by blast
  then show ?thesis
  proof cases
    case 1
    then show ?thesis using assms(2) by (auto simp: failureReason_def parse_conditions)
  next
    case 2
    then show ?thesis
      using assms(2) distinct
      by (auto simp: failureReason_def backoffFailureReason_def split_beta parse_conditions parse_conditions(3) [simplified] split: option.splits if_splits)
  next
    case 3
    note fall = fallthrough_condition [OF 3 assms(1)]
    show ?thesis
      using assms(2) 3 distinct crash parse_condition [OF fall]
      by (cases "jobFailedCondition job")
        (auto simp: failureReason_def fallthroughFailureReason_def split_beta split: option.splits)
  qed
qed

section \<open>Namespaces\<close>

definition wantedNamespaces :: "string \<Rightarrow> Config list \<Rightarrow> string set" where
  "wantedNamespaces ns cfgs =
     insert ns {sp_JobNamespace (cfg_Spec cfg) | cfg. cfg \<in> set cfgs \<and> sp_JobNamespace (cfg_Spec cfg) \<noteq> ''''}"

lemma resolve_namespaces_set:
  "set (resolveJobWatcherNamespaces ns cfgs) = wantedNamespaces ns cfgs"
proof -
  have "insert ns (set (concat (map (\<lambda>cfg. case ResolveJobNamespace ns (sp_JobNamespace (cfg_Spec cfg)) of
      Inl _ \<Rightarrow> [] | Inr namespace \<Rightarrow> [namespace]) cfgs))) = wantedNamespaces ns cfgs"
    by (induction cfgs) (auto simp: wantedNamespaces_def ResolveJobNamespace_def)
  then show ?thesis unfolding resolveJobWatcherNamespaces_def by (simp only: set_sort set_remdups list.set)
qed

lemma resolve_namespaces_shape:
  "sorted (resolveJobWatcherNamespaces ns cfgs) \<and> distinct (resolveJobWatcherNamespaces ns cfgs)"
  by (simp add: resolveJobWatcherNamespaces_def)

text \<open>The namespaces of the informers, all watched.\<close>

definition watch_inv :: "'w watcher_env \<Rightarrow> 'w jobWatcher \<Rightarrow> bool" where
  "watch_inv env j \<longleftrightarrow> distinct (jw_informers j) \<and> set (jw_informers j) \<subseteq> set (jw_watched j) \<and> we_namespace env \<in> set (jw_watched j)"

lemma new_watcher_inv: "watch_inv env (NewJobWatcher (we_namespace env) store at w)"
  by (simp add: watch_inv_def NewJobWatcher_def)

lemma ask_namespaces:
  "jw_informers (snd (run_state (ask x) j)) = jw_informers j" "jw_watched (snd (run_state (ask x) j)) = jw_watched j"
  by (simp_all add: ask_def split_beta)

lemma start_one:
  assumes "run_state (startNamespaceInformer env ns) j = (r, j')"
  shows "(r = None \<longrightarrow> jw_informers j' = jw_informers j @ [ns] \<and> jw_watched j' = List.insert ns (jw_watched j)) \<and>
    (r \<noteq> None \<longrightarrow> jw_informers j' = jw_informers j \<and> jw_watched j' = jw_watched j)"
  using assms by (auto simp: startNamespaceInformer_def split_beta ask_namespaces split: option.splits)

lemma start_all:
  assumes "run_state (startInformersForNamespaces env nss) j = (r, j')" and "watch_inv env j"
  shows "watch_inv env j' \<and> (\<exists>more. jw_informers j' = jw_informers j @ more \<and> set more \<subseteq> set nss - set (jw_informers j)) \<and>
    (r = None \<longrightarrow> set nss \<subseteq> set (jw_informers j'))"
  using assms
proof (induction nss arbitrary: j)
  case (Cons ns nss)
  show ?case
  proof (cases "ns \<in> set (jw_informers j)")
    case True
    with Cons.prems Cons.IH [of j] show ?thesis by (fastforce simp: informerStarted_def)
  next
    case False
    obtain e j1 where one: "run_state (startNamespaceInformer env ns) j = (e, j1)" by fastforce
    show ?thesis
    proof (cases e)
      case None
      with start_one [OF one] have new: "jw_informers j1 = jw_informers j @ [ns]" "jw_watched j1 = List.insert ns (jw_watched j)" by auto
      with Cons.prems(2) False have "watch_inv env j1" by (auto simp: watch_inv_def)
      from Cons.IH [OF _ this] Cons.prems(1) one None False new show ?thesis by (fastforce simp: informerStarted_def)
    next
      case (Some err)
      with start_one [OF one] Cons.prems one False show ?thesis by (auto simp: informerStarted_def watch_inv_def)
    qed
  qed
qed (auto simp: watch_inv_def)

text \<open>
  Every namespace is watched, and once. After a reconciliation of the namespaces that returned no error
  the executor's own namespace and the Job namespace of every configuration have their informers; the
  informers that ran before still run, none was started a second time and nothing outside the
  configured namespaces was started.
\<close>

theorem namespaces_watched_once:
  assumes "watch_inv env j" and "run_state (reconcileNamespaceSet env) j = (None, j')"
  shows "\<exists>cfgs w. run_state (we_configProvider env) (jw_world j) = (Inr cfgs, w) \<and>
    wantedNamespaces (we_namespace env) cfgs \<subseteq> set (jw_informers j') \<and>
    set (jw_informers j') \<subseteq> set (jw_informers j) \<union> wantedNamespaces (we_namespace env) cfgs \<and>
    set (jw_informers j) \<subseteq> set (jw_informers j') \<and> watch_inv env j'"
proof -
  obtain r w where get: "run_state (we_configProvider env) (jw_world j) = (r, w)" by fastforce
  with assms(2) obtain cfgs where r: "r = Inr cfgs"
    and start: "run_state (startInformersForNamespaces env (resolveJobWatcherNamespaces (we_namespace env) cfgs)) (j\<lparr>jw_world := w\<rparr>) = (None, j')"
    by (auto simp: reconcileNamespaceSet_def ask_def split: sum.splits)
  have "watch_inv env (j\<lparr>jw_world := w\<rparr>)" using assms(1) by (simp add: watch_inv_def)
  from start_all [OF start this] get r show ?thesis by (auto simp: resolve_namespaces_set)
qed

section \<open>The watcher over the result publisher\<close>

definition podRef :: "Pod \<Rightarrow> Pod_ref" where
  "podRef pod = \<lparr>pod_Namespace = po_Namespace pod, pod_Name = po_Name pod\<rparr>"

definition publishing_through ::
  "('e, 'w) publisher_env \<Rightarrow> 'w resultPublisher watcher_env \<Rightarrow> 'w resultPublisher watcher_env" where
  "publishing_through penv env =
     env\<lparr>we_PublishFailure := (\<lambda>task job reason pod. PublishFailure penv task job reason (map_option podRef pod)),
         we_PublishStoreMissFailure := PublishStoreMissFailure penv,
         we_PublishClearCurrentJob := PublishClearCurrentJob penv\<rparr>"

text \<open>
  The contract with the cluster and the releaser of claims: an observation \<open>f\<close> of the world that reading the
  clock, the caches and the Jobs and releasing a claim leave alone.
\<close>

locale watched_cluster =
  fixes env :: "'w watcher_env" and f :: "'w \<Rightarrow> 'a"
  assumes clock: "leaves f (we_now env)"
    and caches: "leaves f (we_HasSynced env ns)" "leaves f (we_ListPods env ns)"
    and jobs: "leaves f (we_ListJobs env ns l)"
    and releaser: "we_claimReleaser env = Some r \<Longrightarrow> leaves f (rel_ReleaseTaskClaim r t)"
      "we_claimReleaser env = Some r \<Longrightarrow> leaves f (rel_ReleaseTaskClaimAfterSuccess r t p at)"
begin

lemma ask_frame: "leaves f x \<Longrightarrow> leaves (\<lambda>j. f (jw_world j)) (ask x)"
  by (simp add: leaves_def ask_def split_beta)

lemma operations_leave:
  "leaves (\<lambda>j. f (jw_world j)) (namespaceReady env ns)"
  "leaves (\<lambda>j. f (jw_world j)) (failureReason env job)"
  "leaves (\<lambda>j. f (jw_world j)) (releaseClaim env tid name)"
  "leaves (\<lambda>j. f (jw_world j)) (taskHasActiveJob env ns tid)"
  "leaves (\<lambda>j. f (jw_world j)) (freshStoreMissFailure env at)"
  unfolding namespaceReady_def namespaceWatched_def informerStarted_def cacheSynced_def failureReason_def backoffFailureReason_def
    fallthroughFailureReason_def terminalPodDetail_def ownedPods_def podListerForNamespace_def releaseClaim_def
    claimReleaseAllowed_def with_releaser_def taskHasActiveJob_def freshStoreMissFailure_def
  by (intro leaves_intros ask_frame clock caches jobs releaser leaves_modify; simp)+

lemmas worlds_after = operations_leave [THEN leaves_snd]

end

lemma store_miss_unused [simp]:
  "namespaceReady (env\<lparr>we_PublishStoreMissFailure := g\<rparr>) = namespaceReady env"
  "failureReason (env\<lparr>we_PublishStoreMissFailure := g\<rparr>) = failureReason env"
  "releaseClaim (env\<lparr>we_PublishStoreMissFailure := g\<rparr>) = releaseClaim env"
  "taskHasActiveJob (env\<lparr>we_PublishStoreMissFailure := g\<rparr>) = taskHasActiveJob env"
  "freshStoreMissFailure (env\<lparr>we_PublishStoreMissFailure := g\<rparr>) = freshStoreMissFailure env"
  "publishSyntheticFailure (env\<lparr>we_PublishStoreMissFailure := g\<rparr>) = publishSyntheticFailure env"
  "handleSucceededJob (env\<lparr>we_PublishStoreMissFailure := g\<rparr>) = handleSucceededJob env"
  unfolding namespaceReady_def cacheSynced_def failureReason_def backoffFailureReason_def fallthroughFailureReason_def
    terminalPodDetail_def ownedPods_def podListerForNamespace_def handleSucceededJob_def handleSucceeded_def convergeStore_def
    releaseSucceededJobClaim_def releaseClaim_def releaseClaimAfterSuccess_def claimReleaseAllowed_def with_releaser_def
    taskHasActiveJob_def freshStoreMissFailure_def publishSyntheticFailure_def jobPod_def
  by (simp_all cong: if_cong option.case_cong)

text \<open>A failure inside the window of the store-miss path is still in the publisher's memory.\<close>

lemma window_inside_memory:
  "failedAt \<le> ts \<Longrightarrow> time_sub now failedAt < storeMissPublishWindow \<Longrightarrow> time_sub now ts < dedupeTTL"
  by (auto simp: time_sub_def storeMissPublishWindow_def dedupeTTL_def second_def)

lemma remembered_not_sent:
  assumes "pe_now penv = gets clk" and "map_of (dd_seen (pb_dedupe p)) job = Some ts"
    and "time_sub (clk (pb_world p)) ts < dd_ttl (pb_dedupe p)"
  shows "run_state (PublishStoreMissFailure penv task job reason) p = (None, p)"
proof -
  have "run_state (seenLately penv job) p = (True, p)"
    using assms(2,3) by (simp add: seenLately_run [OF assms(1)] checkDedupe_def)
  then show ?thesis by (simp add: PublishStoreMissFailure_def publishFailure_def cong: bind_weak_cong)
qed

definition clockAndMemory :: "('w \<Rightarrow> go_time) \<Rightarrow> 'w resultPublisher \<Rightarrow> go_time \<times> ttlDedupe" where
  "clockAndMemory clk p = (clk (pb_world p), pb_dedupe p)"

lemma store_miss_silent:
  assumes "watched_cluster env (clockAndMemory clk)" and "pe_now penv = gets clk"
    and "we_PublishStoreMissFailure env = PublishStoreMissFailure penv"
    and "we_now env = gets (\<lambda>p. clk (pb_world p))"
    and "jobFailedAt job = Some failedAt" and "failedAt \<le> ts"
    and "map_of (dd_seen (pb_dedupe (jw_world j))) (job_Name job) = Some ts" and "dd_ttl (pb_dedupe (jw_world j)) = dedupeTTL"
  shows "run_state (publishStoreMissFailure env tid job reason) j =
    run_state (publishStoreMissFailure (env\<lparr>we_PublishStoreMissFailure := \<lambda>_ _ _. ret None\<rparr>) tid job reason) j"
proof (cases "fst (run_state (freshStoreMissFailure env failedAt) j)")
  case True
  note after = watched_cluster.worlds_after [OF assms(1)]
  let ?now = "clk (pb_world (jw_world j))"
  have recent: "time_sub ?now failedAt < storeMissPublishWindow"
    using True by (auto simp: freshStoreMissFailure_def assms(4) ask_def split: if_splits)
  obtain j1 where fresh: "run_state (freshStoreMissFailure env failedAt) j = (True, j1)" using True by (metis prod.collapse)
  obtain a j2 where listed: "run_state (taskHasActiveJob env (job_Namespace job) tid) j1 = (a, j2)" by fastforce
  have "clockAndMemory clk (jw_world j2) = clockAndMemory clk (jw_world j)"
    using after(5) [of failedAt j] after(4) [of "job_Namespace job" tid j1] by (simp add: fresh listed)
  then have "run_state (PublishStoreMissFailure penv (taskFromFailedJob tid job) (job_Name job) reason) (jw_world j2) = (None, jw_world j2)"
    using assms(7,8) window_inside_memory [OF assms(6) recent]
    by (intro remembered_not_sent [OF assms(2), where ts = ts]) (auto simp: clockAndMemory_def)
  then show ?thesis
    by (simp add: publishStoreMissFailure_def assms(3,5) fresh listed ask_def split: sum.split)
next
  case False
  then show ?thesis by (simp add: publishStoreMissFailure_def assms(5) split_beta)
qed

lemma publishing_cluster: "watched_cluster env f \<Longrightarrow> watched_cluster (publishing_through penv env) f"
  by (simp add: watched_cluster_def publishing_through_def)

text \<open>
  A failed Job whose task has left the store is published once. As long as the publisher remembers that it
  published the failure, after the failure happened, every further event of that Job behaves as if the
  publisher did nothing: the window in which such a failure is published ends before the memory of the
  publisher does.
\<close>

theorem store_miss_failure_published_once:
  assumes "watched_cluster env (clockAndMemory clk)" and "pe_now penv = gets clk" and "we_now env = gets (\<lambda>p. clk (pb_world p))"
    and "store_Load (map_get (job_Labels job) taskIDLabelKey) (jw_taskStore j) = None"
    and "jobFailedAt job = Some failedAt" and "failedAt \<le> ts"
    and "map_of (dd_seen (pb_dedupe (jw_world j))) (job_Name job) = Some ts" and "dd_ttl (pb_dedupe (jw_world j)) = dedupeTTL"
  shows "run_state (HandleJob (publishing_through penv env) job) j =
    run_state (HandleJob ((publishing_through penv env)\<lparr>we_PublishStoreMissFailure := \<lambda>_ _ _. ret None\<rparr>) job) j"
proof -
  let ?env = "publishing_through penv env" and ?tid = "map_get (job_Labels job) taskIDLabelKey"
  note cluster = publishing_cluster [OF assms(1), of penv]
  note after = watched_cluster.worlds_after [OF cluster]
  obtain b j1 where ready: "run_state (namespaceReady ?env (job_Namespace job)) j = (b, j1)" by fastforce
  obtain reason j2 where reason: "run_state (failureReason ?env job) j1 = (reason, j2)" by fastforce
  obtain j3 where released: "run_state (releaseClaim ?env ?tid (job_Name job)) j2 = ((), j3)"
    by (cases "run_state (releaseClaim ?env ?tid (job_Name job)) j2") auto
  have "clockAndMemory clk (jw_world j3) = clockAndMemory clk (jw_world j)"
    using after(1) [of "job_Namespace job" j] after(2) [of job j1] after(3) [of ?tid "job_Name job" j2]
    by (simp add: ready reason released)
  then have memory: "map_of (dd_seen (pb_dedupe (jw_world j3))) (job_Name job) = Some ts" "dd_ttl (pb_dedupe (jw_world j3)) = dedupeTTL"
    using assms(7,8) by (simp_all add: clockAndMemory_def)
  have fields: "we_PublishStoreMissFailure ?env = PublishStoreMissFailure penv" "we_now ?env = gets (\<lambda>p. clk (pb_world p))"
    by (simp_all add: publishing_through_def assms(3))
  have "jw_taskStore j1 = jw_taskStore j" "jw_taskStore j2 = jw_taskStore j1" "jw_taskStore j3 = jw_taskStore j2"
    using store_after(1) [of ?env "job_Namespace job" j] store_after(2) [of ?env job j1]
      store_after(4) [of ?env ?tid "job_Name job" j2]
    by (simp_all add: ready reason released)
  then show ?thesis
    using store_miss_silent [OF cluster assms(2) fields assms(5,6) memory] assms(4)
    by (simp add: HandleJob_def namespaceWatched_def handleTerminal_def load_def Let_def ready reason released split_beta)
qed

section \<open>A concrete cluster\<close>

definition kwEnv :: "Job list \<Rightarrow> Pod list \<Rightarrow> Config list \<Rightarrow> pubWorld resultPublisher watcher_env" where
  "kwEnv jobs pods cfgs = publishing_through pwEnv
     \<lparr>we_lib = plainLib, we_namespace = ''agents'', we_configProvider = ret (Inr cfgs),
      we_now = gets (\<lambda>p. pw_clock (pb_world p)),
      we_PublishFailure = (\<lambda>_ _ _ _. ret None), we_PublishStoreMissFailure = (\<lambda>_ _ _. ret None),
      we_PublishClearCurrentJob = (\<lambda>_ _. ret None),
      we_claimReleaser = Some \<lparr>rel_ReleaseTaskClaim = (\<lambda>_. ret ()), rel_ReleaseTaskClaimAfterSuccess = (\<lambda>_ _ _. ret ())\<rparr>,
      we_ListJobs = (\<lambda>ns (k, v). ret (Inr (filter (\<lambda>job. job_Namespace job = ns \<and> map_get (job_Labels job) k = v) jobs))),
      we_NewInformer = (\<lambda>_. ret None), we_AddJobEventHandler = (\<lambda>_. ret None), we_AddPodEventHandler = (\<lambda>_. ret None),
      we_Start = (\<lambda>_. ret ()), we_HasSynced = (\<lambda>_. ret True),
      we_ListPods = (\<lambda>ns. ret (Inr (filter (\<lambda>pod. po_Namespace pod = ns) pods))), we_ctxDone = (\<lambda>_. False)\<rparr>"

interpretation kw: watched_cluster "kwEnv jobs pods cfgs" f
  by unfold_locales (auto simp: kwEnv_def publishing_through_def leaves_intros split: prod.split)

definition kwJob :: "string \<Rightarrow> JobCondition list \<Rightarrow> go_time option \<Rightarrow> Job" where
  "kwJob name conditions completed =
     \<lparr>job_Namespace = ''agents'', job_Name = name, job_Labels = [(taskIDLabelKey, ''t1'')],
      job_Annotations = [(TaskPhaseAnnotationKey, ''execution'')], job_TemplateLabels = [],
      job_PodSpec = \<lparr>ps_Containers = [], ps_Volumes = [], ps_RestartPolicy = ''Never'', ps_ImagePullSecrets = [],
        ps_PriorityClassName = '''', ps_NodeSelector = [], ps_Tolerations = [], ps_FSGroup = None\<rparr>,
      job_BackoffLimit = Some 0, job_TTLSecondsAfterFinished = None, job_ActiveDeadlineSeconds = None,
      job_Conditions = conditions, job_CompletionTime = completed, job_Succeeded = 0, job_Failed = 0, job_Active = 1\<rparr>"

definition kwFailed :: "string \<Rightarrow> go_time \<Rightarrow> JobCondition" where
  "kwFailed reason at = \<lparr>jcn_Type = ''Failed'', jcn_Status = ''True'', jcn_Reason = reason, jcn_LastTransitionTime = at\<rparr>"

definition kwComplete :: JobCondition where
  "kwComplete = \<lparr>jcn_Type = ''Complete'', jcn_Status = ''True'', jcn_Reason = '''', jcn_LastTransitionTime = hour\<rparr>"

definition kwTask :: "string \<Rightarrow> Task" where
  "kwTask current = \<lparr>TaskIdentifier = ''t1'', Vault = ''personal'', Frontmatter = [(''current_job'', FmString current)], Content = ''''\<rparr>"

definition kwStart :: "TaskStore \<Rightarrow> pubWorld resultPublisher jobWatcher" where
  "kwStart store = NewJobWatcher ''agents'' store 0 pwIdle"

definition kwStore :: "string \<Rightarrow> TaskStore" where
  "kwStore current = store_Store ''t1'' (kwTask current) NewTaskStore"

lemma kwEnv_jobs [simp]:
  "run_state (we_ListJobs (kwEnv jobs pods cfgs) ns (k, v)) w =
     (Inr (filter (\<lambda>job. job_Namespace job = ns \<and> map_get (job_Labels job) k = v) jobs), w)"
  by (simp add: kwEnv_def publishing_through_def)

theorem stale_terminal_event_harmless_witness:
  "store_Load ''t1'' (jw_taskStore (kwStart (kwStore ''job-2''))) = Some (kwTask ''job-2'') \<and>
   store_Load ''t1'' (jw_taskStore (snd (run_state (HandleJob (kwEnv [kwJob ''job-2'' [] None] [] [])
     (kwJob ''job-1'' [kwFailed [] hour] None)) (kwStart (kwStore ''job-2''))))) = Some (kwTask ''job-2'')"
proof -
  let ?job = "kwJob ''job-1'' [kwFailed '''' hour] None" and ?env = "kwEnv [kwJob ''job-2'' [] None] [] []" and ?j = "kwStart (kwStore ''job-2'')"
  have tid: "map_get (job_Labels ?job) taskIDLabelKey = ''t1''" by (simp add: kwJob_def map_get_def)
  have entry: "store_Load ''t1'' (jw_taskStore ?j) = Some (kwTask ''job-2'')"
    by (simp add: kwStart_def kwStore_def NewJobWatcher_def store_Load_def store_Store_def update_conv')
  have newer: "\<not> tracksJob (we_lib ?env) (kwTask ''job-2'') (job_Name ?job)"
    by (simp add: tracksJob_def kwEnv_def publishing_through_def plainLib_def kwTask_def kwJob_def Let_def)
  have busy: "list_ex unfinished jobs"
    if "run_state (we_ListJobs ?env (job_Namespace ?job) (taskIDLabelKey, ''t1'')) w = (Inr jobs, w')" for w jobs w'
    using that by (auto simp: kwJob_def map_get_def unfinished_def IsJobFailed_def IsJobSucceeded_def)
  have "store_Load ''t1'' (jw_taskStore (snd (run_state (HandleJob ?env ?job) ?j))) = Some (kwTask ''job-2'')"
    by (rule conjunct2 [OF stale_terminal_event_harmless [OF tid entry newer]]) (rule busy)
  with entry show ?thesis by blast
qed

theorem failed_job_evicts_its_entry_witness:
  "store_Load ''t1'' (kwStore ''job-1'') = Some (kwTask ''job-1'') \<and>
   store_Load ''t1'' (jw_taskStore (snd (run_state (HandleJob (kwEnv [] [] []) (kwJob ''job-1'' [kwFailed '''' hour] None)) (kwStart (kwStore ''job-1''))))) = None"
proof -
  have entry: "store_Load ''t1'' (kwStore ''job-1'') = Some (kwTask ''job-1'')"
    by (simp add: kwStore_def store_Load_def store_Store_def update_conv')
  then show ?thesis
    by (subst failed_job_evicts_its_entry [where tid = "''t1''" and task = "kwTask ''job-1''"])
      (auto simp: kwJob_def kwStart_def NewJobWatcher_def IsJobFailed_def failed_condition_def kwFailed_def map_get_def
        tracksJob_def kwEnv_def publishing_through_def plainLib_def kwTask_def)
qed

theorem succeeded_job_trusted_witness:
  "map_of (ts_succeeded (jw_taskStore (snd (run_state (HandleJob (kwEnv [] [] []) (kwJob ''job-1'' [kwComplete] (Some hour))) (kwStart NewTaskStore)))))
     ''t1'' = Some \<lparr>sj_Phase = ''execution'', sj_CompletedAt = hour\<rparr>"
proof -
  have "\<not> IsJobFailed (kwJob ''job-1'' [kwComplete] (Some hour))"
    by (simp add: IsJobFailed_def kwJob_def kwComplete_def failed_condition_def)
  from conjunct2 [OF succeeded_job_trusted [OF this, of "kwEnv [] [] []" undefined undefined "kwStart NewTaskStore" hour]]
  show ?thesis
    by (simp add: IsJobSucceeded_def kwJob_def kwComplete_def kwStart_def NewJobWatcher_def map_get_def NewTaskStore_def
      MarkSucceeded_def)
qed

theorem published_reason_classified_witness:
  "ParseZombieReason (fst (run_state (failureReason (kwEnv [] [] []) (kwJob ''job-1'' [kwFailed ''DeadlineExceeded'' hour] None)) (kwStart NewTaskStore)))
     = Some ZombieReasonDeadlineExceeded"
proof -
  let ?job = "kwJob ''job-1'' [kwFailed ''DeadlineExceeded'' hour] None"
  have "JobFailureReason ?job = ZombieReasonDeadlineExceeded" by code_simp
  with conjunct2 [OF published_reason_classified [where job = ?job, OF _ prod.collapse [symmetric]]]
  show ?thesis by (auto simp: kwJob_def kwFailed_def)
qed

theorem namespaces_watched_once_witness:
  "\<exists>j'. run_state (reconcileNamespaceSet (kwEnv [] [] [])) (kwStart NewTaskStore) = (None, j') \<and> ''agents'' \<in> set (jw_informers j')"
proof -
  let ?env = "kwEnv [] [] []" and ?j = "kwStart NewTaskStore"
  obtain j' where run: "run_state (reconcileNamespaceSet ?env) ?j = (None, j')"
    by (simp add: reconcileNamespaceSet_def kwEnv_def publishing_through_def ask_def resolveJobWatcherNamespaces_def
      startNamespaceInformer_def informerStarted_def kwStart_def NewJobWatcher_def)
  have "watch_inv ?env ?j"
    using new_watcher_inv [of ?env] by (simp add: kwStart_def kwEnv_def publishing_through_def)
  from namespaces_watched_once [OF this run] run show ?thesis
    by (auto simp: wantedNamespaces_def kwEnv_def publishing_through_def)
qed

theorem store_miss_failure_published_once_witness:
  "\<exists>j ts. map_of (dd_seen (pb_dedupe (jw_world j))) ''job-1'' = Some ts \<and>
     run_state (HandleJob (publishing_through pwEnv (kwEnv [] [] [])) (kwJob ''job-1'' [kwFailed '''' hour] None)) j =
     run_state (HandleJob ((publishing_through pwEnv (kwEnv [] [] []))\<lparr>we_PublishStoreMissFailure := \<lambda>_ _ _. ret None\<rparr>)
       (kwJob ''job-1'' [kwFailed '''' hour] None)) j"
proof -
  let ?env = "kwEnv [] [] []" and ?job = "kwJob ''job-1'' [kwFailed '''' hour] None"
  let ?j = "NewJobWatcher ''agents'' NewTaskStore 0 (pwIdle\<lparr>pb_dedupe := recordDedupe hour ''job-1'' (newDedupe 4)\<rparr>)"
  have "map_of (dd_seen (pb_dedupe (jw_world ?j))) (job_Name ?job) = Some hour"
    by (simp add: NewJobWatcher_def kwJob_def)
  moreover have "dd_ttl (pb_dedupe (jw_world ?j)) = dedupeTTL"
    by (simp add: NewJobWatcher_def newDedupe_def)
  moreover have "store_Load (map_get (job_Labels ?job) taskIDLabelKey) (jw_taskStore ?j) = None"
    by (simp add: NewJobWatcher_def NewTaskStore_def store_Load_def)
  moreover have "jobFailedAt ?job = Some hour" by code_simp
  moreover have "pe_now pwEnv = gets pw_clock" and "we_now ?env = gets (\<lambda>p. pw_clock (pb_world p))"
    by (simp_all add: pwEnv_def kwEnv_def publishing_through_def)
  ultimately show ?thesis
    using store_miss_failure_published_once [OF kw.watched_cluster_axioms, of pwEnv pw_clock "[]" "[]" "[]" ?job ?j hour hour]
    by (auto simp: kwJob_def)
qed

end
