(* ===== verification/Zombie_Sweeper.thy ===== *)
theory Zombie_Sweeper
  imports Watcher_Theorems
begin

text \<open>
  The zombie sweeper (\<^verbatim>\<open>pkg/zombie_sweeper.go\<close>): one pass over the task store that publishes a failure for
  every task whose Job is stuck. It reads the pods through the informer caches of the Job watcher, so it runs
  on the watcher's state; its ticker is not modelled.
\<close>

section \<open>One pass\<close>

definition podNotScheduledGraceWindow :: duration where "podNotScheduledGraceWindow = 2 * 60 * second"
definition podNotScheduledArmWindow :: duration where "podNotScheduledArmWindow = 10 * 60 * second"

definition resolveTaskNamespace :: "task_lib \<Rightarrow> string \<Rightarrow> Task \<Rightarrow> Config list \<Rightarrow> string" where
  "resolveTaskNamespace L executorNamespace task cfgs =
     (case find (\<lambda>cfg. sp_Assignee (cfg_Spec cfg) = lib_Assignee L (Frontmatter task)) cfgs of
        None \<Rightarrow> executorNamespace
      | Some cfg \<Rightarrow>
          (case ResolveJobNamespace executorNamespace (sp_JobNamespace (cfg_Spec cfg)) of
             Inl _ \<Rightarrow> executorNamespace | Inr namespace \<Rightarrow> namespace))"

text \<open>Seconds are multiplied in the width of a duration.\<close>

definition seconds :: "int \<Rightarrow> duration" where
  "seconds n = wrap64 (n * second)"

definition taskDeadline :: "task_lib \<Rightarrow> Task \<Rightarrow> Config list \<Rightarrow> duration" where
  "taskDeadline L task cfgs =
     (case find (\<lambda>cfg. sp_Assignee (cfg_Spec cfg) = lib_Assignee L (Frontmatter task) \<and>
                       sp_ZombieJobTimeoutSeconds (cfg_Spec cfg) \<noteq> None) cfgs of
        Some cfg \<Rightarrow> seconds (the (sp_ZombieJobTimeoutSeconds (cfg_Spec cfg)))
      | None \<Rightarrow> seconds DefaultZombieJobTimeoutSeconds)"

definition resolveSweeperInterval :: "go_error + Config list \<Rightarrow> go_error + duration" where
  "resolveSweeperInterval r =
     (case r of
        Inl e \<Rightarrow> Inl (Wrapped ''list configs'' e)
      | Inr cfgs \<Rightarrow>
          (case find (\<lambda>cfg. sp_ZombieSweeperIntervalSeconds (cfg_Spec cfg) \<noteq> None) cfgs of
             Some cfg \<Rightarrow> Inr (seconds (the (sp_ZombieSweeperIntervalSeconds (cfg_Spec cfg))))
           | None \<Rightarrow> Inr (seconds DefaultZombieSweeperIntervalSeconds)))"

text \<open>The loop over the pods: the first running pod and the first unschedulable one decide.\<close>

fun classifyPods :: "go_time \<Rightarrow> Pod list \<Rightarrow> string" where
  "classifyPods now [] = ZombieReasonDeadlineExceeded"
| "classifyPods now (pod # pods) =
     (if po_Phase pod = ''Running'' then ''''
      else if po_Phase pod = ''Pending'' \<and> time_sub now (po_CreationTimestamp pod) > podNotScheduledGraceWindow \<and> hasPodScheduledFalse pod
      then ZombieReasonPodNotScheduled
      else classifyPods now pods)"

definition classify :: "go_error + Pod list \<Rightarrow> string \<Rightarrow> go_time \<Rightarrow> string" where
  "classify r tid now =
     (case r of
        Inl _ \<Rightarrow> ''''
      | Inr listed \<Rightarrow>
          (let pods = filter (\<lambda>pod. map_of (po_Labels pod) taskIDLabelKey = Some tid) listed in
           if pods = [] then ZombieReasonExecutorWatchLost else classifyPods now pods))"

definition sweepTask :: "'w watcher_env \<Rightarrow> string \<Rightarrow> Task \<Rightarrow> Config list \<Rightarrow> go_time \<Rightarrow> ('w jobWatcher, unit) state" where
  "sweepTask env tid task cfgs now =
     (let jobName = lib_CurrentJob (we_lib env) (Frontmatter task) in
      if jobName = '''' then ret ()
      else
        (case lib_JobStartedAt (we_lib env) (Frontmatter task) of
           Inl _ \<Rightarrow> ret ()
         | Inr jobStartedAt \<Rightarrow>
             if jobStartedAt = 0 then ret ()
             else
               (let deadline = taskDeadline (we_lib env) task cfgs;
                    elapsed = time_sub now jobStartedAt;
                    floor = (if deadline < podNotScheduledGraceWindow then deadline else podNotScheduledGraceWindow) in
                if elapsed < floor then ret ()
                else
                  (let namespace = resolveTaskNamespace (we_lib env) (we_namespace env) task cfgs in
                   do { lister \<leftarrow> podListerForNamespace env namespace;
                        if \<not> lister then ret ()
                        else
                          do { pods \<leftarrow> ask (we_ListPods env namespace);
                               let reason = classify pods tid now;
                               if reason = '''' then ret ()
                               else
                                 (let armWindow = (if deadline < podNotScheduledArmWindow then deadline else podNotScheduledArmWindow);
                                      early = reason = ZombieReasonPodNotScheduled \<and> elapsed \<ge> armWindow in
                                  if \<not> early \<and> elapsed < deadline then ret ()
                                  else do { _ \<leftarrow> ask (we_PublishFailure env task jobName reason None); ret () }) } }))))"

text \<open>The tasks of a snapshot come in the order of a Go map; any order of the store's entries is possible,
  and the entries are independent.\<close>

definition SweepOnce :: "'w watcher_env \<Rightarrow> ('w jobWatcher, go_error option) state" where
  "SweepOnce env =
     do { snapshot \<leftarrow> gets (\<lambda>j. ts_tasks (jw_taskStore j));
          now \<leftarrow> ask (we_now env);
          r \<leftarrow> ask (we_configProvider env);
          case r of
            Inl e \<Rightarrow> ret (Some (Wrapped ''list configs'' e))
          | Inr cfgs \<Rightarrow>
              do { for_each snapshot (\<lambda>(tid, task). sweepTask env tid task cfgs now); ret None } }"

section \<open>Properties\<close>

definition unschedulable :: "string \<Rightarrow> go_time \<Rightarrow> Pod \<Rightarrow> bool" where
  "unschedulable tid now pod \<longleftrightarrow>
     map_of (po_Labels pod) taskIDLabelKey = Some tid \<and> po_Phase pod = ''Pending'' \<and>
     time_sub now (po_CreationTimestamp pod) > podNotScheduledGraceWindow \<and> hasPodScheduledFalse pod"

lemma reasons_differ:
  "ZombieReasonPodNotScheduled \<noteq> ''''" "ZombieReasonExecutorWatchLost \<noteq> ZombieReasonPodNotScheduled"
  "ZombieReasonDeadlineExceeded \<noteq> ZombieReasonPodNotScheduled" "ZombieReasonDeadlineExceeded \<noteq> ''''"
  by code_simp+

lemma classifyPods_cases:
  "classifyPods now pods = '''' \<Longrightarrow> \<exists>pod \<in> set pods. po_Phase pod = ''Running''"
  "classifyPods now pods = ZombieReasonPodNotScheduled \<Longrightarrow> list_all (\<lambda>pod. map_of (po_Labels pod) taskIDLabelKey = Some tid) pods \<Longrightarrow>
     \<exists>pod \<in> set pods. unschedulable tid now pod"
  "classifyPods now pods = ZombieReasonDeadlineExceeded \<Longrightarrow> \<forall>pod \<in> set pods. po_Phase pod \<noteq> ''Running''"
  by (induction pods) (auto simp: reasons_differ reasons_differ [symmetric] unschedulable_def split: if_splits)

lemma classify_not_scheduled:
  "classify r tid now = ZombieReasonPodNotScheduled \<Longrightarrow> \<exists>pods. r = Inr pods \<and> (\<exists>pod \<in> set pods. unschedulable tid now pod)"
  using classifyPods_cases(2) [of now "filter (\<lambda>pod. map_of (po_Labels pod) taskIDLabelKey = Some tid) pods" tid for pods]
  by (auto simp: classify_def Let_def reasons_differ reasons_differ [symmetric] list_all_iff split: sum.splits if_splits)

lemma sweep_unused [simp]:
  "podListerForNamespace (env\<lparr>we_PublishFailure := g\<rparr>) = podListerForNamespace env"
  unfolding podListerForNamespace_def cacheSynced_def by (simp cong: if_cong)

text \<open>
  C14: The sweeper publishes a failure only for a stuck Job. If sweeping a task makes any use of the publisher,
  the task names a Job with a known start, its pods could be read and none of them ruled it out, and
  either the deadline of its configuration has passed since the start, or ten minutes have passed (or the
  deadline, if shorter) and a pod of the task is pending, refused by the scheduler and older than two minutes.
\<close>

theorem sweeper_publishes_only_stuck_jobs:
  assumes "run_state (sweepTask env tid task cfgs now) j \<noteq>
    run_state (sweepTask (env\<lparr>we_PublishFailure := \<lambda>_ _ _ _. ret None\<rparr>) tid task cfgs now) j"
  shows "lib_CurrentJob (we_lib env) (Frontmatter task) \<noteq> '''' \<and>
    (\<exists>start w w' pods. lib_JobStartedAt (we_lib env) (Frontmatter task) = Inr start \<and> start \<noteq> 0 \<and>
      run_state (we_ListPods env (resolveTaskNamespace (we_lib env) (we_namespace env) task cfgs)) w = (Inr pods, w') \<and>
      classify (Inr pods) tid now \<noteq> '''' \<and>
      (taskDeadline (we_lib env) task cfgs \<le> time_sub now start \<or>
       min (taskDeadline (we_lib env) task cfgs) podNotScheduledArmWindow \<le> time_sub now start \<and> (\<exists>pod \<in> set pods. unschedulable tid now pod)))"
proof -
  let ?ns = "resolveTaskNamespace (we_lib env) (we_namespace env) task cfgs" and ?deadline = "taskDeadline (we_lib env) task cfgs"
  obtain start where started: "lib_CurrentJob (we_lib env) (Frontmatter task) \<noteq> ''''"
      "lib_JobStartedAt (we_lib env) (Frontmatter task) = Inr start" "start \<noteq> 0"
    using assms by (auto simp: sweepTask_def Let_def split: if_splits sum.splits)
  obtain l j1 where lister: "run_state (podListerForNamespace env ?ns) j = (l, j1)" by fastforce
  obtain r w where pods: "run_state (we_ListPods env ?ns) (jw_world j1) = (r, w)" by fastforce
  have decided: "classify r tid now \<noteq> ''''"
      "\<not> (\<not> (classify r tid now = ZombieReasonPodNotScheduled \<and> time_sub now start \<ge> min ?deadline podNotScheduledArmWindow) \<and>
        time_sub now start < ?deadline)"
    using assms started by (auto simp: sweepTask_def Let_def lister ask_def pods min_def split: if_splits)
  then obtain ps where "r = Inr ps" by (cases r) (auto simp: classify_def)
  then show ?thesis
    using decided started pods classify_not_scheduled [of r tid now] by (auto simp: not_less)
qed

definition stuckEnv :: "pubWorld resultPublisher watcher_env" where
  "stuckEnv = (kwEnv [] [] [])\<lparr>we_lib := plainLib\<lparr>lib_JobStartedAt := \<lambda>_. Inr 1\<rparr>,
     we_PublishFailure := \<lambda>_ _ reason _. State (\<lambda>p. (None, p\<lparr>pb_aborted := [reason]\<rparr>))\<rparr>"

theorem sweeper_publishes_only_stuck_jobs_witness:
  "taskDeadline (we_lib stuckEnv) (kwTask ''job-1'') [] \<le> time_sub (2 * hour) 1 \<and>
   pb_aborted (jw_world (snd (run_state (sweepTask stuckEnv ''t1'' (kwTask ''job-1'') [] (2 * hour))
     ((kwStart NewTaskStore)\<lparr>jw_informers := [''agents'']\<rparr>)))) = [ZombieReasonExecutorWatchLost]"
proof -
  let ?j = "(kwStart NewTaskStore)\<lparr>jw_informers := [''agents'']\<rparr>" and ?env' = "stuckEnv\<lparr>we_PublishFailure := \<lambda>_ _ _ _. ret None\<rparr>"
  let ?sweep = "\<lambda>env. run_state (sweepTask env ''t1'' (kwTask ''job-1'') [] (2 * hour)) ?j"
  note defs = sweepTask_def stuckEnv_def kwEnv_def publishing_through_def plainLib_def kwTask_def resolveTaskNamespace_def
    taskDeadline_def podListerForNamespace_def informerStarted_def cacheSynced_def kwStart_def NewJobWatcher_def classify_def Let_def
    ask_def
  have late: "time_sub (2 * hour) 1 = 2 * hour - 1" "seconds DefaultZombieJobTimeoutSeconds = 1800 * second" "hour = 3600 * second"
    "podNotScheduledGraceWindow = 120 * second" "0 < second"
    by code_simp+
  have sent: "pb_aborted (jw_world (snd (?sweep stuckEnv))) = [ZombieReasonExecutorWatchLost]"
    using reasons_differ by (simp add: defs late) (simp add: second_def time_sub_def zombie_reasons)
  have "pb_aborted (jw_world (snd (?sweep ?env'))) = []"
    by (simp add: defs late pwIdle_def)
  with sent have "?sweep stuckEnv \<noteq> ?sweep ?env'" by auto
  from sweeper_publishes_only_stuck_jobs [OF this] have "taskDeadline (we_lib stuckEnv) (kwTask ''job-1'') [] \<le> time_sub (2 * hour) 1"
    by (auto simp: stuckEnv_def plainLib_def kwEnv_def publishing_through_def Let_def)
  with sent show ?thesis by simp
qed

end
