(* ===== verification/Job_Spawner.thy ===== *)
theory Job_Spawner
  imports Kube_Model Handler_Base
begin

text \<open>
  The Job spawner (\<^verbatim>\<open>pkg/spawner/job_spawner.go\<close>): the Job built for a task, and the questions about the Jobs of
  a cluster that gates and caps ask.

  Parameters: the Job API of the cluster, the Job builder of the k8s library (a function of what the code sets on its
  builders), the YAML encoder and the parser of Kubernetes quantities. A panic of the source (an index beyond the
  containers, a quantity that does not parse) is the outcome \<open>None\<close>.
\<close>

section \<open>Collaborators\<close>

record 'w JobApi =
  api_List :: "string \<Rightarrow> string \<times> string \<Rightarrow> ('w, go_error + Job list) state"
  api_Create :: "string \<Rightarrow> Job \<Rightarrow> ('w, go_error option) state"
  api_Get :: "string \<Rightarrow> string \<Rightarrow> ('w, go_error option) state"
  api_Delete :: "string \<Rightarrow> string \<Rightarrow> ('w, go_error option) state"

record ContainerBuilder =
  cb_Name :: string
  cb_Image :: string
  cb_Env :: "(string \<times> string) list"
  cb_CpuRequest :: "string option"
  cb_CpuLimit :: "string option"
  cb_MemoryRequest :: "string option"
  cb_MemoryLimit :: "string option"
  cb_VolumeMounts :: "VolumeMount list"

record JobBuilder =
  jb_Container :: ContainerBuilder
  jb_Volumes :: "Volume list"
  jb_RestartPolicy :: string
  jb_ImagePullSecrets :: "string list"
  jb_Name :: string
  jb_Namespace :: string
  jb_BackoffLimit :: int
  jb_TTLSecondsAfterFinished :: int
  jb_App :: string
  jb_Component :: string

record 'w spawner_env =
  se_lib :: task_lib
  se_unicode :: unicode
  se_api :: "'w JobApi"
  se_namespace :: string
  se_kafkaBrokers :: string
  se_branch :: string
  se_topicPrefix :: string
  se_now :: "('w, go_time) state"
  se_jobTTLSecondsAfterFinished :: int
  se_jobKafkaClientCertSecret :: string
  se_jobKafkaCaCertSecret :: string
  se_jobFsGroup :: int
  se_Build :: "JobBuilder \<Rightarrow> go_error + Job"
  se_yamlMarshal :: "frontmatter \<Rightarrow> go_error + string"
  se_parseQuantity :: "string \<Rightarrow> string option"

section \<open>The environment of the container\<close>

text \<open>
  \<^verbatim>\<open>strings.Map\<close> decodes UTF-8: \<open>rune_width\<close> is the length of the well-formed rune at the head, \<open>0\<close> if there is
  none. A byte that starts no rune becomes the replacement character.
\<close>

abbreviation byte :: "char \<Rightarrow> nat" where
  "byte c \<equiv> of_char c"

definition continuation :: "nat \<Rightarrow> nat \<Rightarrow> char \<Rightarrow> bool" where
  "continuation lo hi c \<longleftrightarrow> lo \<le> byte c \<and> byte c \<le> hi"

fun rune_width :: "string \<Rightarrow> nat" where
  "rune_width [] = 0"
| "rune_width (a # rest) =
     (if byte a < 0x80 then 1
      else if 0xC2 \<le> byte a \<and> byte a \<le> 0xDF then
        (case rest of b # _ \<Rightarrow> if continuation 0x80 0xBF b then 2 else 0 | [] \<Rightarrow> 0)
      else if 0xE0 \<le> byte a \<and> byte a \<le> 0xEF then
        (case rest of b # c # _ \<Rightarrow>
            if continuation (if byte a = 0xE0 then 0xA0 else 0x80) (if byte a = 0xED then 0x9F else 0xBF) b \<and> continuation 0x80 0xBF c
            then 3 else 0
         | _ \<Rightarrow> 0)
      else if 0xF0 \<le> byte a \<and> byte a \<le> 0xF4 then
        (case rest of b # c # d # _ \<Rightarrow>
            if continuation (if byte a = 0xF0 then 0x90 else 0x80) (if byte a = 0xF4 then 0x8F else 0xBF) b \<and>
               continuation 0x80 0xBF c \<and> continuation 0x80 0xBF d
            then 4 else 0
         | _ \<Rightarrow> 0)
      else 0)"

definition replacement :: string where "replacement = [CHR 0xEF, CHR 0xBF, CHR 0xBD]"

definition control_byte :: "char \<Rightarrow> bool" where
  "control_byte c \<longleftrightarrow> \<not> byte c \<in> {9, 10, 13} \<and> (byte c < 0x20 \<or> byte c = 0x7F)"

function stripControlBytes :: "string \<Rightarrow> string" where
  "stripControlBytes [] = []"
| "stripControlBytes (a # s) =
     (let n = rune_width (a # s) in
      if n = 0 then replacement @ stripControlBytes s
      else if control_byte a then stripControlBytes s
      else take n (a # s) @ stripControlBytes (drop n (a # s)))"
  by pat_completeness auto
termination
  by (relation "measure length") (auto simp del: rune_width.simps)

definition maxEnvStringBytes :: nat where "maxEnvStringBytes = 32 * 4096"
definition taskContentEnvKey :: string where "taskContentEnvKey = ''TASK_CONTENT''"

definition renderTaskContent :: "'w spawner_env \<Rightarrow> Task \<Rightarrow> go_error + string" where
  "renderTaskContent env task =
     (if Frontmatter task = [] then Inr (Content task)
      else (case se_yamlMarshal env (Frontmatter task) of
              Inl e \<Rightarrow> Inl (Wrapped ''marshal frontmatter for task'' e)
            | Inr fm \<Rightarrow> Inr (''---'' @ [CHR 0x0A] @ fm @ ''---'' @ [CHR 0x0A] @ Content task)))"

definition taskTypeString :: "task_lib \<Rightarrow> Task \<Rightarrow> string" where
  "taskTypeString L task = lib_TaskType L (Frontmatter task)"

definition buildJobEnvBuilder :: "'w spawner_env \<Rightarrow> Task \<Rightarrow> AgentConfiguration \<Rightarrow> go_error + (string \<times> string) list" where
  "buildJobEnvBuilder env task config =
     (case renderTaskContent env task of
        Inl e \<Rightarrow> Inl e
      | Inr taskContent \<Rightarrow>
          (let taskContentValue = stripControlBytes taskContent;
               taskContentEntryBytes = length taskContentEnvKey + 1 + length taskContentValue + 1 in
           if taskContentEntryBytes > maxEnvStringBytes
           then Inl (Wrapped ''task renders an env entry over the MAX_ARG_STRLEN limit'' ErrTaskContentTooLarge)
           else Inr ([(taskContentEnvKey, taskContentValue), (''TASK_ID'', TaskIdentifier task),
             (''KAFKA_BROKERS'', se_kafkaBrokers env), (''BRANCH'', se_branch env), (''TOPIC_PREFIX'', se_topicPrefix env),
             (''PHASE'', taskPhaseString (se_lib env) task), (''TASK_TYPE'', taskTypeString (se_lib env) task)] @
             (case ac_Env config of None \<Rightarrow> [] | Some m \<Rightarrow> m))))"

section \<open>The parts of the Job\<close>

definition stamp :: "go_time \<Rightarrow> string" where
  "stamp t =
     (let s = t div second; d = s div 86400; r = s mod 86400;
          (y, yd) = year_and_day d; (m, md) = month_and_day (month_lengths y) 1 yd
      in pad 4 y @ pad 2 m @ pad 2 md @ pad 2 (r div 3600) @ pad 2 (r mod 3600 div 60) @ pad 2 (r mod 60))"

definition jobNameFromTask :: "unicode \<Rightarrow> string \<Rightarrow> string \<Rightarrow> go_time \<Rightarrow> string" where
  "jobNameFromTask U assignee tid now =
     (let assignee = (if assignee = '''' then ''agent'' else assignee);
          ident = (if length tid > 8 then take 8 tid else tid) in
      to_lower U (assignee @ ''-'' @ ident @ ''-'' @ stamp now))"

definition imagePullSecretName :: "AgentConfiguration \<Rightarrow> string" where
  "imagePullSecretName config = (if ac_ImagePullSecret config \<noteq> '''' then ac_ImagePullSecret config else ''docker'')"

definition set_if :: "string \<Rightarrow> string option \<Rightarrow> string option" where
  "set_if v old = (if v \<noteq> '''' then Some v else old)"

definition applyCPUMemoryResources :: "AgentConfiguration \<Rightarrow> ContainerBuilder \<Rightarrow> ContainerBuilder" where
  "applyCPUMemoryResources config cb =
     (case ac_Resources config of
        None \<Rightarrow> cb
      | Some res \<Rightarrow>
          cb\<lparr>cb_CpuRequest := set_if (arl_CPU (ar_Requests res)) (cb_CpuRequest cb),
             cb_CpuLimit := set_if (arl_CPU (ar_Limits res)) (cb_CpuLimit cb),
             cb_MemoryRequest := set_if (arl_Memory (ar_Requests res)) (cb_MemoryRequest cb),
             cb_MemoryLimit := set_if (arl_Memory (ar_Limits res)) (cb_MemoryLimit cb)\<rparr>)"

definition volumeNameAgentData :: string where "volumeNameAgentData = ''agent-data''"
definition volumeNameAgentConfig :: string where "volumeNameAgentConfig = ''agent-config''"

text \<open>The mounts of the container and the volumes of the pod, in the order they are added.\<close>

definition applyVolumeMounts :: "AgentConfiguration \<Rightarrow> go_error + (VolumeMount list \<times> Volume list)" where
  "applyVolumeMounts config =
     (if ac_VolumeClaim config \<noteq> '''' \<and> ac_VolumeMountPath config = ''''
      then Inl (PlainError ''VolumeMountPath required when VolumeClaim is set'')
      else if ac_ConfigMapName config \<noteq> '''' \<and> ac_ConfigMapMountPath config = ''''
      then Inl (PlainError ''ConfigMapMountPath required when ConfigMapName is set'')
      else
        (let data = (if ac_VolumeClaim config = '''' then []
               else [(\<lparr>vm_Name = volumeNameAgentData, vm_MountPath = ac_VolumeMountPath config\<rparr>,
                      \<lparr>vol_Name = volumeNameAgentData, vol_Source = PersistentVolumeClaim (ac_VolumeClaim config)\<rparr>)]);
             cm = (if ac_ConfigMapName config = '''' then []
               else [(\<lparr>vm_Name = volumeNameAgentConfig, vm_MountPath = ac_ConfigMapMountPath config\<rparr>,
                      \<lparr>vol_Name = volumeNameAgentConfig, vol_Source = ConfigMapSource (ac_ConfigMapName config)
                        (map (\<lambda>item. (cmi_Key item, cmi_Path item)) (elems (ac_ConfigMapItems config)))\<rparr>)]) in
         Inr (map fst (data @ cm), map snd (data @ cm))))"

section \<open>Changes to the built Job\<close>

definition applyTaskIDLabel :: "string \<Rightarrow> Job \<Rightarrow> Job" where
  "applyTaskIDLabel tid job =
     job\<lparr>job_Labels := AList.update taskIDLabelKey tid (job_Labels job),
         job_TemplateLabels := AList.update taskIDLabelKey tid (job_TemplateLabels job)\<rparr>"

definition applyAssigneeLabel :: "string \<Rightarrow> Job \<Rightarrow> Job" where
  "applyAssigneeLabel assignee job =
     (if assignee = '''' then job
      else job\<lparr>job_Labels := AList.update assigneeLabelKey assignee (job_Labels job),
               job_TemplateLabels := AList.update assigneeLabelKey assignee (job_TemplateLabels job)\<rparr>)"

definition applyTaskPhaseAnnotation :: "string \<Rightarrow> Job \<Rightarrow> Job" where
  "applyTaskPhaseAnnotation phase job =
     (if phase = '''' then job
      else job\<lparr>job_Annotations := AList.update TaskPhaseAnnotationKey phase (job_Annotations job)\<rparr>)"

text \<open>A change of \<^verbatim>\<open>Containers[0]\<close>.\<close>

definition first_container :: "(Container \<Rightarrow> Container option) \<Rightarrow> Job \<Rightarrow> Job option" where
  "first_container f job =
     (case ps_Containers (job_PodSpec job) of
        [] \<Rightarrow> None
      | c # cs \<Rightarrow>
          (case f c of
             None \<Rightarrow> None
           | Some c' \<Rightarrow> Some (job\<lparr>job_PodSpec := (job_PodSpec job)\<lparr>ps_Containers := c' # cs\<rparr>\<rparr>)))"

definition applySecretEnvFrom :: "AgentConfiguration \<Rightarrow> Job \<Rightarrow> Job option" where
  "applySecretEnvFrom config job =
     (if ac_SecretName config = '''' then Some job
      else first_container (\<lambda>c. Some (c\<lparr>ctr_EnvFrom := ctr_EnvFrom c @ [ac_SecretName config]\<rparr>)) job)"

definition put_quantity :: "'w spawner_env \<Rightarrow> string \<Rightarrow> (string, string) gomap \<Rightarrow> (string, string) gomap option" where
  "put_quantity env v m =
     (if v = '''' then Some m
      else (case se_parseQuantity env v of None \<Rightarrow> None | Some q \<Rightarrow> Some (AList.update ''ephemeral-storage'' q m)))"

definition applyEphemeralStorage :: "'w spawner_env \<Rightarrow> AgentConfiguration \<Rightarrow> Job \<Rightarrow> Job option" where
  "applyEphemeralStorage env config job =
     (case ac_Resources config of
        None \<Rightarrow> Some job
      | Some res \<Rightarrow>
          first_container (\<lambda>c.
            case put_quantity env (arl_EphemeralStorage (ar_Requests res)) (ctr_Requests c) of
              None \<Rightarrow> None
            | Some requests \<Rightarrow>
                (case put_quantity env (arl_EphemeralStorage (ar_Limits res)) (ctr_Limits c) of
                   None \<Rightarrow> None
                 | Some limits \<Rightarrow> Some (c\<lparr>ctr_Requests := requests, ctr_Limits := limits\<rparr>))) job)"

definition secretVolume :: "string \<Rightarrow> string \<Rightarrow> string \<Rightarrow> Volume" where
  "secretVolume name secret key = \<lparr>vol_Name = name, vol_Source = SecretSource secret [(key, ''file'')] 288\<rparr>"

definition applyKafkaCertVolumes :: "'w spawner_env \<Rightarrow> Job \<Rightarrow> Job option" where
  "applyKafkaCertVolumes env job =
     (let client = se_jobKafkaClientCertSecret env; ca = se_jobKafkaCaCertSecret env in
      if client = '''' \<or> ca = '''' then Some job
      else
        (let spec = job_PodSpec job;
             spec = (if se_jobFsGroup env \<noteq> 0 then spec\<lparr>ps_FSGroup := Some (se_jobFsGroup env)\<rparr> else spec);
             spec = spec\<lparr>ps_Volumes := ps_Volumes spec @
               [secretVolume ''client-cert'' client ''user.crt'', secretVolume ''client-key'' client ''user.key'',
                secretVolume ''server-cert'' ca ''ca.crt'']\<rparr> in
         first_container (\<lambda>c. Some (c\<lparr>ctr_VolumeMounts := ctr_VolumeMounts c @
           [\<lparr>vm_Name = ''client-cert'', vm_MountPath = ''/client-cert''\<rparr>,
            \<lparr>vm_Name = ''client-key'', vm_MountPath = ''/client-key''\<rparr>,
            \<lparr>vm_Name = ''server-cert'', vm_MountPath = ''/server-cert''\<rparr>]\<rparr>)) (job\<lparr>job_PodSpec := spec\<rparr>)))"

definition applyScheduling :: "AgentConfiguration \<Rightarrow> Job \<Rightarrow> Job" where
  "applyScheduling config job =
     (let spec = job_PodSpec job;
          spec = (if ac_PriorityClassName config \<noteq> '''' then spec\<lparr>ps_PriorityClassName := ac_PriorityClassName config\<rparr> else spec);
          selector = (case ac_NodeSelector config of None \<Rightarrow> [] | Some m \<Rightarrow> m);
          spec = (if selector \<noteq> [] then spec\<lparr>ps_NodeSelector := selector\<rparr> else spec);
          spec = spec\<lparr>ps_Tolerations := ps_Tolerations spec @ elems (ac_Tolerations config)\<rparr> in
      job\<lparr>job_PodSpec := spec\<rparr>)"

definition applyActiveDeadlineSeconds :: "AgentConfiguration \<Rightarrow> Job \<Rightarrow> Job" where
  "applyActiveDeadlineSeconds config job = job\<lparr>job_ActiveDeadlineSeconds := Some (EffectiveZombieJobTimeoutSeconds config)\<rparr>"

section \<open>Spawning\<close>

definition createJob :: "'w spawner_env \<Rightarrow> string \<Rightarrow> Job \<Rightarrow> ('w, go_error option) state" where
  "createJob env targetNamespace job =
     do { err \<leftarrow> api_Create (se_api env) targetNamespace job;
          ret (case err of
              None \<Rightarrow> None
            | Some e \<Rightarrow> if api_reason e = ''AlreadyExists'' then None else Some (Wrapped ''create job for task failed'' e)) }"

definition jobBuilder :: "'w spawner_env \<Rightarrow> Task \<Rightarrow> AgentConfiguration \<Rightarrow> string \<Rightarrow> string \<Rightarrow>
    (string \<times> string) list \<Rightarrow> VolumeMount list \<times> Volume list \<Rightarrow> JobBuilder" where
  "jobBuilder env task config targetNamespace jobName envVars vols =
     \<lparr>jb_Container = (applyCPUMemoryResources config
        \<lparr>cb_Name = ''agent'', cb_Image = ac_Image config, cb_Env = envVars, cb_CpuRequest = None, cb_CpuLimit = None,
         cb_MemoryRequest = None, cb_MemoryLimit = None, cb_VolumeMounts = []\<rparr>)\<lparr>cb_VolumeMounts := fst vols\<rparr>,
      jb_Volumes = snd vols, jb_RestartPolicy = ''Never'', jb_ImagePullSecrets = [imagePullSecretName config],
      jb_Name = jobName, jb_Namespace = targetNamespace, jb_BackoffLimit = 0,
      jb_TTLSecondsAfterFinished = se_jobTTLSecondsAfterFinished env, jb_App = ''agent'', jb_Component = TaskIdentifier task\<rparr>"

definition decorateJob :: "'w spawner_env \<Rightarrow> Task \<Rightarrow> AgentConfiguration \<Rightarrow> Job \<Rightarrow> Job option" where
  "decorateJob env task config job =
     do { job \<leftarrow> applySecretEnvFrom config
            (applyTaskPhaseAnnotation (taskPhaseString (se_lib env) task)
              (applyAssigneeLabel (ac_Assignee config) (applyTaskIDLabel (TaskIdentifier task) job)));
          job \<leftarrow> applyEphemeralStorage env config job;
          job \<leftarrow> applyKafkaCertVolumes env job;
          Some (applyActiveDeadlineSeconds config (applyScheduling config job)) }"

definition SpawnJob :: "'w spawner_env \<Rightarrow> Task \<Rightarrow> AgentConfiguration \<Rightarrow> ('w, (go_error + string) option) state" where
  "SpawnJob env task config =
     (case ResolveJobNamespace (se_namespace env) (ac_JobNamespace config) of
        Inl e \<Rightarrow> ret (Some (Inl e))
      | Inr targetNamespace \<Rightarrow>
          do { now \<leftarrow> se_now env;
               let jobName = jobNameFromTask (se_unicode env) (lib_Assignee (se_lib env) (Frontmatter task)) (TaskIdentifier task) now;
               case buildJobEnvBuilder env task config of
                 Inl e \<Rightarrow> ret (Some (Inl e))
               | Inr envVars \<Rightarrow>
                   (case applyVolumeMounts config of
                      Inl e \<Rightarrow> ret (Some (Inl e))
                    | Inr vols \<Rightarrow>
                        (case se_Build env (jobBuilder env task config targetNamespace jobName envVars vols) of
                           Inl e \<Rightarrow> ret (Some (Inl (Wrapped ''build job for task'' e)))
                         | Inr built \<Rightarrow>
                             (case decorateJob env task config built of
                                None \<Rightarrow> ret None
                              | Some job \<Rightarrow>
                                  do { err \<leftarrow> createJob env targetNamespace job;
                                       ret (Some (case err of Some e \<Rightarrow> Inl e | None \<Rightarrow> Inr jobName)) }))) })"

section \<open>The Jobs of the cluster\<close>

definition IsJobActive :: "'w spawner_env \<Rightarrow> string \<Rightarrow> string \<Rightarrow> ('w, go_error + bool) state" where
  "IsJobActive env namespace tid =
     do { r \<leftarrow> api_List (se_api env) namespace (taskIDLabelKey, tid);
          ret (case r of
              Inl e \<Rightarrow> Inl (Wrapped ''list jobs for task'' e)
            | Inr jobs \<Rightarrow> Inr (list_ex unfinished jobs)) }"

definition JobExists :: "'w spawner_env \<Rightarrow> string \<Rightarrow> string \<Rightarrow> ('w, go_error + bool) state" where
  "JobExists env namespace jobName =
     (if jobName = '''' then ret (Inr False)
      else
        do { err \<leftarrow> api_Get (se_api env) namespace jobName;
             ret (case err of
                 None \<Rightarrow> Inr True
               | Some e \<Rightarrow> if api_reason e = ''NotFound'' then Inr False else Inl (Wrapped ''get job'' e)) })"

definition CountActiveJobs :: "'w spawner_env \<Rightarrow> string \<Rightarrow> string \<Rightarrow> ('w, go_error + nat) state" where
  "CountActiveJobs env namespace assignee =
     (if assignee = '''' then ret (Inr 0)
      else
        do { r \<leftarrow> api_List (se_api env) namespace (assigneeLabelKey, assignee);
             ret (case r of
                 Inl e \<Rightarrow> Inl (Wrapped ''list jobs for assignee'' e)
               | Inr jobs \<Rightarrow> Inr (length (filter unfinished jobs))) })"

definition noteActive :: "Job \<Rightarrow> (string, bool) gomap \<Rightarrow> (string, bool) gomap" where
  "noteActive job active =
     (let tid = map_get (job_Labels job) taskIDLabelKey in
      if \<not> unfinished job then active
      else if tid = '''' then active
      else AList.update tid True active)"

definition ListActiveJobs :: "'w spawner_env \<Rightarrow> string \<Rightarrow> string \<Rightarrow> ('w, go_error + (string, bool) gomap) state" where
  "ListActiveJobs env namespace assignee =
     (if assignee = '''' then ret (Inr [])
      else
        do { r \<leftarrow> api_List (se_api env) namespace (assigneeLabelKey, assignee);
             ret (case r of
                 Inl e \<Rightarrow> Inl (Wrapped ''list jobs for assignee'' e)
               | Inr jobs \<Rightarrow> Inr (fold noteActive jobs [])) })"

end
