(* ===== verification/Job_Control.thy ===== *)
theory Job_Control
  imports Job_Spawner
begin

text \<open>
  Smaller parts around the Jobs of a task: the Job control the lease manager uses for its fence and for recovery
  (\<^verbatim>\<open>pkg/handler/claim_job_control.go\<close>), the reader of pod quotas (\<^verbatim>\<open>pkg/spawner/pod_quota_limiter.go\<close>) and the
  publisher of dead letters (\<^verbatim>\<open>pkg/dead_letter_publisher.go\<close>).
\<close>

section \<open>Job control\<close>

record 'w kubeJobControl =
  kc_lib :: task_lib
  kc_api :: "'w JobApi"
  kc_namespace :: string
  kc_resolver :: "'w ConfigResolver option"
  kc_view :: "(string \<Rightarrow> ('w, Task option) state) option"

definition namespaceFallbackReason :: "go_error \<Rightarrow> string" where
  "namespaceFallbackReason err =
     (if errors_Is err ErrConfigAmbiguous then ''ambiguous_config''
      else if errors_Is err ErrConfigNotFound then ''no_config''
      else ''resolve_error'')"

definition placed :: "'w kubeJobControl \<Rightarrow> go_error + AgentConfiguration \<Rightarrow> string" where
  "placed c r =
     (case r of
        Inl _ \<Rightarrow> kc_namespace c
      | Inr config \<Rightarrow>
          (case ResolveJobNamespace (kc_namespace c) (ac_JobNamespace config) of
             Inl _ \<Rightarrow> kc_namespace c | Inr namespace \<Rightarrow> namespace))"

definition namespaceFor :: "'w kubeJobControl \<Rightarrow> string \<Rightarrow> ('w, string) state" where
  "namespaceFor c tid =
     (case (kc_resolver c, kc_view c) of
        (Some resolver, Some view) \<Rightarrow>
          do { entry \<leftarrow> view tid;
               case entry of
                 None \<Rightarrow> ret (kc_namespace c)
               | Some task \<Rightarrow>
                   do { r \<leftarrow> cr_Resolve resolver (lib_Assignee (kc_lib c) (Frontmatter task));
                        case r of
                          Inr config \<Rightarrow> ret (placed c (Inr config))
                        | Inl err \<Rightarrow>
                            if \<not> errors_Is err ErrConfigNotFound then ret (kc_namespace c)
                            else
                              do { r \<leftarrow> cr_ResolveByTaskType resolver (lib_TaskType (kc_lib c) (Frontmatter task))
                                     (lib_Assignee (kc_lib c) (Frontmatter task));
                                   ret (placed c r) } } }
      | _ \<Rightarrow> ret (kc_namespace c))"

definition jobsForTask :: "'w kubeJobControl \<Rightarrow> string \<Rightarrow> string \<Rightarrow> ('w, go_error + Job list) state" where
  "jobsForTask c namespace tid =
     do { r \<leftarrow> api_List (kc_api c) namespace (taskIDLabelKey, tid);
          ret (case r of Inl e \<Rightarrow> Inl (Wrapped ''list jobs for task'' e) | Inr jobs \<Rightarrow> Inr jobs) }"

definition control_IsJobRunning :: "'w kubeJobControl \<Rightarrow> string \<Rightarrow> ('w, go_error + bool) state" where
  "control_IsJobRunning c tid =
     do { namespace \<leftarrow> namespaceFor c tid;
          r \<leftarrow> jobsForTask c namespace tid;
          ret (case r of
              Inl e \<Rightarrow> Inl e
            | Inr jobs \<Rightarrow> Inr (list_ex (\<lambda>job. \<not> IsJobFailed job \<and> \<not> IsJobSucceeded job) jobs)) }"

fun deleteJobs :: "'w kubeJobControl \<Rightarrow> string \<Rightarrow> Job list \<Rightarrow> ('w, go_error option) state" where
  "deleteJobs c namespace [] = ret None"
| "deleteJobs c namespace (job # jobs) =
     do { err \<leftarrow> api_Delete (kc_api c) namespace (job_Name job);
          case err of
            Some e \<Rightarrow>
              if api_reason e \<noteq> ''NotFound'' then ret (Some (Wrapped ''delete job for task'' e))
              else deleteJobs c namespace jobs
          | None \<Rightarrow> deleteJobs c namespace jobs }"

definition control_DeleteJob :: "'w kubeJobControl \<Rightarrow> string \<Rightarrow> ('w, go_error option) state" where
  "control_DeleteJob c tid =
     do { namespace \<leftarrow> namespaceFor c tid;
          r \<leftarrow> jobsForTask c namespace tid;
          case r of Inl e \<Rightarrow> ret (Some e) | Inr jobs \<Rightarrow> deleteJobs c namespace jobs }"

section \<open>Pod quotas\<close>

record ScopeExpr =
  sx_ScopeName :: string
  sx_Operator :: string
  sx_Values :: "string list"

record ResourceQuota =
  rq_Name :: string
  rq_ScopeSelector :: "ScopeExpr list option"
  rq_StatusHard :: "(string, int) gomap"
  rq_SpecHard :: "(string, int) gomap"

definition podQuotaCacheTTL :: duration where "podQuotaCacheTTL = 30 * second"

definition quotaScopesPriorityClass :: "ResourceQuota \<Rightarrow> string \<Rightarrow> bool" where
  "quotaScopesPriorityClass quota priorityClassName \<longleftrightarrow>
     (case rq_ScopeSelector quota of
        None \<Rightarrow> False
      | Some exprs \<Rightarrow> list_ex (\<lambda>e. sx_ScopeName e = ''PriorityClass'' \<and> sx_Operator e = ''In'' \<and>
          list_ex (\<lambda>v. v = priorityClassName) (sx_Values e)) exprs)"

definition quotaPodLimit :: "ResourceQuota \<Rightarrow> int option" where
  "quotaPodLimit quota =
     (case map_of (rq_StatusHard quota) ''pods'' of
        Some q \<Rightarrow> Some q
      | None \<Rightarrow> map_of (rq_SpecHard quota) ''pods'')"

definition podQuotaFromQuotas :: "ResourceQuota list \<Rightarrow> string \<Rightarrow> int \<times> bool" where
  "podQuotaFromQuotas quotas priorityClassName =
     fold (\<lambda>quota (limit, bounded).
       if \<not> quotaScopesPriorityClass quota priorityClassName then (limit, bounded)
       else (case quotaPodLimit quota of
           None \<Rightarrow> (limit, bounded)
         | Some podLimit \<Rightarrow> if \<not> bounded \<or> podLimit < limit then (podLimit, True) else (limit, bounded))) quotas (0, False)"

record cachedPodQuota =
  pq_limit :: int
  pq_bounded :: bool
  pq_readAt :: go_time

record 'w podQuotaLimiter =
  pl_cache :: "(string, cachedPodQuota) gomap"
  pl_world :: 'w

definition pl_lift :: "('w, 'a) state \<Rightarrow> ('w podQuotaLimiter, 'a) state" where
  "pl_lift x = State (\<lambda>p. case run_state x (pl_world p) of (a, w) \<Rightarrow> (a, p\<lparr>pl_world := w\<rparr>))"

definition PodQuota :: "('w, go_time) state \<Rightarrow> (string \<Rightarrow> ('w, go_error + ResourceQuota list) state) \<Rightarrow>
    string \<Rightarrow> string \<Rightarrow> ('w podQuotaLimiter, go_error + (int \<times> bool)) state" where
  "PodQuota readClock list_quotas namespace priorityClassName =
     (if priorityClassName = '''' then ret (Inr (0, False))
      else
        (let cacheKey = namespace @ ''/'' @ priorityClassName in
         do { now \<leftarrow> pl_lift readClock;
              cached \<leftarrow> gets (\<lambda>p. map_of (pl_cache p) cacheKey);
              let hit = (case cached of Some c \<Rightarrow> time_sub now (pq_readAt c) < podQuotaCacheTTL | None \<Rightarrow> False);
              if hit then ret (Inr (pq_limit (the cached), pq_bounded (the cached)))
              else
                do { r \<leftarrow> pl_lift (list_quotas namespace);
                     case r of
                       Inl e \<Rightarrow> ret (Inl (Wrapped ''list resourcequotas in namespace'' e))
                     | Inr quotas \<Rightarrow>
                         (let (limit, bounded) = podQuotaFromQuotas quotas priorityClassName in
                          do { modify (\<lambda>p. p\<lparr>pl_cache := AList.update cacheKey
                                 \<lparr>pq_limit = limit, pq_bounded = bounded, pq_readAt = now\<rparr> (pl_cache p)\<rparr>);
                               ret (Inr (limit, bounded)) }) } }))"

section \<open>Dead letters\<close>

record ProducerMessage =
  pm_Topic :: string
  pm_Key :: string
  pm_Value :: string
  pm_Headers :: "(string \<times> string) list"

definition deadLetter :: "string \<Rightarrow> (go_error \<Rightarrow> string) \<Rightarrow> ConsumerMessage \<Rightarrow> go_error \<Rightarrow> ProducerMessage" where
  "deadLetter topic show_error msg cause =
     \<lparr>pm_Topic = topic, pm_Key = msg_Key msg, pm_Value = msg_Value msg,
      pm_Headers = [(''source-topic'', msg_Topic msg), (''source-partition'', itoa (msg_Partition msg)),
        (''source-offset'', itoa (msg_Offset msg)), (''error'', show_error cause)]\<rparr>"

definition deadLetterPublish :: "string \<Rightarrow> (go_error \<Rightarrow> string) \<Rightarrow> (ProducerMessage \<Rightarrow> ('w, go_error option) state) \<Rightarrow>
    ConsumerMessage \<Rightarrow> go_error \<Rightarrow> ('w, go_error option) state" where
  "deadLetterPublish topic show_error send_message msg cause =
     do { err \<leftarrow> send_message (deadLetter topic show_error msg cause);
          ret (map_option (Wrapped ''publish dead letter to topic'') err) }"

section \<open>What they guarantee\<close>

text \<open>The quota of a class is the smallest limit of the quotas that scope it.\<close>

definition scopingLimits :: "ResourceQuota list \<Rightarrow> string \<Rightarrow> int list" where
  "scopingLimits quotas cls = List.map_filter quotaPodLimit (filter (\<lambda>q. quotaScopesPriorityClass q cls) quotas)"

lemma podQuota_snoc:
  "podQuotaFromQuotas (quotas @ [quota]) cls =
     (case podQuotaFromQuotas quotas cls of (limit, bounded) \<Rightarrow>
       if \<not> quotaScopesPriorityClass quota cls then (limit, bounded)
       else (case quotaPodLimit quota of
           None \<Rightarrow> (limit, bounded)
         | Some podLimit \<Rightarrow> if \<not> bounded \<or> podLimit < limit then (podLimit, True) else (limit, bounded)))"
  by (simp add: podQuotaFromQuotas_def)

lemma podQuota_min:
  "podQuotaFromQuotas quotas cls =
     (if scopingLimits quotas cls = [] then (0, False) else (Min (set (scopingLimits quotas cls)), True))"
proof (induction quotas rule: rev_induct)
  case (snoc quota quotas)
  show ?case
  proof (cases "quotaScopesPriorityClass quota cls \<and> quotaPodLimit quota \<noteq> None")
    case True
    then obtain n where n: "quotaPodLimit quota = Some n" by auto
    with True have limits: "scopingLimits (quotas @ [quota]) cls = scopingLimits quotas cls @ [n]"
      by (simp add: scopingLimits_def map_filter_def)
    have "Min (set (xs @ [n])) = (if n < Min (set xs) then n else Min (set xs))" if "xs \<noteq> []" for xs
      using that by (simp add: min_def del: Min_gr_iff Min_ge_iff)
    then show ?thesis
      unfolding podQuota_snoc snoc.IH limits using True n
      by (cases "scopingLimits quotas cls = []") (simp_all del: Min_gr_iff set_append)
  next
    case False
    then have "scopingLimits (quotas @ [quota]) cls = scopingLimits quotas cls"
      by (auto simp: scopingLimits_def map_filter_def)
    then show ?thesis using False unfolding podQuota_snoc snoc.IH by (auto split: option.split)
  qed
qed (simp add: podQuotaFromQuotas_def scopingLimits_def map_filter_def)

end
