(* ===== verification/Spawner_Theorems.thy ===== *)
theory Spawner_Theorems
  imports Job_Control Handler_Frames
begin

text \<open>
  Properties of the spawner and the Job control. The locale \<open>job_api\<close> is the contract with the Job API of the
  cluster, \<open>spawner_world\<close> adds what the Job builder of the k8s library promises; both are given by the small cluster at the
  end.
\<close>

section \<open>The content of a task\<close>

lemma high_byte: "0x80 \<le> byte c \<Longrightarrow> \<not> control_byte c"
  by (auto simp: control_byte_def)

lemma continuation_high: "continuation lo hi c \<Longrightarrow> 0x80 \<le> lo \<Longrightarrow> \<not> control_byte c"
  by (simp add: high_byte continuation_def)

lemma rune_tail: "list_all (\<lambda>c. \<not> control_byte c) (take (rune_width (a # s) - 1) s)"
proof -
  consider (one) "byte a < 0x80" | (two) "0xC2 \<le> byte a" "byte a \<le> 0xDF" | (three) "0xE0 \<le> byte a" "byte a \<le> 0xEF"
    | (four) "0xF0 \<le> byte a" "byte a \<le> 0xF4" | (none) "rune_width (a # s) = 0"
    by (cases "byte a < 0x80"; cases "0xC2 \<le> byte a \<and> byte a \<le> 0xDF"; cases "0xE0 \<le> byte a \<and> byte a \<le> 0xEF";
      cases "0xF0 \<le> byte a \<and> byte a \<le> 0xF4") simp_all
  then show ?thesis
  proof cases
    case two
    then show ?thesis by (auto simp: continuation_high split: list.split)
  next
    case three
    then show ?thesis by (auto simp: continuation_high split: list.split)
  next
    case four
    then show ?thesis by (auto simp: continuation_high split: list.split)
  qed (simp_all del: rune_width.simps add: rune_width.simps(2) [of a])
qed

lemma rune_bytes:
  assumes "rune_width (a # s) \<noteq> 0" and "\<not> control_byte a"
  shows "list_all (\<lambda>c. \<not> control_byte c) (take (rune_width (a # s)) (a # s))"
  using assms rune_tail [of a s] by (cases "rune_width (a # s)") (simp_all del: rune_width.simps)

lemma stripControlBytes_clean: "list_all (\<lambda>c. \<not> control_byte c) (stripControlBytes s)"
proof (induction s rule: stripControlBytes.induct)
  case (2 a s)
  have "list_all (\<lambda>c. \<not> control_byte c) replacement" by code_simp
  with 2 rune_bytes [of a s] show ?case
    by (auto simp: Let_def simp del: rune_width.simps)
qed simp

text \<open>
  The content of a task fits into the environment of its container or the task is refused. An
  environment that is built starts with the rendered content, cleaned of control bytes, in an entry of at
  most 131072 bytes with its name and terminator; otherwise rendering failed, or the error says that the
  content is too large and the entry is over that limit.
\<close>

theorem task_content_fits_or_refused:
  "case buildJobEnvBuilder env task config of
     Inr vars \<Rightarrow> (\<exists>value rest content. vars = (''TASK_CONTENT'', value) # rest \<and> renderTaskContent env task = Inr content \<and>
       value = stripControlBytes content \<and> length ''TASK_CONTENT'' + 1 + length value + 1 \<le> 131072 \<and>
       list_all (\<lambda>c. \<not> control_byte c) value)
   | Inl e \<Rightarrow> renderTaskContent env task = Inl e \<or>
       errors_Is e ErrTaskContentTooLarge \<and>
       (\<exists>content. renderTaskContent env task = Inr content \<and>
          131072 < length ''TASK_CONTENT'' + 1 + length (stripControlBytes content) + 1)"
  using stripControlBytes_clean
  by (auto simp: buildJobEnvBuilder_def Let_def maxEnvStringBytes_def taskContentEnvKey_def errors_Is_def split: sum.split)

section \<open>The contract with the cluster\<close>

definition labelled :: "string \<Rightarrow> string \<times> string \<Rightarrow> Job \<Rightarrow> bool" where
  "labelled ns l job \<longleftrightarrow> job_Namespace job = ns \<and> map_of (job_Labels job) (fst l) = Some (snd l)"

definition named :: "string \<Rightarrow> string \<Rightarrow> Job \<Rightarrow> bool" where
  "named ns name job \<longleftrightarrow> job_Namespace job = ns \<and> job_Name job = name"

locale job_api =
  fixes api :: "'w JobApi" and jobs :: "'w \<Rightarrow> Job list"
  assumes list_jobs: "run_state (api_List api ns l) w = (r, w') \<Longrightarrow>
      jobs w' = jobs w \<and> (\<forall>js. r = Inr js \<longrightarrow> js = filter (labelled ns l) (jobs w))"
    and create_job: "run_state (api_Create api ns job) w = (made, w') \<Longrightarrow>
      (made = None \<longrightarrow> jobs w' = jobs w @ [job]) \<and>
      (\<forall>e. made = Some e \<and> api_reason e = ''AlreadyExists'' \<longrightarrow> jobs w' = jobs w \<and> list_ex (named ns (job_Name job)) (jobs w))"
    and delete_job: "run_state (api_Delete api ns name) w = (gone, w') \<Longrightarrow>
      (gone = None \<longrightarrow> jobs w' = filter (\<lambda>job. \<not> named ns name job) (jobs w)) \<and>
      (\<forall>e. gone = Some e \<and> api_reason e = ''NotFound'' \<longrightarrow> jobs w' = jobs w \<and> \<not> list_ex (named ns name) (jobs w))"

text \<open>The names of a list of Jobs to delete.\<close>

definition doomed :: "string \<Rightarrow> Job list \<Rightarrow> Job \<Rightarrow> bool" where
  "doomed ns js job \<longleftrightarrow> (\<exists>j \<in> set js. named ns (job_Name j) job)"

context job_api
begin

lemma deletes:
  assumes "kc_api c = api"
  shows "run_state (deleteJobs c ns js) w = (None, w') \<Longrightarrow> jobs w' = filter (\<lambda>job. \<not> doomed ns js job) (jobs w)"
proof (induction js arbitrary: w)
  case (Cons job js)
  obtain r w1 where del: "run_state (api_Delete api ns (job_Name job)) w = (r, w1)" by fastforce
  have one: "jobs w1 = filter (\<lambda>x. \<not> named ns (job_Name job) x) (jobs w)"
    using Cons.prems delete_job [OF del] by (cases r) (auto simp: assms del list_ex_iff split: if_splits intro!: filter_True [symmetric])
  have "run_state (deleteJobs c ns js) w1 = (None, w')"
    using Cons.prems by (auto simp: assms del split: option.splits if_splits)
  from Cons.IH [OF this] one show ?case by (auto simp: doomed_def intro!: filter_cong)
qed (simp add: doomed_def)

end

locale spawner_world = job_api "se_api env" jobs
  for env :: "'w spawner_env" and jobs :: "'w \<Rightarrow> Job list" +
  assumes now_calm: "leaves jobs (se_now env)"
    and built: "se_Build env b = Inr job \<Longrightarrow>
      job_Namespace job = jb_Namespace b \<and> job_Name job = jb_Name b \<and> ps_Containers (job_PodSpec job) \<noteq> [] \<and>
      job_Conditions job = [] \<and> job_Succeeded job = 0 \<and> job_Failed job = 0"

section \<open>The spawned Job\<close>

lemma first_container_keeps:
  "first_container f job = Some job' \<Longrightarrow> (\<exists>spec. job' = job\<lparr>job_PodSpec := spec\<rparr>)"
  by (auto simp: first_container_def split: list.splits option.splits)

lemma first_container_runs: "first_container (\<lambda>c. Some (f c)) job = None \<longleftrightarrow> ps_Containers (job_PodSpec job) = []"
  by (auto simp: first_container_def split: list.split)

lemma decorate_steps:
  "applySecretEnvFrom config job = Some job' \<Longrightarrow> \<exists>spec. job' = job\<lparr>job_PodSpec := spec\<rparr>"
  "applyEphemeralStorage env config job = Some job' \<Longrightarrow> \<exists>spec. job' = job\<lparr>job_PodSpec := spec\<rparr>"
  "applyKafkaCertVolumes env job = Some job' \<Longrightarrow> \<exists>spec. job' = job\<lparr>job_PodSpec := spec\<rparr>"
  "\<exists>spec. applyScheduling config job = job\<lparr>job_PodSpec := spec\<rparr>"
proof -
  have same: "\<exists>spec. job = job\<lparr>job_PodSpec := spec\<rparr>" by (rule exI [of _ "job_PodSpec job"]) simp
  show "applySecretEnvFrom config job = Some job' \<Longrightarrow> \<exists>spec. job' = job\<lparr>job_PodSpec := spec\<rparr>"
    using same by (auto simp: applySecretEnvFrom_def split: if_splits dest: first_container_keeps)
  show "applyEphemeralStorage env config job = Some job' \<Longrightarrow> \<exists>spec. job' = job\<lparr>job_PodSpec := spec\<rparr>"
    using same by (auto simp: applyEphemeralStorage_def split: option.splits dest!: first_container_keeps)
  show "applyKafkaCertVolumes env job = Some job' \<Longrightarrow> \<exists>spec. job' = job\<lparr>job_PodSpec := spec\<rparr>"
    using same by (auto simp: applyKafkaCertVolumes_def Let_def split: if_splits dest!: first_container_keeps)
  show "\<exists>spec. applyScheduling config job = job\<lparr>job_PodSpec := spec\<rparr>"
    unfolding applyScheduling_def Let_def by blast
qed

text \<open>What a decorated Job is, apart from its pod specification.\<close>

lemma decorated:
  assumes "decorateJob env task config job = Some job'"
  shows "\<exists>spec. job' = applyActiveDeadlineSeconds config ((applyTaskPhaseAnnotation (taskPhaseString (se_lib env) task)
    (applyAssigneeLabel (ac_Assignee config) (applyTaskIDLabel (TaskIdentifier task) job)))\<lparr>job_PodSpec := spec\<rparr>)"
proof -
  let ?start = "applyTaskPhaseAnnotation (taskPhaseString (se_lib env) task)
    (applyAssigneeLabel (ac_Assignee config) (applyTaskIDLabel (TaskIdentifier task) job))"
  obtain j1 j2 j3 where steps: "applySecretEnvFrom config ?start = Some j1" "applyEphemeralStorage env config j1 = Some j2"
      "applyKafkaCertVolumes env j2 = Some j3" "job' = applyActiveDeadlineSeconds config (applyScheduling config j3)"
    using assms by (auto simp: decorateJob_def split: Option.bind_splits)
  obtain s1 s2 s3 s4 where "j1 = ?start\<lparr>job_PodSpec := s1\<rparr>" "j2 = j1\<lparr>job_PodSpec := s2\<rparr>" "j3 = j2\<lparr>job_PodSpec := s3\<rparr>"
      "applyScheduling config j3 = j3\<lparr>job_PodSpec := s4\<rparr>"
    using decorate_steps(1) [OF steps(1)] decorate_steps(2) [OF steps(2)] decorate_steps(3) [OF steps(3)]
      decorate_steps(4) [of config j3] by blast
  with steps(4) show ?thesis by (intro exI [of _ s4]) simp
qed

definition spawnedFor :: "task_lib \<Rightarrow> Task \<Rightarrow> AgentConfiguration \<Rightarrow> string \<Rightarrow> string \<Rightarrow> Job \<Rightarrow> bool" where
  "spawnedFor L task config ns name job \<longleftrightarrow>
     named ns name job \<and> unfinished job \<and>
     map_of (job_Labels job) taskIDLabelKey = Some (TaskIdentifier task) \<and>
     (ac_Assignee config \<noteq> '''' \<longrightarrow> map_of (job_Labels job) assigneeLabelKey = Some (ac_Assignee config)) \<and>
     (taskPhaseString L task \<noteq> '''' \<longrightarrow> map_of (job_Annotations job) TaskPhaseAnnotationKey = Some (taskPhaseString L task)) \<and>
     job_ActiveDeadlineSeconds job = Some (EffectiveZombieJobTimeoutSeconds config)"

lemma label_keys_differ: "assigneeLabelKey \<noteq> taskIDLabelKey" "taskIDLabelKey \<noteq> assigneeLabelKey"
  by code_simp+

lemma decorated_spawnedFor:
  assumes "decorateJob env task config job = Some job'" and "named ns name job" and "job_Conditions job = []"
    and "job_Succeeded job = 0" and "job_Failed job = 0"
  shows "spawnedFor (se_lib env) task config ns name job'"
proof -
  obtain spec where job': "job' = applyActiveDeadlineSeconds config ((applyTaskPhaseAnnotation (taskPhaseString (se_lib env) task)
      (applyAssigneeLabel (ac_Assignee config) (applyTaskIDLabel (TaskIdentifier task) job)))\<lparr>job_PodSpec := spec\<rparr>)"
    using decorated [OF assms(1)] by blast
  show ?thesis
    unfolding job' using assms(2-5) label_keys_differ
    by (cases "ac_Assignee config = ''''"; cases "taskPhaseString (se_lib env) task = ''''")
      (simp_all add: spawnedFor_def named_def unfinished_def IsJobFailed_def IsJobSucceeded_def applyActiveDeadlineSeconds_def
        applyTaskPhaseAnnotation_def applyAssigneeLabel_def applyTaskIDLabel_def update_conv')
qed

text \<open>
  C12: A spawn creates the Job that the other components look for. When the spawner returns a name, either a
  Job of that name was there already, or exactly one Job was added: in the namespace of the configuration,
  under that name, unfinished, with the labels of the task and its assignee, the annotation of the phase and
  the deadline of the configuration; and the next time the spawner is asked it reports the task as active.
\<close>

theorem spawned_job_is_found:
  assumes "spawner_world env jobs" and "run_state (SpawnJob env task config) w = (Some (Inr name), w')"
  shows "\<exists>ns. ResolveJobNamespace (se_namespace env) (ac_JobNamespace config) = Inr ns \<and>
    (list_ex (named ns name) (jobs w) \<and> jobs w' = jobs w \<or>
     (\<exists>job. jobs w' = jobs w @ [job] \<and> spawnedFor (se_lib env) task config ns name job \<and>
       (\<forall>w1 b w2. jobs w1 = jobs w' \<and> run_state (IsJobActive env ns (TaskIdentifier task)) w1 = (Inr b, w2) \<longrightarrow> b)))"
proof -
  obtain now w1 where now: "run_state (se_now env) w = (now, w1)" by fastforce
  have same: "jobs w1 = jobs w" using spawner_world.now_calm [OF assms(1)] now by (rule leavesD)
  obtain ns where ns: "ResolveJobNamespace (se_namespace env) (ac_JobNamespace config) = Inr ns"
    using assms(2) by (auto simp: SpawnJob_def split: sum.splits)
  let ?name = "jobNameFromTask (se_unicode env) (lib_Assignee (se_lib env) (Frontmatter task)) (TaskIdentifier task) now"
  note run = assms(2) [unfolded SpawnJob_def ns sum.case Let_def run_state_bind now prod.case split_conv]
  obtain vars where vars: "buildJobEnvBuilder env task config = Inr vars"
    using run by (cases "buildJobEnvBuilder env task config") simp_all
  obtain vols where vols: "applyVolumeMounts config = Inr vols"
    using run by (cases "applyVolumeMounts config") (simp_all add: vars)
  obtain builtJob where parts: "se_Build env (jobBuilder env task config ns ?name vars vols) = Inr builtJob"
    using run by (cases "se_Build env (jobBuilder env task config ns ?name vars vols)") (simp_all add: vars vols)
  obtain job where job: "decorateJob env task config builtJob = Some job"
    using run by (cases "decorateJob env task config builtJob") (simp_all add: vars vols parts)
  obtain err where "run_state (createJob env ns job) w1 = (err, w')" and "err = None" and name: "name = ?name"
    using run by (auto simp: vars vols parts job split: prod.splits option.splits)
  then have create: "run_state (createJob env ns job) w1 = (None, w')" by simp
  have spawned: "spawnedFor (se_lib env) task config ns name job"
    using spawner_world.built [OF assms(1) parts]
    by (intro decorated_spawnedFor [OF job]) (auto simp: jobBuilder_def named_def name)
  obtain r where made: "run_state (api_Create (se_api env) ns job) w1 = (r, w')"
      and r: "r = None \<or> (\<exists>e. r = Some e \<and> api_reason e = ''AlreadyExists'')"
    using create by (auto simp: createJob_def split: prod.splits option.splits if_splits)
  note api = spawner_world.axioms(1) [OF assms(1)]
  have active: b if "jobs w2 = jobs w @ [job]" "run_state (IsJobActive env ns (TaskIdentifier task)) w2 = (Inr b, w3)" for w2 b w3
  proof -
    obtain x w4 where listed: "run_state (api_List (se_api env) ns (taskIDLabelKey, TaskIdentifier task)) w2 = (x, w4)" by fastforce
    with that(2) job_api.list_jobs [OF api listed] have "b = list_ex unfinished (filter (labelled ns (taskIDLabelKey, TaskIdentifier task)) (jobs w2))"
      by (auto simp: IsJobActive_def split: sum.splits)
    with that(1) spawned show b by (auto simp: spawnedFor_def labelled_def named_def list_ex_iff)
  qed
  have "job_Name job = name" using spawned by (simp add: spawnedFor_def named_def)
  then consider (new) "jobs w' = jobs w @ [job]" | (old) "list_ex (named ns name) (jobs w)" "jobs w' = jobs w"
    using job_api.create_job [OF api made] r same by auto
  then show ?thesis
  proof cases
    case new
    with active have "\<forall>w1 b w2. jobs w1 = jobs w' \<and> run_state (IsJobActive env ns (TaskIdentifier task)) w1 = (Inr b, w2) \<longrightarrow> b"
      by auto
    with new ns spawned show ?thesis by blast
  qed (use ns in blast)
qed

section \<open>Questions about the Jobs of a cluster\<close>

text \<open>The tasks of a list of Jobs, as the map of \<open>ListActiveJobs\<close> has them.\<close>

lemma activeMap:
  "(map_of (fold noteActive js []) t = Some True \<longleftrightarrow>
     t \<noteq> '''' \<and> (\<exists>job \<in> set js. unfinished job \<and> map_of (job_Labels job) taskIDLabelKey = Some t)) \<and>
   card (dom (map_of (fold noteActive js []))) \<le> length (filter unfinished js)"
proof (induction js rule: rev_induct)
  case (snoc job js)
  let ?tid = "map_get (job_Labels job) taskIDLabelKey"
  have get: "?tid = t \<longleftrightarrow> map_of (job_Labels job) taskIDLabelKey = Some t" if "t \<noteq> ''''"
    using that by (auto simp: map_get_def split: option.split)
  have "card (insert ?tid (dom (map_of (fold noteActive js [])))) \<le> Suc (card (dom (map_of (fold noteActive js []))))"
    by (rule card_insert_le_m1) auto
  with snoc.IH get show ?case by (auto simp: noteActive_def [of job] Let_def update_conv')
qed simp

text \<open>A Job that is not over: no condition says so, no pod succeeded, and pods that failed leave another active.\<close>

definition still_running :: "Job \<Rightarrow> bool" where
  "still_running job \<longleftrightarrow>
     (\<forall>c \<in> set (job_Conditions job). jcn_Type c = ''Failed'' \<or> jcn_Type c = ''Complete'' \<longrightarrow> jcn_Status c \<noteq> ''True'') \<and>
     job_Succeeded job \<le> 0 \<and> (job_Failed job \<le> 0 \<or> job_Active job \<noteq> 0)"

lemma unfinished_still_running: "unfinished = still_running"
  by (auto simp: fun_eq_iff unfinished_def still_running_def IsJobFailed_def IsJobSucceeded_def failed_condition_def list_ex_iff)

text \<open>
  C15: The three readers of active Jobs agree. When the API answers, a task is in the listing of an assignee
  exactly if the namespace has a running Job with both labels; the check of one task says active exactly if
  the namespace has a running Job with the label of the task, so a task whose Jobs all carry the assignee is
  active exactly if it is listed; and the count of the assignee is the number of its running Jobs, never less
  than the number of listed tasks.
\<close>

theorem active_readers_agree:
  assumes "job_api (se_api env) jobs" and "assignee \<noteq> ''''" and "jobs w1 = jobs w2" and "jobs w2 = jobs w3"
    and "run_state (ListActiveJobs env ns assignee) w1 = (Inr m, w1')"
    and "run_state (IsJobActive env ns t) w2 = (Inr b, w2')"
    and "run_state (CountActiveJobs env ns assignee) w3 = (Inr n, w3')"
  shows "(map_of m t = Some True \<longleftrightarrow> t \<noteq> '''' \<and> (\<exists>job \<in> set (jobs w1). still_running job \<and>
      labelled ns (assigneeLabelKey, assignee) job \<and> labelled ns (taskIDLabelKey, t) job)) \<and>
    (b \<longleftrightarrow> (\<exists>job \<in> set (jobs w1). still_running job \<and> labelled ns (taskIDLabelKey, t) job)) \<and>
    (t \<noteq> '''' \<and> (\<forall>job \<in> set (jobs w1). labelled ns (taskIDLabelKey, t) job \<longrightarrow>
       labelled ns (assigneeLabelKey, assignee) job) \<longrightarrow> (b \<longleftrightarrow> map_of m t = Some True)) \<and>
    n = length (filter (\<lambda>job. labelled ns (assigneeLabelKey, assignee) job \<and> still_running job) (jobs w1)) \<and>
    card (dom (map_of m)) \<le> n"
proof -
  let ?mine = "filter (labelled ns (assigneeLabelKey, assignee)) (jobs w1)"
  have m: "m = fold noteActive ?mine []"
    using assms(5,2) job_api.list_jobs [OF assms(1), of ns "(assigneeLabelKey, assignee)" w1]
    by (auto simp: ListActiveJobs_def split: prod.splits sum.splits)
  have "b = list_ex unfinished (filter (labelled ns (taskIDLabelKey, t)) (jobs w1))"
    using assms(6,3) job_api.list_jobs [OF assms(1), of ns "(taskIDLabelKey, t)" w2]
    by (auto simp: IsJobActive_def split: prod.splits sum.splits)
  then have b: "b \<longleftrightarrow> (\<exists>job \<in> set (jobs w1). still_running job \<and> labelled ns (taskIDLabelKey, t) job)"
    unfolding unfinished_still_running by (auto simp: list_ex_iff)
  have n: "n = length (filter unfinished ?mine)"
    using assms(7,2,3,4) job_api.list_jobs [OF assms(1), of ns "(assigneeLabelKey, assignee)" w3]
    by (auto simp: CountActiveJobs_def split: prod.splits sum.splits)
  have listed: "map_of m t = Some True \<longleftrightarrow> t \<noteq> '''' \<and> (\<exists>job \<in> set (jobs w1). still_running job \<and>
      labelled ns (assigneeLabelKey, assignee) job \<and> labelled ns (taskIDLabelKey, t) job)"
    using activeMap [of ?mine t] unfolding m unfinished_still_running by (auto simp: labelled_def)
  have "card (dom (map_of m)) \<le> n" using activeMap [of ?mine t] unfolding m n by blast
  moreover have "n = length (filter (\<lambda>job. labelled ns (assigneeLabelKey, assignee) job \<and> still_running job) (jobs w1))"
    unfolding n unfinished_still_running by simp
  ultimately show ?thesis using listed b by auto
qed

section \<open>Deleting the Jobs of a task\<close>

definition lookups_leave :: "('w \<Rightarrow> Job list) \<Rightarrow> 'w kubeJobControl \<Rightarrow> bool" where
  "lookups_leave jobs c \<longleftrightarrow>
     (\<forall>view t. kc_view c = Some view \<longrightarrow> leaves jobs (view t)) \<and>
     (\<forall>res a t. kc_resolver c = Some res \<longrightarrow> leaves jobs (cr_Resolve res a) \<and> leaves jobs (cr_ResolveByTaskType res t a))"

lemma namespaceFor_leaves: "lookups_leave jobs c \<Longrightarrow> leaves jobs (namespaceFor c tid)"
  unfolding namespaceFor_def lookups_leave_def by (intro leaves_intros) auto

definition unique_names :: "Job list \<Rightarrow> bool" where
  "unique_names js \<longleftrightarrow> distinct (map (\<lambda>job. (job_Namespace job, job_Name job)) js)"

lemma unique_named:
  assumes "unique_names js" and "a \<in> set js" and "b \<in> set js" and "job_Namespace a = job_Namespace b" and "job_Name a = job_Name b"
  shows "a = b"
  using assms unfolding unique_names_def by (auto simp: distinct_map inj_on_def)

text \<open>
  C13: The fence removes the Jobs of its task and nothing else. When deleting the Jobs of a task returns no
  error, the cluster has exactly the Jobs left that do not carry the task's label in the namespace the task
  was placed in.
\<close>

theorem fence_deletes_exactly_its_jobs:
  assumes "job_api (kc_api c) jobs" and "lookups_leave jobs c" and "unique_names (jobs w)"
    and "run_state (control_DeleteJob c tid) w = (None, w')"
  shows "\<exists>ns w1. run_state (namespaceFor c tid) w = (ns, w1) \<and>
    jobs w' = filter (\<lambda>job. \<not> labelled ns (taskIDLabelKey, tid) job) (jobs w)"
proof -
  obtain ns w1 where place: "run_state (namespaceFor c tid) w = (ns, w1)" by fastforce
  have w1: "jobs w1 = jobs w" using namespaceFor_leaves [OF assms(2)] place by (rule leavesD)
  obtain r w2 where listed: "run_state (api_List (kc_api c) ns (taskIDLabelKey, tid)) w1 = (r, w2)" by fastforce
  with assms(4) place obtain js where r: "r = Inr js" and deleted: "run_state (deleteJobs c ns js) w2 = (None, w')"
    by (auto simp: control_DeleteJob_def jobsForTask_def split: sum.splits)
  have js: "js = filter (labelled ns (taskIDLabelKey, tid)) (jobs w)" and w2: "jobs w2 = jobs w"
    using job_api.list_jobs [OF assms(1) listed] r w1 by auto
  have "doomed ns js job \<longleftrightarrow> labelled ns (taskIDLabelKey, tid) job" if "job \<in> set (jobs w)" for job
  proof
    assume "doomed ns js job"
    then obtain j where j: "j \<in> set (jobs w)" "labelled ns (taskIDLabelKey, tid) j" "named ns (job_Name j) job"
      unfolding doomed_def js by auto
    with unique_named [OF assms(3) that j(1)] show "labelled ns (taskIDLabelKey, tid) job"
      by (auto simp: labelled_def named_def)
  next
    assume "labelled ns (taskIDLabelKey, tid) job"
    with that show "doomed ns js job" unfolding doomed_def js by (auto simp: labelled_def named_def)
  qed
  with job_api.deletes [OF assms(1) refl deleted] have "jobs w' = filter (\<lambda>job. \<not> labelled ns (taskIDLabelKey, tid) job) (jobs w)"
    by (simp add: w2 cong: filter_cong)
  with place show ?thesis by blast
qed

section \<open>A concrete cluster\<close>

text \<open>The API server as a list of Jobs.\<close>

definition listApi :: "Job list JobApi" where
  "listApi =
     \<lparr>api_List = (\<lambda>ns l. State (\<lambda>js. (Inr (filter (labelled ns l) js), js))),
      api_Create = (\<lambda>ns job. State (\<lambda>js.
        if job_Namespace job \<noteq> ns then (Some (ApiStatus ''BadRequest''), js)
        else if list_ex (named ns (job_Name job)) js then (Some (ApiStatus ''AlreadyExists''), js)
        else (None, js @ [job]))),
      api_Get = (\<lambda>ns name. State (\<lambda>js. (if list_ex (named ns name) js then None else Some (ApiStatus ''NotFound''), js))),
      api_Delete = (\<lambda>ns name. State (\<lambda>js.
        if list_ex (named ns name) js then (None, filter (\<lambda>job. \<not> named ns name job) js)
        else (Some (ApiStatus ''NotFound''), js)))\<rparr>"

interpretation la: job_api listApi "\<lambda>js. js"
  by unfold_locales (auto simp: listApi_def api_reason_def split: if_splits)

definition plainBuild :: "JobBuilder \<Rightarrow> go_error + Job" where
  "plainBuild b = Inr
     \<lparr>job_Namespace = jb_Namespace b, job_Name = jb_Name b, job_Labels = [(''app'', jb_App b)], job_Annotations = [],
      job_TemplateLabels = [],
      job_PodSpec = \<lparr>ps_Containers = [\<lparr>ctr_Name = cb_Name (jb_Container b), ctr_Image = cb_Image (jb_Container b),
          ctr_Env = cb_Env (jb_Container b), ctr_EnvFrom = [], ctr_Requests = [], ctr_Limits = [],
          ctr_VolumeMounts = cb_VolumeMounts (jb_Container b)\<rparr>],
        ps_Volumes = jb_Volumes b, ps_RestartPolicy = jb_RestartPolicy b, ps_ImagePullSecrets = jb_ImagePullSecrets b,
        ps_PriorityClassName = '''', ps_NodeSelector = [], ps_Tolerations = [], ps_FSGroup = None\<rparr>,
      job_BackoffLimit = Some (jb_BackoffLimit b), job_TTLSecondsAfterFinished = Some (jb_TTLSecondsAfterFinished b),
      job_ActiveDeadlineSeconds = None, job_Conditions = [], job_CompletionTime = None,
      job_Succeeded = 0, job_Failed = 0, job_Active = 0\<rparr>"

definition laEnv :: "Job list spawner_env" where
  "laEnv =
     \<lparr>se_lib = plainLib, se_unicode = plainUnicode, se_api = listApi, se_namespace = ''agents'', se_kafkaBrokers = ''kafka'',
      se_branch = ''dev'', se_topicPrefix = '''', se_now = ret hour, se_jobTTLSecondsAfterFinished = 600,
      se_jobKafkaClientCertSecret = '''', se_jobKafkaCaCertSecret = '''', se_jobFsGroup = 0,
      se_Build = plainBuild, se_yamlMarshal = (\<lambda>_. Inr ''''), se_parseQuantity = Some\<rparr>"

interpretation ls: spawner_world laEnv "\<lambda>js. js"
proof -
  have "se_api laEnv = listApi" by (simp add: laEnv_def)
  with la.job_api_axioms have "job_api (se_api laEnv) (\<lambda>js. js)" by simp
  then show "spawner_world laEnv (\<lambda>js. js)"
    by (rule spawner_world.intro) (unfold_locales, auto simp: laEnv_def plainBuild_def leaves_intros)
qed

definition laTask :: Task where
  "laTask = \<lparr>TaskIdentifier = ''t1'', Vault = ''personal'', Frontmatter = [], Content = ''''\<rparr>"

definition laConfig :: AgentConfiguration where
  "laConfig =
     \<lparr>ac_Assignee = ''claude'', ac_Type = ''job'', ac_TaskType = ''code'', ac_TaskTypes = None, ac_DefaultForTaskTypes = None,
      ac_Image = ''agent:dev'', ac_Env = None, ac_VolumeClaim = '''', ac_VolumeMountPath = '''', ac_ConfigMapName = '''',
      ac_ConfigMapMountPath = '''', ac_ConfigMapItems = None, ac_SecretName = '''', ac_Resources = None,
      ac_MaxConcurrentJobs = 0, ac_PriorityClassName = '''', ac_NodeSelector = None, ac_Tolerations = None,
      ac_JobNamespace = '''', ac_ImagePullSecret = '''', ac_Trigger = None, ac_RerunOnLostClaim = None,
      ac_ZombieJobTimeoutSeconds = None\<rparr>"

theorem spawned_job_is_found_witness:
  "\<exists>name job. run_state (SpawnJob laEnv laTask laConfig) [] = (Some (Inr name), [job]) \<and>
     spawnedFor plainLib laTask laConfig ''agents'' name job"
proof -
  have ns: "ResolveJobNamespace (se_namespace laEnv) (ac_JobNamespace laConfig) = Inr ''agents''"
    and vols: "applyVolumeMounts laConfig = Inr ([], [])"
    and fields: "ac_SecretName laConfig = ''''" "ac_Resources laConfig = None" "se_api laEnv = listApi" "se_now laEnv = ret hour"
      "se_Build laEnv = plainBuild" "se_jobKafkaClientCertSecret laEnv = ''''"
    by (simp_all add: laEnv_def laConfig_def ResolveJobNamespace_def applyVolumeMounts_def)
  obtain vars where vars: "buildJobEnvBuilder laEnv laTask laConfig = Inr vars"
    by (simp add: buildJobEnvBuilder_def renderTaskContent_def laTask_def maxEnvStringBytes_def taskContentEnvKey_def)
  have "\<exists>job'. decorateJob laEnv laTask laConfig job = Some job' \<and> job_Namespace job' = job_Namespace job" for job
    by (simp add: decorateJob_def applySecretEnvFrom_def applyEphemeralStorage_def applyKafkaCertVolumes_def fields
      applyActiveDeadlineSeconds_def applyScheduling_def applyTaskPhaseAnnotation_def applyAssigneeLabel_def applyTaskIDLabel_def Let_def)
  then obtain dec where dec: "decorateJob laEnv laTask laConfig job = Some (dec job)" "job_Namespace (dec job) = job_Namespace job" for job
    by metis
  obtain name js where run: "run_state (SpawnJob laEnv laTask laConfig) [] = (Some (Inr name), js)"
    by (simp add: SpawnJob_def ns vars vols fields plainBuild_def dec createJob_def listApi_def jobBuilder_def Let_def)
  obtain job where "js = [job]" "spawnedFor (se_lib laEnv) laTask laConfig ''agents'' name job"
    using spawned_job_is_found [OF ls.spawner_world_axioms run] ns by auto
  with run show ?thesis by (auto simp: laEnv_def)
qed

definition laControl :: "Job list kubeJobControl" where
  "laControl = \<lparr>kc_lib = plainLib, kc_api = listApi, kc_namespace = ''agents'', kc_resolver = None, kc_view = None\<rparr>"

definition laJob :: Job where
  "laJob =
     \<lparr>job_Namespace = ''agents'', job_Name = ''job-1'', job_Labels = [(taskIDLabelKey, ''t1'')], job_Annotations = [],
      job_TemplateLabels = [],
      job_PodSpec = \<lparr>ps_Containers = [], ps_Volumes = [], ps_RestartPolicy = ''Never'', ps_ImagePullSecrets = [],
        ps_PriorityClassName = '''', ps_NodeSelector = [], ps_Tolerations = [], ps_FSGroup = None\<rparr>,
      job_BackoffLimit = Some 0, job_TTLSecondsAfterFinished = None, job_ActiveDeadlineSeconds = None,
      job_Conditions = [], job_CompletionTime = None, job_Succeeded = 0, job_Failed = 0, job_Active = 1\<rparr>"

definition laRunning :: Job where
  "laRunning = laJob\<lparr>job_Labels := [(taskIDLabelKey, ''t1''), (assigneeLabelKey, ''claude'')]\<rparr>"

definition laFinished :: Job where
  "laFinished = laJob\<lparr>job_Name := ''job-2'', job_Labels := [(taskIDLabelKey, ''t2''), (assigneeLabelKey, ''claude'')],
     job_Conditions := [\<lparr>jcn_Type = ''Complete'', jcn_Status = ''True'', jcn_Reason = '''', jcn_LastTransitionTime = 0\<rparr>]\<rparr>"

theorem active_readers_agree_witness:
  "run_state (ListActiveJobs laEnv ''agents'' ''claude'') [laRunning, laFinished] = (Inr [(''t1'', True)], [laRunning, laFinished]) \<and>
   run_state (IsJobActive laEnv ''agents'' ''t1'') [laRunning, laFinished] = (Inr True, [laRunning, laFinished]) \<and>
   run_state (IsJobActive laEnv ''agents'' ''t2'') [laRunning, laFinished] = (Inr False, [laRunning, laFinished]) \<and>
   run_state (CountActiveJobs laEnv ''agents'' ''claude'') [laRunning, laFinished] = (Inr 1, [laRunning, laFinished])"
proof -
  let ?w = "[laRunning, laFinished]"
  have api: "job_api (se_api laEnv) (\<lambda>js. js)" using la.job_api_axioms by (simp add: laEnv_def)
  have keys: "taskIDLabelKey \<noteq> assigneeLabelKey" by code_simp
  have jobs: "still_running laRunning" "\<not> still_running laFinished"
    "labelled ''agents'' (assigneeLabelKey, ''claude'') laRunning" "labelled ''agents'' (assigneeLabelKey, ''claude'') laFinished"
    "labelled ''agents'' (taskIDLabelKey, ''t1'') laRunning" "\<not> labelled ''agents'' (taskIDLabelKey, ''t1'') laFinished"
    "labelled ''agents'' (taskIDLabelKey, ''t2'') laFinished" "\<not> labelled ''agents'' (taskIDLabelKey, ''t2'') laRunning"
    using keys by (simp_all add: still_running_def labelled_def laRunning_def laFinished_def laJob_def)
  obtain b1 b2 n where runs:
      "run_state (IsJobActive laEnv ''agents'' ''t1'') ?w = (Inr b1, ?w)"
      "run_state (IsJobActive laEnv ''agents'' ''t2'') ?w = (Inr b2, ?w)"
      "run_state (CountActiveJobs laEnv ''agents'' ''claude'') ?w = (Inr n, ?w)"
    by (simp add: IsJobActive_def CountActiveJobs_def laEnv_def listApi_def)
  have list: "run_state (ListActiveJobs laEnv ''agents'' ''claude'') ?w = (Inr [(''t1'', True)], ?w)"
    using jobs by (simp add: ListActiveJobs_def laEnv_def listApi_def noteActive_def unfinished_still_running map_get_def)
      (simp add: laRunning_def)
  have "b1" "n = 1"
    using active_readers_agree [OF api _ refl refl list runs(1,3)] jobs by simp_all
  moreover have "\<not> b2"
    using active_readers_agree [OF api _ refl refl list runs(2,3)] jobs by simp
  ultimately show ?thesis using runs list by simp
qed

theorem fence_deletes_exactly_its_jobs_witness:
  "unique_names [laJob] \<and> snd (run_state (control_DeleteJob laControl ''t1'') [laJob]) = []"
proof -
  have job: "labelled ''agents'' (taskIDLabelKey, ''t1'') laJob" by (simp add: labelled_def laJob_def)
  have api: "job_api (kc_api laControl) (\<lambda>js. js)" and calm: "lookups_leave (\<lambda>js. js) laControl"
    and unique: "unique_names [laJob]" and place: "run_state (namespaceFor laControl ''t1'') [laJob] = (''agents'', [laJob])"
    using la.job_api_axioms by (simp_all add: laControl_def lookups_leave_def unique_names_def namespaceFor_def)
  have "run_state (control_DeleteJob laControl ''t1'') [laJob] = (None, [])"
    using place job by (simp add: control_DeleteJob_def jobsForTask_def) (simp add: laControl_def listApi_def named_def laJob_def)
  from fence_deletes_exactly_its_jobs [OF api calm unique this] this job unique place show ?thesis by auto
qed

end
