(* ===== verification/Service_Reconciler.thy ===== *)
theory Service_Reconciler
  imports Job_Spawner Handler_Frames
begin

text \<open>
  Service agents (\<^verbatim>\<open>pkg/spawner/service_reconciler.go\<close> and \<^verbatim>\<open>service_reconcile_loop.go\<close>): the StatefulSet of a
  configuration of type service, its removal, and the pass over all configurations.

  Parameters: the StatefulSet builder of the k8s library (a function of what the code sets on it), its
  deployer, and the reader of StatefulSets.
\<close>

section \<open>StatefulSets\<close>

record OwnerReference =
  or_APIVersion :: string
  or_Kind :: string
  or_Name :: string

record Probe =
  pr_Path :: string
  pr_Port :: string
  pr_InitialDelaySeconds :: int
  pr_PeriodSeconds :: int
  pr_TimeoutSeconds :: int
  pr_FailureThreshold :: int
  pr_SuccessThreshold :: int

record StatefulSet =
  st_Namespace :: string
  st_Name :: string
  st_Labels :: "(string, string) gomap"
  st_Owners :: "OwnerReference list"
  st_Replicas :: int
  st_Containers :: "Container list"
  st_Probe :: "Probe option"
  st_ImagePullSecrets :: "string list"
  st_PriorityClassName :: string
  st_StorageClassNames :: "string option list"
  st_WhenDeleted :: "string option"

record StatefulSetBuilder =
  sb_Container :: ContainerBuilder
  sb_Ports :: "(string \<times> int) list"
  sb_Probe :: Probe
  sb_Name :: string
  sb_Namespace :: string
  sb_Replicas :: int
  sb_DatadirSize :: string
  sb_StorageClass :: string
  sb_ImagePullSecrets :: "string list"
  sb_Labels :: "(string, string) gomap"

record 'w serviceReconciler =
  sr_Deploy :: "StatefulSet \<Rightarrow> ('w, go_error option) state"
  sr_Undeploy :: "string \<Rightarrow> string \<Rightarrow> ('w, go_error option) state"
  sr_Get :: "string \<Rightarrow> ('w, go_error + StatefulSet) state"
  sr_Build :: "StatefulSetBuilder \<Rightarrow> go_error + StatefulSet"
  sr_namespace :: string
  sr_storageClass :: string

definition serviceDatadirName :: string where "serviceDatadirName = ''datadir''"
definition serviceDefaultMountPath :: string where "serviceDefaultMountPath = ''/home/pi/.pi''"
definition serviceStorageSize :: string where "serviceStorageSize = ''1Gi''"
definition agentTypeEnvKey :: string where "agentTypeEnvKey = ''AGENT_TYPE''"
definition serviceReadinessPortName :: string where "serviceReadinessPortName = ''http''"
definition serviceReadinessPort :: int where "serviceReadinessPort = 9090"
definition serviceReadinessPath :: string where "serviceReadinessPath = ''/readiness''"
definition SchemeGroupVersion :: string where "SchemeGroupVersion = ''agent.benjamin-borbe.de/v1''"

section \<open>Rendering\<close>

definition agentTypeOrDefault :: "string \<Rightarrow> string" where
  "agentTypeOrDefault t = (if t = '''' then AgentTypeJob else t)"

definition serviceReadinessProbe :: Probe where
  "serviceReadinessProbe =
     \<lparr>pr_Path = serviceReadinessPath, pr_Port = serviceReadinessPortName, pr_InitialDelaySeconds = 2, pr_PeriodSeconds = 6,
      pr_TimeoutSeconds = 6, pr_FailureThreshold = 2, pr_SuccessThreshold = 1\<rparr>"

definition buildServiceEnvBuilder :: "AgentConfiguration \<Rightarrow> (string \<times> string) list" where
  "buildServiceEnvBuilder resolved =
     (let env = (case ac_Env resolved of None \<Rightarrow> [] | Some m \<Rightarrow> m) in
      (agentTypeEnvKey, agentTypeOrDefault (ac_Type resolved)) #
      map (\<lambda>key. (key, map_get env key)) (sort (map fst env)))"

definition applyServiceSecretEnvFrom :: "AgentConfiguration \<Rightarrow> StatefulSet \<Rightarrow> StatefulSet" where
  "applyServiceSecretEnvFrom resolved st =
     (if ac_SecretName resolved = '''' then st
      else (case st_Containers st of
              [] \<Rightarrow> st
            | c # cs \<Rightarrow> st\<lparr>st_Containers := c\<lparr>ctr_EnvFrom := ctr_EnvFrom c @ [ac_SecretName resolved]\<rparr> # cs\<rparr>))"

definition statefulSetBuilder :: "'w serviceReconciler \<Rightarrow> Config \<Rightarrow> AgentConfiguration \<Rightarrow> StatefulSetBuilder" where
  "statefulSetBuilder r config resolved =
     (let mountPath = (if ac_VolumeMountPath resolved = '''' then serviceDefaultMountPath else ac_VolumeMountPath resolved) in
      \<lparr>sb_Container = applyCPUMemoryResources resolved
         \<lparr>cb_Name = ''agent'', cb_Image = ac_Image resolved, cb_Env = buildServiceEnvBuilder resolved, cb_CpuRequest = None,
          cb_CpuLimit = None, cb_MemoryRequest = None, cb_MemoryLimit = None,
          cb_VolumeMounts = [\<lparr>vm_Name = serviceDatadirName, vm_MountPath = mountPath\<rparr>]\<rparr>,
       sb_Ports = [(serviceReadinessPortName, serviceReadinessPort)], sb_Probe = serviceReadinessProbe,
       sb_Name = cfg_Name config, sb_Namespace = sr_namespace r, sb_Replicas = 1, sb_DatadirSize = serviceStorageSize,
       sb_StorageClass = sr_storageClass r, sb_ImagePullSecrets = [imagePullSecretName resolved],
       sb_Labels = [(assigneeLabelKey, ac_Assignee resolved)]\<rparr>)"

definition buildStatefulSet :: "'w serviceReconciler \<Rightarrow> Config \<Rightarrow> AgentConfiguration \<Rightarrow> go_error + StatefulSet" where
  "buildStatefulSet r config resolved =
     (case sr_Build r (statefulSetBuilder r config resolved) of
        Inl e \<Rightarrow> Inl (Wrapped ''build statefulset for config'' e)
      | Inr st \<Rightarrow>
          (let st = (if sr_storageClass r = '''' \<and> st_StorageClassNames st \<noteq> []
                 then st\<lparr>st_StorageClassNames := None # tl (st_StorageClassNames st)\<rparr> else st);
               st = (if ac_PriorityClassName resolved \<noteq> '''' then st\<lparr>st_PriorityClassName := ac_PriorityClassName resolved\<rparr> else st);
               st = st\<lparr>st_Owners := [\<lparr>or_APIVersion = SchemeGroupVersion, or_Kind = ''Config'', or_Name = cfg_Name config\<rparr>],
                       st_WhenDeleted := Some ''Delete''\<rparr> in
           Inr (applyServiceSecretEnvFrom resolved st)))"

section \<open>Deploying and removing\<close>

definition ReconcileService :: "'w serviceReconciler \<Rightarrow> Config \<Rightarrow> AgentConfiguration \<Rightarrow> ('w, go_error option) state" where
  "ReconcileService r config resolved =
     (if agentTypeOrDefault (ac_Type resolved) \<noteq> AgentTypeService then ret None
      else
        (case buildStatefulSet r config resolved of
           Inl e \<Rightarrow> ret (Some e)
         | Inr st \<Rightarrow>
             do { err \<leftarrow> sr_Deploy r st; ret (map_option (Wrapped ''deploy statefulset'') err) }))"

definition ownedByConfig :: "StatefulSet \<Rightarrow> bool" where
  "ownedByConfig st \<longleftrightarrow> list_ex (\<lambda>owner. or_Kind owner = ''Config'' \<and> or_APIVersion owner = SchemeGroupVersion) (st_Owners st)"

definition UndeployService :: "'w serviceReconciler \<Rightarrow> string \<Rightarrow> ('w, go_error option) state" where
  "UndeployService r name =
     do { existing \<leftarrow> sr_Get r name;
          case existing of
            Inl e \<Rightarrow> if api_reason e = ''NotFound'' then ret None else ret (Some (Wrapped ''get statefulset'' e))
          | Inr st \<Rightarrow>
              if \<not> ownedByConfig st then ret None
              else do { err \<leftarrow> sr_Undeploy r (sr_namespace r) name; ret (map_option (Wrapped ''undeploy statefulset'') err) } }"

section \<open>The pass\<close>

definition reconcileConfig :: "'w serviceReconciler \<Rightarrow> (string \<Rightarrow> ('w, go_error + AgentConfiguration) state) \<Rightarrow> Config \<Rightarrow>
    ('w, go_error option) state" where
  "reconcileConfig r resolve config =
     do { resolved \<leftarrow> resolve (sp_Assignee (cfg_Spec config));
          case resolved of
            Inl e \<Rightarrow> ret (Some (Wrapped ''resolve config'' e))
          | Inr res \<Rightarrow> do { err \<leftarrow> ReconcileService r config res; ret (map_option (Wrapped ''reconcile config'') err) } }"

record passCounts =
  pc_services :: nat
  pc_undeployed :: nat
  pc_failures :: "go_error list"

text \<open>The loop over the configurations; \<open>None\<close> when the context is done at the start of an iteration.\<close>

fun servicePass :: "'w serviceReconciler \<Rightarrow> (string \<Rightarrow> ('w, go_error + AgentConfiguration) state) \<Rightarrow> ('w \<Rightarrow> bool) \<Rightarrow>
    Config list \<Rightarrow> passCounts \<Rightarrow> ('w, passCounts option) state" where
  "servicePass r resolve done [] c = ret (Some c)"
| "servicePass r resolve done (config # configs) c =
     do { cancelled \<leftarrow> gets done;
          if cancelled then ret None
          else if agentTypeOrDefault (sp_Type (cfg_Spec config)) \<noteq> AgentTypeService then
            do { err \<leftarrow> UndeployService r (cfg_Name config);
                 case err of
                   Some e \<Rightarrow> servicePass r resolve done configs (c\<lparr>pc_failures := pc_failures c @ [e]\<rparr>)
                 | None \<Rightarrow> servicePass r resolve done configs (c\<lparr>pc_undeployed := pc_undeployed c + 1\<rparr>) }
          else
            do { err \<leftarrow> reconcileConfig r resolve config;
                 let c = c\<lparr>pc_services := pc_services c + 1\<rparr>;
                 case err of
                   Some e \<Rightarrow> servicePass r resolve done configs (c\<lparr>pc_failures := pc_failures c @ [e]\<rparr>)
                 | None \<Rightarrow> servicePass r resolve done configs c } }"

text \<open>The number of configurations the error of a pass reports.\<close>

definition reportedTotal :: "passCounts \<Rightarrow> nat" where
  "reportedTotal c = pc_services c + pc_undeployed c + length (pc_failures c)"

definition service_ReconcileOnce :: "'w serviceReconciler \<Rightarrow> (string \<Rightarrow> ('w, go_error + AgentConfiguration) state) \<Rightarrow> ('w \<Rightarrow> bool) \<Rightarrow>
    ('w, go_error + Config list) state \<Rightarrow> ('w, go_error option) state" where
  "service_ReconcileOnce r resolve done provider =
     do { configs \<leftarrow> provider;
          case configs of
            Inl e \<Rightarrow> ret (Some (Wrapped ''list agent configs'' e))
          | Inr cfgs \<Rightarrow>
              do { res \<leftarrow> servicePass r resolve done cfgs \<lparr>pc_services = 0, pc_undeployed = 0, pc_failures = []\<rparr>;
                   ret (case res of
                       None \<Rightarrow> Some (Wrapped ''service reconcile cancelled'' ContextDone)
                     | Some c \<Rightarrow>
                         (case pc_failures c of
                            [] \<Rightarrow> None
                          | e # _ \<Rightarrow> Some (Wrapped (''reconcile '' @ itoa (int (length (pc_failures c))) @ '' of '' @
                              itoa (int (reportedTotal c)) @ '' configs failed'') e))) } }"

lemma find_app: "find P (xs @ ys) = (case find P xs of None \<Rightarrow> find P ys | Some x \<Rightarrow> Some x)"
  by (induction xs) auto

section \<open>The contract with the cluster\<close>

definition stNamed :: "string \<Rightarrow> StatefulSet \<Rightarrow> bool" where
  "stNamed name st \<longleftrightarrow> st_Name st = name"

text \<open>The StatefulSets of the reconciler's namespace.\<close>

locale statefulset_api =
  fixes r :: "'w serviceReconciler" and sets :: "'w \<Rightarrow> StatefulSet list"
  assumes get_set: "run_state (sr_Get r name) w = (got, w') \<Longrightarrow> sets w' = sets w \<and>
      (\<forall>st. got = Inr st \<longrightarrow> find (stNamed name) (sets w) = Some st) \<and>
      (\<forall>e. got = Inl e \<and> api_reason e = ''NotFound'' \<longrightarrow> find (stNamed name) (sets w) = None)"
    and deploy_set: "run_state (sr_Deploy r st) w = (None, w') \<Longrightarrow> find (stNamed (st_Name st)) (sets w) = None \<Longrightarrow>
      sets w' = sets w @ [st]"
    and undeploy_set: "run_state (sr_Undeploy r ns name) w = (None, w') \<Longrightarrow> sets w' = filter (\<lambda>st. \<not> stNamed name st) (sets w)"
    and built_set: "sr_Build r b = Inr st \<Longrightarrow> st_Name st = sb_Name b"
begin

lemma deployed_owned: "buildStatefulSet r config resolved = Inr st \<Longrightarrow> st_Name st = cfg_Name config \<and> ownedByConfig st"
  using built_set [of "statefulSetBuilder r config resolved"]
  by (auto simp: buildStatefulSet_def statefulSetBuilder_def applyServiceSecretEnvFrom_def ownedByConfig_def Let_def
    split: sum.splits list.splits if_splits)

text \<open>What a removal that returns no error did.\<close>

lemma undeploy_outcome:
  assumes "run_state (UndeployService r name) w = (None, w')"
  shows "(\<exists>st. find (stNamed name) (sets w) = Some st \<and> ownedByConfig st \<and> sets w' = filter (\<lambda>st. \<not> stNamed name st) (sets w)) \<or>
    sets w' = sets w \<and> (\<forall>st. find (stNamed name) (sets w) = Some st \<longrightarrow> \<not> ownedByConfig st)"
proof -
  obtain got w1 where get: "run_state (sr_Get r name) w = (got, w1)" by fastforce
  note seen = get_set [OF get]
  show ?thesis
  proof (cases got)
    case (Inl e)
    with assms seen get show ?thesis by (auto simp: UndeployService_def split: if_splits)
  next
    case (Inr st)
    show ?thesis
    proof (cases "ownedByConfig st")
      case True
      then have "run_state (sr_Undeploy r (sr_namespace r) name) w1 = (None, w')"
        using assms get Inr by (auto simp: UndeployService_def split: prod.splits)
      from undeploy_set [OF this] seen Inr True show ?thesis by auto
    next
      case False
      with assms get Inr seen show ?thesis by (auto simp: UndeployService_def)
    qed
  qed
qed

end

section \<open>Properties\<close>

text \<open>
  C25: A removal never touches a foreign workload and always finds its own. Removing the StatefulSet of a
  configuration without error removes the StatefulSet of that name exactly if one of its owner references is of
  kind Config and of the API version of the configurations, whichever Config it names; all other StatefulSets
  stay. The StatefulSet deployed for a configuration that had none carries such a reference, so removing it
  afterwards gives back the StatefulSets from before.
\<close>

theorem service_removed_iff_owned:
  assumes "statefulset_api r sets"
  shows "(run_state (UndeployService r name) w = (None, w') \<longrightarrow>
      sets w' = (case find (stNamed name) (sets w) of
          Some st \<Rightarrow>
            if \<exists>owner\<in>set (st_Owners st). or_Kind owner = ''Config'' \<and> or_APIVersion owner = SchemeGroupVersion
            then filter (\<lambda>st. \<not> stNamed name st) (sets w) else sets w
        | None \<Rightarrow> sets w)) \<and>
    (find (stNamed (cfg_Name config)) (sets w) = None \<and> agentTypeOrDefault (ac_Type resolved) = AgentTypeService \<and>
     run_state (ReconcileService r config resolved) w = (None, w1) \<and>
     run_state (UndeployService r (cfg_Name config)) w1 = (None, w2) \<longrightarrow> length (sets w1) = length (sets w) + 1 \<and> sets w2 = sets w)"
proof (rule conjI; rule impI)
  assume "run_state (UndeployService r name) w = (None, w')"
  from statefulset_api.undeploy_outcome [OF assms this]
  show "sets w' = (case find (stNamed name) (sets w) of
      Some st \<Rightarrow>
        if \<exists>owner\<in>set (st_Owners st). or_Kind owner = ''Config'' \<and> or_APIVersion owner = SchemeGroupVersion
        then filter (\<lambda>st. \<not> stNamed name st) (sets w) else sets w
    | None \<Rightarrow> sets w)"
    by (auto simp: ownedByConfig_def list_ex_iff split: option.split)
next
  assume lifecycle: "find (stNamed (cfg_Name config)) (sets w) = None \<and> agentTypeOrDefault (ac_Type resolved) = AgentTypeService \<and>
     run_state (ReconcileService r config resolved) w = (None, w1) \<and>
     run_state (UndeployService r (cfg_Name config)) w1 = (None, w2)"
  then have fresh: "find (stNamed (cfg_Name config)) (sets w) = None" and service: "agentTypeOrDefault (ac_Type resolved) = AgentTypeService"
    and up: "run_state (ReconcileService r config resolved) w = (None, w1)"
    and down: "run_state (UndeployService r (cfg_Name config)) w1 = (None, w2)" by blast+
  obtain st where built: "buildStatefulSet r config resolved = Inr st" and deployed: "run_state (sr_Deploy r st) w = (None, w1)"
    using up service by (auto simp: ReconcileService_def split: sum.splits prod.splits)
  note own = statefulset_api.deployed_owned [OF assms built]
  have sets: "sets w1 = sets w @ [st]"
    using statefulset_api.deploy_set [OF assms deployed] own fresh by simp
  have none: "\<not> stNamed (cfg_Name config) x" if "x \<in> set (sets w)" for x using fresh that by (auto simp: find_None_iff)
  have "find (stNamed (cfg_Name config)) (sets w1) = Some st"
    using fresh own by (simp add: sets stNamed_def find_app)
  with statefulset_api.undeploy_outcome [OF assms down] own have "sets w2 = filter (\<lambda>st. \<not> stNamed (cfg_Name config) st) (sets w1)"
    by auto
  with own none show "length (sets w1) = length (sets w) + 1 \<and> sets w2 = sets w"
    by (simp add: sets stNamed_def filter_id_conv)
qed

text \<open>
  Rendering does not depend on the order in which Go iterates over the environment of a configuration.
\<close>

lemma service_env_deterministic:
  assumes "ac_Type a = ac_Type b" and "ac_Env a = Some m" and "ac_Env b = Some n"
    and "distinct (map fst m)" and "distinct (map fst n)" and "map_of m = map_of n"
  shows "buildServiceEnvBuilder a = buildServiceEnvBuilder b"
proof -
  have "set (map fst m) = set (map fst n)" using assms(6) dom_map_of_conv_image_fst [of m] dom_map_of_conv_image_fst [of n] by simp
  then have "sort (map fst m) = sort (map fst n)"
    using assms(4,5) by (intro sorted_distinct_set_unique) auto
  then show ?thesis using assms(1,6) by (simp add: buildServiceEnvBuilder_def assms(2,3) map_get_def)
qed

lemma servicePass_counts:
  assumes "\<forall>cfg \<in> set cfgs. agentTypeOrDefault (sp_Type (cfg_Spec cfg)) = AgentTypeService"
  shows "\<exists>c' w'. run_state (servicePass r resolve (\<lambda>_. False) cfgs c) w = (Some c', w') \<and>
    pc_services c' = pc_services c + length cfgs \<and> pc_undeployed c' = pc_undeployed c"
  using assms
proof (induction cfgs arbitrary: c w)
  case (Cons cfg cfgs)
  obtain err w1 where one: "run_state (reconcileConfig r resolve cfg) w = (err, w1)" by fastforce
  let ?c = "c\<lparr>pc_services := pc_services c + 1\<rparr>"
  have rest: "\<exists>c' w'. run_state (servicePass r resolve (\<lambda>_. False) cfgs d) w1 = (Some c', w') \<and>
      pc_services c' = pc_services d + length cfgs \<and> pc_undeployed c' = pc_undeployed d" for d
    using Cons by simp
  show ?case
    using Cons.prems one rest [of "?c\<lparr>pc_failures := pc_failures c @ [the err]\<rparr>"] rest [of ?c]
    by (cases err) (auto simp: Let_def)
qed auto

text \<open>
  A failing service does not stop a pass, and is counted twice. A pass over service configurations that is not
  cancelled handles every configuration whatever fails on the way; the number of configurations in the error it
  reports is the number of configurations plus the number of failures.
\<close>

theorem service_pass_counts_failures_twice:
  assumes "\<forall>cfg \<in> set cfgs. agentTypeOrDefault (sp_Type (cfg_Spec cfg)) = AgentTypeService"
  shows "\<exists>c w'. run_state (servicePass r resolve (\<lambda>_. False) cfgs \<lparr>pc_services = 0, pc_undeployed = 0, pc_failures = []\<rparr>) w = (Some c, w') \<and>
    pc_services c = length cfgs \<and> reportedTotal c = length cfgs + length (pc_failures c)"
proof -
  from servicePass_counts [OF assms] obtain c w' where
    "run_state (servicePass r resolve (\<lambda>_. False) cfgs \<lparr>pc_services = 0, pc_undeployed = 0, pc_failures = []\<rparr>) w = (Some c, w')"
    "pc_services c = length cfgs" "pc_undeployed c = 0" by fastforce
  then show ?thesis by (auto simp: reportedTotal_def)
qed

section \<open>A concrete cluster\<close>

definition plainSetBuild :: "StatefulSetBuilder \<Rightarrow> go_error + StatefulSet" where
  "plainSetBuild b = Inr
     \<lparr>st_Namespace = sb_Namespace b, st_Name = sb_Name b, st_Labels = sb_Labels b, st_Owners = [], st_Replicas = sb_Replicas b,
      st_Containers = [], st_Probe = Some (sb_Probe b), st_ImagePullSecrets = sb_ImagePullSecrets b, st_PriorityClassName = '''',
      st_StorageClassNames = [Some ''standard''], st_WhenDeleted = None\<rparr>"

definition listSets :: "StatefulSet list serviceReconciler" where
  "listSets =
     \<lparr>sr_Deploy = (\<lambda>st. State (\<lambda>sts. (None, filter (\<lambda>x. \<not> stNamed (st_Name st) x) sts @ [st]))),
      sr_Undeploy = (\<lambda>ns name. State (\<lambda>sts. (None, filter (\<lambda>x. \<not> stNamed name x) sts))),
      sr_Get = (\<lambda>name. State (\<lambda>sts. (case find (stNamed name) sts of
        Some st \<Rightarrow> Inr st | None \<Rightarrow> Inl (ApiStatus ''NotFound''), sts))),
      sr_Build = plainSetBuild, sr_namespace = ''agents'', sr_storageClass = ''''\<rparr>"

interpretation lset: statefulset_api listSets "\<lambda>sts. sts"
  by unfold_locales
    (auto simp: listSets_def plainSetBuild_def api_reason_def find_None_iff filter_id_conv split: option.splits)

definition svcConfig :: "string \<Rightarrow> Config" where
  "svcConfig name = (bareConfig name [])\<lparr>cfg_Spec := (cfg_Spec (bareConfig name []))\<lparr>sp_Type := AgentTypeService\<rparr>\<rparr>"

theorem service_pass_counts_failures_twice_witness:
  "\<exists>c w'. run_state (servicePass listSets (\<lambda>_. ret (Inl ErrConfigNotFound)) (\<lambda>_. False) [svcConfig ''pi'']
     \<lparr>pc_services = 0, pc_undeployed = 0, pc_failures = []\<rparr>) [] = (Some c, w') \<and> length (pc_failures c) = 1 \<and> reportedTotal c = 2"
proof -
  let ?run = "run_state (servicePass listSets (\<lambda>_. ret (Inl ErrConfigNotFound)) (\<lambda>_. False) [svcConfig ''pi'']
     \<lparr>pc_services = 0, pc_undeployed = 0, pc_failures = []\<rparr>) []"
  have service: "\<forall>cfg \<in> set [svcConfig ''pi'']. agentTypeOrDefault (sp_Type (cfg_Spec cfg)) = AgentTypeService"
    by (simp add: svcConfig_def agentTypeOrDefault_def AgentTypeService_def)
  have "\<exists>c. ?run = (Some c, []) \<and> length (pc_failures c) = 1"
    using service by (simp add: reconcileConfig_def Let_def)
  with service_pass_counts_failures_twice [OF service, of listSets "\<lambda>_. ret (Inl ErrConfigNotFound)" "[]"] show ?thesis by auto
qed

definition foreignSet :: StatefulSet where
  "foreignSet = \<lparr>st_Namespace = ''agents'', st_Name = ''other'', st_Labels = [], st_Owners = [], st_Replicas = 1, st_Containers = [],
      st_Probe = None, st_ImagePullSecrets = [], st_PriorityClassName = '''', st_StorageClassNames = [], st_WhenDeleted = None\<rparr>"

definition ownedSet :: StatefulSet where
  "ownedSet = foreignSet\<lparr>st_Name := ''pi'', st_Owners := [\<lparr>or_APIVersion = SchemeGroupVersion, or_Kind = ''Config'', or_Name = ''pi''\<rparr>]\<rparr>"

theorem service_removed_iff_owned_witness:
  "run_state (UndeployService listSets ''other'') [foreignSet, ownedSet] = (None, [foreignSet, ownedSet]) \<and>
   run_state (UndeployService listSets ''pi'') [foreignSet, ownedSet] = (None, [foreignSet])"
proof -
  note sets = stNamed_def foreignSet_def ownedSet_def ownedByConfig_def
  note removed = service_removed_iff_owned [OF lset.statefulset_api_axioms, THEN conjunct1, THEN mp]
  obtain w1 where foreign: "run_state (UndeployService listSets ''other'') [foreignSet, ownedSet] = (None, w1)"
    by (simp add: UndeployService_def listSets_def sets)
  obtain w2 where own: "run_state (UndeployService listSets ''pi'') [foreignSet, ownedSet] = (None, w2)"
    by (simp add: UndeployService_def listSets_def sets)
  from removed [OF foreign] have "w1 = [foreignSet, ownedSet]" by (simp add: sets)
  moreover from removed [OF own] have "w2 = [foreignSet]" by (simp add: sets)
  ultimately show ?thesis using foreign own by simp
qed

end
