(* ===== verification/Json_Model.thy ===== *)
theory Json_Model
  imports Go_Error
begin

text \<open>
  JSON as the HTTP clients use it (\<^verbatim>\<open>encoding/json\<close>). A document is a value of \<open>json\<close>; the text of a
  number is kept, since Go decides at the target type whether it fits. Reading text into a document and
  writing one as text are parameters (\<open>json_lib\<close>); what \<^verbatim>\<open>json.Unmarshal\<close> does with a document is
  modelled: members are matched to the fields of a struct by their exact name first and without case
  otherwise, later members overwrite earlier ones, unknown ones are ignored, \<open>null\<close> leaves a field as it
  is, and a member of the wrong type makes the whole call fail without stopping it.
\<close>

datatype json =
    JNull
  | JBool bool
  | JNum string
  | JStr string
  | JArr "json list"
  | JObj "(string \<times> json) list"

record json_lib =
  js_parse :: "string \<Rightarrow> json option"
  js_print :: "json \<Rightarrow> string"
  js_unicode :: unicode

text \<open>A field of a struct: its name on the wire and how a value is stored in it; the flag is false for a
  value of the wrong type.\<close>

type_synonym 'a json_field = "string \<times> (json \<Rightarrow> 'a \<Rightarrow> 'a \<times> bool)"

definition findField :: "unicode \<Rightarrow> 'a json_field list \<Rightarrow> string \<Rightarrow> 'a json_field option" where
  "findField U fs key =
     (case find (\<lambda>f. fst f = key) fs of
        Some f \<Rightarrow> Some f
      | None \<Rightarrow> find (\<lambda>f. equal_fold U (fst f) key) fs)"

fun setMembers :: "unicode \<Rightarrow> 'a json_field list \<Rightarrow> (string \<times> json) list \<Rightarrow> 'a \<Rightarrow> 'a \<times> bool" where
  "setMembers U fs [] v = (v, True)"
| "setMembers U fs ((key, j) # ms) v =
     (case findField U fs key of
        None \<Rightarrow> setMembers U fs ms v
      | Some f \<Rightarrow>
          (let (v1, ok) = snd f j v; (v2, rest) = setMembers U fs ms v1 in (v2, ok \<and> rest)))"

definition unmarshalStruct :: "unicode \<Rightarrow> 'a json_field list \<Rightarrow> json \<Rightarrow> 'a \<Rightarrow> 'a \<times> bool" where
  "unmarshalStruct U fs j v =
     (case j of JObj ms \<Rightarrow> setMembers U fs ms v | JNull \<Rightarrow> (v, True) | _ \<Rightarrow> (v, False))"

text \<open>A slice of structs, every element starting from the zero value.\<close>

definition unmarshalSlice :: "unicode \<Rightarrow> 'a json_field list \<Rightarrow> 'a \<Rightarrow> json \<Rightarrow> 'a list option" where
  "unmarshalSlice U fs zero j =
     (case j of
        JArr js \<Rightarrow>
          (let rs = map (\<lambda>x. unmarshalStruct U fs x zero) js
           in if list_all snd rs then Some (map fst rs) else None)
      | JNull \<Rightarrow> Some []
      | _ \<Rightarrow> None)"

definition string_field :: "string \<Rightarrow> (string \<Rightarrow> 'a \<Rightarrow> 'a) \<Rightarrow> 'a json_field" where
  "string_field name upd =
     (name, \<lambda>j v. case j of JStr s \<Rightarrow> (upd s v, True) | JNull \<Rightarrow> (v, True) | _ \<Rightarrow> (v, False))"

text \<open>A field of type \<^verbatim>\<open>*int\<close>: \<open>null\<close> clears it, a number must be a 64-bit integer literal.\<close>

definition int_pointer_field :: "string \<Rightarrow> (int option \<Rightarrow> 'a \<Rightarrow> 'a) \<Rightarrow> 'a json_field" where
  "int_pointer_field name upd =
     (name, \<lambda>j v. case j of
        JNull \<Rightarrow> (upd None v, True)
      | JNum lit \<Rightarrow> (case atoi lit of Some n \<Rightarrow> (upd (Some n) v, True) | None \<Rightarrow> (v, False))
      | _ \<Rightarrow> (v, False))"

text \<open>A field of type \<^verbatim>\<open>json.RawMessage\<close> keeps whatever it is given, \<open>null\<close> included.\<close>

definition raw_field :: "string \<Rightarrow> (json \<Rightarrow> 'a \<Rightarrow> 'a) \<Rightarrow> 'a json_field" where
  "raw_field name upd = (name, \<lambda>j v. (upd j v, True))"

definition names_field :: "unicode \<Rightarrow> 'a json_field list \<Rightarrow> string \<Rightarrow> string \<Rightarrow> bool" where
  "names_field U fs name key \<longleftrightarrow> (case findField U fs key of Some f \<Rightarrow> fst f = name | None \<Rightarrow> False)"

lemma unmarshalStruct_simps [simp]:
  "unmarshalStruct U fs (JObj ms) v = setMembers U fs ms v"
  "unmarshalStruct U fs JNull v = (v, True)"
  by (simp_all add: unmarshalStruct_def)

lemma findField_exact:
  "find (\<lambda>f. fst f = key) fs = Some f \<Longrightarrow> findField U fs key = Some f"
  by (simp add: findField_def)

lemma findField_mem: "findField U fs key = Some f \<Longrightarrow> f \<in> set fs"
  by (auto simp: findField_def find_Some_iff split: option.splits)

text \<open>Writing structs whose fields are strings, and reading them back.\<close>

definition stringMembers :: "(string \<times> string) list \<Rightarrow> json" where
  "stringMembers kvs = JObj (map (\<lambda>(k, s). (k, JStr s)) kvs)"

lemma setMembers_string:
  "findField U fs key = Some (string_field name upd) \<Longrightarrow>
   setMembers U fs ((key, JStr s) # ms) v = setMembers U fs ms (upd s v)"
  by (simp add: string_field_def split: prod.split)

text \<open>Strings that survive being written as JSON and read again: those without a byte beyond ASCII.\<close>

abbreviation ascii :: "string \<Rightarrow> bool" where "ascii s \<equiv> list_all is_ascii s"

fun json_ascii :: "json \<Rightarrow> bool" where
  "json_ascii (JStr s) = ascii s"
| "json_ascii (JArr js) = list_all json_ascii js"
| "json_ascii (JObj ms) = list_all (\<lambda>(k, j). ascii k \<and> json_ascii j) ms"
| "json_ascii (JNum n) = False"
| "json_ascii _ = True"

text \<open>What \<^verbatim>\<open>encoding/json\<close> promises of its two directions, for documents of such strings.\<close>

definition json_roundtrip :: "json_lib \<Rightarrow> bool" where
  "json_roundtrip L \<longleftrightarrow> (\<forall>j. json_ascii j \<longrightarrow> js_parse L (js_print L j) = Some j)"

lemma json_back: "json_roundtrip L \<Longrightarrow> json_ascii j \<Longrightarrow> js_parse L (js_print L j) = Some j"
  by (simp add: json_roundtrip_def)

section \<open>A concrete codec\<close>

text \<open>A prefix notation with a reader, to show that the promise can be kept; it also serves the examples.\<close>

fun enc_str :: "string \<Rightarrow> string" where
  "enc_str [] = ''!''"
| "enc_str (c # s) = CHR ''.'' # c # enc_str s"

fun enc_json :: "json \<Rightarrow> string" where
  "enc_json JNull = ''N''"
| "enc_json (JBool b) = (if b then ''T'' else ''F'')"
| "enc_json (JNum n) = CHR ''D'' # enc_str n"
| "enc_json (JStr s) = CHR ''S'' # enc_str s"
| "enc_json (JArr js) = CHR ''A'' # concat (map (\<lambda>j. CHR '','' # enc_json j) js) @ ''!''"
| "enc_json (JObj ms) = CHR ''O'' # concat (map (\<lambda>(k, j). CHR '','' # enc_str k @ enc_json j) ms) @ ''!''"

fun dec_str :: "string \<Rightarrow> (string \<times> string) option" where
  "dec_str (m # s) =
     (if m = CHR ''!'' then Some ([], s)
      else (case s of c # t \<Rightarrow> map_option (map_prod ((#) c) id) (dec_str t) | [] \<Rightarrow> None))"
| "dec_str [] = None"

fun dec_json :: "nat \<Rightarrow> string \<Rightarrow> (json \<times> string) option"
  and dec_arr :: "nat \<Rightarrow> string \<Rightarrow> (json list \<times> string) option"
  and dec_obj :: "nat \<Rightarrow> string \<Rightarrow> ((string \<times> json) list \<times> string) option" where
  "dec_json 0 s = None"
| "dec_json (Suc n) s =
     (case s of
        [] \<Rightarrow> None
      | c # t \<Rightarrow>
          if c = CHR ''N'' then Some (JNull, t)
          else if c = CHR ''T'' then Some (JBool True, t)
          else if c = CHR ''F'' then Some (JBool False, t)
          else if c = CHR ''D'' then map_option (map_prod JNum id) (dec_str t)
          else if c = CHR ''S'' then map_option (map_prod JStr id) (dec_str t)
          else if c = CHR ''A'' then map_option (map_prod JArr id) (dec_arr n t)
          else if c = CHR ''O'' then map_option (map_prod JObj id) (dec_obj n t)
          else None)"
| "dec_arr 0 s = None"
| "dec_arr (Suc n) s =
     (case s of
        [] \<Rightarrow> None
      | c # t \<Rightarrow>
          if c = CHR ''!'' then Some ([], t)
          else
            (case dec_json n t of
               None \<Rightarrow> None
             | Some (j, u) \<Rightarrow> map_option (map_prod ((#) j) id) (dec_arr n u)))"
| "dec_obj 0 s = None"
| "dec_obj (Suc n) s =
     (case s of
        [] \<Rightarrow> None
      | c # t \<Rightarrow>
          if c = CHR ''!'' then Some ([], t)
          else
            (case dec_str t of
               None \<Rightarrow> None
             | Some (k, u) \<Rightarrow>
                 (case dec_json n u of
                    None \<Rightarrow> None
                  | Some (j, v) \<Rightarrow> map_option (map_prod ((#) (k, j)) id) (dec_obj n v))))"

lemma dec_enc_str [simp]: "dec_str (enc_str s @ r) = Some (s, r)"
  by (induction s) auto

lemma enc_json_length: "0 < length (enc_json j)"
  by (cases j) auto

lemma dec_enc_arr:
  assumes "\<And>j n r. j \<in> set js \<Longrightarrow> length (enc_json j) \<le> n \<Longrightarrow> dec_json n (enc_json j @ r) = Some (j, r)"
    and "Suc (length (concat (map (\<lambda>j. CHR '','' # enc_json j) js))) \<le> n"
  shows "dec_arr n (concat (map (\<lambda>j. CHR '','' # enc_json j) js) @ CHR ''!'' # r) = Some (js, r)"
  using assms
proof (induction js arbitrary: n)
  case Nil
  then show ?case by (cases n) auto
next
  case (Cons j js)
  then obtain m where n: "n = Suc m" by (cases n) auto
  have "dec_json m (enc_json j @ t) = Some (j, t)" for t using Cons.prems n by simp
  moreover have "dec_arr m (concat (map (\<lambda>j. CHR '','' # enc_json j) js) @ CHR ''!'' # r) = Some (js, r)"
    using Cons n by simp
  ultimately show ?case using n by simp
qed

lemma dec_enc_obj:
  assumes "\<And>k j n r. (k, j) \<in> set ms \<Longrightarrow> length (enc_json j) \<le> n \<Longrightarrow> dec_json n (enc_json j @ r) = Some (j, r)"
    and "Suc (length (concat (map (\<lambda>(k, j). CHR '','' # enc_str k @ enc_json j) ms))) \<le> n"
  shows "dec_obj n (concat (map (\<lambda>(k, j). CHR '','' # enc_str k @ enc_json j) ms) @ CHR ''!'' # r) = Some (ms, r)"
  using assms
proof (induction ms arbitrary: n)
  case Nil
  then show ?case by (cases n) auto
next
  case (Cons m ms)
  obtain k j where m: "m = (k, j)" by (cases m) auto
  from Cons obtain n' where n: "n = Suc n'" by (cases n) auto
  have "dec_json n' (enc_json j @ t) = Some (j, t)" for t
    using Cons.prems(1) [of k j n' t] Cons.prems(2) n m by simp
  moreover have "dec_obj n' (concat (map (\<lambda>(k, j). CHR '','' # enc_str k @ enc_json j) ms) @ CHR ''!'' # r) = Some (ms, r)"
  proof (rule Cons.IH)
    fix k' j' i q
    assume "(k', j') \<in> set ms" "length (enc_json j') \<le> i"
    then show "dec_json i (enc_json j' @ q) = Some (j', q)" by (intro Cons.prems(1)) auto
  qed (use Cons.prems(2) n m in simp)
  ultimately show ?case using n m by simp
qed

lemma dec_enc_json: "length (enc_json j) \<le> n \<Longrightarrow> dec_json n (enc_json j @ r) = Some (j, r)"
proof (induction j arbitrary: n r)
  case (JArr js)
  then obtain m where n: "n = Suc m" by (cases n) auto
  with JArr have "dec_arr m (concat (map (\<lambda>j. CHR '','' # enc_json j) js) @ CHR ''!'' # r) = Some (js, r)"
    by (intro dec_enc_arr) auto
  with n show ?case by simp
next
  case (JObj ms)
  then obtain m where n: "n = Suc m" by (cases n) auto
  with JObj have "dec_obj m (concat (map (\<lambda>(k, j). CHR '','' # enc_str k @ enc_json j) ms) @ CHR ''!'' # r) = Some (ms, r)"
    by (intro dec_enc_obj) (auto simp: snds.simps)
  with n show ?case by simp
next
  case JNull
  then show ?case by (cases n) auto
next
  case (JBool b)
  then show ?case by (cases n; cases b) auto
next
  case (JNum x)
  then show ?case by (cases n) auto
next
  case (JStr x)
  then show ?case by (cases n) auto
qed

definition plainJson :: json_lib where
  "plainJson =
     \<lparr>js_parse = (\<lambda>s. case dec_json (length s) s of Some (j, []) \<Rightarrow> Some j | _ \<Rightarrow> None),
      js_print = enc_json, js_unicode = \<lparr>u_lower = id, u_fold = (=), u_trim = id\<rparr>\<rparr>"

lemma plainJson_roundtrip: "json_roundtrip plainJson"
  using dec_enc_json [of _ _ "[]"] by (auto simp: json_roundtrip_def plainJson_def)

end
