(* ===== verification/Ref_Client.thy ===== *)
theory Ref_Client
  imports Json_Model Ref_Store Vault_Client
begin

text \<open>
  The HTTP client of the claim-ref API (\<^verbatim>\<open>pkg/claim/ref_client.go\<close>). A request is a record; sending it is
  a function over a world \<open>'w\<close>, which answers a status and a body whose reading may fail, or fails itself
  (a timeout is such a failure). The parser of URLs is a predicate. The server of the repository's own
  tests (\<^verbatim>\<open>pkg/claim/fake_git_rest_test.go\<close>) is modelled at the same level, and the client in front of it
  is shown to be the client \<open>fakeClient\<close> of \<open>Ref_Store\<close>, on which the stores were proved correct.
\<close>

section \<open>Requests\<close>

record httpRequest =
  rq_Method :: string
  rq_URL :: string
  rq_Header :: "(string, string) gomap"
  rq_Body :: string

record httpResponse =
  rs_Status :: int
  rs_Body :: "string result"

record 'w httpLib =
  hl_ParseURL :: "string \<Rightarrow> bool"
  hl_Do :: "httpRequest \<Rightarrow> ('w, httpResponse result) state"
  hl_json :: json_lib

definition newRequest :: "'w httpLib \<Rightarrow> string \<Rightarrow> string \<Rightarrow> string \<Rightarrow> httpRequest result" where
  "newRequest L meth url body =
     (if hl_ParseURL L url then Inr \<lparr>rq_Method = meth, rq_URL = url, rq_Header = [], rq_Body = body\<rparr>
      else Inl (OtherError ''create request''))"

definition setHeader :: "string \<Rightarrow> string \<Rightarrow> httpRequest \<Rightarrow> httpRequest" where
  "setHeader name v req = req\<lparr>rq_Header := AList.update name v (rq_Header req)\<rparr>"

text \<open>\<^verbatim>\<open>io.ReadAll\<close> of a \<^verbatim>\<open>LimitReader\<close>: at most \<open>limit\<close> bytes.\<close>

definition readLimited :: "nat \<Rightarrow> httpResponse \<Rightarrow> string result" where
  "readLimited limit resp = map_sum id (take limit) (rs_Body resp)"

definition refBodyLimit :: nat where "refBodyLimit = 10 * 1024 * 1024"

definition trimRightSlash :: "string \<Rightarrow> string" where
  "trimRightSlash s = rev (dropWhile (\<lambda>c. c = CHR ''/'') (rev s))"

section \<open>The client\<close>

record claimRefClient =
  rf_baseURL :: string
  rf_gatewaySecret :: string
  rf_gatewayInitiator :: string

definition NewClaimRefClient :: "string \<Rightarrow> string \<Rightarrow> string \<Rightarrow> claimRefClient" where
  "NewClaimRefClient baseURL gatewaySecret gatewayInitiator =
     \<lparr>rf_baseURL = trimRightSlash baseURL, rf_gatewaySecret = gatewaySecret, rf_gatewayInitiator = gatewayInitiator\<rparr>"

definition gatewayHeaders :: "string \<Rightarrow> string \<Rightarrow> httpRequest \<Rightarrow> httpRequest" where
  "gatewayHeaders secret initiator req =
     (if secret = '''' then req
      else setHeader ''X-Gateway-Initator'' initiator (setHeader ''X-Gateway-Secret'' secret req))"

definition setAuthHeaders :: "claimRefClient \<Rightarrow> httpRequest \<Rightarrow> httpRequest" where
  "setAuthHeaders c req = gatewayHeaders (rf_gatewaySecret c) (rf_gatewayInitiator c) req"

definition escapedKey :: "string \<Rightarrow> string" where
  "escapedKey key = join_with ''/'' (map PathEscape (split_on (CHR ''/'') key))"

definition putRefRequest :: "string \<Rightarrow> string \<Rightarrow> string \<Rightarrow> string \<Rightarrow> json" where
  "putRefRequest expectedSha cluster taskID leaseUntil =
     stringMembers [(''expected_sha'', expectedSha), (''cluster'', cluster), (''task_id'', taskID), (''lease_until'', leaseUntil)]"

definition putRefResponse_Sha :: "string json_field list" where
  "putRefResponse_Sha = [string_field ''ref'' (\<lambda>s v. v), string_field ''sha'' (\<lambda>s v. s)]"

definition claimRefFields :: "ClaimRef json_field list" where
  "claimRefFields =
     [string_field ''ref'' (\<lambda>s r. r\<lparr>ref_Ref := s\<rparr>), string_field ''sha'' (\<lambda>s r. r\<lparr>ref_Sha := s\<rparr>),
      string_field ''cluster'' (\<lambda>s r. r\<lparr>ref_Cluster := s\<rparr>), string_field ''task_id'' (\<lambda>s r. r\<lparr>ref_TaskID := s\<rparr>),
      string_field ''lease_until'' (\<lambda>s r. r\<lparr>ref_LeaseUntil := s\<rparr>)]"

definition zeroClaimRef :: ClaimRef where
  "zeroClaimRef = \<lparr>ref_Ref = '''', ref_Sha = '''', ref_Cluster = '''', ref_TaskID = '''', ref_LeaseUntil = ''''\<rparr>"

definition ref_List :: "'w httpLib \<Rightarrow> claimRefClient \<Rightarrow> string \<Rightarrow> ('w, ClaimRef list result) state" where
  "ref_List L c prefix =
     (case newRequest L ''GET'' (rf_baseURL c @ ''/api/v1/refs?'' @ ''prefix='' @ QueryEscape prefix) '''' of
        Inl e \<Rightarrow> State_Monad.return (Inl e)
      | Inr req \<Rightarrow>
          do { r \<leftarrow> hl_Do L (setAuthHeaders c req);
               State_Monad.return
                 (case r of
                    Inl e \<Rightarrow> Inl e
                  | Inr resp \<Rightarrow>
                      (case readLimited refBodyLimit resp of
                         Inl e \<Rightarrow> Inl e
                       | Inr body \<Rightarrow>
                           if rs_Status resp \<noteq> 200 then Inl (OtherError ''GET refs answered another status'')
                           else
                             (case js_parse (hl_json L) body of
                                None \<Rightarrow> Inl (OtherError ''parse GET refs response'')
                              | Some j \<Rightarrow>
                                  (case unmarshalSlice (js_unicode (hl_json L)) claimRefFields zeroClaimRef j of
                                     None \<Rightarrow> Inl (OtherError ''parse GET refs response'')
                                   | Some found \<Rightarrow> Inr found)))) })"

definition ref_Put ::
  "'w httpLib \<Rightarrow> claimRefClient \<Rightarrow> string \<Rightarrow> string \<Rightarrow> string \<Rightarrow> string \<Rightarrow> go_time \<Rightarrow> ('w, string result) state" where
  "ref_Put L c key expectedSha cluster taskID leaseUntil =
     (case newRequest L ''PUT'' (rf_baseURL c @ ''/api/v1/refs/'' @ escapedKey key)
             (js_print (hl_json L) (putRefRequest expectedSha cluster taskID (formatLeaseUntil leaseUntil))) of
        Inl e \<Rightarrow> State_Monad.return (Inl e)
      | Inr req \<Rightarrow>
          do { r \<leftarrow> hl_Do L (setAuthHeaders c (setHeader ''Content-Type'' ''application/json'' req));
               State_Monad.return
                 (case r of
                    Inl e \<Rightarrow> Inl e
                  | Inr resp \<Rightarrow>
                      (case readLimited refBodyLimit resp of
                         Inl e \<Rightarrow> Inl e
                       | Inr body \<Rightarrow>
                           if rs_Status resp = 200 then
                             (case js_parse (hl_json L) body of
                                None \<Rightarrow> Inl (OtherError ''parse PUT refs response'')
                              | Some j \<Rightarrow>
                                  (let (sha, ok) = unmarshalStruct (js_unicode (hl_json L)) putRefResponse_Sha j '''' in
                                   if \<not> ok then Inl (OtherError ''parse PUT refs response'')
                                   else if sha = '''' then Inl (OtherError ''PUT refs returned 200 without sha'')
                                   else Inr sha))
                           else if rs_Status resp = 409 then Inl ErrLeaseConflict
                           else Inl (OtherError ''PUT refs answered another status''))) })"

definition ref_Delete :: "'w httpLib \<Rightarrow> claimRefClient \<Rightarrow> string \<Rightarrow> string \<Rightarrow> ('w, claim_error option) state" where
  "ref_Delete L c key expectedSha =
     (case newRequest L ''DELETE''
             (rf_baseURL c @ ''/api/v1/refs/'' @ escapedKey key @ ''?'' @ ''expected_sha='' @ QueryEscape expectedSha) '''' of
        Inl e \<Rightarrow> State_Monad.return (Some e)
      | Inr req \<Rightarrow>
          do { r \<leftarrow> hl_Do L (setAuthHeaders c req);
               State_Monad.return
                 (case r of
                    Inl e \<Rightarrow> Some e
                  | Inr resp \<Rightarrow>
                      if rs_Status resp = 200 then None
                      else if rs_Status resp = 409 then Some ErrLeaseConflict
                      else if rs_Status resp = 404 then Some ErrRefNotFound
                      else Some (OtherError ''DELETE refs answered another status'')) })"

definition refClient :: "'w httpLib \<Rightarrow> claimRefClient \<Rightarrow> 'w ClaimRefClient" where
  "refClient L c = \<lparr>rc_List = ref_List L c, rc_Put = ref_Put L c, rc_Delete = ref_Delete L c\<rparr>"

section \<open>Unescaping\<close>

text \<open>\<^verbatim>\<open>url.PathUnescape\<close> and \<^verbatim>\<open>url.QueryUnescape\<close>; a percent sign without two hexadecimal digits is an error.\<close>

definition unhex :: "char \<Rightarrow> nat option" where
  "unhex c =
     (let n = of_char c :: nat in
      if 48 \<le> n \<and> n \<le> 57 then Some (n - 48)
      else if 65 \<le> n \<and> n \<le> 70 then Some (n - 55)
      else if 97 \<le> n \<and> n \<le> 102 then Some (n - 87)
      else None)"

fun unescape_with :: "(char \<Rightarrow> char) \<Rightarrow> string \<Rightarrow> string option" where
  "unescape_with plain [] = Some []"
| "unescape_with plain (c # s) =
     (if c = CHR ''%'' then
        (case s of
           h # l # t \<Rightarrow>
             (case (unhex h, unhex l) of
                (Some x, Some y) \<Rightarrow> map_option ((#) (char_of (16 * x + y))) (unescape_with plain t)
              | _ \<Rightarrow> None)
         | _ \<Rightarrow> None)
      else map_option ((#) (plain c)) (unescape_with plain s))"

definition PathUnescape :: "string \<Rightarrow> string option" where
  "PathUnescape s = unescape_with (\<lambda>c. c) s"

definition QueryUnescape :: "string \<Rightarrow> string option" where
  "QueryUnescape s = unescape_with (\<lambda>c. if c = CHR ''+'' then CHR '' '' else c) s"

lemma unhex_digit: "k < 16 \<Longrightarrow> unhex (hex_digit k) = Some k"
  using of_char_hex_digit [of k] by (auto simp: unhex_def Let_def)

lemma byte_of_nibbles: "char_of (16 * (of_char c div 16) + of_char c mod 16 :: nat) = c"
  by (metis char_of_char div_mult_mod_eq mult.commute)

lemma unescape_percent:
  "unescape_with plain ([CHR ''%'', hex_digit (of_char c div 16), hex_digit (of_char c mod 16)] @ s) =
     map_option ((#) c) (unescape_with plain s)"
  using unhex_digit [OF nibbles(1) [of c]] unhex_digit [OF nibbles(2) [of c]] byte_of_nibbles [of c] by simp

lemma unescape_escape_char:
  "unescape_with (\<lambda>c. c) (escape_char c @ s) = map_option ((#) c) (unescape_with (\<lambda>c. c) s)"
proof (cases "path_safe c")
  case True
  moreover from this have "c \<noteq> CHR ''%''" using path_safe_no(2) by auto
  ultimately show ?thesis by (simp add: escape_char_def)
next
  case False
  then show ?thesis unfolding escape_char_def using unescape_percent [of "\<lambda>c. c" c s] by simp
qed

lemma unescape_append_path: "unescape_with (\<lambda>c. c) (PathEscape s @ t) = map_option ((@) s) (unescape_with (\<lambda>c. c) t)"
  by (induction s) (auto simp: unescape_escape_char option.map_comp comp_def map_option.id [unfolded id_def])

lemma query_safe_no: "\<not> query_safe (CHR ''%'')" "\<not> query_safe (CHR ''+'')" "\<not> query_safe (CHR ''='')" "\<not> query_safe (CHR ''&'')"
  by (simp_all add: query_safe_def)

lemma QueryUnescape_Escape: "QueryUnescape (QueryEscape s) = Some s"
proof (induction s)
  case Nil
  then show ?case by (simp add: QueryUnescape_def QueryEscape_def)
next
  case (Cons c s)
  let ?u = "\<lambda>c. if c = CHR ''+'' then CHR '' '' else c"
  have ih: "unescape_with ?u (QueryEscape s) = Some s" using Cons by (simp add: QueryUnescape_def)
  have no: "query_safe c \<Longrightarrow> c \<noteq> CHR ''%'' \<and> c \<noteq> CHR ''+''" using query_safe_no by auto
  show ?case
    using ih no unescape_percent [of ?u c "QueryEscape s"]
    by (auto simp: QueryUnescape_def QueryEscape_def)
qed

section \<open>The server of the tests, behind HTTP\<close>

text \<open>\<^verbatim>\<open>url.ParseQuery\<close> and \<^verbatim>\<open>Values.Get\<close>: a pair that does not unescape, or one with a semicolon, is an error.\<close>

definition parsePair :: "string \<Rightarrow> (string \<times> string) option" where
  "parsePair piece =
     (case (QueryUnescape (takeWhile (\<lambda>c. c \<noteq> CHR ''='') piece), QueryUnescape (drop 1 (dropWhile (\<lambda>c. c \<noteq> CHR ''='') piece))) of
        (Some k, Some v) \<Rightarrow> Some (k, v) | _ \<Rightarrow> None)"

definition ParseQuery :: "string \<Rightarrow> (string \<times> string) list option" where
  "ParseQuery raw =
     (let pieces = filter (\<lambda>p. p \<noteq> '''') (split_on (CHR ''&'') raw)
      in if list_all (\<lambda>p. CHR '';'' \<notin> set p \<and> parsePair p \<noteq> None) pieces then Some (map (the \<circ> parsePair) pieces) else None)"

definition queryGet :: "(string \<times> string) list \<Rightarrow> string \<Rightarrow> string" where
  "queryGet values name = (case map_of values name of Some v \<Rightarrow> v | None \<Rightarrow> '''')"

record fakePutBody =
  pb_ExpectedSha :: string
  pb_Cluster :: string
  pb_TaskID :: string
  pb_LeaseUntil :: string

definition fakePutFields :: "fakePutBody json_field list" where
  "fakePutFields =
     [string_field ''expected_sha'' (\<lambda>s b. b\<lparr>pb_ExpectedSha := s\<rparr>), string_field ''cluster'' (\<lambda>s b. b\<lparr>pb_Cluster := s\<rparr>),
      string_field ''task_id'' (\<lambda>s b. b\<lparr>pb_TaskID := s\<rparr>), string_field ''lease_until'' (\<lambda>s b. b\<lparr>pb_LeaseUntil := s\<rparr>)]"

definition claimRefJson :: "ClaimRef \<Rightarrow> json" where
  "claimRefJson r =
     stringMembers [(''ref'', ref_Ref r), (''sha'', ref_Sha r), (''cluster'', ref_Cluster r), (''task_id'', ref_TaskID r),
       (''lease_until'', ref_LeaseUntil r)]"

definition putAnswer :: "string \<Rightarrow> string \<Rightarrow> json" where
  "putAnswer fullRef sha = stringMembers [(''ref'', fullRef), (''sha'', sha)]"

definition git_list :: "json_lib \<Rightarrow> string \<Rightarrow> fakeGitRest \<Rightarrow> (int \<times> string) \<times> fakeGitRest" where
  "git_list J rawQuery f =
     (case ParseQuery rawQuery of
        None \<Rightarrow> ((400, ''bad query''), f)
      | Some values \<Rightarrow> ((200, js_print J (JArr (map claimRefJson (fake_list (queryGet values ''prefix'') f)))), f))"

definition git_put :: "json_lib \<Rightarrow> string \<Rightarrow> string \<Rightarrow> fakeGitRest \<Rightarrow> (int \<times> string) \<times> fakeGitRest" where
  "git_put J key body f =
     (case js_parse J body of
        None \<Rightarrow> ((400, ''bad body''), f)
      | Some j \<Rightarrow>
          (let (b, ok) = unmarshalStruct (js_unicode J) fakePutFields j
                 \<lparr>pb_ExpectedSha = '''', pb_Cluster = '''', pb_TaskID = '''', pb_LeaseUntil = ''''\<rparr> in
           if \<not> ok then ((400, ''bad body''), f)
           else
             (case fake_put key (pb_ExpectedSha b) (pb_Cluster b) (pb_TaskID b) (pb_LeaseUntil b) f of
                (None, f') \<Rightarrow> ((409, ''conflict''), f')
              | (Some sha, f') \<Rightarrow> ((200, js_print J (putAnswer (''refs/'' @ key) sha)), f'))))"

definition git_delete :: "string \<Rightarrow> string \<Rightarrow> fakeGitRest \<Rightarrow> (int \<times> string) \<times> fakeGitRest" where
  "git_delete key rawQuery f =
     (case ParseQuery rawQuery of
        None \<Rightarrow> ((400, ''bad query''), f)
      | Some values \<Rightarrow>
          (case fake_delete key (queryGet values ''expected_sha'') f of
             (ok, f') \<Rightarrow> (if ok then (200, ''ok'') else (409, ''conflict''), f')))"

definition git_handleNormal :: "json_lib \<Rightarrow> string \<Rightarrow> string \<Rightarrow> string \<Rightarrow> string \<Rightarrow> fakeGitRest \<Rightarrow> (int \<times> string) \<times> fakeGitRest" where
  "git_handleNormal J meth path rawQuery body f =
     (let key = trim_prefix (trim_prefix path ''/api/v1/refs'') ''/'' in
      if meth = ''GET'' then (if key \<noteq> '''' then ((404, ''not found''), f) else git_list J rawQuery f)
      else if meth = ''PUT'' then git_put J key body f
      else if meth = ''DELETE'' then git_delete key rawQuery f
      else ((405, ''method not allowed''), f))"

text \<open>The address behind the base is cut at the first question mark, and its path is unescaped.\<close>

definition gitRestDo :: "json_lib \<Rightarrow> string \<Rightarrow> httpRequest \<Rightarrow> (fakeGitRest, httpResponse result) state" where
  "gitRestDo J base req =
     State (\<lambda>f.
       (let uri = trim_prefix (rq_URL req) base; path = takeWhile (\<lambda>c. c \<noteq> CHR ''?'') uri;
            rawQuery = drop 1 (dropWhile (\<lambda>c. c \<noteq> CHR ''?'') uri)
        in case PathUnescape path of
             None \<Rightarrow> (Inr \<lparr>rs_Status = 400, rs_Body = Inr ''bad request''\<rparr>, f)
           | Some p \<Rightarrow>
               (case git_handleNormal J (rq_Method req) p rawQuery (rq_Body req) f of
                  ((status, body), f') \<Rightarrow> (Inr \<lparr>rs_Status = status, rs_Body = Inr body\<rparr>, f'))))"

section \<open>What the server reads of a request\<close>

lemma hex_digit_plain: "k < 16 \<Longrightarrow> hex_digit k \<notin> set ''?/=&;''"
  using of_char_hex_digit [of k] by (auto split: if_splits)

lemma escape_char_no: "c \<in> set ''?/'' \<Longrightarrow> c \<notin> set (escape_char d)"
  using hex_digit_plain [OF nibbles(1) [of d]] hex_digit_plain [OF nibbles(2) [of d]]
  by (auto simp: escape_char_def path_safe_def)

lemma PathEscape_no: "CHR ''?'' \<notin> set (PathEscape s)"
  using escape_char_no by (auto simp: PathEscape_def)

lemma escapedKey_parts:
  "CHR ''?'' \<notin> set (join_with ''/'' (map PathEscape ps)) \<and>
   PathUnescape (join_with ''/'' (map PathEscape ps)) = Some (join_with ''/'' ps)"
proof (induction "''/''" ps rule: join_with.induct)
  case 1
  then show ?case by (simp add: PathUnescape_def)
next
  case (2 p)
  then show ?case using unescape_append_path [of p "[]"] by (simp add: PathUnescape_def PathEscape_no)
next
  case (3 p q ps)
  then show ?case
    using unescape_append_path [of p "CHR ''/'' # join_with ''/'' (map PathEscape (q # ps))"]
    by (auto simp: PathUnescape_def PathEscape_no)
qed

lemma escapedKey_unescape: "CHR ''?'' \<notin> set (escapedKey key)" "PathUnescape (escapedKey key) = Some key"
  using escapedKey_parts [of "split_on (CHR ''/'') key"] by (simp_all add: escapedKey_def join_split_on)

lemma map_option_append_Nil: "map_option ((@) []) x = x"
  by (cases x) auto

lemma PathUnescape_literal: "CHR ''%'' \<notin> set s \<Longrightarrow> PathUnescape (s @ t) = map_option ((@) s) (PathUnescape t)"
  unfolding PathUnescape_def
  by (induction s) (auto simp: map_option_append_Nil option.map_comp comp_def intro!: option.map_cong0)

lemma refsPath:
  "PathUnescape (''/api/v1/refs/'' @ escapedKey key) = Some (''/api/v1/refs/'' @ key)"
  by (subst PathUnescape_literal) (simp_all add: escapedKey_unescape)

lemma refsPath_key: "trim_prefix (trim_prefix (''/api/v1/refs/'' @ key) ''/api/v1/refs'') ''/'' = key"
  by (simp add: trim_prefix_def)

lemma takeWhile_cut: "c \<notin> set s \<Longrightarrow> takeWhile (\<lambda>x. x \<noteq> c) (s @ c # t) = s \<and> drop 1 (dropWhile (\<lambda>x. x \<noteq> c) (s @ c # t)) = t"
  by (induction s) auto

lemma takeWhile_whole: "c \<notin> set s \<Longrightarrow> takeWhile (\<lambda>x. x \<noteq> c) s = s \<and> dropWhile (\<lambda>x. x \<noteq> c) s = []"
  by (induction s) auto

lemma QueryEscape_no: "c \<in> set ''=&;'' \<Longrightarrow> c \<notin> set (QueryEscape s)"
proof -
  assume c: "c \<in> set ''=&;''"
  have "c \<noteq> hex_digit n" if "n < 16" for n using hex_digit_plain [OF that] c by auto
  moreover have "\<not> query_safe c" using c by (auto simp: query_safe_def)
  ultimately show ?thesis using c nibbles by (auto simp: QueryEscape_def split: if_splits)
qed

lemma queryGet_single:
  assumes "CHR ''='' \<notin> set name" "CHR ''&'' \<notin> set name" "CHR '';'' \<notin> set name" "QueryUnescape name = Some name"
  shows "ParseQuery (name @ CHR ''='' # QueryEscape v) = Some [(name, v)]"
proof -
  have one: "split_on (CHR ''&'') (name @ CHR ''='' # QueryEscape v) = [name @ CHR ''='' # QueryEscape v]"
    using assms QueryEscape_no by (intro split_on_no_sep) auto
  have pair: "parsePair (name @ CHR ''='' # QueryEscape v) = Some (name, v)"
    using takeWhile_cut [OF assms(1), of "QueryEscape v"] assms(4) QueryUnescape_Escape [of v] by (simp add: parsePair_def)
  show ?thesis using one pair assms(3) QueryEscape_no by (simp add: ParseQuery_def Let_def)
qed

lemma QueryUnescape_literal: "CHR ''%'' \<notin> set s \<and> CHR ''+'' \<notin> set s \<Longrightarrow> QueryUnescape s = Some s"
  by (induction s) (auto simp: QueryUnescape_def)

section \<open>The client in front of the server\<close>

text \<open>What the URL parser promises: the addresses of the API with escaped components parse.\<close>

definition accepts_addresses :: "'w httpLib \<Rightarrow> string \<Rightarrow> bool" where
  "accepts_addresses L base \<longleftrightarrow>
     (\<forall>key q. hl_ParseURL L (base @ ''/api/v1/refs/'' @ escapedKey key) \<and>
       hl_ParseURL L (base @ ''/api/v1/refs/'' @ escapedKey key @ ''?expected_sha='' @ QueryEscape q) \<and>
       hl_ParseURL L (base @ ''/api/v1/refs?prefix='' @ QueryEscape q))"

lemma ascii_digit: "n < 10 \<Longrightarrow> is_ascii (digit_char n)"
  by (simp add: is_ascii_def of_char_digit_char)

lemma ascii_show_nat: "ascii (show_nat n)"
  using show_nat_digits [of n] by (induction "show_nat n") (auto simp: list_all_iff is_digit_def is_ascii_def)

lemma ascii_pad: "ascii (pad w n)"
  using ascii_show_nat by (auto simp: pad_def Let_def list_all_iff is_ascii_def)

lemma ascii_formatLeaseUntil: "ascii (formatLeaseUntil t)"
  using ascii_pad by (auto simp: formatLeaseUntil_def Let_def is_ascii_def split: prod.split)

lemma ascii_show_hex: "ascii (show_hex n)"
proof (induction n rule: show_hex.induct)
  case (1 n)
  have "is_ascii (char_of (87 + k :: nat))" if "k < 16" for k using that by (simp add: is_ascii_def)
  then have "is_ascii (if n mod 16 < 10 then digit_char (n mod 16) else char_of (87 + n mod 16))"
    "n < 16 \<Longrightarrow> is_ascii (if n < 10 then digit_char n else char_of (87 + n))"
    using ascii_digit by auto
  with 1 show ?case by (subst show_hex.simps) (simp add: Let_def)
qed

lemma ascii_hex40: "ascii (hex40 n)"
  using ascii_show_hex by (auto simp: hex40_def list_all_iff is_ascii_def)

lemma read_put:
  "unmarshalStruct U fakePutFields (putRefRequest e c t l) \<lparr>pb_ExpectedSha = '''', pb_Cluster = '''', pb_TaskID = '''', pb_LeaseUntil = ''''\<rparr> =
     (\<lparr>pb_ExpectedSha = e, pb_Cluster = c, pb_TaskID = t, pb_LeaseUntil = l\<rparr>, True)"
  by (simp add: putRefRequest_def stringMembers_def fakePutFields_def string_field_def findField_def)

lemma read_answer: "unmarshalStruct U putRefResponse_Sha (putAnswer r sha) '''' = (sha, True)"
  by (simp add: putAnswer_def stringMembers_def putRefResponse_Sha_def string_field_def findField_def)

lemma read_ref: "unmarshalStruct U claimRefFields (claimRefJson r) zeroClaimRef = (r, True)"
  by (cases r)
    (simp add: claimRefJson_def stringMembers_def claimRefFields_def string_field_def findField_def zeroClaimRef_def)

lemma read_refs: "unmarshalSlice U claimRefFields zeroClaimRef (JArr (map claimRefJson rs)) = Some rs"
  by (simp add: unmarshalSlice_def read_ref Let_def comp_def list_all_iff)

lemma setHeader_keeps [simp]:
  "rq_URL (setHeader n v r) = rq_URL r" "rq_Method (setHeader n v r) = rq_Method r" "rq_Body (setHeader n v r) = rq_Body r"
  by (simp_all add: setHeader_def)

lemma setAuthHeaders_keeps [simp]:
  "rq_URL (setAuthHeaders c r) = rq_URL r" "rq_Method (setAuthHeaders c r) = rq_Method r" "rq_Body (setAuthHeaders c r) = rq_Body r"
  by (simp_all add: setAuthHeaders_def gatewayHeaders_def)

lemma gitRestDo_at:
  assumes "rq_URL req = base @ p @ q" "CHR ''?'' \<notin> set p" "q = [] \<or> hd q = CHR ''?''" "PathUnescape p = Some path"
  shows "run_state (gitRestDo J base req) f =
    (case git_handleNormal J (rq_Method req) path (drop 1 q) (rq_Body req) f of
       ((status, body), f') \<Rightarrow> (Inr \<lparr>rs_Status = status, rs_Body = Inr body\<rparr>, f'))"
proof -
  have "takeWhile (\<lambda>c. c \<noteq> CHR ''?'') (p @ q) = p \<and> drop 1 (dropWhile (\<lambda>c. c \<noteq> CHR ''?'') (p @ q)) = drop 1 q"
  proof (cases q)
    case Nil
    then show ?thesis using takeWhile_whole [OF assms(2)] by (metis append_Nil2 drop_Nil)
  next
    case (Cons c t)
    then show ?thesis using takeWhile_cut [OF assms(2), of t] assms(3) by simp
  qed
  then show ?thesis using assms by (simp add: gitRestDo_def Let_def)
qed

lemma git_handleNormal_at:
  "git_handleNormal J ''PUT'' (''/api/v1/refs/'' @ key) q body f = git_put J key body f"
  "git_handleNormal J ''DELETE'' (''/api/v1/refs/'' @ key) q body f = git_delete key q f"
  "git_handleNormal J ''GET'' ''/api/v1/refs'' q body f = git_list J q f"
  unfolding git_handleNormal_def Let_def refsPath_key by (simp_all add: trim_prefix_def)

lemma refsPath_plain: "CHR ''?'' \<notin> set (''/api/v1/refs/'' @ escapedKey key)"
  using escapedKey_unescape by simp

lemma gitRest_put:
  assumes "rq_URL req = base @ ''/api/v1/refs/'' @ escapedKey key" "rq_Method req = ''PUT''"
  shows "run_state (gitRestDo J base req) f =
    (case git_put J key (rq_Body req) f of ((status, body), f') \<Rightarrow> (Inr \<lparr>rs_Status = status, rs_Body = Inr body\<rparr>, f'))"
  using gitRestDo_at [OF _ refsPath_plain _ refsPath, where req = req and q = "[]"] assms git_handleNormal_at(1) by simp

lemma gitRest_delete:
  assumes "rq_URL req = base @ ''/api/v1/refs/'' @ escapedKey key @ ''?'' @ ''expected_sha='' @ QueryEscape q" "rq_Method req = ''DELETE''"
  shows "run_state (gitRestDo J base req) f =
    (case git_delete key (''expected_sha='' @ QueryEscape q) f of
       ((status, body), f') \<Rightarrow> (Inr \<lparr>rs_Status = status, rs_Body = Inr body\<rparr>, f'))"
  using gitRestDo_at [OF _ refsPath_plain _ refsPath, where req = req and q = "''?'' @ ''expected_sha='' @ QueryEscape q"]
    assms git_handleNormal_at(2) by simp

lemma gitRest_list:
  assumes "rq_URL req = base @ ''/api/v1/refs?'' @ ''prefix='' @ QueryEscape q" "rq_Method req = ''GET''"
  shows "run_state (gitRestDo J base req) f =
    (case git_list J (''prefix='' @ QueryEscape q) f of
       ((status, body), f') \<Rightarrow> (Inr \<lparr>rs_Status = status, rs_Body = Inr body\<rparr>, f'))"
proof -
  have "PathUnescape ''/api/v1/refs'' = Some ''/api/v1/refs''"
    using PathUnescape_literal [of "''/api/v1/refs''" "[]"] by (simp add: PathUnescape_def)
  from gitRestDo_at [OF _ _ _ this, where req = req and q = "''?'' @ ''prefix='' @ QueryEscape q"] show ?thesis
    using assms git_handleNormal_at(3) by simp
qed

lemma readLimited_short: "length body \<le> refBodyLimit \<Longrightarrow> readLimited refBodyLimit \<lparr>rs_Status = n, rs_Body = Inr body\<rparr> = Inr body"
  by (simp add: readLimited_def)

lemma http_put:
  assumes "accepts_addresses L (rf_baseURL c)" "hl_Do L = gitRestDo (hl_json L) (rf_baseURL c)" "json_roundtrip (hl_json L)"
    and "ascii key" "ascii expected" "ascii cluster" "ascii tid"
    and "length (js_print (hl_json L) (putAnswer (''refs/'' @ key) (hex40 (Suc (shaSeq f))))) \<le> refBodyLimit"
  shows "run_state (ref_Put L c key expected cluster tid until) f = run_state (rc_Put fakeClient key expected cluster tid until) f"
proof -
  let ?J = "hl_json L" and ?body = "putRefRequest expected cluster tid (formatLeaseUntil until)"
  have sent: "js_parse ?J (js_print ?J ?body) = Some ?body"
    using assms(3,5-7) ascii_formatLeaseUntil
    by (intro json_back) (auto simp: putRefRequest_def stringMembers_def is_ascii_def)
  have answered: "js_parse ?J (js_print ?J (putAnswer (''refs/'' @ key) (hex40 n))) = Some (putAnswer (''refs/'' @ key) (hex40 n))" for n
    using assms(3,4) ascii_hex40 [of n]
    by (intro json_back) (auto simp: putAnswer_def stringMembers_def is_ascii_def)
  have url: "newRequest L ''PUT'' (rf_baseURL c @ ''/api/v1/refs/'' @ escapedKey key) (js_print ?J ?body) =
      Inr \<lparr>rq_Method = ''PUT'', rq_URL = rf_baseURL c @ ''/api/v1/refs/'' @ escapedKey key, rq_Header = [], rq_Body = js_print ?J ?body\<rparr>"
    using assms(1) unfolding newRequest_def accepts_addresses_def by simp
  obtain res f' where put: "fake_put key expected cluster tid (formatLeaseUntil until) f = (res, f')" by fastforce
  have sha: "sha = hex40 (Suc (shaSeq f))" if "res = Some sha" for sha
    using put that by (auto simp: fake_put_def Let_def split: if_splits)
  have git: "git_put ?J key (js_print ?J ?body) f =
      ((case res of None \<Rightarrow> (409, ''conflict'') | Some sha \<Rightarrow> (200, js_print ?J (putAnswer (''refs/'' @ key) sha))), f')"
    unfolding git_put_def sent option.case read_put by (simp add: put split: option.split)
  show ?thesis
  proof (cases res)
    case None
    show ?thesis
      unfolding ref_Put_def url sum.case assms(2)
      by (simp add: gitRest_put git None put fakeClient_def readLimited_def)
  next
    case (Some s)
    have body: "readLimited refBodyLimit \<lparr>rs_Status = 200, rs_Body = Inr (js_print ?J (putAnswer (''refs/'' @ key) s))\<rparr> =
        Inr (js_print ?J (putAnswer (''refs/'' @ key) s))"
      using assms(8) sha [OF Some] by (intro readLimited_short) simp
    show ?thesis
      unfolding ref_Put_def url sum.case assms(2)
      using answered [of "Suc (shaSeq f)"] read_answer hex40_ne
      by (simp add: gitRest_put git Some put fakeClient_def body [unfolded sha [OF Some]] sha [OF Some] del: append_Cons)
  qed
qed

lemma http_delete:
  assumes "accepts_addresses L (rf_baseURL c)" "hl_Do L = gitRestDo (hl_json L) (rf_baseURL c)"
  shows "run_state (ref_Delete L c key expected) f = run_state (rc_Delete fakeClient key expected) f"
proof -
  let ?url = "rf_baseURL c @ ''/api/v1/refs/'' @ escapedKey key @ ''?'' @ ''expected_sha='' @ QueryEscape expected"
  have url: "newRequest L ''DELETE'' ?url '''' = Inr \<lparr>rq_Method = ''DELETE'', rq_URL = ?url, rq_Header = [], rq_Body = ''''\<rparr>"
    using assms(1) unfolding newRequest_def accepts_addresses_def by simp
  have "ParseQuery (''expected_sha='' @ QueryEscape expected) = Some [(''expected_sha'', expected)]"
    using queryGet_single [of "''expected_sha''" expected] by (simp add: QueryUnescape_literal)
  then have git: "git_delete key (''expected_sha='' @ QueryEscape expected) f =
      (case fake_delete key expected f of (ok, f') \<Rightarrow> (if ok then (200, ''ok'') else (409, ''conflict''), f'))"
    by (simp add: git_delete_def queryGet_def)
  obtain ok f' where del: "fake_delete key expected f = (ok, f')" by fastforce
  show ?thesis
    unfolding ref_Delete_def url sum.case assms(2)
    using git by (simp add: gitRest_delete [unfolded append_Cons append_Nil] del fakeClient_def)
qed

definition ref_ascii :: "ClaimRef \<Rightarrow> bool" where
  "ref_ascii r \<longleftrightarrow> ascii (ref_Ref r) \<and> ascii (ref_Sha r) \<and> ascii (ref_Cluster r) \<and> ascii (ref_TaskID r) \<and> ascii (ref_LeaseUntil r)"

lemma http_list:
  assumes "accepts_addresses L (rf_baseURL c)" "hl_Do L = gitRestDo (hl_json L) (rf_baseURL c)" "json_roundtrip (hl_json L)"
    and "list_all ref_ascii (fake_list prefix f)"
    and "length (js_print (hl_json L) (JArr (map claimRefJson (fake_list prefix f)))) \<le> refBodyLimit"
  shows "run_state (ref_List L c prefix) f = run_state (rc_List fakeClient prefix) f"
proof -
  let ?J = "hl_json L" and ?url = "rf_baseURL c @ ''/api/v1/refs?'' @ ''prefix='' @ QueryEscape prefix"
  let ?doc = "JArr (map claimRefJson (fake_list prefix f))"
  have url: "newRequest L ''GET'' ?url '''' = Inr \<lparr>rq_Method = ''GET'', rq_URL = ?url, rq_Header = [], rq_Body = ''''\<rparr>"
    using assms(1) unfolding newRequest_def accepts_addresses_def by simp
  have "ParseQuery (''prefix='' @ QueryEscape prefix) = Some [(''prefix'', prefix)]"
    using queryGet_single [of "''prefix''" prefix] by (simp add: QueryUnescape_literal)
  then have git: "git_list ?J (''prefix='' @ QueryEscape prefix) f = ((200, js_print ?J ?doc), f)"
    by (simp add: git_list_def queryGet_def)
  have "json_ascii (claimRefJson r)" if "ref_ascii r" for r
    using that by (simp add: ref_ascii_def claimRefJson_def stringMembers_def is_ascii_def)
  then have "json_ascii ?doc" using assms(4) by (simp add: list_all_iff)
  from json_back [OF assms(3) this] have readback: "js_parse ?J (js_print ?J ?doc) = Some ?doc" by simp
  have body: "readLimited refBodyLimit \<lparr>rs_Status = 200, rs_Body = Inr (js_print ?J ?doc)\<rparr> = Inr (js_print ?J ?doc)"
    using assms(5) by (rule readLimited_short)
  show ?thesis
    unfolding ref_List_def url sum.case assms(2)
    using git readback by (simp add: gitRest_list [unfolded append_Cons append_Nil] body read_refs fakeClient_def)
qed

text \<open>
  C16: The HTTP client is the client the stores were proved over. In front of the git-rest server of the tests, whatever
  the key, the three operations give the answer and the effect of the compare-and-swap on the stored refs: keys and query
  values arrive as they were given, however they are escaped on the way. A put needs ASCII values, which JSON carries
  unchanged, and a list ASCII refs; an answer over ten megabytes is cut and excluded.
\<close>

theorem http_client_refines_ref_store:
  assumes "accepts_addresses L (rf_baseURL c)" and "hl_Do L = gitRestDo (hl_json L) (rf_baseURL c)" and "json_roundtrip (hl_json L)"
  shows "run_state (rc_Delete (refClient L c) key expected) f = run_state (rc_Delete fakeClient key expected) f \<and>
    (ascii key \<and> ascii expected \<and> ascii cluster \<and> ascii tid \<and>
     length (js_print (hl_json L) (putAnswer (''refs/'' @ key) (hex40 (Suc (shaSeq f))))) \<le> refBodyLimit \<longrightarrow>
     run_state (rc_Put (refClient L c) key expected cluster tid until) f = run_state (rc_Put fakeClient key expected cluster tid until) f) \<and>
    (list_all ref_ascii (fake_list prefix f) \<and>
     length (js_print (hl_json L) (JArr (map claimRefJson (fake_list prefix f)))) \<le> refBodyLimit \<longrightarrow>
     run_state (rc_List (refClient L c) prefix) f = run_state (rc_List fakeClient prefix) f)"
  using http_delete [OF assms(1,2)] http_put [OF assms] http_list [OF assms] by (simp add: refClient_def)

definition testServer :: "fakeGitRest httpLib" where
  "testServer = \<lparr>hl_ParseURL = (\<lambda>_. True), hl_Do = gitRestDo plainJson ''http://git'', hl_json = plainJson\<rparr>"

theorem http_client_refines_ref_store_witness:
  "fst (run_state (rc_Put (refClient testServer (NewClaimRefClient ''http://git/'' ''s'' ''i'')) ''claims/task/a b?'' '''' ''dev'' ''t1'' hour)
     \<lparr>refs = [], shaSeq = 0\<rparr>) = Inr (hex40 1)"
proof -
  let ?c = "NewClaimRefClient ''http://git/'' ''s'' ''i''"
  have base: "rf_baseURL ?c = ''http://git''" by (simp add: NewClaimRefClient_def trimRightSlash_def)
  have a: "accepts_addresses testServer (rf_baseURL ?c)" by (simp add: accepts_addresses_def testServer_def)
  have d: "hl_Do testServer = gitRestDo (hl_json testServer) (rf_baseURL ?c)" by (simp add: testServer_def base)
  have r: "json_roundtrip (hl_json testServer)" using plainJson_roundtrip by (simp add: testServer_def)
  have "length (js_print (hl_json testServer) (putAnswer (''refs/'' @ ''claims/task/a b?'')
      (hex40 (Suc (shaSeq \<lparr>refs = [], shaSeq = 0\<rparr>))))) \<le> 200" by code_simp
  then have short: "length (js_print (hl_json testServer) (putAnswer (''refs/'' @ ''claims/task/a b?'')
      (hex40 (Suc (shaSeq \<lparr>refs = [], shaSeq = 0\<rparr>))))) \<le> refBodyLimit" by (simp add: refBodyLimit_def)
  have asc: "ascii ''claims/task/a b?''" "ascii ''''" "ascii ''dev''" "ascii ''t1''" by (simp_all add: is_ascii_def)
  have put: "fst (run_state (rc_Put fakeClient ''claims/task/a b?'' '''' ''dev'' ''t1'' hour) \<lparr>refs = [], shaSeq = 0\<rparr>) = Inr (hex40 1)"
    by (simp add: fakeClient_def fake_put_def Let_def)
  have "run_state (rc_Put (refClient testServer ?c) ''claims/task/a b?'' '''' ''dev'' ''t1'' hour) \<lparr>refs = [], shaSeq = 0\<rparr> =
      run_state (rc_Put fakeClient ''claims/task/a b?'' '''' ''dev'' ''t1'' hour) \<lparr>refs = [], shaSeq = 0\<rparr>"
    using conjunct1 [OF conjunct2 [OF http_client_refines_ref_store [OF a d r]], THEN mp] asc short by blast
  with put show ?thesis by simp
qed

end
