(* ===== verification/Index_Client.thy ===== *)
theory Index_Client
  imports Ref_Client Handler_Base
begin

text \<open>
  The client of the task index of vault-api (\<^verbatim>\<open>pkg/claim/vault_api_index_client.go\<close>) and the readers of the
  gateway secrets (\<^verbatim>\<open>pkg/gitrest_gateway_secret.go\<close>, \<^verbatim>\<open>pkg/vault_api_gateway_secret.go\<close>). The index is what the
  divergence check compares the task view with; the theorems show that a response that lost a field is an
  error and never an empty index, and that a gateway secret that is configured is never silently empty.
\<close>

section \<open>The index\<close>

definition maxIndexResponseBytes :: nat where "maxIndexResponseBytes = 32 * 1024 * 1024"

record vaultAPIIndexClient =
  ic_baseURL :: string
  ic_gatewaySecret :: string
  ic_gatewayInitiator :: string

definition NewVaultAPIIndexClient :: "string \<Rightarrow> string \<Rightarrow> string \<Rightarrow> vaultAPIIndexClient" where
  "NewVaultAPIIndexClient baseURL gatewaySecret gatewayInitiator =
     \<lparr>ic_baseURL = trimRightSlash baseURL, ic_gatewaySecret = gatewaySecret, ic_gatewayInitiator = gatewayInitiator\<rparr>"

record taskIndexResponseBody =
  ib_Items :: "json option"
  ib_Total :: "int option"
  ib_Warnings :: "int option"
  ib_IndexAgeSeconds :: "int option"

definition taskIndexFields :: "taskIndexResponseBody json_field list" where
  "taskIndexFields =
     [raw_field ''items'' (\<lambda>j b. b\<lparr>ib_Items := Some j\<rparr>),
      int_pointer_field ''total'' (\<lambda>n b. b\<lparr>ib_Total := n\<rparr>),
      int_pointer_field ''warnings'' (\<lambda>n b. b\<lparr>ib_Warnings := n\<rparr>),
      int_pointer_field ''index_age_seconds'' (\<lambda>n b. b\<lparr>ib_IndexAgeSeconds := n\<rparr>)]"

definition taskIndexItemFields :: "TaskIndexItem json_field list" where
  "taskIndexItemFields =
     [string_field ''id'' (\<lambda>s i. i\<lparr>ti_ID := s\<rparr>), string_field ''status'' (\<lambda>s i. i\<lparr>ti_Status := s\<rparr>),
      string_field ''phase'' (\<lambda>s i. i\<lparr>ti_Phase := s\<rparr>)]"

definition emptyIndexBody :: taskIndexResponseBody where
  "emptyIndexBody = \<lparr>ib_Items = None, ib_Total = None, ib_Warnings = None, ib_IndexAgeSeconds = None\<rparr>"

definition decodeTaskIndex :: "json_lib \<Rightarrow> string \<Rightarrow> go_error + TaskIndex option" where
  "decodeTaskIndex J raw =
     (case js_parse J raw of
        None \<Rightarrow> Inl (PlainError ''decode vault-api task index response'')
      | Some j \<Rightarrow>
          (let (parsed, ok) = unmarshalStruct (js_unicode J) taskIndexFields j emptyIndexBody in
           if \<not> ok then Inl (PlainError ''decode vault-api task index response'')
           else
             (case ib_Items parsed of
                None \<Rightarrow> Inl (PlainError ''missing items'')
              | Some its \<Rightarrow>
                  (case unmarshalSlice (js_unicode J) taskIndexItemFields \<lparr>ti_ID = '''', ti_Status = '''', ti_Phase = ''''\<rparr> its of
                     None \<Rightarrow> Inl (PlainError ''decode vault-api task index items'')
                   | Some found \<Rightarrow>
                       (case ib_IndexAgeSeconds parsed of
                          None \<Rightarrow> Inl (PlainError ''missing index_age_seconds'')
                        | Some age \<Rightarrow>
                            Inr (Some \<lparr>ix_Items = found,
                              ix_Total = (case ib_Total parsed of Some n \<Rightarrow> n | None \<Rightarrow> 0),
                              ix_Warnings = (case ib_Warnings parsed of Some n \<Rightarrow> n | None \<Rightarrow> 0),
                              ix_AgeSeconds = age\<rparr>))))))"

definition index_Read :: "'w httpLib \<Rightarrow> vaultAPIIndexClient \<Rightarrow> ('w, go_error + TaskIndex option) state" where
  "index_Read L c =
     (if ic_baseURL c = '''' then State_Monad.return (Inl (PlainError ''vault-api task index: base URL is empty''))
      else
        (case newRequest L ''GET'' (ic_baseURL c @ ''/api/v1/tasks'') '''' of
           Inl e \<Rightarrow> State_Monad.return (Inl (ClaimFailure e))
         | Inr req \<Rightarrow>
             do { r \<leftarrow> hl_Do L (gatewayHeaders (ic_gatewaySecret c) (ic_gatewayInitiator c) req);
                  State_Monad.return
                    (case r of
                       Inl e \<Rightarrow> Inl (ClaimFailure e)
                     | Inr resp \<Rightarrow>
                         (case readLimited (maxIndexResponseBytes + 1) resp of
                            Inl e \<Rightarrow> Inl (ClaimFailure e)
                          | Inr raw \<Rightarrow>
                              if length raw > maxIndexResponseBytes then Inl (PlainError ''vault-api task index response too large'')
                              else if rs_Status resp \<noteq> 200 then Inl (PlainError ''vault-api task index answered another status'')
                              else decodeTaskIndex (hl_json L) raw)) }))"

section \<open>Gateway secrets\<close>

text \<open>The secrets of a namespace as the cluster answers for them: the data of the Secret, or an error.\<close>

type_synonym 'w secret_reader = "string \<Rightarrow> string \<Rightarrow> ('w, go_error + (string, string) gomap) state"

definition gitRestGatewaySecretDataKey :: string where "gitRestGatewaySecretDataKey = ''gateway-secret''"

definition vaultAPIGatewaySecretDataKey :: string where "vaultAPIGatewaySecretDataKey = ''gateway-secret''"

definition readGatewaySecret ::
  "'w secret_reader \<Rightarrow> string \<Rightarrow> string \<Rightarrow> string \<Rightarrow> string \<Rightarrow> ('w, go_error + string) state" where
  "readGatewaySecret getSecret namespace secretName dataKey component =
     (if secretName = '''' then State_Monad.return (Inr '''')
      else
        do { r \<leftarrow> getSecret namespace secretName;
             State_Monad.return
               (case r of
                  Inl e \<Rightarrow> Inl (Wrapped (''get '' @ component @ '' gateway secret'') e)
                | Inr dat \<Rightarrow>
                    (case map_of dat dataKey of
                       None \<Rightarrow> Inl (PlainError (''secret '' @ secretName @ '' lacks data key '' @ dataKey))
                     | Some v \<Rightarrow>
                         if length v = 0 then Inl (PlainError (''secret '' @ secretName @ '' data key '' @ dataKey @ '' is empty''))
                         else Inr v)) })"

definition ReadGitRestGatewaySecret :: "'w secret_reader \<Rightarrow> string \<Rightarrow> string \<Rightarrow> ('w, go_error + string) state" where
  "ReadGitRestGatewaySecret getSecret namespace secretName =
     readGatewaySecret getSecret namespace secretName gitRestGatewaySecretDataKey ''git-rest''"

definition ReadVaultAPIGatewaySecret :: "'w secret_reader \<Rightarrow> string \<Rightarrow> string \<Rightarrow> ('w, go_error + string) state" where
  "ReadVaultAPIGatewaySecret getSecret namespace secretName =
     readGatewaySecret getSecret namespace secretName vaultAPIGatewaySecretDataKey ''vault-api''"

lemma readGatewaySecret_empty:
  "fst (run_state (readGatewaySecret getSecret ns name key service) w) = Inr v \<Longrightarrow> v = '''' \<longleftrightarrow> name = ''''"
  by (auto simp: readGatewaySecret_def split: if_splits sum.splits option.splits prod.splits)

lemma readGatewaySecret_disabled: "readGatewaySecret getSecret ns '''' key service = State_Monad.return (Inr '''')"
  by (simp add: readGatewaySecret_def)

section \<open>A lost field is an error\<close>

text \<open>The value of the last member that names a field; it decides, as later members overwrite earlier ones.\<close>

fun lastMember :: "unicode \<Rightarrow> 'a json_field list \<Rightarrow> string \<Rightarrow> (string \<times> json) list \<Rightarrow> json option" where
  "lastMember U fs name [] = None"
| "lastMember U fs name ((key, j) # ms) =
     (case lastMember U fs name ms of
        Some x \<Rightarrow> Some x
      | None \<Rightarrow> if names_field U fs name key then Some j else None)"

lemma setMembers_items:
  "ib_Items (fst (setMembers U taskIndexFields ms b)) =
     (case lastMember U taskIndexFields ''items'' ms of Some j \<Rightarrow> Some j | None \<Rightarrow> ib_Items b)"
proof (induction U "taskIndexFields" ms b rule: setMembers.induct)
  case (2 U key j ms b)
  show ?case
  proof (cases "findField U taskIndexFields key")
    case None
    with 2 show ?thesis by (simp add: names_field_def split: option.split)
  next
    case (Some f)
    obtain b1 ok where one: "snd f j b = (b1, ok)" by fastforce
    from findField_mem [OF Some] consider "fst f = ''items''" "ib_Items b1 = Some j"
      | "fst f \<noteq> ''items''" "ib_Items b1 = ib_Items b"
      using one by (auto simp: taskIndexFields_def raw_field_def int_pointer_field_def split: json.splits option.splits)
    then show ?thesis
      using 2(2) [OF Some one [symmetric]] Some one by cases (auto simp: names_field_def Let_def split: option.split prod.split)
  qed
qed simp

lemma setMembers_age:
  "snd (setMembers U taskIndexFields ms b) \<Longrightarrow>
   ib_IndexAgeSeconds (fst (setMembers U taskIndexFields ms b)) =
     (case lastMember U taskIndexFields ''index_age_seconds'' ms of
        Some (JNum lit) \<Rightarrow> atoi lit | Some _ \<Rightarrow> None | None \<Rightarrow> ib_IndexAgeSeconds b)"
proof (induction U "taskIndexFields" ms b rule: setMembers.induct)
  case (2 U key j ms b)
  show ?case
  proof (cases "findField U taskIndexFields key")
    case None
    with 2 show ?thesis by (simp add: names_field_def split: option.split)
  next
    case (Some f)
    obtain b1 ok where one: "snd f j b = (b1, ok)" by fastforce
    from findField_mem [OF Some] consider
        (age) "fst f = ''index_age_seconds''"
          "ok \<longrightarrow> ib_IndexAgeSeconds b1 = (case j of JNum lit \<Rightarrow> atoi lit | _ \<Rightarrow> None)"
      | (rest) "fst f \<noteq> ''index_age_seconds''" "ib_IndexAgeSeconds b1 = ib_IndexAgeSeconds b"
      using one by (auto simp: taskIndexFields_def raw_field_def int_pointer_field_def split: json.splits option.splits)
    then show ?thesis
    proof cases
      case age
      then show ?thesis
        using 2(2) [OF Some one [symmetric]] 2(3) Some one
        by (auto simp: names_field_def Let_def split: option.splits prod.splits json.splits)
    next
      case rest
      then show ?thesis
        using 2(2) [OF Some one [symmetric]] 2(3) Some one
        by (auto simp: names_field_def Let_def split: option.splits prod.splits)
    qed
  qed
qed simp

text \<open>
  Schema drift is an error, never an empty index. An index is read only from an object with a member for \<open>items\<close>
  and one for \<open>index_age_seconds\<close>; the items are the elements of that member, one for one, and only \<open>null\<close> or an
  empty list make the index empty; the age is the number given.
\<close>

theorem index_read_only_from_complete_response:
  assumes "decodeTaskIndex J raw = Inr r"
  shows "\<exists>ix ms its lit. r = Some ix \<and> js_parse J raw = Some (JObj ms) \<and>
    lastMember (js_unicode J) taskIndexFields ''items'' ms = Some its \<and>
    (its = JNull \<and> ix_Items ix = [] \<or> (\<exists>js. its = JArr js \<and> length (ix_Items ix) = length js)) \<and>
    lastMember (js_unicode J) taskIndexFields ''index_age_seconds'' ms = Some (JNum lit) \<and> atoi lit = Some (ix_AgeSeconds ix)"
proof -
  from assms obtain j where j: "js_parse J raw = Some j" by (auto simp: decodeTaskIndex_def split: option.splits)
  let ?U = "js_unicode J" and ?zero = "\<lparr>ti_ID = '''', ti_Status = '''', ti_Phase = ''''\<rparr>"
  obtain b where b: "unmarshalStruct ?U taskIndexFields j emptyIndexBody = (b, True)"
    using assms j by (auto simp: decodeTaskIndex_def split: prod.splits if_splits)
  from assms j b obtain its found age where parts: "ib_Items b = Some its" "unmarshalSlice ?U taskIndexItemFields ?zero its = Some found"
    "ib_IndexAgeSeconds b = Some age"
    and r: "r = Some \<lparr>ix_Items = found, ix_Total = (case ib_Total b of Some n \<Rightarrow> n | None \<Rightarrow> 0),
      ix_Warnings = (case ib_Warnings b of Some n \<Rightarrow> n | None \<Rightarrow> 0), ix_AgeSeconds = age\<rparr>"
    by (auto simp: decodeTaskIndex_def split: option.splits)
  from b parts(1) obtain ms where ms: "j = JObj ms"
    by (auto simp: unmarshalStruct_def emptyIndexBody_def split: json.splits)
  from b ms have run: "setMembers ?U taskIndexFields ms emptyIndexBody = (b, True)" by simp
  have items: "lastMember ?U taskIndexFields ''items'' ms = Some its"
    using setMembers_items [of ?U ms emptyIndexBody] run parts(1) by (simp add: emptyIndexBody_def split: option.splits)
  obtain lit where age: "lastMember ?U taskIndexFields ''index_age_seconds'' ms = Some (JNum lit)" "atoi lit = Some age"
    using setMembers_age [of ?U ms emptyIndexBody] run parts(3) by (auto simp: emptyIndexBody_def split: option.splits json.splits)
  have "its = JNull \<and> found = [] \<or> (\<exists>js. its = JArr js \<and> length found = length js)"
    using parts(2) by (auto simp: unmarshalSlice_def Let_def split: json.splits if_splits)
  with j ms items age r show ?thesis by simp
qed

theorem index_read_only_from_complete_response_witness:
  "\<exists>ix. decodeTaskIndex plainJson (enc_json (JObj [(''items'', JNull), (''index_age_seconds'', JNum ''7'')])) = Inr (Some ix) \<and>
    ix_Items ix = [] \<and> ix_AgeSeconds ix = 7"
proof -
  let ?raw = "enc_json (JObj [(''items'', JNull), (''index_age_seconds'', JNum ''7'')])"
  have "\<not> isl (decodeTaskIndex plainJson ?raw)" by code_simp
  then obtain r where r: "decodeTaskIndex plainJson ?raw = Inr r" by (cases "decodeTaskIndex plainJson ?raw") auto
  have parse: "js_parse plainJson ?raw = Some (JObj [(''items'', JNull), (''index_age_seconds'', JNum ''7'')])" by code_simp
  have last: "lastMember (js_unicode plainJson) taskIndexFields ''items'' [(''items'', JNull), (''index_age_seconds'', JNum ''7'')] = Some JNull"
    "lastMember (js_unicode plainJson) taskIndexFields ''index_age_seconds'' [(''items'', JNull), (''index_age_seconds'', JNum ''7'')] = Some (JNum ''7'')"
    by code_simp+
  have seven: "atoi ''7'' = Some 7" by code_simp
  from index_read_only_from_complete_response [OF r] parse last seven r show ?thesis by auto
qed

text \<open>
  A configured gateway secret is never silently empty. Both readers answer the empty value exactly when no secret is
  named, and then without asking the cluster; a named Secret that is missing, lacks its key or holds nothing is an error.
\<close>

theorem gateway_secret_empty_iff_disabled:
  "fst (run_state (ReadGitRestGatewaySecret getSecret ns name) w) = Inr v \<or>
   fst (run_state (ReadVaultAPIGatewaySecret getSecret ns name) w) = Inr v \<Longrightarrow>
   (v = '''' \<longleftrightarrow> name = '''') \<and> (name = '''' \<longrightarrow> snd (run_state (ReadGitRestGatewaySecret getSecret ns name) w) = w)"
  unfolding ReadGitRestGatewaySecret_def ReadVaultAPIGatewaySecret_def
  by (auto dest: readGatewaySecret_empty simp: readGatewaySecret_disabled)

theorem gateway_secret_empty_iff_disabled_witness:
  "fst (run_state (ReadVaultAPIGatewaySecret (\<lambda>ns name. State (\<lambda>n. (Inr [(''gateway-secret'', ''s3'')], Suc n))) ''agents'' ''gw'') 0) = Inr ''s3''"
proof -
  let ?get = "\<lambda>ns name. State (\<lambda>n :: nat. (Inr [(''gateway-secret'', ''s3'')], Suc n))"
  have run: "fst (run_state (ReadVaultAPIGatewaySecret ?get ''agents'' ''gw'') 0) = Inr ''s3''"
    by (simp add: ReadVaultAPIGatewaySecret_def readGatewaySecret_def vaultAPIGatewaySecretDataKey_def)
  from gateway_secret_empty_iff_disabled [OF disjI2 [OF run]] run show ?thesis by simp
qed

end
