(* ===== verification/Endpoints.thy ===== *)
theory Endpoints
  imports Task_Model
begin

text \<open>
  The parts of the executor that are driven from outside: the health check that publishes one probe task per
  configuration (\<^verbatim>\<open>pkg/probe/probe.go\<close>), the listing of agents (\<^verbatim>\<open>pkg/handler/agents_handler.go\<close>), the guard of the
  profiling routes (\<^verbatim>\<open>pprofHandler\<close> of \<^verbatim>\<open>main.go\<close>) and the reader of pod logs (\<^verbatim>\<open>pkg/pod_log_reader.go\<close>). The
  name-based UUID, the type of a health check task, the encoder of events, the sender of commands and the log API are parameters.
\<close>

section \<open>Probes\<close>

record probeCreate =
  pc_TaskIdentifier :: string
  pc_Title :: string
  pc_Frontmatter :: frontmatter
  pc_Body :: string

record probeUpdate =
  pu_TaskIdentifier :: string
  pu_Updates :: frontmatter

datatype probeCommand = ProbeCreate probeCreate | ProbeUpdate probeUpdate

datatype probeOperation = ProbeCreateOperation | ProbeUpdateOperation

record 'e probeObject =
  po_Operation :: probeOperation
  po_Initiator :: string
  po_Event :: 'e

record ('e, 'w) probe_env =
  pr_uuid :: "string \<Rightarrow> string"
  pr_ParseEvent :: "probeCommand \<Rightarrow> go_error + 'e"
  pr_Send :: "'e probeObject \<Rightarrow> ('w, go_error option) state"
  pr_Configs :: "('w, go_error + Config list) state"
  pr_branch :: string
  pr_TaskTypeHealthcheck :: string

definition probe_Publish :: "('e, 'w) probe_env \<Rightarrow> probeOperation \<Rightarrow> probeCommand \<Rightarrow> ('w, go_error option) state" where
  "probe_Publish env oper payload =
     (case pr_ParseEvent env payload of
        Inl e \<Rightarrow> State_Monad.return (Some (Wrapped ''parse event for operation'' e))
      | Inr ev \<Rightarrow>
          do { err \<leftarrow> pr_Send env \<lparr>po_Operation = oper, po_Initiator = ''executor'', po_Event = ev\<rparr>;
               State_Monad.return (map_option (Wrapped ''send command for operation'') err) })"

text \<open>The identifier is the name-based UUID of the agent and the stage, so it never changes.\<close>

definition probeTaskID :: "(string \<Rightarrow> string) \<Rightarrow> string \<Rightarrow> string \<Rightarrow> string" where
  "probeTaskID uuid agentName stage = uuid (agentName @ ''-'' @ stage)"

definition probeCreateCommand :: "('e, 'w) probe_env \<Rightarrow> string \<Rightarrow> probeCommand" where
  "probeCreateCommand env agentName = ProbeCreate
     \<lparr>pc_TaskIdentifier = probeTaskID (pr_uuid env) agentName (pr_branch env),
      pc_Title = ''probe-'' @ agentName @ ''-'' @ pr_branch env,
      pc_Frontmatter =
        [(''task_type'', FmString (pr_TaskTypeHealthcheck env)), (''status'', FmString ''in_progress''), (''phase'', FmString ''in_progress''),
         (''assignee'', FmString agentName), (''stage'', FmString (pr_branch env))],
      pc_Body = ''reply '' @ [CHR 0x27] @ ''ok'' @ [CHR 0x27]\<rparr>"

definition probeUpdateCommand :: "('e, 'w) probe_env \<Rightarrow> string \<Rightarrow> probeCommand" where
  "probeUpdateCommand env agentName = ProbeUpdate
     \<lparr>pu_TaskIdentifier = probeTaskID (pr_uuid env) agentName (pr_branch env),
      pu_Updates =
        [(''status'', FmString ''in_progress''), (''phase'', FmString ''in_progress''), (''trigger_count'', FmInt 0),
         (''current_job'', FmString ''''), (''job_started_at'', FmString ''''), (''spawn_notification'', FmBool False)]\<rparr>"

fun probeConfigs :: "('e, 'w) probe_env \<Rightarrow> Config list \<Rightarrow> ('w, go_error option) state" where
  "probeConfigs env [] = State_Monad.return None"
| "probeConfigs env (config # configs) =
     (let agentName = sp_Assignee (cfg_Spec config) in
      do { err \<leftarrow> probe_Publish env ProbeCreateOperation (probeCreateCommand env agentName);
           case err of
             Some e \<Rightarrow> State_Monad.return (Some (Wrapped (''publish create-task for '' @ agentName) e))
           | None \<Rightarrow>
               do { err2 \<leftarrow> probe_Publish env ProbeUpdateOperation (probeUpdateCommand env agentName);
                    case err2 of
                      Some e \<Rightarrow> State_Monad.return (Some (Wrapped (''publish update-frontmatter for '' @ agentName) e))
                    | None \<Rightarrow> probeConfigs env configs } })"

definition healthcheck_Run :: "('e, 'w) probe_env \<Rightarrow> ('w, go_error option) state" where
  "healthcheck_Run env =
     do { r \<leftarrow> pr_Configs env;
          case r of
            Inl e \<Rightarrow> State_Monad.return (Some (Wrapped ''list configs'' e))
          | Inr configs \<Rightarrow> probeConfigs env configs }"

section \<open>The listing of agents\<close>

record agentEntry =
  ae_Name :: string
  ae_Assignee :: string
  ae_Image :: string
  ae_Heartbeat :: string
  ae_SecretName :: string
  ae_VolumeClaim :: string
  ae_VolumeMountPath :: string
  ae_ConfigMapName :: string
  ae_ConfigMapMountPath :: string
  ae_ConfigMapItems :: "ConfigMapItem list"

datatype 'a httpAnswer = Refused int string | Answered "'a list"

definition agentEntryOf :: "Config \<Rightarrow> agentEntry" where
  "agentEntryOf c =
     \<lparr>ae_Name = cfg_Name c, ae_Assignee = sp_Assignee (cfg_Spec c), ae_Image = sp_Image (cfg_Spec c),
      ae_Heartbeat = sp_Heartbeat (cfg_Spec c), ae_SecretName = sp_SecretName (cfg_Spec c),
      ae_VolumeClaim = sp_VolumeClaim (cfg_Spec c), ae_VolumeMountPath = sp_VolumeMountPath (cfg_Spec c),
      ae_ConfigMapName = sp_ConfigMapName (cfg_Spec c), ae_ConfigMapMountPath = sp_ConfigMapMountPath (cfg_Spec c),
      ae_ConfigMapItems = elems (sp_ConfigMapItems (cfg_Spec c))\<rparr>"

definition agents_ServeHTTP ::
  "string \<Rightarrow> ('w, go_error + Config list) state \<Rightarrow> string \<Rightarrow> ('w, agentEntry httpAnswer) state" where
  "agents_ServeHTTP authSecret provider authHeader =
     (if authSecret \<noteq> '''' \<and> authHeader \<noteq> authSecret then State_Monad.return (Refused 401 ''unauthorized'')
      else
        do { r \<leftarrow> provider;
             State_Monad.return
               (case r of
                  Inl e \<Rightarrow> Refused 500 ''failed to list configs''
                | Inr configs \<Rightarrow> Answered (map agentEntryOf configs)) })"

text \<open>The profiling routes: not mounted without a secret, and behind the same header with one.\<close>

definition pprofHandler :: "string \<Rightarrow> (string \<Rightarrow> 'r) \<Rightarrow> (string \<Rightarrow> 'r + int) option" where
  "pprofHandler authSecret serve =
     (if authSecret = '''' then None
      else Some (\<lambda>authHeader. if authHeader \<noteq> authSecret then Inr 401 else Inl (serve authHeader)))"

section \<open>Pod logs\<close>

definition logTailMaxLines :: nat where "logTailMaxLines = 200"
definition logTailMaxBytes :: nat where "logTailMaxBytes = 64 * 1024"

text \<open>\<open>getLogs\<close> is the log API with its limits on lines and bytes; reading the stream it opens may fail.\<close>

definition podLog_Tail ::
  "(string \<Rightarrow> string \<Rightarrow> nat \<Rightarrow> nat \<Rightarrow> ('w, go_error + (go_error + string)) state) \<Rightarrow> string \<Rightarrow> string \<Rightarrow> ('w, go_error + string) state" where
  "podLog_Tail getLogs namespace podName =
     do { r \<leftarrow> getLogs namespace podName logTailMaxLines logTailMaxBytes;
          State_Monad.return
            (case r of
               Inl e \<Rightarrow> Inl (Wrapped ''stream log for pod'' e)
             | Inr (Inl e) \<Rightarrow> Inl (Wrapped ''read log for pod'' e)
             | Inr (Inr body) \<Rightarrow> Inr (take logTailMaxBytes body)) }"

section \<open>What a probe run publishes\<close>

text \<open>The objects of a complete run: for every configuration its task and the reset of its run state, in this order.\<close>

definition probeObjects :: "('e, 'w) probe_env \<Rightarrow> (probeCommand \<Rightarrow> 'e) \<Rightarrow> Config list \<Rightarrow> 'e probeObject list" where
  "probeObjects env enc configs =
     concat (map (\<lambda>config.
       [\<lparr>po_Operation = ProbeCreateOperation, po_Initiator = ''executor'',
         po_Event = enc (probeCreateCommand env (sp_Assignee (cfg_Spec config)))\<rparr>,
        \<lparr>po_Operation = ProbeUpdateOperation, po_Initiator = ''executor'',
         po_Event = enc (probeUpdateCommand env (sp_Assignee (cfg_Spec config)))\<rparr>]) configs)"

text \<open>
  What the sender promises: an object it accepts is appended to the log of sent objects, one it refuses leaves no
  trace there; the encoder never fails on a command.
\<close>

locale probe_log =
  fixes env :: "('e, 'w) probe_env" and sent :: "'w \<Rightarrow> 'e probeObject list" and enc :: "probeCommand \<Rightarrow> 'e"
  assumes send_ok: "run_state (pr_Send env ob) w = (None, w') \<Longrightarrow> sent w' = sent w @ [ob]"
    and send_refused: "run_state (pr_Send env ob) w = (Some e, w') \<Longrightarrow> sent w' = sent w"
    and encodes: "pr_ParseEvent env cmd = Inr (enc cmd)"
begin

lemma publish_log:
  assumes "run_state (probe_Publish env oper cmd) w = (err, w')"
  shows "sent w' = sent w @ (if err = None then [\<lparr>po_Operation = oper, po_Initiator = ''executor'', po_Event = enc cmd\<rparr>] else [])"
proof -
  let ?ob = "\<lparr>po_Operation = oper, po_Initiator = ''executor'', po_Event = enc cmd\<rparr>"
  obtain e v where s: "run_state (pr_Send env ?ob) w = (e, v)" by fastforce
  with assms have "w' = v" "err = None \<longleftrightarrow> e = None" by (auto simp: probe_Publish_def encodes)
  with s show ?thesis by (cases e) (auto dest: send_ok send_refused)
qed

lemma probes_log:
  assumes "run_state (probeConfigs env configs) w = (err, w')"
  shows "\<exists>n. sent w' = sent w @ take n (probeObjects env enc configs) \<and> (err = None \<longleftrightarrow> n \<ge> length (probeObjects env enc configs))"
  using assms
proof (induction configs arbitrary: w)
  case Nil
  then show ?case by (auto simp: probeObjects_def)
next
  case (Cons config configs)
  let ?a = "sp_Assignee (cfg_Spec config)" and ?rest = "probeObjects env enc configs"
  let ?o1 = "\<lparr>po_Operation = ProbeCreateOperation, po_Initiator = ''executor'', po_Event = enc (probeCreateCommand env ?a)\<rparr>"
  let ?o2 = "\<lparr>po_Operation = ProbeUpdateOperation, po_Initiator = ''executor'', po_Event = enc (probeUpdateCommand env ?a)\<rparr>"
  have objs: "probeObjects env enc (config # configs) = ?o1 # ?o2 # ?rest" by (simp add: probeObjects_def)
  obtain e1 w1 where one: "run_state (probe_Publish env ProbeCreateOperation (probeCreateCommand env ?a)) w = (e1, w1)" by fastforce
  obtain e2 w2 where two: "run_state (probe_Publish env ProbeUpdateOperation (probeUpdateCommand env ?a)) w1 = (e2, w2)" by fastforce
  show ?case
  proof (cases e1)
    case (Some e)
    with Cons.prems one have "w' = w1" "err \<noteq> None" by (auto simp: Let_def)
    with publish_log [OF one] Some objs show ?thesis by (intro exI [of _ 0]) auto
  next
    case ok1: None
    show ?thesis
    proof (cases e2)
      case (Some e)
      with Cons.prems one two ok1 have "w' = w2" "err \<noteq> None" by (auto simp: Let_def)
      with publish_log [OF one] publish_log [OF two] ok1 Some objs show ?thesis by (intro exI [of _ 1]) auto
    next
      case None
      with Cons.prems one two ok1 have "run_state (probeConfigs env configs) w2 = (err, w')" by (simp add: Let_def)
      from Cons.IH [OF this] obtain n where n: "sent w' = sent w2 @ take n ?rest" "err = None \<longleftrightarrow> n \<ge> length ?rest" by blast
      with publish_log [OF one] publish_log [OF two] ok1 None objs show ?thesis by (intro exI [of _ "Suc (Suc n)"]) auto
    qed
  qed
qed

end

text \<open>A sender that accepts every object, over the list of what was sent.\<close>

definition recordingProbe :: "Config list \<Rightarrow> (probeCommand, probeCommand probeObject list) probe_env" where
  "recordingProbe configs =
     \<lparr>pr_uuid = (\<lambda>s. ''uuid-'' @ s), pr_ParseEvent = Inr, pr_Send = (\<lambda>ob. State (\<lambda>log. (None, log @ [ob]))),
      pr_Configs = State_Monad.return (Inr configs), pr_branch = ''dev'', pr_TaskTypeHealthcheck = ''healthcheck''\<rparr>"

interpretation rp: probe_log "recordingProbe configs" "\<lambda>log. log" "\<lambda>c. c"
  by unfold_locales (auto simp: recordingProbe_def)

text \<open>
  A health check leaves no probe half reset unnoticed. Whatever the sender refuses, what a run has sent is the start
  of the full sequence, in which the reset of the run state of a probe directly follows its task; the run reports no
  error exactly when the whole sequence was sent. The reset clears the Job of the previous run and its counters.
\<close>

theorem probe_run_is_prefix:
  assumes "probe_log env sent enc" and "run_state (probeConfigs env configs) w = (err, w')"
  shows "\<exists>n. sent w' = sent w @ take n (probeObjects env enc configs) \<and> (err = None \<longleftrightarrow> n \<ge> length (probeObjects env enc configs))"
  using assms by (rule probe_log.probes_log)

theorem probe_run_is_prefix_witness:
  "\<exists>log. run_state (probeConfigs (recordingProbe []) [bareConfig ''claude'' [''x'']]) [] = (None, log) \<and> length log = 2"
proof -
  let ?env = "recordingProbe []" and ?cfgs = "[bareConfig ''claude'' [''x'']]"
  obtain log where run: "run_state (probeConfigs ?env ?cfgs) [] = (None, log)"
    by (simp add: recordingProbe_def probe_Publish_def Let_def)
  have two: "length (probeObjects ?env (\<lambda>c. c) ?cfgs) = 2" by (simp add: probeObjects_def)
  from probe_run_is_prefix [OF rp.probe_log_axioms run] two obtain n where "log = take n (probeObjects ?env (\<lambda>c. c) ?cfgs)" "n \<ge> 2" by auto
  with two run show ?thesis by auto
qed

end
