(* ===== verification/Wiring.thy ===== *)
theory Wiring
  imports Index_Client Endpoints
begin

text \<open>
  How an executor is put together: the options of the handler (\<^verbatim>\<open>pkg/handler/task_event_handler_options.go\<close>), its
  constructor (\<^verbatim>\<open>NewTaskEventHandler\<close> in \<^verbatim>\<open>pkg/handler/task_event_handler.go\<close>) and the wiring of
  \<^verbatim>\<open>pkg/factory/factory.go\<close>. What a constructor only stores is an argument here.
\<close>

section \<open>The handler and its options\<close>

text \<open>The address of vault-api and how to pass its gateway.\<close>

record vaultClientConfig =
  vc_baseURL :: string
  vc_gatewaySecret :: string
  vc_gatewayInitiator :: string

text \<open>What the Go runtime and the task library give to every handler.\<close>

record 'w go_runtime =
  gr_lib :: task_lib
  gr_unicode :: unicode
  gr_ctxDone :: "'w \<Rightarrow> bool"
  gr_sleep :: "duration \<Rightarrow> ('w, unit) state"
  gr_parseDateTime :: "string \<Rightarrow> go_time option"
  gr_http :: "'w httpLib"
  gr_vaultAPI :: "vaultClientConfig \<Rightarrow> 'w vaultAPI"

type_synonym 'w HandlerOption = "'w handler_env \<Rightarrow> 'w handler_env"

definition WithClaimJobControl :: "'w JobControl option \<Rightarrow> 'w HandlerOption" where
  "WithClaimJobControl control h = h\<lparr>he_jobControl := control\<rparr>"

definition WithClaimClientFactory :: "'w ClaimClient option option \<Rightarrow> 'w HandlerOption" where
  "WithClaimClientFactory client h = h\<lparr>he_claimClientFactory := client\<rparr>"

definition WithSuccessStore :: "'w SuccessStore option \<Rightarrow> 'w HandlerOption" where
  "WithSuccessStore store h = h\<lparr>he_successStore := store\<rparr>"

definition WithVaultAliases :: "string list \<Rightarrow> 'w HandlerOption" where
  "WithVaultAliases aliases h = h\<lparr>he_vaultMatcher := NewVaultMatcher (vm_vault (he_vaultMatcher h)) aliases\<rparr>"

definition WithVaultAPIIndexClient :: "('w, go_error + TaskIndex option) state option \<Rightarrow> 'w HandlerOption" where
  "WithVaultAPIIndexClient client h = h\<lparr>he_indexClient := client\<rparr>"

definition WithConfigProvider :: "('w, go_error + Config list) state option \<Rightarrow> 'w HandlerOption" where
  "WithConfigProvider provider h = h\<lparr>he_configProvider := provider\<rparr>"

definition WithPodQuotaLimiter :: "(string \<Rightarrow> string \<Rightarrow> ('w, go_error + (int \<times> bool)) state) option \<Rightarrow> 'w HandlerOption" where
  "WithPodQuotaLimiter limiter h = h\<lparr>he_podQuota := limiter\<rparr>"

definition WithDeadLetterPublisher :: "(ConsumerMessage \<Rightarrow> go_error \<Rightarrow> ('w, go_error option) state) option \<Rightarrow> 'w HandlerOption" where
  "WithDeadLetterPublisher publisher h = h\<lparr>he_deadLetter := publisher\<rparr>"

text \<open>A handler: what it was built with, its state, and the two durations of its reconcile loop.\<close>

record 'w built_handler =
  bh_env :: "'w handler_env"
  bh_state :: "'w taskEventHandler"
  bh_reconcilePassTimeout :: duration
  bh_reconcileInterval :: duration

text \<open>The state of a new handler over a world \<open>w\<close>.\<close>

definition emptyHandler :: "TaskStore \<Rightarrow> taskView option \<Rightarrow> 'w \<Rightarrow> 'w taskEventHandler" where
  "emptyHandler taskStore view w =
     \<lparr>th_deferredRespawns = [], th_deferredEpochs = [], th_refusedGates = [], th_queuedAtStamps = [], th_redriveStreaks = [],
      th_spawnPending = [], th_spawnGens = [], th_jobLookupDeniedLoggedAt = [], th_configAcceptedPairs = [],
      th_taskStore = taskStore, th_view = view, th_lease = \<lparr>lm_held = [], lm_counts = [], lm_world = w\<rparr>,
      th_jobCache = None, th_streakCache = None, th_reasonCache = None, th_successCache = None, th_indexCache = None, th_counts = []\<rparr>"

definition NewTaskEventHandler ::
  "'w go_runtime \<Rightarrow> 'w \<Rightarrow> 'w JobSpawner \<Rightarrow> string \<Rightarrow> string \<Rightarrow> string \<Rightarrow> bool \<Rightarrow> bool \<Rightarrow> 'w ConfigResolver \<Rightarrow> 'w ResultPublisher \<Rightarrow>
   TaskStore \<Rightarrow> ('w, go_time) state \<Rightarrow> taskView option \<Rightarrow> string \<Rightarrow> duration \<Rightarrow> duration \<Rightarrow> ClaimMode \<Rightarrow>
   'w ClaimRefClient option option \<Rightarrow> 'w HandlerOption list \<Rightarrow> 'w built_handler" where
  "NewTaskEventHandler rt w jobSpawner namespace branch cluster stageFilter runUntagged resolver resultPublisher
     taskStore currentDateTime view taskVault passTimeout interval claimMode refClientFactory opts =
     (let h = \<lparr>he_lib = gr_lib rt, he_unicode = gr_unicode rt, he_jobSpawner = jobSpawner, he_namespace = namespace,
        he_branch = branch, he_cluster = cluster, he_stageFilter = stageFilter, he_runUntagged = runUntagged, he_resolver = resolver,
        he_publisher = resultPublisher, he_deadLetter = None, he_now = currentDateTime,
        he_vaultMatcher = NewVaultMatcher taskVault [], he_configProvider = None, he_claimMode = claimMode,
        he_refClientFactory = refClientFactory, he_claimClientFactory = None, he_jobControl = None, he_indexClient = None,
        he_successStore = None, he_podQuota = None, he_ctxDone = gr_ctxDone rt, he_sleep = gr_sleep rt,
        he_parseDateTime = gr_parseDateTime rt\<rparr> in
      \<lparr>bh_env = fold (\<lambda>opt h. opt h) opts h, bh_state = emptyHandler taskStore view w,
       bh_reconcilePassTimeout = passTimeout, bh_reconcileInterval = interval\<rparr>)"

section \<open>The factory\<close>

text \<open>What the other constructors of the factory return, each over the Kubernetes and Kafka clients of the process.\<close>

record 'w collaborators =
  co_jobSpawner :: "'w JobSpawner"
  co_resolver :: "'w ConfigResolver"
  co_configProvider :: "('w, go_error + Config list) state"
  co_publisher :: "'w ResultPublisher"
  co_podQuota :: "string \<Rightarrow> string \<Rightarrow> ('w, go_error + (int \<times> bool)) state"
  co_jobControl :: "'w JobControl"
  co_deadLetter :: "string \<Rightarrow> ConsumerMessage \<Rightarrow> go_error \<Rightarrow> ('w, go_error option) state"
  co_now :: "('w, go_time) state"

text \<open>The topic of the dead letters.\<close>

definition newDeadLetterPublisher :: "'w collaborators \<Rightarrow> string \<Rightarrow> ConsumerMessage \<Rightarrow> go_error \<Rightarrow> ('w, go_error option) state" where
  "newDeadLetterPublisher c topicPrefix = co_deadLetter c (topicPrefix @ ''-agent-task-v1-dead-letter'')"

text \<open>
  The handler that \<^verbatim>\<open>CreateConsumer\<close> returns beside the Kafka consumer. A client is nil, or a configuration from which
  the constructor of its package builds the client.
\<close>

definition CreateConsumer ::
  "'w go_runtime \<Rightarrow> 'w \<Rightarrow> 'w collaborators \<Rightarrow> string \<Rightarrow> string \<Rightarrow> bool \<Rightarrow> bool \<Rightarrow> string \<Rightarrow> string \<Rightarrow> TaskStore \<Rightarrow> taskView \<Rightarrow>
   string \<Rightarrow> string list \<Rightarrow> duration \<Rightarrow> duration \<Rightarrow> ClaimMode \<Rightarrow> claimRefClient option \<Rightarrow> vaultClientConfig option \<Rightarrow>
   vaultAPIIndexClient option \<Rightarrow> 'w built_handler" where
  "CreateConsumer rt w c branch cluster stageFilter runUntagged topicPrefix namespace taskStore view taskVault vaultAliases
     passTimeout interval claimMode refClientFactory claimClientFactory vaultIndexClient =
     NewTaskEventHandler rt w (co_jobSpawner c) namespace branch cluster stageFilter runUntagged (co_resolver c) (co_publisher c)
       taskStore (co_now c) (Some view) taskVault passTimeout interval claimMode
       (map_option (\<lambda>r. Some (refClient (gr_http rt) r)) refClientFactory)
       [WithClaimClientFactory (map_option (\<lambda>v. Some (vaultAPIClaimClient (gr_vaultAPI rt v))) claimClientFactory),
        WithConfigProvider (Some (co_configProvider c)),
        WithVaultAPIIndexClient (map_option (index_Read (gr_http rt)) vaultIndexClient),
        WithVaultAliases vaultAliases,
        WithPodQuotaLimiter (Some (co_podQuota c)),
        WithClaimJobControl (Some (co_jobControl c)),
        WithDeadLetterPublisher (Some (newDeadLetterPublisher c topicPrefix))]"

definition ClaimLeaseManager :: "'w handler_env \<Rightarrow> go_error + ('w lease_env \<times> 'w ClaimRefClient) option" where
  "ClaimLeaseManager env =
     (if he_claimMode env = ClaimModeOff then Inr None
      else (case leaseManager_of env of Inl e \<Rightarrow> Inl e | Inr m \<Rightarrow> Inr (Some m)))"

section \<open>Facts about the options\<close>

lemmas option_defs = WithClaimJobControl_def WithClaimClientFactory_def WithVaultAliases_def WithVaultAPIIndexClient_def
  WithConfigProvider_def WithPodQuotaLimiter_def WithDeadLetterPublisher_def

lemma matcher_accepts:
  "vault \<noteq> '''' \<Longrightarrow> Accepts (NewVaultMatcher vault aliases) v \<longleftrightarrow> v \<noteq> '''' \<and> (v = vault \<or> v \<in> set aliases)"
  by (auto simp: Accepts_def NewVaultMatcher_def)

end
