(* ===== verification/Config_Schema.thy ===== *)
theory Config_Schema
  imports Json_Model Job_Spawner
begin

text \<open>
  The custom resource definition of the agent configurations (\<^verbatim>\<open>pkg/k8s_connector.go\<close>): the schema it
  installs, and its installation and update under competing executors. The API server of the definitions,
  its defaulting function and the number of retries of the client library are parameters. The theorems show
  that the schema knows every field a configuration can carry, so that the API server prunes none of them,
  and that an installation that reports no error has left the schema in the cluster.
\<close>

section \<open>The schema\<close>

datatype JSONSchemaProps = JSONSchemaProps
  (sc_Type: string)
  (sc_Required: "string list")
  (sc_XValidations: "(string \<times> string) list")
  (sc_Properties: "(string \<times> JSONSchemaProps) list")
  (sc_Items: "JSONSchemaProps option")
  (sc_AdditionalProperties: "JSONSchemaProps option")
  (sc_Enum: "string list")
  (sc_Pattern: string)
  (sc_MinLength: "int option")
  (sc_MaxLength: "int option")
  (sc_Minimum: "int option")
  (sc_Format: string)

definition typed :: "string \<Rightarrow> JSONSchemaProps" where
  "typed t = JSONSchemaProps t [] [] [] None None [] '''' None None None ''''"

definition objectOf :: "(string \<times> JSONSchemaProps) list \<Rightarrow> JSONSchemaProps" where
  "objectOf ps = JSONSchemaProps ''object'' [] [] ps None None [] '''' None None None ''''"

definition arrayOf :: "JSONSchemaProps \<Rightarrow> JSONSchemaProps" where
  "arrayOf s = JSONSchemaProps ''array'' [] [] [] (Some s) None [] '''' None None None ''''"

definition enumOf :: "string list \<Rightarrow> JSONSchemaProps" where
  "enumOf vs = JSONSchemaProps ''string'' [] [] [] None None vs '''' None None None ''''"

definition shortString :: "string \<Rightarrow> int \<Rightarrow> JSONSchemaProps" where
  "shortString pattern maxLength = JSONSchemaProps ''string'' [] [] [] None None [] pattern None (Some maxLength) None ''''"

definition nonEmptyString :: JSONSchemaProps where
  "nonEmptyString = JSONSchemaProps ''string'' [] [] [] None None [] '''' (Some 1) None None ''''"

definition patternString :: "string \<Rightarrow> JSONSchemaProps" where
  "patternString pattern = JSONSchemaProps ''string'' [] [] [] None None [] pattern None None None ''''"

definition integerFrom :: "int \<Rightarrow> JSONSchemaProps" where
  "integerFrom least = JSONSchemaProps ''integer'' [] [] [] None None [] '''' None None (Some least) ''''"

definition integerFormat :: "string \<Rightarrow> JSONSchemaProps" where
  "integerFormat f = JSONSchemaProps ''integer'' [] [] [] None None [] '''' None None None f"

definition crdName :: string where "crdName = ''configs.agent.benjamin-borbe.de''"

definition crdDNS1123Label :: string where "crdDNS1123Label = ''^[a-z0-9]([-a-z0-9]*[a-z0-9])?$''"

definition crdMaxNameLen :: int where "crdMaxNameLen = 63"

definition jsonEnum :: "string list \<Rightarrow> string list" where
  "jsonEnum values = map (\<lambda>v. [CHR 0x22] @ v @ [CHR 0x22]) values"

definition agentTypeSchema :: JSONSchemaProps where
  "agentTypeSchema = enumOf [[CHR 0x22] @ ''job'' @ [CHR 0x22], [CHR 0x22] @ ''service'' @ [CHR 0x22]]"

definition configMapItemsSchema :: JSONSchemaProps where
  "configMapItemsSchema = arrayOf (objectOf [(''key'', typed ''string''), (''path'', typed ''string'')])"

definition stringMapSchema :: JSONSchemaProps where
  "stringMapSchema = JSONSchemaProps ''object'' [] [] [] None (Some (typed ''string'')) [] '''' None None None ''''"

definition tolerationSchema :: JSONSchemaProps where
  "tolerationSchema =
     objectOf
       [(''key'', typed ''string''),
        (''operator'', enumOf (jsonEnum [''Exists'', ''Equal''])),
        (''value'', typed ''string''),
        (''effect'', enumOf (jsonEnum ['''', ''NoSchedule'', ''PreferNoSchedule'', ''NoExecute''])),
        (''tolerationSeconds'', integerFormat ''int64'')]"

definition tolerationsSchema :: JSONSchemaProps where
  "tolerationsSchema = arrayOf tolerationSchema"

definition defaultForTaskTypesSchema :: "int \<Rightarrow> JSONSchemaProps" where
  "defaultForTaskTypesSchema maxLength = arrayOf (shortString ''^[a-z0-9-]+$'' maxLength)"

definition resourceListSchema :: JSONSchemaProps where
  "resourceListSchema = objectOf [(''cpu'', typed ''string''), (''memory'', typed ''string''), (''ephemeral-storage'', typed ''string'')]"

definition configSpecProperties :: "(string \<times> JSONSchemaProps) list" where
  "configSpecProperties =
     [(''assignee'', nonEmptyString),
      (''image'', nonEmptyString),
      (''heartbeat'', patternString ''^[0-9]+(s|m|h)$''),
      (''type'', agentTypeSchema),
      (''taskType'', shortString ''^[a-z0-9-]+$'' 63),
      (''taskTypes'', arrayOf (shortString ''^[a-z0-9-]+$'' 63)),
      (''defaultForTaskTypes'', defaultForTaskTypesSchema 63),
      (''resources'', objectOf [(''requests'', resourceListSchema), (''limits'', resourceListSchema)]),
      (''env'', stringMapSchema),
      (''secretName'', typed ''string''),
      (''volumeClaim'', typed ''string''),
      (''volumeMountPath'', typed ''string''),
      (''configMapName'', typed ''string''),
      (''configMapMountPath'', typed ''string''),
      (''configMapItems'', configMapItemsSchema),
      (''priorityClassName'', patternString crdDNS1123Label),
      (''nodeSelector'', stringMapSchema),
      (''tolerations'', tolerationsSchema),
      (''jobNamespace'', shortString crdDNS1123Label crdMaxNameLen),
      (''imagePullSecret'', typed ''string''),
      (''maxConcurrentJobs'', integerFrom 0),
      (''rerunOnLostClaim'', typed ''boolean''),
      (''zombieSweeperIntervalSeconds'', integerFrom MinZombieSweeperIntervalSeconds),
      (''zombieJobTimeoutSeconds'', integerFrom MinZombieJobTimeoutSeconds),
      (''trigger'', objectOf [(''phases'', arrayOf (typed ''string'')), (''statuses'', arrayOf (typed ''string''))])]"

definition configSpecValidations :: "(string \<times> string) list" where
  "configSpecValidations =
     [(''(has(self.type) && self.type == '' @ [CHR 0x27] @ ''service'' @ [CHR 0x27] @
         '') || (has(self.taskType) && size(self.taskType) > 0) || (has(self.taskTypes) && size(self.taskTypes) > 0)'',
       ''at least one of spec.taskType or spec.taskTypes must be non-empty (unless spec.type is service)'')]"

definition configSpecSchema :: JSONSchemaProps where
  "configSpecSchema =
     JSONSchemaProps ''object'' [''assignee'', ''image'', ''heartbeat''] configSpecValidations configSpecProperties
       None None [] '''' None None None ''''"

section \<open>A configuration on the wire\<close>

text \<open>
  The JSON form of \<open>ConfigSpec\<close> by its field tags: a field with \<^verbatim>\<open>omitempty\<close> is left out when it is empty.
  Every field of a toleration of the Kubernetes library has that tag.
\<close>

definition omitString :: "string \<Rightarrow> string \<Rightarrow> (string \<times> json) list" where
  "omitString name s = (if s = '''' then [] else [(name, JStr s)])"

definition omitStrings :: "string \<Rightarrow> string goslice \<Rightarrow> (string \<times> json) list" where
  "omitStrings name xs = (if elems xs = [] then [] else [(name, JArr (map JStr (elems xs)))])"

definition omitMap :: "string \<Rightarrow> string_map \<Rightarrow> (string \<times> json) list" where
  "omitMap name m =
     (case m of None \<Rightarrow> []
      | Some kvs \<Rightarrow> if kvs = [] then [] else [(name, JObj (map (\<lambda>(k, v). (k, JStr v)) (sort_key fst kvs)))])"

definition omitPointer :: "string \<Rightarrow> ('a \<Rightarrow> json) \<Rightarrow> 'a option \<Rightarrow> (string \<times> json) list" where
  "omitPointer name f p = (case p of None \<Rightarrow> [] | Some x \<Rightarrow> [(name, f x)])"

definition resourceListJson :: "AgentResourceList \<Rightarrow> json" where
  "resourceListJson l =
     JObj (omitString ''cpu'' (arl_CPU l) @ omitString ''memory'' (arl_Memory l) @ omitString ''ephemeral-storage'' (arl_EphemeralStorage l))"

definition resourcesJson :: "AgentResources \<Rightarrow> json" where
  "resourcesJson r = JObj [(''requests'', resourceListJson (ar_Requests r)), (''limits'', resourceListJson (ar_Limits r))]"

definition triggerJson :: "Trigger \<Rightarrow> json" where
  "triggerJson t = JObj (omitStrings ''phases'' (tr_Phases t) @ omitStrings ''statuses'' (tr_Statuses t))"

definition configMapItemJson :: "ConfigMapItem \<Rightarrow> json" where
  "configMapItemJson i = JObj [(''key'', JStr (cmi_Key i)), (''path'', JStr (cmi_Path i))]"

definition tolerationJson :: "toleration \<Rightarrow> json" where
  "tolerationJson t =
     JObj (omitString ''key'' (tol_Key t) @ omitString ''operator'' (tol_Operator t) @ omitString ''value'' (tol_Value t) @
       omitString ''effect'' (tol_Effect t) @ omitPointer ''tolerationSeconds'' (\<lambda>n. JNum (itoa n)) (tol_TolerationSeconds t))"

definition configSpecJson :: "ConfigSpec \<Rightarrow> json" where
  "configSpecJson s =
     JObj
       ([(''assignee'', JStr (sp_Assignee s)), (''image'', JStr (sp_Image s)), (''heartbeat'', JStr (sp_Heartbeat s))] @
        omitString ''type'' (sp_Type s) @ [(''taskType'', JStr (sp_TaskType s))] @
        omitStrings ''taskTypes'' (sp_TaskTypes s) @ omitStrings ''defaultForTaskTypes'' (sp_DefaultForTaskTypes s) @
        omitPointer ''resources'' resourcesJson (sp_Resources s) @ omitMap ''env'' (sp_Env s) @
        omitString ''secretName'' (sp_SecretName s) @ omitString ''volumeClaim'' (sp_VolumeClaim s) @
        omitString ''volumeMountPath'' (sp_VolumeMountPath s) @ omitString ''configMapName'' (sp_ConfigMapName s) @
        omitString ''configMapMountPath'' (sp_ConfigMapMountPath s) @
        (if elems (sp_ConfigMapItems s) = [] then [] else [(''configMapItems'', JArr (map configMapItemJson (elems (sp_ConfigMapItems s))))]) @
        omitString ''priorityClassName'' (sp_PriorityClassName s) @ omitMap ''nodeSelector'' (sp_NodeSelector s) @
        (if elems (sp_Tolerations s) = [] then [] else [(''tolerations'', JArr (map tolerationJson (elems (sp_Tolerations s))))]) @
        omitString ''jobNamespace'' (sp_JobNamespace s) @
        (if sp_MaxConcurrentJobs s = 0 then [] else [(''maxConcurrentJobs'', JNum (itoa (sp_MaxConcurrentJobs s)))]) @
        omitPointer ''rerunOnLostClaim'' JBool (sp_RerunOnLostClaim s) @ omitPointer ''trigger'' triggerJson (sp_Trigger s) @
        omitPointer ''zombieSweeperIntervalSeconds'' (\<lambda>n. JNum (itoa n)) (sp_ZombieSweeperIntervalSeconds s) @
        omitPointer ''zombieJobTimeoutSeconds'' (\<lambda>n. JNum (itoa n)) (sp_ZombieJobTimeoutSeconds s))"

section \<open>What a schema knows\<close>

text \<open>
  A schema knows a document when the document has the types it declares and no member it does not declare:
  a structural schema with \<^verbatim>\<open>preserveUnknownFields: false\<close> drops every member outside of it.
\<close>

fun known :: "JSONSchemaProps \<Rightarrow> json \<Rightarrow> bool" where
  "known s (JObj ms) =
     (sc_Type s = ''object'' \<and>
      list_all (\<lambda>(k, j).
        case map_of (sc_Properties s) k of
          Some t \<Rightarrow> known t j
        | None \<Rightarrow> (case sc_AdditionalProperties s of Some t \<Rightarrow> known t j | None \<Rightarrow> False)) ms)"
| "known s (JArr js) = (sc_Type s = ''array'' \<and> (case sc_Items s of Some t \<Rightarrow> list_all (known t) js | None \<Rightarrow> False))"
| "known s (JStr x) = (sc_Type s = ''string'')"
| "known s (JNum n) = (sc_Type s = ''integer'')"
| "known s (JBool b) = (sc_Type s = ''boolean'')"
| "known s JNull = False"

lemmas schema_defs = typed_def objectOf_def arrayOf_def enumOf_def shortString_def nonEmptyString_def patternString_def
  integerFrom_def integerFormat_def agentTypeSchema_def configMapItemsSchema_def stringMapSchema_def
  tolerationsSchema_def defaultForTaskTypesSchema_def resourceListSchema_def

definition member_known :: "JSONSchemaProps \<Rightarrow> string \<times> json \<Rightarrow> bool" where
  "member_known s m =
     (case map_of (sc_Properties s) (fst m) of
        Some t \<Rightarrow> known t (snd m)
      | None \<Rightarrow> (case sc_AdditionalProperties s of Some t \<Rightarrow> known t (snd m) | None \<Rightarrow> False))"

lemma known_object: "known s (JObj ms) \<longleftrightarrow> sc_Type s = ''object'' \<and> list_all (member_known s) ms"
  by (simp add: member_known_def list_all_iff case_prod_unfold)

lemma member_known_prop:
  "map_of (sc_Properties s) name = Some t \<Longrightarrow> known t j \<Longrightarrow> member_known s (name, j)"
  by (simp add: member_known_def)

lemma omitted_known:
  "(\<And>x. member_known s (name, JStr x)) \<Longrightarrow> list_all (member_known s) (omitString name y)"
  "(\<And>x. member_known s (name, JArr (map JStr x))) \<Longrightarrow> list_all (member_known s) (omitStrings name ys)"
  "(\<And>x. member_known s (name, JObj (map (\<lambda>(k, v). (k, JStr v)) x))) \<Longrightarrow> list_all (member_known s) (omitMap name m)"
  "(\<And>x. member_known s (name, f x)) \<Longrightarrow> list_all (member_known s) (omitPointer name f p)"
  "(\<And>x. member_known s (name, JArr (map g x))) \<Longrightarrow>
     list_all (member_known s) (if elems zs = [] then [] else [(name, JArr (map g (elems zs)))])"
  by (auto simp: omitString_def omitStrings_def omitMap_def omitPointer_def split: option.split)

lemma known_shapes:
  "known (arrayOf t) (JArr (map f xs)) \<longleftrightarrow> (\<forall>x \<in> set xs. known t (f x))"
  "known stringMapSchema (JObj (map (\<lambda>(k, v). (k, JStr v)) kvs))"
  by (auto simp: arrayOf_def stringMapSchema_def typed_def list_all_iff)

lemma resources_known: "known (objectOf [(''requests'', resourceListSchema), (''limits'', resourceListSchema)]) (resourcesJson r)"
proof -
  have "known resourceListSchema (resourceListJson l)" for l
    by (simp add: resourceListJson_def resourceListSchema_def objectOf_def typed_def omitString_def)
  then show ?thesis by (simp add: resourcesJson_def objectOf_def)
qed

lemma trigger_known: "known (objectOf [(''phases'', arrayOf (typed ''string'')), (''statuses'', arrayOf (typed ''string''))]) (triggerJson t)"
  by (simp add: triggerJson_def objectOf_def arrayOf_def omitStrings_def typed_def list_all_iff)

text \<open>Where the schema declares the members of a configuration.\<close>

lemma configSpec_members:
  "map_of (sc_Properties configSpecSchema) ''assignee'' = Some nonEmptyString"
  "map_of (sc_Properties configSpecSchema) ''image'' = Some nonEmptyString"
  "map_of (sc_Properties configSpecSchema) ''heartbeat'' = Some (patternString ''^[0-9]+(s|m|h)$'')"
  "map_of (sc_Properties configSpecSchema) ''taskType'' = Some (shortString ''^[a-z0-9-]+$'' 63)"
  "map_of (sc_Properties configSpecSchema) ''type'' = Some agentTypeSchema"
  "map_of (sc_Properties configSpecSchema) ''taskTypes'' = Some (arrayOf (shortString ''^[a-z0-9-]+$'' 63))"
  "map_of (sc_Properties configSpecSchema) ''defaultForTaskTypes'' = Some (defaultForTaskTypesSchema 63)"
  "map_of (sc_Properties configSpecSchema) ''resources'' = Some (objectOf [(''requests'', resourceListSchema), (''limits'', resourceListSchema)])"
  "map_of (sc_Properties configSpecSchema) ''env'' = Some stringMapSchema"
  "map_of (sc_Properties configSpecSchema) ''secretName'' = Some (typed ''string'')"
  "map_of (sc_Properties configSpecSchema) ''volumeClaim'' = Some (typed ''string'')"
  "map_of (sc_Properties configSpecSchema) ''volumeMountPath'' = Some (typed ''string'')"
  "map_of (sc_Properties configSpecSchema) ''configMapName'' = Some (typed ''string'')"
  "map_of (sc_Properties configSpecSchema) ''configMapMountPath'' = Some (typed ''string'')"
  "map_of (sc_Properties configSpecSchema) ''configMapItems'' = Some configMapItemsSchema"
  "map_of (sc_Properties configSpecSchema) ''priorityClassName'' = Some (patternString crdDNS1123Label)"
  "map_of (sc_Properties configSpecSchema) ''nodeSelector'' = Some stringMapSchema"
  "map_of (sc_Properties configSpecSchema) ''tolerations'' = Some (arrayOf tolerationSchema)"
  "map_of (sc_Properties configSpecSchema) ''jobNamespace'' = Some (shortString crdDNS1123Label crdMaxNameLen)"
  "map_of (sc_Properties configSpecSchema) ''maxConcurrentJobs'' = Some (integerFrom 0)"
  "map_of (sc_Properties configSpecSchema) ''rerunOnLostClaim'' = Some (typed ''boolean'')"
  "map_of (sc_Properties configSpecSchema) ''trigger'' =
     Some (objectOf [(''phases'', arrayOf (typed ''string'')), (''statuses'', arrayOf (typed ''string''))])"
  "map_of (sc_Properties configSpecSchema) ''zombieSweeperIntervalSeconds'' = Some (integerFrom MinZombieSweeperIntervalSeconds)"
  "map_of (sc_Properties configSpecSchema) ''zombieJobTimeoutSeconds'' = Some (integerFrom MinZombieJobTimeoutSeconds)"
  by (simp_all add: configSpecSchema_def configSpecProperties_def tolerationsSchema_def)

lemma configSpecSchema_object: "sc_Type configSpecSchema = ''object''"
  by (simp add: configSpecSchema_def)

lemma configMapItem_known: "known (objectOf [(''key'', typed ''string''), (''path'', typed ''string'')]) (configMapItemJson i)"
  by (simp add: configMapItemJson_def objectOf_def typed_def)

lemma toleration_known: "known tolerationSchema (tolerationJson t)"
  by (simp add: tolerationJson_def tolerationSchema_def objectOf_def typed_def enumOf_def integerFormat_def omitString_def omitPointer_def
      split: option.split)

text \<open>
  C21: The installed schema prunes no field of a configuration. Whatever configuration is written, every member of its
  JSON form, at every depth and with every field of its tolerations, is declared by the schema with the type it is
  written with.
\<close>

theorem config_fields_survive_schema: "known configSpecSchema (configSpecJson s)"
proof -
  note members = configSpec_members [THEN member_known_prop]
  have simple: "known (typed ''string'') (JStr x)" "known nonEmptyString (JStr x)" "known (patternString p) (JStr x)"
    "known (shortString p n) (JStr x)" "known agentTypeSchema (JStr x)" "known (typed ''boolean'') (JBool b)" "known (integerFrom n) (JNum l)"
    for x p n b l by (simp_all add: schema_defs)
  have lists: "known (defaultForTaskTypesSchema 63) (JArr (map JStr xs))" "known configMapItemsSchema (JArr (map configMapItemJson is))" for xs "is"
    using configMapItem_known by (simp_all add: known_shapes defaultForTaskTypesSchema_def configMapItemsSchema_def simple del: known.simps)
  show ?thesis
    unfolding configSpecJson_def known_object list_all_append list.pred_inject
    by (intro conjI omitted_known configSpecSchema_object members TrueI)
      (auto simp: simple lists known_shapes resources_known trigger_known toleration_known intro: members simp del: known.simps)
qed

section \<open>Installing the definition\<close>

record CustomResourceDefinitionNames =
  cn_Kind :: string
  cn_ListKind :: string
  cn_Plural :: string
  cn_Singular :: string
  cn_ShortNames :: "string list"

record CustomResourceDefinitionVersion =
  cv_Name :: string
  cv_Served :: bool
  cv_Storage :: bool
  cv_Schema :: "JSONSchemaProps option"

record CustomResourceDefinitionSpec =
  cs_Group :: string
  cs_Names :: CustomResourceDefinitionNames
  cs_Scope :: string
  cs_Versions :: "CustomResourceDefinitionVersion list"
  cs_PreserveUnknownFields :: bool
  cs_Conversion :: "string option"

record CustomResourceDefinition =
  cd_Name :: string
  cd_ResourceVersion :: string
  cd_Spec :: CustomResourceDefinitionSpec

text \<open>The API of the definitions, its defaulting function, and how often the client library retries a conflict.\<close>

record 'w crdInterface =
  ci_Get :: "string \<Rightarrow> ('w, go_error + CustomResourceDefinition) state"
  ci_Create :: "CustomResourceDefinition \<Rightarrow> ('w, go_error option) state"
  ci_Update :: "CustomResourceDefinition \<Rightarrow> ('w, go_error option) state"
  ci_SetDefaults :: "CustomResourceDefinitionSpec \<Rightarrow> CustomResourceDefinitionSpec"
  ci_Retries :: nat

definition desiredCRDSpec :: CustomResourceDefinitionSpec where
  "desiredCRDSpec =
     \<lparr>cs_Group = ''agent.benjamin-borbe.de'',
      cs_Names = \<lparr>cn_Kind = ''Config'', cn_ListKind = ''ConfigList'', cn_Plural = ''configs'', cn_Singular = ''config'', cn_ShortNames = [''cfg'']\<rparr>,
      cs_Scope = ''Namespaced'',
      cs_Versions = [\<lparr>cv_Name = ''v1'', cv_Served = True, cv_Storage = True, cv_Schema = Some (objectOf [(''spec'', configSpecSchema)])\<rparr>],
      cs_PreserveUnknownFields = False, cs_Conversion = None\<rparr>"

definition desiredCRD :: "'w crdInterface \<Rightarrow> CustomResourceDefinition" where
  "desiredCRD api = \<lparr>cd_Name = crdName, cd_ResourceVersion = '''', cd_Spec = ci_SetDefaults api desiredCRDSpec\<rparr>"

definition crdSpecEqual :: "'w crdInterface \<Rightarrow> CustomResourceDefinitionSpec \<Rightarrow> CustomResourceDefinitionSpec \<Rightarrow> bool" where
  "crdSpecEqual api existing desired \<longleftrightarrow> ci_SetDefaults api existing = ci_SetDefaults api desired"

text \<open>\<^verbatim>\<open>retry.RetryOnConflict\<close>: a conflict is tried again, \<open>n\<close> times at most; the last error is returned.\<close>

fun RetryOnConflict :: "nat \<Rightarrow> ('w, go_error option) state \<Rightarrow> ('w, go_error option) state" where
  "RetryOnConflict 0 attempt = attempt"
| "RetryOnConflict (Suc n) attempt =
     do { err \<leftarrow> attempt;
          case err of
            None \<Rightarrow> State_Monad.return None
          | Some e \<Rightarrow> if api_reason e = ''Conflict'' then RetryOnConflict n attempt else State_Monad.return (Some e) }"

definition ensureAttempt :: "'w crdInterface \<Rightarrow> ('w, go_error option) state" where
  "ensureAttempt api =
     do { got \<leftarrow> ci_Get api crdName;
          case got of
            Inl e \<Rightarrow>
              (if api_reason e = ''NotFound'' then
                 do { err \<leftarrow> ci_Create api (desiredCRD api);
                      State_Monad.return (map_option (Wrapped ''create CRD'') err) }
               else State_Monad.return (Some (Wrapped ''get CRD'' e)))
          | Inr existing \<Rightarrow>
              (if crdSpecEqual api (cd_Spec existing) (cd_Spec (desiredCRD api)) then State_Monad.return None
               else
                 do { err \<leftarrow> ci_Update api (existing\<lparr>cd_Spec := cd_Spec (desiredCRD api)\<rparr>);
                      State_Monad.return (map_option (Wrapped ''update CRD'') err) }) }"

definition ensureCRD :: "'w crdInterface \<Rightarrow> ('w, go_error option) state" where
  "ensureCRD api = RetryOnConflict (ci_Retries api) (ensureAttempt api)"

definition SetupCustomResourceDefinition :: "(go_error + 'w crdInterface) \<Rightarrow> ('w, go_error option) state" where
  "SetupCustomResourceDefinition built =
     (case built of Inl e \<Rightarrow> State_Monad.return (Some (Wrapped ''build apiextensions clientset'' e)) | Inr api \<Rightarrow> ensureCRD api)"

text \<open>
  What the API promises: a read shows what is stored, and a write that reports no error has stored what it was
  given. Between two calls other executors may have changed anything. Defaulting a spec twice is defaulting it once.
\<close>

locale crd_api =
  fixes api :: "'w crdInterface" and stored :: "'w \<Rightarrow> CustomResourceDefinition option"
  assumes get_found: "run_state (ci_Get api name) w = (Inr crd, w') \<Longrightarrow> stored w' = Some crd"
    and create_ok: "run_state (ci_Create api crd) w = (None, w') \<Longrightarrow> \<exists>x. stored w' = Some x \<and> cd_Spec x = cd_Spec crd"
    and update_ok: "run_state (ci_Update api crd) w = (None, w') \<Longrightarrow> \<exists>x. stored w' = Some x \<and> cd_Spec x = cd_Spec crd"
    and defaults_once: "ci_SetDefaults api (ci_SetDefaults api s) = ci_SetDefaults api s"
begin

lemma attempt_installs:
  assumes "run_state (ensureAttempt api) w = (None, w')"
  shows "\<exists>x. stored w' = Some x \<and> crdSpecEqual api (cd_Spec x) desiredCRDSpec"
proof -
  obtain got w1 where get: "run_state (ci_Get api crdName) w = (got, w1)" by fastforce
  show ?thesis
  proof (cases got)
    case (Inl e)
    with assms get have "run_state (ci_Create api (desiredCRD api)) w1 = (None, w')"
      by (auto simp: ensureAttempt_def split: if_splits prod.splits)
    from create_ok [OF this] show ?thesis by (auto simp: desiredCRD_def crdSpecEqual_def defaults_once)
  next
    case (Inr crd)
    show ?thesis
    proof (cases "crdSpecEqual api (cd_Spec crd) (cd_Spec (desiredCRD api))")
      case True
      with assms get Inr have "w' = w1" by (auto simp: ensureAttempt_def)
      with get_found [of crdName] get Inr True show ?thesis by (auto simp: desiredCRD_def crdSpecEqual_def defaults_once)
    next
      case False
      with assms get Inr have "run_state (ci_Update api (crd\<lparr>cd_Spec := cd_Spec (desiredCRD api)\<rparr>)) w1 = (None, w')"
        by (auto simp: ensureAttempt_def split: prod.splits)
      from update_ok [OF this] show ?thesis by (auto simp: desiredCRD_def crdSpecEqual_def defaults_once)
    qed
  qed
qed

lemma retry_installs:
  "run_state (RetryOnConflict n (ensureAttempt api)) w = (None, w') \<Longrightarrow>
   \<exists>x. stored w' = Some x \<and> crdSpecEqual api (cd_Spec x) desiredCRDSpec"
proof (induction n arbitrary: w)
  case 0
  then show ?case using attempt_installs by simp
next
  case (Suc n)
  obtain err w1 where one: "run_state (ensureAttempt api) w = (err, w1)" by fastforce
  show ?case
  proof (cases err)
    case None
    with Suc.prems one have "w' = w1" by simp
    with one None attempt_installs show ?thesis by simp
  next
    case (Some e)
    with Suc one show ?thesis by (simp split: if_splits)
  qed
qed

end

text \<open>
  A cluster with optimistic locking, in which other executors write before a call changes anything: \<open>cw_rivals\<close> are the
  specs they are about to store.
\<close>

record crdCluster =
  cw_crd :: "CustomResourceDefinition option"
  cw_version :: nat
  cw_rivals :: "CustomResourceDefinitionSpec list"

definition storeCRD :: "CustomResourceDefinition \<Rightarrow> crdCluster \<Rightarrow> crdCluster" where
  "storeCRD crd w = w\<lparr>cw_crd := Some (crd\<lparr>cd_ResourceVersion := show_nat (Suc (cw_version w))\<rparr>), cw_version := Suc (cw_version w)\<rparr>"

definition rivalWrites :: "crdCluster \<Rightarrow> crdCluster" where
  "rivalWrites w =
     (case cw_rivals w of
        [] \<Rightarrow> w
      | s # ss \<Rightarrow> storeCRD \<lparr>cd_Name = crdName, cd_ResourceVersion = '''', cd_Spec = s\<rparr> (w\<lparr>cw_rivals := ss\<rparr>))"

definition createCRD :: "CustomResourceDefinition \<Rightarrow> crdCluster \<Rightarrow> go_error option \<times> crdCluster" where
  "createCRD crd w =
     (let v = rivalWrites w in if cw_crd v \<noteq> None then (Some (ApiStatus ''AlreadyExists''), v) else (None, storeCRD crd v))"

definition updateCRD :: "CustomResourceDefinition \<Rightarrow> crdCluster \<Rightarrow> go_error option \<times> crdCluster" where
  "updateCRD crd w =
     (let v = rivalWrites w in
      case cw_crd v of
        None \<Rightarrow> (Some (ApiStatus ''NotFound''), v)
      | Some x \<Rightarrow>
          if cd_ResourceVersion x \<noteq> cd_ResourceVersion crd then (Some (ApiStatus ''Conflict''), v) else (None, storeCRD crd v))"

definition crdDefaults :: "CustomResourceDefinitionSpec \<Rightarrow> CustomResourceDefinitionSpec" where
  "crdDefaults s = (if cs_Conversion s = None then s\<lparr>cs_Conversion := Some ''None''\<rparr> else s)"

definition clusterAPI :: "crdCluster crdInterface" where
  "clusterAPI =
     \<lparr>ci_Get = (\<lambda>name. State (\<lambda>w. (case cw_crd w of None \<Rightarrow> Inl (ApiStatus ''NotFound'') | Some x \<Rightarrow> Inr x, w))),
      ci_Create = (\<lambda>crd. State (createCRD crd)), ci_Update = (\<lambda>crd. State (updateCRD crd)),
      ci_SetDefaults = crdDefaults, ci_Retries = 4\<rparr>"

interpretation cc: crd_api clusterAPI cw_crd
  by unfold_locales
    (auto simp: clusterAPI_def createCRD_def updateCRD_def storeCRD_def crdDefaults_def Let_def split: option.splits if_splits)

lemma retry_final:
  "run_state attempt w = (r, w1) \<Longrightarrow> (\<forall>e. r = Some e \<longrightarrow> api_reason e \<noteq> ''Conflict'') \<Longrightarrow>
   run_state (RetryOnConflict n attempt) w = (r, w1)"
  by (cases n; cases r) auto

text \<open>The state after so many attempts in a row that each end in a conflict.\<close>

fun after_conflicts :: "('w, go_error option) state \<Rightarrow> nat \<Rightarrow> 'w \<Rightarrow> 'w option" where
  "after_conflicts attempt 0 w = Some w"
| "after_conflicts attempt (Suc n) w =
     (case run_state attempt w of
        (Some e, v) \<Rightarrow> if api_reason e = ''Conflict'' then after_conflicts attempt n v else None
      | (None, v) \<Rightarrow> None)"

lemma retry_survives:
  assumes "after_conflicts attempt n w = Some v" "run_state attempt v = (r, w')" "\<And>e. r = Some e \<Longrightarrow> api_reason e \<noteq> ''Conflict''"
  shows "run_state (RetryOnConflict (n + m) attempt) w = (r, w')"
  using assms(1)
proof (induction n arbitrary: w)
  case 0
  with assms(2,3) show ?case by (auto intro: retry_final)
next
  case (Suc n)
  then obtain e u where one: "run_state attempt w = (Some e, u)" "api_reason e = ''Conflict''" "after_conflicts attempt n u = Some v"
    by (auto split: prod.splits option.splits if_splits)
  with Suc.IH [OF one(3)] show ?case by simp
qed

text \<open>
  A creation lost to another executor is not a conflict: its error ends the installation at once.
\<close>

lemma lost_create_ends_install:
  assumes "run_state (ci_Get api crdName) w = (Inl (ApiStatus ''NotFound''), w1)"
    and "run_state (ci_Create api (desiredCRD api)) w1 = (Some (ApiStatus ''AlreadyExists''), w2)"
  shows "run_state (ensureCRD api) w = (Some (Wrapped ''create CRD'' (ApiStatus ''AlreadyExists'')), w2)"
proof -
  have "run_state (ensureAttempt api) w = (Some (Wrapped ''create CRD'' (ApiStatus ''AlreadyExists'')), w2)"
    using assms by (simp add: ensureAttempt_def api_reason_def)
  then show ?thesis unfolding ensureCRD_def by (rule retry_final) (simp add: api_reason_def)
qed

text \<open>
  C22: An installation without error leaves the schema in the cluster. Whatever other executors do meanwhile, when
  \<open>ensureCRD\<close> returns no error the stored definition has the desired spec, up to defaults. A matching definition is not
  written at all. Updates lost to other executors, no more than the retries of the client library, do not fail the
  installation: the first attempt after them that succeeds is its outcome, and leaves the schema in the cluster.
\<close>

theorem crd_install_outcome:
  assumes "crd_api api stored"
  shows "(run_state (ensureCRD api) w = (None, w') \<longrightarrow>
      (\<exists>x. stored w' = Some x \<and> crdSpecEqual api (cd_Spec x) desiredCRDSpec)) \<and>
    (run_state (ci_Get api crdName) w = (Inr crd, w1) \<and> crdSpecEqual api (cd_Spec crd) desiredCRDSpec \<longrightarrow>
      run_state (ensureCRD api) w = (None, w1)) \<and>
    (after_conflicts (ensureAttempt api) n w = Some v \<and> n \<le> ci_Retries api \<and> run_state (ensureAttempt api) v = (None, w2) \<longrightarrow>
      run_state (ensureCRD api) w = (None, w2) \<and> (\<exists>x. stored w2 = Some x \<and> crdSpecEqual api (cd_Spec x) desiredCRDSpec))"
proof (intro conjI impI)
  assume "run_state (ensureCRD api) w = (None, w')"
  then show "\<exists>x. stored w' = Some x \<and> crdSpecEqual api (cd_Spec x) desiredCRDSpec"
    unfolding ensureCRD_def by (rule crd_api.retry_installs [OF assms])
next
  assume get: "run_state (ci_Get api crdName) w = (Inr crd, w1) \<and> crdSpecEqual api (cd_Spec crd) desiredCRDSpec"
  then have "run_state (ensureAttempt api) w = (None, w1)"
    by (simp add: ensureAttempt_def desiredCRD_def crdSpecEqual_def crd_api.defaults_once [OF assms])
  then show "run_state (ensureCRD api) w = (None, w1)" unfolding ensureCRD_def by (rule retry_final) simp
next
  assume late: "after_conflicts (ensureAttempt api) n w = Some v \<and> n \<le> ci_Retries api \<and> run_state (ensureAttempt api) v = (None, w2)"
  then obtain m where "ci_Retries api = n + m" by (auto simp: le_iff_add)
  with late retry_survives [of "ensureAttempt api" n w v None w2 m] show "run_state (ensureCRD api) w = (None, w2)"
    by (simp add: ensureCRD_def)
  from late show "\<exists>x. stored w2 = Some x \<and> crdSpecEqual api (cd_Spec x) desiredCRDSpec"
    using crd_api.attempt_installs [OF assms] by blast
qed

text \<open>A cluster with a definition of an older executor, into which a rival writes that older spec once more.\<close>

definition oldSpec :: CustomResourceDefinitionSpec where
  "oldSpec = desiredCRDSpec\<lparr>cs_Versions := []\<rparr>"

definition contestedCluster :: crdCluster where
  "contestedCluster =
     \<lparr>cw_crd = Some \<lparr>cd_Name = crdName, cd_ResourceVersion = show_nat 7, cd_Spec = oldSpec\<rparr>, cw_version = 7, cw_rivals = [oldSpec]\<rparr>"

lemma clusterAPI_simps [simp]:
  "run_state (ci_Get clusterAPI name) w = (case cw_crd w of None \<Rightarrow> Inl (ApiStatus ''NotFound'') | Some x \<Rightarrow> Inr x, w)"
  "run_state (ci_Update clusterAPI crd) w = updateCRD crd w"
  "cd_Spec (desiredCRD clusterAPI) = crdDefaults desiredCRDSpec"
  by (simp_all add: clusterAPI_def desiredCRD_def)

lemma oldSpec_differs: "\<not> crdSpecEqual clusterAPI oldSpec (crdDefaults desiredCRDSpec)"
  by (simp add: crdSpecEqual_def clusterAPI_def crdDefaults_def oldSpec_def desiredCRDSpec_def)

lemma versions_differ: "show_nat 8 \<noteq> show_nat 7"
  by code_simp

lemma contested_conflict:
  "run_state (ensureAttempt clusterAPI) contestedCluster =
     (Some (Wrapped ''update CRD'' (ApiStatus ''Conflict'')), rivalWrites contestedCluster)"
  using oldSpec_differs versions_differ
  by (simp add: ensureAttempt_def contestedCluster_def updateCRD_def rivalWrites_def storeCRD_def Let_def)

lemma contested_again:
  "run_state (ensureAttempt clusterAPI) (rivalWrites contestedCluster) =
     (None, storeCRD (the (cw_crd (rivalWrites contestedCluster))\<lparr>cd_Spec := crdDefaults desiredCRDSpec\<rparr>) (rivalWrites contestedCluster))"
  using oldSpec_differs
  by (simp add: ensureAttempt_def contestedCluster_def updateCRD_def rivalWrites_def storeCRD_def Let_def)

theorem crd_install_outcome_witness:
  "\<exists>w' x. run_state (ensureCRD clusterAPI) contestedCluster = (None, w') \<and> cw_crd w' = Some x \<and>
    crdSpecEqual clusterAPI (cd_Spec x) desiredCRDSpec"
proof -
  have once: "after_conflicts (ensureAttempt clusterAPI) 1 contestedCluster = Some (rivalWrites contestedCluster)"
    using contested_conflict by (simp add: api_reason_def)
  have "1 \<le> ci_Retries clusterAPI" by (simp add: clusterAPI_def)
  with once contested_again
    crd_install_outcome [OF cc.crd_api_axioms, THEN conjunct2, THEN conjunct2, of 1 contestedCluster "rivalWrites contestedCluster"]
  show ?thesis by blast
qed

section \<open>A property of the schema without a reader\<close>

lemma convert_pull_secret: "convert cancelled i cfg branch = Inr c \<Longrightarrow> ac_ImagePullSecret c = ''''"
  by (auto simp: convert_def Let_def split: sum.splits)

text \<open>
  The image pull secret of a configuration has no effect. The schema admits \<open>imagePullSecret\<close>, but every
  configuration the resolver returns has none, so that Jobs and services always pull with the default secret.
\<close>

theorem image_pull_secret_has_no_reader:
  "map_of (sc_Properties configSpecSchema) ''imagePullSecret'' = Some (typed ''string'') \<and>
   (Resolve cancelled provided branch vaultName assignee = Inr c \<or>
    ResolveByTaskType cancelled provided branch vaultName taskType prefer = Inr c \<longrightarrow> imagePullSecretName c = ''docker'')"
proof (intro conjI impI)
  show "map_of (sc_Properties configSpecSchema) ''imagePullSecret'' = Some (typed ''string'')"
    by (simp add: configSpecSchema_def configSpecProperties_def)
next
  assume "Resolve cancelled provided branch vaultName assignee = Inr c \<or>
    ResolveByTaskType cancelled provided branch vaultName taskType prefer = Inr c"
  then have "ac_ImagePullSecret c = ''''"
    by (auto simp: Resolve_def ResolveByTaskType_def dest!: convert_pull_secret split: sum.splits option.splits list.splits if_splits)
  then show "imagePullSecretName c = ''docker''" by (simp add: imagePullSecretName_def)
qed

theorem image_pull_secret_has_no_reader_witness:
  "\<exists>c. Resolve never (Inr [bareConfig ''a'' [''x'']]) ''dev'' ''v'' ''a'' = Inr c \<and> imagePullSecretName c = ''docker''"
proof -
  let ?run = "Resolve never (Inr [bareConfig ''a'' [''x'']]) ''dev'' ''v'' ''a''"
  have "\<not> isl ?run" by code_simp
  then obtain c where c: "?run = Inr c" by (cases ?run) auto
  from mp [OF conjunct2 [OF image_pull_secret_has_no_reader], OF disjI1, OF c] c show ?thesis by blast
qed

end
