(* ===== verification/Startup.thy ===== *)
theory Startup
  imports Wiring Config_Schema
begin

text \<open>
  Starting the executor (\<^verbatim>\<open>main.go\<close>, \<^verbatim>\<open>pkg/memlimit/memlimit.go\<close>, the constructors of \<^verbatim>\<open>pkg/factory/factory.go\<close> that
  build the claim clients): the checks of the settings, the order of the steps that can fail, which clients exist in
  which claim mode, the handler that \<^verbatim>\<open>Wiring\<close> builds from them and which functions run. Kubernetes, Kafka, the environment and the files are parameters; the
  arithmetic of floats in the memory limit and the parser of URLs are parameters too.
\<close>

section \<open>The memory limit\<close>

definition cgroupLimitPaths :: "string list" where
  "cgroupLimitPaths = [''/sys/fs/cgroup/memory.max'', ''/sys/fs/cgroup/memory/memory.limit_in_bytes'']"

definition ParseCgroupLimit :: "unicode \<Rightarrow> string \<Rightarrow> int option" where
  "ParseCgroupLimit U raw =
     (let v = trim_space U raw in
      if v = '''' \<or> v = ''max'' then None
      else
        (case atoi v of
           None \<Rightarrow> None
         | Some limit \<Rightarrow> if limit \<le> 0 then None else if limit > 2 ^ 60 then None else Some limit))"

text \<open>\<open>scale\<close> is the product of a limit with the ratio 0.85 in floating point.\<close>

fun applyPaths ::
  "unicode \<Rightarrow> (int \<Rightarrow> int) \<Rightarrow> (string \<Rightarrow> ('w, go_error + string) state) \<Rightarrow> (int \<Rightarrow> ('w, unit) state) \<Rightarrow> string list \<Rightarrow> ('w, unit) state" where
  "applyPaths U scale readFile setLimit [] = State_Monad.return ()"
| "applyPaths U scale readFile setLimit (path # paths) =
     do { r \<leftarrow> readFile path;
          case r of
            Inl e \<Rightarrow> applyPaths U scale readFile setLimit paths
          | Inr raw \<Rightarrow>
              (case ParseCgroupLimit U raw of
                 None \<Rightarrow> applyPaths U scale readFile setLimit paths
               | Some limit \<Rightarrow> setLimit (scale limit)) }"

definition memlimit_apply ::
  "unicode \<Rightarrow> (int \<Rightarrow> int) \<Rightarrow> string \<Rightarrow> string list \<Rightarrow> (string \<Rightarrow> ('w, go_error + string) state) \<Rightarrow> (int \<Rightarrow> ('w, unit) state) \<Rightarrow> ('w, unit) state" where
  "memlimit_apply U scale goMemLimitEnv paths readFile setLimit =
     (if trim_space U goMemLimitEnv \<noteq> '''' then State_Monad.return ()
      else applyPaths U scale readFile setLimit paths)"

section \<open>The settings\<close>

record application =
  ap_SentryDSN :: string
  ap_SentryProxy :: string
  ap_Listen :: string
  ap_KafkaBrokers :: string
  ap_Branch :: string
  ap_Cluster :: string
  ap_StageFilter :: bool
  ap_RunUntagged :: bool
  ap_ConsumerGroup :: string
  ap_TopicPrefix :: string
  ap_Namespace :: string
  ap_VaultName :: string
  ap_TaskVault :: string
  ap_VaultAliases :: string
  ap_GitRestURL :: string
  ap_GitRestGatewaySecret :: string
  ap_VaultAPIURL :: string
  ap_VaultAPIGatewaySecret :: string
  ap_BuildGitVersion :: string
  ap_BuildGitCommit :: string
  ap_BuildDate :: "go_time option"
  ap_HealthcheckCronExpression :: string
  ap_JobTTLSecondsAfterFinished :: int
  ap_ServiceStorageClass :: string
  ap_JobKafkaClientCertSecret :: string
  ap_JobKafkaCaCertSecret :: string
  ap_JobFsGroup :: int
  ap_ReconcilePassTimeout :: duration
  ap_ReconcileInterval :: duration

text \<open>\<^verbatim>\<open>^[a-z][a-z0-9-]*$\<close>\<close>

definition vaultSlug :: "string \<Rightarrow> bool" where
  "vaultSlug s =
     (case s of
        [] \<Rightarrow> False
      | c # cs \<Rightarrow>
          97 \<le> (of_char c :: nat) \<and> of_char c \<le> (122 :: nat) \<and>
          list_all (\<lambda>d. 97 \<le> (of_char d :: nat) \<and> of_char d \<le> (122 :: nat) \<or> is_digit d \<or> d = CHR ''-'') cs)"

definition effectiveTaskVault :: "application \<Rightarrow> string" where
  "effectiveTaskVault a = (if ap_TaskVault a \<noteq> '''' then ap_TaskVault a else ap_VaultName a)"

definition resolvedVaultAliases :: "unicode \<Rightarrow> application \<Rightarrow> string list" where
  "resolvedVaultAliases U a =
     (if ap_VaultAliases a = '''' then DefaultVaultAliases (effectiveTaskVault a)
      else filter (\<lambda>s. s \<noteq> '''') (map (trim_space U) (split_on (CHR '','') (ap_VaultAliases a))))"

definition app_validate :: "unicode \<Rightarrow> application \<Rightarrow> go_error option" where
  "app_validate U a =
     (if ap_JobTTLSecondsAfterFinished a < 0 then Some (PlainError ''job-ttl-seconds-after-finished must be >= 0'')
      else if \<not> vaultSlug (ap_VaultName a) then Some (PlainError ''vault-name must match'')
      else if \<not> vaultSlug (effectiveTaskVault a) then Some (PlainError ''task-vault must match'')
      else if list_ex (\<lambda>s. \<not> vaultSlug s) (resolvedVaultAliases U a) then Some (PlainError ''vault-aliases entry must match'')
      else if ap_ReconcilePassTimeout a \<le> 0 then Some (PlainError ''reconcile-pass-timeout must be > 0'')
      else if ap_ReconcileInterval a \<le> 0 then Some (PlainError ''reconcile-interval must be > 0'')
      else None)"

text \<open>\<open>parse\<close> is \<^verbatim>\<open>url.Parse\<close>, reduced to the scheme and the host name.\<close>

definition validateClaimTransport :: "(string \<Rightarrow> (string \<times> string) option) \<Rightarrow> application \<Rightarrow> ClaimMode \<Rightarrow> go_error option" where
  "validateClaimTransport parse a mode =
     (if \<not> TakesClaim mode then None
      else if ap_GitRestURL a = '''' then Some (PlainError ''gitrest-url must be set'')
      else
        (case parse (ap_GitRestURL a) of
           None \<Rightarrow> Some (PlainError ''gitrest-url is not a valid URL'')
         | Some (scheme, hostname) \<Rightarrow>
             if scheme \<noteq> ''http'' \<and> scheme \<noteq> ''https'' then Some (PlainError ''gitrest-url must use http or https'')
             else if hostname = '''' then Some (PlainError ''gitrest-url must carry a host'')
             else if ap_Cluster a = '''' then Some (PlainError ''cluster must be set'')
             else None))"

section \<open>The start\<close>

datatype runFunc =
    Listen | Consume | RunTaskView | RunDeferredRespawnLoop | RunReconcileLoop | RunServiceReconcileLoop
  | RunJobWatcher | RunZombieSweeper | HTTPServer | HealthcheckCron | ClaimRecover | LeaseLoop

text \<open>The paths the HTTP server answers; profiles only behind the secret.\<close>

definition createHTTPServer :: "string \<Rightarrow> string list" where
  "createHTTPServer authSecret =
     [''/healthz'', ''/readiness'', ''/metrics'', ''/setloglevel/{level}'', ''/gc''] @
     (if authSecret \<noteq> '''' then [''/debug/pprof/''] else []) @
     [''/agents'', ''/healthcheck-trigger'']"

text \<open>The constructors of the claim clients (the lazily invoked factories return what they are given).\<close>

definition CreateClaimRefClientFactory :: "string \<Rightarrow> string \<Rightarrow> claimRefClient" where
  "CreateClaimRefClientFactory baseURL gatewaySecret = NewClaimRefClient baseURL gatewaySecret ''agent-task-executor''"

definition CreateClaimClientFactory :: "string \<Rightarrow> string \<Rightarrow> vaultClientConfig" where
  "CreateClaimClientFactory baseURL gatewaySecret =
     \<lparr>vc_baseURL = trimRightSlash baseURL, vc_gatewaySecret = gatewaySecret, vc_gatewayInitiator = ''agent-task-executor''\<rparr>"

definition CreateClaimLifecycleRunFuncs :: "runFunc list" where
  "CreateClaimLifecycleRunFuncs = [ClaimRecover, LeaseLoop]"

record claimClients =
  cs_refClient :: "claimRefClient option"
  cs_claimClient :: "vaultClientConfig option"
  cs_indexClient :: "vaultAPIIndexClient option"

record started =
  su_mode :: ClaimMode
  su_clients :: claimClients
  su_taskVault :: string
  su_vaultAliases :: "string list"
  su_runFuncs :: "runFunc list"

record 'w start_env =
  bo_unicode :: unicode
  bo_scale :: "int \<Rightarrow> int"
  bo_goMemLimit :: string
  bo_readFile :: "string \<Rightarrow> ('w, go_error + string) state"
  bo_setLimit :: "int \<Rightarrow> ('w, unit) state"
  bo_claimModeEnv :: "string option"
  bo_parseURL :: "string \<Rightarrow> (string \<times> string) option"
  bo_kubeConfig :: "('w, go_error option) state"
  bo_kubeClient :: "('w, go_error option) state"
  bo_crd :: "go_error + 'w crdInterface"
  bo_kafkaClient :: "('w, go_error option) state"
  bo_kafkaProducer :: "('w, go_error option) state"
  bo_getSecret :: "'w secret_reader"
  bo_runtime :: "'w go_runtime"
  bo_collaborators :: "'w collaborators"

definition parseClaimModeFromEnv :: "string option \<Rightarrow> go_error + ClaimMode" where
  "parseClaimModeFromEnv v = ParseClaimMode (case v of Some x \<Rightarrow> x | None \<Rightarrow> '''') (v \<noteq> None)"

text \<open>A step that may fail, and what follows it.\<close>

definition step :: "string \<Rightarrow> ('w, go_error option) state \<Rightarrow> ('w, go_error + 'b) state \<Rightarrow> ('w, go_error + 'b) state" where
  "step what action next =
     do { err \<leftarrow> action; case err of Some e \<Rightarrow> State_Monad.return (Inl (Wrapped what e)) | None \<Rightarrow> next }"

definition createClaimClients :: "'w start_env \<Rightarrow> application \<Rightarrow> ClaimMode \<Rightarrow> ('w, go_error + claimClients) state" where
  "createClaimClients env a mode =
     (if \<not> TakesClaim mode then State_Monad.return (Inr \<lparr>cs_refClient = None, cs_claimClient = None, cs_indexClient = None\<rparr>)
      else
        do { git \<leftarrow> ReadGitRestGatewaySecret (bo_getSecret env) (ap_Namespace a) (ap_GitRestGatewaySecret a);
             case git of
               Inl e \<Rightarrow> State_Monad.return (Inl (Wrapped ''read git-rest gateway secret'' e))
             | Inr gitSecret \<Rightarrow>
                 if ap_VaultAPIURL a = '''' then State_Monad.return (Inl (PlainError ''vault-api-url is required''))
                 else
                   do { vault \<leftarrow> ReadVaultAPIGatewaySecret (bo_getSecret env) (ap_Namespace a) (ap_VaultAPIGatewaySecret a);
                        case vault of
                          Inl e \<Rightarrow> State_Monad.return (Inl (Wrapped ''read vault-api gateway secret'' e))
                        | Inr vaultSecret \<Rightarrow>
                            State_Monad.return (Inr
                              \<lparr>cs_refClient = Some (CreateClaimRefClientFactory (ap_GitRestURL a) gitSecret),
                               cs_claimClient = Some (CreateClaimClientFactory (ap_VaultAPIURL a) vaultSecret),
                               cs_indexClient = Some (NewVaultAPIIndexClient (ap_VaultAPIURL a) vaultSecret ''agent-task-executor'')\<rparr>) } })"

text \<open>The handler of a started executor: the arguments \<^verbatim>\<open>main.go\<close> passes to the factory.\<close>

definition wiredHandler :: "'w go_runtime \<Rightarrow> 'w \<Rightarrow> 'w collaborators \<Rightarrow> application \<Rightarrow> started \<Rightarrow> 'w built_handler" where
  "wiredHandler rt w c a su =
     CreateConsumer rt w c (ap_Branch a) (ap_Cluster a) (ap_StageFilter a) (ap_RunUntagged a) (ap_TopicPrefix a) (ap_Namespace a)
       NewTaskStore NewTaskView (su_taskVault su) (su_vaultAliases su) (ap_ReconcilePassTimeout a) (ap_ReconcileInterval a)
       (su_mode su) (cs_refClient (su_clients su)) (cs_claimClient (su_clients su)) (cs_indexClient (su_clients su))"

definition createRunFuncs :: "ClaimMode \<Rightarrow> 'w built_handler \<Rightarrow> runFunc list" where
  "createRunFuncs mode taskEventHandler =
     (let base = [Listen, Consume, RunTaskView, RunDeferredRespawnLoop, RunReconcileLoop, RunServiceReconcileLoop,
                  RunJobWatcher, RunZombieSweeper, HTTPServer, HealthcheckCron] in
      if \<not> TakesClaim mode then base
      else
        (case ClaimLeaseManager (bh_env taskEventHandler) of
           Inl managerErr \<Rightarrow> base
         | Inr manager \<Rightarrow> if manager \<noteq> None then base @ CreateClaimLifecycleRunFuncs else base))"

definition app_Run :: "'w start_env \<Rightarrow> application \<Rightarrow> ('w, go_error + started) state" where
  "app_Run env a =
     do { _ \<leftarrow> memlimit_apply (bo_unicode env) (bo_scale env) (bo_goMemLimit env) cgroupLimitPaths (bo_readFile env) (bo_setLimit env);
          case app_validate (bo_unicode env) a of
            Some e \<Rightarrow> State_Monad.return (Inl e)
          | None \<Rightarrow>
              (case parseClaimModeFromEnv (bo_claimModeEnv env) of
                 Inl e \<Rightarrow> State_Monad.return (Inl (Wrapped ''parse claim mode'' e))
               | Inr mode \<Rightarrow>
                   (case validateClaimTransport (bo_parseURL env) a mode of
                      Some e \<Rightarrow> State_Monad.return (Inl e)
                    | None \<Rightarrow>
                        step ''get in-cluster k8s config'' (bo_kubeConfig env)
                          (step ''create k8s client'' (bo_kubeClient env)
                            (step ''setup Config CRD'' (SetupCustomResourceDefinition (bo_crd env))
                              (step ''create sarama client'' (bo_kafkaClient env)
                                (step ''create kafka sync producer'' (bo_kafkaProducer env)
                                  (do { made \<leftarrow> createClaimClients env a mode;
                                        case made of
                                          Inl e \<Rightarrow> State_Monad.return (Inl e)
                                        | Inr clients \<Rightarrow>
                                            do { w \<leftarrow> State_Monad.get;
                                                 let su = \<lparr>su_mode = mode, su_clients = clients, su_taskVault = effectiveTaskVault a,
                                                    su_vaultAliases = resolvedVaultAliases (bo_unicode env) a, su_runFuncs = []\<rparr>;
                                                 State_Monad.return (Inr (su\<lparr>su_runFuncs := createRunFuncs mode
                                                   (wiredHandler (bo_runtime env) w (bo_collaborators env) a su)\<rparr>)) } }))))))) }"

section \<open>What a start leads to\<close>

lemma run_step:
  "run_state (step what action next) w =
     (case run_state action w of (Some e, w1) \<Rightarrow> (Inl (Wrapped what e), w1) | (None, w1) \<Rightarrow> run_state next w1)"
  by (auto simp: step_def split: prod.split option.split)

lemma app_Run_success:
  assumes "run_state (app_Run env a) w = (Inr su, w')"
  obtains w1 where
    "app_validate (bo_unicode env) a = None" "parseClaimModeFromEnv (bo_claimModeEnv env) = Inr (su_mode su)"
    "validateClaimTransport (bo_parseURL env) a (su_mode su) = None"
    "run_state (createClaimClients env a (su_mode su)) w1 = (Inr (su_clients su), w')"
    "su_runFuncs su = createRunFuncs (su_mode su) (wiredHandler (bo_runtime env) w' (bo_collaborators env) a su)"
    "su_taskVault su = effectiveTaskVault a" "su_vaultAliases su = resolvedVaultAliases (bo_unicode env) a"
proof -
  from assms obtain mode clients w1 where
    "app_validate (bo_unicode env) a = None" "parseClaimModeFromEnv (bo_claimModeEnv env) = Inr mode"
    "validateClaimTransport (bo_parseURL env) a mode = None"
    "run_state (createClaimClients env a mode) w1 = (Inr clients, w')"
    "su = \<lparr>su_mode = mode, su_clients = clients, su_taskVault = effectiveTaskVault a,
       su_vaultAliases = resolvedVaultAliases (bo_unicode env) a,
       su_runFuncs = createRunFuncs mode (wiredHandler (bo_runtime env) w' (bo_collaborators env) a
         \<lparr>su_mode = mode, su_clients = clients, su_taskVault = effectiveTaskVault a,
          su_vaultAliases = resolvedVaultAliases (bo_unicode env) a, su_runFuncs = []\<rparr>)\<rparr>"
    unfolding app_Run_def
    by (auto simp: run_step Let_def split: prod.splits option.splits sum.splits)
  then show ?thesis by (intro that) (auto simp: wiredHandler_def)
qed

lemma createClaimClients_success:
  assumes "run_state (createClaimClients env a mode) w = (Inr clients, w')"
  shows "(cs_refClient clients \<noteq> None \<longleftrightarrow> TakesClaim mode) \<and> (cs_claimClient clients \<noteq> None \<longleftrightarrow> TakesClaim mode) \<and>
    (cs_indexClient clients \<noteq> None \<longleftrightarrow> TakesClaim mode) \<and> (TakesClaim mode \<longrightarrow> ap_VaultAPIURL a \<noteq> '''') \<and>
    (\<forall>rc. cs_refClient clients = Some rc \<longrightarrow> (rf_gatewaySecret rc = '''' \<longleftrightarrow> ap_GitRestGatewaySecret a = ''''))"
proof (cases "TakesClaim mode")
  case False
  with assms show ?thesis by (auto simp: createClaimClients_def)
next
  case True
  obtain git w1 where g: "run_state (ReadGitRestGatewaySecret (bo_getSecret env) (ap_Namespace a) (ap_GitRestGatewaySecret a)) w = (git, w1)"
    by fastforce
  with assms True obtain gs vs where "git = Inr gs" "ap_VaultAPIURL a \<noteq> ''''" and
    clients: "clients = \<lparr>cs_refClient = Some (CreateClaimRefClientFactory (ap_GitRestURL a) gs),
       cs_claimClient = Some (CreateClaimClientFactory (ap_VaultAPIURL a) vs),
       cs_indexClient = Some (NewVaultAPIIndexClient (ap_VaultAPIURL a) vs ''agent-task-executor'')\<rparr>"
    by (auto simp: createClaimClients_def split: sum.splits if_splits prod.splits)
  moreover from g \<open>git = Inr gs\<close> have "gs = '''' \<longleftrightarrow> ap_GitRestGatewaySecret a = ''''"
    using readGatewaySecret_empty [of "bo_getSecret env" "ap_Namespace a" "ap_GitRestGatewaySecret a" gitRestGatewaySecretDataKey "''git-rest''" w gs]
    by (simp add: ReadGitRestGatewaySecret_def)
  ultimately show ?thesis using True by (auto simp: CreateClaimRefClientFactory_def NewClaimRefClient_def)
qed

lemma validateClaimTransport_ok:
  "validateClaimTransport parse a mode = None \<Longrightarrow> TakesClaim mode \<Longrightarrow>
   ap_Cluster a \<noteq> '''' \<and> (\<exists>scheme host. parse (ap_GitRestURL a) = Some (scheme, host) \<and> scheme \<in> {''http'', ''https''} \<and> host \<noteq> '''')"
  by (auto simp: validateClaimTransport_def split: if_splits option.splits)

lemma app_validate_ok:
  "app_validate U a = None \<Longrightarrow> vaultSlug (effectiveTaskVault a) \<and> list_all vaultSlug (resolvedVaultAliases U a)"
  by (auto simp: app_validate_def list_all_iff list_ex_iff split: if_splits)

lemma wired_env:
  "he_vaultMatcher (bh_env (wiredHandler rt w c a su)) = NewVaultMatcher (su_taskVault su) (su_vaultAliases su)"
  "he_claimMode (bh_env (wiredHandler rt w c a su)) = su_mode su"
  "he_cluster (bh_env (wiredHandler rt w c a su)) = ap_Cluster a"
  "he_refClientFactory (bh_env (wiredHandler rt w c a su)) = map_option (\<lambda>r. Some (refClient (gr_http rt) r)) (cs_refClient (su_clients su))"
  "he_claimClientFactory (bh_env (wiredHandler rt w c a su)) =
     map_option (\<lambda>v. Some (vaultAPIClaimClient (gr_vaultAPI rt v))) (cs_claimClient (su_clients su))"
  "he_jobControl (bh_env (wiredHandler rt w c a su)) = Some (co_jobControl c)"
  "he_now (bh_env (wiredHandler rt w c a su)) = co_now c"
  "he_ctxDone (bh_env (wiredHandler rt w c a su)) = gr_ctxDone rt"
  by (simp_all add: wiredHandler_def CreateConsumer_def NewTaskEventHandler_def option_defs Let_def NewVaultMatcher_def)

lemma parsed_takes_claim: "parseClaimModeFromEnv v = Inr mode \<Longrightarrow> TakesClaim mode \<longleftrightarrow> mode \<noteq> ClaimModeOff"
  by (cases mode) (auto simp: parseClaimModeFromEnv_def ParseClaimMode_def split: if_splits option.splits)

text \<open>In a claim mode the lease manager of a started executor can be built, in the other mode there is none.\<close>

lemma started_manager:
  assumes "run_state (app_Run env a) w0 = (Inr su, w1)"
  shows "if TakesClaim (su_mode su) then
       \<exists>m r. ClaimLeaseManager (bh_env (wiredHandler rt w c a su)) = Inr (Some (m, r)) \<and> le_cluster m = ap_Cluster a \<and>
         ap_Cluster a \<noteq> '''' \<and> le_jobControl m = co_jobControl c
     else ClaimLeaseManager (bh_env (wiredHandler rt w c a su)) = Inr None"
proof -
  from assms obtain w2 where mode: "parseClaimModeFromEnv (bo_claimModeEnv env) = Inr (su_mode su)"
    and ok: "validateClaimTransport (bo_parseURL env) a (su_mode su) = None"
    and made: "run_state (createClaimClients env a (su_mode su)) w2 = (Inr (su_clients su), w1)"
    by (rule app_Run_success)
  have "\<exists>m r. ClaimLeaseManager (bh_env (wiredHandler rt w c a su)) = Inr (Some (m, r)) \<and> le_cluster m = ap_Cluster a \<and>
      ap_Cluster a \<noteq> '''' \<and> le_jobControl m = co_jobControl c" if takes: "TakesClaim (su_mode su)"
  proof -
    from createClaimClients_success [OF made] takes obtain rc cc where "cs_refClient (su_clients su) = Some rc" "cs_claimClient (su_clients su) = Some cc"
      by auto
    with takes validateClaimTransport_ok [OF ok takes] show ?thesis
      by (simp add: ClaimLeaseManager_def leaseManager_of_def createLeaseManager_def wired_env parsed_takes_claim [OF mode])
  qed
  moreover have "ClaimLeaseManager (bh_env (wiredHandler rt w c a su)) = Inr None" if "\<not> TakesClaim (su_mode su)"
    using that by (simp add: ClaimLeaseManager_def wired_env parsed_takes_claim [OF mode])
  ultimately show ?thesis by simp
qed

lemma started_lifecycle:
  assumes "run_state (app_Run env a) w0 = (Inr su, w1)"
  shows "set CreateClaimLifecycleRunFuncs \<inter> set (su_runFuncs su) =
    (if TakesClaim (su_mode su) then {ClaimRecover, LeaseLoop} else {})"
proof -
  from assms have funcs: "su_runFuncs su = createRunFuncs (su_mode su) (wiredHandler (bo_runtime env) w1 (bo_collaborators env) a su)"
    by (rule app_Run_success)
  show ?thesis
    using started_manager [OF assms, of "bo_runtime env" w1 "bo_collaborators env"] unfolding funcs
    by (cases "TakesClaim (su_mode su)") (auto simp: createRunFuncs_def CreateClaimLifecycleRunFuncs_def)
qed

text \<open>
  C17: A started executor is put together right. Whenever the start succeeds, the handler owns a task exactly when its
  vault is the configured task vault or one of its aliases; in a mode that takes claims it has a lease manager for the
  configured cluster, which is not empty, that deletes Jobs through the control of the executor; in the other mode it has none.
\<close>

theorem started_executor_wired:
  assumes "run_state (app_Run env a) w0 = (Inr su, w1)"
  shows "(\<forall>v. Accepts (he_vaultMatcher (bh_env (wiredHandler rt w c a su))) v \<longleftrightarrow>
      v \<noteq> '''' \<and> (v = effectiveTaskVault a \<or> v \<in> set (resolvedVaultAliases (bo_unicode env) a))) \<and>
    (if TakesClaim (su_mode su) then
       \<exists>m r. ClaimLeaseManager (bh_env (wiredHandler rt w c a su)) = Inr (Some (m, r)) \<and> le_cluster m = ap_Cluster a \<and>
         ap_Cluster a \<noteq> '''' \<and> le_jobControl m = co_jobControl c
     else ClaimLeaseManager (bh_env (wiredHandler rt w c a su)) = Inr None)"
proof -
  from assms have ok: "app_validate (bo_unicode env) a = None"
    and vaults: "su_taskVault su = effectiveTaskVault a" "su_vaultAliases su = resolvedVaultAliases (bo_unicode env) a"
    by - (rule app_Run_success, assumption+)+
  from app_validate_ok [OF ok] have "effectiveTaskVault a \<noteq> ''''" by (auto simp: vaultSlug_def)
  then have "\<forall>v. Accepts (he_vaultMatcher (bh_env (wiredHandler rt w c a su))) v \<longleftrightarrow>
      v \<noteq> '''' \<and> (v = effectiveTaskVault a \<or> v \<in> set (resolvedVaultAliases (bo_unicode env) a))"
    by (simp add: wired_env vaults matcher_accepts)
  then show ?thesis by (rule conjI [OF _ started_manager [OF assms]])
qed

text \<open>
  C20: Claims are taken only over a complete transport. An executor that starts has the claim clients exactly when its
  mode takes claims, and then a cluster name, an address of vault-api and an http address of git-rest with a host, and a
  gateway secret exactly when one is configured; the recovery of claims and the lease loop run exactly in these modes. Its vault and every alias
  are well-formed slugs.
\<close>

theorem claims_only_with_transport:
  assumes "run_state (app_Run env a) w = (Inr su, w')"
  shows "(cs_refClient (su_clients su) \<noteq> None \<longleftrightarrow> TakesClaim (su_mode su)) \<and>
    (cs_claimClient (su_clients su) \<noteq> None \<longleftrightarrow> TakesClaim (su_mode su)) \<and>
    (cs_indexClient (su_clients su) \<noteq> None \<longleftrightarrow> TakesClaim (su_mode su)) \<and>
    (LeaseLoop \<in> set (su_runFuncs su) \<longleftrightarrow> TakesClaim (su_mode su)) \<and>
    (ClaimRecover \<in> set (su_runFuncs su) \<longleftrightarrow> TakesClaim (su_mode su)) \<and>
    (TakesClaim (su_mode su) \<longrightarrow> ap_Cluster a \<noteq> '''' \<and> ap_VaultAPIURL a \<noteq> '''' \<and>
      (\<exists>scheme host. bo_parseURL env (ap_GitRestURL a) = Some (scheme, host) \<and> scheme \<in> {''http'', ''https''} \<and> host \<noteq> '''')) \<and>
    (\<forall>rc. cs_refClient (su_clients su) = Some rc \<longrightarrow> (rf_gatewaySecret rc = '''' \<longleftrightarrow> ap_GitRestGatewaySecret a = '''')) \<and>
    vaultSlug (su_taskVault su) \<and> list_all vaultSlug (su_vaultAliases su)"
proof -
  from assms obtain w1 where ok: "app_validate (bo_unicode env) a = None" "validateClaimTransport (bo_parseURL env) a (su_mode su) = None"
    and clients: "run_state (createClaimClients env a (su_mode su)) w1 = (Inr (su_clients su), w')"
    and vaults: "su_taskVault su = effectiveTaskVault a" "su_vaultAliases su = resolvedVaultAliases (bo_unicode env) a"
    by (rule app_Run_success)
  have funcs: "LeaseLoop \<in> set (su_runFuncs su) \<longleftrightarrow> TakesClaim (su_mode su)" "ClaimRecover \<in> set (su_runFuncs su) \<longleftrightarrow> TakesClaim (su_mode su)"
    using started_lifecycle [OF assms] by (auto simp: CreateClaimLifecycleRunFuncs_def split: if_splits)
  show ?thesis
    using createClaimClients_success [OF clients] funcs validateClaimTransport_ok [OF ok(2)]
      app_validate_ok [OF ok(1)] vaults by (elim conjE) (intro conjI impI; (assumption | simp))
qed

text \<open>
  Without claims no secret is read. In a mode that takes no claim the start does not depend on the reader of
  secrets at all; a memory limit given in the environment is never overwritten from the cgroup files.
\<close>

theorem off_mode_reads_no_secret:
  assumes "parseClaimModeFromEnv (bo_claimModeEnv env) = Inr mode" and "\<not> TakesClaim mode"
  shows "run_state (app_Run (env\<lparr>bo_getSecret := g\<rparr>) a) w = run_state (app_Run env a) w \<and>
    (trim_space (bo_unicode env) (bo_goMemLimit env) \<noteq> '''' \<longrightarrow>
      run_state (app_Run (env\<lparr>bo_readFile := r, bo_setLimit := s\<rparr>) a) w = run_state (app_Run env a) w)"
  using assms by (simp add: app_Run_def createClaimClients_def createRunFuncs_def memlimit_apply_def cong: option.case_cong)

definition quietStart :: "unit go_runtime \<Rightarrow> unit collaborators \<Rightarrow> string option \<Rightarrow> unit start_env" where
  "quietStart rt c mode =
     \<lparr>bo_unicode = \<lparr>u_lower = id, u_fold = (=), u_trim = id\<rparr>, bo_scale = id, bo_goMemLimit = ''1GiB'',
      bo_readFile = (\<lambda>_. State_Monad.return (Inl ContextDone)), bo_setLimit = (\<lambda>_. State_Monad.return ()), bo_claimModeEnv = mode,
      bo_parseURL = (\<lambda>_. Some (''http'', ''git'')), bo_kubeConfig = State_Monad.return None, bo_kubeClient = State_Monad.return None,
      bo_crd = Inr \<lparr>ci_Get = (\<lambda>_. State_Monad.return (Inl (ApiStatus ''NotFound''))), ci_Create = (\<lambda>_. State_Monad.return None),
        ci_Update = (\<lambda>_. State_Monad.return None), ci_SetDefaults = id, ci_Retries = 0\<rparr>,
      bo_kafkaClient = State_Monad.return None, bo_kafkaProducer = State_Monad.return None,
      bo_getSecret = (\<lambda>_ _. State_Monad.return (Inr [(''gateway-secret'', ''s3'')])), bo_runtime = rt, bo_collaborators = c\<rparr>"

definition plainApp :: application where
  "plainApp =
     \<lparr>ap_SentryDSN = '''', ap_SentryProxy = '''', ap_Listen = '':9090'', ap_KafkaBrokers = ''kafka:9092'',
      ap_Branch = ''develop'', ap_Cluster = ''dev'', ap_StageFilter = True, ap_RunUntagged = True,
      ap_ConsumerGroup = ''agent-task-executor'', ap_TopicPrefix = '''', ap_Namespace = ''agents'',
      ap_VaultName = ''notes'', ap_TaskVault = '''', ap_VaultAliases = '''', ap_GitRestURL = ''http://git'',
      ap_GitRestGatewaySecret = ''gw'', ap_VaultAPIURL = ''http://vault'', ap_VaultAPIGatewaySecret = '''',
      ap_BuildGitVersion = '''', ap_BuildGitCommit = '''', ap_BuildDate = None,
      ap_HealthcheckCronExpression = ''0 0 8 * * 1'', ap_JobTTLSecondsAfterFinished = 1800,
      ap_ServiceStorageClass = '''', ap_JobKafkaClientCertSecret = '''', ap_JobKafkaCaCertSecret = '''',
      ap_JobFsGroup = 65534, ap_ReconcilePassTimeout = 45 * second, ap_ReconcileInterval = 60 * second\<rparr>"

lemma plainApp_valid: "app_validate U plainApp = None"
  by (simp add: app_validate_def plainApp_def vaultSlug_def effectiveTaskVault_def resolvedVaultAliases_def DefaultVaultAliases_def second_def)

lemma trim_1GiB: "trim_space U ''1GiB'' = ''1GiB''"
  by (simp add: trim_space_def is_ascii_def is_ascii_space_def)

lemma plainApp_starts:
  "\<exists>su. run_state (app_Run (quietStart rt c (Some ''on'')) plainApp) () = (Inr su, ()) \<and> su_mode su = ClaimModeOn"
  using plainApp_valid
  by (simp add: app_Run_def memlimit_apply_def parseClaimModeFromEnv_def ParseClaimMode_def quietStart_def trim_1GiB)
    (simp add: run_step validateClaimTransport_def plainApp_def SetupCustomResourceDefinition_def ensureCRD_def ensureAttempt_def api_reason_def
      createClaimClients_def ReadGitRestGatewaySecret_def ReadVaultAPIGatewaySecret_def readGatewaySecret_def
      gitRestGatewaySecretDataKey_def Let_def)

theorem claims_only_with_transport_witness:
  "\<forall>rt c. \<exists>su rc. run_state (app_Run (quietStart rt c (Some ''on'')) plainApp) () = (Inr su, ()) \<and> cs_refClient (su_clients su) = Some rc \<and> rf_gatewaySecret rc \<noteq> '''' \<and>
     LeaseLoop \<in> set (su_runFuncs su)"
proof (intro allI)
  fix rt c
  obtain su where su: "run_state (app_Run (quietStart rt c (Some ''on'')) plainApp) () = (Inr su, ())" "su_mode su = ClaimModeOn"
    using plainApp_starts by blast
  note t = claims_only_with_transport [OF su(1)]
  from conjunct1 [OF t] su(2) obtain rc where rc: "cs_refClient (su_clients su) = Some rc" by auto
  from t su(2) have loop: "LeaseLoop \<in> set (su_runFuncs su)" by auto
  from t rc have "rf_gatewaySecret rc = '''' \<longleftrightarrow> ap_GitRestGatewaySecret plainApp = ''''" by blast
  with su rc loop show "\<exists>su rc. run_state (app_Run (quietStart rt c (Some ''on'')) plainApp) () = (Inr su, ()) \<and>
      cs_refClient (su_clients su) = Some rc \<and> rf_gatewaySecret rc \<noteq> '''' \<and> LeaseLoop \<in> set (su_runFuncs su)" by (simp add: plainApp_def)
qed

theorem off_mode_reads_no_secret_witness:
  "\<forall>rt c. run_state (app_Run ((quietStart rt c None)\<lparr>bo_getSecret := (\<lambda>_ _. State_Monad.return (Inl ContextDone))\<rparr>) plainApp) () =
   run_state (app_Run (quietStart rt c None) plainApp) ()"
proof (intro allI)
  fix rt c
  have "parseClaimModeFromEnv (bo_claimModeEnv (quietStart rt c None)) = Inr ClaimModeOff"
    by (simp add: quietStart_def parseClaimModeFromEnv_def ParseClaimMode_def)
  from off_mode_reads_no_secret [OF this] show "run_state (app_Run ((quietStart rt c None)\<lparr>bo_getSecret := (\<lambda>_ _. State_Monad.return (Inl ContextDone))\<rparr>) plainApp) () =
     run_state (app_Run (quietStart rt c None) plainApp) ()" by simp
qed

theorem started_executor_wired_witness:
  "\<forall>rt c. \<exists>su. run_state (app_Run (quietStart rt c (Some ''on'')) plainApp) () = (Inr su, ()) \<and>
     Accepts (he_vaultMatcher (bh_env (wiredHandler rt () c plainApp su))) ''notes'' \<and>
     (\<exists>m r. ClaimLeaseManager (bh_env (wiredHandler rt () c plainApp su)) = Inr (Some (m, r)) \<and> le_cluster m = ''dev'')"
proof (intro allI)
  fix rt c
  obtain su where su: "run_state (app_Run (quietStart rt c (Some ''on'')) plainApp) () = (Inr su, ())" "su_mode su = ClaimModeOn"
    using plainApp_starts by blast
  have "Accepts (he_vaultMatcher (bh_env (wiredHandler rt () c plainApp su))) ''notes'' \<and>
       (\<exists>m r. ClaimLeaseManager (bh_env (wiredHandler rt () c plainApp su)) = Inr (Some (m, r)) \<and> le_cluster m = ''dev'')"
    using started_executor_wired [OF su(1), of rt "()" c] su(2) by (auto simp: plainApp_def effectiveTaskVault_def)
  with su(1) show "\<exists>su. run_state (app_Run (quietStart rt c (Some ''on'')) plainApp) () = (Inr su, ()) \<and>
     Accepts (he_vaultMatcher (bh_env (wiredHandler rt () c plainApp su))) ''notes'' \<and>
     (\<exists>m r. ClaimLeaseManager (bh_env (wiredHandler rt () c plainApp su)) = Inr (Some (m, r)) \<and> le_cluster m = ''dev'')"
    by blast
qed

end
