(* ===== verification/Metrics.thy ===== *)
theory Metrics
  imports Dispatch_Theorems
begin

text \<open>
  The counters of the executor (\<^verbatim>\<open>pkg/metrics/metrics.go\<close>): their names and labels, and the series that exist before
  anything was counted. An alert on a series that does not exist never fires, so the closed vocabularies are registered
  at zero when the program starts. The theorems compare them with what the lease manager and the handler count: the
  manager never leaves the registered vocabulary, the handler has one outcome that is not registered.
\<close>

section \<open>The counters\<close>

text \<open>The counter vectors by the name the model counts under, with their name in Prometheus and their labels.\<close>

definition counterVecs :: "(string \<times> string \<times> string list) list" where
  "counterVecs =
     [(''task_events'', ''agent_executor_task_events_total'', [''result'']),
      (''jobs_spawned'', ''agent_executor_jobs_spawned_total'', [''namespace'']),
      (''redrive_capped'', ''executor_redrive_capped_total'', [''task_type'', ''phase'']),
      (''redrive_aborted'', ''executor_redrive_aborted_total'', [''reason'']),
      (''reconcile_passes'', ''executor_reconcile_passes_total'', [''result'']),
      (''config_accepted_refresh'', ''executor_config_accepted_refresh_total'', [''result'']),
      (''view_divergence'', ''executor_view_divergence_total'', [''result'']),
      (''reconcile_refused'', ''executor_reconcile_refused_total'', [''gate'']),
      (''skipped_unknown_assignee_by_assignee'', ''agent_executor_skipped_unknown_assignee_total'', [''assignee'']),
      (''dead_letter'', ''agent_executor_dead_letter_total'', [''topic'']),
      (''claim'', ''executor_claim_total'', [''result'']),
      (''claim_scheme'', ''executor_claim_scheme_total'', [''result'']),
      (''parked_lost_claim'', ''executor_parked_lost_claim_total'', [''result'']),
      (''task_reruns'', ''executor_task_reruns_total'', [''task_type'']),
      (''deferred_concurrency_cap_by_assignee'', ''agent_executor_deferred_concurrency_cap_total'', [''assignee'']),
      (''job_lookup_denied'', ''agent_executor_job_lookup_denied_total'', [''assignee'', ''namespace''])]"

text \<open>The counters without labels, and the gauge of the accepted phases and task types.\<close>

definition plainCounters :: "(string \<times> string) list" where
  "plainCounters =
     [(''task_content_too_large'', ''agent_executor_task_content_too_large_total''),
      (''reconcile_redriven'', ''executor_reconcile_redriven_total''),
      (''claim_mismatch'', ''executor_claim_mismatch_total''),
      (''claim_key_fallback'', ''executor_claim_key_fallback_total''),
      (''task_view_skipped'', ''executor_task_view_skipped_total'')]"

definition ConfigAccepted :: "string \<times> string list" where
  "ConfigAccepted = (''executor_config_accepted'', [''phase'', ''task_type'', ''vault''])"

definition RedriveAbortReasonBrokenSignature :: string where "RedriveAbortReasonBrokenSignature = ''capped:broken-signature''"
definition RedriveAbortReasonTransientExhausted :: string where
  "RedriveAbortReasonTransientExhausted = ''capped:transient-retries-exhausted''"

definition reconcileRefusedGates :: "string list" where
  "reconcileRefusedGates =
     [''foreign_cluster'', ''unresolved_config'', ''terminal_status'', ''status_not_triggered'', ''phase_not_triggered'',
      ''terminal_phase'', ''stage_mismatch'', ''no_routing'', ''index_terminal'', ''type_mismatch'']"

section \<open>The registry\<close>

text \<open>The series and their values; \<^verbatim>\<open>Add\<close> creates a series that does not exist.\<close>

type_synonym registry = "((string \<times> string list), nat) gomap"

definition addTo :: "string \<Rightarrow> string list \<Rightarrow> nat \<Rightarrow> registry \<Rightarrow> registry" where
  "addTo vec labels n reg =
     AList.update (vec, labels) ((case map_of reg (vec, labels) of Some v \<Rightarrow> v | None \<Rightarrow> 0) + n) reg"

definition seedAll :: "string \<Rightarrow> string list \<Rightarrow> registry \<Rightarrow> registry" where
  "seedAll vec results reg = fold (\<lambda>r. addTo vec [r] 0) results reg"

text \<open>A counter without labels is a series from its registration on.\<close>

definition registerPlain :: "registry \<Rightarrow> registry" where
  "registerPlain = fold (\<lambda>v. addTo v [] 0) (map fst plainCounters)"

definition seedDeferredAndRefusalOutcomes :: "registry \<Rightarrow> registry" where
  "seedDeferredAndRefusalOutcomes =
     seedAll ''task_events''
       [''deferred_concurrency_cap'', ''deferred_claim_invalidated'', ''deferred_respawn_spawn_failed'',
        ''deferred_respawn_refusal_write_failed'', ''event_refusal_write_failed'']"

definition initReconcileRefusedGateSeries :: "registry \<Rightarrow> registry" where
  "initReconcileRefusedGateSeries = seedAll ''reconcile_refused'' reconcileRefusedGates"

definition initClaimSchemeSeries :: "registry \<Rightarrow> registry" where
  "initClaimSchemeSeries = seedAll ''claim_scheme'' [''confirmed'', ''bootstrapped'', ''mismatch'', ''unreadable'']"

definition claimResults :: "string list" where
  "claimResults =
     [''claimed'', ''conflict'', ''renewed'', ''recovered'', ''renew_failed'', ''claim_lost'', ''fenced'', ''taken_over'',
      ''takeover_too_early'', ''released'', ''already_released'', ''adopted'', ''error'', ''jobless_released'']"

definition metrics_init :: registry where
  "metrics_init =
     (seedAll ''claim'' claimResults \<circ>
      seedAll ''parked_lost_claim'' [''parked'', ''failed''] \<circ>
      initClaimSchemeSeries \<circ>
      addTo ''claim_key_fallback'' [] 0 \<circ>
      seedAll ''redrive_aborted'' [RedriveAbortReasonBrokenSignature, RedriveAbortReasonTransientExhausted] \<circ>
      seedAll ''config_accepted_refresh'' [''ok'', ''read_error''] \<circ>
      initReconcileRefusedGateSeries \<circ>
      seedAll ''view_divergence'' [''ok'', ''mismatch'', ''absent'', ''read_error''] \<circ>
      seedAll ''reconcile_passes'' [''ok'', ''aborted'', ''view_not_ready'', ''task_vault_mismatch'', ''task_vault_unstamped''] \<circ>
      seedDeferredAndRefusalOutcomes \<circ>
      seedAll ''task_events''
        [''spawned'', ''skipped_status'', ''skipped_phase'', ''skipped_assignee'', ''skipped_unknown_assignee'', ''skipped_active_job'',
         ''skipped_recent_success'', ''parked_succeeded'', ''success_before_cache_sync'', ''skipped_stage'', ''pin_outside_pool'',
         ''skipped_foreign_cluster'', ''skipped_foreign_vault'', ''skipped_view_not_ready'', ''skipped_untagged'', ''skipped_trigger_cap'',
         ''error'', ''type_mismatch'', ''spawn_suppressed_terminal_phase'', ''skipped_terminal_status'', ''unknown_phase'',
         ''respawn_grace_window'', ''skipped_foreign_job'', ''claim_probe_failed'', ''respawn_after_grace_window'', ''skipped_permanent''] \<circ>
      seedAll ''jobs_spawned'' [''unresolved''] \<circ>
      registerPlain) []"

definition PreInitJobLookupDenied :: "string \<Rightarrow> string \<Rightarrow> registry \<Rightarrow> registry" where
  "PreInitJobLookupDenied assignee namespace = addTo ''job_lookup_denied'' [assignee, namespace] 0"

definition exists_series :: "registry \<Rightarrow> string \<Rightarrow> string list \<Rightarrow> bool" where
  "exists_series reg vec labels \<longleftrightarrow> map_of reg (vec, labels) \<noteq> None"

lemma exists_addTo: "exists_series (addTo v ls n reg) vec labels \<longleftrightarrow> (vec, labels) = (v, ls) \<or> exists_series reg vec labels"
  by (auto simp: exists_series_def addTo_def update_conv)

lemma exists_seedAll: "exists_series (seedAll v rs reg) vec labels \<longleftrightarrow> vec = v \<and> (\<exists>r \<in> set rs. labels = [r]) \<or> exists_series reg vec labels"
  unfolding seedAll_def by (induction rs arbitrary: reg) (auto simp: exists_addTo)

lemma value_addTo: "map_of (addTo v ls n reg) k = (if k = (v, ls) then Some ((case map_of reg k of Some x \<Rightarrow> x | None \<Rightarrow> 0) + n) else map_of reg k)"
  by (simp add: addTo_def update_conv)

lemma exists_registerPlain: "exists_series (registerPlain reg) vec labels \<longleftrightarrow> labels = [] \<and> vec \<in> fst ` set plainCounters \<or> exists_series reg vec labels"
  by (auto simp: registerPlain_def plainCounters_def exists_addTo)

lemmas seed_defs = seedDeferredAndRefusalOutcomes_def initReconcileRefusedGateSeries_def initClaimSchemeSeries_def

lemma claim_series_seeded: "exists_series metrics_init ''claim'' [r] \<longleftrightarrow> r \<in> set claimResults"
  by (simp add: metrics_init_def seed_defs exists_seedAll exists_addTo exists_registerPlain) (simp add: exists_series_def)

text \<open>
  \<^verbatim>\<open>WithLabelValues\<close> panics when the number of values is not the number of labels: every series of the start has the
  labels its counter declares.
\<close>

definition declaredLabels :: "string \<Rightarrow> nat option" where
  "declaredLabels vec =
     (case map_of counterVecs vec of
        Some (name, labels) \<Rightarrow> Some (length labels)
      | None \<Rightarrow> map_option (\<lambda>name. 0) (map_of plainCounters vec))"

lemma init_labels_match: "exists_series metrics_init vec labels \<Longrightarrow> declaredLabels vec = Some (length labels)"
  by (auto simp: metrics_init_def seed_defs exists_seedAll exists_addTo exists_registerPlain)
    (auto simp: exists_series_def declaredLabels_def counterVecs_def plainCounters_def)

section \<open>What the lease manager counts\<close>

named_theorems counts_intros \<open>operations that count registered results only\<close>

definition registered_counts :: "'w leaseManager \<Rightarrow> bool" where
  "registered_counts m \<longleftrightarrow> set (lm_counts m) \<subseteq> set claimResults"

text \<open>\<open>counts_ok x\<close>: \<open>x\<close> counts registered results only. \<open>counts_with R x\<close>: it also returns a value with \<open>R\<close>.\<close>

definition counts_with :: "('a \<Rightarrow> bool) \<Rightarrow> ('w leaseManager, 'a) state \<Rightarrow> bool" where
  "counts_with R x \<longleftrightarrow> (\<forall>m. registered_counts m \<longrightarrow> registered_counts (snd (run_state x m)) \<and> R (fst (run_state x m)))"

abbreviation counts_ok :: "('w leaseManager, 'a) state \<Rightarrow> bool" where
  "counts_ok x \<equiv> counts_with (\<lambda>_. True) x"

lemma countsD: "counts_ok x \<Longrightarrow> registered_counts m \<Longrightarrow> run_state x m = (a, m') \<Longrightarrow> registered_counts m'"
  unfolding counts_with_def by (metis snd_conv)

lemma counts_ret [counts_intros]: "R a \<Longrightarrow> counts_with R (State_Monad.return a)"
  by (simp add: counts_with_def)

lemma counts_bind_with: "counts_with S x \<Longrightarrow> (\<And>a. S a \<Longrightarrow> counts_with R (f a)) \<Longrightarrow> counts_with R (State_Monad.bind x f)"
  by (auto simp: counts_with_def split_beta)

lemma counts_bind [counts_intros]: "counts_ok x \<Longrightarrow> (\<And>a. counts_with R (f a)) \<Longrightarrow> counts_with R (State_Monad.bind x f)"
  by (rule counts_bind_with)

lemma counts_if [counts_intros]: "(b \<Longrightarrow> counts_with R x) \<Longrightarrow> (\<not> b \<Longrightarrow> counts_with R y) \<Longrightarrow> counts_with R (if b then x else y)"
  by simp

lemma counts_case [counts_intros]:
  "(ox = None \<Longrightarrow> counts_with R x) \<Longrightarrow> (\<And>a. ox = Some a \<Longrightarrow> counts_with R (f a)) \<Longrightarrow> counts_with R (case ox of None \<Rightarrow> x | Some a \<Rightarrow> f a)"
  "(\<And>a. sx = Inl a \<Longrightarrow> counts_with R (p a)) \<Longrightarrow> (\<And>b. sx = Inr b \<Longrightarrow> counts_with R (q b)) \<Longrightarrow> counts_with R (case sx of Inl a \<Rightarrow> p a | Inr b \<Rightarrow> q b)"
  "(\<And>a b. px = (a, b) \<Longrightarrow> counts_with R (g a b)) \<Longrightarrow> counts_with R (case px of (a, b) \<Rightarrow> g a b)"
  by (cases ox, simp, simp) (cases sx, simp, simp, cases px, simp)

lemma counts_Let [counts_intros]: "(\<And>y. counts_with R (f y)) \<Longrightarrow> counts_with R (Let x f)"
  by simp

lemma counts_for_each [counts_intros]: "(\<And>x. counts_ok (f x)) \<Longrightarrow> counts_ok (for_each xs f)"
  by (induction xs) (auto intro!: counts_intros)

lemma counts_basic [counts_intros]:
  "counts_ok (gets g)" "counts_ok (in_world y)" "counts_ok (put_held k h)" "counts_ok (drop_held k)" "counts_ok (upd_held k u)"
  by (simp_all add: counts_with_def registered_counts_def in_world_def put_held_def drop_held_def upd_held_def split_beta)

lemma counts_count [counts_intros]:
  "l \<in> set claimResults \<Longrightarrow> counts_ok (countClaim l)" "l \<in> set claimResults \<Longrightarrow> counts_ok (countClaimRemoval l)"
  "counts_ok countClaimFencePending" "counts_ok (countClaimCreated b)"
  by (simp_all add: counts_with_def registered_counts_def countClaim_def countClaimRemoval_def countClaimFencePending_def
      countClaimCreated_def claimResults_def)

lemma counts_reads [counts_intros]: "counts_ok (requestContext env)" "counts_ok (now_of env)" "counts_ok (get_held k)"
  unfolding requestContext_def now_of_def get_held_def by (intro counts_intros TrueI)+

text \<open>A release answers one of its two results; what follows it may count that.\<close>

lemma counts_releaseRef: "counts_with (\<lambda>r. \<forall>l. r = Inr l \<longrightarrow> l \<in> set claimResults) (releaseRef env ctx t tok)"
  by (auto simp: counts_with_def registered_counts_def releaseRef_def in_world_def claimResults_def split: prod.splits option.splits if_splits)

lemma counts_releaseRefWithDeadline:
  "counts_with (\<lambda>r. \<forall>l. r = Inr l \<longrightarrow> l \<in> set claimResults) (releaseRefWithDeadline env t tok)"
  unfolding releaseRefWithDeadline_def by (intro counts_intros counts_releaseRef)

lemmas counts_release = counts_bind_with [OF counts_releaseRef] counts_bind_with [OF counts_releaseRefWithDeadline]

lemma registered [simp]:
  "''claimed'' \<in> set claimResults" "''conflict'' \<in> set claimResults" "''renewed'' \<in> set claimResults" "''recovered'' \<in> set claimResults"
  "''renew_failed'' \<in> set claimResults" "''claim_lost'' \<in> set claimResults" "''fenced'' \<in> set claimResults" "''taken_over'' \<in> set claimResults"
  "''takeover_too_early'' \<in> set claimResults" "''adopted'' \<in> set claimResults" "''error'' \<in> set claimResults"
  "''jobless_released'' \<in> set claimResults" "pairRemovalResult p s \<in> set claimResults"
  by (simp_all add: claimResults_def pairRemovalResult_def)

lemma counts_steps [counts_intros]:
  "counts_ok (readBack env ctx t)" "counts_ok (readBackRecovery env t)" "counts_ok (releaseRecovery env t tok)"
  "counts_ok (acquire env t tid)" "counts_ok (bestEffortRelease env h)" "counts_ok (storeClaim pk pt sk st tid pc sc now)"
  unfolding readBack_def readBackRecovery_def releaseRecovery_def acquire_def bestEffortRelease_def storeClaim_def
  by (intro counts_release counts_intros TrueI)+

lemma counts_claims [counts_intros]: "counts_ok (claimPairLocked env p s tid)"
  unfolding claimPairLocked_def createPrimary_def by (intro counts_intros TrueI) simp_all

lemma counts_takeover [counts_intros]: "counts_ok (TakeoverPair env p s tid)"
  unfolding TakeoverPair_def acquireForTakeover_def finishTakeoverPair_def
  by (intro counts_intros TrueI) (simp_all add: takeoverRefusal_def split: if_splits)

lemma counts_releases [counts_intros]:
  "counts_ok (releaseLocked env ctx h)" "counts_ok (lm_Release env key)" "counts_ok (ReleaseAfterSuccess env key t)"
proof -
  show locked: "counts_ok (releaseLocked env ctx h)" for ctx h
    unfolding releaseLocked_def by (intro counts_release counts_intros TrueI) simp_all
  show "counts_ok (lm_Release env key)" "counts_ok (ReleaseAfterSuccess env key t)"
    unfolding lm_Release_def ReleaseAfterSuccess_def by (intro counts_intros locked TrueI)+
qed

lemma counts_Recover [counts_intros]: "counts_ok (Recover env)"
  unfolding Recover_def recoverTaskGroup_def recoverSingles_def recoverGroup_def recoverFenceGroup_def recoverAdoptGroup_def
    recoveredLeaseUntil_def storeRecoveredPair_def repairOrAdoptSingle_def
  by (intro counts_release counts_intros TrueI) simp_all

lemma counts_all_held [counts_intros]: "(\<And>k h. counts_ok (f k h)) \<Longrightarrow> counts_ok (all_held f)"
  unfolding all_held_def by (intro counts_intros TrueI)

lemma counts_fence [counts_intros]:
  "counts_ok (retryPendingDeletions env)" "counts_ok (evaluateFence env now)" "counts_ok (fenceNow env)" "counts_ok (ctxErr env)"
proof -
  show fence: "counts_ok (evaluateFence env now)" for now
    unfolding evaluateFence_def fenceClaim_def by (intro counts_intros TrueI) simp_all
  show "counts_ok (retryPendingDeletions env)" "counts_ok (fenceNow env)" "counts_ok (ctxErr env)"
    unfolding retryPendingDeletions_def retryPendingDeletion_def fenceNow_def ctxErr_def
    by (intro counts_intros fence TrueI; simp)+
qed

lemma counts_due_releases [counts_intros]:
  "counts_ok (retryPendingReleases env)" "counts_ok (releaseExpiredHolds env)" "counts_ok (releaseAfterRunningCheck env k h)"
  "counts_ok (releaseJoblessClaim env k h)"
  unfolding retryPendingReleases_def retryPendingRelease_def releaseExpiredHolds_def releaseExpiredHold_def
    releaseAfterRunningCheck_def releaseJoblessClaim_def
  by (intro counts_release counts_intros TrueI; simp)+

lemma counts_joblessPass [counts_intros]: "counts_ok (joblessPass env now ks)"
proof (induction ks)
  case Nil
  then show ?case by (simp add: counts_ret)
next
  case (Cons k ks)
  then show ?case
    unfolding joblessPass.simps checkJobless_def by (intro counts_intros TrueI; simp)
qed

lemma counts_checks [counts_intros]: "counts_ok (releaseJoblessClaims env)" "counts_ok (recheckRunning env)"
  unfolding releaseJoblessClaims_def recheckRunning_def recheckRunningClaim_def by (intro counts_intros TrueI; simp)+

lemma counts_claimLost [counts_intros]: "counts_ok (claimLost env k h)"
  unfolding claimLost_def by (intro counts_intros TrueI) simp_all

lemma counts_renewReadBack: "counts_with (\<lambda>r. \<forall>l. r = Some l \<longrightarrow> l \<in> set claimResults) (renewReadBack env h)"
  unfolding renewReadBack_def by (intro counts_intros) simp_all

lemma counts_renewSecondary [counts_intros]: "l \<in> set claimResults \<Longrightarrow> counts_ok (renewSecondary env k h l)"
  unfolding renewSecondary_def renewRequest_def by (intro counts_intros TrueI) simp_all

lemma counts_renewDueClaims [counts_intros]: "counts_ok (renewDueClaims env)"
  unfolding renewDueClaims_def renewIfDue_def renewClaim_def renewRequest_def
  by (intro counts_bind_with [OF counts_renewReadBack] counts_intros TrueI) simp_all

lemma counts_Tick [counts_intros]: "counts_ok (Tick env)"
  unfolding Tick_def by (intro counts_intros TrueI)

lemma counts_manager_op: "counts_ok (run_manager_op env oper)"
  by (cases oper) (simp_all add: ClaimPair_def, (intro counts_intros TrueI)+)

text \<open>
  C23: The lease manager never counts outside the registered results. Whatever it does from a fresh start, in whatever
  order and whatever the service and the cluster answer, every result it counts is a series that existed at zero since
  the program started, so that no alert on one of them can miss it.
\<close>

theorem claim_results_registered:
  assumes "(manager_step env)\<^sup>*\<^sup>* m m'" and "lm_counts m = []" and "r \<in> set (lm_counts m')"
  shows "exists_series metrics_init ''claim'' [r]"
proof -
  from assms(1,2) have "registered_counts m'"
  proof (induction rule: rtranclp_induct)
    case (step m1 m2)
    from step(2) show ?case
    proof (cases rule: manager_step.cases)
      case (operation oper)
      with counts_manager_op step(3) [OF step(4)] show ?thesis by (rule countsD)
    next
      case (world w)
      with step(3) [OF step(4)] show ?thesis by (simp add: registered_counts_def)
    qed
  qed (simp add: registered_counts_def)
  with assms(3) show ?thesis by (auto simp: registered_counts_def claim_series_seeded)
qed

theorem claim_results_registered_witness:
  "lm_counts (snd (run_state (run_manager_op (staticEnv grantClient False) (OpClaimPair ''claims/task/t1'' '''' ''t1'')) idleManager)) = [''claimed''] \<and>
   exists_series metrics_init ''claim'' [''claimed'']"
proof -
  let ?x = "run_state (run_manager_op (staticEnv grantClient False) (OpClaimPair ''claims/task/t1'' '''' ''t1'')) idleManager"
  have one: "lm_counts (snd ?x) = [''claimed'']" by code_simp
  have "manager_step (staticEnv grantClient False) idleManager (snd ?x)"
    by (rule manager_step.operation [where oper = "OpClaimPair ''claims/task/t1'' '''' ''t1''"]) (simp add: prod_eq_iff)
  then have "(manager_step (staticEnv grantClient False))\<^sup>*\<^sup>* idleManager (snd ?x)" by blast
  from claim_results_registered [OF this] one show ?thesis by (simp add: idleManager_def)
qed

text \<open>
  One outcome of a task event is not registered. A pod quota that cannot be read is counted as
  \<open>pod_quota_read_failed\<close>, and no series of that result exists when the program starts.
\<close>

theorem pod_quota_failure_not_registered:
  assumes "he_podQuota env = Some quota" and "ac_PriorityClassName config \<noteq> ''''"
    and "run_state (quota ns (ac_PriorityClassName config)) (lm_world (th_lease h)) = (Inl e, w')"
  shows "th_counts (snd (run_state (podQuotaFor env ns config) h)) = th_counts h @ [(''task_events'', [''pod_quota_read_failed''])] \<and>
    \<not> exists_series metrics_init ''task_events'' [''pod_quota_read_failed'']"
proof
  show "th_counts (snd (run_state (podQuotaFor env ns config) h)) = th_counts h @ [(''task_events'', [''pod_quota_read_failed''])]"
    using assms by (simp add: podQuotaFor_def outside_def in_lease_def in_world_def task_event_def count_def)
  show "\<not> exists_series metrics_init ''task_events'' [''pod_quota_read_failed'']"
    by (simp add: metrics_init_def seed_defs exists_seedAll exists_addTo exists_registerPlain) (simp add: exists_series_def)
qed

theorem pod_quota_failure_not_registered_witness:
  "th_counts (snd (run_state (podQuotaFor (dwEnv\<lparr>he_podQuota := Some (\<lambda>ns p. ret (Inl ContextDone))\<rparr>) ''agents'' dwCapped) dwIdle)) =
     th_counts dwIdle @ [(''task_events'', [''pod_quota_read_failed''])]"
proof -
  have p: "ac_PriorityClassName dwCapped \<noteq> ''''" by (simp add: dwCapped_def)
  have q: "he_podQuota (dwEnv\<lparr>he_podQuota := Some (\<lambda>ns p. ret (Inl ContextDone))\<rparr>) = Some (\<lambda>ns p. ret (Inl ContextDone))" by simp
  have r: "run_state ((\<lambda>ns p. ret (Inl ContextDone)) ''agents'' (ac_PriorityClassName dwCapped)) (lm_world (th_lease dwIdle)) =
      (Inl ContextDone, lm_world (th_lease dwIdle))" by simp
  from pod_quota_failure_not_registered [OF q p r] show ?thesis by blast
qed

end
