(* ===== verification/Log_Redactor.thy ===== *)
theory Log_Redactor
  imports Go_Prelude
begin

text \<open>
  The redaction of captured log tails (\<^verbatim>\<open>pkg/log_redactor.go\<close>). The five patterns are values of a small type of
  regular expressions with the semantics of Go's \<^verbatim>\<open>regexp\<close>: the matches at a position are listed in the order of
  preference, the leftmost position with a match wins, and matches do not overlap. Every repetition of the patterns is
  over one class of characters. For texts beyond ASCII, where Go counts code points, the result is a parameter.

  The theorems show that no GitHub token survives, also not one put together by a later rule, and that a text without a
  recognised run is returned as it is.
\<close>

section \<open>Patterns\<close>

datatype pattern =
    Eps
  | Cls "char \<Rightarrow> bool"
  | Cat pattern pattern
  | Alt pattern pattern
  | Maybe "char \<Rightarrow> bool"
  | Many nat "char \<Rightarrow> bool"
  | Few "char \<Rightarrow> bool"

text \<open>What remains of the text after each match at its start, the preferred match first. \<open>Many\<close> is greedy, \<open>Few\<close> is not.\<close>

fun rests :: "pattern \<Rightarrow> string \<Rightarrow> string list" where
  "rests Eps s = [s]"
| "rests (Cls P) s = (case s of [] \<Rightarrow> [] | c # t \<Rightarrow> if P c then [t] else [])"
| "rests (Cat p q) s = concat (map (rests q) (rests p s))"
| "rests (Alt p q) s = rests p s @ rests q s"
| "rests (Maybe P) s = (case s of [] \<Rightarrow> [s] | c # t \<Rightarrow> if P c then [t, s] else [s])"
| "rests (Many n P) s = map (\<lambda>i. drop i s) (rev [n ..< Suc (length (takeWhile P s))])"
| "rests (Few P) s = map (\<lambda>i. drop i s) [0 ..< Suc (length (takeWhile P s))]"

fun word_of :: "(char \<Rightarrow> char \<Rightarrow> bool) \<Rightarrow> string \<Rightarrow> pattern" where
  "word_of same [] = Eps"
| "word_of same [c] = Cls (same c)"
| "word_of same (c # d # cs) = Cat (Cls (same c)) (word_of same (d # cs))"

definition lit :: "string \<Rightarrow> pattern" where "lit w = word_of (=) w"

text \<open>\<^verbatim>\<open>(?i)\<close> on ASCII text.\<close>

definition anycase :: "string \<Rightarrow> pattern" where "anycase w = word_of (\<lambda>c d. lower_char c = lower_char d) w"

definition space_char :: "char \<Rightarrow> bool" where "space_char c \<longleftrightarrow> of_char c \<in> {9, 10, 12, 13, 32 :: nat}"

definition letter :: "char \<Rightarrow> bool" where
  "letter c \<longleftrightarrow> (let n = of_char c :: nat in 65 \<le> n \<and> n \<le> 90 \<or> 97 \<le> n \<and> n \<le> 122)"

definition alnum :: "char \<Rightarrow> bool" where "alnum c \<longleftrightarrow> letter c \<or> is_digit c"

definition key_char :: "char \<Rightarrow> bool" where "key_char c \<longleftrightarrow> alnum c \<or> c \<in> set ''_.-''"

definition upper_or_space :: "char \<Rightarrow> bool" where
  "upper_or_space c \<longleftrightarrow> (let n = of_char c :: nat in 65 \<le> n \<and> n \<le> 90) \<or> c = CHR '' ''"

definition dquote :: char where "dquote = CHR 0x22"
definition squote :: char where "squote = CHR 0x27"

section \<open>Rules\<close>

text \<open>A rule keeps what its first pattern matches, replaces what its second matches, and adds a fixed end.\<close>

record rule =
  ru_keep :: pattern
  ru_run :: pattern
  ru_end :: string

definition redactionMinSecretLength :: nat where "redactionMinSecretLength = 13"

definition redactionPlaceholder :: string where "redactionPlaceholder = ''<redacted>''"

definition pemEdge :: "string \<Rightarrow> pattern" where
  "pemEdge w = Cat (lit (''-----'' @ w @ '' '')) (Cat (Many 0 upper_or_space) (lit ''PRIVATE KEY-----''))"

definition logRedactPEM :: rule where
  "logRedactPEM = \<lparr>ru_keep = Eps, ru_run = Cat (pemEdge ''BEGIN'') (Cat (Few (\<lambda>_. True)) (pemEdge ''END'')), ru_end = ''''\<rparr>"

definition githubToken :: pattern where
  "githubToken = Cat (lit ''gh'') (Cat (Cls (\<lambda>c. c \<in> set ''pousr'')) (Cat (lit ''_'') (Many 20 alnum)))"

definition logRedactGitHub :: rule where
  "logRedactGitHub = \<lparr>ru_keep = Eps, ru_run = githubToken, ru_end = ''''\<rparr>"

definition logRedactURL :: rule where
  "logRedactURL =
     \<lparr>ru_keep = lit ''://'',
      ru_run = Cat (Many 1 (\<lambda>c. \<not> (c \<in> set ''/@:'' \<or> space_char c)))
        (Cat (lit '':'') (Cat (Many 1 (\<lambda>c. \<not> (c \<in> set ''/@'' \<or> space_char c))) (lit ''@''))),
      ru_end = ''@''\<rparr>"

definition logRedactBearer :: rule where
  "logRedactBearer =
     \<lparr>ru_keep = Cat (anycase ''Bearer'') (Many 1 space_char), ru_run = Many 8 (\<lambda>c. \<not> space_char c), ru_end = ''''\<rparr>"

definition secretWord :: pattern where
  "secretWord =
     Alt (anycase ''token'') (Alt (anycase ''secret'') (Alt (anycase ''passw'') (Alt (anycase ''pem'') (Alt (anycase ''dsn'')
       (Alt (anycase ''credential'')
         (Alt (Cat (anycase ''api'') (Cat (Maybe (\<lambda>c. c \<in> set ''_-'')) (anycase ''key''))) (anycase ''auth'')))))))"

definition logRedactAssign :: rule where
  "logRedactAssign =
     \<lparr>ru_keep =
        Cat (Many 0 key_char) (Cat secretWord (Cat (Many 0 key_char) (Cat (Maybe (\<lambda>c. c = dquote \<or> c = squote))
          (Cat (Many 0 space_char) (Cat (Cls (\<lambda>c. c \<in> set ''=:'')) (Many 0 space_char)))))),
      ru_run =
        Alt (Cat (Cls (\<lambda>c. c = dquote)) (Cat (Many redactionMinSecretLength (\<lambda>c. c \<noteq> dquote)) (Cls (\<lambda>c. c = dquote))))
          (Alt (Cat (Cls (\<lambda>c. c = squote)) (Cat (Many redactionMinSecretLength (\<lambda>c. c \<noteq> squote)) (Cls (\<lambda>c. c = squote))))
            (Cat (Cls (\<lambda>c. \<not> (c = dquote \<or> c = squote \<or> space_char c)))
              (Many (redactionMinSecretLength - 1) (\<lambda>c. \<not> space_char c)))),
      ru_end = ''''\<rparr>"

text \<open>The preferred match at the start of a text: what is kept of it, and what follows it.\<close>

definition allMatches :: "rule \<Rightarrow> string \<Rightarrow> (string \<times> string) list" where
  "allMatches r s =
     concat (map (\<lambda>t. map (\<lambda>u. (take (length s - length t) s, u)) (rests (ru_run r) t)) (rests (ru_keep r) s))"

definition matchAt :: "rule \<Rightarrow> string \<Rightarrow> (string \<times> string) option" where
  "matchAt r s = (case allMatches r s of [] \<Rightarrow> None | m # ms \<Rightarrow> Some m)"

text \<open>\<^verbatim>\<open>ReplaceAllString\<close>. No pattern matches the empty text (\<open>matchAt_progress\<close>), so a match always consumes something.\<close>

function replaceAll :: "rule \<Rightarrow> string \<Rightarrow> string" where
  "replaceAll r [] = []"
| "replaceAll r (c # s) =
     (case matchAt r (c # s) of
        Some (kept, u) \<Rightarrow>
          if length u \<le> length s then kept @ redactionPlaceholder @ ru_end r @ replaceAll r u else c # replaceAll r s
      | None \<Rightarrow> c # replaceAll r s)"
  by pat_completeness auto
termination by (relation "measure (\<lambda>(r, s). length s)") auto

declare replaceAll.simps [simp del]

definition redactLog :: "(string \<Rightarrow> string) \<Rightarrow> string \<Rightarrow> string" where
  "redactLog beyondASCII text =
     (if list_all is_ascii text then
        replaceAll logRedactAssign (replaceAll logRedactBearer (replaceAll logRedactURL (replaceAll logRedactGitHub
          (replaceAll logRedactPEM text))))
      else beyondASCII text)"

section \<open>Matches\<close>

text \<open>A lower bound of what a pattern consumes.\<close>

fun least :: "pattern \<Rightarrow> nat" where
  "least Eps = 0"
| "least (Cls P) = 1"
| "least (Cat p q) = least p + least q"
| "least (Alt p q) = min (least p) (least q)"
| "least (Maybe P) = 0"
| "least (Many n P) = n"
| "least (Few P) = 0"

lemma rests_suffix: "t \<in> set (rests p s) \<Longrightarrow> \<exists>m. s = m @ t \<and> least p \<le> length m"
proof (induction p arbitrary: s t)
  case (Cat p q)
  then obtain u where u: "u \<in> set (rests p s)" "t \<in> set (rests q u)" by auto
  from Cat.IH(1) [OF u(1)] obtain m where m: "s = m @ u" "least p \<le> length m" by blast
  from Cat.IH(2) [OF u(2)] obtain n where n: "u = n @ t" "least q \<le> length n" by blast
  have "s = (m @ n) @ t" "least (Cat p q) \<le> length (m @ n)" using m n by auto
  then show ?case by blast
next
  case (Alt p q)
  then show ?case by (auto simp: min_le_iff_disj) (meson min.coboundedI1 min.coboundedI2)+
next
  case (Cls P)
  then show ?case by (cases s) (auto split: if_splits intro: exI [of _ "[_]"])
next
  case (Maybe P)
  then show ?case by (cases s) (auto split: if_splits intro: exI [of _ "[_]"])
next
  case (Many n P)
  then obtain i where i: "n \<le> i" "i \<le> length (takeWhile P s)" "t = drop i s" by auto
  moreover have "length (takeWhile P s) \<le> length s" by (rule length_takeWhile_le)
  ultimately show ?case by (intro exI [of _ "take i s"]) auto
next
  case (Few P)
  then obtain i where "t = drop i s" by auto
  then show ?case by (intro exI [of _ "take i s"]) auto
qed auto

lemma matchAt_mem: "matchAt r s = Some m \<Longrightarrow> m \<in> set (allMatches r s)"
  by (auto simp: matchAt_def split: list.splits)

lemma matchAt_parts:
  assumes "matchAt r s = Some (kept, u)"
  shows "\<exists>t m. s = kept @ t \<and> t = m @ u \<and> t \<in> set (rests (ru_keep r) s) \<and> u \<in> set (rests (ru_run r) t) \<and>
    least (ru_keep r) + least (ru_run r) \<le> length kept + length m"
proof -
  from assms obtain t where t: "t \<in> set (rests (ru_keep r) s)" "u \<in> set (rests (ru_run r) t)" "kept = take (length s - length t) s"
    by (auto simp: allMatches_def dest!: matchAt_mem)
  from rests_suffix [OF t(1)] obtain k where k: "s = k @ t" "least (ru_keep r) \<le> length k" by blast
  from rests_suffix [OF t(2)] obtain m where m: "t = m @ u" "least (ru_run r) \<le> length m" by blast
  from t(3) k have "kept = k" by simp
  with k m t show ?thesis by (intro exI [of _ t] exI [of _ m]) auto
qed

lemma matchAt_None: "matchAt r s = None \<longleftrightarrow> (\<forall>t \<in> set (rests (ru_keep r) s). rests (ru_run r) t = [])"
proof -
  have "matchAt r s = None \<longleftrightarrow> allMatches r s = []" by (simp add: matchAt_def split: list.split)
  then show ?thesis by (auto simp: allMatches_def)
qed

definition redactionRules :: "rule list" where
  "redactionRules = [logRedactPEM, logRedactGitHub, logRedactURL, logRedactBearer, logRedactAssign]"

lemma rules_consume: "r \<in> set redactionRules \<Longrightarrow> 0 < least (ru_keep r) + least (ru_run r)"
  by (auto simp: redactionRules_def logRedactPEM_def logRedactGitHub_def logRedactURL_def logRedactBearer_def logRedactAssign_def
      pemEdge_def githubToken_def lit_def anycase_def)

lemma matchAt_progress: "r \<in> set redactionRules \<Longrightarrow> matchAt r (c # s) = Some (kept, u) \<Longrightarrow> length u \<le> length s"
  using rules_consume [of r] matchAt_parts [of r "c # s" kept u]
  by (auto dest!: arg_cong [of _ _ length])

section \<open>No token survives\<close>

definition token :: "string \<Rightarrow> bool" where
  "token p \<longleftrightarrow> (\<exists>c as. p = CHR ''g'' # CHR ''h'' # c # CHR ''_'' # as \<and> c \<in> set ''pousr'' \<and> length as = 20 \<and> list_all alnum as)"

definition token_free :: "string \<Rightarrow> bool" where
  "token_free s \<longleftrightarrow> (\<forall>a p b. s = a @ p @ b \<longrightarrow> \<not> token p)"

lemma token_freeD: "token_free s \<Longrightarrow> s = a @ p @ b \<Longrightarrow> \<not> token p"
  unfolding token_free_def by blast

lemma token_chars: "token p \<Longrightarrow> length p = 24 \<and> p \<noteq> [] \<and> CHR ''<'' \<notin> set p \<and> CHR ''>'' \<notin> set p \<and> CHR ''@'' \<notin> set p"
proof -
  assume "token p"
  moreover have "\<not> alnum (CHR ''<'')" "\<not> alnum (CHR ''>'')" "\<not> alnum (CHR ''@'')" by (simp_all add: alnum_def letter_def is_digit_def)
  ultimately show ?thesis by (auto simp: token_def list_all_iff)
qed

lemma many_nonempty: "rests (Many n P) s \<noteq> [] \<longleftrightarrow> (\<exists>as t. s = as @ t \<and> length as = n \<and> list_all P as)"
proof
  assume "rests (Many n P) s \<noteq> []"
  then have n: "n \<le> length (takeWhile P s)" by (auto split: if_splits)
  have "take n s = take n (takeWhile P s)"
    by (metis append_take_drop_id n take_append takeWhile_dropWhile_id diff_is_0_eq take0 append_Nil2)
  then have "list_all P (take n s)" by (auto simp: list_all_iff dest!: in_set_takeD set_takeWhileD)
  moreover have "length (take n s) = n" using n length_takeWhile_le [of P s] by simp
  ultimately show "\<exists>as t. s = as @ t \<and> length as = n \<and> list_all P as" by (metis append_take_drop_id)
next
  assume "\<exists>as t. s = as @ t \<and> length as = n \<and> list_all P as"
  then show "rests (Many n P) s \<noteq> []" by (auto simp: list_all_iff)
qed

lemma token_matches: "rests githubToken s \<noteq> [] \<longleftrightarrow> (\<exists>p t. s = p @ t \<and> token p)"
proof -
  have "rests githubToken s \<noteq> [] \<longleftrightarrow> (\<exists>c u. s = CHR ''g'' # CHR ''h'' # c # CHR ''_'' # u \<and> c \<in> set ''pousr'' \<and> rests (Many 20 alnum) u \<noteq> [])"
    unfolding githubToken_def lit_def
    by (auto simp del: rests.simps(6) split: list.splits if_splits)
  also have "\<dots> \<longleftrightarrow> (\<exists>p t. s = p @ t \<and> token p)"
  proof
    assume "\<exists>c u. s = CHR ''g'' # CHR ''h'' # c # CHR ''_'' # u \<and> c \<in> set ''pousr'' \<and> rests (Many 20 alnum) u \<noteq> []"
    then obtain c u where cu: "s = CHR ''g'' # CHR ''h'' # c # CHR ''_'' # u" "c \<in> set ''pousr''" "rests (Many 20 alnum) u \<noteq> []" by blast
    from cu(3) obtain as t where as: "u = as @ t" "length as = 20" "list_all alnum as" unfolding many_nonempty by blast
    with cu have "token (CHR ''g'' # CHR ''h'' # c # CHR ''_'' # as)" unfolding token_def by blast
    with cu(1) as(1) show "\<exists>p t. s = p @ t \<and> token p" by (metis append_Cons)
  next
    assume "\<exists>p t. s = p @ t \<and> token p"
    then obtain c as t where "s = CHR ''g'' # CHR ''h'' # c # CHR ''_'' # (as @ t)" "c \<in> set ''pousr''" "length as = 20" "list_all alnum as"
      unfolding token_def by auto
    moreover from this have "rests (Many 20 alnum) (as @ t) \<noteq> []" unfolding many_nonempty by blast
    ultimately show "\<exists>c u. s = CHR ''g'' # CHR ''h'' # c # CHR ''_'' # u \<and> c \<in> set ''pousr'' \<and> rests (Many 20 alnum) u \<noteq> []" by blast
  qed
  finally show ?thesis .
qed

text \<open>A part of a text that lacks a character lies on one side of it.\<close>

lemma one_side:
  assumes "c \<notin> set p" "p \<noteq> []" "x @ c # z = a @ p @ b"
  shows "(\<exists>b'. x = a @ p @ b') \<or> (\<exists>a'. z = a' @ p @ b)"
proof -
  from assms(3) consider us where "x = a @ us" "us @ c # z = p @ b" | us where "x @ us = a" "c # z = us @ p @ b"
    by (auto simp: append_eq_append_conv2)
  then show ?thesis
  proof cases
    case 1
    from 1(2) consider vs where "us = p @ vs" | vs where "us @ vs = p" "c # z = vs @ b" by (auto simp: append_eq_append_conv2)
    then show ?thesis using 1(1) assms(1) by cases (auto simp: Cons_eq_append_conv)
  next
    case 2
    then show ?thesis using assms(1,2) by (auto simp: Cons_eq_append_conv)
  qed
qed

lemma placeholder_side:
  assumes "token p" "x @ redactionPlaceholder @ y = a @ p @ b"
  shows "(\<exists>b'. x = a @ p @ b') \<or> (\<exists>a'. y = a' @ p @ b)"
proof -
  have p: "CHR ''<'' \<notin> set p" "CHR ''>'' \<notin> set p" "p \<noteq> []" "length p = 24" using token_chars [OF assms(1)] by auto
  have "x @ CHR ''<'' # (''redacted'' @ CHR ''>'' # y) = a @ p @ b" using assms(2) by (simp add: redactionPlaceholder_def)
  from one_side [OF p(1,3) this] show ?thesis
  proof
    assume "\<exists>a'. ''redacted'' @ CHR ''>'' # y = a' @ p @ b"
    then obtain a' where "''redacted'' @ CHR ''>'' # y = a' @ p @ b" by blast
    from one_side [OF p(2,3) this] show ?thesis
    proof
      assume "\<exists>b'. ''redacted'' = a' @ p @ b'"
      then have "length ''redacted'' \<ge> length p" by (metis le_add1 le_add2 length_append order_trans)
      with p(4) show ?thesis by simp
    qed blast
  qed blast
qed

text \<open>The two ways a text goes on, and induction along them.\<close>

definition redacts :: "rule \<Rightarrow> string \<Rightarrow> string \<Rightarrow> string \<Rightarrow> bool" where
  "redacts r s kept u \<longleftrightarrow> matchAt r s = Some (kept, u) \<and> length u < length s"

lemma replaceAll_redacts:
  "redacts r s kept u \<Longrightarrow> replaceAll r s = kept @ redactionPlaceholder @ ru_end r @ replaceAll r u"
  by (cases s) (auto simp: redacts_def replaceAll.simps)

lemma replaceAll_skips: "(\<And>kept u. \<not> redacts r (c # s) kept u) \<Longrightarrow> replaceAll r (c # s) = c # replaceAll r s"
  by (auto simp: redacts_def replaceAll.simps less_Suc_eq_le split: option.splits)

lemma replaceAll_rule [consumes 0, case_names Nil redact skip]:
  assumes "P []" "\<And>s kept u. redacts r s kept u \<Longrightarrow> P u \<Longrightarrow> P s"
    "\<And>c s. (\<And>kept u. \<not> redacts r (c # s) kept u) \<Longrightarrow> P s \<Longrightarrow> P (c # s)"
  shows "P s"
proof (induction s rule: length_induct)
  case (1 s)
  show ?case
  proof (cases "\<exists>kept u. redacts r s kept u")
    case True
    then obtain kept u where "redacts r s kept u" by blast
    with assms(2) 1 show ?thesis by (auto simp: redacts_def)
  next
    case False
    with assms(1,3) 1 show ?thesis by (cases s) auto
  qed
qed

lemma redacts_parts: "redacts r s kept u \<Longrightarrow> \<exists>m. s = kept @ m @ u"
  using matchAt_parts by (fastforce simp: redacts_def)

text \<open>Up to the first placeholder the result is the text itself.\<close>

lemma replaceAll_start: "replaceAll r s = q @ v \<Longrightarrow> CHR ''<'' \<notin> set q \<Longrightarrow> \<exists>v'. s = q @ v'"
proof (induction s arbitrary: q v rule: replaceAll_rule [where r = r])
  case Nil
  then show ?case by (simp add: replaceAll.simps)
next
  case (redact s kept u)
  let ?z = "''redacted>'' @ ru_end r @ replaceAll r u"
  from redact(1,3) have "kept @ CHR ''<'' # ?z = q @ v" by (simp add: replaceAll_redacts redactionPlaceholder_def)
  then consider us where "kept = q @ us" | us where "q = kept @ us" "CHR ''<'' # ?z = us @ v" by (auto simp: append_eq_append_conv2)
  then show ?case using redacts_parts [OF redact(1)] redact(4) by cases (auto simp: Cons_eq_append_conv)
next
  case (skip c s)
  then show ?case by (cases q) (auto simp: replaceAll_skips)
qed

text \<open>A rule whose end is empty or an at sign puts no token together.\<close>

lemma end_side: "token p \<Longrightarrow> ru_end r \<in> {'''', ''@''} \<Longrightarrow> ru_end r @ y = a @ p @ b \<Longrightarrow> \<exists>a'. y = a' @ p @ b"
  using one_side [of "CHR ''@''" p "[]" y a b] token_chars [of p] by auto

lemma token_redact:
  assumes "redacts r s kept u" "ru_end r \<in> {'''', ''@''}" "token_free kept" "token_free (replaceAll r u)"
  shows "token_free (replaceAll r s)"
proof (unfold token_free_def, intro allI impI notI)
  fix a p b assume eq: "replaceAll r s = a @ p @ b" and p: "token p"
  from eq replaceAll_redacts [OF assms(1)] have "kept @ redactionPlaceholder @ (ru_end r @ replaceAll r u) = a @ p @ b" by simp
  from placeholder_side [OF p this] consider b' where "kept = a @ p @ b'" | a' where "replaceAll r u = a' @ p @ b"
    using end_side [OF p assms(2)] by blast
  then show False
  proof cases
    case 1
    with token_freeD [OF assms(3)] p show ?thesis by blast
  next
    case 2
    with token_freeD [OF assms(4)] p show ?thesis by blast
  qed
qed

lemma token_skip:
  assumes "\<And>kept u. \<not> redacts r (c # s) kept u" "token_free (replaceAll r s)" "\<And>p v. c # s = p @ v \<Longrightarrow> \<not> token p"
  shows "token_free (replaceAll r (c # s))"
proof (unfold token_free_def, intro allI impI notI)
  fix a p b assume eq: "replaceAll r (c # s) = a @ p @ b" and p: "token p"
  from eq have split: "c # replaceAll r s = a @ p @ b" using replaceAll_skips [OF assms(1)] by simp
  show False
  proof (cases a)
    case Nil
    then obtain q where q: "p = c # q" "replaceAll r s = q @ b" using split token_chars [OF p] by (cases p) auto
    from replaceAll_start [OF q(2)] q(1) token_chars [OF p] obtain v where "s = q @ v" by auto
    with assms(3) [of p v] q(1) p show ?thesis by simp
  next
    case (Cons d a')
    with split assms(2) p show ?thesis unfolding token_free_def by auto
  qed
qed

lemma token_free_parts: "token_free (x @ y) \<Longrightarrow> token_free x \<and> token_free y"
  unfolding token_free_def by (metis append.assoc)

lemma token_free_Nil: "token_free []"
  by (auto simp: token_free_def token_def)

lemma replaceAll_keeps_token_free: "ru_end r \<in> {'''', ''@''} \<Longrightarrow> token_free s \<Longrightarrow> token_free (replaceAll r s)"
proof (induction s rule: replaceAll_rule [where r = r])
  case Nil
  then show ?case by (simp add: replaceAll.simps token_free_Nil)
next
  case (redact s kept u)
  from redacts_parts [OF redact(1)] obtain m where "s = kept @ m @ u" by blast
  with redact(4) token_free_parts [of kept "m @ u"] token_free_parts [of m u] have parts: "token_free kept" "token_free u" by simp_all
  show ?case by (rule token_redact [OF redact(1) redact(3) parts(1)]) (rule redact(2) [OF redact(3) parts(2)])
next
  case (skip c s)
  from skip(4) have "token_free s" using token_free_parts [of "[c]" s] by simp
  with skip have rest: "token_free (replaceAll r s)" by simp
  have "\<not> token p" if "c # s = p @ v" for p v
    using token_freeD [OF skip(4), of "[]"] that by simp
  with skip(1) rest show ?case by (rule token_skip)
qed

lemma github_rule_removes: "token_free (replaceAll logRedactGitHub s)"
proof (induction s rule: replaceAll_rule [where r = logRedactGitHub])
  case Nil
  then show ?case by (simp add: replaceAll.simps token_free_Nil)
next
  case (redact s kept u)
  have rule: "ru_keep logRedactGitHub = Eps" "ru_end logRedactGitHub = ''''" by (simp_all add: logRedactGitHub_def)
  from redact(1) have "matchAt logRedactGitHub s = Some (kept, u)" by (simp add: redacts_def)
  from matchAt_parts [OF this] obtain t where "s = kept @ t" "t \<in> set (rests Eps s)" unfolding rule(1) by blast
  then have "kept = []" by simp
  then have "token_free kept" by (simp add: token_free_Nil)
  from token_redact [OF redact(1) _ this redact(2)] show ?case by (simp add: rule(2))
next
  case (skip c s)
  have "matchAt logRedactGitHub (c # s) = None"
  proof (rule ccontr)
    assume "matchAt logRedactGitHub (c # s) \<noteq> None"
    then obtain kept u where m: "matchAt logRedactGitHub (c # s) = Some (kept, u)" by auto
    have "logRedactGitHub \<in> set redactionRules" by (simp add: redactionRules_def)
    from matchAt_progress [OF this m] m have "redacts logRedactGitHub (c # s) kept u" by (simp add: redacts_def)
    with skip(1) show False by blast
  qed
  then have "rests githubToken (c # s) = []" by (simp add: matchAt_None logRedactGitHub_def)
  with token_matches [of "c # s"] have none: "\<not> token p" if "c # s = p @ v" for p v using that by blast
  show ?case by (rule token_skip [OF skip(1) skip(2) none])
qed

text \<open>A text in which no rule matches at any position is returned as it is.\<close>

lemma replaceAll_unmatched: "(\<And>a b. s = a @ b \<Longrightarrow> matchAt r b = None) \<Longrightarrow> replaceAll r s = s"
proof (induction s)
  case (Cons c s)
  from Cons.prems [of "[]"] have "matchAt r (c # s) = None" by simp
  moreover have "replaceAll r s = s" using Cons.prems by (intro Cons.IH) (metis append_Cons)
  ultimately show ?case by (simp add: replaceAll.simps)
qed (simp add: replaceAll.simps)

lemma redactLog_unmatched:
  assumes "list_all is_ascii text" "\<And>r a b. r \<in> set redactionRules \<Longrightarrow> text = a @ b \<Longrightarrow> matchAt r b = None"
  shows "redactLog beyond text = text"
proof -
  have "replaceAll r text = text" if "r \<in> set redactionRules" for r
    using assms(2) [OF that] by (rule replaceAll_unmatched)
  then show ?thesis using assms(1) by (simp add: redactLog_def redactionRules_def)
qed

text \<open>
  C24: No GitHub token survives the redaction. For every ASCII text, the redacted text contains no run of \<open>ghp_\<close>,
  \<open>gho_\<close>, \<open>ghu_\<close>, \<open>ghs_\<close> or \<open>ghr_\<close> followed by twenty alphanumerics, at no position: neither one of the text nor one that
  the later rules put together from what they leave.
\<close>

theorem no_github_token_survives:
  assumes "list_all is_ascii text" and "redactLog beyond text = a @ p @ b"
  shows "\<not> token p"
proof -
  have "token_free (redactLog beyond text)"
    using assms(1) unfolding redactLog_def
    by (simp only: if_True)
      (intro replaceAll_keeps_token_free github_rule_removes; simp add: logRedactAssign_def logRedactBearer_def logRedactURL_def)
  from token_freeD [OF this assms(2)] show ?thesis .
qed

definition leakyTail :: string where "leakyTail = ''x ghp_abcdefghij0123456789 y''"

lemma leakyTail_redacted: "redactLog (\<lambda>t. t) leakyTail = ''x <redacted> y''"
  by code_simp

theorem no_github_token_survives_witness:
  "list_all is_ascii leakyTail \<and> redactLog (\<lambda>t. t) leakyTail = [] @ ''x <redacted> y'' @ [] \<and> \<not> token ''x <redacted> y''"
proof -
  have ascii: "list_all is_ascii leakyTail" by code_simp
  have out: "redactLog (\<lambda>t. t) leakyTail = [] @ ''x <redacted> y'' @ []" by (simp only: leakyTail_redacted append_Nil append_Nil2)
  from no_github_token_survives [OF ascii out] ascii out show ?thesis by blast
qed

end
