(* ===== verification/Spec2Isabelle.thy ===== *)
theory Spec2Isabelle
  imports Fleet_Instance Stores Vault_Client Dispatch_Theorems Zombie_Sweeper Spawner_Theorems Service_Reconciler
    Loops Metrics Log_Redactor
begin

text \<open>
  \<^bold>\<open>agent-task-executor: a verification library\<close>

  The executor (a Go program) consumes task events from Kafka, decides which tasks need a Kubernetes Job, takes a claim
  on the task so that no other executor works on it, spawns the Job, renews the lease of the claim while the Job runs and
  releases the claim afterwards. Several executors share one vault; claims, redrive streaks and success records are
  refs of a git server, reached over HTTP.

  \<^bold>\<open>Parts and how they interact\<close>

  The Kafka consumer and the reconcile pass of the handler feed one funnel of gates (vault, cluster, stage, phase, active
  Job, recent success, redrive cap, trigger budget, concurrency cap, claim), at the end of which a Job is spawned. The
  handler owns the lease manager, whose loop renews and fences claims; the Job watcher and the zombie sweeper see Jobs
  end or hang and report through the result publisher, which sends commands to the task controller; a terminal Job
  releases its claim through the handler. The service reconciler keeps one StatefulSet per service configuration. All
  of them read the configurations of agents from one provider. Each part is modelled by its own state record; the
  outside (HTTP, Kubernetes, Kafka, clocks) is a world \<open>'w\<close> on which the collaborators are functions in the state
  monad, so the theorems hold for every behaviour of the outside that is not excluded by a named hypothesis.

  \<^bold>\<open>Theories, and the files under \<^verbatim>\<open>src/\<close> they follow\<close>

  \<^item> \<^verbatim>\<open>Go_Prelude\<close>, \<^verbatim>\<open>Go_Error\<close>, \<^verbatim>\<open>Json_Model\<close>: strings, 64-bit integers, instants, maps, the state monad with its weakest
    preconditions; errors with their wrapping; \<^verbatim>\<open>json.Unmarshal\<close>.
  \<^item> Claims: \<^verbatim>\<open>Claim_Key\<close> (\<^verbatim>\<open>pkg/claim/key.go\<close>: targets, keys, parsing and rendering), \<^verbatim>\<open>Ref_Store\<close> (the interface of
    \<^verbatim>\<open>pkg/claim/ref_client.go\<close>, its contract as the locale \<open>ref_store\<close>, and an in-memory ref map that satisfies it),
    \<^verbatim>\<open>Ref_Client\<close> (the HTTP client of the same file in front of the git-rest server of the tests), \<^verbatim>\<open>Vault_Client\<close>
    (\<^verbatim>\<open>vault_api_client.go\<close>), \<^verbatim>\<open>Index_Client\<close> (\<^verbatim>\<open>vault_api_index_client.go\<close> and the gateway secrets), \<^verbatim>\<open>Lease_Format\<close> (the
    lease instant), \<^verbatim>\<open>Lease_Manager\<close> (\<^verbatim>\<open>lease_manager.go\<close>, \<^verbatim>\<open>audit.go\<close>, \<^verbatim>\<open>recover_startup.go\<close>) and \<^verbatim>\<open>Lease_Tick\<close>
    (\<^verbatim>\<open>lease_manager_tick.go\<close>): the held claims of one executor and every operation on them; \<^verbatim>\<open>Claim_Service\<close>
    (\<^verbatim>\<open>claimtest/client.go\<close>), \<^verbatim>\<open>Fleet\<close> and \<^verbatim>\<open>Fleet_Instance\<close>: several executors over one claim service, as a step relation.
  \<^item> Stores: \<^verbatim>\<open>Redrive_Store\<close> (\<^verbatim>\<open>redrive_refs.go\<close>, \<^verbatim>\<open>redrive_streak_store.go\<close>, \<^verbatim>\<open>redrive_reason_store.go\<close>),
    \<^verbatim>\<open>Success_Store\<close> (\<^verbatim>\<open>success_store.go\<close>, \<^verbatim>\<open>success_grace.go\<close>), \<^verbatim>\<open>Claim_Scheme\<close> (\<^verbatim>\<open>scheme.go\<close>), and \<^verbatim>\<open>Stores\<close>, which states
    their properties.
  \<^item> Tasks and configurations: \<^verbatim>\<open>Task_Model\<close> (\<^verbatim>\<open>task_store.go\<close>, \<^verbatim>\<open>task_view.go\<close>, \<^verbatim>\<open>vault_matcher.go\<close>), \<^verbatim>\<open>Agent_Config\<close>
    (the custom resource, its validation, the resolver), \<^verbatim>\<open>Config_Schema\<close> (\<^verbatim>\<open>k8s_connector.go\<close>: the schema and its
    installation).
  \<^item> The handler (\<^verbatim>\<open>pkg/handler/\<close>): \<^verbatim>\<open>Handler_Base\<close> (state, caches, collaborators), \<^verbatim>\<open>Handler_Spawn\<close> (the gates and the
    funnel), \<^verbatim>\<open>Handler_Passes\<close> (consumer, reconcile pass, deferred respawns), \<^verbatim>\<open>Handler_Frames\<close> (what each step leaves
    alone), \<^verbatim>\<open>Dispatch\<close>, \<^verbatim>\<open>Dispatch_Instance\<close> and \<^verbatim>\<open>Dispatch_Theorems\<close> (its properties).
  \<^item> Jobs: \<^verbatim>\<open>Kube_Model\<close> (Jobs and Pods), \<^verbatim>\<open>Job_Spawner\<close> and \<^verbatim>\<open>Job_Control\<close> (\<^verbatim>\<open>job_spawner.go\<close>, \<^verbatim>\<open>claim_job_control.go\<close>,
    \<^verbatim>\<open>pod_quota_limiter.go\<close>, \<^verbatim>\<open>dead_letter_publisher.go\<close>), \<^verbatim>\<open>Spawner_Theorems\<close>; \<^verbatim>\<open>Job_Watcher\<close> and \<^verbatim>\<open>Watcher_Theorems\<close>
    (\<^verbatim>\<open>job_watcher.go\<close>); \<^verbatim>\<open>Zombie_Reason\<close> and \<^verbatim>\<open>Zombie_Sweeper\<close>; \<^verbatim>\<open>Result_Publisher\<close> and \<^verbatim>\<open>Publisher_Theorems\<close>
    (\<^verbatim>\<open>result_publisher.go\<close>); \<^verbatim>\<open>Service_Reconciler\<close> (\<^verbatim>\<open>service_reconciler.go\<close>, \<^verbatim>\<open>service_reconcile_loop.go\<close>).
  \<^item> The process: \<^verbatim>\<open>Endpoints\<close> (\<^verbatim>\<open>probe.go\<close>, \<^verbatim>\<open>agents_handler.go\<close>, \<^verbatim>\<open>pod_log_reader.go\<close>), \<^verbatim>\<open>Wiring\<close>
    (\<^verbatim>\<open>factory.go\<close>, the options and the constructor of the handler with its lease manager), \<^verbatim>\<open>Startup\<close> (\<^verbatim>\<open>main.go\<close>,
    \<^verbatim>\<open>memlimit.go\<close>: the start, the wired handler and the list of run functions), \<^verbatim>\<open>Loops\<close> (the functions that run for the
    life of the process), \<^verbatim>\<open>Metrics\<close> (\<^verbatim>\<open>metrics.go\<close>), \<^verbatim>\<open>Log_Redactor\<close> (\<^verbatim>\<open>log_redactor.go\<close>).

  \<^bold>\<open>Interfaces\<close>

  A contract between components is a locale, interpreted on the definitions of the component that provides it:
  \<open>ref_store\<close> (the ref client) on the in-memory ref map, which \<^verbatim>\<open>Ref_Client\<close> shows equal to the HTTP client in front of the
  test server; \<open>shared_ref_store\<close> (the same client with other executors writing between its calls, none of whom replaces a
  declared scheme), a weaker contract that every \<open>ref_store\<close> meets, on an in-memory ref map with a script of foreign writes; \<open>fleet\<close> (the claim service) on the in-process service; \<open>dispatch_world\<close> on the concrete dispatcher;
  \<open>publisher_log\<close>, \<open>watched_cluster\<close>, \<open>statefulset_api\<close>, \<open>crd_api\<close> and \<open>probe_log\<close> on the models of what their components call.

  \<^bold>\<open>What is shown\<close>

  \<^item> Claims: mutual exclusion over all interleavings of the operations of a fleet; fencing before takeover; atomic pairs;
    what a lost, released or recovered claim leaves; keys as an injective and reversible image of the subject of a task.
  \<^item> Stores: the effect of a write on later reads, for a ref server that no other writer changes during an operation. The
    scheme guard is shown also with other writers between its calls, so that it can lose the race to declare the scheme.
  \<^item> Dispatch: no Job without its gates and its claim, no Job for evicted work, agreement of the two entry paths, the caps.
  \<^item> Jobs: exactly the Jobs of a task are found, counted and deleted; terminal and stuck Jobs are reported once and stale
    events do no harm; publications send exactly the writes of their operation.
  \<^item> Process: a started executor is wired to its vault, cluster and claim transport; a run function ends only with the
    error of the failure that ended it; the installed schema prunes no member of a configuration; every claim result
    counted was registered; no GitHub token survives the redaction of logs.

  \<^bold>\<open>Bounds and fuel\<close>

  Integers are \<open>int\<close> with the 64-bit wrap-around written out where the code computes with durations and epochs. Loops over
  data are structural recursions. A loop that runs until its context ends is a function of the sequence of signals it
  receives (\<open>select_loop\<close>), or of a number of rounds (\<open>lease_Run\<close>), and the theorems hold for every sequence and number; the
  outcome \<open>StillRunning\<close> at its end is a result of its own. The retries of a conflicting update are the parameter
  \<open>ci_Retries\<close> of the library. A panic is an outcome of its own where the code can panic.

  \<^bold>\<open>Not modelled, and why\<close>

  \<^item> Locks and goroutines inside one process: an operation runs to its end before the next one starts, as the mutexes of
    the code have it; executors interleave with each other by operations.
  \<^item> Log lines, request ids, and the texts of errors beyond what the code compares.
  \<^item> Libraries: Kafka clients, Kubernetes informers (\<^verbatim>\<open>Listen\<close>), builders and listers, the HTTP server and client, Prometheus,
    flag parsing and \<^verbatim>\<open>service.Run\<close>; they are parameters, with hypotheses where the code relies on them. So are Unicode beyond
    ASCII, floating-point products and the syntax of JSON, YAML, URLs and dates.
  \<^item> The generated Kubernetes client, deep copies and constructors that only store their arguments.
\<close>

section \<open>One executor per claim\<close>

definition after_op :: "string \<Rightarrow> lease_op \<Rightarrow> fleetWorld fleet_state \<Rightarrow> fleetWorld fleet_state" where
  "after_op e oper s =
     (let m = snd (run_state (run_op (simEnv e) oper)
                     \<lparr>lm_held = fs_held s e, lm_counts = [], lm_world = fs_world s\<rparr>)
      in \<lparr>fs_held = (fs_held s)(e := lm_held m), fs_world = lm_world m\<rparr>)"

definition emptyWorld :: fleetWorld where
  "emptyWorld = \<lparr>fw_git = \<lparr>refs = [], shaSeq = 0\<rparr>, fw_clock = hour, fw_jobs = []\<rparr>"

text \<open>Two executors ask for the claim of one task, one after the other.\<close>

definition contested :: "fleetWorld fleet_state" where
  "contested =
     after_op ''b'' (DoClaim ''claims/task/t1'' ''t1'')
       (after_op ''a'' (DoClaim ''claims/task/t1'' ''t1'') (fleet_start emptyWorld))"

lemma after_op_step: "fleet_step simEnv simView s (after_op e oper s)"
  unfolding after_op_def Let_def by (rule fleet_step.operation [where oper = oper]) (simp add: prod_eq_iff)

lemma contested_reachable: "fleet_reachable simEnv simView emptyWorld contested"
  unfolding fleet_reachable_def contested_def
  by (meson after_op_step rtranclp.rtrancl_into_rtrancl rtranclp.rtrancl_refl)

lemma live_hold_sim:
  "live_hold simView s e k =
     (case map_of (fs_held s e) k of None \<Rightarrow> False
      | Some h \<Rightarrow> \<not> hc_releasePending h \<and> hc_leaseUntil h > fw_clock (fs_world s) + second)"
  by (simp add: live_hold_def simView_def split: option.split)

text \<open>
  C1: mutual exclusion. Executors that share a claim service which keeps its contract never hold a
  live claim on the same key at the same time, whatever they claim, take over, release and renew, in
  whatever order, and however often they restart.
\<close>

theorem mutual_exclusion:
  assumes "fleet cc V env" and "sv_ok V w" and "fleet_reachable env V w s"
    and "live_hold V s e1 k" and "live_hold V s e2 k"
  shows "e1 = e2"
  using fleet.one_holder [OF assms(1,3,2,4,5)] .

theorem mutual_exclusion_witness:
  "fleet_reachable simEnv simView emptyWorld contested \<and>
   live_hold simView contested ''a'' ''claims/task/t1'' \<and>
   \<not> live_hold simView contested ''b'' ''claims/task/t1''"
proof -
  have a: "live_hold simView contested ''a'' ''claims/task/t1''"
    unfolding live_hold_sim by code_simp
  have ok: "sv_ok simView emptyWorld"
    by (simp add: simView_def simOk_def emptyWorld_def gomap_wf_def hour_def minute_def second_def)
  show ?thesis
    using mutual_exclusion [OF sim.fleet_axioms ok contested_reachable a, of "''b''"] a contested_reachable
    by auto
qed

section \<open>A pass of the lease loop against a takeover\<close>

text \<open>
  C2: a Job stops before its claim can be taken. After a pass of the lease loop that started at some
  instant and returned without error, a claim that is still held, and whose Job is not already marked
  for deletion, has a lease no executor may take over until the fence lead, the fence margin and the
  takeover grace (100 seconds) have passed since that instant, ten times the interval between passes.
\<close>

theorem tick_fences_before_takeover:
  assumes "lease_clock env time_of" and "gomap_wf (lm_held m)"
    and "run_state (Tick env) m = (None, m')"
    and "map_of (lm_held m') k = Some h" and "\<not> hc_pendingJobDeletion h"
    and "takeoverAllowed t (hc_leaseUntil h)"
  shows "time_of (lm_world m) + 10 * TickInterval \<le> t"
proof -
  have "fenced (time_of (lm_world m)) (lm_held m')"
    using wpD [OF lease_clock.Tick_guarded [OF assms(1), OF assms(2)] assms(3)]
    by (simp add: lease_clock.guarded_def [OF assms(1)])
  with assms(4-6) show ?thesis
    by (fastforce simp: fenced_def fence_ok_def fenceDue_def fenceAt_def takeoverAllowed_def FenceLead_def
        FenceMargin_def TakeoverGrace_def TickInterval_def)
qed

definition contestedManager :: "fleetWorld leaseManager" where
  "contestedManager = \<lparr>lm_held = fs_held contested ''a'', lm_counts = [], lm_world = fs_world contested\<rparr>"

theorem tick_fences_before_takeover_witness:
  "\<exists>h. map_of (lm_held (snd (run_state (Tick (simEnv ''a'')) contestedManager))) ''claims/task/t1'' = Some h \<and>
     \<not> takeoverAllowed (hour + 99 * second) (hc_leaseUntil h)"
proof -
  let ?m' = "snd (run_state (Tick (simEnv ''a'')) contestedManager)"
  have "fst (run_state (Tick (simEnv ''a'')) contestedManager) = None" by code_simp
  then have run: "run_state (Tick (simEnv ''a'')) contestedManager = (None, ?m')" by (simp add: prod_eq_iff)
  have wf: "gomap_wf (lm_held contestedManager)" unfolding gomap_wf_def by code_simp
  have "(case map_of (lm_held ?m') ''claims/task/t1'' of None \<Rightarrow> False | Some h \<Rightarrow> \<not> hc_pendingJobDeletion h)"
    by code_simp
  then obtain h where h: "map_of (lm_held ?m') ''claims/task/t1'' = Some h" "\<not> hc_pendingJobDeletion h"
    by (auto split: option.splits)
  have "fw_clock (lm_world contestedManager) = hour" by code_simp
  then show ?thesis
    using tick_fences_before_takeover [OF simclock.lease_clock_axioms wf run h, of "hour + 99 * second"] h(1)
    by (auto simp: TickInterval_def second_def)
qed

end
